(* ===== verification/Prelude.thy ===== *)
theory Prelude
  imports Main "HOL-Library.AList" "HOL-Library.Char_ord" "HOL-Library.List_Lexorder" "HOL-Library.Multiset"
    "HOL-Library.Sublist" "HOL-Library.Word"
begin

text \<open>
  What every component of the development shares: Go maps as association lists, and the functions
  of Go's \<open>strings\<close>, \<open>strconv\<close> and
  \<open>fmt\<close> packages that the integration calls, on byte strings.

  A Go map is a list of key-value pairs with distinct keys. The order of the list is the order in
  which a \<open>range\<close> statement visits the map, which Go leaves open; theorems quantify over the
  lists, so they hold for every order, and the lemmas that end in \<open>_perm\<close> say where the result does
  not depend on it.
\<close>

named_theorems gomap_simps \<open>lookups and domains of updated Go maps\<close>
named_theorems gostr_simps \<open>equations of the string functions\<close>

section \<open>Go maps\<close>

type_synonym ('k, 'v) gomap = "('k \<times> 'v) list"

abbreviation mget :: "('k, 'v) gomap \<Rightarrow> 'k \<Rightarrow> 'v option" where
  "mget m k \<equiv> map_of m k"

abbreviation mput :: "'k \<Rightarrow> 'v \<Rightarrow> ('k, 'v) gomap \<Rightarrow> ('k, 'v) gomap" where
  "mput k v m \<equiv> AList.update k v m"

abbreviation mdel :: "'k \<Rightarrow> ('k, 'v) gomap \<Rightarrow> ('k, 'v) gomap" where
  "mdel k m \<equiv> AList.delete k m"

definition mhas :: "('k, 'v) gomap \<Rightarrow> 'k \<Rightarrow> bool" where
  "mhas m k = (mget m k \<noteq> None)"

text \<open>\<open>m[k]\<close> without the second result: the zero value when the key is missing.\<close>

definition mget0 :: "'v \<Rightarrow> ('k, 'v) gomap \<Rightarrow> 'k \<Rightarrow> 'v" where
  "mget0 z m k = (case mget m k of None \<Rightarrow> z | Some v \<Rightarrow> v)"

text \<open>A map value: distinct keys.\<close>

definition wfmap :: "('k, 'v) gomap \<Rightarrow> bool" where
  "wfmap m = distinct (map fst m)"

text \<open>Two maps with the same entries, visited in possibly different orders.\<close>

definition mequiv :: "('k, 'v) gomap \<Rightarrow> ('k, 'v) gomap \<Rightarrow> bool" where
  "mequiv m n = (map_of m = map_of n)"

lemma mget_mput [simp, gomap_simps]: "mget (mput k v m) j = (if j = k then Some v else mget m j)"
  by (simp add: update_conv')

lemma mget_mdel [simp, gomap_simps]: "mget (mdel k m) j = (if j = k then None else mget m j)"
  by (simp add: delete_conv')

lemma mget0_mput [simp, gomap_simps]: "mget0 z (mput k v m) j = (if j = k then v else mget0 z m j)"
  by (simp add: mget0_def)

lemma mhas_mput [simp, gomap_simps]: "mhas (mput k v m) j = (j = k \<or> mhas m j)"
  by (simp add: mhas_def)

lemma mhas_iff: "mhas m k = (k \<in> fst ` set m)"
  by (auto simp: mhas_def map_of_eq_None_iff)

lemma mget_Nil_eq [gomap_simps]: "mget [] k = None"
  by simp

lemma mget0_Nil [simp, gomap_simps]: "mget0 z [] k = z"
  by (simp add: mget0_def)

lemma wfmap_Nil [simp]: "wfmap []"
  by (simp add: wfmap_def)

lemma wfmap_mput [simp]: "wfmap m \<Longrightarrow> wfmap (mput k v m)"
  unfolding wfmap_def by (rule distinct_update)

lemma wfmap_mdel [simp]: "wfmap m \<Longrightarrow> wfmap (mdel k m)"
  unfolding wfmap_def by (rule distinct_delete)

lemma wfmap_Cons: "wfmap ((k, v) # m) \<longleftrightarrow> mget m k = None \<and> wfmap m"
  by (auto simp: wfmap_def map_of_eq_None_iff)

lemma wfmap_perm: "mset m = mset n \<Longrightarrow> wfmap m = wfmap n"
  unfolding wfmap_def by (metis mset_eq_imp_distinct_iff mset_map)

lemma mequiv_perm:
  assumes "wfmap m" "mset m = mset n" shows "mequiv m n"
proof -
  have "wfmap n" using assms wfmap_perm by blast
  moreover have "set m = set n" using assms(2) by (rule mset_eq_setD)
  ultimately show ?thesis
    using assms(1) unfolding mequiv_def wfmap_def by (metis map_of_inject_set)
qed

lemma mget_SomeD: "mget m k = Some v \<Longrightarrow> (k, v) \<in> set m"
  by (rule map_of_SomeD)

lemma mget_of_set: "wfmap m \<Longrightarrow> (k, v) \<in> set m \<Longrightarrow> mget m k = Some v"
  by (simp add: wfmap_def)

lemma mput_fresh: "mget m k = None \<Longrightarrow> mput k v m = m @ [(k, v)]"
  by (induction m) auto

lemma set_mput_fresh: "mget m k = None \<Longrightarrow> set (mput k v m) = insert (k, v) (set m)"
  by (simp add: mput_fresh)

text \<open>A loop that copies the entries that satisfy a test into a new map.\<close>

lemma foldl_mput_filter_aux:
  "distinct (map fst (acc @ m)) \<Longrightarrow>
   foldl (\<lambda>a (k, v). if P k v then mput k v a else a) acc m = acc @ filter (\<lambda>(k, v). P k v) m"
proof (induction m arbitrary: acc)
  case (Cons x m)
  obtain k v where x: "x = (k, v)" by force
  then have "mget acc k = None" using Cons.prems by (auto simp: map_of_eq_None_iff)
  then show ?case using Cons x by (auto simp: mput_fresh)
qed simp

lemma foldl_mput_filter:
  "wfmap m \<Longrightarrow> foldl (\<lambda>a (k, v). if P k v then mput k v a else a) [] m = filter (\<lambda>(k, v). P k v) m"
  using foldl_mput_filter_aux[of "[]" m P] by (simp add: wfmap_def)

lemma foldl_mput_copy: "wfmap m \<Longrightarrow> foldl (\<lambda>a (k, v). mput k v a) [] m = m"
  using foldl_mput_filter[of m "\<lambda>_ _. True"] by simp

text \<open>A loop that renames the keys without collisions.\<close>

lemma foldl_mput_map_aux:
  "distinct (map fst acc @ map (\<lambda>(k, v). f k) m) \<Longrightarrow>
   foldl (\<lambda>a (k, v). mput (f k) (g v) a) acc m = acc @ map (\<lambda>(k, v). (f k, g v)) m"
proof (induction m arbitrary: acc)
  case (Cons x m)
  obtain k v where x: "x = (k, v)" by force
  then have "mget acc (f k) = None" using Cons.prems by (auto simp: map_of_eq_None_iff)
  then show ?case using Cons x by (auto simp: mput_fresh)
qed simp

lemma foldl_mput_map:
  "distinct (map (\<lambda>(k, v). f k) m) \<Longrightarrow>
   foldl (\<lambda>a (k, v). mput (f k) (g v) a) [] m = map (\<lambda>(k, v). (f k, g v)) m"
  using foldl_mput_map_aux[of "[]" f m g] by simp

lemma distinct_keys_inj: "wfmap m \<Longrightarrow> inj f \<Longrightarrow> distinct (map (\<lambda>(k, v). f k) m)"
proof -
  assume "wfmap m" "inj f"
  then have "distinct (map f (map fst m))"
    unfolding wfmap_def by (subst distinct_map) (auto intro: inj_on_subset[of f UNIV])
  moreover have "map (\<lambda>(k, v). f k) m = map f (map fst m)" by auto
  ultimately show ?thesis by (simp only:)
qed

lemma wfmap_filter: "wfmap m \<Longrightarrow> wfmap (filter P m)"
  unfolding wfmap_def by (rule distinct_map_filter)

section \<open>Lists\<close>

lemma sort_perm: "mset xs = mset ys \<Longrightarrow> sort xs = sort ys"
  by (metis mset_sort properties_for_sort sorted_sort)

text \<open>A joined pair is read back when the first part does not contain the separator.\<close>

lemma append_sep_inject:
  "c \<notin> set a \<Longrightarrow> c \<notin> set a' \<Longrightarrow> a @ c # b = a' @ c # b' \<longleftrightarrow> a = a' \<and> b = b'"
proof (induction a arbitrary: a')
  case Nil
  then show ?case by (cases a') auto
next
  case (Cons x a)
  then show ?case by (cases a') auto
qed

lemma length_filter_eq_iff: "length (filter P l) = length l \<longleftrightarrow> (\<forall>x \<in> set l. P x)"
  by (metis filter_True length_filter_less nat_neq_iff)

section \<open>Strings\<close>

text \<open>Go strings are byte strings and so are HOL's. \<open>fmt.Sprintf\<close> of joined pieces is append.\<close>

definition HasPrefix :: "string \<Rightarrow> string \<Rightarrow> bool" where
  "HasPrefix s p = prefix p s"

definition TrimPrefix :: "string \<Rightarrow> string \<Rightarrow> string" where
  "TrimPrefix s p = (if prefix p s then drop (length p) s else s)"

definition TrimSuffix :: "string \<Rightarrow> string \<Rightarrow> string" where
  "TrimSuffix s p = (if suffix p s then take (length s - length p) s else s)"

definition Contains :: "string \<Rightarrow> string \<Rightarrow> bool" where
  "Contains s sub = sublist sub s"

text \<open>\<open>strings.Split\<close> with a separator of one byte.\<close>

fun splitOn :: "char \<Rightarrow> string \<Rightarrow> string list" where
  "splitOn c [] = [[]]"
| "splitOn c (x # xs) =
     (if x = c then [] # splitOn c xs
      else (case splitOn c xs of [] \<Rightarrow> [[x]] | w # ws \<Rightarrow> (x # w) # ws))"

text \<open>\<open>strings.Join\<close>.\<close>

fun joinWith :: "string \<Rightarrow> string list \<Rightarrow> string" where
  "joinWith sep [] = []"
| "joinWith sep [w] = w"
| "joinWith sep (w # v # ws) = w @ sep @ joinWith sep (v # ws)"

lemma splitOn_ne [simp]: "splitOn c s \<noteq> []"
  by (cases s) (auto split: list.splits)

lemma joinWith_Cons: "ws \<noteq> [] \<Longrightarrow> joinWith sep (w # ws) = w @ sep @ joinWith sep ws"
  by (cases ws) auto

lemma joinWith_first: "ws \<noteq> [] \<Longrightarrow> joinWith sep ((x # w) # ws) = x # joinWith sep (w # ws)"
  by (simp add: joinWith_Cons)

text \<open>Joining undoes splitting, and the last part is what follows the last separator.\<close>

lemma joinWith_splitOn: "joinWith [c] (splitOn c s) = s"
proof (induction s)
  case (Cons x s)
  then show ?case by (cases "splitOn c s"; cases "tl (splitOn c s)") (auto simp: joinWith_Cons)
qed simp

lemma splitOn_no_sep: "c \<notin> set s \<Longrightarrow> splitOn c s = [s]"
  by (induction s) auto

lemma splitOn_append_first: "c \<notin> set a \<Longrightarrow> splitOn c (a @ c # s) = a # splitOn c s"
  by (induction a) auto

lemma splitOn_joinWith: "ws \<noteq> [] \<Longrightarrow> \<forall>w \<in> set ws. c \<notin> set w \<Longrightarrow> splitOn c (joinWith [c] ws) = ws"
  by (induction "[c]" ws rule: joinWith.induct) (simp_all add: splitOn_no_sep splitOn_append_first)

lemma splitOn_append_last: "c \<notin> set h \<Longrightarrow> splitOn c (d @ c # h) = splitOn c d @ [h]"
  by (induction d) (auto simp: splitOn_no_sep split: list.splits)

text \<open>The white space of \<open>strings.Fields\<close> and \<open>strings.TrimSpace\<close>, on ASCII bytes.\<close>

definition isSpace :: "char \<Rightarrow> bool" where
  "isSpace c = (of_char c \<in> {9, 10, 11, 12, 13, 32 :: nat})"

definition TrimSpace :: "string \<Rightarrow> string" where
  "TrimSpace s = rev (dropWhile isSpace (rev (dropWhile isSpace s)))"

function Fields :: "string \<Rightarrow> string list" where
  "Fields s =
     (case dropWhile isSpace s of
        [] \<Rightarrow> []
      | x # xs \<Rightarrow> takeWhile (\<lambda>c. \<not> isSpace c) (x # xs) # Fields (dropWhile (\<lambda>c. \<not> isSpace c) (x # xs)))"
  by pat_completeness auto
termination
proof (relation "measure length", simp)
  fix s x xs
  assume a: "dropWhile isSpace s = x # xs"
  then have "\<not> isSpace x" by (simp add: dropWhile_eq_Cons_conv)
  then have "length (dropWhile (\<lambda>c. \<not> isSpace c) (x # xs)) \<le> length xs"
    by (simp add: length_dropWhile_le)
  moreover have "length (x # xs) \<le> length s" using a by (metis length_dropWhile_le)
  ultimately show "(dropWhile (\<lambda>c. \<not> isSpace c) (x # xs), s) \<in> measure length" by simp
qed

declare Fields.simps [simp del]

text \<open>ASCII case conversion and \<open>strings.Title\<close>: a letter after a separator becomes upper case.\<close>

definition isLower :: "char \<Rightarrow> bool" where
  "isLower c = (97 \<le> (of_char c :: nat) \<and> (of_char c :: nat) \<le> 122)"

definition isUpper :: "char \<Rightarrow> bool" where
  "isUpper c = (65 \<le> (of_char c :: nat) \<and> (of_char c :: nat) \<le> 90)"

definition isDigit :: "char \<Rightarrow> bool" where
  "isDigit c = (48 \<le> (of_char c :: nat) \<and> (of_char c :: nat) \<le> 57)"

definition upChar :: "char \<Rightarrow> char" where
  "upChar c = (if isLower c then char_of ((of_char c :: nat) - 32) else c)"

definition lowChar :: "char \<Rightarrow> char" where
  "lowChar c = (if isUpper c then char_of ((of_char c :: nat) + 32) else c)"

definition ToLower :: "string \<Rightarrow> string" where
  "ToLower s = map lowChar s"

definition EqualFold :: "string \<Rightarrow> string \<Rightarrow> bool" where
  "EqualFold s t = (ToLower s = ToLower t)"

definition isSeparator :: "char \<Rightarrow> bool" where
  "isSeparator c = (\<not> (isLower c \<or> isUpper c \<or> isDigit c \<or> c = CHR ''_'') \<and> (of_char c :: nat) < 128)"

fun TitleFrom :: "char \<Rightarrow> string \<Rightarrow> string" where
  "TitleFrom prev [] = []"
| "TitleFrom prev (c # cs) = (if isSeparator prev then upChar c else c) # TitleFrom c cs"

definition Title :: "string \<Rightarrow> string" where
  "Title s = TitleFrom (CHR '' '') s"

text \<open>Decimal numerals: \<open>strconv.Itoa\<close>, \<open>%d\<close>.\<close>

definition digitChar :: "nat \<Rightarrow> char" where
  "digitChar d = char_of (48 + d)"

fun natStr :: "nat \<Rightarrow> string" where
  "natStr n = (if n < 10 then [digitChar n] else natStr (n div 10) @ [digitChar (n mod 10)])"

declare natStr.simps [simp del]

definition Itoa :: "int \<Rightarrow> string" where
  "Itoa i = (if i < 0 then ''-'' @ natStr (nat (- i)) else natStr (nat i))"

definition boolStr :: "bool \<Rightarrow> string" where
  "boolStr b = (if b then ''true'' else ''false'')"

section \<open>Formatting\<close>

text \<open>
  \<open>strconv.Quote\<close>, the \<open>%q\<close> verb, on ASCII: quotes, backslashes and control bytes are escaped.
\<close>

definition hexChar :: "nat \<Rightarrow> char" where
  "hexChar d = (if d < 10 then char_of (48 + d) else char_of (87 + d))"

definition quoteChar :: "char \<Rightarrow> string" where
  "quoteChar c =
     (let n = of_char c :: nat; bs = char_of (92 :: nat) in
      if n = 34 \<or> n = 92 then [bs, c]
      else if n = 7 then [bs, CHR ''a''] else if n = 8 then [bs, CHR ''b'']
      else if n = 9 then [bs, CHR ''t''] else if n = 10 then [bs, CHR ''n'']
      else if n = 11 then [bs, CHR ''v''] else if n = 12 then [bs, CHR ''f'']
      else if n = 13 then [bs, CHR ''r'']
      else if n < 32 \<or> n = 127 then [bs, CHR ''x'', hexChar (n div 16), hexChar (n mod 16)]
      else [c])"

definition Quote :: "string \<Rightarrow> string" where
  "Quote s = char_of (34 :: nat) # concat (map quoteChar s) @ [char_of (34 :: nat)]"

text \<open>
  A \<open>fmt\<close> format with its arguments already rendered: the verbs take the arguments from the left, \<open>%w\<close>
  takes the wrapped errors, \<open>%q\<close> quotes, every other verb prints the argument as it is.
\<close>

fun expandVerbs :: "string \<Rightarrow> string list \<Rightarrow> string list \<Rightarrow> string" where
  "expandVerbs [] as ws = []"
| "expandVerbs [c] as ws = [c]"
| "expandVerbs (c # d # cs) as ws =
     (if c \<noteq> CHR ''%'' then c # expandVerbs (d # cs) as ws
      else if d = CHR ''%'' then d # expandVerbs cs as ws
      else if d = CHR ''w'' then hd (ws @ [''%!w(MISSING)'']) @ expandVerbs cs as (tl ws)
      else if d = CHR ''q'' then Quote (hd (as @ [''%!q(MISSING)''])) @ expandVerbs cs (tl as) ws
      else hd (as @ [''%!v(MISSING)'']) @ expandVerbs cs (tl as) ws)"

end
