(* ===== verification/Float64.thy ===== *)
theory Float64
  imports Complex_Main Prelude
begin

text \<open>
  Go's \<open>float64\<close>: IEEE-754 binary64 with round-to-nearest, ties to even. A finite number is a
  rational; \<open>rnd\<close> is the correctly rounded result of an exact rational, with gradual underflow and
  overflow to infinity, and the operations round the exact result as IEEE requires. The two zeros
  are identified (no code of the integration tells them apart: a division by zero is guarded by an
  equality test). The lemmas show that rounding is monotone and exact on integers of 53 bits, and
  that \<open>strconv.FormatFloat(v, 'f', -1, 64)\<close> is injective on numbers.
\<close>

named_theorems float_simps \<open>evaluation of the floating-point operations\<close>

datatype float64 = Fin rat | PInf | NInf | NaN

section \<open>Rounding\<close>

fun bitlen :: "nat \<Rightarrow> nat" where
  "bitlen n = (if n = 0 then 0 else Suc (bitlen (n div 2)))"

declare bitlen.simps [simp del]

definition pow2 :: "int \<Rightarrow> rat" where
  "pow2 e = (if 0 \<le> e then of_int (2 ^ nat e) else 1 / of_int (2 ^ nat (- e)))"

text \<open>\<open>flog2 q\<close> is the binary exponent of a positive rational: \<open>pow2 (flog2 q) \<le> q < pow2 (flog2 q + 1)\<close>.\<close>

definition flog2 :: "rat \<Rightarrow> int" where
  "flog2 q = (case quotient_of q of (n, d) \<Rightarrow>
     let k = int (bitlen (nat n)) - int (bitlen (nat d)) in if pow2 k \<le> q then k else k - 1)"

text \<open>Nearest integer, ties to even.\<close>

definition rne :: "rat \<Rightarrow> int" where
  "rne q = (let f = \<lfloor>q\<rfloor>; r = q - of_int f in
     if r < 1/2 then f else if r > 1/2 then f + 1 else if even f then f else f + 1)"

text \<open>The exponent of the unit in the last place.\<close>

definition ulpexp :: "rat \<Rightarrow> int" where
  "ulpexp q = max (flog2 q - 52) (- 1074)"

definition rndpos :: "rat \<Rightarrow> rat" where
  "rndpos q = (let e = ulpexp q in of_int (rne (q / pow2 e)) * pow2 e)"

definition rnd :: "rat \<Rightarrow> float64" where
  "rnd q =
     (if q = 0 then Fin 0
      else if q > 0 then (let r = rndpos q in if r < of_int (2 ^ 1024) then Fin r else PInf)
      else (let r = rndpos (- q) in if r < of_int (2 ^ 1024) then Fin (- r) else NInf))"

text \<open>The values a \<open>float64\<close> variable can hold.\<close>

definition is_f64 :: "float64 \<Rightarrow> bool" where
  "is_f64 x = (case x of Fin q \<Rightarrow> rnd q = Fin q | _ \<Rightarrow> True)"

section \<open>Operations\<close>

definition of_u64 :: "64 word \<Rightarrow> float64" where
  "of_u64 w = rnd (of_nat (unat w))"

definition of_i64 :: "64 word \<Rightarrow> float64" where
  "of_i64 w = rnd (of_int (sint w))"

fun fneg :: "float64 \<Rightarrow> float64" where
  "fneg (Fin q) = Fin (- q)"
| "fneg PInf = NInf"
| "fneg NInf = PInf"
| "fneg NaN = NaN"

fun fadd :: "float64 \<Rightarrow> float64 \<Rightarrow> float64" where
  "fadd (Fin a) (Fin b) = rnd (a + b)"
| "fadd NaN _ = NaN"
| "fadd _ NaN = NaN"
| "fadd PInf NInf = NaN"
| "fadd NInf PInf = NaN"
| "fadd PInf _ = PInf"
| "fadd NInf _ = NInf"
| "fadd _ PInf = PInf"
| "fadd _ NInf = NInf"

definition fsub :: "float64 \<Rightarrow> float64 \<Rightarrow> float64" where
  "fsub a b = fadd a (fneg b)"

fun fsign :: "float64 \<Rightarrow> int" where
  "fsign (Fin q) = (if q > 0 then 1 else if q < 0 then -1 else 0)"
| "fsign PInf = 1"
| "fsign NInf = -1"
| "fsign NaN = 0"

definition inf_of_sign :: "int \<Rightarrow> float64" where
  "inf_of_sign s = (if s > 0 then PInf else if s < 0 then NInf else NaN)"

fun fmul :: "float64 \<Rightarrow> float64 \<Rightarrow> float64" where
  "fmul (Fin a) (Fin b) = rnd (a * b)"
| "fmul NaN _ = NaN"
| "fmul _ NaN = NaN"
| "fmul x y = inf_of_sign (fsign x * fsign y)"

text \<open>Division; a non-zero number over zero is infinite (the sign of the zero is not kept).\<close>

fun fdiv :: "float64 \<Rightarrow> float64 \<Rightarrow> float64" where
  "fdiv (Fin a) (Fin b) = (if b = 0 then inf_of_sign (fsign (Fin a)) else rnd (a / b))"
| "fdiv NaN _ = NaN"
| "fdiv _ NaN = NaN"
| "fdiv (Fin a) _ = Fin 0"
| "fdiv x (Fin b) = (if b < 0 then fneg x else x)"
| "fdiv _ _ = NaN"

text \<open>The comparisons of Go: false as soon as one side is not a number.\<close>

fun feq :: "float64 \<Rightarrow> float64 \<Rightarrow> bool" where
  "feq NaN _ = False"
| "feq _ NaN = False"
| "feq x y = (x = y)"

fun fle :: "float64 \<Rightarrow> float64 \<Rightarrow> bool" where
  "fle NaN _ = False"
| "fle _ NaN = False"
| "fle NInf _ = True"
| "fle _ PInf = True"
| "fle (Fin a) (Fin b) = (a \<le> b)"
| "fle _ _ = False"

definition flt :: "float64 \<Rightarrow> float64 \<Rightarrow> bool" where
  "flt x y = (fle x y \<and> \<not> feq x y)"

definition isInf :: "float64 \<Rightarrow> bool" where
  "isInf x = (x = PInf \<or> x = NInf)"

definition isNaN :: "float64 \<Rightarrow> bool" where
  "isNaN x = (x = NaN)"

section \<open>Rounding is correct\<close>

lemma pow2_pos [simp]: "0 < pow2 e" "pow2 e \<noteq> 0" "0 \<le> pow2 e"
  by (simp_all add: pow2_def)

lemma pow2_powi: "pow2 e = 2 powi e"
  by (simp add: pow2_def power_int_def field_simps power_inverse inverse_eq_divide)

lemma pow2_add: "pow2 (a + b) = pow2 a * pow2 b"
  by (simp add: pow2_powi power_int_add)

lemma pow2_Suc: "pow2 (a + 1) = 2 * pow2 a"
  by (simp add: pow2_add) (simp add: pow2_def)

lemma pow2_mono: "a \<le> b \<Longrightarrow> pow2 a \<le> pow2 b"
  unfolding pow2_powi by (rule power_int_increasing) auto

lemma pow2_nat: "0 \<le> e \<Longrightarrow> pow2 e = of_int (2 ^ nat e)"
  by (simp add: pow2_def)

lemma pow2_less_iff: "pow2 a < pow2 b \<longleftrightarrow> a < b"
  by (metis pow2_mono linorder_not_less pow2_powi power_int_strict_increasing one_less_numeral_iff semiring_norm(76))

lemma bitlen_bounds: "n > 0 \<Longrightarrow> bitlen n > 0 \<and> 2 ^ (bitlen n - 1) \<le> n \<and> n < 2 ^ bitlen n"
proof (induction n rule: bitlen.induct)
  case (1 n)
  show ?case
  proof (cases "n div 2 = 0")
    case True
    then have "n = 1" using 1(2) by auto
    then show ?thesis by (simp add: bitlen.simps)
  next
    case False
    then have IH: "bitlen (n div 2) > 0" "2 ^ (bitlen (n div 2) - 1) \<le> n div 2" "n div 2 < 2 ^ bitlen (n div 2)"
      using 1 by auto
    have "bitlen n = Suc (bitlen (n div 2))" using 1(2) by (simp add: bitlen.simps)
    moreover have "2 ^ bitlen (n div 2) \<le> n"
      using IH(1,2) by (cases "bitlen (n div 2)") auto
    moreover have "n < 2 ^ Suc (bitlen (n div 2))" using IH(3) by simp
    ultimately show ?thesis by simp
  qed
qed

lemma flog2_bounds: assumes "q > 0" shows "pow2 (flog2 q) \<le> q" "q < pow2 (flog2 q + 1)"
proof -
  obtain n d where nd: "quotient_of q = (n, d)" by fastforce
  have d: "d > 0" using quotient_of_denom_pos[OF nd] .
  have q: "q = of_int n / of_int d" using quotient_of_div[OF nd] .
  have n: "n > 0" using assms d unfolding q by (simp add: zero_less_divide_iff)
  define a b where "a = bitlen (nat n)" and "b = bitlen (nat d)"
  have A: "a > 0" "2 ^ (a - 1) \<le> nat n" "nat n < 2 ^ a" using bitlen_bounds[of "nat n"] n a_def by auto
  have B: "b > 0" "2 ^ (b - 1) \<le> nat d" "nat d < 2 ^ b" using bitlen_bounds[of "nat d"] d b_def by auto
  have N: "pow2 (int a - 1) \<le> of_int n" "of_int n < pow2 (int a)"
  proof -
    have "(2::int) ^ (a - 1) \<le> n" using A(2) n by (simp add: le_nat_iff)
    then have "(2::rat) ^ (a - 1) \<le> of_int n" by (metis of_int_le_iff of_int_numeral of_int_power)
    moreover have "nat (int a - 1) = a - 1" by simp
    ultimately show "pow2 (int a - 1) \<le> of_int n" using A(1) by (simp add: pow2_def)
    have "n < (2::int) ^ a" using A(3) by (metis n nat_less_iff less_imp_le of_nat_numeral of_nat_power)
    then have "of_int n < (2::rat) ^ a" by (metis of_int_less_iff of_int_numeral of_int_power)
    then show "of_int n < pow2 (int a)" by (simp add: pow2_def)
  qed
  have D: "pow2 (int b - 1) \<le> of_int d" "of_int d < pow2 (int b)"
  proof -
    have "(2::int) ^ (b - 1) \<le> d" using B(2) d by (simp add: le_nat_iff)
    then have "(2::rat) ^ (b - 1) \<le> of_int d" by (metis of_int_le_iff of_int_numeral of_int_power)
    moreover have "nat (int b - 1) = b - 1" by simp
    ultimately show "pow2 (int b - 1) \<le> of_int d" using B(1) by (simp add: pow2_def)
    have "d < (2::int) ^ b" using B(3) by (metis d nat_less_iff less_imp_le of_nat_numeral of_nat_power)
    then have "of_int d < (2::rat) ^ b" by (metis of_int_less_iff of_int_numeral of_int_power)
    then show "of_int d < pow2 (int b)" by (simp add: pow2_def)
  qed
  define k where "k = int a - int b"
  have dq: "q * of_int d = of_int n" using d q by simp
  have dp: "(0::rat) < of_int d" using d by simp
  have hi: "q < pow2 (k + 1)"
  proof -
    have "q * pow2 (int b - 1) \<le> of_int n" using D(1) dq assms by (metis less_imp_le mult_left_mono)
    then have "q * pow2 (int b - 1) < pow2 (int a)" using N(2) by simp
    also have "pow2 (int a) = pow2 (k + 1) * pow2 (int b - 1)" by (simp add: k_def flip: pow2_add)
    finally show ?thesis by simp
  qed
  have lo: "pow2 (k - 1) \<le> q"
  proof -
    have "pow2 (k - 1) * pow2 (int b) = pow2 (int a - 1)" by (simp add: k_def flip: pow2_add)
    also have "\<dots> \<le> q * of_int d" using N(1) dq by simp
    also have "\<dots> \<le> q * pow2 (int b)" using D(2) assms by simp
    finally show ?thesis by simp
  qed
  have f: "flog2 q = (if pow2 k \<le> q then k else k - 1)"
    by (simp add: flog2_def nd k_def a_def b_def Let_def)
  show "pow2 (flog2 q) \<le> q" using lo f by simp
  show "q < pow2 (flog2 q + 1)" using hi f by simp
qed

lemma rne_of_int [simp]: "rne (of_int n) = n"
  by (simp add: rne_def)

lemma rne_bounds: "of_int (rne q) \<le> q + 1/2" "q - 1/2 \<le> of_int (rne q)"
  unfolding rne_def Let_def by (auto simp: field_simps) linarith+

lemma rne_mono: assumes "p \<le> q" shows "rne p \<le> rne q"
proof (cases "\<lfloor>p\<rfloor> = \<lfloor>q\<rfloor>")
  case True
  then show ?thesis using assms by (auto simp: rne_def Let_def)
next
  case False
  then have "\<lfloor>p\<rfloor> + 1 \<le> \<lfloor>q\<rfloor>" using floor_mono[OF assms] by linarith
  moreover have "rne p \<le> \<lfloor>p\<rfloor> + 1" "\<lfloor>q\<rfloor> \<le> rne q" by (auto simp: rne_def Let_def)
  ultimately show ?thesis by linarith
qed

lemma flog2_mono: assumes "0 < p" "p \<le> q" shows "flog2 p \<le> flog2 q"
proof -
  have "pow2 (flog2 p) < pow2 (flog2 q + 1)"
    using flog2_bounds(1)[of p] flog2_bounds(2)[of q] assms by linarith
  then show ?thesis by (simp add: pow2_less_iff)
qed

lemma flog2_unique: assumes "pow2 k \<le> q" "q < pow2 (k + 1)" shows "flog2 q = k"
proof -
  have q: "q > 0" using assms(1) pow2_pos(1)[of k] by linarith
  have "pow2 (flog2 q) < pow2 (k + 1)" "pow2 k < pow2 (flog2 q + 1)"
    using flog2_bounds[OF q] assms by linarith+
  then show ?thesis by (simp add: pow2_less_iff)
qed

lemma pow2_div: "pow2 a / pow2 b = pow2 (a - b)"
  by (simp add: pow2_powi power_int_diff)

lemma pow2_int: "0 \<le> e \<Longrightarrow> \<exists>n. pow2 e = of_int n"
  by (metis pow2_nat)

text \<open>A number that is a multiple of the unit of its binade is not changed.\<close>

lemma rndpos_exact:
  assumes "q > 0" "q = of_int m * pow2 e" "ulpexp q \<le> e" shows "rndpos q = q"
proof -
  have "q / pow2 (ulpexp q) = of_int m * pow2 (e - ulpexp q)"
    by (metis assms(2) pow2_div times_divide_eq_right)
  moreover obtain n where "pow2 (e - ulpexp q) = of_int n" using pow2_int[of "e - ulpexp q"] assms(3) by auto
  ultimately have "q / pow2 (ulpexp q) = of_int (m * n)" by simp
  then have "of_int (rne (q / pow2 (ulpexp q))) = q / pow2 (ulpexp q)" by (metis rne_of_int)
  then show ?thesis by (simp add: rndpos_def Let_def)
qed

lemma rndpos_pow2: "- 1074 \<le> k \<Longrightarrow> rndpos (pow2 k) = pow2 k"
proof -
  assume k: "- 1074 \<le> k"
  have "flog2 (pow2 k) = k" by (rule flog2_unique) (auto simp: pow2_less_iff)
  then show ?thesis using k by (intro rndpos_exact[where m = 1 and e = k]) (auto simp: ulpexp_def)
qed

lemma rndpos_nonneg: "0 < q \<Longrightarrow> 0 \<le> rndpos q"
proof -
  assume "0 < q"
  then have "0 \<le> q / pow2 (ulpexp q)" by simp
  then have "rne (of_int 0) \<le> rne (q / pow2 (ulpexp q))" by (intro rne_mono) simp
  then show ?thesis using rne_of_int[of 0] by (simp add: rndpos_def Let_def)
qed

lemma rndpos_mono_same: "0 < p \<Longrightarrow> p \<le> q \<Longrightarrow> ulpexp p = ulpexp q \<Longrightarrow> rndpos p \<le> rndpos q"
  unfolding rndpos_def Let_def by (simp add: rne_mono divide_right_mono)

lemma rndpos_le_next: assumes "0 < p" "flog2 p \<ge> - 1022" shows "rndpos p \<le> pow2 (flog2 p + 1)"
proof -
  let ?e = "ulpexp p"
  have e: "?e = flog2 p - 52" using assms by (simp add: ulpexp_def)
  have "p / pow2 ?e \<le> pow2 (flog2 p + 1) / pow2 ?e"
    using flog2_bounds(2)[OF assms(1)] by (simp add: divide_right_mono)
  also have "\<dots> = pow2 53" by (simp add: pow2_div e)
  also have "\<dots> = of_int (2 ^ 53)" by (simp add: pow2_nat)
  finally have "rne (p / pow2 ?e) \<le> 2 ^ 53" by (metis rne_mono rne_of_int)
  then have "of_int (rne (p / pow2 ?e)) * pow2 ?e \<le> of_int (2 ^ 53) * pow2 ?e"
    by (intro mult_right_mono) (auto simp del: of_int_power simp: of_int_le_iff)
  also have "\<dots> = pow2 53 * pow2 ?e" by (simp add: pow2_nat)
  also have "\<dots> = pow2 (flog2 p + 1)" by (simp add: e add.commute flip: pow2_add)
  finally show ?thesis by (simp add: rndpos_def Let_def)
qed

lemma rndpos_ge_pow: assumes "0 < q" "flog2 q \<ge> - 1074" shows "pow2 (flog2 q) \<le> rndpos q"
proof -
  have "ulpexp (pow2 (flog2 q)) = ulpexp q"
    unfolding ulpexp_def by (subst flog2_unique[where k = "flog2 q"]) (auto simp: pow2_less_iff)
  then have "rndpos (pow2 (flog2 q)) \<le> rndpos q"
    by (intro rndpos_mono_same) (auto simp: flog2_bounds assms)
  then show ?thesis using rndpos_pow2[OF assms(2)] by simp
qed

lemma rndpos_mono: assumes "0 < p" "p \<le> q" shows "rndpos p \<le> rndpos q"
proof (cases "ulpexp p = ulpexp q")
  case True
  then show ?thesis using assms by (intro rndpos_mono_same)
next
  case False
  have "flog2 p \<le> flog2 q" using flog2_mono assms .
  then have lt: "flog2 p < flog2 q" and g: "flog2 q > - 1022" using False by (auto simp: ulpexp_def)
  have q0: "0 < q" using assms by linarith
  have "rndpos p \<le> pow2 (flog2 q)"
  proof (cases "flog2 p \<ge> - 1022")
    case True
    then show ?thesis using rndpos_le_next[OF assms(1)] pow2_mono[of "flog2 p + 1" "flog2 q"] lt by force
  next
    case False
    let ?b = "pow2 (- 1022)"
    have "p < pow2 (flog2 p + 1)" using flog2_bounds assms by blast
    also have "\<dots> \<le> ?b" using False by (intro pow2_mono) simp
    finally have "p \<le> ?b" by simp
    moreover have "ulpexp p = ulpexp ?b"
      using False unfolding ulpexp_def
      by (subst (2) flog2_unique[where k = "- 1022"]) (auto simp: pow2_less_iff)
    ultimately have "rndpos p \<le> rndpos ?b" using assms(1) by (intro rndpos_mono_same)
    also have "\<dots> = ?b" by (rule rndpos_pow2) simp
    also have "\<dots> \<le> pow2 (flog2 q)" using g by (intro pow2_mono) simp
    finally show ?thesis .
  qed
  also have "\<dots> \<le> rndpos q" using g q0 by (intro rndpos_ge_pow) auto
  finally show ?thesis .
qed

text \<open>Rounding is monotone for the order of the floating-point numbers, and exact on 53-bit integers.\<close>

lemma rnd_mono: assumes "p \<le> q" shows "fle (rnd p) (rnd q)"
proof -
  have A: "rndpos p \<le> rndpos q" if "0 < p" using rndpos_mono that assms by blast
  have B: "rndpos (- q) \<le> rndpos (- p)" if "q < 0" using rndpos_mono[of "- q" "- p"] that assms by simp
  have C: "0 \<le> rndpos q" if "0 < q" using rndpos_nonneg that .
  have D: "0 \<le> rndpos (- p)" if "p < 0" using rndpos_nonneg that by simp
  consider "0 < p" | "q < 0" | "p \<le> 0" "0 \<le> q" by linarith
  then show ?thesis
  proof cases
    case 1
    then show ?thesis using A assms by (auto simp: rnd_def Let_def)
  next
    case 2
    then show ?thesis using B assms by (auto simp: rnd_def Let_def)
  next
    case 3
    then show ?thesis using C D by (auto simp: rnd_def Let_def)
  qed
qed

lemma rnd_0 [simp]: "rnd 0 = Fin 0"
  by (simp add: rnd_def)

lemma rnd_neg: "rnd (- q) = fneg (rnd q)"
  by (auto simp: rnd_def Let_def)

lemma rnd_dyadic:
  assumes "q = of_int m * pow2 e" "- 1074 \<le> e" "0 < m" "m < 2 ^ 53" "q < 2 ^ 1024"
  shows "rnd q = Fin q"
proof -
  have q: "q > 0" using assms(1,3) by simp
  have "q < of_int (2 ^ 53) * pow2 e"
    using assms(1,4) by (simp del: of_int_power add: of_int_less_iff)
  also have "\<dots> = pow2 (53 + e)" by (simp add: pow2_nat pow2_add)
  finally have "pow2 (flog2 q) < pow2 (53 + e)" using flog2_bounds(1)[OF q] by linarith
  then have "ulpexp q \<le> e" using assms(2) by (auto simp: pow2_less_iff ulpexp_def)
  then have "rndpos q = q" using rndpos_exact q assms(1) by blast
  then show ?thesis using q assms(5) by (simp add: rnd_def Let_def)
qed

lemma rnd_nat: assumes "n < 2 ^ 53" shows "rnd (of_nat n) = Fin (of_nat n)"
proof (cases "n = 0")
  case False
  have "(of_nat n :: rat) < of_nat (2 ^ 53)" using assms by (simp only: of_nat_less_iff)
  also have "(of_nat (2 ^ 53) :: rat) < 2 ^ 1024" by simp
  finally have "(of_nat n :: rat) < 2 ^ 1024" .
  moreover have "int n < 2 ^ 53" using assms by (metis of_nat_less_iff of_nat_numeral of_nat_power)
  ultimately show ?thesis using False assms by (intro rnd_dyadic[where m = "int n" and e = 0]) (auto simp: pow2_def)
qed simp

lemma rnd_1 [simp]: "rnd 1 = Fin 1"
  using rnd_nat[of 1] by simp

lemma rnd_100 [simp]: "rnd 100 = Fin 100"
  using rnd_nat[of 100] by simp

lemma rnd_ge_0: "0 \<le> q \<Longrightarrow> fle (Fin 0) (rnd q)"
  using rnd_mono[of 0 q] by simp

lemma fle_refl [simp]: "x \<noteq> NaN \<Longrightarrow> fle x x"
  by (cases x) auto

lemma fle_trans: "fle x y \<Longrightarrow> fle y z \<Longrightarrow> fle x z"
  by (cases x; cases y; cases z) auto

section \<open>Decimal representation\<close>

text \<open>
  \<open>strconv.FormatFloat(v, 'f', -1, 64)\<close>: the shortest decimal that rounds to \<open>v\<close>, without
  exponent. The shortest decimal is a multiple of the largest power of ten that has a multiple
  among the numbers that round to \<open>v\<close>; of two candidates the closer one is taken. The search goes
  down from the number of digits of the integer part. Seventeen significant digits always suffice,
  the smallest positive \<open>float64\<close> has its last significant digit at \<open>10\<^sup>-\<^sup>3\<^sup>2\<^sup>4\<close>, so 400 steps reach it;
  the exact expansion that ends the search is never needed.
\<close>

definition pow10 :: "int \<Rightarrow> rat" where
  "pow10 e = (if 0 \<le> e then of_int (10 ^ nat e) else 1 / of_int (10 ^ nat (- e)))"

definition decCands :: "rat \<Rightarrow> int \<Rightarrow> nat list" where
  "decCands q e =
     (let s = q / pow10 e; lo = nat \<lfloor>s\<rfloor>; near = (if s - of_int \<lfloor>s\<rfloor> \<le> 1/2 then [lo, lo + 1] else [lo + 1, lo])
      in filter (\<lambda>m. rnd (of_nat m * pow10 e) = Fin q) near)"

primrec shortestDec :: "nat \<Rightarrow> rat \<Rightarrow> int \<Rightarrow> nat \<times> int" where
  "shortestDec 0 q e = (nat \<lfloor>q / pow10 (- 1074)\<rfloor>, - 1074)"
| "shortestDec (Suc n) q e = (case decCands q e of m # _ \<Rightarrow> (m, e) | [] \<Rightarrow> shortestDec n q (e - 1))"

definition zeroPad :: "nat \<Rightarrow> string \<Rightarrow> string" where
  "zeroPad k s = replicate (k - length s) (CHR ''0'') @ s"

definition renderDec :: "nat \<times> int \<Rightarrow> string" where
  "renderDec me = (case me of (m, e) \<Rightarrow>
     if 0 \<le> e then natStr (m * 10 ^ nat e)
     else (let k = nat (- e) in natStr (m div 10 ^ k) @ ''.'' @ zeroPad k (natStr (m mod 10 ^ k))))"

definition formatPos :: "rat \<Rightarrow> string" where
  "formatPos q = renderDec (shortestDec 400 q (int (length (natStr (nat \<lfloor>q\<rfloor>)))))"

definition FormatFloat :: "float64 \<Rightarrow> string" where
  "FormatFloat x = (case x of NaN \<Rightarrow> ''NaN'' | PInf \<Rightarrow> ''+Inf'' | NInf \<Rightarrow> ''-Inf''
     | Fin q \<Rightarrow> if q = 0 then ''0'' else if q < 0 then ''-'' @ formatPos (- q) else formatPos q)"

text \<open>The reader of the printed form.\<close>

definition valDigits :: "string \<Rightarrow> nat" where
  "valDigits s = foldl (\<lambda>a c. 10 * a + ((of_char c :: nat) - 48)) 0 s"

definition decVal :: "string \<Rightarrow> rat" where
  "decVal s = (let i = takeWhile (\<lambda>c. c \<noteq> CHR ''.'') s; f = tl (dropWhile (\<lambda>c. c \<noteq> CHR ''.'') s)
     in of_nat (valDigits i) + of_nat (valDigits f) / 10 ^ length f)"

definition ParseFloat :: "string \<Rightarrow> float64" where
  "ParseFloat s = (if s = ''NaN'' then NaN else if s = ''+Inf'' then PInf else if s = ''-Inf'' then NInf
     else if take 1 s = ''-'' then rnd (- decVal (tl s)) else rnd (decVal s))"

lemma valDigits_snoc: "valDigits (s @ [c]) = 10 * valDigits s + ((of_char c :: nat) - 48)"
  by (simp add: valDigits_def)

lemma of_char_digitChar: "d < 10 \<Longrightarrow> (of_char (digitChar d) :: nat) = 48 + d"
  by (simp add: digitChar_def)

lemma valDigits_natStr [simp]: "valDigits (natStr n) = n"
proof (induction n rule: natStr.induct)
  case (1 n)
  show ?case
  proof (cases "n < 10")
    case True
    then show ?thesis by (simp add: natStr.simps[of n] valDigits_def of_char_digitChar)
  next
    case False
    then show ?thesis using 1
      by (simp add: natStr.simps[of n] valDigits_snoc of_char_digitChar del: natStr.simps)
  qed
qed

lemma natStr_digits: "c \<in> set (natStr n) \<Longrightarrow> isDigit c"
proof (induction n rule: natStr.induct)
  case (1 n)
  then show ?case
    by (auto simp: natStr.simps[of n] isDigit_def of_char_digitChar split: if_splits)
qed

lemma natStr_ne [simp]: "natStr n \<noteq> []"
  by (simp add: natStr.simps[of n])

lemma length_natStr: "n < 10 ^ k \<Longrightarrow> 0 < k \<Longrightarrow> length (natStr n) \<le> k"
proof (induction k arbitrary: n)
  case (Suc k)
  show ?case
  proof (cases "n < 10")
    case True
    then show ?thesis by (simp add: natStr.simps[of n])
  next
    case False
    then have "0 < k" using Suc.prems by (cases k) auto
    moreover have "n div 10 < 10 ^ k" using Suc.prems(1) by (simp add: less_mult_imp_div_less)
    ultimately show ?thesis using Suc.IH False by (simp add: natStr.simps[of n])
  qed
qed simp

lemma valDigits_zeros: "valDigits (replicate j (CHR ''0'') @ s) = valDigits s"
  by (induction j) (simp_all add: valDigits_def)

lemma isDigit_not_dot: "isDigit c \<Longrightarrow> c \<noteq> CHR ''.''"
  by (auto simp: isDigit_def)

lemma decVal_natStr: "decVal (natStr n) = of_nat n"
proof -
  have "\<forall>c \<in> set (natStr n). c \<noteq> CHR ''.''" using natStr_digits isDigit_not_dot by blast
  then have "takeWhile (\<lambda>c. c \<noteq> CHR ''.'') (natStr n) = natStr n"
    "dropWhile (\<lambda>c. c \<noteq> CHR ''.'') (natStr n) = []"
    by (auto simp: takeWhile_eq_all_conv dropWhile_eq_Nil_conv)
  then show ?thesis unfolding decVal_def Let_def by (simp only: valDigits_natStr) (simp add: valDigits_def)
qed

lemma decVal_render: "decVal (renderDec (m, e)) = of_nat m * pow10 e"
proof (cases "0 \<le> e")
  case True
  then show ?thesis by (simp add: renderDec_def decVal_natStr pow10_def)
next
  case False
  define k where "k = nat (- e)"
  have k: "0 < k" using False by (simp add: k_def)
  let ?i = "natStr (m div 10 ^ k)" and ?f = "zeroPad k (natStr (m mod 10 ^ k))"
  have r: "renderDec (m, e) = ?i @ CHR ''.'' # ?f" using False by (simp add: renderDec_def k_def Let_def)
  have nd: "\<forall>c \<in> set ?i. c \<noteq> CHR ''.''" using natStr_digits isDigit_not_dot by blast
  have len: "length ?f = k" using length_natStr[of "m mod 10 ^ k" k] k by (simp add: zeroPad_def)
  have tw: "takeWhile (\<lambda>c. c \<noteq> CHR ''.'') (?i @ CHR ''.'' # ?f) = ?i"
    using nd by (simp add: takeWhile_append2)
  have dw: "dropWhile (\<lambda>c. c \<noteq> CHR ''.'') (?i @ CHR ''.'' # ?f) = CHR ''.'' # ?f"
    using nd by (simp add: dropWhile_append2)
  have "decVal (renderDec (m, e)) = of_nat (m div 10 ^ k) + of_nat (m mod 10 ^ k) / 10 ^ k"
    unfolding r decVal_def tw dw by (simp add: len) (simp add: zeroPad_def valDigits_zeros)
  also have "\<dots> = (of_nat (m div 10 ^ k * 10 ^ k + m mod 10 ^ k) :: rat) / 10 ^ k"
    by (simp add: add_divide_distrib)
  also have "\<dots> = of_nat m / 10 ^ k" by (simp only: div_mult_mod_eq)
  also have "\<dots> = of_nat m * pow10 e" using False by (simp add: pow10_def k_def)
  finally show ?thesis .
qed

text \<open>The reader recovers every number from its printed form, so printing is injective.\<close>

lemma shortestDec_sound:
  assumes "rnd q = Fin q" "of_nat (nat \<lfloor>q / pow10 (- 1074)\<rfloor>) * pow10 (- 1074) = q"
  shows "(case shortestDec n q e of (m, x) \<Rightarrow> rnd (of_nat m * pow10 x)) = Fin q"
proof (induction n arbitrary: e)
  case (Suc n)
  show ?case
  proof (cases "decCands q e")
    case (Cons m ms)
    then have "m \<in> set (decCands q e)" by simp
    then have "rnd (of_nat m * pow10 e) = Fin q" unfolding decCands_def Let_def by auto
    then show ?thesis using Cons by simp
  qed (simp add: Suc)
qed (simp add: assms)

lemma rnd_Fin_pos: "rnd q = Fin q \<Longrightarrow> 0 < q \<Longrightarrow> rndpos q = q"
  by (auto simp: rnd_def Let_def split: if_splits)

lemma ten_pow: "(10 :: rat) ^ n = 5 ^ n * pow2 (int n)"
  by (simp add: pow2_def flip: power_mult_distrib)

lemma exact_decimal:
  assumes "rnd q = Fin q" "0 < q" "1074 \<le> N"
  shows "of_nat (nat \<lfloor>q / pow10 (- int N)\<rfloor>) * pow10 (- int N) = q"
proof -
  define e where "e = ulpexp q"
  define n where "n = rne (q / pow2 e)"
  have q: "q = of_int n * pow2 e" using rnd_Fin_pos[OF assms(1,2)] by (simp add: rndpos_def Let_def e_def n_def)
  have "- 1074 \<le> e" by (simp add: e_def ulpexp_def)
  then obtain j where j: "pow2 (e + int N) = of_int j" using pow2_int[of "e + int N"] assms(3) by auto
  have p: "pow10 (- int N) = 1 / 10 ^ N" using assms(3) by (simp add: pow10_def)
  have "q / pow10 (- int N) = of_int n * pow2 e * 10 ^ N" unfolding p q by simp
  also have "\<dots> = of_int n * 5 ^ N * (pow2 e * pow2 (int N))" unfolding ten_pow by (simp only: ac_simps)
  also have "\<dots> = of_int (n * 5 ^ N * j)" unfolding pow2_add[symmetric] j by simp
  finally have z: "q / pow10 (- int N) = of_int (n * 5 ^ N * j)" .
  moreover have "0 < q / pow10 (- int N)" using assms(2) unfolding p by simp
  ultimately have "0 < n * 5 ^ N * j" by (metis of_int_0_less_iff)
  then have "of_nat (nat \<lfloor>q / pow10 (- int N)\<rfloor>) = q / pow10 (- int N)"
    unfolding z by (simp only: floor_of_int)
  moreover have "pow10 (- int N) \<noteq> 0" unfolding p by simp
  ultimately show ?thesis by simp
qed

lemmas exact_1074 = exact_decimal[where N = 1074, simplified of_nat_numeral, OF _ _ order_refl]

lemma rnd_decVal_formatPos: "rnd q = Fin q \<Longrightarrow> 0 < q \<Longrightarrow> rnd (decVal (formatPos q)) = Fin q"
  using shortestDec_sound[OF _ exact_1074, of q 400 "int (length (natStr (nat \<lfloor>q\<rfloor>)))"]
  by (auto simp: formatPos_def decVal_render split: prod.splits)

lemma renderDec_first: "\<exists>c s. renderDec me = c # s \<and> isDigit c"
proof -
  have "natStr n @ t = c # s \<Longrightarrow> isDigit c" for n t c s
    by (cases "natStr n") (auto intro: natStr_digits[of _ n])
  moreover have "natStr n = c # s \<Longrightarrow> isDigit c" for n c s
    using natStr_digits[of c n] by simp
  ultimately show ?thesis
    by (cases me; cases "renderDec me") (auto simp: renderDec_def Let_def split: if_splits)
qed

lemma ParseFloat_FormatFloat: assumes "is_f64 x" shows "ParseFloat (FormatFloat x) = x"
proof (cases x)
  case (Fin q)
  have r: "rnd q = Fin q" using assms Fin by (simp add: is_f64_def)
  have D: "\<exists>c s. formatPos a = c # s \<and> isDigit c" for a using renderDec_first by (simp add: formatPos_def)
  consider "q = 0" | "q > 0" | "q < 0" by linarith
  then show ?thesis
  proof cases
    case 1
    have "decVal ''0'' = 0" by (simp add: decVal_def valDigits_def)
    then show ?thesis by (simp add: Fin 1 FormatFloat_def ParseFloat_def)
  next
    case 2
    obtain c s where c: "formatPos q = c # s" "isDigit c" using D by blast
    then have "c \<noteq> CHR ''N''" "c \<noteq> CHR ''+''" "c \<noteq> CHR ''-''" by (auto simp: isDigit_def)
    then have "ParseFloat (formatPos q) = rnd (decVal (formatPos q))" by (simp add: ParseFloat_def c)
    then show ?thesis using 2 rnd_decVal_formatPos[OF r 2] by (simp add: Fin FormatFloat_def)
  next
    case 3
    have r': "rnd (- q) = Fin (- q)" using r by (simp add: rnd_neg)
    obtain c s where c: "formatPos (- q) = c # s" "isDigit c" using D by blast
    then have "c \<noteq> CHR ''I''" by (auto simp: isDigit_def)
    then have "ParseFloat (''-'' @ formatPos (- q)) = rnd (- decVal (formatPos (- q)))"
      by (simp add: ParseFloat_def c)
    also have "\<dots> = x" using 3 rnd_decVal_formatPos[OF r'] by (simp add: rnd_neg Fin)
    finally show ?thesis using 3 by (simp add: Fin FormatFloat_def)
  qed
qed (simp_all add: FormatFloat_def ParseFloat_def)

lemma FormatFloat_inject: "is_f64 x \<Longrightarrow> is_f64 y \<Longrightarrow> FormatFloat x = FormatFloat y \<longleftrightarrow> x = y"
  by (metis ParseFloat_FormatFloat)

end
