(* ===== verification/Values.thy ===== *)
theory Values
  imports Float64
begin

text \<open>
  The dynamic values of the integration. Raw and fetched metrics are Go \<open>interface{}\<close> values; the
  datatype \<open>goval\<close> has one constructor per dynamic type that the code stores in them, so that a
  type switch or a type assertion of the source is a case analysis here. The theory also holds the
  error values (\<open>fmt.Errorf\<close>), the results of calls (value, error or panic) and the Prometheus data
  model of \<open>src/prometheus/metric.go\<close>.
\<close>

section \<open>Prometheus values and metrics\<close>

text \<open>\<open>model.Summary\<close> of the Prometheus client model, the fields the code reads.\<close>

record quantile =
  Quantile :: float64
  QValue :: float64

record summary =
  SampleCount :: "64 word"
  SampleSum :: float64
  Quantiles :: "quantile list"

text \<open>
  The interface \<open>prometheus.Value\<close>: \<open>CounterValue\<close>, \<open>GaugeValue\<close>, a pointer to a summary (possibly
  nil), \<open>noValueType\<close>, or the nil interface of a \<open>Metric\<close> whose value was never set.
\<close>

datatype pvalue =
    CounterValue float64
  | GaugeValue float64
  | SummaryPtr "summary option"
  | NoValue string
  | NilValue

definition EmptyValue :: pvalue where
  "EmptyValue = NoValue ''no_value''"

type_synonym labels = "(string, string) gomap"

text \<open>\<open>prometheus.Metric\<close> and \<open>prometheus.MetricFamily\<close>.\<close>

record metric =
  Labels :: labels
  MValue :: pvalue

record metricfamily =
  FName :: string
  FType :: string
  Metrics :: "metric list"

text \<open>\<open>Labels.Has\<close>: the label exists.\<close>

definition Has :: "labels \<Rightarrow> string \<Rightarrow> bool" where
  "Has l name = (case mget l name of Some _ \<Rightarrow> True | None \<Rightarrow> False)"

lemma Has_mhas: "Has l n = mhas l n"
  by (simp add: Has_def mhas_def split: option.splits)

text \<open>\<open>labels[name]\<close>, the empty string when the label is missing.\<close>

definition label :: "metric \<Rightarrow> string \<Rightarrow> string" where
  "label m name = mget0 [] (Labels m) name"

section \<open>Dynamic values\<close>

text \<open>
  \<open>resource.Quantity\<close> of apimachinery is only read through three of its methods; the record holds
  the results of \<open>Value\<close>, \<open>MilliValue\<close> and \<open>AsApproximateFloat64\<close>.
\<close>

record quantity =
  QtyValue :: "64 word"
  QtyMilliValue :: "64 word"
  QtyFloat64 :: float64

text \<open>
  \<open>interface{}\<close> values. A \<open>time.Time\<close> is its number of nanoseconds since the Unix epoch.
\<close>

datatype goval =
    VNil
  | VString string
  | VBool bool
  | VInt "64 word"
  | VInt32 "32 word"
  | VInt64 "64 word"
  | VUint "64 word"
  | VUint64 "64 word"
  | VFloat64 float64
  | VTime int
  | VProm pvalue
  | VMetric metric
  | VMetrics "metric list"
  | VStrMap "(string \<times> string) list"
  | VIntMap "(string \<times> 64 word) list"
  | VResources "(string \<times> quantity) list"
  | VFetched "(string \<times> goval) list"
  | VInterfaces "(string \<times> (string \<times> goval) list) list"

text \<open>Storing a \<open>prometheus.Value\<close> in an \<open>interface{}\<close>: the nil interface stays nil.\<close>

fun of_pvalue :: "pvalue \<Rightarrow> goval" where
  "of_pvalue NilValue = VNil"
| "of_pvalue p = VProm p"

text \<open>\<open>%T\<close>.\<close>

fun goType :: "goval \<Rightarrow> string" where
  "goType VNil = ''<nil>''"
| "goType (VString _) = ''string''"
| "goType (VBool _) = ''bool''"
| "goType (VInt _) = ''int''"
| "goType (VInt32 _) = ''int32''"
| "goType (VInt64 _) = ''int64''"
| "goType (VUint _) = ''uint''"
| "goType (VUint64 _) = ''uint64''"
| "goType (VFloat64 _) = ''float64''"
| "goType (VTime _) = ''time.Time''"
| "goType (VProm (CounterValue _)) = ''prometheus.CounterValue''"
| "goType (VProm (GaugeValue _)) = ''prometheus.GaugeValue''"
| "goType (VProm (SummaryPtr _)) = ''*io_prometheus_client.Summary''"
| "goType (VProm (NoValue _)) = ''prometheus.noValueType''"
| "goType (VProm NilValue) = ''<nil>''"
| "goType (VMetric _) = ''prometheus.Metric''"
| "goType (VMetrics _) = ''[]prometheus.Metric''"
| "goType (VStrMap _) = ''map[string]string''"
| "goType (VIntMap _) = ''map[string]int''"
| "goType (VResources _) = ''v1.ResourceList''"
| "goType (VFetched _) = ''definition.FetchedValues''"
| "goType (VInterfaces _) = ''map[string]definition.RawMetrics''"

section \<open>Errors, results and panics\<close>

text \<open>
  A Go error is what \<open>fmt.Errorf\<close> was given: the format string of the source, the arguments, and the
  errors it wraps with the \<open>%w\<close> verb. \<open>errors.New\<close> is the case without arguments. Keeping the format
  string lets a reader compare every branch with the source.
\<close>

datatype earg = EStr string | EVal goval

datatype err = Err string "earg list" "err list"

abbreviation Errorf :: "string \<Rightarrow> string list \<Rightarrow> err list \<Rightarrow> err" where
  "Errorf f as ws \<equiv> Err f (map EStr as) ws"

abbreviation errorsNew :: "string \<Rightarrow> err" where
  "errorsNew s \<equiv> Err s [] []"

text \<open>\<open>errors.Is\<close>: some error of the chain is the given one.\<close>

fun errorsIs :: "err \<Rightarrow> err \<Rightarrow> bool" where
  "errorsIs (Err f as ws) target =
     (Err f as ws = target \<or> (\<exists>w \<in> set ws. errorsIs w target))"

text \<open>
  \<open>Error()\<close>. Values that are not strings, booleans or integers are rendered by their type only: the
  one place that reads a message, \<open>CountFromValueWithLabelsFilter\<close>, reads errors of \<open>FromRaw\<close>, whose
  arguments are strings.
\<close>

fun goV :: "goval \<Rightarrow> string" where
  "goV (VString s) = s"
| "goV (VBool b) = boolStr b"
| "goV (VInt w) = Itoa (sint w)"
| "goV (VInt32 w) = Itoa (sint w)"
| "goV (VInt64 w) = Itoa (sint w)"
| "goV (VUint w) = natStr (unat w)"
| "goV (VUint64 w) = natStr (unat w)"
| "goV v = goType v"

fun argMsg :: "earg \<Rightarrow> string" where
  "argMsg (EStr s) = s"
| "argMsg (EVal v) = goV v"

fun errMsg :: "err \<Rightarrow> string" where
  "errMsg (Err f as ws) = expandVerbs f (map argMsg as) (map errMsg ws)"

text \<open>The result of a call: a value, an error return, or a run-time panic with its cause.\<close>

datatype 'a result = Ok 'a | Fail err | Panic string

fun is_ok :: "'a result \<Rightarrow> bool" where
  "is_ok (Ok _) = True"
| "is_ok _ = False"

fun is_panic :: "'a result \<Rightarrow> bool" where
  "is_panic (Panic _) = True"
| "is_panic _ = False"

text \<open>\<open>if err != nil { return err }\<close>, and the same with a wrapping message.\<close>

fun rbind :: "'a result \<Rightarrow> ('a \<Rightarrow> 'b result) \<Rightarrow> 'b result" where
  "rbind (Ok a) f = f a"
| "rbind (Fail e) f = Fail e"
| "rbind (Panic p) f = Panic p"

fun rbindw :: "(err \<Rightarrow> err) \<Rightarrow> 'a result \<Rightarrow> ('a \<Rightarrow> 'b result) \<Rightarrow> 'b result" where
  "rbindw w (Ok a) f = f a"
| "rbindw w (Fail e) f = Fail (w e)"
| "rbindw w (Panic p) f = Panic p"

lemma rbind_Ok_iff: "rbind r f = Ok b \<longleftrightarrow> (\<exists>a. r = Ok a \<and> f a = Ok b)"
  by (cases r) auto

lemma rbindw_Ok_iff: "rbindw w r f = Ok b \<longleftrightarrow> (\<exists>a. r = Ok a \<and> f a = Ok b)"
  by (cases r) auto

lemma rbind_Fail_iff: "rbind r f = Fail e \<longleftrightarrow> r = Fail e \<or> (\<exists>a. r = Ok a \<and> f a = Fail e)"
  by (cases r) auto

lemma is_ok_iff: "is_ok r \<longleftrightarrow> (\<exists>a. r = Ok a)"
  by (cases r) auto

lemma is_panic_rbind [simp]: "is_panic (rbind r f) \<longleftrightarrow> is_panic r \<or> (\<exists>a. r = Ok a \<and> is_panic (f a))"
  by (cases r) auto

lemma is_panic_rbindw [simp]: "is_panic (rbindw w r f) \<longleftrightarrow> is_panic r \<or> (\<exists>a. r = Ok a \<and> is_panic (f a))"
  by (cases r) auto

lemma rbind_no_panic: "\<not> is_panic r \<Longrightarrow> (\<And>a. r = Ok a \<Longrightarrow> \<not> is_panic (f a)) \<Longrightarrow> \<not> is_panic (rbind r f)"
  by (cases r) auto

lemma rbindw_no_panic: "\<not> is_panic r \<Longrightarrow> (\<And>a. r = Ok a \<Longrightarrow> \<not> is_panic (f a)) \<Longrightarrow> \<not> is_panic (rbindw w r f)"
  by (cases r) auto

text \<open>A loop whose body may return early with an error or panic.\<close>

primrec rfoldl :: "('s \<Rightarrow> 'a \<Rightarrow> 's result) \<Rightarrow> 's \<Rightarrow> 'a list \<Rightarrow> 's result" where
  "rfoldl f s [] = Ok s"
| "rfoldl f s (x # xs) = rbind (f s x) (\<lambda>s'. rfoldl f s' xs)"

lemma rfoldl_append: "rfoldl f s (xs @ ys) = rbind (rfoldl f s xs) (\<lambda>s'. rfoldl f s' ys)"
proof (induction xs arbitrary: s)
  case (Cons x xs)
  then show ?case by (cases "f s x") auto
qed simp

lemma rfoldl_total: "(\<And>s x. x \<in> set xs \<Longrightarrow> f s x = Ok (g s x)) \<Longrightarrow> rfoldl f s xs = Ok (foldl g s xs)"
  by (induction xs arbitrary: s) auto

text \<open>A type assertion that fails without the second result panics.\<close>

definition typePanic :: "goval \<Rightarrow> string \<Rightarrow> 'a result" where
  "typePanic v t = Panic (''interface conversion: interface {} is '' @ goType v @ '', not '' @ t)"

lemma is_panic_typePanic [simp]: "is_panic (typePanic v t)"
  by (simp add: typePanic_def)

section \<open>Raw metrics and groups\<close>

type_synonym rawmetrics = "(string, goval) gomap"
type_synonym rawentities = "(string, rawmetrics) gomap"
type_synonym rawgroups = "(string, rawentities) gomap"

end
