(* ===== verification/Config.thy ===== *)
theory Config
  imports Values
begin

text \<open>
  \<open>internal/config/config.go\<close>: the configuration, its defaults and the check of the namespace selector.
  Durations are nanoseconds. Reading the file and the environment is the library \<open>viper\<close>, a parameter
  of \<open>LoadConfig\<close>.
\<close>

section \<open>Data\<close>

record tlsconfig =
  TLSEnabled :: bool
  CertPath :: string
  KeyPath :: string
  CAPath :: string

record httpsink =
  SinkPort :: int
  SinkTimeout :: int
  SinkRetries :: int
  SinkTLS :: tlsconfig
  ProbeTimeout :: int
  ProbeBackoff :: int

record ksmcfg =
  KsmEnabled :: bool
  StaticURL :: string
  KsmScheme :: string
  KsmPort :: int
  KsmSelector :: string
  KsmNamespace :: string
  Distributed :: bool
  KsmTimeout :: int
  KsmRetries :: int
  KsmResourceQuotaSamples :: bool
  DiscoveryBackoffDelay :: int
  DiscoveryTimeout :: int

record kubeletcfg =
  KubeletEnabled :: bool
  FetchPodsFromKubeService :: bool
  KubeletPort :: "32 word"
  KubeletScheme :: string
  NetworkRouteFile :: string
  KubeletTimeout :: int
  KubeletRetries :: int
  ScraperMaxReruns :: int
  InitTimeout :: int
  InitBackoff :: int
  CABundlePath :: string

record mtls =
  TLSSecretName :: string
  TLSSecretNamespace :: string

record auth =
  AuthType :: string
  MTLS :: "mtls option"

record endpoint =
  EndpointURL :: string
  EndpointAuth :: "auth option"
  InsecureSkipVerify :: bool

record autodiscover =
  AutoNamespace :: string
  AutoSelector :: string
  MatchNode :: bool
  AutoEndpoints :: "endpoint list"

record controlplanecomponent =
  ComponentEnabled :: bool
  StaticEndpoint :: "endpoint option"
  Autodiscover :: "autodiscover list"

record controlplanecfg =
  ControlPlaneEnabled :: bool
  ETCD :: controlplanecomponent
  APIServer :: controlplanecomponent
  ControllerManager :: controlplanecomponent
  Scheduler :: controlplanecomponent
  ControlPlaneTimeout :: int
  ControlPlaneRetries :: int

text \<open>The values of a selector come from a YAML file and have dynamic types; a nil map or slice is \<open>None\<close>.\<close>

record expression =
  ExprKey :: string
  ExprOperator :: string
  ExprValues :: "goval list"

record namespaceselector =
  MatchLabels :: "(string, goval) gomap option"
  MatchExpressions :: "expression list option"

record config =
  Verbose :: bool
  LogLevel :: string
  CfgClusterName :: string
  DisableCloudClusterIDDetection :: bool
  KubeconfigPath :: string
  NodeIP :: string
  TestConnectionEndpoint :: string
  CfgNodeName :: string
  Interval :: int
  SinkType :: string
  SinkHTTP :: httpsink
  ControlPlane :: controlplanecfg
  Kubelet :: kubeletcfg
  KSM :: ksmcfg
  NamespaceSelector :: "namespaceselector option"

section \<open>Expressions\<close>

text \<open>\<open>for _, val := range e.Values\<close>: the first value that is not a string stops the loop.\<close>

fun stringValues :: "(goval \<Rightarrow> err) \<Rightarrow> goval list \<Rightarrow> string list result" where
  "stringValues bad [] = Ok []"
| "stringValues bad (v # vs) =
     (case v of VString s \<Rightarrow> rbind (stringValues bad vs) (\<lambda>ss. Ok (s # ss)) | _ \<Rightarrow> Fail (bad v))"

definition ExpressionString :: "expression \<Rightarrow> string result" where
  "ExpressionString e =
     rbind (stringValues (\<lambda>v. Err ''parsing expression invalid value: %v, type: %T'' [EVal v, EStr (goType v)] []) (ExprValues e))
       (\<lambda>values. Ok (ExprKey e @ '' '' @ ToLower (ExprOperator e) @ '' ('' @ joinWith '','' values @ '')''))"

section \<open>Check of the namespace selector\<close>

definition ErrInvalidMatchExpressionsValue :: err where
  "ErrInvalidMatchExpressionsValue = errorsNew ''invalid matchExpressions value''"

definition ErrInvalidMatchLabelsValue :: err where
  "ErrInvalidMatchLabelsValue = errorsNew ''invalid matchLabels value''"

definition invalidValue :: "err \<Rightarrow> goval \<Rightarrow> err" where
  "invalidValue cause v = Err ''%w: %v, type %T'' [EVal v, EStr (goType v)] [cause]"

definition checkNamespaceSelectorConfig :: "config \<Rightarrow> err option" where
  "checkNamespaceSelectorConfig c =
     (case NamespaceSelector c of
        None \<Rightarrow> None
      | Some ns \<Rightarrow>
          (case stringValues (invalidValue ErrInvalidMatchLabelsValue)
                  (case MatchLabels ns of Some m \<Rightarrow> map snd m | None \<Rightarrow> []) of
             Fail e \<Rightarrow> Some e
           | _ \<Rightarrow>
               (case stringValues (invalidValue ErrInvalidMatchExpressionsValue)
                       (case MatchExpressions ns of Some es \<Rightarrow> concat (map ExprValues es) | None \<Rightarrow> []) of
                  Fail e \<Rightarrow> Some e
                | _ \<Rightarrow> None)))"

section \<open>Loading\<close>

definition second :: int where "second = 1000000000"

definition DefaultTimeout :: int where "DefaultTimeout = 10 * second"
definition DefaultRetries :: int where "DefaultRetries = 3"
definition DefaultScraperMaxReruns :: int where "DefaultScraperMaxReruns = 4"
definition DefaultAgentTimeout :: int where "DefaultAgentTimeout = 3 * second"
definition DefaultProbeTimeout :: int where "DefaultProbeTimeout = 90 * second"
definition DefaultProbeBackoff :: int where "DefaultProbeBackoff = 5 * second"
definition DefaultNetworkRouteFile :: string where "DefaultNetworkRouteFile = ''/host/proc/1/net/route''"
definition SinkTypeHTTP :: string where "SinkTypeHTTP = ''http''"
definition SinkTypeStdout :: string where "SinkTypeStdout = ''stdout''"

text \<open>The defaults that are set before the file is read, in the order of the calls of \<open>SetDefault\<close>.\<close>

definition dur :: "int \<Rightarrow> goval" where "dur d = VInt64 (word_of_int d)"

definition defaults :: "(string, goval) gomap" where
  "defaults =
     [(''clusterName'', VString ''cluster''), (''disableCloudClusterIdDetection'', VBool False), (''verbose'', VBool False),
      (''kubelet|networkRouteFile'', VString DefaultNetworkRouteFile), (''nodeName'', VString ''node''), (''nodeIP'', VString ''node''),
      (''testConnectionEndpoint'', VString ''/healthz''),
      (''sink|type'', VString SinkTypeHTTP), (''sink|http|port'', VInt 0), (''sink|http|timeout'', dur DefaultAgentTimeout),
      (''sink|http|retries'', VInt (word_of_int DefaultRetries)), (''sink|http|probeTimeout'', dur DefaultProbeTimeout),
      (''sink|http|probeBackoff'', dur DefaultProbeBackoff),
      (''kubelet|timeout'', dur DefaultTimeout), (''kubelet|retries'', VInt (word_of_int DefaultRetries)),
      (''kubelet|scraperMaxReruns'', VInt (word_of_int DefaultScraperMaxReruns)), (''kubelet|fetchPodsFromKubeService'', VBool False),
      (''controlPlane|timeout'', dur DefaultTimeout), (''controlPlane|retries'', VInt (word_of_int DefaultRetries)),
      (''ksm|timeout'', dur DefaultTimeout), (''ksm|retries'', VInt (word_of_int DefaultRetries)),
      (''ksm|discovery|backoffDelay'', dur (7 * second)), (''ksm|discovery|timeout'', dur (60 * second)),
      (''ksm|enableResourceQuotaSamples'', VBool False)]"

text \<open>
  \<open>readInConfig\<close> and \<open>unmarshalExact\<close> are the calls of \<open>viper\<close>, given the defaults. The configuration is
  returned also when the check of the selector fails.
\<close>

definition LoadConfig ::
  "((string, goval) gomap \<Rightarrow> string list \<Rightarrow> string \<Rightarrow> err + 'v) \<Rightarrow> ('v \<Rightarrow> err + config) \<Rightarrow> string \<Rightarrow> string \<Rightarrow> config option \<times> err option" where
  "LoadConfig readInConfig unmarshalExact filePath fileName =
     (case readInConfig defaults [filePath, ''.''] fileName of
        Inl e \<Rightarrow> (None, Some e)
      | Inr v \<Rightarrow>
          (case unmarshalExact v of
             Inl e \<Rightarrow> (None, Some e)
           | Inr cfg \<Rightarrow> (Some cfg, checkNamespaceSelectorConfig cfg)))"

section \<open>What the check guarantees\<close>

lemma stringValues_Ok: "stringValues bad vs = Ok ss \<longleftrightarrow> vs = map VString ss"
proof (induction vs arbitrary: ss)
  case (Cons v vs)
  show ?case by (cases v; cases ss) (auto simp: rbind_Ok_iff Cons.IH)
qed auto

lemma stringValues_cases: "(\<exists>ss. stringValues bad vs = Ok ss) \<or> (\<exists>v. stringValues bad vs = Fail (bad v))"
  by (induction vs) (auto split: goval.split)

definition stringsOnly :: "namespaceselector \<Rightarrow> bool" where
  "stringsOnly ns \<longleftrightarrow>
     (\<forall>m. MatchLabels ns = Some m \<longrightarrow> (\<exists>ss. map snd m = map VString ss)) \<and>
     (\<forall>es. MatchExpressions ns = Some es \<longrightarrow> (\<forall>e \<in> set es. \<exists>ss. ExprValues e = map VString ss))"

lemma concat_strings:
  "(\<exists>ss. concat vss = map VString ss) \<longleftrightarrow> (\<forall>vs \<in> set vss. \<exists>ss. vs = map VString ss)"
proof (induction vss)
  case (Cons vs vss)
  then show ?case by (auto simp: append_eq_map_conv)
qed simp

text \<open>One pass of the check: it goes on to \<open>next\<close> exactly when every value is a string.\<close>

lemma stringValues_check:
  "(case stringValues bad vs of Fail e \<Rightarrow> Some e | _ \<Rightarrow> next) = None \<longleftrightarrow> (\<exists>ss. vs = map VString ss) \<and> next = None"
proof (cases "\<exists>ss. stringValues bad vs = Ok ss")
  case True
  then obtain ss where ok: "stringValues bad vs = Ok ss" by blast
  then have "vs = map VString ss" by (simp add: stringValues_Ok)
  with ok show ?thesis by auto
next
  case False
  then obtain v where "stringValues bad vs = Fail (bad v)" using stringValues_cases by blast
  moreover have "\<nexists>ss. vs = map VString ss" using False by (simp add: stringValues_Ok)
  ultimately show ?thesis by simp
qed

lemma check_stringsOnly:
  assumes "NamespaceSelector c = Some ns"
  shows "checkNamespaceSelectorConfig c = None \<longleftrightarrow> stringsOnly ns"
proof -
  have labels: "(\<exists>ss. (case MatchLabels ns of Some m \<Rightarrow> map snd m | None \<Rightarrow> []) = map VString ss)
      \<longleftrightarrow> (\<forall>m. MatchLabels ns = Some m \<longrightarrow> (\<exists>ss. map snd m = map VString ss))"
    by (cases "MatchLabels ns") simp_all
  have exprs: "(\<exists>ss. (case MatchExpressions ns of Some es \<Rightarrow> concat (map ExprValues es) | None \<Rightarrow> []) = map VString ss)
      \<longleftrightarrow> (\<forall>es. MatchExpressions ns = Some es \<longrightarrow> (\<forall>e \<in> set es. \<exists>ss. ExprValues e = map VString ss))"
    by (cases "MatchExpressions ns") (simp_all add: concat_strings)
  show ?thesis
    unfolding checkNamespaceSelectorConfig_def stringsOnly_def assms option.case(2) stringValues_check labels exprs by simp
qed

lemma ExpressionString_Ok:
  assumes "ExprValues e = map VString ss"
  shows "ExpressionString e = Ok (ExprKey e @ '' '' @ ToLower (ExprOperator e) @ '' ('' @ joinWith '','' ss @ '')'')"
proof -
  have "stringValues bad (ExprValues e) = Ok ss" for bad using assms by (simp add: stringValues_Ok)
  then show ?thesis by (simp add: ExpressionString_def)
qed

text \<open>An accepted configuration never reaches the error branch of \<open>String\<close>, as its comment says.\<close>

lemma loaded_expressions_print:
  assumes "LoadConfig readInConfig unmarshalExact filePath fileName = (Some cfg, None)"
    and "NamespaceSelector cfg = Some ns" "MatchExpressions ns = Some es" "e \<in> set es"
  shows "\<exists>s. ExpressionString e = Ok s"
proof -
  have "checkNamespaceSelectorConfig cfg = None"
    using assms(1) by (auto simp: LoadConfig_def split: sum.splits)
  then have "\<exists>ss. ExprValues e = map VString ss"
    using check_stringsOnly[OF assms(2)] assms(3,4) by (auto simp: stringsOnly_def)
  then show ?thesis using ExpressionString_Ok by blast
qed

text \<open>
  The comment of the chart shows the label \<open>newrelic.com/scrape: true\<close> without quotes. YAML reads a
  boolean there, and the check rejects it.
\<close>

lemma documented_label_rejected:
  assumes "NamespaceSelector c = Some ns" "MatchLabels ns = Some [(''newrelic.com/scrape'', VBool True)]"
  shows "checkNamespaceSelectorConfig c = Some (invalidValue ErrInvalidMatchLabelsValue (VBool True))"
  using assms by (simp add: checkNamespaceSelectorConfig_def)

end
