(* ===== verification/Retry.thy ===== *)
theory Retry
  imports Values
begin

text \<open>
  Loops that poll until something is there or a deadline has passed. The body of such a loop maps the
  state of the world to a result, on which the loop returns, or to the world in which it goes round.
  A loop that never returns has the value \<open>None\<close>; the lemmas say when it returns and what is known then.
\<close>

partial_function (option) untilDone :: "('w \<Rightarrow> 'r + 'w) \<Rightarrow> 'w \<Rightarrow> 'r option" where
  "untilDone body w = (case body w of Inl r \<Rightarrow> Some r | Inr w' \<Rightarrow> untilDone body w')"

lemma untilDone_simps:
  "body w = Inl r \<Longrightarrow> untilDone body w = Some r"
  "body w = Inr w' \<Longrightarrow> untilDone body w = untilDone body w'"
  by (simp_all add: untilDone.simps)

text \<open>What the body keeps true holds when the loop returns.\<close>

lemma untilDone_invariant:
  assumes "untilDone body w = Some r" "I w"
    and step: "\<And>w w'. I w \<Longrightarrow> body w = Inr w' \<Longrightarrow> I w'"
  shows "\<exists>w'. I w' \<and> body w' = Inl r"
proof -
  have "body = body \<longrightarrow> I w \<longrightarrow> (\<exists>w'. I w' \<and> body w' = Inl r)"
  proof (rule untilDone.raw_induct[where P = "\<lambda>b w r. b = body \<longrightarrow> I w \<longrightarrow> (\<exists>w'. I w' \<and> b w' = Inl r)", OF _ assms(1)])
    fix loop b w r
    assume "\<And>b w r. loop b w = Some r \<Longrightarrow> b = body \<longrightarrow> I w \<longrightarrow> (\<exists>w'. I w' \<and> b w' = Inl r)"
      and "(case b w of Inl r \<Rightarrow> Some r | Inr w' \<Rightarrow> loop b w') = Some r"
    then show "b = body \<longrightarrow> I w \<longrightarrow> (\<exists>w'. I w' \<and> b w' = Inl r)"
      using step by (cases "b w") auto
  qed
  then show ?thesis using assms(2) by simp
qed

lemma untilDone_last: "untilDone body w = Some r \<Longrightarrow> \<exists>w'. body w' = Inl r"
  using untilDone_invariant[of body w r "\<lambda>_. True"] by simp

lemma untilDone_returns:
  fixes m :: "'w \<Rightarrow> nat"
  assumes "\<And>w w'. body w = Inr w' \<Longrightarrow> m w' < m w"
  shows "\<exists>r. untilDone body w = Some r"
proof (induction w rule: measure_induct_rule[of m])
  case (less w)
  show ?case
  proof (cases "body w")
    case (Inr w')
    then show ?thesis using less[of w'] assms untilDone_simps(2) by metis
  qed (auto simp: untilDone_simps(1))
qed

section \<open>Calls of the outside world\<close>

text \<open>A call returns an error or a value and leaves another world; \<open>ioBind\<close> returns early on an error, wrapped.\<close>

type_synonym ('a, 'w) io = "'w \<Rightarrow> (err + 'a) \<times> 'w"

definition ioReturn :: "'a \<Rightarrow> ('a, 'w) io" where
  "ioReturn a w = (Inr a, w)"

definition ioFail :: "err \<Rightarrow> ('a, 'w) io" where
  "ioFail e w = (Inl e, w)"

definition ioBind :: "(err \<Rightarrow> err) \<Rightarrow> ('a, 'w) io \<Rightarrow> ('a \<Rightarrow> ('b, 'w) io) \<Rightarrow> ('b, 'w) io" where
  "ioBind wrap m f w = (case m w of (Inl e, w') \<Rightarrow> (Inl (wrap e), w') | (Inr a, w') \<Rightarrow> f a w')"

lemma ioBind_Inr: "ioBind wrap m f w = (Inr b, w') \<longleftrightarrow> (\<exists>a w1. m w = (Inr a, w1) \<and> f a w1 = (Inr b, w'))"
  by (auto simp: ioBind_def split: prod.splits sum.splits)

lemma ioReturn_Inr [simp]: "ioReturn a w = (Inr b, w') \<longleftrightarrow> b = a \<and> w' = w"
  by (auto simp: ioReturn_def)

lemma ioFail_Inr [simp]: "\<not> ioFail e w = (Inr b, w')"
  by (simp add: ioFail_def)

section \<open>Time\<close>

text \<open>\<open>time.Now\<close> and \<open>time.Sleep\<close>, in nanoseconds; a negative or zero duration does not sleep.\<close>

record 'w clock =
  Now :: "'w \<Rightarrow> int"
  Sleep :: "int \<Rightarrow> 'w \<Rightarrow> 'w"

definition ticks :: "'w clock \<Rightarrow> bool" where
  "ticks clk \<longleftrightarrow> (\<forall>d w. Now clk w + max 0 d \<le> Now clk (Sleep clk d w))"

text \<open>A call during which time does not go backwards.\<close>

definition forward :: "'w clock \<Rightarrow> ('w \<Rightarrow> 'a \<times> 'w) \<Rightarrow> bool" where
  "forward clk call \<longleftrightarrow> (\<forall>w. Now clk w \<le> Now clk (snd (call w)))"

lemma forward_ioReturn: "forward clk (ioReturn a)" and forward_ioFail: "forward clk (ioFail e)"
  by (simp_all add: forward_def ioReturn_def ioFail_def)

lemma forward_ioBind: "forward clk m \<Longrightarrow> (\<And>a. forward clk (f a)) \<Longrightarrow> forward clk (ioBind wrap m f)"
  unfolding forward_def ioBind_def by (auto split: prod.split sum.split) (metis order_trans snd_conv)+

lemmas forward_intros = forward_ioReturn forward_ioFail forward_ioBind

lemma ticksD: "ticks clk \<Longrightarrow> 0 \<le> d \<Longrightarrow> Now clk w + d \<le> Now clk (Sleep clk d w)"
  unfolding ticks_def by (metis max.absorb2)

lemma forwardD: "forward clk call \<Longrightarrow> call w = (a, w') \<Longrightarrow> Now clk w \<le> Now clk w'"
  unfolding forward_def by (metis snd_conv)

text \<open>A round that is only started before the deadline and takes some time cannot repeat forever.\<close>

lemma untilDone_deadline:
  assumes "\<And>w w'. body w = Inr w' \<Longrightarrow> Now clk w < deadline \<and> Now clk w < Now clk w'"
  shows "\<exists>r. untilDone body w = Some r"
  by (rule untilDone_returns[where m = "\<lambda>w. nat (deadline - Now clk w)"]) (use assms in force)

text \<open>A world that is only a clock, for the witnesses.\<close>

definition bareClock :: "int clock" where
  "bareClock = \<lparr>Now = (\<lambda>t. t), Sleep = (\<lambda>d t. t + max 0 d)\<rparr>"

lemma ticks_bareClock: "ticks bareClock"
  by (simp add: ticks_def bareClock_def)

end
