(* ===== verification/Definition.thy ===== *)
theory Definition
  imports Values
begin

text \<open>
  \<open>src/definition\<close> and \<open>src/data\<close>: fetch functions over the raw groups, their combinators, metric
  specifications, the guesser of event types, and the error groups and populate results that the
  scrape jobs exchange.

  A fetch function is a function of the group label, the entity ID and the raw groups. One fetch
  function of the kubelet also reads and writes a cache, so a specification holds the stateful form,
  over a cache of any type, and \<open>liftFetch\<close> embeds the others.
\<close>

section \<open>Fetch functions (\<open>fetch.go\<close>)\<close>

type_synonym fetchfunc = "string \<Rightarrow> string \<Rightarrow> rawgroups \<Rightarrow> goval result"
type_synonym filterfunc = "goval \<Rightarrow> string \<Rightarrow> string \<Rightarrow> rawgroups \<Rightarrow> goval result"
type_synonym transformfunc = "goval \<Rightarrow> goval result"
type_synonym 'c sfetch = "string \<Rightarrow> string \<Rightarrow> rawgroups \<Rightarrow> 'c \<Rightarrow> goval result \<times> 'c"

definition liftFetch :: "fetchfunc \<Rightarrow> 'c sfetch" where
  "liftFetch f gl eid gs c = (f gl eid gs, c)"

definition errGroup :: "string \<Rightarrow> err" where
  "errGroup g = Errorf ''group %q not found'' [g] []"

definition errEntity :: "string \<Rightarrow> err" where
  "errEntity e = Errorf ''entity %q not found'' [e] []"

definition errMetric :: "string \<Rightarrow> err" where
  "errMetric m = Errorf ''metric %q not found'' [m] []"

definition FromRaw :: "string \<Rightarrow> fetchfunc" where
  "FromRaw metricKey groupLabel entityID groups =
     (case mget groups groupLabel of
        None \<Rightarrow> Fail (errGroup groupLabel)
      | Some grp \<Rightarrow>
          (case mget grp entityID of
             None \<Rightarrow> Fail (errEntity entityID)
           | Some entity \<Rightarrow>
               (case mget entity metricKey of
                  None \<Rightarrow> Fail (errMetric metricKey)
                | Some v \<Rightarrow> Ok v)))"

definition Transform :: "fetchfunc \<Rightarrow> transformfunc \<Rightarrow> fetchfunc" where
  "Transform fetchFunc transformFunc groupLabel entityID groups =
     rbind (fetchFunc groupLabel entityID groups) transformFunc"

definition TransformAndFilter :: "fetchfunc \<Rightarrow> transformfunc \<Rightarrow> filterfunc \<Rightarrow> fetchfunc" where
  "TransformAndFilter fetchFunc transformFunc filterFunc groupLabel entityID groups =
     rbind (fetchFunc groupLabel entityID groups) (\<lambda>fetchedVal.
     rbind (transformFunc fetchedVal) (\<lambda>fetchedVal.
     filterFunc fetchedVal groupLabel entityID groups))"

text \<open>The raw metric that a fetch looks at.\<close>

definition rawMetric :: "rawgroups \<Rightarrow> string \<Rightarrow> string \<Rightarrow> string \<Rightarrow> goval option" where
  "rawMetric groups gl eid k =
     Option.bind (mget groups gl) (\<lambda>grp. Option.bind (mget grp eid) (\<lambda>entity. mget entity k))"

lemma FromRaw_Ok_iff: "FromRaw k gl eid gs = Ok v \<longleftrightarrow> rawMetric gs gl eid k = Some v"
  by (auto simp: FromRaw_def rawMetric_def split: option.splits)

lemma FromRaw_fail:
  "rawMetric gs gl eid k = None \<Longrightarrow> \<exists>e \<in> {errGroup gl, errEntity eid, errMetric k}. FromRaw k gl eid gs = Fail e"
  by (auto simp: FromRaw_def rawMetric_def split: option.splits)

lemma FromRaw_no_panic [simp]: "\<not> is_panic (FromRaw k gl eid gs)"
  by (auto simp: FromRaw_def split: option.splits)

lemma FromRaw_eq:
  "rawMetric gs gl eid k = Some v \<Longrightarrow> FromRaw k gl eid gs = Ok v"
  by (simp add: FromRaw_Ok_iff)

section \<open>Specifications (\<open>spec.go\<close>)\<close>

text \<open>\<open>metric.SourceType\<close> of the SDK, the types the specifications use.\<close>

datatype sourcetype = GAUGE | RATE | DELTA | PRATE | PDELTA | ATTRIBUTE

record 'c spec =
  SName :: string
  ValueFunc :: "'c sfetch"
  SType :: sourcetype
  Optional :: bool

type_synonym idgenerator = "string \<Rightarrow> string \<Rightarrow> rawgroups \<Rightarrow> string result"
type_synonym typegenerator = "string \<Rightarrow> string \<Rightarrow> rawgroups \<Rightarrow> string \<Rightarrow> string result"
type_synonym guessfunc = "string \<Rightarrow> string result"

text \<open>Function fields that may be nil are options.\<close>

record 'c specgroup =
  IDGenerator :: "idgenerator option"
  TypeGenerator :: "typegenerator option"
  NamespaceGetter :: "(rawmetrics \<Rightarrow> string) option"
  MsTypeGuesser :: "guessfunc option"
  Specs :: "'c spec list"
  SplitByLabel :: string
  SliceMetricName :: string

type_synonym 'c specgroups = "(string, 'c specgroup) gomap"

section \<open>Event types (\<open>guessfunc.go\<close>)\<close>

definition K8sMetricSetTypeGuesser :: guessfunc where
  "K8sMetricSetTypeGuesser groupLabel =
     Ok (''K8s'' @ concat (map Title (splitOn (CHR ''-'') groupLabel)) @ ''Sample'')"

section \<open>Error groups and populate results (\<open>src/data/group.go\<close>)\<close>

record errorgroup =
  Recoverable :: bool
  Errors :: "err list"

definition EGAppend :: "errorgroup \<Rightarrow> err list \<Rightarrow> errorgroup" where
  "EGAppend g errs = g\<lparr>Errors := Errors g @ errs\<rparr>"

definition EGString :: "errorgroup \<Rightarrow> string" where
  "EGString g = (if Recoverable g then ''Recoverable'' else ''Non-recoverable'') @ '' error group: ''
     @ joinWith '', '' (map errMsg (Errors g))"

record populateresult =
  PErrors :: "err list"
  Populated :: bool

fun PRError :: "populateresult \<Rightarrow> string" where
  "PRError e = foldl (\<lambda>s er. s @ '', '' @ errMsg er) ''populate errors:'' (PErrors e)"

end
