(* ===== verification/Prometheus_Query.thy ===== *)
theory Prometheus_Query
  imports Definition
begin

text \<open>
  \<open>src/prometheus/query.go\<close>, \<open>metric.go\<close> and \<open>http.go\<close>: queries over the metric families of an
  endpoint, the filter that removes families of unsupported OpenMetrics types before the text is
  parsed, and the handling of a response. The text parser (\<open>expfmt\<close>), the HTTP client and the
  rendering of a summary are parameters.
\<close>

section \<open>The client model\<close>

text \<open>\<open>model.MetricType\<close>, \<open>model.Metric\<close> and \<open>model.MetricFamily\<close>.\<close>

datatype metrictype = MT_COUNTER | MT_GAUGE | MT_SUMMARY | MT_UNTYPED | MT_HISTOGRAM | MT_GAUGE_HISTOGRAM

fun mtString :: "metrictype \<Rightarrow> string" where
  "mtString MT_COUNTER = ''COUNTER''"
| "mtString MT_GAUGE = ''GAUGE''"
| "mtString MT_SUMMARY = ''SUMMARY''"
| "mtString MT_UNTYPED = ''UNTYPED''"
| "mtString MT_HISTOGRAM = ''HISTOGRAM''"
| "mtString MT_GAUGE_HISTOGRAM = ''GAUGE_HISTOGRAM''"

record prommetric =
  PLabel :: "(string \<times> string) list"
  Counter :: "float64 option"
  Gauge :: "float64 option"
  Summary :: "summary option"

record promfamily =
  PName :: string
  PType :: metrictype
  PMetric :: "prommetric list"

text \<open>The getters of the client model return the zero value on a nil message.\<close>

definition getVal :: "float64 option \<Rightarrow> float64" where
  "getVal o' = (case o' of None \<Rightarrow> Fin 0 | Some v \<Rightarrow> v)"

section \<open>Values and labels (\<open>metric.go\<close>)\<close>

text \<open>
  \<open>String\<close> of a value; the rendering of a summary is the client model's, a parameter. The nil
  interface has no method; the callers test for it first.
\<close>

fun pvString :: "(summary option \<Rightarrow> string) \<Rightarrow> pvalue \<Rightarrow> string" where
  "pvString ss (CounterValue v) = FormatFloat v"
| "pvString ss (GaugeValue v) = FormatFloat v"
| "pvString ss (SummaryPtr s) = ss s"
| "pvString ss (NoValue s) = s"
| "pvString ss NilValue = []"

definition votes :: "labels \<Rightarrow> (string \<times> string) list \<Rightarrow> nat" where
  "votes l p = sum_list (map (\<lambda>(name, v). length (filter (\<lambda>(pn, pv). pn = name \<and> pv = v) p)) l)"

definition AreIn :: "labels \<Rightarrow> (string \<times> string) list \<Rightarrow> bool" where
  "AreIn l p = (votes l p = length l)"

definition valid :: "metricfamily \<Rightarrow> bool" where
  "valid f = (FName f \<noteq> [] \<and> FType f \<noteq> [] \<and> length (Metrics f) > 0)"

section \<open>Queries\<close>

datatype queryop = QueryOpAnd | QueryOpNor

record query =
  CustomName :: string
  MetricName :: string
  QLabelsOp :: queryop
  QLabels :: labels
  QValueOp :: queryop
  QVal :: pvalue

definition labelsFromPrometheus :: "(string \<times> string) list \<Rightarrow> labels" where
  "labelsFromPrometheus pairs = foldl (\<lambda>labels (n, v). mput n v labels) [] pairs"

fun valueFromPrometheus :: "metrictype \<Rightarrow> prommetric \<Rightarrow> pvalue" where
  "valueFromPrometheus MT_COUNTER m = CounterValue (getVal (Counter m))"
| "valueFromPrometheus MT_GAUGE m = GaugeValue (getVal (Gauge m))"
| "valueFromPrometheus MT_HISTOGRAM m = SummaryPtr (Summary m)"
| "valueFromPrometheus MT_SUMMARY m = SummaryPtr (Summary m)"
| "valueFromPrometheus _ m = EmptyValue"

text \<open>The body of the loop of \<open>Execute\<close>: whether the metric passes the label and the value test.\<close>

definition labelsPass :: "query \<Rightarrow> prommetric \<Rightarrow> bool" where
  "labelsPass q pm =
     (if length (QLabels q) > 0 then
        (case QLabelsOp q of
           QueryOpAnd \<Rightarrow> AreIn (QLabels q) (PLabel pm)
         | QueryOpNor \<Rightarrow> \<not> AreIn (QLabels q) (PLabel pm))
      else True)"

definition valuePass :: "(summary option \<Rightarrow> string) \<Rightarrow> query \<Rightarrow> pvalue \<Rightarrow> bool" where
  "valuePass ss q v =
     (if QVal q \<noteq> NilValue then
        (case QValueOp q of
           QueryOpAnd \<Rightarrow> pvString ss (QVal q) = pvString ss v
         | QueryOpNor \<Rightarrow> pvString ss (QVal q) \<noteq> pvString ss v)
      else True)"

fun execLoop :: "(summary option \<Rightarrow> string) \<Rightarrow> query \<Rightarrow> metrictype \<Rightarrow> prommetric list \<Rightarrow> metric list \<Rightarrow> metric list" where
  "execLoop ss q t [] matches = matches"
| "execLoop ss q t (pm # pms) matches =
     (if \<not> labelsPass q pm then execLoop ss q t pms matches
      else (let v = valueFromPrometheus t pm in
            if \<not> valuePass ss q v then execLoop ss q t pms matches
            else execLoop ss q t pms
                   (matches @ [\<lparr>Labels = labelsFromPrometheus (PLabel pm), MValue = v\<rparr>])))"

definition zeroFamily :: metricfamily where
  "zeroFamily = \<lparr>FName = [], FType = [], Metrics = []\<rparr>"

definition Execute :: "(summary option \<Rightarrow> string) \<Rightarrow> query \<Rightarrow> promfamily \<Rightarrow> metricfamily" where
  "Execute ss q f =
     (if PName f \<noteq> MetricName q then zeroFamily
      else if length (PMetric f) \<le> 0 then zeroFamily
      else \<lparr>FName = (if CustomName q \<noteq> [] then CustomName q else PName f),
            FType = mtString (PType f),
            Metrics = execLoop ss q (PType f) (PMetric f) []\<rparr>)"

section \<open>Filtering of unsupported metric types\<close>

definition minTypeFields :: nat where "minTypeFields = 4"
definition minHelpFields :: nat where "minHelpFields = 3"

definition isUnsupportedMetricType :: "string \<Rightarrow> bool" where
  "isUnsupportedMetricType metricType = (metricType = ''info'' \<or> metricType = ''stateset'')"

definition handleTypeDeclaration :: "string \<Rightarrow> bool \<times> string" where
  "handleTypeDeclaration line =
     (let parts = Fields line in
      if length parts < minTypeFields then (False, [])
      else if isUnsupportedMetricType (parts ! 3) then (True, parts ! 2)
      else (False, []))"

definition handleHelpDeclaration :: "string \<Rightarrow> bool \<Rightarrow> string \<Rightarrow> bool \<times> string" where
  "handleHelpDeclaration line currentlySkipping currentMetricName =
     (let parts = Fields line in
      if length parts < minHelpFields then (currentlySkipping, currentMetricName)
      else if currentlySkipping \<and> currentMetricName \<noteq> [] \<and> parts ! 2 \<noteq> currentMetricName then (False, [])
      else (currentlySkipping, currentMetricName))"

definition shouldSkipLine :: "string \<Rightarrow> string \<Rightarrow> bool" where
  "shouldSkipLine line currentMetricName =
     ((HasPrefix line ''# HELP '' \<and>
       (let parts = Fields line in length parts \<ge> minHelpFields \<and> parts ! 2 = currentMetricName))
      \<or> \<not> HasPrefix line ''#'')"

record filterstate =
  filteredLines :: "string list"
  skippedMetrics :: "string list"
  skipUntilNextFamily :: bool
  currentMetric :: string

definition initFilter :: filterstate where
  "initFilter = \<lparr>filteredLines = [], skippedMetrics = [], skipUntilNextFamily = False, currentMetric = []\<rparr>"

text \<open>The body of the scanner loop; the two declarations are handled one after the other.\<close>

definition keepLine :: "filterstate \<Rightarrow> string \<Rightarrow> string \<Rightarrow> filterstate" where
  "keepLine st trimmed line =
     (let st = (if HasPrefix trimmed ''# HELP '' then
                  (case handleHelpDeclaration trimmed (skipUntilNextFamily st) (currentMetric st) of
                     (sk, cur) \<Rightarrow> st\<lparr>skipUntilNextFamily := sk, currentMetric := cur\<rparr>)
                else st)
      in if skipUntilNextFamily st \<and> shouldSkipLine trimmed (currentMetric st) then st
         else st\<lparr>filteredLines := filteredLines st @ [line]\<rparr>)"

definition filterLine :: "filterstate \<Rightarrow> string \<Rightarrow> filterstate" where
  "filterLine st line =
     (let trimmed = TrimSpace line in
      if trimmed = [] then
        (if \<not> skipUntilNextFamily st then st\<lparr>filteredLines := filteredLines st @ [line]\<rparr> else st)
      else if HasPrefix trimmed ''# TYPE '' then
        (case handleTypeDeclaration trimmed of (sk, cur) \<Rightarrow>
           let st = st\<lparr>skipUntilNextFamily := sk, currentMetric := cur\<rparr> in
           if sk then st\<lparr>skippedMetrics := skippedMetrics st @ [cur]\<rparr>
           else keepLine st trimmed line)
      else keepLine st trimmed line)"

text \<open>
  \<open>bufio.Scanner\<close> with \<open>ScanLines\<close> and a buffer of 1 MiB: lines end at a newline, a trailing carriage
  return is dropped, an empty rest after the last newline is no line, and a line that does not fit in
  the buffer together with its newline stops the scan with \<open>ErrTooLong\<close>. A body is its content and
  the error, if any, that the reader returns after it.
\<close>

definition maxScanTokenSize :: nat where
  "maxScanTokenSize = 1024 * 1024"

definition errTooLong :: err where
  "errTooLong = errorsNew ''bufio.Scanner: token too long''"

definition dropCR :: "string \<Rightarrow> string" where
  "dropCR l = TrimSuffix l [CHR 0x0D]"

definition rawLines :: "string \<Rightarrow> string list" where
  "rawLines s = (let ls = splitOn (CHR 0x0A) s in if last ls = [] then butlast ls else ls)"

record body =
  Content :: string
  ReadErr :: "err option"

definition scannedLines :: "body \<Rightarrow> string list" where
  "scannedLines b = map dropCR (takeWhile (\<lambda>l. length l < maxScanTokenSize) (rawLines (Content b)))"

definition scannerErr :: "body \<Rightarrow> err option" where
  "scannerErr b =
     (if \<exists>l \<in> set (rawLines (Content b)). \<not> length l < maxScanTokenSize then Some errTooLong else ReadErr b)"

definition filterUnsupportedMetrics :: "body \<Rightarrow> string result \<times> string list" where
  "filterUnsupportedMetrics b =
     (let st = foldl filterLine initFilter (scannedLines b) in
      case scannerErr b of
        Some e \<Rightarrow> (Fail (Errorf ''reading metrics body: %w'' [] [e]), skippedMetrics st)
      | None \<Rightarrow> (Ok (joinWith [CHR 0x0A] (filteredLines st) @ [CHR 0x0A]), skippedMetrics st))"

section \<open>Responses\<close>

text \<open>
  The text parser returns the families it read, in the order in which the code visits the map, and
  possibly an error; both can be present.
\<close>

type_synonym textparser = "string \<Rightarrow> promfamily list \<times> err option"

definition parseResponse :: "textparser \<Rightarrow> body \<Rightarrow> promfamily list \<times> err option" where
  "parseResponse parser b =
     (case filterUnsupportedMetrics b of
        (Ok filtered, _) \<Rightarrow>
          (case parser filtered of (mfs, e) \<Rightarrow>
             (mfs, map_option (\<lambda>er. Errorf ''reading text format failed: %w'' [] [er]) e))
      | (Fail e, _) \<Rightarrow> ([], Some (Errorf ''filtering unsupported metrics: %w'' [] [e]))
      | (Panic p, _) \<Rightarrow> ([], None))"

record httpresponse =
  StatusCode :: int
  Body :: body

record httprequest =
  Method :: string
  URL :: string
  Header :: "(string, string) gomap"

text \<open>
  \<open>handleResponseWithFilter\<close>. \<open>parseResponse\<close> runs in a goroutine and closes the channel before its
  error is assigned to the variable that the caller reads after the channel is closed. The two
  accesses are not ordered: \<open>late\<close> says that the caller reads the variable before it is assigned.
\<close>

definition handleResponseWithFilter ::
  "(summary option \<Rightarrow> string) \<Rightarrow> textparser \<Rightarrow> bool \<Rightarrow> httpresponse option \<Rightarrow> query list \<Rightarrow> metricfamily list result" where
  "handleResponseWithFilter ss parser late resp queries =
     (case resp of
        None \<Rightarrow> Fail (errorsNew ''response cannot be nil'')
      | Some r \<Rightarrow>
          if StatusCode r \<noteq> 200 then
            Fail (Errorf ''error calling prometheus exposed metrics endpoint. Got status code: %d'' [Itoa (StatusCode r)] [])
          else
            (case parseResponse parser (Body r) of (families, perr) \<Rightarrow>
               let metrics = concat (map (\<lambda>pf. filter valid (map (\<lambda>q. Execute ss q pf) queries)) families);
                   err = (if late then None else perr);
                   err = (if err \<noteq> None \<and> length metrics > 0 then None else err)
               in case err of
                    Some e \<Rightarrow> Fail (Errorf ''parsing metrics: %w'' [] [e])
                  | None \<Rightarrow> Ok metrics))"

definition AcceptHeader :: string where
  "AcceptHeader = ''text/plain''"

text \<open>\<open>http.NewRequest\<close> fails on a URL that does not parse.\<close>

definition NewRequest :: "(string \<Rightarrow> err option) \<Rightarrow> string \<Rightarrow> httprequest result" where
  "NewRequest urlErr url =
     (case urlErr url of
        Some e \<Rightarrow> Fail e
      | None \<Rightarrow> Ok \<lparr>Method = ''GET'', URL = url, Header = mput ''Accept'' AcceptHeader []\<rparr>)"

definition GetFilteredMetricFamilies ::
  "(summary option \<Rightarrow> string) \<Rightarrow> textparser \<Rightarrow> bool \<Rightarrow> (string \<Rightarrow> err option) \<Rightarrow> (httprequest \<Rightarrow> httpresponse option result)
     \<Rightarrow> string \<Rightarrow> query list \<Rightarrow> metricfamily list result" where
  "GetFilteredMetricFamilies ss parser late urlErr Do url queries =
     rbindw (\<lambda>e. Errorf ''building request: %w'' [] [e]) (NewRequest urlErr url) (\<lambda>req.
     rbindw (\<lambda>e. Errorf ''fetching metrics from %q: %w'' [url] [e]) (Do req) (\<lambda>resp.
     handleResponseWithFilter ss parser late resp queries))"

section \<open>Correctness of queries\<close>

lemma execLoop_eq:
  "execLoop ss q t pms acc = acc @
     map (\<lambda>pm. \<lparr>Labels = labelsFromPrometheus (PLabel pm), MValue = valueFromPrometheus t pm\<rparr>)
       (filter (\<lambda>pm. labelsPass q pm \<and> valuePass ss q (valueFromPrometheus t pm)) pms)"
  by (induction pms arbitrary: acc) (auto simp: Let_def)

lemma count_pairs: "distinct p \<Longrightarrow> length (filter (\<lambda>(pn, pv). pn = n \<and> pv = v) p) = (if (n, v) \<in> set p then 1 else 0)"
  by (induction p) (auto split: if_splits)

lemma votes_eq: "distinct p \<Longrightarrow> votes l p = length (filter (\<lambda>x. x \<in> set p) l)"
  unfolding votes_def by (induction l) (auto simp: count_pairs)

lemma AreIn_iff: "distinct p \<Longrightarrow> AreIn l p \<longleftrightarrow> set l \<subseteq> set p"
  by (auto simp: AreIn_def votes_eq length_filter_eq_iff)

lemma labelsFromPrometheus_snoc:
  "labelsFromPrometheus (ps @ [(n, v)]) = mput n v (labelsFromPrometheus ps)"
  by (simp add: labelsFromPrometheus_def)

lemma wfmap_labelsFromPrometheus [simp]: "wfmap (labelsFromPrometheus ps)"
  by (induction ps rule: rev_induct) (auto simp: labelsFromPrometheus_snoc, simp add: labelsFromPrometheus_def)

lemma mget_labelsFromPrometheus: "mget (labelsFromPrometheus ps) n = mget (rev ps) n"
  by (induction ps rule: rev_induct) (auto simp: labelsFromPrometheus_snoc, simp add: labelsFromPrometheus_def)

text \<open>
  The meaning of a query, stated on sets of labels and on numbers: with \<open>And\<close> every label of the
  query is a label of the metric, with \<open>Nor\<close> one of them is not; the value test compares numbers.
\<close>

definition queryMatches :: "query \<Rightarrow> metrictype \<Rightarrow> prommetric \<Rightarrow> bool" where
  "queryMatches q t pm \<longleftrightarrow>
     (QLabels q = [] \<or> (QLabelsOp q = QueryOpAnd) = (set (QLabels q) \<subseteq> set (PLabel pm))) \<and>
     (case QVal q of
        NilValue \<Rightarrow> True
      | GaugeValue x \<Rightarrow>
          (case valueFromPrometheus t pm of
             GaugeValue y \<Rightarrow> (QValueOp q = QueryOpAnd) = (x = y)
           | CounterValue y \<Rightarrow> (QValueOp q = QueryOpAnd) = (x = y)
           | _ \<Rightarrow> False)
      | _ \<Rightarrow> False)"

definition toMetric :: "metrictype \<Rightarrow> prommetric \<Rightarrow> metric" where
  "toMetric t pm = \<lparr>Labels = labelsFromPrometheus (PLabel pm), MValue = valueFromPrometheus t pm\<rparr>"

definition wfProm :: "prommetric \<Rightarrow> bool" where
  "wfProm pm \<longleftrightarrow> distinct (PLabel pm) \<and> is_f64 (getVal (Counter pm)) \<and> is_f64 (getVal (Gauge pm))"

text \<open>A query by labels alone works on every family; a query by number on counters and gauges.\<close>

definition numericQuery :: "query \<Rightarrow> metrictype \<Rightarrow> bool" where
  "numericQuery q t \<longleftrightarrow> QVal q = NilValue \<or> (\<exists>x. QVal q = GaugeValue x \<and> is_f64 x \<and> t \<in> {MT_COUNTER, MT_GAUGE})"

lemma labelsPass_iff: "distinct (PLabel pm) \<Longrightarrow>
  labelsPass q pm \<longleftrightarrow> QLabels q = [] \<or> (QLabelsOp q = QueryOpAnd) = (set (QLabels q) \<subseteq> set (PLabel pm))"
  by (auto simp: labelsPass_def AreIn_iff split: queryop.splits)

lemma valuePass_gauge:
  assumes "is_f64 x" "is_f64 y" "v = GaugeValue y \<or> v = CounterValue y" "QVal q = GaugeValue x"
  shows "valuePass ss q v \<longleftrightarrow> (QValueOp q = QueryOpAnd) = (x = y)"
  using assms by (auto simp: valuePass_def FormatFloat_inject split: queryop.splits)

lemma queryMatches_iff:
  assumes "wfProm pm" "numericQuery q t"
  shows "labelsPass q pm \<and> valuePass ss q (valueFromPrometheus t pm) \<longleftrightarrow> queryMatches q t pm"
proof (cases "QVal q")
  case (GaugeValue x)
  then have t: "t \<in> {MT_COUNTER, MT_GAUGE}" "is_f64 x" using assms(2) by (auto simp: numericQuery_def)
  then have "valuePass ss q (valueFromPrometheus t pm) \<longleftrightarrow>
      (QValueOp q = QueryOpAnd) = (x = (if t = MT_COUNTER then getVal (Counter pm) else getVal (Gauge pm)))"
    using assms(1) GaugeValue by (intro valuePass_gauge) (auto simp: wfProm_def)
  then show ?thesis using assms(1) t GaugeValue by (auto simp: queryMatches_def labelsPass_iff wfProm_def)
next
  case NilValue
  then show ?thesis using assms by (simp add: queryMatches_def labelsPass_iff wfProm_def valuePass_def)
qed (use assms in \<open>simp_all add: numericQuery_def\<close>)

text \<open>
  C16: A query on a family of its name gives the metrics of the family that match it, in their order, under the custom
  name of the query or else the name of the family, with the type of the family; a family of another name or
  without metrics gives the empty family. The label vote count of the code means set inclusion: with \<open>QueryOpAnd\<close> a
  metric has all the labels of the query, with \<open>QueryOpNor\<close> it lacks at least one of them. The comparison of printed values means
  equality of numbers, which counters and gauges have. No metric repeats a label pair.
\<close>

theorem Execute_selects:
  assumes "\<forall>pm \<in> set (PMetric f). wfProm pm" "numericQuery q (PType f)"
  shows "Execute ss q f =
    (if PName f = MetricName q \<and> PMetric f \<noteq> []
     then \<lparr>FName = (if CustomName q = [] then MetricName q else CustomName q), FType = mtString (PType f),
            Metrics = map (toMetric (PType f)) (filter (queryMatches q (PType f)) (PMetric f))\<rparr>
     else zeroFamily)"
proof -
  have "filter (\<lambda>pm. labelsPass q pm \<and> valuePass ss q (valueFromPrometheus (PType f) pm)) (PMetric f)
      = filter (queryMatches q (PType f)) (PMetric f)"
    using assms queryMatches_iff by (intro filter_cong refl) blast
  then show ?thesis by (simp add: Execute_def execLoop_eq toMetric_def)
qed

theorem Execute_selects_witness:
  "Execute (\<lambda>_. []) \<lparr>CustomName = ''pending'', MetricName = ''m'', QLabelsOp = QueryOpNor, QLabels = [(''phase'', ''Pending''), (''pod'', ''a'')],
       QValueOp = QueryOpAnd, QVal = GaugeValue (Fin 1)\<rparr>
     \<lparr>PName = ''m'', PType = MT_GAUGE, PMetric =
       [\<lparr>PLabel = [(''pod'', ''a''), (''phase'', ''Pending'')], Counter = None, Gauge = Some (Fin 1), Summary = None\<rparr>,
        \<lparr>PLabel = [(''pod'', ''b''), (''phase'', ''Pending'')], Counter = None, Gauge = Some (Fin 1), Summary = None\<rparr>,
        \<lparr>PLabel = [(''pod'', ''c'')], Counter = None, Gauge = Some (Fin 0), Summary = None\<rparr>]\<rparr>
   = \<lparr>FName = ''pending'', FType = ''GAUGE'', Metrics = [\<lparr>Labels = [(''pod'', ''b''), (''phase'', ''Pending'')], MValue = GaugeValue (Fin 1)\<rparr>]\<rparr>"
  by (subst Execute_selects)
     (auto simp: wfProm_def numericQuery_def is_f64_def getVal_def queryMatches_def toMetric_def labelsFromPrometheus_def)

text \<open>A family that does not have the name of the query, or is empty, gives the invalid zero family.\<close>

lemma valid_Execute_iff:
  "valid (Execute ss q f) \<longleftrightarrow>
     PName f = MetricName q \<and> (CustomName q \<noteq> [] \<or> PName f \<noteq> []) \<and> Metrics (Execute ss q f) \<noteq> []"
  by (cases "PType f") (auto simp: Execute_def valid_def zeroFamily_def)

section \<open>Correctness of the type filter\<close>

text \<open>
  The exposition format as blocks: the HELP lines of a family, its TYPE line, its samples.
\<close>

record fblock =
  fbName :: string
  fbKind :: string
  fbHelp :: "string list"
  fbType :: string
  fbSamples :: "string list"

definition blines :: "fblock \<Rightarrow> string list" where
  "blines b = fbHelp b @ [fbType b] @ fbSamples b"

definition isHelpOf :: "string \<Rightarrow> string \<Rightarrow> bool" where
  "isHelpOf name l = (let t = TrimSpace l; p = Fields t in
     HasPrefix t ''# HELP '' \<and> 3 \<le> length p \<and> p ! 2 = name)"

definition isTypeOf :: "string \<Rightarrow> string \<Rightarrow> string \<Rightarrow> bool" where
  "isTypeOf name kind l = (let t = TrimSpace l; p = Fields t in
     HasPrefix t ''# TYPE '' \<and> 4 \<le> length p \<and> p ! 2 = name \<and> p ! 3 = kind)"

definition isSample :: "string \<Rightarrow> bool" where
  "isSample l = (let t = TrimSpace l in t \<noteq> [] \<and> \<not> HasPrefix t ''#'')"

definition wfblock :: "fblock \<Rightarrow> bool" where
  "wfblock b \<longleftrightarrow> fbName b \<noteq> [] \<and> (\<forall>l \<in> set (fbHelp b). isHelpOf (fbName b) l) \<and>
     isTypeOf (fbName b) (fbKind b) (fbType b) \<and> (\<forall>l \<in> set (fbSamples b). isSample l)"

definition unsupported :: "fblock \<Rightarrow> bool" where
  "unsupported b = isUnsupportedMetricType (fbKind b)"

text \<open>What the filter keeps of a block: all of a supported one, the HELP lines of another.\<close>

definition bkept :: "fblock \<Rightarrow> string list" where
  "bkept b = (if unsupported b then fbHelp b else blines b)"

lemma help_not_type: "HasPrefix t ''# HELP '' \<Longrightarrow> \<not> HasPrefix t ''# TYPE ''"
  by (auto simp: HasPrefix_def prefix_def)

lemma comment_nonempty: "HasPrefix t (c # cs) \<Longrightarrow> t \<noteq> []"
  by (auto simp: HasPrefix_def)

lemma help_hash: "HasPrefix t ''# HELP '' \<Longrightarrow> HasPrefix t ''#''"
  by (auto simp: HasPrefix_def prefix_def)

lemma filterLine_help:
  assumes "isHelpOf n l" "skipUntilNextFamily st \<longrightarrow> currentMetric st \<noteq> [] \<and> currentMetric st \<noteq> n"
    "\<not> skipUntilNextFamily st \<longrightarrow> currentMetric st = []"
  shows "filterLine st l = st\<lparr>filteredLines := filteredLines st @ [l], skipUntilNextFamily := False, currentMetric := []\<rparr>"
proof -
  let ?t = "TrimSpace l"
  have h: "HasPrefix ?t ''# HELP ''" "3 \<le> length (Fields ?t)" "Fields ?t ! 2 = n"
    using assms(1) by (auto simp: isHelpOf_def Let_def)
  have "handleHelpDeclaration ?t (skipUntilNextFamily st) (currentMetric st) = (False, [])"
    using assms(2,3) h by (auto simp: handleHelpDeclaration_def Let_def minHelpFields_def)
  then show ?thesis using h(1) comment_nonempty[OF h(1)] help_not_type[OF h(1)]
    by (simp add: filterLine_def keepLine_def Let_def)
qed

lemma filterLine_type:
  assumes "isTypeOf n k l"
  shows "filterLine st l =
    (if isUnsupportedMetricType k
     then st\<lparr>skippedMetrics := skippedMetrics st @ [n], skipUntilNextFamily := True, currentMetric := n\<rparr>
     else st\<lparr>filteredLines := filteredLines st @ [l], skipUntilNextFamily := False, currentMetric := []\<rparr>)"
proof -
  let ?t = "TrimSpace l"
  have h: "HasPrefix ?t ''# TYPE ''" "4 \<le> length (Fields ?t)" "Fields ?t ! 2 = n" "Fields ?t ! 3 = k"
    using assms by (auto simp: isTypeOf_def Let_def)
  have "handleTypeDeclaration ?t = (if isUnsupportedMetricType k then (True, n) else (False, []))"
    using h by (auto simp: handleTypeDeclaration_def Let_def minTypeFields_def)
  moreover have "\<not> HasPrefix ?t ''# HELP ''" using help_not_type h(1) by blast
  ultimately show ?thesis using h(1) comment_nonempty[OF h(1)]
    by (auto simp: filterLine_def keepLine_def Let_def)
qed

lemma filterLine_sample:
  assumes "isSample l"
  shows "filterLine st l = (if skipUntilNextFamily st then st else st\<lparr>filteredLines := filteredLines st @ [l]\<rparr>)"
proof -
  have "\<not> HasPrefix (TrimSpace l) ''# TYPE ''" "\<not> HasPrefix (TrimSpace l) ''# HELP ''"
    using assms by (auto simp: isSample_def Let_def HasPrefix_def prefix_def)
  then show ?thesis using assms
    by (auto simp: filterLine_def keepLine_def isSample_def shouldSkipLine_def Let_def)
qed

lemma foldl_samples:
  "\<forall>l \<in> set ls. isSample l \<Longrightarrow> foldl filterLine st ls =
     (if skipUntilNextFamily st then st else st\<lparr>filteredLines := filteredLines st @ ls\<rparr>)"
  by (induction ls arbitrary: st) (auto simp: filterLine_sample)

lemma foldl_help:
  "\<forall>l \<in> set ls. isHelpOf n l \<Longrightarrow> ls \<noteq> [] \<Longrightarrow>
   skipUntilNextFamily st \<longrightarrow> currentMetric st \<noteq> [] \<and> currentMetric st \<noteq> n \<Longrightarrow>
   \<not> skipUntilNextFamily st \<longrightarrow> currentMetric st = [] \<Longrightarrow>
   foldl filterLine st ls = st\<lparr>filteredLines := filteredLines st @ ls, skipUntilNextFamily := False, currentMetric := []\<rparr>"
proof (induction ls arbitrary: st)
  case (Cons l ls)
  then have "filterLine st l = st\<lparr>filteredLines := filteredLines st @ [l], skipUntilNextFamily := False, currentMetric := []\<rparr>"
    by (intro filterLine_help[where n = n]) auto
  then show ?case using Cons by (cases "ls = []") auto
qed simp

definition stepBlock :: "filterstate \<Rightarrow> fblock \<Rightarrow> filterstate" where
  "stepBlock st b = st\<lparr>filteredLines := filteredLines st @ bkept b,
     skippedMetrics := skippedMetrics st @ (if unsupported b then [fbName b] else []),
     skipUntilNextFamily := unsupported b, currentMetric := (if unsupported b then fbName b else [])\<rparr>"

lemma foldl_block:
  assumes "wfblock b" "skipUntilNextFamily st \<longrightarrow> currentMetric st \<noteq> [] \<and> currentMetric st \<noteq> fbName b"
    "\<not> skipUntilNextFamily st \<longrightarrow> currentMetric st = []"
  shows "foldl filterLine st (blines b) = stepBlock st b"
  using assms
  by (cases "fbHelp b = []")
     (auto simp: blines_def wfblock_def foldl_help filterLine_type foldl_samples stepBlock_def bkept_def unsupported_def)

lemma foldl_blocks:
  assumes "\<forall>b \<in> set bs. wfblock b" "distinct (map fbName bs)"
    "skipUntilNextFamily st \<longrightarrow> currentMetric st \<noteq> [] \<and> currentMetric st \<notin> fbName ` set bs"
    "\<not> skipUntilNextFamily st \<longrightarrow> currentMetric st = []"
  shows "filteredLines (foldl filterLine st (concat (map blines bs))) = filteredLines st @ concat (map bkept bs)
    \<and> skippedMetrics (foldl filterLine st (concat (map blines bs))) = skippedMetrics st @ map fbName (filter unsupported bs)"
  using assms
proof (induction bs arbitrary: st)
  case (Cons b bs)
  have "foldl filterLine st (blines b) = stepBlock st b" using Cons.prems by (intro foldl_block) auto
  moreover have "fbName b \<noteq> []" using Cons.prems by (simp add: wfblock_def)
  ultimately show ?case using Cons.prems Cons.IH[of "stepBlock st b"] by (auto simp: stepBlock_def)
qed simp

text \<open>
  On a well-formed exposition, with one block per family, the filter removes exactly the TYPE
  line and the samples of the families of type \<open>info\<close> or \<open>stateset\<close>, keeps every line of the other
  families in order, and reports the names of the removed families.
\<close>

lemma filterUnsupportedMetrics_blocks:
  assumes "scannedLines b = concat (map blines bs)" "scannerErr b = None"
    and "\<forall>f \<in> set bs. wfblock f" "distinct (map fbName bs)"
  shows "filterUnsupportedMetrics b =
    (Ok (joinWith [CHR 0x0A] (concat (map (\<lambda>f. if isUnsupportedMetricType (fbKind f) then fbHelp f else blines f) bs)) @ [CHR 0x0A]),
     map fbName (filter (\<lambda>f. isUnsupportedMetricType (fbKind f)) bs))"
proof -
  have "bkept = (\<lambda>f. if isUnsupportedMetricType (fbKind f) then fbHelp f else blines f)"
    by (auto simp: bkept_def unsupported_def)
  moreover have "unsupported = (\<lambda>f. isUnsupportedMetricType (fbKind f))" by (auto simp: unsupported_def)
  ultimately show ?thesis
    using foldl_blocks[OF assms(3,4), of initFilter] assms(1,2)
    by (simp add: filterUnsupportedMetrics_def Let_def initFilter_def)
qed

section \<open>The type filter on any text\<close>

text \<open>The lines of an exposition, whatever their order: TYPE and HELP declarations, blank lines, other comments and samples.\<close>

definition isType :: "string \<Rightarrow> bool" where
  "isType l \<longleftrightarrow> HasPrefix (TrimSpace l) ''# TYPE ''"

definition unsupportedType :: "string \<Rightarrow> bool" where
  "unsupportedType l \<longleftrightarrow> isType l \<and> 4 \<le> length (Fields (TrimSpace l)) \<and> Fields (TrimSpace l) ! 3 \<in> {''info'', ''stateset''}"

definition declaredName :: "string \<Rightarrow> string" where
  "declaredName l = Fields (TrimSpace l) ! 2"

definition isHelp :: "string \<Rightarrow> bool" where
  "isHelp l \<longleftrightarrow> HasPrefix (TrimSpace l) ''# HELP '' \<and> 3 \<le> length (Fields (TrimSpace l))"

definition isComment :: "string \<Rightarrow> bool" where
  "isComment l \<longleftrightarrow> HasPrefix (TrimSpace l) ''#''"

text \<open>The lines that end the family \<open>n\<close>: any TYPE line, and the HELP line of another family.\<close>

definition endsFamily :: "string \<Rightarrow> string \<Rightarrow> bool" where
  "endsFamily n l \<longleftrightarrow> isType l \<or> isHelp l \<and> declaredName l \<noteq> n"

text \<open>After the lines \<open>before\<close> the unsupported family \<open>n\<close> is open: it was declared, and nothing has ended it since.\<close>

definition inUnsupported :: "string list \<Rightarrow> string \<Rightarrow> bool" where
  "inUnsupported before n \<longleftrightarrow>
     (\<exists>xs t ys. before = xs @ t # ys \<and> unsupportedType t \<and> declaredName t = n \<and> (\<forall>l \<in> set ys. \<not> endsFamily n l))"

text \<open>
  The lines that belong to an unsupported family: its TYPE line and, while it is open, its HELP lines, blank lines and samples.
\<close>

definition unsupportedLine :: "string list \<Rightarrow> string \<Rightarrow> bool" where
  "unsupportedLine before l \<longleftrightarrow> unsupportedType l \<or>
     (\<exists>n. inUnsupported before n \<and> \<not> endsFamily n l \<and> (isHelp l \<or> \<not> isComment l))"

lemma inUnsupported_Nil [simp]: "\<not> inUnsupported [] n"
  by (simp add: inUnsupported_def)

lemma inUnsupported_snoc:
  "inUnsupported (before @ [l]) n \<longleftrightarrow> unsupportedType l \<and> declaredName l = n \<or> inUnsupported before n \<and> \<not> endsFamily n l"
proof
  assume "inUnsupported (before @ [l]) n"
  then obtain xs t ys where x: "before @ [l] = xs @ t # ys" "unsupportedType t" "declaredName t = n" "\<forall>l \<in> set ys. \<not> endsFamily n l"
    by (auto simp: inUnsupported_def)
  show "unsupportedType l \<and> declaredName l = n \<or> inUnsupported before n \<and> \<not> endsFamily n l"
  proof (cases ys rule: rev_cases)
    case (snoc zs z)
    then have "before = xs @ t # zs" "l = z" using x(1) by simp_all
    then show ?thesis using x snoc by (auto simp: inUnsupported_def)
  qed (use x in simp)
next
  assume "unsupportedType l \<and> declaredName l = n \<or> inUnsupported before n \<and> \<not> endsFamily n l"
  then show "inUnsupported (before @ [l]) n"
  proof
    assume "unsupportedType l \<and> declaredName l = n"
    then show ?thesis unfolding inUnsupported_def by (intro exI[of _ before] exI[of _ l] exI[of _ "[]"]) simp
  next
    assume "inUnsupported before n \<and> \<not> endsFamily n l"
    then obtain xs t ys where "before = xs @ t # ys" "unsupportedType t" "declaredName t = n" "\<forall>l \<in> set (ys @ [l]). \<not> endsFamily n l"
      by (auto simp: inUnsupported_def)
    then show ?thesis unfolding inUnsupported_def by (intro exI[of _ xs] exI[of _ t] exI[of _ "ys @ [l]"]) simp
  qed
qed

lemma Fields_nonempty: "p \<in> set (Fields s) \<Longrightarrow> p \<noteq> []"
proof (induction s rule: Fields.induct)
  case (1 s)
  show ?case
  proof (cases "dropWhile isSpace s")
    case (Cons c cs)
    then have "\<not> isSpace c" by (simp add: dropWhile_eq_Cons_conv)
    then show ?thesis using 1 Cons by (auto simp: Fields.simps[of s])
  next
    case Nil
    have "Fields s = []" by (subst Fields.simps) (simp only: Nil list.case)
    then show ?thesis using 1 by simp
  qed
qed

text \<open>The state of the loop knows the open family.\<close>

definition tracks :: "string list \<Rightarrow> filterstate \<Rightarrow> bool" where
  "tracks before st \<longleftrightarrow> (\<forall>n. inUnsupported before n \<longleftrightarrow> skipUntilNextFamily st \<and> currentMetric st = n) \<and>
     (skipUntilNextFamily st \<longrightarrow> currentMetric st \<noteq> [])"

lemma declared_nonempty: "unsupportedType l \<Longrightarrow> declaredName l \<noteq> []"
  using Fields_nonempty[of "Fields (TrimSpace l) ! 2" "TrimSpace l"] by (simp add: unsupportedType_def declaredName_def)

lemma tracks_snoc:
  assumes "tracks before st"
    and "skipUntilNextFamily st' \<longleftrightarrow> unsupportedType l \<or> skipUntilNextFamily st \<and> \<not> endsFamily (currentMetric st) l"
    and "skipUntilNextFamily st' \<Longrightarrow> currentMetric st' = (if unsupportedType l then declaredName l else currentMetric st)"
  shows "tracks (before @ [l]) st'"
proof -
  have "unsupportedType l \<Longrightarrow> endsFamily n l" for n by (simp add: unsupportedType_def endsFamily_def)
  then show ?thesis using assms declared_nonempty[of l] by (auto simp: tracks_def inUnsupported_snoc)
qed

lemma filterLine_step:
  assumes "tracks before st"
  shows "filteredLines (filterLine st l) = filteredLines st @ (if unsupportedLine before l then [] else [l]) \<and>
    skippedMetrics (filterLine st l) = skippedMetrics st @ (if unsupportedType l then [declaredName l] else []) \<and>
    tracks (before @ [l]) (filterLine st l)"
proof -
  let ?t = "TrimSpace l"
  have line: "unsupportedLine before l \<longleftrightarrow> unsupportedType l \<or>
      skipUntilNextFamily st \<and> \<not> endsFamily (currentMetric st) l \<and> (isHelp l \<or> \<not> isComment l)"
    using assms by (auto simp: unsupportedLine_def tracks_def)
  consider (blank) "?t = []" | (decl) "isType l" | (hlp) "\<not> isType l" "HasPrefix ?t ''# HELP ''" | (other) "?t \<noteq> []" "\<not> isType l" "\<not> HasPrefix ?t ''# HELP ''"
    by blast
  then show ?thesis
  proof cases
    case blank
    then have no: "\<not> isType l" "\<not> isHelp l" "\<not> isComment l" "\<not> unsupportedType l"
      by (simp_all add: isType_def isHelp_def isComment_def unsupportedType_def HasPrefix_def)
    have f: "filterLine st l = (if skipUntilNextFamily st then st else st\<lparr>filteredLines := filteredLines st @ [l]\<rparr>)"
      using blank by (simp add: filterLine_def)
    then have "tracks (before @ [l]) (filterLine st l)" using assms no by (intro tracks_snoc[OF assms]) (auto simp: endsFamily_def)
    then show ?thesis using f no line by (auto simp: endsFamily_def)
  next
    case decl
    then have h: "HasPrefix ?t ''# TYPE ''" "\<not> HasPrefix ?t ''# HELP ''" "isComment l" "?t \<noteq> []"
      using help_not_type comment_nonempty by (auto simp: isType_def isComment_def HasPrefix_def prefix_def)
    have d: "handleTypeDeclaration ?t = (if unsupportedType l then (True, declaredName l) else (False, []))"
      using decl by (auto simp: handleTypeDeclaration_def Let_def minTypeFields_def unsupportedType_def isUnsupportedMetricType_def declaredName_def)
    have f: "filterLine st l = (if unsupportedType l
        then st\<lparr>skippedMetrics := skippedMetrics st @ [declaredName l], skipUntilNextFamily := True, currentMetric := declaredName l\<rparr>
        else st\<lparr>filteredLines := filteredLines st @ [l], skipUntilNextFamily := False, currentMetric := []\<rparr>)"
      using h by (simp add: filterLine_def d keepLine_def Let_def)
    have e: "endsFamily n l" for n using decl by (simp add: endsFamily_def)
    have "tracks (before @ [l]) (filterLine st l)" using f e by (intro tracks_snoc[OF assms]) auto
    then show ?thesis using f line e by auto
  next
    case hlp
    then have h: "\<not> HasPrefix ?t ''# TYPE ''" "?t \<noteq> []" "HasPrefix ?t ''#''" "\<not> unsupportedType l"
      using comment_nonempty[OF hlp(2)] help_hash by (auto simp: isType_def unsupportedType_def)
    have ends: "endsFamily n l \<longleftrightarrow> isHelp l \<and> declaredName l \<noteq> n" for n using hlp(1) by (simp add: endsFamily_def)
    have d: "handleHelpDeclaration ?t (skipUntilNextFamily st) (currentMetric st) =
        (if skipUntilNextFamily st \<and> endsFamily (currentMetric st) l then (False, []) else (skipUntilNextFamily st, currentMetric st))"
      using assms hlp(2) unfolding ends
      by (auto simp: handleHelpDeclaration_def Let_def minHelpFields_def isHelp_def declaredName_def tracks_def)
    have sk: "shouldSkipLine ?t n \<longleftrightarrow> isHelp l \<and> declaredName l = n" for n
      using hlp(2) h(3) by (auto simp: shouldSkipLine_def isHelp_def declaredName_def minHelpFields_def Let_def)
    have f: "filterLine st l = (if skipUntilNextFamily st \<and> endsFamily (currentMetric st) l
        then st\<lparr>filteredLines := filteredLines st @ [l], skipUntilNextFamily := False, currentMetric := []\<rparr>
        else if skipUntilNextFamily st \<and> isHelp l then st else st\<lparr>filteredLines := filteredLines st @ [l]\<rparr>)"
      using h hlp(2) by (auto simp: filterLine_def keepLine_def d sk ends)
    have "tracks (before @ [l]) (filterLine st l)" using f h(4) by (intro tracks_snoc[OF assms]) (auto simp: ends)
    moreover have "isComment l" using h(3) by (simp add: isComment_def)
    ultimately show ?thesis using f line h(4) by auto
  next
    case other
    have no: "\<not> isHelp l" "\<not> unsupportedType l" "\<not> endsFamily n l" for n
      using other by (simp_all add: isHelp_def unsupportedType_def endsFamily_def)
    have f: "filterLine st l = (if skipUntilNextFamily st \<and> \<not> isComment l then st else st\<lparr>filteredLines := filteredLines st @ [l]\<rparr>)"
      using other by (simp add: filterLine_def keepLine_def shouldSkipLine_def isType_def isComment_def Let_def)
    then have "tracks (before @ [l]) (filterLine st l)" using no by (intro tracks_snoc[OF assms]) auto
    then show ?thesis using f line no by auto
  qed
qed

lemma filterLines_kept:
  "filteredLines (foldl filterLine initFilter ls) = map ((!) ls) (filter (\<lambda>i. \<not> unsupportedLine (take i ls) (ls ! i)) [0..<length ls]) \<and>
   skippedMetrics (foldl filterLine initFilter ls) = map declaredName (filter unsupportedType ls) \<and>
   tracks ls (foldl filterLine initFilter ls)"
proof (induction ls rule: rev_induct)
  case Nil
  show ?case by (simp add: initFilter_def tracks_def)
next
  case (snoc l ls)
  let ?P = "\<lambda>ls i. \<not> unsupportedLine (take i ls) (ls ! i)"
  have "map ((!) (ls @ [l])) (filter (?P (ls @ [l])) [0..<length ls]) = map ((!) ls) (filter (?P ls) [0..<length ls])"
    by (intro map_cong filter_cong refl) (auto simp: nth_append)
  then show ?case using snoc filterLine_step[of ls "foldl filterLine initFilter ls" l] by simp
qed

text \<open>
  C14: For every body, whatever the order of its lines, the filter keeps, in order, exactly the lines that do not belong to a family
  of the types \<open>info\<close> and \<open>stateset\<close>: it removes the TYPE line of such a family and, up to the next TYPE line or the
  HELP line of another family, its samples, its later HELP lines and blank lines. A HELP line before the TYPE line stays, and so do
  the other comments. The names of the removed families are reported. A body that cannot be scanned to its end is an error.
\<close>

theorem filterUnsupportedMetrics_exact:
  "filterUnsupportedMetrics b =
    (let ls = scannedLines b in
     (case scannerErr b of
        Some e \<Rightarrow> Fail (Errorf ''reading metrics body: %w'' [] [e])
      | None \<Rightarrow> Ok (joinWith [CHR 0x0A] (map ((!) ls) (filter (\<lambda>i. \<not> unsupportedLine (take i ls) (ls ! i)) [0..<length ls])) @ [CHR 0x0A]),
      map declaredName (filter unsupportedType ls)))"
  using filterLines_kept[of "scannedLines b"] by (simp add: filterUnsupportedMetrics_def Let_def split: option.split)

definition exampleBody :: body where
  "exampleBody = \<lparr>Content = ''# HELP a h'' @ [CHR 0x0A] @ ''# TYPE a info'' @ [CHR 0x0A] @ ''a{} 1'' @ [CHR 0x0A]
     @ ''# TYPE b gauge'' @ [CHR 0x0A] @ ''b 2'' @ [CHR 0x0A], ReadErr = None\<rparr>"

definition exampleBlocks :: "fblock list" where
  "exampleBlocks =
     [\<lparr>fbName = ''a'', fbKind = ''info'', fbHelp = [''# HELP a h''], fbType = ''# TYPE a info'', fbSamples = [''a{} 1'']\<rparr>,
      \<lparr>fbName = ''b'', fbKind = ''gauge'', fbHelp = [], fbType = ''# TYPE b gauge'', fbSamples = [''b 2'']\<rparr>]"

lemma example_lines: "scannedLines exampleBody = concat (map blines exampleBlocks)"
  by (simp add: scannedLines_def rawLines_def dropCR_def TrimSuffix_def suffix_to_prefix maxScanTokenSize_def
      exampleBody_def exampleBlocks_def blines_def)

lemma example_noerr: "scannerErr exampleBody = None"
  by (simp add: scannerErr_def rawLines_def maxScanTokenSize_def exampleBody_def)

lemma example_wf: "list_all wfblock exampleBlocks \<and> distinct (map fbName exampleBlocks)"
  by code_simp

text \<open>The filter on this body.\<close>

lemma example_filtered:
  "filterUnsupportedMetrics exampleBody =
     (Ok (''# HELP a h'' @ [CHR 0x0A] @ ''# TYPE b gauge'' @ [CHR 0x0A] @ ''b 2'' @ [CHR 0x0A]), [''a''])"
  using filterUnsupportedMetrics_blocks[OF example_lines example_noerr] example_wf
  by (simp add: list_all_iff exampleBlocks_def isUnsupportedMetricType_def blines_def)

section \<open>Correctness of the response handling\<close>

lemma metrics_valid:
  "f \<in> set (concat (map (\<lambda>pf. filter valid (map (\<lambda>q. Execute ss q pf) queries)) families)) \<Longrightarrow> valid f"
  by auto

text \<open>
  The families returned for a response with status 200 are the valid results of the queries on
  the parsed families, family by family; a parse error is returned only when no query matched, and a
  response with another status is an error.
\<close>

lemma handleResponse_result:
  "handleResponseWithFilter ss parser False (Some r) queries =
     (let (families, perr) = parseResponse parser (Body r);
          ms = concat (map (\<lambda>pf. filter valid (map (\<lambda>q. Execute ss q pf) queries)) families) in
      if StatusCode r \<noteq> 200 then
        Fail (Errorf ''error calling prometheus exposed metrics endpoint. Got status code: %d'' [Itoa (StatusCode r)] [])
      else if ms = [] \<and> perr \<noteq> None then Fail (Errorf ''parsing metrics: %w'' [] [the perr])
      else Ok ms)"
  by (auto simp: handleResponseWithFilter_def Let_def split: prod.splits option.splits)

text \<open>
  The error of the parser is lost when the caller reads the variable before the goroutine has
  assigned it: a body from which nothing could be parsed is then reported as a success without
  metrics. The channel is closed before the assignment, so the program does not exclude this order.
\<close>

lemma handleResponse_lost_error:
  assumes "StatusCode r = 200" "parseResponse parser (Body r) = ([], Some e)"
  shows "handleResponseWithFilter ss parser True (Some r) queries = Ok []
    \<and> handleResponseWithFilter ss parser False (Some r) queries = Fail (Errorf ''parsing metrics: %w'' [] [e])"
  using assms by (simp add: handleResponseWithFilter_def)

theorem handleResponse_lost_error_witness:
  "handleResponseWithFilter (\<lambda>_. []) (\<lambda>_. ([], Some (errorsNew ''bad''))) True
     (Some \<lparr>StatusCode = 200, Body = \<lparr>Content = [], ReadErr = None\<rparr>\<rparr>) [] = Ok []"
  using handleResponse_lost_error[of "\<lparr>StatusCode = 200, Body = \<lparr>Content = [], ReadErr = None\<rparr>\<rparr>"
      "\<lambda>_. ([], Some (errorsNew ''bad''))" "Errorf ''reading text format failed: %w'' [] [errorsNew ''bad'']" "\<lambda>_. []" "[]"]
  by (simp add: parseResponse_def filterUnsupportedMetrics_def scannerErr_def scannedLines_def rawLines_def Let_def)

end
