(* ===== verification/Network_Route.thy ===== *)
theory Network_Route
  imports Prometheus_Query
begin

text \<open>
  \<open>src/network\<close>: the default interface of the node, read from the routing table of the kernel. Opening and
  reading the file is a parameter; the check of its path and the parser are modelled with the functions
  of Go's library that they call.
\<close>

section \<open>Paths\<close>

text \<open>\<open>filepath.Clean\<close> on Unix: the lexical processing of empty, dot and dot-dot elements.\<close>

definition cleanElem :: "bool \<Rightarrow> string list \<Rightarrow> string \<Rightarrow> string list" where
  "cleanElem rooted out e =
     (if e = '''' \<or> e = ''.'' then out
      else if e = ''..'' then
        (if out \<noteq> [] \<and> last out \<noteq> ''..'' then butlast out else if rooted then out else out @ [e])
      else out @ [e])"

definition Clean :: "string \<Rightarrow> string" where
  "Clean path =
     (if path = [] then ''.''
      else
        let rooted = (hd path = CHR ''/'');
            out = joinWith ''/'' (foldl (cleanElem rooted) [] (splitOn (CHR ''/'') path))
        in if rooted then ''/'' @ out else if out = [] then ''.'' else out)"

definition errRouteFilePathNotAllowed :: err where
  "errRouteFilePathNotAllowed = errorsNew ''networkRouteFile is not under an allowed path''"

definition allowedPrefixes :: "string list" where
  "allowedPrefixes = [''/proc/'', ''/sys/'', ''/host/proc/'', ''/host/sys/'']"

definition validateRouteFilePath :: "string \<Rightarrow> err option" where
  "validateRouteFilePath routeFilePath =
     (if \<exists>prefix \<in> set allowedPrefixes. HasPrefix (Clean routeFilePath) prefix then None
      else Some (Errorf ''%w: %q (allowed prefixes: %v)'' [routeFilePath, ''['' @ joinWith '' '' allowedPrefixes @ '']''] [errRouteFilePathNotAllowed]))"

section \<open>Routes\<close>

text \<open>
  \<open>strconv.ParseInt(s, 0, 64)\<close> of a text that starts with \<open>0x\<close>, here without that prefix: hexadecimal
  digits, with single underscores allowed between digits and after the prefix.
\<close>

definition hexDigit :: "char \<Rightarrow> nat option" where
  "hexDigit c =
     (let n = of_char c :: nat in
      if isDigit c then Some (n - 48)
      else if 97 \<le> n \<and> n \<le> 102 then Some (n - 87)
      else if 65 \<le> n \<and> n \<le> 70 then Some (n - 55)
      else None)"

fun underscoreOK :: "bool \<Rightarrow> string \<Rightarrow> bool" where
  "underscoreOK digit [] = digit"
| "underscoreOK digit (c # cs) = (if c = CHR ''_'' then digit \<and> underscoreOK False cs else underscoreOK True cs)"

fun hexValue :: "nat \<Rightarrow> string \<Rightarrow> nat option" where
  "hexValue acc [] = Some acc"
| "hexValue acc (c # cs) =
     (if c = CHR ''_'' then hexValue acc cs
      else case hexDigit c of None \<Rightarrow> None | Some d \<Rightarrow> hexValue (16 * acc + d) cs)"

definition ErrSyntax :: err where "ErrSyntax = errorsNew ''invalid syntax''"
definition ErrRange :: err where "ErrRange = errorsNew ''value out of range''"

definition ParseInt0x :: "string \<Rightarrow> int result" where
  "ParseInt0x s =
     (if s = [] then Fail (Errorf ''strconv.ParseInt: parsing %q: %w'' [''0x'' @ s] [ErrSyntax])
      else case hexValue 0 s of
        None \<Rightarrow> Fail (Errorf ''strconv.ParseInt: parsing %q: %w'' [''0x'' @ s] [ErrSyntax])
      | Some n \<Rightarrow>
          if \<not> underscoreOK True s then Fail (Errorf ''strconv.ParseInt: parsing %q: %w'' [''0x'' @ s] [ErrSyntax])
          else if n \<ge> 2 ^ 63 then Fail (Errorf ''strconv.ParseInt: parsing %q: %w'' [''0x'' @ s] [ErrRange])
          else Ok (int n))"

fun findRoute :: "string list \<Rightarrow> string result" where
  "findRoute [] = Fail (errorsNew ''couldn't find interface with default destination'')"
| "findRoute (row # rows) =
     (let tokens = splitOn (CHR 0x09) row in
      if length tokens \<le> 1 then Fail (Errorf ''invalid row '%s' in route file'' [row] [])
      else
        rbindw (\<lambda>e. Errorf ''parsing destination field hex '%s' in row '%s': %w'' [''0x'' @ tokens ! 1, row] [e])
          (ParseInt0x (tokens ! 1)) (\<lambda>destination.
            if destination = 0 then Ok (tokens ! 0) else findRoute rows))"

text \<open>The lines that a scanner with the default buffer of 64 KiB returns; an error of the scanner ends the loop like the end of the file.\<close>

definition routeLines :: "string \<Rightarrow> string list" where
  "routeLines route = map dropCR (takeWhile (\<lambda>l. length l < 65536) (rawLines route))"

definition findDefaultInterface :: "string \<Rightarrow> string result" where
  "findDefaultInterface route =
     (case routeLines route of
        [] \<Rightarrow> Fail (Errorf ''invalid linux route file: %s'' [route] [])
      | _ # rows \<Rightarrow> findRoute rows)"

text \<open>\<open>openFile\<close> stands for \<open>os.Open\<close> and \<open>io.ReadAll\<close>: a failure to open hides its cause.\<close>

definition routeFileContent :: "(string \<Rightarrow> (err + string) option) \<Rightarrow> string \<Rightarrow> string result" where
  "routeFileContent openFile routeFile =
     (case openFile routeFile of
        None \<Rightarrow> Fail (Errorf ''Can't access %s'' [routeFile] [])
      | Some (Inl e) \<Rightarrow> Fail (Errorf ''reading route file %s: %w'' [routeFile] [e])
      | Some (Inr data) \<Rightarrow> Ok data)"

definition getDefaultInterface :: "(string \<Rightarrow> (err + string) option) \<Rightarrow> string \<Rightarrow> string result" where
  "getDefaultInterface openFile routeFile0 =
     (let routeFile = (if routeFile0 = [] then ''/proc/net/route'' else routeFile0) in
      case validateRouteFilePath routeFile of
        Some e \<Rightarrow> Fail e
      | None \<Rightarrow>
          rbindw (\<lambda>e. Errorf ''getting routes content from file %s: %w'' [routeFile] [e])
            (routeFileContent openFile routeFile) findDefaultInterface)"

definition DefaultInterface :: "(string \<Rightarrow> (err + string) option) \<Rightarrow> string \<Rightarrow> string result" where
  "DefaultInterface openFile routeFile = getDefaultInterface openFile routeFile"

section \<open>Accepted paths\<close>

text \<open>The directory that a path leads to from the root, element by element; the parent of the root is the root.\<close>

definition enter :: "string list \<Rightarrow> string \<Rightarrow> string list" where
  "enter dir e = (if e = '''' \<or> e = ''.'' then dir else if e = ''..'' then butlast dir else dir @ [e])"

definition walk :: "string \<Rightarrow> string list" where
  "walk path = foldl enter [] (splitOn (CHR ''/'') path)"

definition plainElem :: "string \<Rightarrow> bool" where
  "plainElem e \<longleftrightarrow> e \<noteq> [] \<and> e \<noteq> ''..'' \<and> CHR ''/'' \<notin> set e"

lemma splitOn_elems: "e \<in> set (splitOn c s) \<Longrightarrow> c \<notin> set e"
  by (induction s arbitrary: e) (auto split: if_splits list.splits)

lemma cleanElem_enter:
  "\<forall>e \<in> set es. CHR ''/'' \<notin> set e \<Longrightarrow> \<forall>e \<in> set out. plainElem e \<Longrightarrow>
   foldl (cleanElem True) out es = foldl enter out es \<and> (\<forall>e \<in> set (foldl enter out es). plainElem e)"
proof (induction es arbitrary: out)
  case (Cons e es)
  have "cleanElem True out e = enter out e"
    using Cons.prems(2) by (cases out rule: rev_cases) (auto simp: cleanElem_def enter_def plainElem_def)
  moreover have "\<forall>x \<in> set (enter out e). plainElem x"
    using Cons.prems by (auto simp: enter_def plainElem_def dest: in_set_butlastD)
  ultimately show ?case using Cons by simp
qed simp

lemma Clean_rooted: "Clean (CHR ''/'' # p) = ''/'' @ joinWith ''/'' (walk (CHR ''/'' # p))"
  using cleanElem_enter[of "splitOn (CHR ''/'') (CHR ''/'' # p)" "[]"] splitOn_elems
  by (simp add: Clean_def walk_def)

lemma walk_plain: "e \<in> set (walk p) \<Longrightarrow> plainElem e"
  using cleanElem_enter[of "splitOn (CHR ''/'') p" "[]"] splitOn_elems by (auto simp: walk_def)

text \<open>A cleaned relative path does not start with a slash.\<close>

lemma joinWith_hd: "\<forall>e \<in> set es. e \<noteq> [] \<and> c \<notin> set e \<Longrightarrow> joinWith sep es \<noteq> c # t"
  by (induction sep es rule: joinWith.induct) (auto simp: append_eq_Cons_conv)

lemma cleanElem_mem: "x \<in> set (cleanElem rooted out e) \<Longrightarrow> x \<in> set out \<or> x = e \<and> e \<noteq> []"
  unfolding cleanElem_def by (simp split: if_splits) (metis in_set_butlastD)+

lemma cleanElem_relative:
  "x \<in> set (foldl (cleanElem rooted) out es) \<Longrightarrow> x \<in> set out \<or> x \<in> set es \<and> x \<noteq> []"
proof (induction es arbitrary: out)
  case (Cons e es)
  then have "x \<in> set (cleanElem rooted out e) \<or> x \<in> set es \<and> x \<noteq> []" by simp
  then show ?case using cleanElem_mem[of x rooted out e] by auto
qed simp

lemma Clean_relative:
  assumes "p = [] \<or> hd p \<noteq> CHR ''/''" shows "Clean p \<noteq> CHR ''/'' # t"
proof -
  let ?out = "foldl (cleanElem False) [] (splitOn (CHR ''/'') p)"
  have "\<forall>e \<in> set ?out. e \<noteq> [] \<and> CHR ''/'' \<notin> set e"
    using cleanElem_relative[of _ False "[]" "splitOn (CHR ''/'') p"] splitOn_elems by fastforce
  then have "joinWith ''/'' ?out \<noteq> CHR ''/'' # t" by (rule joinWith_hd)
  moreover have "p \<noteq> [] \<Longrightarrow> (hd p = CHR ''/'') = False" using assms by simp
  ultimately show ?thesis unfolding Clean_def Let_def by (cases "p = []") (simp_all split: if_split)
qed

text \<open>A joined path lies below another one exactly when its elements do.\<close>

lemma joinWith_below_step:
  assumes "c \<notin> set a" "\<forall>e \<in> set es. c \<notin> set e"
  shows "prefix (a @ c # t) (joinWith [c] es) \<longleftrightarrow> (\<exists>r. r \<noteq> [] \<and> es = a # r \<and> prefix t (joinWith [c] r))"
proof (cases es)
  case Nil
  then show ?thesis by simp
next
  case (Cons w r)
  show ?thesis
  proof (cases "r = []")
    case True
    have "\<not> prefix (a @ c # t) w" using assms(2) Cons by (auto simp: prefix_def)
    then show ?thesis using Cons True by simp
  next
    case False
    then have "prefix (a @ c # t) (joinWith [c] es) \<longleftrightarrow> (\<exists>u. w @ c # joinWith [c] r = a @ c # (t @ u))"
      using Cons by (simp add: joinWith_Cons prefix_def)
    also have "\<dots> \<longleftrightarrow> w = a \<and> prefix t (joinWith [c] r)"
      using append_sep_inject[of c w a] assms Cons by (simp add: prefix_def)
    finally show ?thesis using Cons False by auto
  qed
qed

lemma joinWith_below:
  assumes "base \<noteq> []" "\<forall>e \<in> set base. c \<notin> set e" "\<forall>e \<in> set es. c \<notin> set e"
  shows "prefix (joinWith [c] base @ [c]) (joinWith [c] es) \<longleftrightarrow> strict_prefix base es"
  using assms
proof (induction base arbitrary: es)
  case (Cons a base)
  have step: "prefix (a @ c # t) (joinWith [c] es) \<longleftrightarrow> (\<exists>r. r \<noteq> [] \<and> es = a # r \<and> prefix t (joinWith [c] r))" for t
    by (rule joinWith_below_step) (use Cons.prems in auto)
  have split: "strict_prefix (a # base) es \<longleftrightarrow> (\<exists>r. es = a # r \<and> strict_prefix base r)"
    by (cases es) auto
  show ?case
  proof (cases "base = []")
    case True
    then show ?thesis using step[of "[]"] split by (auto simp: strict_prefix_def)
  next
    case False
    have join: "joinWith [c] (a # base) @ [c] = a @ c # (joinWith [c] base @ [c])" using False by (simp add: joinWith_Cons)
    have IH: "prefix (joinWith [c] base @ [c]) (joinWith [c] r) \<longleftrightarrow> strict_prefix base r" if "es = a # r" for r
      using Cons.IH[of r] Cons.prems False that by auto
    show ?thesis unfolding join step split using IH by (auto simp: strict_prefix_def)
  qed
qed simp

text \<open>
  C36: A path is accepted exactly when it is absolute and, followed element by element from the root with
  \<open>..\<close> going to the parent, it leads to something strictly below \<open>/proc\<close>, \<open>/sys\<close>, \<open>/host/proc\<close> or
  \<open>/host/sys\<close>: no sequence of \<open>..\<close> elements leaves the allowed directories. This reading follows no
  symbolic links, and the check does not either.
\<close>

theorem validateRouteFilePath_iff:
  "validateRouteFilePath p = None \<longleftrightarrow>
     (\<exists>r. p = CHR ''/'' # r) \<and>
     (\<exists>base \<in> {[''proc''], [''sys''], [''host'', ''proc''], [''host'', ''sys'']}. strict_prefix base (walk p))"
proof (cases "\<exists>r. p = CHR ''/'' # r")
  case True
  then obtain r where p: "p = CHR ''/'' # r" by blast
  have slash: "\<forall>e \<in> set (walk p). CHR ''/'' \<notin> set e" using walk_plain by (auto simp: plainElem_def)
  have below: "HasPrefix (Clean p) (''/'' @ joinWith ''/'' base @ ''/'') \<longleftrightarrow> strict_prefix base (walk p)"
    if "base \<noteq> []" "\<forall>e \<in> set base. CHR ''/'' \<notin> set e" for base
    using joinWith_below[OF that slash] Clean_rooted[of r] p by (simp add: HasPrefix_def)
  have "validateRouteFilePath p = None \<longleftrightarrow>
      (\<exists>base \<in> {[''proc''], [''sys''], [''host'', ''proc''], [''host'', ''sys'']}. HasPrefix (Clean p) (''/'' @ joinWith ''/'' base @ ''/''))"
    by (simp add: validateRouteFilePath_def allowedPrefixes_def)
  then show ?thesis
    using below[of "[''proc'']"] below[of "[''sys'']"] below[of "[''host'', ''proc'']"] below[of "[''host'', ''sys'']"] True by simp
next
  case False
  then have "p = [] \<or> hd p \<noteq> CHR ''/''" by (cases p) auto
  then have "\<not> HasPrefix (Clean p) (CHR ''/'' # x)" for x
    using Clean_relative by (auto simp: HasPrefix_def prefix_def)
  then show ?thesis using False by (simp add: validateRouteFilePath_def allowedPrefixes_def)
qed

section \<open>Reading of a routing table\<close>

text \<open>A table as the kernel prints it: a header, then the interface, the destination as eight digits, and the rest of each route.\<close>

record route =
  Iface :: string
  Destination :: "32 word"
  RouteRest :: string

definition hexUpper :: "nat \<Rightarrow> char" where
  "hexUpper d = (if d < 10 then char_of (48 + d) else char_of (55 + d))"

fun hexDigits :: "nat \<Rightarrow> nat \<Rightarrow> string" where
  "hexDigits 0 n = []"
| "hexDigits (Suc k) n = hexDigits k (n div 16) @ [hexUpper (n mod 16)]"

definition routeLine :: "route \<Rightarrow> string" where
  "routeLine r = Iface r @ [CHR 0x09] @ hexDigits 8 (unat (Destination r)) @ [CHR 0x09] @ RouteRest r"

definition routeTable :: "string \<Rightarrow> route list \<Rightarrow> string" where
  "routeTable header routes = concat (map (\<lambda>l. l @ [CHR 0x0A]) (header # map routeLine routes))"

definition printable :: "string \<Rightarrow> bool" where
  "printable s \<longleftrightarrow> CHR 0x0A \<notin> set s \<and> CHR 0x0D \<notin> set s \<and> length s < 30000"

definition wfroute :: "route \<Rightarrow> bool" where
  "wfroute r \<longleftrightarrow> printable (Iface r) \<and> CHR 0x09 \<notin> set (Iface r) \<and> printable (RouteRest r)"

lemma length_hexDigits [simp]: "length (hexDigits k n) = k"
  by (induction k arbitrary: n) auto

lemma hexUpper_props:
  assumes "d < 16" shows "hexDigit (hexUpper d) = Some d" "hexUpper d \<notin> {CHR ''_'', CHR 0x09, CHR 0x0A, CHR 0x0D}"
proof -
  have n: "(of_char (hexUpper d) :: nat) = (if d < 10 then 48 + d else 55 + d)"
    using assms by (simp add: hexUpper_def)
  show "hexDigit (hexUpper d) = Some d" using assms by (auto simp: hexDigit_def isDigit_def n Let_def)
  have "(of_char c :: nat) \<in> {95, 9, 10, 13}" if "c \<in> {CHR ''_'', CHR 0x09, CHR 0x0A, CHR 0x0D}" for c
    using that by auto
  then have "(if d < 10 then 48 + d else 55 + d) \<in> {95, 9, 10, 13}" if "hexUpper d \<in> {CHR ''_'', CHR 0x09, CHR 0x0A, CHR 0x0D}"
    using that unfolding n[symmetric] by blast
  then show "hexUpper d \<notin> {CHR ''_'', CHR 0x09, CHR 0x0A, CHR 0x0D}" using assms by (auto split: if_splits)
qed

lemma hexDigits_chars: "c \<in> set (hexDigits k n) \<Longrightarrow> c \<notin> {CHR ''_'', CHR 0x09, CHR 0x0A, CHR 0x0D}"
proof (induction k arbitrary: n)
  case (Suc k)
  then consider "c \<in> set (hexDigits k (n div 16))" | "c = hexUpper (n mod 16)" by fastforce
  then show ?case
  proof cases
    case 2
    then show ?thesis using hexUpper_props(2)[of "n mod 16"] by (simp only:) simp
  qed (rule Suc.IH)
qed simp

lemma hexValue_append: "hexValue acc (s @ t) = (case hexValue acc s of None \<Rightarrow> None | Some a \<Rightarrow> hexValue a t)"
  by (induction s arbitrary: acc) (auto split: option.split)

lemma hexValue_hexDigits: "n < 16 ^ k \<Longrightarrow> hexValue 0 (hexDigits k n) = Some n"
proof (induction k arbitrary: n)
  case (Suc k)
  then have "n div 16 < 16 ^ k" by (simp add: less_mult_imp_div_less)
  then show ?case using Suc.IH hexUpper_props[of "n mod 16"] by (auto simp: hexValue_append)
qed simp

lemma underscoreOK_digits: "CHR ''_'' \<notin> set s \<Longrightarrow> underscoreOK True s"
  by (induction s) auto

lemma ParseInt0x_word: "ParseInt0x (hexDigits 8 (unat (w :: 32 word))) = Ok (int (unat w))"
proof -
  have lt: "unat w < 2 ^ 32" using unsigned_less[of w] by simp
  then have "hexValue 0 (hexDigits 8 (unat w)) = Some (unat w)" by (intro hexValue_hexDigits) simp
  moreover have "hexDigits 8 (unat w) \<noteq> []" using length_hexDigits[of 8 "unat w"] by (metis list.size(3) zero_neq_numeral)
  moreover have "underscoreOK True (hexDigits 8 (unat w))" using hexDigits_chars by (intro underscoreOK_digits) blast
  ultimately show ?thesis using lt by (simp add: ParseInt0x_def)
qed

lemma rawLines_terminated:
  assumes "\<forall>l \<in> set ls. CHR 0x0A \<notin> set l"
  shows "rawLines (concat (map (\<lambda>l. l @ [CHR 0x0A]) ls)) = ls"
proof -
  have "splitOn (CHR 0x0A) (concat (map (\<lambda>l. l @ [CHR 0x0A]) ls)) = ls @ [[]]"
    using assms
  proof (induction ls)
    case (Cons l ls)
    then show ?case using splitOn_append_first[of "CHR 0x0A" l] by simp
  qed simp
  then show ?thesis by (simp add: rawLines_def)
qed

lemma dropCR_plain: "CHR 0x0D \<notin> set l \<Longrightarrow> dropCR l = l"
  by (auto simp: dropCR_def TrimSuffix_def suffix_def)

lemma routeLine_plain:
  assumes "wfroute r" shows "CHR 0x0A \<notin> set (routeLine r)" "CHR 0x0D \<notin> set (routeLine r)" "length (routeLine r) < 65536"
proof -
  have "CHR 0x0A \<notin> set (hexDigits 8 n)" "CHR 0x0D \<notin> set (hexDigits 8 n)" for n using hexDigits_chars by blast+
  then show "CHR 0x0A \<notin> set (routeLine r)" "CHR 0x0D \<notin> set (routeLine r)" "length (routeLine r) < 65536"
    using assms by (simp_all add: routeLine_def wfroute_def printable_def)
qed

lemma findRoute_line:
  assumes "wfroute r"
  shows "findRoute (routeLine r # rows) = (if Destination r = 0 then Ok (Iface r) else findRoute rows)"
proof -
  have "CHR 0x09 \<notin> set (hexDigits 8 n)" for n using hexDigits_chars by blast
  then have tokens: "splitOn (CHR 0x09) (routeLine r) = Iface r # hexDigits 8 (unat (Destination r)) # splitOn (CHR 0x09) (RouteRest r)"
    using assms by (simp add: routeLine_def wfroute_def splitOn_append_first)
  have "int (unat (Destination r)) = 0 \<longleftrightarrow> Destination r = 0" by (simp only: of_nat_eq_0_iff unsigned_eq_0_iff)
  then show ?thesis by (simp add: Let_def tokens ParseInt0x_word del: of_nat_unat)
qed

text \<open>
  From a routing table as the kernel prints it, the interface of the first route whose destination is
  zero is returned, and an error when there is none, whatever the other fields hold.
\<close>

lemma findDefaultInterface_first:
  assumes "printable header" "\<forall>r \<in> set routes. wfroute r"
  shows "findDefaultInterface (routeTable header routes) =
    (case find (\<lambda>r. Destination r = 0) routes of
       Some r \<Rightarrow> Ok (Iface r)
     | None \<Rightarrow> Fail (errorsNew ''couldn't find interface with default destination''))"
proof -
  let ?ls = "header # map routeLine routes"
  have plain: "\<forall>l \<in> set ?ls. CHR 0x0A \<notin> set l \<and> CHR 0x0D \<notin> set l \<and> length l < 65536"
    using assms routeLine_plain by (simp add: printable_def)
  then have "rawLines (routeTable header routes) = ?ls" unfolding routeTable_def by (intro rawLines_terminated) blast
  moreover have "takeWhile (\<lambda>l. length l < 65536) ?ls = ?ls" using plain by (simp only: takeWhile_eq_all_conv) blast
  moreover have "map dropCR ?ls = ?ls" using plain by (intro map_idI dropCR_plain) blast
  ultimately have "routeLines (routeTable header routes) = ?ls" by (simp add: routeLines_def)
  moreover have "findRoute (map routeLine routes) =
    (case find (\<lambda>r. Destination r = 0) routes of Some r \<Rightarrow> Ok (Iface r)
     | None \<Rightarrow> Fail (errorsNew ''couldn't find interface with default destination''))"
    using assms(2) by (induction routes) (simp_all add: findRoute_line del: findRoute.simps(2))
  ultimately show ?thesis by (simp add: findDefaultInterface_def)
qed

theorem findDefaultInterface_first_witness:
  "findDefaultInterface (routeTable ''Iface'' [\<lparr>Iface = ''docker0'', Destination = 0xA8C0, RouteRest = ''0''\<rparr>,
      \<lparr>Iface = ''eno1'', Destination = 0, RouteRest = ''C900A8C0''\<rparr>]) = Ok ''eno1''"
  using findDefaultInterface_first[of "''Iface''" "[\<lparr>Iface = ''docker0'', Destination = 0xA8C0, RouteRest = ''0''\<rparr>,
      \<lparr>Iface = ''eno1'', Destination = 0, RouteRest = ''C900A8C0''\<rparr>]"]
  by (simp add: wfroute_def printable_def)

text \<open>The check is lexical: the files of the root file system can be reached through the links of \<open>/proc\<close>.\<close>

lemma root_link_accepted: "validateRouteFilePath ''/proc/1/root/etc/shadow'' = None"
  by (simp add: validateRouteFilePath_def allowedPrefixes_def Clean_def HasPrefix_def cleanElem_def)

end
