(* ===== verification/Caches.thy ===== *)
theory Caches
  imports Values
begin

text \<open>
  The contract of the in-memory caches of the integration (\<open>InterfaceCache\<close>, \<open>NamespaceInMemoryStore\<close>,
  \<open>InMemoryStore\<close>): what a lookup returns after a store and after a vacuum. The lemmas for clients
  are proved here once; each cache is an interpretation in the theory that models it.
\<close>

locale cache_contract =
  fixes lookup :: "'s \<Rightarrow> 'k \<Rightarrow> 'v option"
    and store :: "'k \<Rightarrow> 'v \<Rightarrow> 's \<Rightarrow> 's"
    and fresh :: "'s"
  assumes lookup_store: "lookup (store k v s) j = (if j = k then Some v else lookup s j)"
    and lookup_fresh: "lookup fresh k = None"
begin

text \<open>The last store to a key wins, whatever was stored to other keys before and after.\<close>

lemma lookup_stores:
  "lookup (foldl (\<lambda>s (k, v). store k v s) s kvs) j = (case map_of (rev kvs) j of None \<Rightarrow> lookup s j | Some v \<Rightarrow> Some v)"
proof (induction kvs rule: rev_induct)
  case (snoc kv kvs)
  then show ?case by (cases kv) (auto simp: lookup_store)
qed simp

text \<open>A cache that only holds values of a function keeps doing so when such values are stored.\<close>

lemma agrees_store:
  "(\<And>k v. lookup s k = Some v \<Longrightarrow> P k v) \<Longrightarrow> P j w \<Longrightarrow> lookup (store j w s) k = Some v \<Longrightarrow> P k v"
  by (simp add: lookup_store split: if_splits)

lemma agrees_fresh: "lookup fresh k = Some v \<Longrightarrow> P k v"
  by (simp add: lookup_fresh)

end

text \<open>
  A cache whose entries can also be removed: a sweep keeps or drops each entry, and never invents or
  changes one.
\<close>

locale swept_cache_contract = cache_contract +
  fixes sweep :: "'t \<Rightarrow> 'a \<Rightarrow> 'a"
  assumes lookup_sweep: "lookup (sweep t s) k = lookup s k \<or> lookup (sweep t s) k = None"
begin

lemma agrees_sweep: "(\<And>k v. lookup s k = Some v \<Longrightarrow> P k v) \<Longrightarrow> lookup (sweep t s) k = Some v \<Longrightarrow> P k v"
  using lookup_sweep[of t s k] by auto

end

end
