(* ===== verification/Prometheus_Definition.thy ===== *)
theory Prometheus_Definition
  imports Prometheus_Query
begin

text \<open>
  \<open>src/prometheus/definition.go\<close>: grouping of metric families by entity, generators of entity names
  and types, label filters, and the fetch functions over Prometheus metrics, in the order of the
  source. The theory ends with the characterisation of the two grouping functions and the behaviour
  of the fetch functions on every branch.
\<close>

section \<open>Errors\<close>

definition ErrExpectedLabelsNotFound :: err where
  "ErrExpectedLabelsNotFound = errorsNew ''expected labels not found''"
definition ErrUnexpectedEmptyLabels :: err where
  "ErrUnexpectedEmptyLabels = errorsNew ''unexpected empty labels''"
definition ErrLabelNotFound :: err where
  "ErrLabelNotFound = errorsNew ''label not found on metric''"
definition ErrMetricSliceEmpty :: err where
  "ErrMetricSliceEmpty = errorsNew ''metric slice for key was empty''"
definition ErrLabelNotFoundInFirstMetric :: err where
  "ErrLabelNotFoundInFirstMetric = errorsNew ''label not found in the first metric for key''"
definition ErrIncompatibleMetricType :: err where
  "ErrIncompatibleMetricType = errorsNew ''incompatible metric type for key''"
definition ErrExpectedMetricType :: err where
  "ErrExpectedMetricType = errorsNew ''expected metric type for key to be Metric''"

section \<open>Labels of metrics\<close>

definition FromLabelValue :: "string \<Rightarrow> string \<Rightarrow> fetchfunc" where
  "FromLabelValue key lab groupLabel entityID groups =
     rbind (FromRaw key groupLabel entityID groups) (\<lambda>v.
       case v of
         VMetric m \<Rightarrow>
           (case mget (Labels m) lab of
              None \<Rightarrow> Fail (Errorf ''label %q not found on metric %q: %w'' [lab, key] [ErrLabelNotFound])
            | Some l \<Rightarrow> Ok (VString l))
       | VMetrics ms \<Rightarrow>
           (case ms of
              [] \<Rightarrow> Fail (Errorf ''metric slice for key %q was empty: %w'' [key] [ErrMetricSliceEmpty])
            | m # _ \<Rightarrow>
                (case mget (Labels m) lab of
                   None \<Rightarrow> Fail (Errorf ''label %q not found in the first metric for key %q: %w'' [lab, key]
                             [ErrLabelNotFoundInFirstMetric])
                 | Some l \<Rightarrow> Ok (VString l)))
       | _ \<Rightarrow> Fail (Errorf ''incompatible metric type for %q. Expected: Metric or []Metric. Got: %T: %w''
                [key, goType v] [ErrIncompatibleMetricType]))"

fun getLabels :: "string \<Rightarrow> string \<Rightarrow> string \<Rightarrow> rawgroups \<Rightarrow> string list \<Rightarrow> string list result" where
  "getLabels groupLabel rawEntityID key groups [] = Ok []"
| "getLabels groupLabel rawEntityID key groups (lab # labs) =
     rbindw (\<lambda>e. Errorf ''cannot fetch label %q for metric %q: %w'' [lab, key] [e])
       (FromLabelValue key lab groupLabel rawEntityID groups) (\<lambda>v.
       case v of
         VNil \<Rightarrow> Fail (Errorf ''label %q not found for metric %q'' [lab, key] [])
       | VString s \<Rightarrow> rbind (getLabels groupLabel rawEntityID key groups labs) (\<lambda>ss. Ok (s # ss))
       | _ \<Rightarrow> Fail (Errorf ''unexpected type %T of label %q for metric %q'' [goType v, lab, key] []))"

section \<open>Generators of entity types and IDs\<close>

definition ControlPlaneComponentTypeGenerator :: typegenerator where
  "ControlPlaneComponentTypeGenerator groupLabel _ _ clusterName =
     Ok (''k8s:'' @ clusterName @ '':controlplane:'' @ groupLabel)"

definition FromRawEntityIDGenerator :: idgenerator where
  "FromRawEntityIDGenerator _ rawEntityID _ = Ok rawEntityID"

definition errCannotRetrieve :: "string \<Rightarrow> err" where
  "errCannotRetrieve groupLabel =
     Errorf ''%w: cannot retrieve values for composing entity type for %q'' [groupLabel] [ErrExpectedLabelsNotFound]"

definition errEmptyValues :: "string \<Rightarrow> err" where
  "errEmptyValues groupLabel =
     Errorf ''%w: empty values for generated entity type for %q'' [groupLabel] [ErrUnexpectedEmptyLabels]"

definition defaultEntityTypeFromLabelValue ::
  "string \<Rightarrow> string \<Rightarrow> string \<Rightarrow> string \<Rightarrow> rawgroups \<Rightarrow> string \<Rightarrow> string result" where
  "defaultEntityTypeFromLabelValue key grp groupLabel rawEntityID g clusterName =
     (if groupLabel \<in> {''namespace'', ''node'', ''persistentvolume''} then
        Ok (''k8s:'' @ clusterName @ '':'' @ grp)
      else if groupLabel = ''container'' then
        rbind (getLabels groupLabel rawEntityID key g [''namespace'', ''pod'']) (\<lambda>ls.
          if length ls \<noteq> 2 then Fail (errCannotRetrieve groupLabel)
          else (let namespace = ls ! 0; podName = ls ! 1 in
            if namespace = [] \<or> podName = [] then Fail (errEmptyValues groupLabel)
            else Ok (''k8s:'' @ clusterName @ '':'' @ namespace @ '':'' @ podName @ '':'' @ grp)))
      else
        rbind (getLabels groupLabel rawEntityID key g [''namespace'']) (\<lambda>ls.
          if length ls = 0 then Fail (errCannotRetrieve groupLabel)
          else (let namespace = ls ! 0 in
            if namespace = [] then Fail (errEmptyValues groupLabel)
            else Ok (''k8s:'' @ clusterName @ '':'' @ namespace @ '':'' @ grp))))"

definition FromLabelValueEntityTypeGenerator :: "string \<Rightarrow> typegenerator" where
  "FromLabelValueEntityTypeGenerator key groupLabel rawEntityID g clusterName =
     defaultEntityTypeFromLabelValue key groupLabel groupLabel rawEntityID g clusterName"

definition FromLabelValueEntityTypeGeneratorWithCustomGroup :: "string \<Rightarrow> string \<Rightarrow> typegenerator" where
  "FromLabelValueEntityTypeGeneratorWithCustomGroup key grp groupLabel rawEntityID g clusterName =
     defaultEntityTypeFromLabelValue key grp groupLabel rawEntityID g clusterName"

definition FromLabelValueEntityIDGenerator :: "string \<Rightarrow> string \<Rightarrow> idgenerator" where
  "FromLabelValueEntityIDGenerator key lab groupLabel rawEntityID g =
     rbindw (\<lambda>e. Errorf ''cannot fetch label %q for metric %q: %w'' [lab, key] [e])
       (FromLabelValue key lab groupLabel rawEntityID g) (\<lambda>v.
       case v of
         VNil \<Rightarrow> Fail (Errorf ''unexpected nil value of fetched data for metric %q'' [key] [])
       | VString s \<Rightarrow> Ok s
       | _ \<Rightarrow> Fail (Errorf ''incorrect type %T of fetched data for metric %q'' [goType v, key] []))"

definition FromLabelsValueEntityIDGeneratorForPendingPods :: idgenerator where
  "FromLabelsValueEntityIDGeneratorForPendingPods groupLabel rawEntityID g =
     rbind (FromLabelValueEntityIDGenerator ''kube_pod_status_phase'' ''pod'' groupLabel rawEntityID g) (\<lambda>podName.
     rbind (FromLabelValueEntityIDGenerator ''kube_pod_status_scheduled'' ''condition'' groupLabel rawEntityID g) (\<lambda>isScheduled.
     if isScheduled \<noteq> ''false''
     then Fail (errorsNew ''ignoring pending pod, which is scheduled: reported from Kubelet endpoint'')
     else Ok podName))"

fun FromLabelGetNamespace :: "rawmetrics \<Rightarrow> string" where
  "FromLabelGetNamespace [] = []"
| "FromLabelGetNamespace ((k, v) # ms) =
     (case v of
        VMetric m \<Rightarrow> if label m ''namespace'' \<noteq> [] then label m ''namespace'' else FromLabelGetNamespace ms
      | _ \<Rightarrow> FromLabelGetNamespace ms)"

section \<open>Grouping\<close>

text \<open>\<open>g[groupLabel][rawEntityID][name] = v\<close>, with the maps on the way created when missing.\<close>

definition gput :: "string \<Rightarrow> string \<Rightarrow> string \<Rightarrow> goval \<Rightarrow> rawgroups \<Rightarrow> rawgroups" where
  "gput gl eid k v g =
     (let ents = mget0 [] g gl; ms = mget0 [] ents eid in mput gl (mput eid (mput k v ms) ents) g)"

definition errNoData :: "string \<Rightarrow> err" where
  "errNoData groupLabel = Errorf ''no data found for %s object'' [groupLabel] []"

definition groupEntityMetric :: "string \<Rightarrow> string \<Rightarrow> string \<Rightarrow> rawgroups \<Rightarrow> metric \<Rightarrow> rawgroups result" where
  "groupEntityMetric groupLabel rawEntityID name g m =
     (case (case rawMetric g groupLabel rawEntityID name of None \<Rightarrow> VMetrics [] | Some v \<Rightarrow> v) of
        VMetrics ms \<Rightarrow> Ok (gput groupLabel rawEntityID name (VMetrics (ms @ [m])) g)
      | v \<Rightarrow> typePanic v ''[]prometheus.Metric'')"

definition groupEntityLabel ::
  "metricfamily list \<Rightarrow> string \<Rightarrow> rawgroups \<times> err list \<Rightarrow> string \<Rightarrow> (rawgroups \<times> err list) result" where
  "groupEntityLabel families rawEntityID ge groupLabel =
     rbind (rfoldl (\<lambda>g f. rfoldl (groupEntityMetric groupLabel rawEntityID (FName f)) g (Metrics f)) (fst ge) families)
       (\<lambda>g. Ok (g, if length (mget0 [] g groupLabel) = 0 then snd ge @ [errNoData groupLabel] else snd ge))"

definition GroupEntityMetricsBySpec ::
  "'c specgroups \<Rightarrow> metricfamily list \<Rightarrow> string \<Rightarrow> (rawgroups \<times> err list) result" where
  "GroupEntityMetricsBySpec specs families rawEntityID =
     rfoldl (groupEntityLabel families rawEntityID) ([], []) (map fst specs)"

text \<open>Metrics that are too specific for a group are skipped.\<close>

definition tooSpecific :: "string \<Rightarrow> metric \<Rightarrow> bool" where
  "tooSpecific groupLabel m =
     ((groupLabel = ''node'' \<and> Has (Labels m) ''pod'') \<or>
      (groupLabel = ''namespace'' \<and>
        (Has (Labels m) ''daemonset'' \<or> Has (Labels m) ''pod'' \<or> Has (Labels m) ''endpoint'' \<or>
         Has (Labels m) ''service'' \<or> Has (Labels m) ''deployment'' \<or> Has (Labels m) ''replicaset'')))"

definition rawEntityIDOf :: "string \<Rightarrow> metric \<Rightarrow> string" where
  "rawEntityIDOf groupLabel m =
     (if groupLabel \<in> {''namespace'', ''node'', ''persistentvolume''} then label m groupLabel
      else if groupLabel = ''container'' then
        label m ''namespace'' @ ''_'' @ label m ''pod'' @ ''_'' @ label m groupLabel
      else label m ''namespace'' @ ''_'' @ label m groupLabel)"

definition groupMetric :: "string \<Rightarrow> string \<Rightarrow> rawgroups \<Rightarrow> metric \<Rightarrow> rawgroups result" where
  "groupMetric groupLabel name g m =
     (if \<not> Has (Labels m) groupLabel then Ok g
      else if tooSpecific groupLabel m then Ok g
      else (let rawEntityID = rawEntityIDOf groupLabel m in
        case rawMetric g groupLabel rawEntityID name of
          None \<Rightarrow> Ok (gput groupLabel rawEntityID name (VMetric m) g)
        | Some v \<Rightarrow>
            (case (case v of VMetric oldMetric \<Rightarrow> VMetrics [oldMetric] | _ \<Rightarrow> v) of
               VMetrics ms \<Rightarrow> Ok (gput groupLabel rawEntityID name (VMetrics (ms @ [m])) g)
             | w \<Rightarrow> typePanic w ''[]prometheus.Metric'')))"

definition groupLabelMetrics ::
  "metricfamily list \<Rightarrow> rawgroups \<times> err list \<Rightarrow> string \<Rightarrow> (rawgroups \<times> err list) result" where
  "groupLabelMetrics families ge groupLabel =
     rbind (rfoldl (\<lambda>g f. rfoldl (groupMetric groupLabel (FName f)) g (Metrics f)) (fst ge) families)
       (\<lambda>g. Ok (g, if length (mget0 [] g groupLabel) = 0 then snd ge @ [errNoData groupLabel] else snd ge))"

definition GroupMetricsBySpec :: "'c specgroups \<Rightarrow> metricfamily list \<Rightarrow> (rawgroups \<times> err list) result" where
  "GroupMetricsBySpec specs families = rfoldl (groupLabelMetrics families) ([], []) (map fst specs)"

section \<open>Label filters\<close>

type_synonym labelsfilter = "labels \<Rightarrow> labels"

definition IgnoreLabelsFilter :: "string list \<Rightarrow> labelsfilter" where
  "IgnoreLabelsFilter labelsToIgnore ls =
     foldl (\<lambda>flt (l, v). if \<not> list_ex (\<lambda>i. i = l) labelsToIgnore then mput l v flt else flt) [] ls"

definition IncludeOnlyLabelsFilter :: "string list \<Rightarrow> labelsfilter" where
  "IncludeOnlyLabelsFilter labelsToInclude ls =
     foldl (\<lambda>flt (l, v). if list_ex (\<lambda>i. i = l) labelsToInclude then mput l v flt else flt) [] ls"

definition IncludeOnlyWhenLabelMatchFilter :: "labels \<Rightarrow> labelsfilter" where
  "IncludeOnlyWhenLabelMatchFilter labelsToInclude ls =
     foldl (\<lambda>flt (l, v). if list_ex (\<lambda>(li, vi). l = li \<and> v = vi) labelsToInclude then mput l v flt else flt) [] ls"

definition applyFilters :: "labelsfilter list \<Rightarrow> labels \<Rightarrow> labels" where
  "applyFilters labelsFilter ls = foldl (\<lambda>l flt. flt l) ls labelsFilter"

definition suffixLabelsInOrder :: "string \<Rightarrow> labels \<Rightarrow> string" where
  "suffixLabelsInOrder metricName ls =
     foldl (\<lambda>name l. name @ ''_'' @ l) metricName (sort (map (\<lambda>(k, v). k @ ''_'' @ v) ls))"

definition attributeName :: "string \<Rightarrow> string \<Rightarrow> labels \<Rightarrow> labelsfilter list \<Rightarrow> string" where
  "attributeName metricName nameOverride ls labelsFilter =
     (let ls = applyFilters labelsFilter ls in
      if nameOverride \<noteq> [] then suffixLabelsInOrder nameOverride ls else suffixLabelsInOrder metricName ls)"

section \<open>Values of metrics\<close>

definition getMetricValue :: "string \<Rightarrow> goval \<Rightarrow> metric \<Rightarrow> goval result" where
  "getMetricValue metricName aggregatedValue m =
     (case MValue m of
        CounterValue x \<Rightarrow>
          (case aggregatedValue of
             VProm (CounterValue a) \<Rightarrow> Ok (VProm (CounterValue (fadd a x)))
           | _ \<Rightarrow> Fail (Errorf ''incompatible metric type for %s aggregation. Expected: CounterValue. Got: %T''
                    [metricName, goType (of_pvalue (MValue m))] []))
      | GaugeValue x \<Rightarrow>
          (case aggregatedValue of
             VProm (GaugeValue a) \<Rightarrow> Ok (VProm (GaugeValue (fadd a x)))
           | _ \<Rightarrow> Fail (Errorf ''incompatible metric type for %s aggregation. Expected: GaugeValue. Got: %T''
                    [metricName, goType (of_pvalue (MValue m))] []))
      | _ \<Rightarrow> Ok VNil)"

fun fetchedLoop :: "string \<Rightarrow> (metric \<Rightarrow> string) \<Rightarrow> metric list \<Rightarrow> (string, goval) gomap \<Rightarrow> (string, goval) gomap result" where
  "fetchedLoop metricName attr [] vals = Ok vals"
| "fetchedLoop metricName attr (m # ms) vals =
     (case mget vals (attr m) of
        None \<Rightarrow> fetchedLoop metricName attr ms (mput (attr m) (of_pvalue (MValue m)) vals)
      | Some aggregatedValue \<Rightarrow>
          rbind (getMetricValue metricName aggregatedValue m) (\<lambda>v.
            fetchedLoop metricName attr ms (mput (attr m) v vals)))"

definition fetchedValuesFromRawMetrics ::
  "string \<Rightarrow> string \<Rightarrow> metric list \<Rightarrow> labelsfilter list \<Rightarrow> (string, goval) gomap result" where
  "fetchedValuesFromRawMetrics metricName nameOverride metrics labelsFilter =
     fetchedLoop metricName (\<lambda>m. attributeName metricName nameOverride (Labels m) labelsFilter) metrics []"

definition errIncompatible :: "string \<Rightarrow> string \<Rightarrow> goval \<Rightarrow> err" where
  "errIncompatible metricName expected v =
     Errorf (''incompatible metric type for %s. Expected: '' @ expected @ ''. Got: %T'') [metricName, goType v] []"

definition FromValueWithOverriddenName :: "string \<Rightarrow> string \<Rightarrow> labelsfilter list \<Rightarrow> fetchfunc" where
  "FromValueWithOverriddenName metricName nameOverride labelsFilter groupLabel entityID groups =
     rbind (FromRaw metricName groupLabel entityID groups) (\<lambda>v.
       case v of
         VMetric m \<Rightarrow> Ok (of_pvalue (MValue m))
       | VMetrics ms \<Rightarrow> rbind (fetchedValuesFromRawMetrics metricName nameOverride ms labelsFilter) (\<lambda>fv. Ok (VFetched fv))
       | _ \<Rightarrow> Fail (errIncompatible metricName ''Metric or []Metric'' v))"

definition FromValue :: "string \<Rightarrow> labelsfilter list \<Rightarrow> fetchfunc" where
  "FromValue metricName labelsFilter = FromValueWithOverriddenName metricName [] labelsFilter"

definition FromFlattenedMetrics :: "string \<Rightarrow> string \<Rightarrow> fetchfunc" where
  "FromFlattenedMetrics metricName metricKeyLabel groupLabel entityID groups =
     rbind (FromRaw metricName groupLabel entityID groups) (\<lambda>v.
       case v of
         VMetrics [] \<Rightarrow> Ok VNil
       | VMetrics ms \<Rightarrow>
           Ok (VFetched (foldl (\<lambda>fv m. case mget (Labels m) metricKeyLabel of
                                         None \<Rightarrow> fv
                                       | Some metricKey \<Rightarrow> mput metricKey (of_pvalue (MValue m)) fv) [] ms))
       | _ \<Rightarrow> Ok VNil)"

text \<open>\<open>prefix_rest\<close> becomes \<open>prefix.rest\<close>; other keys are prefixed.\<close>

definition prefixedLabels :: "string \<Rightarrow> labels \<Rightarrow> (string, goval) gomap" where
  "prefixedLabels pre ls =
     foldl (\<lambda>fv (k, v). mput (pre @ ''.'' @ TrimPrefix k (pre @ ''_'')) (VString v) fv) [] ls"

definition FromMetricWithPrefixedLabels :: "string \<Rightarrow> string \<Rightarrow> fetchfunc" where
  "FromMetricWithPrefixedLabels metricName pre groupLabel entityID groups =
     (case FromRaw metricName groupLabel entityID groups of
        Ok v \<Rightarrow>
          (case v of
             VMetric m \<Rightarrow> Ok (VFetched (prefixedLabels pre (Labels m)))
           | _ \<Rightarrow> Fail (Errorf ''expected metric type for %q to be Metric, but got %T: %w'' [metricName, goType v]
                    [ErrExpectedMetricType]))
      | Fail _ \<Rightarrow> Ok VNil
      | Panic p \<Rightarrow> Panic p)"

definition validNRValue :: "float64 \<Rightarrow> bool" where
  "validNRValue v = (\<not> isInf v \<and> \<not> isNaN v)"

text \<open>The getters of a summary return zero values on a nil pointer.\<close>

definition summaryOf :: "summary option \<Rightarrow> summary" where
  "summaryOf s = (case s of Some s \<Rightarrow> s | None \<Rightarrow> \<lparr>SampleCount = 0, SampleSum = Fin 0, Quantiles = []\<rparr>)"

definition summaryValues :: "string \<Rightarrow> summary \<Rightarrow> (string, goval) gomap \<Rightarrow> (string, goval) gomap" where
  "summaryValues name s vals =
     (let vals = mput (name @ ''_count'') (VUint64 (SampleCount s)) vals;
          vals = (if validNRValue (SampleSum s) then mput (name @ ''_sum'') (VFloat64 (SampleSum s)) vals else vals)
      in foldl (\<lambda>vs q. if validNRValue (QValue q)
                 then mput (name @ ''_quantile_'' @ FormatFloat (Quantile q)) (VFloat64 (QValue q)) vs else vs)
           vals (Quantiles s))"

fun summaryLoop :: "string \<Rightarrow> metric list \<Rightarrow> (string, goval) gomap \<Rightarrow> (string, goval) gomap result" where
  "summaryLoop key [] vals = Ok vals"
| "summaryLoop key (m # ms) vals =
     (case MValue m of
        SummaryPtr s \<Rightarrow> summaryLoop key ms (summaryValues (suffixLabelsInOrder key (Labels m)) (summaryOf s) vals)
      | _ \<Rightarrow> Fail (Errorf ''incompatible metric type for %s. Expected: Summary. Got: %T''
               [key, goType (of_pvalue (MValue m))] []))"

definition FromSummary :: "string \<Rightarrow> fetchfunc" where
  "FromSummary key groupLabel entityID groups =
     rbind (FromRaw key groupLabel entityID groups) (\<lambda>v.
       case v of
         VMetrics ms \<Rightarrow> rbind (summaryLoop key ms []) (\<lambda>fv. Ok (VFetched fv))
       | _ \<Rightarrow> Fail (errIncompatible key ''[]Metric'' v))"

definition copyMapLabels :: "labels \<Rightarrow> labels" where
  "copyMapLabels ls = foldl (\<lambda>t (k, v). mput k v t) [] ls"

definition hasMatchingLabels :: "labelsfilter list \<Rightarrow> metric \<Rightarrow> bool" where
  "hasMatchingLabels labelsFilter m = (length (applyFilters labelsFilter (copyMapLabels (Labels m))) \<noteq> 0)"

fun withLabelsLoop :: "string \<Rightarrow> metric list \<Rightarrow> labelsfilter list \<Rightarrow> (string, goval) gomap \<Rightarrow> (string, goval) gomap result" where
  "withLabelsLoop name [] labelsFilter vals = Ok vals"
| "withLabelsLoop name (m # ms) labelsFilter vals =
     (if \<not> hasMatchingLabels labelsFilter m then withLabelsLoop name ms labelsFilter vals
      else (case mget vals name of
              None \<Rightarrow> withLabelsLoop name ms labelsFilter (mput name (of_pvalue (MValue m)) vals)
            | Some aggregatedValue \<Rightarrow>
                rbind (getMetricValue name aggregatedValue m) (\<lambda>v.
                  withLabelsLoop name ms labelsFilter (mput name v vals))))"

definition fetchedValuesFromRawMetricsWithLabels ::
  "string \<Rightarrow> string \<Rightarrow> metric list \<Rightarrow> bool \<Rightarrow> labelsfilter list \<Rightarrow> (string, goval) gomap result" where
  "fetchedValuesFromRawMetricsWithLabels metricName nameOverride metrics returnZeroWhenEmpty labelsFilter =
     (let name = (if nameOverride \<noteq> [] then nameOverride else metricName) in
      rbind (withLabelsLoop name metrics labelsFilter []) (\<lambda>vals.
        if returnZeroWhenEmpty \<and> length vals = 0 then Ok (mput name (VProm (GaugeValue (Fin 0))) vals)
        else Ok vals))"

definition FromValueWithLabelsFilter :: "string \<Rightarrow> string \<Rightarrow> labelsfilter list \<Rightarrow> fetchfunc" where
  "FromValueWithLabelsFilter metricName nameOverride labelsFilter groupLabel entityID groups =
     rbind (FromRaw metricName groupLabel entityID groups) (\<lambda>v.
       case v of
         VMetric m \<Rightarrow> Ok (of_pvalue (MValue m))
       | VMetrics ms \<Rightarrow> rbind (fetchedValuesFromRawMetricsWithLabels metricName nameOverride ms False labelsFilter)
                          (\<lambda>fv. Ok (VFetched fv))
       | _ \<Rightarrow> Fail (errIncompatible metricName ''Metric or []Metric'' v))"

definition CountFromValueWithLabelsFilter :: "string \<Rightarrow> string \<Rightarrow> labelsfilter list \<Rightarrow> fetchfunc" where
  "CountFromValueWithLabelsFilter metricName nameOverride labelsFilter groupLabel entityID groups =
     (case FromRaw metricName groupLabel entityID groups of
        Fail e \<Rightarrow>
          if Contains (errMsg e) ''metric'' \<and> Contains (errMsg e) ''not found''
          then rbind (fetchedValuesFromRawMetricsWithLabels metricName nameOverride [] True labelsFilter)
                 (\<lambda>fv. Ok (VFetched fv))
          else Fail e
      | Panic p \<Rightarrow> Panic p
      | Ok v \<Rightarrow>
          (case v of
             VMetric m \<Rightarrow> Ok (of_pvalue (MValue m))
           | VMetrics ms \<Rightarrow> rbind (fetchedValuesFromRawMetricsWithLabels metricName nameOverride ms True labelsFilter)
                              (\<lambda>fv. Ok (VFetched fv))
           | _ \<Rightarrow> Fail (errIncompatible metricName ''Metric or []Metric'' v)))"

section \<open>Inheritance from related entities\<close>

text \<open>The loop variables of the source keep the last entry visited when nothing was found.\<close>

fun randomMetricFrom :: "string \<times> goval \<Rightarrow> rawmetrics \<Rightarrow> string \<times> goval" where
  "randomMetricFrom kv0 [] = kv0"
| "randomMetricFrom kv0 ((k, v) # ms) =
     (case v of VMetric _ \<Rightarrow> (k, v) | _ \<Rightarrow> randomMetricFrom (k, v) ms)"

definition getRandomMetric :: "rawmetrics \<Rightarrow> string \<times> goval" where
  "getRandomMetric metrics = randomMetricFrom ([], VNil) metrics"

definition metricContainsLabels :: "metric \<Rightarrow> string list \<Rightarrow> bool" where
  "metricContainsLabels m ls = list_all (\<lambda>k. mhas (Labels m) k) ls"

fun randomWithLabelsFrom :: "string \<times> goval \<Rightarrow> rawmetrics \<Rightarrow> string list \<Rightarrow> (string \<times> goval) \<times> bool" where
  "randomWithLabelsFrom kv0 [] ls = (kv0, False)"
| "randomWithLabelsFrom kv0 ((k, v) # ms) ls =
     (case v of
        VMetric m \<Rightarrow> if metricContainsLabels m ls then ((k, v), True) else randomWithLabelsFrom (k, v) ms ls
      | _ \<Rightarrow> randomWithLabelsFrom (k, v) ms ls)"

definition getRandomMetricWithLabels :: "rawmetrics \<Rightarrow> string list \<Rightarrow> (string \<times> goval) result" where
  "getRandomMetricWithLabels metrics ls =
     (case randomWithLabelsFrom ([], VNil) metrics ls of
        (kv, True) \<Rightarrow> Ok kv
      | (_, False) \<Rightarrow> Fail (Errorf ''metric with the labels %v not found'' [''['' @ joinWith '' '' ls @ '']''] []))"

definition fetchMetric :: "string \<Rightarrow> fetchfunc" where
  "fetchMetric metricKey groupLabel entityID groups =
     rbind (FromRaw metricKey groupLabel entityID groups) (\<lambda>v.
       case v of
         VMetric _ \<Rightarrow> Ok v
       | _ \<Rightarrow> Fail (Errorf ''incompatible metric type. Expected: Metric. Got: %T'' [goType v] []))"

definition getRawEntityID :: "string \<Rightarrow> string \<Rightarrow> string \<Rightarrow> rawgroups \<Rightarrow> string result" where
  "getRawEntityID parentGroupLabel groupLabel entityID groups =
     (case mget (mget0 [] groups groupLabel) entityID of
        None \<Rightarrow> Fail (Errorf ''metrics not found for %v with entity ID: %v'' [groupLabel, entityID] [])
      | Some grp \<Rightarrow>
          if parentGroupLabel \<in> {''node'', ''namespace'', ''persistentvolume''} then
            (case getRandomMetric grp of (metricKey, r) \<Rightarrow>
               (case r of
                  VMetric m \<Rightarrow>
                    (case mget (Labels m) parentGroupLabel of
                       None \<Rightarrow> Fail (Errorf (''label not found. Label: '' @ [CHR 0x27] @ ''%s'' @ [CHR 0x27] @ '', Metric: %s'') [parentGroupLabel, metricKey] [])
                     | Some rawEntityID \<Rightarrow> Ok rawEntityID)
                | _ \<Rightarrow> Fail (Errorf ''incompatible metric type. Expected: Metric. Got: %T'' [goType r] [])))
          else
            rbind (getRandomMetricWithLabels grp [''namespace'', parentGroupLabel]) (\<lambda>(metricKey, r).
              case r of
                VMetric m \<Rightarrow>
                  (case mget (Labels m) ''namespace'' of
                     None \<Rightarrow> Fail (Errorf (''label not found. Label: '' @ [CHR 0x27] @ ''namespace'' @ [CHR 0x27] @ '', Metric: %s'') [metricKey] [])
                   | Some namespaceID \<Rightarrow>
                       (case mget (Labels m) parentGroupLabel of
                          None \<Rightarrow> Fail (Errorf ''label not found. Label: %s, Metric: %s'' [parentGroupLabel, metricKey] [])
                        | Some relatedMetricID \<Rightarrow> Ok (namespaceID @ ''_'' @ relatedMetricID)))
              | _ \<Rightarrow> Fail (Errorf ''incompatible metric type. Expected: Metric. Got: %T'' [goType r] [])))"

definition InheritSpecificLabelValuesFrom :: "string \<Rightarrow> string \<Rightarrow> (string, string) gomap \<Rightarrow> fetchfunc" where
  "InheritSpecificLabelValuesFrom parentGroupLabel relatedMetricKey labelsToRetrieve groupLabel entityID groups =
     rbindw (\<lambda>e. Errorf ''cannot retrieve the entity ID of metrics to inherit value from, got error: %w'' [] [e])
       (getRawEntityID parentGroupLabel groupLabel entityID groups) (\<lambda>rawEntityID.
     case FromRaw relatedMetricKey parentGroupLabel rawEntityID groups of
       Ok v \<Rightarrow>
         (case v of
            VMetric m \<Rightarrow>
              Ok (VFetched (foldl (\<lambda>multiple (k, v).
                foldl (\<lambda>mu (n, l). if l = k then mput n (VString v) mu else mu) multiple labelsToRetrieve) [] (Labels m)))
          | _ \<Rightarrow> typePanic v ''prometheus.Metric'')
     | Fail _ \<Rightarrow> Fail (Errorf ''related metric not found. Metric: %s %s:%s'' [relatedMetricKey, parentGroupLabel, rawEntityID] [])
     | Panic p \<Rightarrow> Panic p)"

definition labelsFromMetric :: "string \<Rightarrow> string \<Rightarrow> string \<Rightarrow> string \<Rightarrow> rawgroups \<Rightarrow> string \<Rightarrow> goval result" where
  "labelsFromMetric parentGroupLabel relatedMetricKey groupLabel entityID groups pre =
     rbindw (\<lambda>e. Errorf ''cannot retrieve the entity ID of metrics to inherit labels from, got error: %w'' [] [e])
       (getRawEntityID parentGroupLabel groupLabel entityID groups) (\<lambda>rawEntityID.
     case fetchMetric relatedMetricKey parentGroupLabel rawEntityID groups of
       Ok v \<Rightarrow>
         (case v of
            VMetric m \<Rightarrow> Ok (VFetched (prefixedLabels pre (Labels m)))
          | _ \<Rightarrow> typePanic v ''prometheus.Metric'')
     | Fail _ \<Rightarrow> Fail (Errorf ''related metric not found. Metric: %s %s:%s'' [relatedMetricKey, parentGroupLabel, rawEntityID] [])
     | Panic p \<Rightarrow> Panic p)"

definition InheritAllLabelsFrom :: "string \<Rightarrow> string \<Rightarrow> fetchfunc" where
  "InheritAllLabelsFrom parentGroupLabel relatedMetricKey groupLabel entityID groups =
     labelsFromMetric parentGroupLabel relatedMetricKey groupLabel entityID groups ''label''"

definition InheritAllSelectorsFrom :: "string \<Rightarrow> string \<Rightarrow> fetchfunc" where
  "InheritAllSelectorsFrom parentGroupLabel relatedMetricKey groupLabel entityID groups =
     labelsFromMetric parentGroupLabel relatedMetricKey groupLabel entityID groups ''selector''"

section \<open>Correctness of the grouping\<close>

text \<open>What an update of the nested maps changes.\<close>

lemma rawMetric_gput:
  "rawMetric (gput gl eid k v g) gl' eid' k' =
     (if gl' = gl \<and> eid' = eid \<and> k' = k then Some v else rawMetric g gl' eid' k')"
  by (auto simp: rawMetric_def gput_def Let_def mget0_def split: option.splits)

lemma mget_gput_other: "gl' \<noteq> gl \<Longrightarrow> mget (gput gl eid k v g) gl' = mget g gl'"
  by (simp add: gput_def Let_def)

lemma gput_nonempty: "mget0 [] (gput gl eid k v g) gl \<noteq> []"
  by (simp add: gput_def Let_def)

text \<open>The metrics that belong to an entity, in the order of the families.\<close>

definition belongs :: "string \<Rightarrow> metric \<Rightarrow> bool" where
  "belongs gl m \<longleftrightarrow> Has (Labels m) gl \<and> \<not> tooSpecific gl m"

definition flatten :: "metricfamily list \<Rightarrow> (string \<times> metric) list" where
  "flatten fs = concat (map (\<lambda>f. map (Pair (FName f)) (Metrics f)) fs)"

definition selected :: "string \<Rightarrow> string \<Rightarrow> string \<Rightarrow> (string \<times> metric) list \<Rightarrow> metric list" where
  "selected gl eid k xs = map snd (filter (\<lambda>(n, m). n = k \<and> belongs gl m \<and> rawEntityIDOf gl m = eid) xs)"

text \<open>One metric is stored as it is, several as a slice.\<close>

definition stored :: "metric list \<Rightarrow> goval option" where
  "stored ms = (case ms of [] \<Rightarrow> None | [m] \<Rightarrow> Some (VMetric m) | _ \<Rightarrow> Some (VMetrics ms))"

lemma stored_snoc: "stored (ms @ [m]) = Some (case stored ms of
    None \<Rightarrow> VMetric m | Some (VMetric o') \<Rightarrow> VMetrics [o', m] | Some _ \<Rightarrow> VMetrics (ms @ [m]))"
  by (auto simp: stored_def split: list.splits)

lemma rfoldl_flatten:
  "rfoldl (\<lambda>g f. rfoldl (h (FName f)) g (Metrics f)) g fs = rfoldl (\<lambda>g (n, m). h n g m) g (flatten fs)"
proof (induction fs arbitrary: g)
  case (Cons f fs)
  have "rfoldl (\<lambda>g (n, m). h n g m) g (map (Pair x) ms) = rfoldl (h x) g ms" for x ms g
  proof (induction ms arbitrary: g)
    case (Cons m ms)
    then show ?case by (cases "h x g m") auto
  qed simp
  then show ?case using Cons by (simp add: flatten_def rfoldl_append)
qed (simp add: flatten_def)

lemma selected_snoc:
  "selected gl eid k (xs @ [(n, m)]) = selected gl eid k xs @
     (if n = k \<and> belongs gl m \<and> rawEntityIDOf gl m = eid then [m] else [])"
  by (simp add: selected_def)

definition groupedAs :: "string \<Rightarrow> (string \<times> metric) list \<Rightarrow> rawgroups \<Rightarrow> bool" where
  "groupedAs gl xs g \<longleftrightarrow> (\<forall>eid k. rawMetric g gl eid k = stored (selected gl eid k xs))"

definition anyBelongs :: "string \<Rightarrow> (string \<times> metric) list \<Rightarrow> bool" where
  "anyBelongs gl xs \<longleftrightarrow> (\<exists>(n, m) \<in> set xs. belongs gl m)"

lemma groupMetric_step:
  assumes "groupedAs gl xs g"
  obtains g' where "groupMetric gl n g m = Ok g'" "groupedAs gl (xs @ [(n, m)]) g'"
    "\<forall>gl'. gl' \<noteq> gl \<longrightarrow> mget g' gl' = mget g gl'"
    "mget0 [] g' gl = [] \<longleftrightarrow> mget0 [] g gl = [] \<and> \<not> belongs gl m"
proof (cases "belongs gl m")
  case False
  then have "groupMetric gl n g m = Ok g" by (auto simp: groupMetric_def belongs_def)
  then show ?thesis using that[of g] assms False by (simp add: groupedAs_def selected_snoc)
next
  case True
  let ?e = "rawEntityIDOf gl m"
  define ms where "ms = selected gl ?e n xs"
  have old: "rawMetric g gl ?e n = stored ms" using assms by (simp add: groupedAs_def ms_def)
  define v where "v = the (stored (ms @ [m]))"
  have v: "stored (ms @ [m]) = Some v" by (simp add: v_def stored_snoc)
  have s: "groupMetric gl n g m = Ok (gput gl ?e n v g)"
    using True old v
    by (cases ms rule: remdups_adj.cases) (auto simp: groupMetric_def belongs_def Let_def stored_def)
  have "groupedAs gl (xs @ [(n, m)]) (gput gl ?e n v g)"
    using assms v True by (auto simp: groupedAs_def rawMetric_gput selected_snoc ms_def)
  then show ?thesis using that[OF s] True by (simp add: mget_gput_other gput_nonempty)
qed

lemma groupLoop_correct:
  assumes "mget g0 gl = None"
  shows "\<exists>g. rfoldl (\<lambda>g (n, m). groupMetric gl n g m) g0 xs = Ok g \<and> groupedAs gl xs g \<and>
    (\<forall>gl'. gl' \<noteq> gl \<longrightarrow> mget g gl' = mget g0 gl') \<and> (mget0 [] g gl = [] \<longleftrightarrow> \<not> anyBelongs gl xs)"
proof (induction xs rule: rev_induct)
  case Nil
  then show ?case using assms by (simp add: groupedAs_def rawMetric_def selected_def stored_def anyBelongs_def mget0_def)
next
  case (snoc x xs)
  then obtain g where g: "rfoldl (\<lambda>g (n, m). groupMetric gl n g m) g0 xs = Ok g" "groupedAs gl xs g"
    "\<forall>gl'. gl' \<noteq> gl \<longrightarrow> mget g gl' = mget g0 gl'" "mget0 [] g gl = [] \<longleftrightarrow> \<not> anyBelongs gl xs" by blast
  obtain n m where x: "x = (n, m)" by force
  obtain g' where "groupMetric gl n g m = Ok g'" "groupedAs gl (xs @ [(n, m)]) g'"
    "\<forall>gl'. gl' \<noteq> gl \<longrightarrow> mget g' gl' = mget g gl'" "mget0 [] g' gl = [] \<longleftrightarrow> mget0 [] g gl = [] \<and> \<not> belongs gl m"
    by (rule groupMetric_step[OF g(2)])
  then show ?case using g x by (auto simp: rfoldl_append anyBelongs_def)
qed

lemma rawMetric_other: "mget g gl = mget g' gl \<Longrightarrow> rawMetric g gl = rawMetric g' gl"
  by (simp add: rawMetric_def fun_eq_iff)

lemma groupLabels_correct:
  assumes "distinct gls" "\<forall>gl \<in> set gls. mget (fst ge) gl = None"
  shows "\<exists>g. rfoldl (groupLabelMetrics fs) ge gls =
      Ok (g, snd ge @ map errNoData (filter (\<lambda>gl. \<not> anyBelongs gl (flatten fs)) gls))
    \<and> (\<forall>gl \<in> set gls. groupedAs gl (flatten fs) g) \<and> (\<forall>gl. gl \<notin> set gls \<longrightarrow> mget g gl = mget (fst ge) gl)"
  using assms
proof (induction gls arbitrary: ge)
  case (Cons gl gls)
  obtain g1 where g1: "rfoldl (\<lambda>g (n, m). groupMetric gl n g m) (fst ge) (flatten fs) = Ok g1"
    "groupedAs gl (flatten fs) g1" "\<forall>gl'. gl' \<noteq> gl \<longrightarrow> mget g1 gl' = mget (fst ge) gl'"
    "mget0 [] g1 gl = [] \<longleftrightarrow> \<not> anyBelongs gl (flatten fs)"
    using groupLoop_correct[of "fst ge" gl "flatten fs"] Cons.prems by auto
  define es where "es = (if anyBelongs gl (flatten fs) then snd ge else snd ge @ [errNoData gl])"
  have step: "groupLabelMetrics fs ge gl = Ok (g1, es)"
    using g1(1,4) by (simp add: groupLabelMetrics_def rfoldl_flatten[where h = "groupMetric gl"] es_def)
  have "\<forall>l \<in> set gls. mget (fst (g1, es)) l = None" using g1(3) Cons.prems by auto
  from Cons.IH[OF _ this] Cons.prems obtain g where g: "rfoldl (groupLabelMetrics fs) (g1, es) gls =
      Ok (g, es @ map errNoData (filter (\<lambda>gl. \<not> anyBelongs gl (flatten fs)) gls))"
    "\<forall>gl \<in> set gls. groupedAs gl (flatten fs) g" "\<forall>gl. gl \<notin> set gls \<longrightarrow> mget g gl = mget g1 gl" by auto
  have "rawMetric g gl = rawMetric g1 gl" using g(3) Cons.prems by (intro rawMetric_other) auto
  then have "groupedAs gl (flatten fs) g" using g1(2) by (simp add: groupedAs_def)
  then show ?case using g g1(3) step by (auto simp: es_def)
next
  case Nil
  then show ?case by (intro exI[of _ "fst ge"]) simp
qed

text \<open>
  C2: \<open>GroupMetricsBySpec\<close> never panics and, for every group of the specifications, stores under an
  entity and a metric name exactly the metrics of the families of that name that carry the group
  label, are not too specific for it and have that entity ID: one as a \<open>Metric\<close>, several as a slice
  in the order they were read. Groups that are not in the specifications are not created, and there
  is one \<open>no data found\<close> error for each group without metrics.
\<close>

theorem GroupMetricsBySpec_correct:
  assumes "wfmap specs"
  shows "\<exists>g. GroupMetricsBySpec specs families =
      Ok (g, map errNoData (filter (\<lambda>gl. \<not> anyBelongs gl (flatten families)) (map fst specs)))
    \<and> (\<forall>gl eid k. rawMetric g gl eid k =
         (if gl \<in> fst ` set specs then stored (selected gl eid k (flatten families)) else None))"
proof -
  obtain g where g: "GroupMetricsBySpec specs families =
      Ok (g, map errNoData (filter (\<lambda>gl. \<not> anyBelongs gl (flatten families)) (map fst specs)))"
    "\<forall>gl \<in> set (map fst specs). groupedAs gl (flatten families) g"
    "\<forall>gl. gl \<notin> set (map fst specs) \<longrightarrow> mget g gl = None"
    using groupLabels_correct[of "map fst specs" "([], [])" families] assms
    by (auto simp: GroupMetricsBySpec_def wfmap_def)
  then show ?thesis by (intro exI[of _ g]) (auto simp: groupedAs_def rawMetric_def)
qed

theorem GroupMetricsBySpec_correct_witness:
  "\<exists>g. GroupMetricsBySpec [(''pod'', undefined :: unit specgroup)]
       [\<lparr>FName = ''f'', FType = ''GAUGE'', Metrics = [\<lparr>Labels = [(''pod'', ''p''), (''namespace'', ''n'')], MValue = GaugeValue (Fin 1)\<rparr>]\<rparr>]
     = Ok (g, []) \<and> rawMetric g ''pod'' ''n_p'' ''f'' =
         Some (VMetric \<lparr>Labels = [(''pod'', ''p''), (''namespace'', ''n'')], MValue = GaugeValue (Fin 1)\<rparr>)"
proof -
  let ?m = "\<lparr>Labels = [(''pod'', ''p''), (''namespace'', ''n'')], MValue = GaugeValue (Fin 1)\<rparr>"
  let ?fs = "[\<lparr>FName = ''f'', FType = ''GAUGE'', Metrics = [?m]\<rparr>]"
  have b: "belongs ''pod'' ?m" by (simp add: belongs_def tooSpecific_def Has_def)
  have e: "rawEntityIDOf ''pod'' ?m = ''n_p''" by (simp add: rawEntityIDOf_def label_def mget0_def)
  show ?thesis
    using GroupMetricsBySpec_correct[of "[(''pod'', undefined :: unit specgroup)]" ?fs] b e
    by (fastforce simp: wfmap_def flatten_def anyBelongs_def selected_def stored_def)
qed

text \<open>The grouping by a given entity: every metric goes to that entity, always as a slice.\<close>

definition namedMetrics :: "string \<Rightarrow> (string \<times> metric) list \<Rightarrow> metric list" where
  "namedMetrics k xs = map snd (filter (\<lambda>(n, m). n = k) xs)"

definition storedSlice :: "metric list \<Rightarrow> goval option" where
  "storedSlice ms = (if ms = [] then None else Some (VMetrics ms))"

definition entityAs :: "string \<Rightarrow> string \<Rightarrow> (string \<times> metric) list \<Rightarrow> rawgroups \<Rightarrow> bool" where
  "entityAs gl eid xs g \<longleftrightarrow>
     (\<forall>e k. rawMetric g gl e k = (if e = eid then storedSlice (namedMetrics k xs) else None))"

lemma entityLoop_correct:
  assumes "mget g0 gl = None"
  shows "\<exists>g. rfoldl (\<lambda>g (n, m). groupEntityMetric gl eid n g m) g0 xs = Ok g \<and> entityAs gl eid xs g \<and>
    (\<forall>gl'. gl' \<noteq> gl \<longrightarrow> mget g gl' = mget g0 gl') \<and> (mget0 [] g gl = [] \<longleftrightarrow> xs = [])"
proof (induction xs rule: rev_induct)
  case Nil
  then show ?case using assms by (simp add: entityAs_def rawMetric_def storedSlice_def namedMetrics_def mget0_def)
next
  case (snoc x xs)
  then obtain g where g: "rfoldl (\<lambda>g (n, m). groupEntityMetric gl eid n g m) g0 xs = Ok g" "entityAs gl eid xs g"
    "\<forall>gl'. gl' \<noteq> gl \<longrightarrow> mget g gl' = mget g0 gl'" by blast
  obtain n m where x: "x = (n, m)" by force
  let ?g = "gput gl eid n (VMetrics (namedMetrics n xs @ [m])) g"
  have "groupEntityMetric gl eid n g m = Ok ?g"
    using g(2) by (auto simp: groupEntityMetric_def entityAs_def storedSlice_def)
  moreover have "entityAs gl eid (xs @ [x]) ?g"
    using g(2) by (auto simp: entityAs_def rawMetric_gput storedSlice_def namedMetrics_def x)
  ultimately show ?case using g x by (auto simp: rfoldl_append mget_gput_other gput_nonempty)
qed

lemma entityLabels_correct:
  assumes "distinct gls" "\<forall>gl \<in> set gls. mget (fst ge) gl = None"
  shows "\<exists>g. rfoldl (groupEntityLabel fs eid) ge gls =
      Ok (g, snd ge @ (if flatten fs = [] then map errNoData gls else []))
    \<and> (\<forall>gl \<in> set gls. entityAs gl eid (flatten fs) g) \<and> (\<forall>gl. gl \<notin> set gls \<longrightarrow> mget g gl = mget (fst ge) gl)"
  using assms
proof (induction gls arbitrary: ge)
  case (Cons gl gls)
  obtain g1 where g1: "rfoldl (\<lambda>g (n, m). groupEntityMetric gl eid n g m) (fst ge) (flatten fs) = Ok g1"
    "entityAs gl eid (flatten fs) g1" "\<forall>gl'. gl' \<noteq> gl \<longrightarrow> mget g1 gl' = mget (fst ge) gl'"
    "mget0 [] g1 gl = [] \<longleftrightarrow> flatten fs = []"
    using entityLoop_correct[of "fst ge" gl eid "flatten fs"] Cons.prems by auto
  define es where "es = (if flatten fs = [] then snd ge @ [errNoData gl] else snd ge)"
  have step: "groupEntityLabel fs eid ge gl = Ok (g1, es)"
    using g1(1,4) by (simp add: groupEntityLabel_def rfoldl_flatten[where h = "groupEntityMetric gl eid"] es_def)
  have "\<forall>l \<in> set gls. mget (fst (g1, es)) l = None" using g1(3) Cons.prems by auto
  from Cons.IH[OF _ this] Cons.prems obtain g where g: "rfoldl (groupEntityLabel fs eid) (g1, es) gls =
      Ok (g, es @ (if flatten fs = [] then map errNoData gls else []))"
    "\<forall>gl \<in> set gls. entityAs gl eid (flatten fs) g" "\<forall>gl. gl \<notin> set gls \<longrightarrow> mget g gl = mget g1 gl" by auto
  have "rawMetric g gl = rawMetric g1 gl" using g(3) Cons.prems by (intro rawMetric_other) auto
  then have "entityAs gl eid (flatten fs) g" using g1(2) by (simp add: entityAs_def)
  then show ?case using g g1(3) step by (auto simp: es_def)
next
  case Nil
  then show ?case by (intro exI[of _ "fst ge"]) simp
qed

text \<open>
  \<open>GroupEntityMetricsBySpec\<close> never panics and puts every metric under the given entity, in every
  group of the specifications, always as a slice in the order read; without any metric there is one
  error per group.
\<close>

lemma GroupEntityMetricsBySpec_correct:
  assumes "wfmap specs"
  shows "\<exists>g. GroupEntityMetricsBySpec specs families rawEntityID =
      Ok (g, if flatten families = [] then map errNoData (map fst specs) else [])
    \<and> (\<forall>gl eid k. rawMetric g gl eid k =
         (if gl \<in> fst ` set specs \<and> eid = rawEntityID then storedSlice (namedMetrics k (flatten families)) else None))"
proof -
  obtain g where g: "GroupEntityMetricsBySpec specs families rawEntityID =
      Ok (g, if flatten families = [] then map errNoData (map fst specs) else [])"
    "\<forall>gl \<in> set (map fst specs). entityAs gl rawEntityID (flatten families) g"
    "\<forall>gl. gl \<notin> set (map fst specs) \<longrightarrow> mget g gl = None"
    using entityLabels_correct[of "map fst specs" "([], [])" families rawEntityID] assms
    by (auto simp: GroupEntityMetricsBySpec_def wfmap_def)
  have "rawMetric g gl eid k = None" if "gl \<notin> fst ` set specs" for gl eid k
    using g(3) that by (simp add: rawMetric_def)
  moreover have "entityAs gl rawEntityID (flatten families) g" if "gl \<in> fst ` set specs" for gl
    using g(2) that by auto
  ultimately have "rawMetric g gl eid k = (if gl \<in> fst ` set specs \<and> eid = rawEntityID
      then storedSlice (namedMetrics k (flatten families)) else None)" for gl eid k
    by (cases "gl \<in> fst ` set specs") (simp_all add: entityAs_def)
  then show ?thesis using g(1) by blast
qed

theorem GroupEntityMetricsBySpec_correct_witness:
  "\<exists>g. GroupEntityMetricsBySpec [(''etcd'', undefined :: unit specgroup)]
       [\<lparr>FName = ''f'', FType = ''GAUGE'', Metrics = [\<lparr>Labels = [], MValue = GaugeValue (Fin 1)\<rparr>]\<rparr>] ''pod-1''
     = Ok (g, []) \<and> rawMetric g ''etcd'' ''pod-1'' ''f'' = Some (VMetrics [\<lparr>Labels = [], MValue = GaugeValue (Fin 1)\<rparr>])"
  using GroupEntityMetricsBySpec_correct[of "[(''etcd'', undefined :: unit specgroup)]"
      "[\<lparr>FName = ''f'', FType = ''GAUGE'', Metrics = [\<lparr>Labels = [], MValue = GaugeValue (Fin 1)\<rparr>]\<rparr>]" "''pod-1''"]
  by (fastforce simp: wfmap_def flatten_def namedMetrics_def storedSlice_def)

text \<open>
  Two metrics get the same entity ID only when they name the same object: the same namespace and
  name (and pod, for a container). This rests on Kubernetes names having no underscore.
\<close>

lemma rawEntityID_identifies:
  assumes "gl \<notin> {''namespace'', ''node'', ''persistentvolume''}"
    and "CHR ''_'' \<notin> set (label m ''namespace'')" "CHR ''_'' \<notin> set (label m' ''namespace'')"
    and "CHR ''_'' \<notin> set (label m ''pod'')" "CHR ''_'' \<notin> set (label m' ''pod'')"
  shows "rawEntityIDOf gl m = rawEntityIDOf gl m' \<longleftrightarrow>
    label m ''namespace'' = label m' ''namespace'' \<and> label m gl = label m' gl \<and>
    (gl = ''container'' \<longrightarrow> label m ''pod'' = label m' ''pod'')"
  using assms by (auto simp: rawEntityIDOf_def append_sep_inject)

theorem rawEntityID_identifies_witness:
  "rawEntityIDOf ''pod'' \<lparr>Labels = [(''namespace'', ''a''), (''pod'', ''b'')], MValue = NilValue\<rparr> \<noteq>
   rawEntityIDOf ''pod'' \<lparr>Labels = [(''namespace'', ''a-b''), (''pod'', ''b'')], MValue = NilValue\<rparr>"
  by (subst rawEntityID_identifies) (simp_all add: label_def mget0_def)

section \<open>Correctness of label filters and attribute names\<close>

lemma filters_eq:
  assumes "wfmap ls"
  shows "IgnoreLabelsFilter ig ls = filter (\<lambda>(l, v). l \<notin> set ig) ls"
    and "IncludeOnlyLabelsFilter inc ls = filter (\<lambda>(l, v). l \<in> set inc) ls"
    and "IncludeOnlyWhenLabelMatchFilter mat ls = filter (\<lambda>lv. lv \<in> set mat) ls"
proof -
  show "IgnoreLabelsFilter ig ls = filter (\<lambda>(l, v). l \<notin> set ig) ls"
    using foldl_mput_filter[OF assms, of "\<lambda>l v. \<not> list_ex (\<lambda>i. i = l) ig"]
    by (auto simp: IgnoreLabelsFilter_def list_ex_iff intro!: filter_cong)
  show "IncludeOnlyLabelsFilter inc ls = filter (\<lambda>(l, v). l \<in> set inc) ls"
    using foldl_mput_filter[OF assms, of "\<lambda>l v. list_ex (\<lambda>i. i = l) inc"]
    by (auto simp: IncludeOnlyLabelsFilter_def list_ex_iff intro!: filter_cong)
  show "IncludeOnlyWhenLabelMatchFilter mat ls = filter (\<lambda>lv. lv \<in> set mat) ls"
    using foldl_mput_filter[OF assms, of "\<lambda>l v. list_ex (\<lambda>(li, vi). l = li \<and> v = vi) mat"]
    by (auto simp: IncludeOnlyWhenLabelMatchFilter_def list_ex_iff intro!: filter_cong)
qed

text \<open>
  The attribute name of a time series does not depend on the order in which the map of its labels
  is visited, whatever include or ignore filter is applied.
\<close>

lemma attributeName_order_independent:
  assumes "wfmap ls" "mset ls = mset ls'"
    and "lf = IgnoreLabelsFilter xs \<or> lf = IncludeOnlyLabelsFilter xs \<or> lf = IncludeOnlyWhenLabelMatchFilter ys"
  shows "attributeName n ov ls [lf] = attributeName n ov ls' [lf]"
proof -
  have w: "wfmap ls'" using assms(1,2) wfmap_perm by blast
  have "mset (lf ls) = mset (lf ls')"
    using assms(2,3) filters_eq[OF assms(1)] filters_eq[OF w] by auto
  then have "sort (map (\<lambda>(k, v). k @ ''_'' @ v) (lf ls)) = sort (map (\<lambda>(k, v). k @ ''_'' @ v) (lf ls'))"
    by (intro sort_perm) simp
  then show ?thesis by (simp add: attributeName_def applyFilters_def suffixLabelsInOrder_def Let_def)
qed

theorem attributeName_order_independent_witness:
  "attributeName ''m'' [] [(''verb'', ''GET''), (''code'', ''200''), (''x'', ''y'')] [IgnoreLabelsFilter [''x'']]
     = attributeName ''m'' [] [(''x'', ''y''), (''code'', ''200''), (''verb'', ''GET'')] [IgnoreLabelsFilter [''x'']]
   \<and> attributeName ''m'' [] [(''verb'', ''GET''), (''code'', ''200''), (''x'', ''y'')] [IgnoreLabelsFilter [''x'']]
     = ''m_code_200_verb_GET''"
proof
  show "attributeName ''m'' [] [(''verb'', ''GET''), (''code'', ''200''), (''x'', ''y'')] [IgnoreLabelsFilter [''x'']]
     = attributeName ''m'' [] [(''x'', ''y''), (''code'', ''200''), (''verb'', ''GET'')] [IgnoreLabelsFilter [''x'']]"
    by (rule attributeName_order_independent[where xs = "[''x'']" and ys = "[]"]) (auto simp: wfmap_def)
  show "attributeName ''m'' [] [(''verb'', ''GET''), (''code'', ''200''), (''x'', ''y'')] [IgnoreLabelsFilter [''x'']]
     = ''m_code_200_verb_GET''"
    by code_simp
qed

section \<open>Correctness of the aggregation\<close>

fun pnum :: "pvalue \<Rightarrow> float64" where
  "pnum (CounterValue x) = x"
| "pnum (GaugeValue x) = x"
| "pnum _ = NaN"

text \<open>The sum of the values of some metrics, added from the left, as a value of one kind.\<close>

definition aggregate :: "(float64 \<Rightarrow> pvalue) \<Rightarrow> metric list \<Rightarrow> goval option" where
  "aggregate mk ms = (case map (pnum \<circ> MValue) ms of [] \<Rightarrow> None | x # xs \<Rightarrow> Some (VProm (mk (foldl fadd x xs))))"

definition sameKind :: "(float64 \<Rightarrow> pvalue) \<Rightarrow> metric list \<Rightarrow> bool" where
  "sameKind mk ms \<longleftrightarrow> (mk = GaugeValue \<or> mk = CounterValue) \<and> (\<forall>m \<in> set ms. MValue m = mk (pnum (MValue m)))"

lemma aggregate_snoc:
  "aggregate mk (ms @ [m]) = Some (VProm (mk (case map (pnum \<circ> MValue) ms of
     [] \<Rightarrow> pnum (MValue m) | x # xs \<Rightarrow> fadd (foldl fadd x xs) (pnum (MValue m)))))"
  by (cases ms) (simp_all add: aggregate_def)

lemma fetchedLoop_correct:
  assumes "sameKind mk ms" "\<forall>a. mget vals a = aggregate mk (filter (\<lambda>m. attr m = a) dn)"
  shows "\<exists>vals'. fetchedLoop n attr ms vals = Ok vals' \<and>
    (\<forall>a. mget vals' a = aggregate mk (filter (\<lambda>m. attr m = a) (dn @ ms)))"
  using assms
proof (induction ms arbitrary: vals dn)
  case (Cons m ms)
  let ?F = "\<lambda>a xs. filter (\<lambda>m. attr m = a) xs"
  have k: "MValue m = mk (pnum (MValue m))" "mk = GaugeValue \<or> mk = CounterValue" "sameKind mk ms"
    using Cons.prems(1) by (auto simp: sameKind_def)
  define v where "v = the (aggregate mk (?F (attr m) (dn @ [m])))"
  have v: "aggregate mk (?F (attr m) (dn @ [m])) = Some v" by (simp add: v_def aggregate_snoc)
  have inv: "\<forall>a. mget (mput (attr m) v vals) a = aggregate mk (?F a (dn @ [m]))"
    using Cons.prems(2) v by auto
  have step: "fetchedLoop n attr (m # ms) vals = fetchedLoop n attr ms (mput (attr m) v vals)"
  proof (cases "map (pnum \<circ> MValue) (?F (attr m) dn)")
    case Nil
    then have "aggregate mk (?F (attr m) dn) = None" "v = of_pvalue (MValue m)"
      using k v by (cases "MValue m"; auto simp: aggregate_def aggregate_snoc)+
    then show ?thesis using Cons.prems(2) by simp
  next
    case (Cons x xs)
    then have "aggregate mk (?F (attr m) dn) = Some (VProm (mk (foldl fadd x xs)))"
      "v = VProm (mk (fadd (foldl fadd x xs) (pnum (MValue m))))"
      using v by (auto simp: aggregate_def aggregate_snoc)
    moreover have "getMetricValue n (VProm (mk s)) m = Ok (VProm (mk (fadd s (pnum (MValue m)))))" for s
      using k(1,2) by (cases "MValue m") (auto simp: getMetricValue_def)
    ultimately show ?thesis using Cons.prems(2) by simp
  qed
  show ?case using Cons.IH[OF k(3) inv] step by simp
qed simp

lemma fetchedLoop_correct_Nil:
  "sameKind mk ms \<Longrightarrow> \<exists>vals. fetchedLoop n attr ms [] = Ok vals \<and>
    (\<forall>a. mget vals a = aggregate mk (filter (\<lambda>m. attr m = a) ms))"
  using fetchedLoop_correct[of mk ms "[]" attr "[]"] by (simp add: aggregate_def)

text \<open>
  C28: The values of a slice of counters, or of gauges, are summed per attribute name: each name that
  the labels left by the filters produce gets the sum of exactly the series that produce it, added in
  order with \<open>float64\<close> rounding, and no other name appears.
\<close>

theorem fetchedValues_sums:
  assumes "sameKind mk ms"
  shows "\<exists>vals. fetchedValuesFromRawMetrics n ov ms fs = Ok vals \<and>
    (\<forall>a. mget vals a = aggregate mk (filter (\<lambda>m. attributeName n ov (Labels m) fs = a) ms))"
  using fetchedLoop_correct_Nil[OF assms] by (simp add: fetchedValuesFromRawMetrics_def)

theorem fetchedValues_sums_witness:
  "\<exists>vals. fetchedValuesFromRawMetrics ''m'' [] [\<lparr>Labels = [(''l1'', ''a''), (''l2'', ''b'')], MValue = CounterValue (Fin 4)\<rparr>,
       \<lparr>Labels = [(''l1'', ''a''), (''l2'', ''d'')], MValue = CounterValue (Fin 6)\<rparr>] [IgnoreLabelsFilter [''l2'']] = Ok vals
     \<and> mget vals ''m_l1_a'' = Some (VProm (CounterValue (Fin 10)))"
proof -
  let ?ms = "[\<lparr>Labels = [(''l1'', ''a''), (''l2'', ''b'')], MValue = CounterValue (Fin 4)\<rparr>,
       \<lparr>Labels = [(''l1'', ''a''), (''l2'', ''d'')], MValue = CounterValue (Fin 6)\<rparr>]"
  have "aggregate CounterValue (filter (\<lambda>m. attributeName ''m'' [] (Labels m) [IgnoreLabelsFilter [''l2'']] = ''m_l1_a'') ?ms)
      = Some (VProm (CounterValue (Fin 10)))"
    by code_simp
  then show ?thesis
    using fetchedValues_sums[of CounterValue ?ms "''m''" "[]" "[IgnoreLabelsFilter [''l2'']]"]
    by (fastforce simp: sameKind_def)
qed

lemma withLabelsLoop_eq:
  "withLabelsLoop name ms fs vals = fetchedLoop name (\<lambda>_. name) (filter (hasMatchingLabels fs) ms) vals"
proof (induction ms arbitrary: vals)
  case (Cons m ms)
  then show ?case by (cases "mget vals name") auto
qed simp

lemma mget_single: "(\<forall>a. mget vals a = (if a = n then v else None)) \<Longrightarrow> vals \<noteq> [] \<longleftrightarrow> v \<noteq> None"
  by (cases vals) (auto split: if_splits)

text \<open>
  Counting with a label filter over a slice of gauges gives the sum of the series that have a
  matching label, and zero when none has.
\<close>

lemma Count_slice:
  assumes "rawMetric groups gl eid n = Some (VMetrics ms)" "sameKind GaugeValue ms" "ov \<noteq> []"
  shows "\<exists>vals. CountFromValueWithLabelsFilter n ov fs gl eid groups = Ok (VFetched vals) \<and>
    (\<forall>a. mget vals a = (if a \<noteq> ov then None
       else if filter (hasMatchingLabels fs) ms = [] then Some (VProm (GaugeValue (Fin 0)))
       else aggregate GaugeValue (filter (hasMatchingLabels fs) ms)))"
proof -
  let ?ms = "filter (hasMatchingLabels fs) ms"
  have "sameKind GaugeValue ?ms" using assms(2) by (auto simp: sameKind_def)
  from fetchedLoop_correct_Nil[OF this, of ov "\<lambda>_. ov"] obtain vals where
    v: "withLabelsLoop ov ms fs [] = Ok vals" "\<forall>a. mget vals a = (if a = ov then aggregate GaugeValue ?ms else None)"
    by (auto simp: withLabelsLoop_eq aggregate_def)
  have ne: "vals \<noteq> [] \<longleftrightarrow> ?ms \<noteq> []"
    using mget_single[OF v(2)] by (cases "filter (hasMatchingLabels fs) ms") (auto simp: aggregate_def)
  define vals' where "vals' = (if vals = [] then mput ov (VProm (GaugeValue (Fin 0))) vals else vals)"
  have "CountFromValueWithLabelsFilter n ov fs gl eid groups = Ok (VFetched vals')"
    using assms v(1) by (auto simp: CountFromValueWithLabelsFilter_def FromRaw_eq fetchedValuesFromRawMetricsWithLabels_def vals'_def)
  moreover have "\<forall>a. mget vals' a = (if a \<noteq> ov then None else if ?ms = [] then Some (VProm (GaugeValue (Fin 0)))
      else aggregate GaugeValue ?ms)"
    using v(2) ne by (auto simp: vals'_def)
  ultimately show ?thesis by blast
qed

definition readyFilter :: labelsfilter where
  "readyFilter = IncludeOnlyWhenLabelMatchFilter [(''ready'', ''true'')]"

definition notReadyAddress :: metric where
  "notReadyAddress = \<lparr>Labels = [(''endpoint'', ''e''), (''ready'', ''false'')], MValue = GaugeValue (Fin 1)\<rparr>"

theorem Count_slice_witness:
  "\<exists>vals. CountFromValueWithLabelsFilter ''a'' ''x'' [readyFilter] ''endpoint'' ''e''
      [(''endpoint'', [(''e'', [(''a'', VMetrics [notReadyAddress, notReadyAddress])])])] = Ok (VFetched vals)
    \<and> mget vals ''x'' = Some (VProm (GaugeValue (Fin 0)))"
proof -
  have "\<not> hasMatchingLabels [readyFilter] notReadyAddress" by code_simp
  then show ?thesis
    using Count_slice[of "[(''endpoint'', [(''e'', [(''a'', VMetrics [notReadyAddress, notReadyAddress])])])]"
        "''endpoint''" "''e''" "''a''" "[notReadyAddress, notReadyAddress]" "''x''" "[readyFilter]"]
    by (fastforce simp: rawMetric_def sameKind_def notReadyAddress_def)
qed

text \<open>
  With a single time series the label filter is not applied: one address that is not ready is
  counted both as available and as not ready.
\<close>

lemma Count_single_ignores_filter:
  assumes "rawMetric groups gl eid n = Some (VMetric m)" "MValue m = GaugeValue x"
  shows "CountFromValueWithLabelsFilter n ov fs gl eid groups = Ok (VProm (GaugeValue x))"
  using assms by (simp add: CountFromValueWithLabelsFilter_def FromRaw_eq)

theorem Count_single_ignores_filter_witness:
  "CountFromValueWithLabelsFilter ''a'' ''x'' [readyFilter] ''endpoint'' ''e''
      [(''endpoint'', [(''e'', [(''a'', VMetric notReadyAddress)])])] = Ok (VProm (GaugeValue (Fin 1)))
   \<and> \<not> hasMatchingLabels [readyFilter] notReadyAddress"
proof
  show "CountFromValueWithLabelsFilter ''a'' ''x'' [readyFilter] ''endpoint'' ''e''
      [(''endpoint'', [(''e'', [(''a'', VMetric notReadyAddress)])])] = Ok (VProm (GaugeValue (Fin 1)))"
    by (rule Count_single_ignores_filter[where m = notReadyAddress]) (simp_all add: rawMetric_def notReadyAddress_def)
  show "\<not> hasMatchingLabels [readyFilter] notReadyAddress" by code_simp
qed

section \<open>Correctness of the label lookups\<close>

text \<open>The metric whose labels are read: the single metric or the first of a slice.\<close>

definition headMetric :: "rawgroups \<Rightarrow> string \<Rightarrow> string \<Rightarrow> string \<Rightarrow> metric option" where
  "headMetric groups gl eid k = (case rawMetric groups gl eid k of
     Some (VMetric m) \<Rightarrow> Some m | Some (VMetrics (m # _)) \<Rightarrow> Some m | _ \<Rightarrow> None)"

lemma FromLabelValue_Ok_iff:
  "FromLabelValue k l gl eid groups = Ok v \<longleftrightarrow>
     (\<exists>m s. headMetric groups gl eid k = Some m \<and> mget (Labels m) l = Some s \<and> v = VString s)"
proof (cases "rawMetric groups gl eid k")
  case None
  then show ?thesis using FromRaw_fail[OF None] by (auto simp: FromLabelValue_def headMetric_def)
next
  case (Some w)
  then show ?thesis
    by (auto simp: FromLabelValue_def headMetric_def FromRaw_eq split: goval.splits list.splits option.splits)
qed

lemma FromLabelValue_no_panic [simp]: "\<not> is_panic (FromLabelValue k l gl eid groups)"
  unfolding FromLabelValue_def by (rule rbind_no_panic) (auto split: goval.splits list.splits option.splits)

lemma EntityID_Ok_iff:
  "FromLabelValueEntityIDGenerator k l gl eid groups = Ok s \<longleftrightarrow>
     (\<exists>m. headMetric groups gl eid k = Some m \<and> mget (Labels m) l = Some s)"
  by (auto simp: FromLabelValueEntityIDGenerator_def rbindw_Ok_iff FromLabelValue_Ok_iff)

text \<open>
  The ID of a pending pod is generated exactly when the pod has a phase metric with its name and
  a scheduling metric whose condition is \<open>false\<close>: the scheduled pods are left to the kubelet.
\<close>

lemma PendingPods_iff:
  "FromLabelsValueEntityIDGeneratorForPendingPods gl eid groups = Ok podName \<longleftrightarrow>
     (\<exists>m n. headMetric groups gl eid ''kube_pod_status_phase'' = Some m \<and> mget (Labels m) ''pod'' = Some podName \<and>
        headMetric groups gl eid ''kube_pod_status_scheduled'' = Some n \<and> mget (Labels n) ''condition'' = Some ''false'')"
  by (auto simp: FromLabelsValueEntityIDGeneratorForPendingPods_def rbind_Ok_iff EntityID_Ok_iff split: if_splits)

end
