(* ===== verification/Metric_Compute.thy ===== *)
theory Metric_Compute
  imports Prometheus_Definition
begin

text \<open>
  The computed metrics of \<open>src/metric/definition.go\<close>: percentages and utilizations in \<open>float64\<close>,
  transformations of raw values, and the filter for impossible CPU readings.
\<close>

section \<open>Definitions\<close>

definition isPersistentVolume :: fetchfunc where
  "isPersistentVolume groupLabel entityID groups =
     (case FromRaw ''pvcName'' groupLabel entityID groups of
        Ok name \<Rightarrow> if name \<noteq> VString [] then Ok (VString ''true'') else Ok (VString ''false'')
      | _ \<Rightarrow> Ok (VString ''false''))"

fun convertValue :: "goval \<Rightarrow> float64 result" where
  "convertValue (VUint w) = Ok (of_u64 w)"
| "convertValue (VUint64 w) = Ok (of_u64 w)"
| "convertValue (VInt w) = Ok (of_i64 w)"
| "convertValue (VInt64 w) = Ok (of_i64 w)"
| "convertValue (VProm (GaugeValue x)) = Ok x"
| "convertValue (VFloat64 x) = Ok x"
| "convertValue (VFetched [(k, v)]) = convertValue v"
| "convertValue (VFetched kvs) = Fail (errorsNew ''unable to convert FetchedValues'')"
| "convertValue v = Fail (Errorf ''type not supported %T'' [goType v] [])"

definition computePercentage :: "goval \<Rightarrow> goval \<Rightarrow> goval result" where
  "computePercentage dividend divisor =
     rbindw (\<lambda>e. Errorf ''casting dividend: %w'' [] [e]) (convertValue dividend) (\<lambda>a.
     rbindw (\<lambda>e. Errorf ''casting divisor: %w'' [] [e]) (convertValue divisor) (\<lambda>b.
     if feq b (Fin 0) then Fail (errorsNew ''division by zero'')
     else Ok (VFloat64 (fmul (fdiv a b) (Fin 100)))))"

definition asUint64 :: "goval \<Rightarrow> 64 word result" where
  "asUint64 v = (case v of VUint64 w \<Rightarrow> Ok w | _ \<Rightarrow> typePanic v ''uint64'')"

definition toComplementPercentage :: "string \<Rightarrow> string \<Rightarrow> fetchfunc" where
  "toComplementPercentage desiredMetric complementMetric groupLabel entityID groups =
     rbind (FromRaw complementMetric groupLabel entityID groups) (\<lambda>complement.
     rbind (FromRaw desiredMetric groupLabel entityID groups) (\<lambda>desired.
     rbind (asUint64 desired) (\<lambda>d.
     rbind (asUint64 complement) (\<lambda>c.
     rbindw (\<lambda>e. Errorf ''error computing percentage for %s & %s: %s'' [desiredMetric, complementMetric, errMsg e] [])
       (computePercentage (VUint64 d) (VUint64 (d + c))) Ok))))"

definition toUtilization :: "fetchfunc \<Rightarrow> fetchfunc \<Rightarrow> fetchfunc" where
  "toUtilization dividendFunc divisorFunc groupLabel entityID groups =
     rbindw (\<lambda>e. Errorf ''getting divident metric: %w'' [] [e]) (dividendFunc groupLabel entityID groups) (\<lambda>dividend.
     rbindw (\<lambda>e. Errorf ''getting divisor metric: %w'' [] [e]) (divisorFunc groupLabel entityID groups) (\<lambda>divisor.
     rbindw (\<lambda>e. Errorf ''computing utilization: %w'' [] [e]) (computePercentage dividend divisor) Ok))"

definition fromNano :: transformfunc where
  "fromNano v = (case v of
     VUint64 w \<Rightarrow> Ok (VFloat64 (fdiv (of_u64 w) (Fin 1000000000)))
   | _ \<Rightarrow> Fail (errorsNew ''error transforming to cpu cores''))"

definition fromNanoToMilli :: transformfunc where
  "fromNanoToMilli v = (case v of
     VUint64 w \<Rightarrow> Ok (VFloat64 (fdiv (of_u64 w) (Fin 1000000)))
   | _ \<Rightarrow> Fail (errorsNew ''error transforming cpu cores to milliseconds''))"

text \<open>\<open>Time.Unix\<close>: the whole seconds, rounded down.\<close>

definition unixSeconds :: "int \<Rightarrow> 64 word" where
  "unixSeconds t = word_of_int (t div 1000000000)"

definition toTimestamp :: transformfunc where
  "toTimestamp v = (case v of
     VTime t \<Rightarrow> Ok (VInt64 (unixSeconds t))
   | _ \<Rightarrow> Fail (errorsNew ''error transforming to timestamp''))"

definition toNumericBoolean :: transformfunc where
  "toNumericBoolean v =
     (if v \<in> {VString ''true'', VString ''True'', VBool True, VInt 1} then Ok (VInt 1)
      else if v \<in> {VString ''false'', VString ''False'', VBool False, VInt 0} then Ok (VInt 0)
      else if v = VString ''unknown'' then Ok (VInt (- 1))
      else Fail (Err (''value '' @ [CHR 0x27] @ ''%v'' @ [CHR 0x27] @ '' can not be converted to numeric boolean'') [EVal v] []))"

definition toCores :: transformfunc where
  "toCores v = (case v of
     VInt w \<Rightarrow> Ok (VFloat64 (fdiv (of_i64 w) (Fin 1000)))
   | VInt64 w \<Rightarrow> Ok (VFloat64 (fdiv (of_i64 w) (Fin 1000)))
   | _ \<Rightarrow> Fail (errorsNew ''error transforming to cores''))"

definition fromPrometheusNumeric :: transformfunc where
  "fromPrometheusNumeric v = (case v of
     VProm (GaugeValue x) \<Rightarrow> Ok (VFloat64 x)
   | VProm (CounterValue x) \<Rightarrow> Ok (VFloat64 x)
   | _ \<Rightarrow> Fail (Err (''invalid type value '' @ [CHR 0x27] @ ''%v'' @ [CHR 0x27] @ ''. Expected '' @ [CHR 0x27] @ ''gauge'' @ [CHR 0x27]
            @ '' or '' @ [CHR 0x27] @ ''counter'' @ [CHR 0x27] @ '', got '' @ [CHR 0x27] @ ''%T'' @ [CHR 0x27]) [EVal v, EStr (goType v)] []))"

definition asFloat64 :: "goval \<Rightarrow> float64 result" where
  "asFloat64 v = (case v of VFloat64 x \<Rightarrow> Ok x | _ \<Rightarrow> typePanic v ''float64'')"

definition Subtract :: "fetchfunc \<Rightarrow> fetchfunc \<Rightarrow> fetchfunc" where
  "Subtract left right groupLabel entityID groups =
     rbind (left groupLabel entityID groups) (\<lambda>leftValue.
     rbind (right groupLabel entityID groups) (\<lambda>rightValue.
     rbind (asFloat64 leftValue) (\<lambda>l.
     rbind (asFloat64 rightValue) (\<lambda>r.
     Ok (VFloat64 (fsub l r))))))"

definition fetchWithDefault :: "fetchfunc \<Rightarrow> goval \<Rightarrow> fetchfunc" where
  "fetchWithDefault fetch defaultValue groupLabel entityID groups =
     (case fetch groupLabel entityID groups of
        Ok v \<Rightarrow> Ok v
      | Fail _ \<Rightarrow> Ok defaultValue
      | Panic p \<Rightarrow> Panic p)"

definition fetchIfMissing :: "fetchfunc \<Rightarrow> fetchfunc \<Rightarrow> fetchfunc" where
  "fetchIfMissing replacement main groupLabel entityID groups =
     (case main groupLabel entityID groups of
        Ok _ \<Rightarrow> Ok (VFetched [])
      | Fail _ \<Rightarrow> replacement groupLabel entityID groups
      | Panic p \<Rightarrow> Panic p)"

definition metricSetTypeGuesserWithCustomGroup :: "string \<Rightarrow> guessfunc" where
  "metricSetTypeGuesserWithCustomGroup grp _ = K8sMetricSetTypeGuesser grp"

definition errFetchedValueTypeCheck :: err where
  "errFetchedValueTypeCheck = errorsNew ''fetchedValue must be of type float64''"
definition errCPULimitTypeCheck :: err where
  "errCPULimitTypeCheck = errorsNew ''cpuLimit must be of type float64''"
definition errGroupLabelCheck :: err where
  "errGroupLabelCheck = errorsNew ''group label not found''"
definition errEntityCheck :: err where
  "errEntityCheck = errorsNew ''entity Id not found''"
definition errHighCPUUsedCores :: err where
  "errHighCPUUsedCores = errorsNew ''impossibly high value received from kubelet for cpuUsedCoresVal''"

definition attrCPULimit :: string where
  "attrCPULimit = ''cpuLimitCores''"

definition filterCPUUsedCores :: filterfunc where
  "filterCPUUsedCores fetchedValue groupLabel entityID groups =
     (case fetchedValue of
        VFloat64 val \<Rightarrow>
          (case mget groups groupLabel of
             None \<Rightarrow> Fail errGroupLabelCheck
           | Some grp \<Rightarrow>
               (case mget grp entityID of
                  None \<Rightarrow> Fail errEntityCheck
                | Some entity \<Rightarrow>
                    (let v = (case mget entity attrCPULimit of None \<Rightarrow> VInt 96000 | Some v \<Rightarrow> v) in
                     rbind (toCores v) (\<lambda>cpuLimitCoresVal.
                       case cpuLimitCoresVal of
                         VFloat64 cpuLimit \<Rightarrow>
                           if flt (fmul cpuLimit (Fin 100)) val then Fail errHighCPUUsedCores
                           else Ok fetchedValue
                       | _ \<Rightarrow> Fail errCPULimitTypeCheck))))
      | _ \<Rightarrow> Fail errFetchedValueTypeCheck)"

section \<open>Bounds of percentages\<close>

text \<open>A quotient of two numbers \<open>0 \<le> a \<le> b\<close> times 100 stays between 0 and 100 after both roundings.\<close>

lemma percentage_bounds:
  assumes "0 \<le> a" "a \<le> b" "0 < b"
  shows "fle (Fin 0) (fmul (fdiv (Fin a) (Fin b)) (Fin 100)) \<and> fle (fmul (fdiv (Fin a) (Fin b)) (Fin 100)) (Fin 100)"
proof -
  have "fle (Fin 0) (rnd (a / b))" "fle (rnd (a / b)) (rnd 1)"
    using assms rnd_mono[of "a / b" 1] rnd_ge_0[of "a / b"] by (auto simp: divide_le_eq_1)
  then obtain r where r: "rnd (a / b) = Fin r" "0 \<le> r" "r \<le> 1"
    by (cases "rnd (a / b)") auto
  then have "fle (Fin 0) (rnd (r * 100))" "fle (rnd (r * 100)) (rnd 100)"
    using rnd_mono[of "r * 100" 100] rnd_ge_0[of "r * 100"] by auto
  then show ?thesis using r assms by simp
qed

lemma of_u64_mono: "unat v \<le> unat w \<Longrightarrow> fle (of_u64 v) (of_u64 w)"
  unfolding of_u64_def by (rule rnd_mono) (simp only: of_nat_le_iff)

lemma rndpos_bound: "0 < q \<Longrightarrow> q \<le> pow2 64 \<Longrightarrow> rndpos q \<le> pow2 64"
  using rndpos_mono[of q "pow2 64"] rndpos_pow2[of 64] by simp

lemma of_u64_Fin: "\<exists>q. of_u64 w = Fin q \<and> 0 \<le> q \<and> (0 < unat w \<longrightarrow> 0 < q)"
proof (cases "unat w = 0")
  case False
  let ?q = "of_nat (unat w) :: rat"
  have q: "0 < ?q" using False by (simp only: of_nat_0_less_iff neq0_conv)
  have "?q \<le> of_nat (2 ^ 64)" using unsigned_less[of w, where 'a = nat] by (simp only: of_nat_le_iff) simp
  also have "\<dots> = pow2 64" by (simp add: pow2_def)
  finally have "rndpos ?q \<le> pow2 64" using rndpos_bound q by blast
  moreover have "pow2 64 < of_int (2 ^ 1024)" by (simp add: pow2_def)
  ultimately have lt: "rndpos ?q < of_int (2 ^ 1024)" by linarith
  have "of_nat 1 \<le> ?q" using False by (simp only: of_nat_le_iff)
  then have "1 \<le> ?q" by simp
  then have "rndpos (pow2 0) \<le> rndpos ?q" by (intro rndpos_mono) (simp_all add: pow2_def)
  then have "1 \<le> rndpos ?q" using rndpos_pow2[of 0] by (simp add: pow2_def)
  then show ?thesis using q lt by (auto simp: of_u64_def rnd_def Let_def)
qed (simp add: of_u64_def)

lemma computePercentage_u64:
  assumes "unat d \<le> unat t" "0 < unat t"
  shows "\<exists>p. computePercentage (VUint64 d) (VUint64 t) = Ok (VFloat64 p) \<and> fle (Fin 0) p \<and> fle p (Fin 100)"
proof -
  obtain a where a: "of_u64 d = Fin a" "0 \<le> a" using of_u64_Fin by blast
  obtain b where b: "of_u64 t = Fin b" "0 < b" using of_u64_Fin assms(2) by blast
  have "a \<le> b" using of_u64_mono[OF assms(1)] a b by simp
  then show ?thesis using percentage_bounds[OF a(2) _ b(2)] a b by (simp add: computePercentage_def)
qed

text \<open>
  The used percentage of a file system is between 0 and 100, both bounds after \<open>float64\<close>
  rounding, whenever the sum of used and available bytes does not wrap at 64 bits and is not zero;
  the fetch neither fails nor panics then.
\<close>

lemma toComplementPercentage_bounds:
  assumes "rawMetric groups gl eid desired = Some (VUint64 d)" "rawMetric groups gl eid complement = Some (VUint64 c)"
    and "unat d + unat c < 2 ^ 64" "0 < unat d + unat c"
  shows "\<exists>p. toComplementPercentage desired complement gl eid groups = Ok (VFloat64 p)
    \<and> fle (Fin 0) p \<and> fle p (Fin 100)"
proof -
  have "unat (d + c) = unat d + unat c" using assms(3) by (simp add: unat_word_ariths)
  then obtain p where "computePercentage (VUint64 d) (VUint64 (d + c)) = Ok (VFloat64 p)"
    "fle (Fin 0) p" "fle p (Fin 100)"
    using computePercentage_u64[of d "d + c"] assms(4) by auto
  then show ?thesis using assms(1,2) by (simp add: toComplementPercentage_def FromRaw_eq asUint64_def)
qed

theorem toComplementPercentage_bounds_witness:
  "\<exists>p. toComplementPercentage ''fsUsedBytes'' ''fsAvailableBytes'' ''node'' ''n''
      [(''node'', [(''n'', [(''fsUsedBytes'', VUint64 1), (''fsAvailableBytes'', VUint64 2)])])] = Ok (VFloat64 p)
    \<and> fle (Fin 0) p \<and> fle p (Fin 100)"
  by (rule toComplementPercentage_bounds[where d = 1 and c = 2]) (simp_all add: rawMetric_def)

section \<open>Behaviour of the transformations\<close>

text \<open>
  A numeric boolean is 1, 0 or -1, and exactly the documented spellings are accepted; everything
  else is an error, and nothing panics.
\<close>

lemma toNumericBoolean_cases:
  "((\<exists>w \<in> {1, 0, - 1}. toNumericBoolean v = Ok (VInt w)) \<longleftrightarrow>
     v \<in> {VString ''true'', VString ''True'', VBool True, VInt 1, VString ''false'', VString ''False'',
          VBool False, VInt 0, VString ''unknown''})
   \<and> \<not> is_panic (toNumericBoolean v)"
  by (auto simp: toNumericBoolean_def)

lemma fromPrometheusNumeric_Ok: "fromPrometheusNumeric v = Ok w \<Longrightarrow> \<exists>x. w = VFloat64 x"
  by (auto simp: fromPrometheusNumeric_def split: goval.splits pvalue.splits)

lemma fromPrometheusNumeric_no_panic [simp]: "\<not> is_panic (fromPrometheusNumeric v)"
  by (auto simp: fromPrometheusNumeric_def split: goval.splits pvalue.splits)

lemma getMetricValue_no_panic [simp]: "\<not> is_panic (getMetricValue n a m)"
  by (auto simp: getMetricValue_def split: pvalue.splits goval.splits)

lemma fetchedLoop_no_panic [simp]: "\<not> is_panic (fetchedLoop n attr ms vals)"
proof (induction ms arbitrary: vals)
  case (Cons m ms)
  then show ?case by (auto split: option.split)
qed simp

lemma FromValueWithOverriddenName_no_panic [simp]: "\<not> is_panic (FromValueWithOverriddenName n ov fs gl eid gs)"
  unfolding FromValueWithOverriddenName_def fetchedValuesFromRawMetrics_def
  by (intro rbind_no_panic) (auto split: goval.splits)

lemma FromValue_no_panic [simp]: "\<not> is_panic (FromValue n fs gl eid gs)"
  by (simp add: FromValue_def)

text \<open>
  The subtraction of two Prometheus numbers never panics: its unchecked type assertions are safe
  because both operands went through \<open>fromPrometheusNumeric\<close>. When it succeeds it is the rounded
  difference of the two fetched numbers.
\<close>

lemma Subtract_prometheus_safe:
  "\<not> is_panic (Subtract (Transform (FromValue a fs) fromPrometheusNumeric) (Transform (FromValue b fs') fromPrometheusNumeric) gl eid gs)"
  unfolding Subtract_def Transform_def
  by (intro rbind_no_panic)
     (auto simp: rbind_Ok_iff asFloat64_def dest!: fromPrometheusNumeric_Ok)

text \<open>
  The CPU filter passes a reading unchanged exactly when it is not above one hundred times the
  limit in cores (96 cores when the container has none), and rejects it with
  \<open>errHighCPUUsedCores\<close> otherwise.
\<close>

lemma filterCPUUsedCores_iff:
  assumes "mget groups gl = Some grp" "mget grp eid = Some entity"
    and "lm = (case mget entity attrCPULimit of None \<Rightarrow> 96000 | Some (VInt64 l) \<Rightarrow> l)"
    and "mget entity attrCPULimit = None \<or> (\<exists>l. mget entity attrCPULimit = Some (VInt64 l))"
  shows "filterCPUUsedCores (VFloat64 x) gl eid groups =
    (if flt (fmul (fdiv (of_i64 lm) (Fin 1000)) (Fin 100)) x then Fail errHighCPUUsedCores else Ok (VFloat64 x))"
  using assms by (auto simp: filterCPUUsedCores_def toCores_def Let_def)

theorem filterCPUUsedCores_iff_witness:
  "filterCPUUsedCores (VFloat64 (Fin 51)) ''container'' ''c'' [(''container'', [(''c'', [(''cpuLimitCores'', VInt64 500)])])]
     = Fail errHighCPUUsedCores
   \<and> filterCPUUsedCores (VFloat64 (Fin 50)) ''container'' ''c'' [(''container'', [(''c'', [(''cpuLimitCores'', VInt64 500)])])]
     = Ok (VFloat64 (Fin 50))"
proof -
  have f: "flt (fmul (fdiv (of_i64 500) (Fin 1000)) (Fin 100)) (Fin 51)"
    "\<not> flt (fmul (fdiv (of_i64 500) (Fin 1000)) (Fin 100)) (Fin 50)"
    by code_simp+
  show ?thesis
    using f filterCPUUsedCores_iff[of "[(''container'', [(''c'', [(''cpuLimitCores'', VInt64 500)])])]" "''container''"
        "[(''c'', [(''cpuLimitCores'', VInt64 500)])]" "''c''" "[(''cpuLimitCores'', VInt64 500)]" 500]
    by (simp add: attrCPULimit_def)
qed

end
