(* ===== verification/Kubelet_Stats.thy ===== *)
theory Kubelet_Stats
  imports Metric_Compute
begin

text \<open>
  \<open>src/kubelet/metric/metric.go\<close>, \<open>transform.go\<close> and \<open>resource.go\<close>: the stats summary of a kubelet,
  its grouping into nodes, pods, containers and volumes, the generators of entity names and types
  over these groups, and the transformations of labels, conditions and resources. The JSON decoder,
  the HTTP client and the camel-case conversion are parameters.
\<close>

section \<open>The stats summary (\<open>k8s.io/kubelet/pkg/apis/stats/v1alpha1\<close>)\<close>

text \<open>Pointers to numbers are options.\<close>

type_synonym u64opt = "64 word option"

record cpustats =
  UsageNanoCores :: u64opt
  UsageCoreNanoSeconds :: u64opt

record memorystats =
  MAvailableBytes :: u64opt
  UsageBytes :: u64opt
  WorkingSetBytes :: u64opt
  RSSBytes :: u64opt
  PageFaults :: u64opt
  MajorPageFaults :: u64opt

record interfacestats =
  IName :: string
  RxBytes :: u64opt
  RxErrors :: u64opt
  TxBytes :: u64opt
  TxErrors :: u64opt

record networkstats =
  NDefault :: interfacestats
  Interfaces :: "interfacestats list"

record fsstats =
  AvailableBytes :: u64opt
  CapacityBytes :: u64opt
  UsedBytes :: u64opt
  InodesFree :: u64opt
  Inodes :: u64opt
  InodesUsed :: u64opt

record nodestats =
  NodeName :: string
  NCPU :: "cpustats option"
  NMemory :: "memorystats option"
  NNetwork :: "networkstats option"
  NFs :: "fsstats option"
  NRuntimeImageFs :: "fsstats option"

record containerstats =
  CName :: string
  CCPU :: "cpustats option"
  CMemory :: "memorystats option"
  CRootfs :: "fsstats option"

record volumestats =
  VName :: string
  PVCRef :: "(string \<times> string) option"
  VFsStats :: fsstats

record podstats =
  PodRefName :: string
  PodRefNamespace :: string
  PContainers :: "containerstats list"
  PCPU :: "cpustats option"
  PMemory :: "memorystats option"
  PNetwork :: "networkstats option"
  PVolumeStats :: "volumestats list"

text \<open>A nil slice of pods is told apart from an empty one.\<close>

record statssummary =
  SNode :: nodestats
  SPods :: "podstats list option"

section \<open>Reading the endpoint\<close>

definition StatsSummaryPath :: string where
  "StatsSummaryPath = ''/stats/summary''"

definition maxErrorBodyBytes :: nat where
  "maxErrorBodyBytes = 1 * 1024 * 1024"

text \<open>\<open>io.ReadAll(io.LimitReader(body, n))\<close>: the error after the content is met only below the limit.\<close>

definition readAllLimited :: "nat \<Rightarrow> body \<Rightarrow> string \<times> err option" where
  "readAllLimited n b = (take n (Content b), if length (Content b) < n then ReadErr b else None)"

definition GetMetricsData ::
  "(body \<Rightarrow> statssummary result) \<Rightarrow> (string \<Rightarrow> httpresponse result) \<Rightarrow> statssummary result" where
  "GetMetricsData decode Get =
     rbindw (\<lambda>e. Errorf ''performing GET request to kubelet endpoint %q: %w'' [StatsSummaryPath] [e])
       (Get StatsSummaryPath) (\<lambda>resp.
       if StatusCode resp \<noteq> 200 then
         (case readAllLimited maxErrorBodyBytes (Body resp) of (bdy, rerr) \<Rightarrow>
            let bodyErr = (case rerr of
                  None \<Rightarrow> Errorf ''response body: %s'' [bdy] []
                | Some e \<Rightarrow> Errorf ''reading response body: %w'' [] [e])
            in Fail (Errorf ''received non-OK response code from kubelet: %d: %w'' [Itoa (StatusCode resp)] [bodyErr]))
       else rbindw (\<lambda>e. Errorf ''unmarshaling the response body into kubelet stats Summary: %w'' [] [e])
              (decode (Body resp)) Ok)"

section \<open>Raw metrics of nodes, pods, containers and volumes\<close>

definition AddUint64RawMetric :: "string \<Rightarrow> u64opt \<Rightarrow> rawmetrics \<Rightarrow> rawmetrics" where
  "AddUint64RawMetric name valuePtr r = (case valuePtr of None \<Rightarrow> r | Some v \<Rightarrow> mput name (VUint64 v) r)"

text \<open>A sequence of additions, in the order of the source.\<close>

definition addAll :: "(string \<times> u64opt) list \<Rightarrow> rawmetrics \<Rightarrow> rawmetrics" where
  "addAll xs r = foldl (\<lambda>r (n, v). AddUint64RawMetric n v r) r xs"

text \<open>The sum of errors wraps at 64 bits.\<close>

definition addInterface :: "interfacestats \<Rightarrow> rawmetrics \<Rightarrow> rawmetrics" where
  "addInterface i r =
     (let r = addAll [(''rxBytes'', RxBytes i), (''txBytes'', TxBytes i)] r in
      case (RxErrors i, TxErrors i) of
        (Some rx, Some tx) \<Rightarrow> mput ''errors'' (VUint64 (rx + tx)) r
      | _ \<Rightarrow> r)"

definition addNetwork :: "networkstats option \<Rightarrow> rawmetrics \<Rightarrow> rawmetrics" where
  "addNetwork n r =
     (case n of
        None \<Rightarrow> r
      | Some net \<Rightarrow>
          mput ''interfaces''
            (VInterfaces (foldl (\<lambda>ifs i. mput (IName i) (addInterface i []) ifs) [] (Interfaces net)))
            (addInterface (NDefault net) r))"

definition addFs :: "string \<Rightarrow> fsstats option \<Rightarrow> rawmetrics \<Rightarrow> rawmetrics" where
  "addFs pre fs r =
     (case fs of
        None \<Rightarrow> r
      | Some f \<Rightarrow> addAll [(pre @ ''AvailableBytes'', AvailableBytes f), (pre @ ''CapacityBytes'', CapacityBytes f),
                          (pre @ ''UsedBytes'', UsedBytes f), (pre @ ''InodesFree'', InodesFree f),
                          (pre @ ''Inodes'', Inodes f), (pre @ ''InodesUsed'', InodesUsed f)] r)"

definition fetchNodeStats :: "nodestats \<Rightarrow> (rawmetrics \<times> string) result" where
  "fetchNodeStats n =
     (if NodeName n = [] then
        Fail (Errorf ''empty node identifier, possible data error in %s response'' [StatsSummaryPath] [])
      else
        let r = mput ''nodeName'' (VString (NodeName n)) [];
            r = (case NCPU n of None \<Rightarrow> r | Some c \<Rightarrow>
                   addAll [(''usageNanoCores'', UsageNanoCores c), (''usageCoreNanoSeconds'', UsageCoreNanoSeconds c)] r);
            r = (case NMemory n of None \<Rightarrow> r | Some m \<Rightarrow>
                   addAll [(''memoryUsageBytes'', UsageBytes m), (''memoryAvailableBytes'', MAvailableBytes m),
                           (''memoryWorkingSetBytes'', WorkingSetBytes m), (''memoryRssBytes'', RSSBytes m),
                           (''memoryPageFaults'', PageFaults m), (''memoryMajorPageFaults'', MajorPageFaults m)] r);
            r = addNetwork (NNetwork n) r;
            r = addFs ''fs'' (NFs n) r;
            r = addFs ''runtime'' (NRuntimeImageFs n) r
        in Ok (r, NodeName n))"

text \<open>CPU and memory of pods and containers.\<close>

definition addUsage :: "cpustats option \<Rightarrow> memorystats option \<Rightarrow> rawmetrics \<Rightarrow> rawmetrics" where
  "addUsage c m r =
     (let r = (case c of None \<Rightarrow> r | Some c \<Rightarrow> AddUint64RawMetric ''usageNanoCores'' (UsageNanoCores c) r)
      in case m of None \<Rightarrow> r
         | Some m \<Rightarrow> addAll [(''usageBytes'', UsageBytes m), (''workingSetBytes'', WorkingSetBytes m)] r)"

definition fetchPodStats :: "podstats \<Rightarrow> (rawmetrics \<times> string) result" where
  "fetchPodStats pod =
     (if PodRefName pod = [] \<or> PodRefNamespace pod = [] then
        Fail (Errorf ''empty pod identifier, possible data error in %s response'' [StatsSummaryPath] [])
      else
        let r = mput ''podName'' (VString (PodRefName pod)) [];
            r = mput ''namespace'' (VString (PodRefNamespace pod)) r;
            r = addNetwork (PNetwork pod) r;
            r = addUsage (PCPU pod) (PMemory pod) r
        in Ok (r, PodRefNamespace pod @ ''_'' @ PodRefName pod))"

definition fetchContainerStats :: "containerstats \<Rightarrow> rawmetrics result" where
  "fetchContainerStats c =
     (if CName c = [] then
        Fail (Errorf ''empty container identifier, possible data error in %s response'' [StatsSummaryPath] [])
      else
        let r = mput ''containerName'' (VString (CName c)) [];
            r = addUsage (CCPU c) (CMemory c) r;
            r = addFs ''fs'' (CRootfs c) r
        in Ok r)"

definition fetchVolumeStats :: "volumestats \<Rightarrow> rawmetrics result" where
  "fetchVolumeStats v =
     (if VName v = [] then
        Fail (Errorf ''empty volume identifier, possible data error in %s response'' [StatsSummaryPath] [])
      else
        let r = mput ''volumeName'' (VString (VName v)) [];
            r = (case PVCRef v of None \<Rightarrow> r | Some (n, ns) \<Rightarrow>
                   mput ''pvcNamespace'' (VString ns) (mput ''pvcName'' (VString n) r));
            r = addFs ''fs'' (Some (VFsStats v)) r
        in Ok r)"

section \<open>Grouping of the summary\<close>

text \<open>\<open>g[group][id] = metrics\<close> on a group that exists.\<close>

definition putEntity :: "string \<Rightarrow> string \<Rightarrow> rawmetrics \<Rightarrow> rawgroups \<Rightarrow> rawgroups" where
  "putEntity gl eid r g = mput gl (mput eid r (mget0 [] g gl)) g"

definition groupVolume :: "string \<Rightarrow> string \<Rightarrow> rawgroups \<times> err list \<Rightarrow> volumestats \<Rightarrow> rawgroups \<times> err list" where
  "groupVolume ns pod ge volume =
     (case fetchVolumeStats volume of
        Ok r \<Rightarrow>
          let r = mput ''namespace'' (VString ns) (mput ''podName'' (VString pod) r)
          in (putEntity ''volume'' (ns @ ''_'' @ pod @ ''_'' @ VName volume) r (fst ge), snd ge)
      | Fail e \<Rightarrow> (fst ge, snd ge @ [e])
      | Panic p \<Rightarrow> ge)"

definition groupContainer :: "string \<Rightarrow> string \<Rightarrow> rawgroups \<times> err list \<Rightarrow> containerstats \<Rightarrow> rawgroups \<times> err list" where
  "groupContainer ns pod ge container =
     (case fetchContainerStats container of
        Ok r \<Rightarrow>
          let r = mput ''namespace'' (VString ns) (mput ''podName'' (VString pod) r)
          in (putEntity ''container'' (ns @ ''_'' @ pod @ ''_'' @ CName container) r (fst ge), snd ge)
      | Fail e \<Rightarrow> (fst ge, snd ge @ [e])
      | Panic p \<Rightarrow> ge)"

definition groupPod :: "rawgroups \<times> err list \<Rightarrow> podstats \<Rightarrow> rawgroups \<times> err list" where
  "groupPod ge pod =
     (case fetchPodStats pod of
        Ok (r, rawEntityID) \<Rightarrow>
          let ns = PodRefNamespace pod; name = PodRefName pod;
              ge = (putEntity ''pod'' rawEntityID r (fst ge), snd ge);
              ge = foldl (groupVolume ns name) ge (PVolumeStats pod)
          in foldl (groupContainer ns name) ge (PContainers pod)
      | Fail e \<Rightarrow> (fst ge, snd ge @ [e])
      | Panic p \<Rightarrow> ge)"

definition emptyGroups :: rawgroups where
  "emptyGroups = [(''pod'', []), (''container'', []), (''volume'', []), (''node'', [])]"

definition GroupStatsSummary :: "statssummary option \<Rightarrow> rawgroups \<times> err list" where
  "GroupStatsSummary statsSummary =
     (case statsSummary of
        None \<Rightarrow> ([], [errorsNew ''got nil stats summary''])
      | Some s \<Rightarrow>
          let ge = (case fetchNodeStats (SNode s) of
                      Ok (r, rawEntityID) \<Rightarrow> (putEntity ''node'' rawEntityID r emptyGroups, [])
                    | Fail e \<Rightarrow> (emptyGroups, [e])
                    | Panic p \<Rightarrow> (emptyGroups, []))
          in case SPods s of
               None \<Rightarrow> (fst ge, snd ge @ [Errorf ''pods data not found, possible data error in %s response'' [StatsSummaryPath] []])
             | Some pods \<Rightarrow> foldl groupPod ge pods)"

section \<open>Generators of entity IDs and types\<close>

definition rawValue :: "rawgroups \<Rightarrow> string \<Rightarrow> string \<Rightarrow> string \<Rightarrow> goval option" where
  "rawValue g gl eid key = mget (mget0 [] (mget0 [] g gl) eid) key"

definition errKeyNotFound :: "string \<Rightarrow> string \<Rightarrow> err" where
  "errKeyNotFound key groupLabel = Errorf ''%q not found for %q'' [key, groupLabel] []"

definition errIncorrectType :: "string \<Rightarrow> string \<Rightarrow> err" where
  "errIncorrectType key groupLabel = Errorf ''incorrect type of %q for %q'' [key, groupLabel] []"

definition FromRawGroupsEntityIDGenerator :: "string \<Rightarrow> idgenerator" where
  "FromRawGroupsEntityIDGenerator key groupLabel rawEntityID g =
     (case rawValue g groupLabel rawEntityID key of
        None \<Rightarrow> Fail (errKeyNotFound key groupLabel)
      | Some v \<Rightarrow> (case v of VString s \<Rightarrow> Ok s | _ \<Rightarrow> Fail (errIncorrectType key groupLabel)))"

text \<open>The value to remove is printed with \<open>%s\<close>.\<close>

definition FromRawEntityIDGroupEntityIDGenerator :: "string \<Rightarrow> idgenerator" where
  "FromRawEntityIDGroupEntityIDGenerator key groupLabel rawEntityID g =
     (case rawValue g groupLabel rawEntityID key of
        None \<Rightarrow> Fail (errKeyNotFound key groupLabel)
      | Some toRemove \<Rightarrow>
          let v = TrimPrefix rawEntityID (goV toRemove @ ''_'') in
          if v = [] then Fail (errorsNew ''generated entity ID is empty'') else Ok v)"

fun getKeysOf :: "string \<Rightarrow> rawmetrics \<Rightarrow> string list \<Rightarrow> string list result" where
  "getKeysOf groupLabel en [] = Ok []"
| "getKeysOf groupLabel en (key # keys) =
     (case mget en key of
        None \<Rightarrow> Fail (errKeyNotFound key groupLabel)
      | Some v \<Rightarrow>
          (case v of
             VString s \<Rightarrow> rbind (getKeysOf groupLabel en keys) (\<lambda>ss. Ok (s # ss))
           | _ \<Rightarrow> Fail (errIncorrectType key groupLabel)))"

definition getKeys :: "string \<Rightarrow> string \<Rightarrow> rawgroups \<Rightarrow> string list \<Rightarrow> string list result" where
  "getKeys groupLabel rawEntityID groups keys =
     (case mget groups groupLabel of
        None \<Rightarrow> Fail (Errorf ''%q not found'' [groupLabel] [])
      | Some gl \<Rightarrow>
          (case mget gl rawEntityID of
             None \<Rightarrow> Fail (Errorf ''entity data %q not found for %q'' [rawEntityID, groupLabel] [])
           | Some en \<Rightarrow> getKeysOf groupLabel en keys))"

definition FromRawGroupsEntityTypeGenerator :: typegenerator where
  "FromRawGroupsEntityTypeGenerator groupLabel rawEntityID groups clusterName =
     (if groupLabel \<in> {''namespace'', ''node''} then Ok (''k8s:'' @ clusterName @ '':'' @ groupLabel)
      else if groupLabel = ''container'' then
        rbind (getKeys groupLabel rawEntityID groups [''namespace'', ''podName'']) (\<lambda>keys.
          if length keys \<noteq> 2 then Fail (Errorf ''cannot retrieve values for composing entity type for %q'' [groupLabel] [])
          else (let namespace = keys ! 0; podName = keys ! 1 in
            if namespace = [] \<or> podName = [] then Fail (Errorf ''empty values for generated entity type for %q'' [groupLabel] [])
            else Ok (''k8s:'' @ clusterName @ '':'' @ namespace @ '':'' @ podName @ '':'' @ groupLabel)))
      else
        rbind (getKeys groupLabel rawEntityID groups [''namespace'']) (\<lambda>keys.
          if length keys = 0 then Fail (Errorf ''cannot retrieve namespace for composing entity type for %q'' [groupLabel] [])
          else (let namespace = keys ! 0 in
            if namespace = [] then Fail (Errorf ''empty namespace for generated entity type for %q'' [groupLabel] [])
            else Ok (''k8s:'' @ clusterName @ '':'' @ namespace @ '':'' @ groupLabel))))"

definition KFromLabelGetNamespace :: "rawmetrics \<Rightarrow> string" where
  "KFromLabelGetNamespace metrics = (case mget metrics ''namespace'' of Some (VString ns) \<Rightarrow> ns | _ \<Rightarrow> [])"

section \<open>Transformations (\<open>transform.go\<close>, \<open>resource.go\<close>)\<close>

definition PrefixFromMapInt :: "string \<Rightarrow> transformfunc" where
  "PrefixFromMapInt pre v = (case v of
     VIntMap m \<Rightarrow> Ok (VFetched (foldl (\<lambda>p (k, w). mput (pre @ k) (VInt w) p) [] m))
   | _ \<Rightarrow> Fail (errorsNew ''cannot make prefixes: value is not map[string]string''))"

definition OneMetricPerLabel :: transformfunc where
  "OneMetricPerLabel rawLabels = (case rawLabels of
     VStrMap m \<Rightarrow> Ok (VFetched (foldl (\<lambda>p (k, w). mput (''label.'' @ k) (VString w) p) [] m))
   | _ \<Rightarrow> Fail (errorsNew ''error on creating kubelet label metrics''))"

definition addResourceUnit :: "string \<Rightarrow> string" where
  "addResourceUnit resource =
     (if resource = ''ephemeral-storage'' then resource @ ''Bytes''
      else if resource = ''memory'' then resource @ ''Bytes''
      else if resource = ''cpu'' then resource @ ''Cores''
      else if resource = ''storage'' then resource @ ''Bytes''
      else resource)"

text \<open>The camel-case conversion is a library; a quantity is an integer except for CPU.\<close>

definition oneAttributePerResource :: "(string \<Rightarrow> string) \<Rightarrow> string \<Rightarrow> transformfunc" where
  "oneAttributePerResource camelcase r rawResources = (case rawResources of
     VResources rs \<Rightarrow>
       Ok (VFetched (foldl (\<lambda>m (resourceName, q).
         mput (camelcase (r @ Title (addResourceUnit resourceName)))
           (if resourceName = ''cpu'' then VFloat64 (QtyFloat64 q) else VInt64 (QtyValue q)) m) [] rs))
   | _ \<Rightarrow> Fail (Errorf ''creating resource %s attributes'' [r] []))"

definition OneAttributePerAllocatable :: "(string \<Rightarrow> string) \<Rightarrow> transformfunc" where
  "OneAttributePerAllocatable camelcase = oneAttributePerResource camelcase ''allocatable''"

definition OneAttributePerCapacity :: "(string \<Rightarrow> string) \<Rightarrow> transformfunc" where
  "OneAttributePerCapacity camelcase = oneAttributePerResource camelcase ''capacity''"

definition AllocatableCPUCores :: fetchfunc where
  "AllocatableCPUCores groupLabel entityID groups =
     rbind (FromRaw ''allocatable'' groupLabel entityID groups) (\<lambda>raw.
       case raw of
         VResources rs \<Rightarrow>
           (case mget rs ''cpu'' of
              None \<Rightarrow> Fail (errorsNew ''cpu not found in allocatable resources'')
            | Some qty \<Rightarrow> Ok (VFloat64 (QtyFloat64 qty)))
       | _ \<Rightarrow> Fail (Errorf ''unexpected type for allocatable: %T'' [goType raw] []))"

definition AllocatableMemoryBytes :: fetchfunc where
  "AllocatableMemoryBytes groupLabel entityID groups =
     rbind (FromRaw ''allocatable'' groupLabel entityID groups) (\<lambda>raw.
       case raw of
         VResources rs \<Rightarrow>
           (case mget rs ''memory'' of
              None \<Rightarrow> Fail (errorsNew ''memory not found in allocatable resources'')
            | Some qty \<Rightarrow> Ok (VInt64 (QtyValue qty)))
       | _ \<Rightarrow> Fail (Errorf ''unexpected type for allocatable: %T'' [goType raw] []))"

section \<open>Every grouped entity can be named and typed\<close>

lemma mget_addAll_other: "k \<notin> fst ` set xs \<Longrightarrow> mget (addAll xs r) k = mget r k"
  unfolding addAll_def by (induction xs arbitrary: r) (auto simp: AddUint64RawMetric_def split: option.splits)

lemma mget_addInterface_other: "k \<notin> {''rxBytes'', ''txBytes'', ''errors''} \<Longrightarrow> mget (addInterface i r) k = mget r k"
  by (auto simp: addInterface_def Let_def mget_addAll_other split: option.splits)

lemma mget_addNetwork_other:
  "k \<notin> {''rxBytes'', ''txBytes'', ''errors'', ''interfaces''} \<Longrightarrow> mget (addNetwork n r) k = mget r k"
  by (auto simp: addNetwork_def mget_addInterface_other split: option.splits)

lemma mget_addFs_other: "\<not> prefix pre k \<Longrightarrow> mget (addFs pre fs r) k = mget r k"
  by (auto simp: addFs_def mget_addAll_other prefix_def split: option.splits)

lemma mget_addUsage_other:
  "k \<notin> {''usageNanoCores'', ''usageBytes'', ''workingSetBytes''} \<Longrightarrow> mget (addUsage c m r) k = mget r k"
  by (auto simp: addUsage_def Let_def AddUint64RawMetric_def mget_addAll_other split: option.splits)

lemmas add_other = mget_addAll_other mget_addNetwork_other mget_addFs_other mget_addUsage_other

text \<open>What the grouping promises of an entity: its identifying attributes, and an ID made of them.\<close>

definition strAttr :: "rawmetrics \<Rightarrow> string \<Rightarrow> string \<Rightarrow> bool" where
  "strAttr r k s \<longleftrightarrow> mget r k = Some (VString s) \<and> s \<noteq> []"

definition entWF :: "string \<Rightarrow> string \<Rightarrow> rawmetrics \<Rightarrow> bool" where
  "entWF gl eid r \<longleftrightarrow>
     (if gl = ''node'' then strAttr r ''nodeName'' eid
      else \<exists>ns pod. strAttr r ''namespace'' ns \<and> strAttr r ''podName'' pod \<and>
        (if gl = ''pod'' then eid = ns @ ''_'' @ pod
         else if gl = ''container'' then \<exists>c. strAttr r ''containerName'' c \<and> eid = ns @ ''_'' @ pod @ ''_'' @ c
         else gl = ''volume'' \<and> (\<exists>v. strAttr r ''volumeName'' v \<and> eid = ns @ ''_'' @ pod @ ''_'' @ v)))"

definition groupsWF :: "rawgroups \<Rightarrow> bool" where
  "groupsWF g \<longleftrightarrow> (\<forall>gl ents eid r. mget g gl = Some ents \<longrightarrow> mget ents eid = Some r \<longrightarrow> entWF gl eid r)"

lemma groupsWF_putEntity: "groupsWF g \<Longrightarrow> entWF gl eid r \<Longrightarrow> groupsWF (putEntity gl eid r g)"
  by (auto simp: groupsWF_def putEntity_def mget0_def split: option.splits if_splits)

lemma fetchNodeStats_WF: "fetchNodeStats n = Ok (r, eid) \<Longrightarrow> entWF ''node'' eid r"
  by (auto simp: fetchNodeStats_def Let_def entWF_def strAttr_def add_other split: if_splits option.splits)

lemma fetchPodStats_WF: "fetchPodStats p = Ok (r, eid) \<Longrightarrow> entWF ''pod'' eid r \<and> PodRefName p \<noteq> [] \<and> PodRefNamespace p \<noteq> []"
  by (auto simp: fetchPodStats_def Let_def entWF_def strAttr_def add_other split: if_splits)

lemma groupVolume_WF: "groupsWF (fst ge) \<Longrightarrow> ns \<noteq> [] \<Longrightarrow> pod \<noteq> [] \<Longrightarrow> groupsWF (fst (groupVolume ns pod ge v))"
  by (auto simp: groupVolume_def fetchVolumeStats_def Let_def entWF_def strAttr_def add_other
      split: result.splits if_splits option.splits intro!: groupsWF_putEntity)

lemma groupContainer_WF: "groupsWF (fst ge) \<Longrightarrow> ns \<noteq> [] \<Longrightarrow> pod \<noteq> [] \<Longrightarrow> groupsWF (fst (groupContainer ns pod ge c))"
  by (auto simp: groupContainer_def fetchContainerStats_def Let_def entWF_def strAttr_def add_other
      split: result.splits if_splits intro!: groupsWF_putEntity)

lemma foldl_WF: "groupsWF (fst ge) \<Longrightarrow> (\<And>ge x. groupsWF (fst ge) \<Longrightarrow> groupsWF (fst (f ge x))) \<Longrightarrow> groupsWF (fst (foldl f ge xs))"
  by (induction xs arbitrary: ge) auto

lemma groupPod_WF: assumes "groupsWF (fst ge)" shows "groupsWF (fst (groupPod ge pod))"
proof (cases "fetchPodStats pod")
  case (Ok x)
  obtain r eid where x: "x = (r, eid)" by force
  have w: "entWF ''pod'' eid r" "PodRefName pod \<noteq> []" "PodRefNamespace pod \<noteq> []"
    using fetchPodStats_WF Ok x by blast+
  then have "groupsWF (fst (putEntity ''pod'' eid r (fst ge), snd ge))"
    using assms by (simp add: groupsWF_putEntity)
  then show ?thesis using Ok x w
    by (auto simp: groupPod_def Let_def intro!: foldl_WF groupVolume_WF groupContainer_WF)
qed (use assms in \<open>simp_all add: groupPod_def\<close>)

lemma GroupStatsSummary_WF: "groupsWF (fst (GroupStatsSummary s))"
proof (cases s)
  case (Some t)
  have e: "groupsWF emptyGroups" by (simp add: groupsWF_def emptyGroups_def)
  define ge where "ge = (case fetchNodeStats (SNode t) of Ok (r, i) \<Rightarrow> (putEntity ''node'' i r emptyGroups, [])
    | Fail e \<Rightarrow> (emptyGroups, [e]) | Panic p \<Rightarrow> (emptyGroups, []))"
  have "groupsWF (fst ge)"
    using e by (auto simp: ge_def fetchNodeStats_WF intro!: groupsWF_putEntity split: result.splits)
  then show ?thesis
    using foldl_WF[of ge groupPod] groupPod_WF
    by (auto simp: GroupStatsSummary_def Some Let_def ge_def[symmetric] split: option.split)
qed (simp add: GroupStatsSummary_def groupsWF_def)

text \<open>
  C26: Every entity that the grouping of the stats summary yields is a node, a pod, a container or a volume with its
  identifying attributes, from which its key is composed: the ID generators of pods and containers recover their names from
  it, nodes and volumes keep the key, and the entity type is the cluster and the namespace and pod of the entity,
  never an error.
\<close>

theorem stats_entities_identified:
  assumes "groups = fst (GroupStatsSummary s)" "mget groups gl = Some ents" "mget ents eid = Some r"
  shows "(gl = ''node'' \<and> strAttr r ''nodeName'' eid \<and> FromRawGroupsEntityTypeGenerator gl eid groups cl = Ok (''k8s:'' @ cl @ '':node'')) \<or>
    (\<exists>ns pod. strAttr r ''namespace'' ns \<and> strAttr r ''podName'' pod \<and>
      ((gl = ''pod'' \<and> eid = ns @ ''_'' @ pod \<and>
          FromRawEntityIDGroupEntityIDGenerator ''namespace'' gl eid groups = Ok pod \<and>
          FromRawGroupsEntityTypeGenerator gl eid groups cl = Ok (''k8s:'' @ cl @ '':'' @ ns @ '':pod'')) \<or>
       (\<exists>c. gl = ''container'' \<and> strAttr r ''containerName'' c \<and> eid = ns @ ''_'' @ pod @ ''_'' @ c \<and>
          FromRawGroupsEntityIDGenerator ''containerName'' gl eid groups = Ok c \<and>
          FromRawGroupsEntityTypeGenerator gl eid groups cl = Ok (''k8s:'' @ cl @ '':'' @ ns @ '':'' @ pod @ '':container'')) \<or>
       (\<exists>v. gl = ''volume'' \<and> strAttr r ''volumeName'' v \<and> eid = ns @ ''_'' @ pod @ ''_'' @ v \<and>
          FromRawGroupsEntityTypeGenerator gl eid groups cl = Ok (''k8s:'' @ cl @ '':'' @ ns @ '':volume''))))"
proof -
  have w: "entWF gl eid r" using GroupStatsSummary_WF[of s] assms unfolding groupsWF_def by blast
  consider (node) "gl = ''node''" "strAttr r ''nodeName'' eid"
    | (other) ns pod where "gl \<in> {''pod'', ''container'', ''volume''}" "strAttr r ''namespace'' ns" "strAttr r ''podName'' pod"
    using w by (auto simp: entWF_def split: if_splits)
  then show ?thesis
  proof cases
    case node
    then show ?thesis by (simp add: FromRawGroupsEntityTypeGenerator_def)
  next
    case other
    note raw = assms(2,3) other(2,3)
    have ns: "ns \<noteq> []" "pod \<noteq> []" using other by (simp_all add: strAttr_def)
    have attr: "strAttr r k a \<Longrightarrow> strAttr r k b \<Longrightarrow> a = b" for k a b by (simp add: strAttr_def)
    have ty: "FromRawGroupsEntityTypeGenerator gl eid groups cl =
        Ok (''k8s:'' @ cl @ '':'' @ ns @ (if gl = ''container'' then '':'' @ pod else []) @ '':'' @ gl)"
      using other raw ns by (auto simp: FromRawGroupsEntityTypeGenerator_def getKeys_def strAttr_def)
    consider (pod) "gl = ''pod''" "eid = ns @ ''_'' @ pod"
      | (container) c where "gl = ''container''" "strAttr r ''containerName'' c" "eid = ns @ ''_'' @ pod @ ''_'' @ c"
      | (volume) v where "gl = ''volume''" "strAttr r ''volumeName'' v" "eid = ns @ ''_'' @ pod @ ''_'' @ v"
      using w other(1) attr[OF other(2)] attr[OF other(3)] by (auto simp: entWF_def)
    then show ?thesis
    proof cases
      case pod
      then have "FromRawEntityIDGroupEntityIDGenerator ''namespace'' gl eid groups = Ok pod"
        using raw ns by (simp add: FromRawEntityIDGroupEntityIDGenerator_def rawValue_def mget0_def strAttr_def TrimPrefix_def)
      then show ?thesis using pod other(2,3) ty by auto
    next
      case container
      then have "FromRawGroupsEntityIDGenerator ''containerName'' gl eid groups = Ok c"
        using raw by (simp add: FromRawGroupsEntityIDGenerator_def rawValue_def mget0_def strAttr_def)
      then show ?thesis using container other(2,3) ty by auto
    next
      case volume
      then show ?thesis using other(2,3) ty by auto
    qed
  qed
qed

text \<open>A kubelet with one pod of one container, for the witnesses.\<close>

definition exampleSummary :: statssummary where
  "exampleSummary =
     \<lparr>SNode = \<lparr>NodeName = ''n'', NCPU = None, NMemory = None, NNetwork = None, NFs = None, NRuntimeImageFs = None\<rparr>,
      SPods = Some [\<lparr>PodRefName = ''p'', PodRefNamespace = ''ns'',
        PContainers = [\<lparr>CName = ''c'', CCPU = None, CMemory = None, CRootfs = None\<rparr>],
        PCPU = None, PMemory = None, PNetwork = None, PVolumeStats = []\<rparr>]\<rparr>"

lemma example_groups: "fst (GroupStatsSummary (Some exampleSummary)) =
  [(''pod'', [(''ns_p'', [(''podName'', VString ''p''), (''namespace'', VString ''ns'')])]),
   (''container'', [(''ns_p_c'', [(''containerName'', VString ''c''), (''podName'', VString ''p''), (''namespace'', VString ''ns'')])]),
   (''volume'', []), (''node'', [(''n'', [(''nodeName'', VString ''n'')])])]"
  by code_simp

text \<open>The same with a volume.\<close>

definition volumeSummary :: statssummary where
  "volumeSummary = exampleSummary\<lparr>SPods := Some [\<lparr>PodRefName = ''p'', PodRefNamespace = ''ns'', PContainers = [],
     PCPU = None, PMemory = None, PNetwork = None,
     PVolumeStats = [\<lparr>VName = ''data'', PVCRef = None, VFsStats = \<lparr>AvailableBytes = None, CapacityBytes = None, UsedBytes = None, InodesFree = None, Inodes = None, InodesUsed = None\<rparr>\<rparr>]\<rparr>]\<rparr>"

theorem stats_entities_identified_witness:
  "let groups = fst (GroupStatsSummary (Some volumeSummary)) in
     FromRawGroupsEntityTypeGenerator ''node'' ''n'' groups ''cl'' = Ok ''k8s:cl:node'' \<and>
     FromRawEntityIDGroupEntityIDGenerator ''namespace'' ''pod'' ''ns_p'' groups = Ok ''p'' \<and>
     FromRawGroupsEntityTypeGenerator ''volume'' ''ns_p_data'' groups ''cl'' = Ok ''k8s:cl:ns:volume''"
proof -
  let ?g = "fst (GroupStatsSummary (Some volumeSummary))"
  have g: "mget ?g ''node'' = Some [(''n'', [(''nodeName'', VString ''n'')])]"
    "mget ?g ''pod'' = Some [(''ns_p'', [(''podName'', VString ''p''), (''namespace'', VString ''ns'')])]"
    "mget ?g ''volume'' = Some [(''ns_p_data'', [(''volumeName'', VString ''data''), (''podName'', VString ''p''), (''namespace'', VString ''ns'')])]"
    by code_simp+
  have "FromRawGroupsEntityTypeGenerator ''node'' ''n'' ?g ''cl'' = Ok ''k8s:cl:node''"
    using stats_entities_identified[OF refl g(1), of "''n''" "[(''nodeName'', VString ''n'')]" "''cl''"] by (auto simp: strAttr_def)
  moreover have "FromRawEntityIDGroupEntityIDGenerator ''namespace'' ''pod'' ''ns_p'' ?g = Ok ''p''"
    using stats_entities_identified[OF refl g(2), of "''ns_p''" "[(''podName'', VString ''p''), (''namespace'', VString ''ns'')]" "''cl''"]
    by (auto simp: strAttr_def)
  moreover have "FromRawGroupsEntityTypeGenerator ''volume'' ''ns_p_data'' ?g ''cl'' = Ok ''k8s:cl:ns:volume''"
    using stats_entities_identified[OF refl g(3), of "''ns_p_data''" "[(''volumeName'', VString ''data''), (''podName'', VString ''p''), (''namespace'', VString ''ns'')]" "''cl''"]
    by (auto simp: strAttr_def)
  ultimately show ?thesis by (simp add: Let_def)
qed

section \<open>Generators do not panic\<close>

lemma getKeys_no_panic: "\<not> is_panic (getKeys gl eid gs ks)"
proof -
  have "\<not> is_panic (getKeysOf gl e ks)" for e
    by (induction gl e ks rule: getKeysOf.induct) (auto split: option.split goval.split)
  then show ?thesis by (simp add: getKeys_def split: option.split)
qed

lemma kubelet_generators_no_panic [simp]:
  "\<not> is_panic (FromRawGroupsEntityIDGenerator k gl eid gs)"
  "\<not> is_panic (FromRawEntityIDGroupEntityIDGenerator k gl eid gs)"
  "\<not> is_panic (FromRawGroupsEntityTypeGenerator gl eid gs cl)"
  by (auto simp: FromRawGroupsEntityIDGenerator_def FromRawEntityIDGroupEntityIDGenerator_def FromRawGroupsEntityTypeGenerator_def
        Let_def getKeys_no_panic intro!: rbind_no_panic split: option.split goval.split)

end
