(* ===== verification/Kubelet_Network.thy ===== *)
theory Kubelet_Network
  imports Kubelet_Stats Caches
begin

text \<open>
  \<open>src/kubelet/metric/network.go\<close> and \<open>interface_cache.go\<close>: network metrics of a node or pod, taken from
  the top level of its stats, from a cached interface, from the default interface of the routing table
  (nodes only), or from the primary interface chosen by name. The locks of the cache make its methods
  atomic; a nil cache pointer is \<open>None\<close>.
\<close>

section \<open>The interface cache\<close>

record interfacecache =
  icache :: "(string, string) gomap"

definition NewInterfaceCache :: interfacecache where
  "NewInterfaceCache = \<lparr>icache = []\<rparr>"

definition ICGet :: "interfacecache \<Rightarrow> string \<Rightarrow> string option" where
  "ICGet c entityID = mget (icache c) entityID"

definition ICPut :: "string \<Rightarrow> string \<Rightarrow> interfacecache \<Rightarrow> interfacecache" where
  "ICPut entityID interfaceName c = c\<lparr>icache := mput entityID interfaceName (icache c)\<rparr>"

definition ICVacuum :: "interfacecache \<Rightarrow> interfacecache" where
  "ICVacuum c = c\<lparr>icache := []\<rparr>"

interpretation ic: cache_contract ICGet ICPut NewInterfaceCache
  by unfold_locales (simp_all add: ICGet_def ICPut_def NewInterfaceCache_def)

interpretation icv: swept_cache_contract ICGet ICPut NewInterfaceCache "\<lambda>_::unit. ICVacuum"
  by unfold_locales (simp add: ICGet_def ICVacuum_def)

section \<open>Choice of the interface\<close>

definition ErrGroupNotFound :: err where "ErrGroupNotFound = errorsNew ''group not found''"
definition ErrEntityNotFound :: err where "ErrEntityNotFound = errorsNew ''entity not found''"
definition ErrInterfacesMetricsNotFound :: err where
  "ErrInterfacesMetricsNotFound = errorsNew ''interfaces metrics not found''"
definition ErrInterfacesWrongFormat :: err where
  "ErrInterfacesWrongFormat = errorsNew ''wrong format for interfaces metrics''"
definition ErrNetworkGroupNotFound :: err where "ErrNetworkGroupNotFound = errorsNew ''network group not found''"
definition ErrNetworkInterfacesAttributeNotFound :: err where
  "ErrNetworkInterfacesAttributeNotFound = errorsNew ''network interfaces attribute not found''"
definition ErrDefaultInterfaceNotFound :: err where
  "ErrDefaultInterfaceNotFound = errorsNew ''default interface not found''"
definition ErrDefaultInterfaceInvalidType :: err where
  "ErrDefaultInterfaceInvalidType = errorsNew ''default interface is not a valid interface name''"
definition ErrDefaultInterfaceNotSet :: err where
  "ErrDefaultInterfaceNotSet = errorsNew ''default interface not set''"
definition ErrNoPhysicalNetworkInterfaces :: err where
  "ErrNoPhysicalNetworkInterfaces = errorsNew ''no physical network interfaces found''"

text \<open>The patterns \<open>^(eth|ens|eno|enp)\d+\<close> and \<open>^(eni|oci|azv|veth|cali|cni|pod-|lxc|docker|br-)\<close>.\<close>

definition physicalInterfacePattern :: "string \<Rightarrow> bool" where
  "physicalInterfacePattern name =
     (list_ex (HasPrefix name) [''eth'', ''ens'', ''eno'', ''enp''] \<and>
      (case drop 3 name of [] \<Rightarrow> False | c # _ \<Rightarrow> isDigit c))"

definition cniInterfacePattern :: "string \<Rightarrow> bool" where
  "cniInterfacePattern name =
     list_ex (HasPrefix name) [''eni'', ''oci'', ''azv'', ''veth'', ''cali'', ''cni'', ''pod-'', ''lxc'', ''docker'', ''br-'']"

definition selectPrimaryInterface :: "(string, rawmetrics) gomap \<Rightarrow> string result" where
  "selectPrimaryInterface interfaces =
     (let candidates = filter (\<lambda>name. physicalInterfacePattern name \<and> \<not> cniInterfacePattern name) (map fst interfaces) in
      if length candidates = 0 then Fail ErrNoPhysicalNetworkInterfaces
      else Ok (sort candidates ! 0))"

definition getEntityMetrics :: "string \<Rightarrow> string \<Rightarrow> rawgroups \<Rightarrow> rawmetrics result" where
  "getEntityMetrics groupLabel entityID groups =
     (case mget groups groupLabel of
        None \<Rightarrow> Fail ErrGroupNotFound
      | Some g \<Rightarrow> (case mget g entityID of None \<Rightarrow> Fail ErrEntityNotFound | Some e \<Rightarrow> Ok e))"

definition getInterfaces :: "rawmetrics \<Rightarrow> (string, rawmetrics) gomap result" where
  "getInterfaces m =
     (case mget m ''interfaces'' of
        None \<Rightarrow> Fail ErrInterfacesMetricsNotFound
      | Some v \<Rightarrow> (case v of VInterfaces ifs \<Rightarrow> Ok ifs | _ \<Rightarrow> Fail ErrInterfacesWrongFormat))"

definition getMetricFromInterface :: "string \<Rightarrow> string \<Rightarrow> rawmetrics \<Rightarrow> goval result" where
  "getMetricFromInterface interfaceName metricKey m =
     rbind (getInterfaces m) (\<lambda>interfaces.
       case mget interfaces interfaceName of
         None \<Rightarrow> Fail (Errorf ''interface %s not found'' [interfaceName] [])
       | Some interfaceMetrics \<Rightarrow>
           (case mget interfaceMetrics metricKey of
              None \<Rightarrow> Fail (Errorf ''metric %s not found for interface %s'' [metricKey, interfaceName] [])
            | Some v \<Rightarrow> Ok v))"

definition getDefaultInterface :: "rawgroups \<Rightarrow> string result" where
  "getDefaultInterface groups =
     (case mget groups ''network'' of
        None \<Rightarrow> Fail ErrNetworkGroupNotFound
      | Some network \<Rightarrow>
          (case mget network ''interfaces'' of
             None \<Rightarrow> Fail ErrNetworkInterfacesAttributeNotFound
           | Some networkInterfaces \<Rightarrow>
               (case mget networkInterfaces ''default'' of
                  None \<Rightarrow> Fail ErrDefaultInterfaceNotFound
                | Some v \<Rightarrow>
                    (case v of
                       VString d \<Rightarrow> if d = [] then Fail ErrDefaultInterfaceNotSet else Ok d
                     | _ \<Rightarrow> Fail ErrDefaultInterfaceInvalidType))))"

definition tryCache :: "interfacecache option \<Rightarrow> string \<Rightarrow> string \<Rightarrow> rawmetrics \<Rightarrow> goval option" where
  "tryCache cache entityID metricKey e =
     (case cache of
        None \<Rightarrow> None
      | Some c \<Rightarrow>
          (case ICGet c entityID of
             None \<Rightarrow> None
           | Some cachedInterface \<Rightarrow>
               (case getMetricFromInterface cachedInterface metricKey e of Ok v \<Rightarrow> Some v | _ \<Rightarrow> None)))"

definition tryRoutingTable :: "string \<Rightarrow> rawmetrics \<Rightarrow> rawgroups \<Rightarrow> string option" where
  "tryRoutingTable metricKey e groups =
     (case getDefaultInterface groups of
        Ok defaultInterface \<Rightarrow>
          if defaultInterface = [] then None
          else (case getMetricFromInterface defaultInterface metricKey e of
                  Ok _ \<Rightarrow> Some defaultInterface
                | _ \<Rightarrow> None)
      | _ \<Rightarrow> None)"

definition resolveInterfaceHeuristic :: "rawmetrics \<Rightarrow> string result" where
  "resolveInterfaceHeuristic e =
     rbind (getInterfaces e) (\<lambda>interfaces.
       rbindw (\<lambda>er. Errorf ''could not determine primary interface: %w'' [] [er]) (selectPrimaryInterface interfaces) Ok)"

definition resolveInterface :: "string \<Rightarrow> string \<Rightarrow> rawmetrics \<Rightarrow> rawgroups \<Rightarrow> string result" where
  "resolveInterface groupLabel metricKey e groups =
     (case (if groupLabel = ''node'' then tryRoutingTable metricKey e groups else None) of
        Some iface \<Rightarrow> Ok iface
      | None \<Rightarrow> resolveInterfaceHeuristic e)"

definition FromRawWithFallbackToDefaultInterface :: "string \<Rightarrow> interfacecache option sfetch" where
  "FromRawWithFallbackToDefaultInterface metricKey groupLabel entityID groups cache =
     (case getEntityMetrics groupLabel entityID groups of
        Fail er \<Rightarrow> (Fail er, cache)
      | Panic p \<Rightarrow> (Panic p, cache)
      | Ok e \<Rightarrow>
          (case mget e metricKey of
             Some v \<Rightarrow> (Ok v, cache)
           | None \<Rightarrow>
               (case tryCache cache entityID metricKey e of
                  Some v \<Rightarrow> (Ok v, cache)
                | None \<Rightarrow>
                    (case resolveInterface groupLabel metricKey e groups of
                       Fail er \<Rightarrow> (Fail er, cache)
                     | Panic p \<Rightarrow> (Panic p, cache)
                     | Ok iface \<Rightarrow>
                         (getMetricFromInterface iface metricKey e, map_option (ICPut entityID iface) cache)))))"

section \<open>The primary interface\<close>

definition isCandidate :: "string \<Rightarrow> bool" where
  "isCandidate name \<longleftrightarrow> physicalInterfacePattern name \<and> \<not> cniInterfacePattern name"

lemma sort_hd_Min: "xs \<noteq> [] \<Longrightarrow> sort xs ! 0 = Min (set xs)" for xs :: "'a :: linorder list"
proof -
  assume "xs \<noteq> []"
  then obtain y ys where s: "sort xs = y # ys" by (cases "sort xs") (auto simp: sort_key_simps dest: arg_cong[of _ _ length])
  have "sorted (y # ys)" using sorted_sort[of xs] s by simp
  then have "Min (set (y # ys)) = y" by (auto intro: Min_eqI)
  then show ?thesis using s by (metis nth_Cons_0 set_sort)
qed

text \<open>
  The primary interface is the least name, in byte order, among the physical interfaces that no
  network plugin owns, whatever the order in which the map of interfaces is visited; there is an error
  exactly when there is no such interface.
\<close>

lemma selectPrimaryInterface_min:
  "selectPrimaryInterface interfaces =
     (let names = {n \<in> fst ` set interfaces. isCandidate n} in
      if names = {} then Fail ErrNoPhysicalNetworkInterfaces else Ok (Min names))"
proof -
  let ?c = "filter (\<lambda>name. physicalInterfacePattern name \<and> \<not> cniInterfacePattern name) (map fst interfaces)"
  have s: "set ?c = {n \<in> fst ` set interfaces. isCandidate n}" by (auto simp: isCandidate_def)
  show ?thesis
  proof (cases "?c = []")
    case True
    then have "{n \<in> fst ` set interfaces. isCandidate n} = {}" using s by (metis empty_set)
    then show ?thesis using True by (simp add: selectPrimaryInterface_def)
  next
    case False
    then have "{n \<in> fst ` set interfaces. isCandidate n} \<noteq> {}" using s by (metis set_empty)
    then show ?thesis using False sort_hd_Min[OF False] by (simp add: selectPrimaryInterface_def Let_def isCandidate_def)
  qed
qed

text \<open>
  The lowest name in byte order is not the lowest-numbered interface: of \<open>eth10\<close> and \<open>eth2\<close> the
  first is chosen.
\<close>

lemma selectPrimaryInterface_not_numeric:
  "selectPrimaryInterface [(''eth2'', a), (''eth10'', b)] = Ok ''eth10''"
  by (simp add: selectPrimaryInterface_def physicalInterfacePattern_def cniInterfacePattern_def HasPrefix_def
      isDigit_def less_char_def less_eq_char_def list_less_def list_le_def)

section \<open>The cache does not change the metrics\<close>

text \<open>Every interface of the entity reports the given metrics.\<close>

definition uniform :: "string set \<Rightarrow> rawmetrics \<Rightarrow> bool" where
  "uniform keys e \<longleftrightarrow> (\<forall>ifs n m k. mget e ''interfaces'' = Some (VInterfaces ifs) \<longrightarrow> mget ifs n = Some m \<longrightarrow> k \<in> keys \<longrightarrow> mhas m k)"

lemma getMetric_ok_iff:
  "is_ok (getMetricFromInterface i k e) \<longleftrightarrow>
     (\<exists>ifs m. mget e ''interfaces'' = Some (VInterfaces ifs) \<and> mget ifs i = Some m \<and> mhas m k)"
  by (auto simp: getMetricFromInterface_def getInterfaces_def mhas_def split: option.splits goval.splits)

text \<open>What the choice of an interface reads of an entity: the names of its interfaces, and for a node the default one.\<close>

definition interfaceNames :: "rawmetrics \<Rightarrow> string set option" where
  "interfaceNames e = (case getInterfaces e of Ok ifs \<Rightarrow> Some (fst ` set ifs) | _ \<Rightarrow> None)"

lemma getMetric_names:
  "uniform keys e \<Longrightarrow> k \<in> keys \<Longrightarrow> is_ok (getMetricFromInterface i k e) \<longleftrightarrow> (\<exists>ns. interfaceNames e = Some ns \<and> i \<in> ns)"
proof -
  assume u: "uniform keys e" "k \<in> keys"
  have m: "i \<in> fst ` set ifs \<longleftrightarrow> mget ifs i \<noteq> None" for ifs :: "(string \<times> rawmetrics) list"
    by (metis map_of_eq_None_iff)
  show ?thesis
  proof (cases "getInterfaces e")
    case (Ok ifs)
    then have "mget e ''interfaces'' = Some (VInterfaces ifs)" by (auto simp: getInterfaces_def split: option.splits goval.splits)
    then show ?thesis using u m[of ifs] Ok unfolding getMetric_ok_iff uniform_def by (auto simp: interfaceNames_def)
  qed (auto simp: getMetric_ok_iff interfaceNames_def getInterfaces_def)
qed

lemma tryRoutingTable_eq:
  "tryRoutingTable k e groups = (case getDefaultInterface groups of
     Ok d \<Rightarrow> if d \<noteq> [] \<and> is_ok (getMetricFromInterface d k e) then Some d else None | _ \<Rightarrow> None)"
  by (auto simp: tryRoutingTable_def split: result.splits)

lemma resolve_heuristic_names:
  "resolveInterfaceHeuristic e = Ok i \<longleftrightarrow> (\<exists>ns. interfaceNames e = Some ns \<and> {n \<in> ns. isCandidate n} \<noteq> {} \<and> i = Min {n \<in> ns. isCandidate n})"
proof (cases "getInterfaces e")
  case (Ok ifs)
  then show ?thesis by (auto simp: resolveInterfaceHeuristic_def interfaceNames_def selectPrimaryInterface_min Let_def)
qed (simp_all add: resolveInterfaceHeuristic_def interfaceNames_def)

lemma resolve_names:
  assumes "uniform keys e" "uniform keys e'" "k \<in> keys" "k' \<in> keys" "interfaceNames e = interfaceNames e'"
    and "gl = ''node'' \<Longrightarrow> getDefaultInterface groups = getDefaultInterface groups'"
  shows "resolveInterface gl k e groups = Ok i \<longleftrightarrow> resolveInterface gl k' e' groups' = Ok i"
proof -
  have "tryRoutingTable k e groups = tryRoutingTable k' e' groups'" if "gl = ''node''"
    using getMetric_names[OF assms(1,3)] getMetric_names[OF assms(2,4)] assms(5,6) that by (simp add: tryRoutingTable_eq split: result.split)
  then show ?thesis using resolve_heuristic_names[of e] resolve_heuristic_names[of e'] assms(5)
    by (auto simp: resolveInterface_def split: option.split)
qed

text \<open>A sequence of fetches, each a key, a group label, an entity and the groups of its scrape, that share one cache.\<close>

type_synonym netrequest = "string \<times> string \<times> string \<times> rawgroups"

fun fetchAll :: "netrequest list \<Rightarrow> interfacecache option \<Rightarrow> goval result list" where
  "fetchAll [] c = []"
| "fetchAll ((key, gl, eid, groups) # rs) c =
     (case FromRawWithFallbackToDefaultInterface key gl eid groups c of (v, c') \<Rightarrow> v # fetchAll rs c')"

text \<open>
  The interfaces of an entity do not change while it is fetched: it has one group label, every time the same
  interfaces, each of which reports every metric that is asked for, and a node the same default interface.
\<close>

definition steadyInterfaces :: "netrequest list \<Rightarrow> bool" where
  "steadyInterfaces rs \<longleftrightarrow>
     (\<forall>(key, gl, eid, groups) \<in> set rs. \<forall>e. getEntityMetrics gl eid groups = Ok e \<longrightarrow>
        uniform (fst ` set rs) e \<and>
        (\<forall>(key', gl', eid', groups') \<in> set rs. \<forall>e'. eid' = eid \<longrightarrow> getEntityMetrics gl' eid' groups' = Ok e' \<longrightarrow>
           gl' = gl \<and> interfaceNames e' = interfaceNames e \<and> (gl = ''node'' \<longrightarrow> getDefaultInterface groups' = getDefaultInterface groups)))"

lemma steadyD:
  assumes "steadyInterfaces rs" "(key, gl, eid, groups) \<in> set rs" "getEntityMetrics gl eid groups = Ok e"
    and "(key', gl', eid, groups') \<in> set rs" "getEntityMetrics gl' eid groups' = Ok e'"
  shows "uniform (fst ` set rs) e" "gl' = gl" "interfaceNames e' = interfaceNames e"
    "gl = ''node'' \<Longrightarrow> getDefaultInterface groups' = getDefaultInterface groups"
  using assms(1)[unfolded steadyInterfaces_def, rule_format, OF assms(2), unfolded prod.case, rule_format, OF assms(3)]
    assms(4,5) by fast+

text \<open>The invariant of the cache: it holds for an entity what every request on it would resolve.\<close>

definition cacheAgrees :: "netrequest list \<Rightarrow> interfacecache option \<Rightarrow> bool" where
  "cacheAgrees rs c \<longleftrightarrow>
     (\<forall>(key, gl, eid, groups) \<in> set rs. \<forall>e ch i. getEntityMetrics gl eid groups = Ok e \<longrightarrow> c = Some ch \<longrightarrow> ICGet ch eid = Some i \<longrightarrow>
        resolveInterface gl key e groups = Ok i)"

lemma cacheAgrees_vacuumed: "cacheAgrees rs (map_option ICVacuum c)"
  by (auto simp: cacheAgrees_def ICVacuum_def ICGet_def)

lemma cacheAgrees_put:
  assumes "cacheAgrees rs c" "steadyInterfaces rs" "(key, gl, eid, groups) \<in> set rs" "getEntityMetrics gl eid groups = Ok e"
    and "resolveInterface gl key e groups = Ok i"
  shows "cacheAgrees rs (map_option (ICPut eid i) c)"
proof -
  have "resolveInterface gl' key' e' groups' = Ok j"
    if r: "(key', gl', eid', groups') \<in> set rs" "getEntityMetrics gl' eid' groups' = Ok e'" "map_option (ICPut eid i) c = Some ch" "ICGet ch eid' = Some j"
    for key' gl' eid' groups' e' ch j
  proof (cases "eid' = eid")
    case True
    then have j: "j = i" using r(3,4) by (auto simp: ic.lookup_store)
    note r1 = r(1,2)[unfolded True]
    have u: "uniform (fst ` set rs) e'" by (rule steadyD(1)[OF assms(2) r1 r1])
    note d = steadyD[OF assms(2-4) r1]
    have "key \<in> fst ` set rs" "key' \<in> fst ` set rs" using assms(3) r(1) by force+
    then show ?thesis using resolve_names[OF d(1) u, of key key' gl groups groups' i] d(2-4) assms(5) j by auto
  next
    case False
    then obtain ch0 where "c = Some ch0" "ICGet ch0 eid' = Some j" using r(3,4) by (auto simp: ic.lookup_store)
    then show ?thesis using assms(1) r(1,2) unfolding cacheAgrees_def by fast
  qed
  then show ?thesis unfolding cacheAgrees_def by blast
qed

lemma fetch_step:
  assumes "cacheAgrees rs c" "steadyInterfaces rs" "(key, gl, eid, groups) \<in> set rs"
  shows "fst (FromRawWithFallbackToDefaultInterface key gl eid groups c) = fst (FromRawWithFallbackToDefaultInterface key gl eid groups None) \<and>
    cacheAgrees rs (snd (FromRawWithFallbackToDefaultInterface key gl eid groups c)) \<and>
    snd (FromRawWithFallbackToDefaultInterface key gl eid groups None) = None"
proof (cases "getEntityMetrics gl eid groups")
  case (Ok e)
  have put: "cacheAgrees rs (map_option (ICPut eid i) c)" if "resolveInterface gl key e groups = Ok i" for i
    using cacheAgrees_put[OF assms Ok that] .
  show ?thesis
  proof (cases "tryCache c eid key e")
    case None
    then show ?thesis using Ok put assms(1)
      by (auto simp: FromRawWithFallbackToDefaultInterface_def tryCache_def[of None] split: result.splits option.splits)
  next
    case (Some v)
    then obtain ch i where "c = Some ch" "ICGet ch eid = Some i" "getMetricFromInterface i key e = Ok v"
      by (auto simp: tryCache_def split: option.splits result.splits)
    moreover from this have "resolveInterface gl key e groups = Ok i" using assms(1,3) Ok unfolding cacheAgrees_def by fast
    ultimately show ?thesis using Ok Some assms(1)
      by (simp add: FromRawWithFallbackToDefaultInterface_def tryCache_def[of None] split: option.split)
  qed
qed (use assms(1) in \<open>simp_all add: FromRawWithFallbackToDefaultInterface_def\<close>)

text \<open>
  C23: The interface cache does not change a metric as long as the interfaces do not change: from a vacuumed cache on, any
  sequence of fetches, over any number of scrapes and entities, returns what the same fetches return without a cache, when
  the entities keep their interfaces, each of which reports every metric asked for, and the node its default interface. The cache
  is vacuumed at every tenth round only, so that a change in between is seen up to nine rounds late (\<open>interfaceCache_stale\<close>).
\<close>

theorem interfaceCache_transparent:
  assumes "steadyInterfaces rs"
  shows "fetchAll rs (map_option ICVacuum c) = fetchAll rs None"
proof -
  have "fetchAll ts c' = fetchAll ts None" if "set ts \<subseteq> set rs" "cacheAgrees rs c'" for ts c'
    using that
  proof (induction ts arbitrary: c')
    case (Cons r ts)
    obtain key gl eid groups where r: "r = (key, gl, eid, groups)" by (cases r)
    then have "(key, gl, eid, groups) \<in> set rs" using Cons.prems(1) by simp
    from fetch_step[OF Cons.prems(2) assms this] Cons show ?case
      by (simp add: r split: prod.split) (metis fst_conv snd_conv)
  qed simp
  then show ?thesis using cacheAgrees_vacuumed by blast
qed

text \<open>A node and a pod in two scrapes; the pod's second metric and everything in the second scrape is a hit of the cache.\<close>

definition exampleNet :: "64 word \<Rightarrow> rawgroups" where
  "exampleNet x =
     [(''network'', [(''interfaces'', [(''default'', VString ''eth1'')])]),
      (''node'', [(''n'', [(''interfaces'', VInterfaces [(''eth0'', [(''rxBytes'', VUint64 7), (''txBytes'', VUint64 8)]),
                                                      (''eth1'', [(''rxBytes'', VUint64 x), (''txBytes'', VUint64 9)])])])]),
      (''pod'', [(''ns_p'', [(''interfaces'', VInterfaces [(''eth0'', [(''rxBytes'', VUint64 x), (''txBytes'', VUint64 3)])])])])]"

definition exampleFetches :: "netrequest list" where
  "exampleFetches =
     [(''rxBytes'', ''node'', ''n'', exampleNet 1), (''txBytes'', ''node'', ''n'', exampleNet 1),
      (''rxBytes'', ''pod'', ''ns_p'', exampleNet 1), (''rxBytes'', ''node'', ''n'', exampleNet 2)]"

lemma exampleFetches_steady: "steadyInterfaces exampleFetches"
  by (auto simp: steadyInterfaces_def exampleFetches_def exampleNet_def getEntityMetrics_def uniform_def mhas_def interfaceNames_def getInterfaces_def
      getDefaultInterface_def split: if_splits)

theorem interfaceCache_transparent_witness:
  "fetchAll exampleFetches (Some NewInterfaceCache) = [Ok (VUint64 1), Ok (VUint64 9), Ok (VUint64 1), Ok (VUint64 2)] \<and>
   tryCache (snd (FromRawWithFallbackToDefaultInterface ''rxBytes'' ''node'' ''n'' (exampleNet 1) (Some NewInterfaceCache))) ''n'' ''txBytes''
     [(''interfaces'', VInterfaces [(''eth1'', [(''txBytes'', VUint64 9)])])] = Some (VUint64 9)"
proof
  have "fetchAll exampleFetches None = [Ok (VUint64 1), Ok (VUint64 9), Ok (VUint64 1), Ok (VUint64 2)]" by code_simp
  moreover have "map_option ICVacuum (Some NewInterfaceCache) = Some NewInterfaceCache" by (simp add: ICVacuum_def NewInterfaceCache_def)
  ultimately show "fetchAll exampleFetches (Some NewInterfaceCache) = [Ok (VUint64 1), Ok (VUint64 9), Ok (VUint64 1), Ok (VUint64 2)]"
    using interfaceCache_transparent[OF exampleFetches_steady, of "Some NewInterfaceCache"] by simp
qed code_simp

text \<open>A pod whose primary interface changes between two scrapes: the cache answers for the old one.\<close>

lemma interfaceCache_stale:
  "let g1 = [(''pod'', [(''ns_p'', [(''interfaces'', VInterfaces [(''eth1'', [(''rxBytes'', VUint64 1)])])])])];
       g2 = [(''pod'', [(''ns_p'', [(''interfaces'', VInterfaces [(''eth1'', [(''rxBytes'', VUint64 2)]), (''eth0'', [(''rxBytes'', VUint64 3)])])])])];
       rs = [(''rxBytes'', ''pod'', ''ns_p'', g1), (''rxBytes'', ''pod'', ''ns_p'', g2)]
   in fetchAll rs (Some NewInterfaceCache) = [Ok (VUint64 1), Ok (VUint64 2)] \<and> fetchAll rs None = [Ok (VUint64 1), Ok (VUint64 3)]"
  by code_simp

section \<open>The metric of a given interface\<close>

text \<open>\<open>getMetricFromDefaultInterface\<close>, which nothing calls: a loop over the map instead of a lookup.\<close>

definition ErrMetricNotFoundForDefaultInterface :: err where
  "ErrMetricNotFoundForDefaultInterface = errorsNew ''metric not found for default interface''"
definition ErrDefaultInterfaceMetricsNotFound :: err where
  "ErrDefaultInterfaceMetricsNotFound = errorsNew ''default interface metrics not found''"

fun defaultInterfaceLoop :: "string \<Rightarrow> string \<Rightarrow> (string \<times> rawmetrics) list \<Rightarrow> goval result" where
  "defaultInterfaceLoop defaultInterface metricKey [] = Fail ErrDefaultInterfaceMetricsNotFound"
| "defaultInterfaceLoop defaultInterface metricKey ((interfaceName, i) # interfaces) =
     (if interfaceName \<noteq> defaultInterface then defaultInterfaceLoop defaultInterface metricKey interfaces
      else (case mget i metricKey of None \<Rightarrow> Fail ErrMetricNotFoundForDefaultInterface | Some v \<Rightarrow> Ok v))"

definition getMetricFromDefaultInterface :: "string \<Rightarrow> string \<Rightarrow> rawmetrics \<Rightarrow> goval result" where
  "getMetricFromDefaultInterface defaultInterface metricKey m =
     (case mget m ''interfaces'' of
        None \<Rightarrow> Fail ErrInterfacesMetricsNotFound
      | Some (VInterfaces interfaces) \<Rightarrow> defaultInterfaceLoop defaultInterface metricKey interfaces
      | Some _ \<Rightarrow> Fail ErrInterfacesWrongFormat)"

text \<open>The loop is the lookup of the interface, in whatever order the map is visited.\<close>

lemma defaultInterfaceLoop_lookup:
  "defaultInterfaceLoop d k is =
     (case mget is d of None \<Rightarrow> Fail ErrDefaultInterfaceMetricsNotFound
      | Some i \<Rightarrow> (case mget i k of None \<Rightarrow> Fail ErrMetricNotFoundForDefaultInterface | Some v \<Rightarrow> Ok v))"
  by (induction d k "is" rule: defaultInterfaceLoop.induct) auto

lemma getMetricFromDefaultInterface_Ok:
  "getMetricFromDefaultInterface d k m = Ok v \<longleftrightarrow>
     (\<exists>is i. mget m ''interfaces'' = Some (VInterfaces is) \<and> mget is d = Some i \<and> mget i k = Some v)"
  by (auto simp: getMetricFromDefaultInterface_def defaultInterfaceLoop_lookup split: option.splits goval.splits)

end
