(* ===== verification/Kubelet_Pods.thy ===== *)
theory Kubelet_Pods
  imports Kubelet_Network
begin

text \<open>
  \<open>src/kubelet/metric/pods.go\<close>: pods and containers from the \<open>/pods\<close> endpoint. The pods are the
  objects of the Kubernetes API with the fields the code reads; decoding them from JSON is a parameter.
  A time is a number of nanoseconds, the zero time is the first of January of year 1.
\<close>

section \<open>Pods (\<open>k8s.io/api/core/v1\<close>)\<close>

definition zeroTime :: int where
  "zeroTime = - 62135596800 * 1000000000"

record resources =
  Requests :: "(string, quantity) gomap"
  Limits :: "(string, quantity) gomap"

record podcontainer =
  KName :: string
  Image :: string
  KResources :: resources
  RestartPolicy :: "string option"

record terminated =
  ExitCode :: "32 word"
  TReason :: string
  FinishedAt :: int

text \<open>\<open>ContainerState\<close>: start time, reason of waiting, termination; each may be nil.\<close>

record containerstate =
  Running :: "int option"
  Waiting :: "string option"
  Terminated :: "terminated option"

record containerstatus =
  CSName :: string
  CSState :: containerstate
  LastTerminated :: "terminated option"
  CSReady :: bool
  RestartCount :: "32 word"
  CSResources :: "resources option"

record podcondition =
  CType :: string
  CStatus :: string
  LastTransitionTime :: int

record podstatus =
  Phase :: string
  Conditions :: "podcondition list"
  HostIP :: string
  PodIP :: string
  StartTime :: "int option"
  SReason :: string
  SMessage :: string
  ContainerStatuses :: "containerstatus list"
  InitContainerStatuses :: "containerstatus list"

record pod =
  PodNamespace :: string
  PodName :: string
  PodLabels :: "(string, string) gomap"
  CreationTimestamp :: int
  OwnerReferences :: "(string \<times> string) list"
  PodNodeName :: string
  Priority :: "32 word option"
  PriorityClassName :: string
  PodResources :: "resources option"
  Containers :: "podcontainer list"
  InitContainers :: "podcontainer list"
  Status :: podstatus

section \<open>Names\<close>

definition podID :: "pod \<Rightarrow> string" where
  "podID p = PodNamespace p @ ''_'' @ PodName p"

definition containerID :: "pod \<Rightarrow> string \<Rightarrow> string" where
  "containerID p containerName = podID p @ ''_'' @ containerName"

definition replicasetNameToDeploymentName :: "string \<Rightarrow> string" where
  "replicasetNameToDeploymentName rsName = (let s = splitOn (CHR ''-'') rsName in joinWith ''-'' (take (length s - 1) s))"

definition deploymentNameBasedOnCreator :: "string \<Rightarrow> string \<Rightarrow> string" where
  "deploymentNameBasedOnCreator creatorKind creatorName =
     (if creatorKind = ''ReplicaSet'' then replicasetNameToDeploymentName creatorName else [])"

definition addWorkloadNameBasedOnCreator :: "string \<Rightarrow> string \<Rightarrow> rawmetrics \<Rightarrow> rawmetrics" where
  "addWorkloadNameBasedOnCreator creatorKind creatorName metrics =
     (if creatorKind = ''DaemonSet'' then mput ''daemonsetName'' (VString creatorName) metrics
      else if creatorKind = ''Deployment'' then mput ''deploymentName'' (VString creatorName) metrics
      else if creatorKind = ''Job'' then mput ''jobName'' (VString creatorName) metrics
      else if creatorKind = ''ReplicaSet'' then
        (let metrics = mput ''replicasetName'' (VString creatorName) metrics;
             d = deploymentNameBasedOnCreator creatorKind creatorName
         in if d \<noteq> [] then mput ''deploymentName'' (VString d) metrics else metrics)
      else if creatorKind = ''StatefulSet'' then mput ''statefulsetName'' (VString creatorName) metrics
      else metrics)"

definition podLabels :: "pod \<Rightarrow> (string, string) gomap" where
  "podLabels p = foldl (\<lambda>l (k, v). mput k v l) [] (PodLabels p)"

definition addOwner :: "pod \<Rightarrow> rawmetrics \<Rightarrow> rawmetrics" where
  "addOwner p metrics = (case OwnerReferences p of
     [] \<Rightarrow> metrics | (kind, name) # _ \<Rightarrow> addWorkloadNameBasedOnCreator kind name metrics)"

definition addLabels :: "pod \<Rightarrow> rawmetrics \<Rightarrow> rawmetrics" where
  "addLabels p metrics = (let ls = podLabels p in if length ls > 0 then mput ''labels'' (VStrMap ls) metrics else metrics)"

section \<open>Pods\<close>

definition isFakePendingPod :: "podstatus \<Rightarrow> bool" where
  "isFakePendingPod s =
     (Phase s = ''Pending'' \<and> length (Conditions s) = 1 \<and>
      CType (Conditions s ! 0) = ''PodScheduled'' \<and> CStatus (Conditions s ! 0) = ''True'')"

definition addTransition :: "string \<Rightarrow> podcondition \<Rightarrow> rawmetrics \<Rightarrow> rawmetrics" where
  "addTransition key c r =
     (if CStatus c = ''True'' \<and> LastTransitionTime c \<noteq> zeroTime then mput key (VTime (LastTransitionTime c)) r else r)"

definition addCondition :: "rawmetrics \<Rightarrow> podcondition \<Rightarrow> rawmetrics" where
  "addCondition r c =
     (if CType c = ''Initialized'' then addTransition ''initializedAt'' c r
      else if CType c = ''Ready'' then addTransition ''readyAt'' c (mput ''isReady'' (VString (CStatus c)) r)
      else if CType c = ''ContainersReady'' then addTransition ''containersReadyAt'' c r
      else if CType c = ''PodScheduled'' then addTransition ''scheduledAt'' c (mput ''isScheduled'' (VString (CStatus c)) r)
      else r)"

definition fillPodStatus :: "rawmetrics \<Rightarrow> pod \<Rightarrow> rawmetrics" where
  "fillPodStatus r p =
     (if isFakePendingPod (Status p) then
        mput ''isScheduled'' (VString ''True'') (mput ''isReady'' (VString ''True'') (mput ''status'' (VString ''Running'') r))
      else mput ''status'' (VString (Phase (Status p))) (foldl addCondition r (Conditions (Status p))))"

text \<open>The four resource attributes, in the order of the source; quantities as \<open>MilliValue\<close> and \<open>Value\<close>.\<close>

definition addQuantity :: "string \<Rightarrow> (quantity \<Rightarrow> 64 word) \<Rightarrow> (string, quantity) gomap \<Rightarrow> string \<Rightarrow> rawmetrics \<Rightarrow> rawmetrics" where
  "addQuantity key f rs name r = (case mget rs name of None \<Rightarrow> r | Some q \<Rightarrow> mput key (VInt64 (f q)) r)"

definition addResources :: "resources \<Rightarrow> rawmetrics \<Rightarrow> rawmetrics" where
  "addResources rs r =
     addQuantity ''memoryLimitBytes'' QtyValue (Limits rs) ''memory''
       (addQuantity ''memoryRequestedBytes'' QtyValue (Requests rs) ''memory''
         (addQuantity ''cpuLimitCores'' QtyMilliValue (Limits rs) ''cpu''
           (addQuantity ''cpuRequestedCores'' QtyMilliValue (Requests rs) ''cpu'' r)))"

definition putNonEmpty :: "string \<Rightarrow> string \<Rightarrow> rawmetrics \<Rightarrow> rawmetrics" where
  "putNonEmpty key s r = (if s \<noteq> [] then mput key (VString s) r else r)"

definition addStartTime :: "pod \<Rightarrow> rawmetrics \<Rightarrow> rawmetrics" where
  "addStartTime p r = (case StartTime (Status p) of None \<Rightarrow> r | Some t \<Rightarrow> mput ''startTime'' (VTime t) r)"

definition addCreated :: "pod \<Rightarrow> rawmetrics \<Rightarrow> rawmetrics" where
  "addCreated p r = (if CreationTimestamp p \<noteq> zeroTime then mput ''createdAt'' (VTime (CreationTimestamp p)) r else r)"

definition addCreator :: "pod \<Rightarrow> rawmetrics \<Rightarrow> rawmetrics" where
  "addCreator p r = (case OwnerReferences p of [] \<Rightarrow> r | (kind, name) # _ \<Rightarrow>
     addWorkloadNameBasedOnCreator kind name (mput ''createdBy'' (VString name) (mput ''createdKind'' (VString kind) r)))"

definition addPriority :: "pod \<Rightarrow> rawmetrics \<Rightarrow> rawmetrics" where
  "addPriority p r = (case Priority p of None \<Rightarrow> r | Some pr \<Rightarrow> mput ''priority'' (VInt32 pr) r)"

definition addPodResources :: "pod \<Rightarrow> rawmetrics \<Rightarrow> rawmetrics" where
  "addPodResources p r = (case PodResources p of None \<Rightarrow> r | Some rs \<Rightarrow> addResources rs r)"

definition fetchPodData :: "pod \<Rightarrow> rawmetrics" where
  "fetchPodData p =
     (let r = [(''namespace'', VString (PodNamespace p)), (''podName'', VString (PodName p)), (''nodeName'', VString (PodNodeName p))];
          r = fillPodStatus r p;
          r = putNonEmpty ''nodeIP'' (HostIP (Status p)) r;
          r = putNonEmpty ''podIP'' (PodIP (Status p)) r;
          r = addStartTime p r;
          r = addCreated p r;
          r = addCreator p r;
          r = putNonEmpty ''reason'' (SReason (Status p)) r;
          r = putNonEmpty ''message'' (SMessage (Status p)) r;
          r = addPriority p r;
          r = putNonEmpty ''priorityClassName'' (PriorityClassName p) r;
          r = addPodResources p r
      in addLabels p r)"

section \<open>Containers\<close>

definition isSidecar :: "podcontainer \<Rightarrow> bool" where
  "isSidecar c = (RestartPolicy c = Some ''Always'')"

definition getContainerStatusesByName :: "pod \<Rightarrow> (string, containerstatus) gomap" where
  "getContainerStatusesByName p =
     (let byName = foldl (\<lambda>m cs. mput (CSName cs) cs m) [] (ContainerStatuses (Status p)) in
      foldl (\<lambda>m initContainer.
        if isSidecar initContainer then
          (case find (\<lambda>cs. CSName cs = KName initContainer) (InitContainerStatuses (Status p)) of
             Some cs \<Rightarrow> mput (CSName cs) cs m
           | None \<Rightarrow> m)
        else m) byName (InitContainers p))"

definition lastTerminatedAttrs :: "containerstatus \<Rightarrow> (string \<times> goval) list" where
  "lastTerminatedAttrs c =
     (case LastTerminated c of
        None \<Rightarrow> [(''lastTerminatedExitCode'', VInt32 0), (''lastTerminatedExitReason'', VString ''None''),
                 (''lastTerminatedTimestamp'', VTime zeroTime)]
      | Some t \<Rightarrow> [(''lastTerminatedExitCode'', VInt32 (ExitCode t)), (''lastTerminatedExitReason'', VString (TReason t)),
                   (''lastTerminatedTimestamp'', VTime (FinishedAt t))])"

definition containerStatusMetrics :: "containerstatus \<Rightarrow> rawmetrics" where
  "containerStatusMetrics c =
     (case (Running (CSState c), Waiting (CSState c), Terminated (CSState c)) of
        (Some startedAt, _, _) \<Rightarrow>
          [(''status'', VString ''Running''), (''startedAt'', VTime startedAt), (''restartCount'', VInt32 (RestartCount c)),
           (''isReady'', VBool (CSReady c))] @ lastTerminatedAttrs c
      | (None, Some reason, _) \<Rightarrow>
          [(''status'', VString ''Waiting''), (''isReady'', VBool False), (''reason'', VString reason),
           (''restartCount'', VInt32 (RestartCount c))] @ lastTerminatedAttrs c
      | (None, None, Some t) \<Rightarrow>
          [(''status'', VString ''Terminated''), (''isReady'', VBool False), (''reason'', VString (TReason t)),
           (''restartCount'', VInt32 (RestartCount c))] @ lastTerminatedAttrs c
      | (None, None, None) \<Rightarrow> [(''status'', VString ''Unknown''), (''isReady'', VBool False)])"

definition fillContainerStatuses :: "pod \<Rightarrow> (string, containerstatus) gomap \<Rightarrow> (string, rawmetrics) gomap" where
  "fillContainerStatuses p containerStatuses =
     foldl (\<lambda>dest (name, c). mput (containerID p name) (containerStatusMetrics c) dest) [] containerStatuses"

definition containerMetrics ::
  "pod \<Rightarrow> (string, containerstatus) gomap \<Rightarrow> (string, rawmetrics) gomap \<Rightarrow> podcontainer \<Rightarrow> rawmetrics" where
  "containerMetrics p byName statuses c =
     (let r = [(''containerName'', VString (KName c)), (''containerImage'', VString (Image c)),
               (''namespace'', VString (PodNamespace p)), (''podName'', VString (PodName p)), (''nodeName'', VString (PodNodeName p))];
          r = putNonEmpty ''nodeIP'' (HostIP (Status p)) r;
          rs = (case mget byName (KName c) of
                  Some cs \<Rightarrow> (case CSResources cs of Some rs \<Rightarrow> rs | None \<Rightarrow> KResources c)
                | None \<Rightarrow> KResources c);
          r = addResources rs r;
          r = addOwner p r;
          r = foldl (\<lambda>r (k, v). mput k v r) r (mget0 [] statuses (containerID p (KName c)))
      in addLabels p r)"

definition fetchContainersData :: "pod \<Rightarrow> (string, rawmetrics) gomap" where
  "fetchContainersData p =
     (let byName = getContainerStatusesByName p;
          statuses = fillContainerStatuses p byName;
          containers = Containers p @ filter isSidecar (InitContainers p)
      in foldl (\<lambda>m c. mput (containerID p (KName c)) (containerMetrics p byName statuses c) m) [] containers)"

section \<open>The node address\<close>

record gapstate =
  GPods :: rawentities
  GContainers :: rawentities
  nodeIP :: string
  missingPods :: "string list"
  missingContainers :: "string list"

text \<open>\<open>.(string)\<close> on a node address: it was stored as a string.\<close>

definition asStr :: "goval \<Rightarrow> string" where
  "asStr v = (case v of VString s \<Rightarrow> s | _ \<Rightarrow> [])"

definition foundIP :: "string \<Rightarrow> rawmetrics \<Rightarrow> string" where
  "foundIP ip r = (case mget r ''nodeIP'' of Some v \<Rightarrow> if ip = [] then asStr v else ip | None \<Rightarrow> ip)"

definition gapContainer :: "gapstate \<Rightarrow> string \<times> rawmetrics \<Rightarrow> gapstate" where
  "gapContainer st idc = (case idc of (cid, c) \<Rightarrow>
     let ip = foundIP (nodeIP st) c in
     if ip = [] then st\<lparr>GContainers := mput cid c (GContainers st), missingContainers := missingContainers st @ [cid]\<rparr>
     else st\<lparr>GContainers := mput cid (mput ''nodeIP'' (VString ip) c) (GContainers st), nodeIP := ip\<rparr>)"

definition gapPod :: "gapstate \<Rightarrow> pod \<Rightarrow> gapstate" where
  "gapPod st p =
     (let pid = podID p; r = fetchPodData p; ip = foundIP (nodeIP st) r;
          st = (if ip = [] then st\<lparr>GPods := mput pid r (GPods st), missingPods := missingPods st @ [pid]\<rparr>
                else st\<lparr>GPods := mput pid (mput ''nodeIP'' (VString ip) r) (GPods st), nodeIP := ip\<rparr>)
      in foldl gapContainer st (fetchContainersData p))"

definition fillMissing :: "string \<Rightarrow> string list \<Rightarrow> rawentities \<Rightarrow> rawentities" where
  "fillMissing ip ids ents = foldl (\<lambda>es i. mput i (mput ''nodeIP'' (VString ip) (mget0 [] es i)) es) ents ids"

definition fillGaps :: "pod list \<Rightarrow> rawgroups" where
  "fillGaps pods =
     (let st = foldl gapPod \<lparr>GPods = [], GContainers = [], nodeIP = [], missingPods = [], missingContainers = []\<rparr> pods
      in [(''pod'', fillMissing (nodeIP st) (missingPods st) (GPods st)),
          (''container'', fillMissing (nodeIP st) (missingContainers st) (GContainers st))])"

section \<open>Fetching\<close>

definition KubeletPodsPath :: string where
  "KubeletPodsPath = ''/pods''"

definition maxPodsResponseBytes :: nat where
  "maxPodsResponseBytes = 100 * 1024 * 1024"

record podsfetcher =
  useKubeService :: bool
  uri :: string

definition Fetch :: "(string \<Rightarrow> httpresponse result) \<Rightarrow> (string \<Rightarrow> httpresponse result) \<Rightarrow> podsfetcher \<Rightarrow> httpresponse result" where
  "Fetch Get GetURI f = (if useKubeService f then GetURI (uri f) else Get KubeletPodsPath)"

definition DoPodsFetch ::
  "(string \<Rightarrow> pod list result) \<Rightarrow> (string \<Rightarrow> httpresponse result) \<Rightarrow> (string \<Rightarrow> httpresponse result) \<Rightarrow> podsfetcher \<Rightarrow> rawgroups result" where
  "DoPodsFetch decode Get GetURI f =
     rbind (Fetch Get GetURI f) (\<lambda>r.
       if StatusCode r \<noteq> 200 then
         Fail (Errorf ''error calling kubelet %s path. Status code %d'' [KubeletPodsPath, Itoa (StatusCode r)] [])
       else (case readAllLimited maxPodsResponseBytes (Body r) of
         (_, Some e) \<Rightarrow> Fail (Errorf ''error reading response from kubelet %s path. %s'' [KubeletPodsPath, errMsg e] [])
       | (rawPods, None) \<Rightarrow>
           if length rawPods = 0 then
             Fail (Errorf ''error reading response from kubelet %s path. Response is empty'' [KubeletPodsPath] [])
           else (case decode rawPods of
                   Ok pods \<Rightarrow> Ok (fillGaps pods)
                 | Fail e \<Rightarrow> Fail (Errorf ''error decoding response from kubelet %s path. %s'' [KubeletPodsPath, errMsg e] [])
                 | Panic p \<Rightarrow> Panic p)))"

section \<open>Deployments of replica sets\<close>

text \<open>
  A replica set named after its deployment and a hash without dashes is mapped back to that
  deployment, also when the name of the deployment has dashes.
\<close>

lemma replicaset_deployment_roundtrip:
  assumes "CHR ''-'' \<notin> set hash"
  shows "replicasetNameToDeploymentName (deployment @ ''-'' @ hash) = deployment"
  using assms by (simp add: replicasetNameToDeploymentName_def splitOn_append_last joinWith_splitOn Let_def)

theorem replicaset_deployment_roundtrip_witness:
  "replicasetNameToDeploymentName (''kube-dns'' @ ''-'' @ ''5d78c9869d'') = ''kube-dns''"
  by (rule replicaset_deployment_roundtrip) simp

section \<open>Every pod and container gets the address of the node\<close>

lemma mget_putNonEmpty: "mget (putNonEmpty key s r) k = (if k = key \<and> s \<noteq> [] then Some (VString s) else mget r k)"
  by (simp add: putNonEmpty_def)

lemma mget_addQuantity_other: "k \<noteq> key \<Longrightarrow> mget (addQuantity key f rs n r) k = mget r k"
  by (simp add: addQuantity_def split: option.splits)

lemma mget_addResources_other:
  "k \<notin> {''memoryLimitBytes'', ''memoryRequestedBytes'', ''cpuLimitCores'', ''cpuRequestedCores''} \<Longrightarrow>
     mget (addResources rs r) k = mget r k"
  by (simp add: addResources_def mget_addQuantity_other)

lemma mget_addWorkload_other:
  "k \<notin> {''daemonsetName'', ''deploymentName'', ''jobName'', ''replicasetName'', ''statefulsetName''} \<Longrightarrow>
     mget (addWorkloadNameBasedOnCreator kind name r) k = mget r k"
  by (auto simp: addWorkloadNameBasedOnCreator_def Let_def)

lemma mget_addLabels_other: "k \<noteq> ''labels'' \<Longrightarrow> mget (addLabels p r) k = mget r k"
  by (simp add: addLabels_def Let_def)

lemma mget_addTransition_other: "k \<noteq> key \<Longrightarrow> mget (addTransition key c r) k = mget r k"
  by (simp add: addTransition_def)

lemma mget_addCondition_other:
  "k \<notin> {''initializedAt'', ''isReady'', ''readyAt'', ''containersReadyAt'', ''isScheduled'', ''scheduledAt''} \<Longrightarrow>
     mget (addCondition r c) k = mget r k"
  by (auto simp: addCondition_def mget_addTransition_other)

lemma mget_conditions_other:
  "k \<notin> {''initializedAt'', ''isReady'', ''readyAt'', ''containersReadyAt'', ''isScheduled'', ''scheduledAt''} \<Longrightarrow>
     mget (foldl addCondition r cs) k = mget r k"
  by (induction cs arbitrary: r) (auto simp: mget_addCondition_other)

lemma mget_fillPodStatus_other:
  "k \<notin> {''status'', ''initializedAt'', ''isReady'', ''readyAt'', ''containersReadyAt'', ''isScheduled'', ''scheduledAt''} \<Longrightarrow>
     mget (fillPodStatus r p) k = mget r k"
  by (simp add: fillPodStatus_def mget_conditions_other)

lemma mget_podSteps_other:
  "k \<notin> {''startTime'', ''createdAt'', ''priority''} \<Longrightarrow>
     mget (addStartTime p r) k = mget r k \<and> mget (addCreated p r) k = mget r k \<and> mget (addPriority p r) k = mget r k"
  by (simp add: addStartTime_def addCreated_def addPriority_def split: option.splits)

lemma mget_addCreator_other:
  "k \<notin> {''createdBy'', ''createdKind'', ''daemonsetName'', ''deploymentName'', ''jobName'', ''replicasetName'', ''statefulsetName''} \<Longrightarrow>
     mget (addCreator p r) k = mget r k"
  by (simp add: addCreator_def mget_addWorkload_other split: list.splits prod.splits)

lemma mget_addOwner_other:
  "k \<notin> {''daemonsetName'', ''deploymentName'', ''jobName'', ''replicasetName'', ''statefulsetName''} \<Longrightarrow>
     mget (addOwner p r) k = mget r k"
  by (simp add: addOwner_def mget_addWorkload_other split: list.splits prod.splits)

lemma mget_addPodResources_other:
  "k \<notin> {''memoryLimitBytes'', ''memoryRequestedBytes'', ''cpuLimitCores'', ''cpuRequestedCores''} \<Longrightarrow>
     mget (addPodResources p r) k = mget r k"
  by (simp add: addPodResources_def mget_addResources_other split: option.splits)

lemmas pod_other = mget_fillPodStatus_other mget_podSteps_other mget_addCreator_other mget_addOwner_other mget_addPodResources_other
  mget_putNonEmpty mget_addResources_other mget_addWorkload_other mget_addLabels_other mget_conditions_other

definition ipAttr :: "string \<Rightarrow> goval option" where
  "ipAttr ip = (if ip = [] then None else Some (VString ip))"

lemma podData_nodeIP: "mget (fetchPodData p) ''nodeIP'' = ipAttr (HostIP (Status p))"
  by (simp add: fetchPodData_def Let_def pod_other ipAttr_def)

lemma statusMetrics_nodeIP: "mget (containerStatusMetrics c) ''nodeIP'' = None"
  by (simp add: containerStatusMetrics_def lastTerminatedAttrs_def split: option.split)

lemma statuses_nodeIP: "mget (mget0 [] (fillContainerStatuses p byName) i) ''nodeIP'' = None"
proof -
  have "mget (mget0 [] (foldl (\<lambda>dest (name, c). mput (containerID p name) (containerStatusMetrics c) dest) d xs) i) ''nodeIP'' = None"
    if "mget (mget0 [] d i) ''nodeIP'' = None" for d xs
    using that by (induction xs arbitrary: d) (auto simp: statusMetrics_nodeIP split: prod.splits)
  then show ?thesis by (simp add: fillContainerStatuses_def)
qed

lemma mget_merge_other: "mget xs k = None \<Longrightarrow> mget (foldl (\<lambda>r (k, v). mput k v r) r xs) k = mget r k"
  by (induction xs arbitrary: r) (auto split: if_splits)

lemma containerMetrics_nodeIP:
  "mget (containerMetrics p byName (fillContainerStatuses p byName) c) ''nodeIP'' = ipAttr (HostIP (Status p))"
  by (simp add: containerMetrics_def Let_def pod_other mget_merge_other statuses_nodeIP ipAttr_def)

lemma foldl_mput_all:
  "(\<And>x. P (g x)) \<Longrightarrow> (\<forall>(k, v) \<in> set m. P v) \<Longrightarrow> \<forall>(k, v) \<in> set (foldl (\<lambda>m x. mput (f x) (g x) m) m xs). P v"
proof (induction xs arbitrary: m)
  case (Cons x xs)
  have "set (mput (f x) (g x) m) \<subseteq> insert (f x, g x) (set m)" by (induction m) auto
  then have "\<forall>(k, v) \<in> set (mput (f x) (g x) m). P v" using Cons.prems by blast
  then show ?case using Cons by simp
qed simp

lemma containersData_nodeIP: "\<forall>(i, r) \<in> set (fetchContainersData p). mget r ''nodeIP'' = ipAttr (HostIP (Status p))"
  unfolding fetchContainersData_def Let_def by (rule foldl_mput_all) (simp_all add: containerMetrics_nodeIP)

text \<open>The address the loop settles on: the first host address of the list.\<close>

fun firstIP :: "pod list \<Rightarrow> string" where
  "firstIP [] = []"
| "firstIP (p # ps) = (if HostIP (Status p) \<noteq> [] then HostIP (Status p) else firstIP ps)"

definition entInv :: "string \<Rightarrow> string list \<Rightarrow> rawentities \<Rightarrow> bool" where
  "entInv ip missing ents \<longleftrightarrow>
     (\<forall>i r. mget ents i = Some r \<longrightarrow> i \<in> set missing \<or> ip \<noteq> [] \<and> mget r ''nodeIP'' = Some (VString ip)) \<and>
     (\<forall>i \<in> set missing. mhas ents i)"

definition gapInv :: "gapstate \<Rightarrow> bool" where
  "gapInv st \<longleftrightarrow> entInv (nodeIP st) (missingPods st) (GPods st) \<and> entInv (nodeIP st) (missingContainers st) (GContainers st)"

lemma foundIP_eq: "mget r ''nodeIP'' = ipAttr h \<Longrightarrow> foundIP ip r = (if ip = [] then h else ip)"
  by (auto simp: foundIP_def ipAttr_def asStr_def split: option.splits if_splits)

lemma entInv_missing: "entInv [] ms ents \<Longrightarrow> entInv [] (ms @ [i]) (mput i r ents)"
  by (auto simp: entInv_def)

lemma entInv_found: "entInv ip ms ents \<Longrightarrow> ip \<noteq> [] \<Longrightarrow> entInv ip ms (mput i (mput ''nodeIP'' (VString ip) r) ents)"
  by (auto simp: entInv_def)

lemma entInv_new_ip: "entInv [] ms ents \<Longrightarrow> entInv ip ms ents"
  by (auto simp: entInv_def)

lemma gapContainer_inv:
  assumes "gapInv st" "mget c ''nodeIP'' = ipAttr h" "nodeIP st = [] \<longrightarrow> h = []"
  shows "gapInv (gapContainer st (i, c)) \<and> nodeIP (gapContainer st (i, c)) = nodeIP st"
  using assms by (auto simp: gapContainer_def gapInv_def foundIP_eq Let_def entInv_missing entInv_found)

lemma gapContainers_inv:
  assumes "gapInv st" "\<forall>(i, r) \<in> set cs. mget r ''nodeIP'' = ipAttr h" "nodeIP st = [] \<longrightarrow> h = []"
  shows "gapInv (foldl gapContainer st cs) \<and> nodeIP (foldl gapContainer st cs) = nodeIP st"
  using assms
proof (induction cs arbitrary: st)
  case (Cons x cs)
  obtain i c where x: "x = (i, c)" by force
  have "gapInv (gapContainer st x) \<and> nodeIP (gapContainer st x) = nodeIP st"
    using Cons.prems x by (intro gapContainer_inv[of st c h i, folded x]) auto
  then show ?case using Cons by auto
qed simp

lemma gapPod_inv:
  assumes "gapInv st"
  shows "gapInv (gapPod st p) \<and> nodeIP (gapPod st p) = (if nodeIP st = [] then HostIP (Status p) else nodeIP st)"
proof -
  let ?h = "HostIP (Status p)" and ?r = "fetchPodData p"
  define ip where "ip = foundIP (nodeIP st) ?r"
  have ip: "ip = (if nodeIP st = [] then ?h else nodeIP st)"
    unfolding ip_def by (rule foundIP_eq) (rule podData_nodeIP)
  define st1 where "st1 = (if ip = [] then st\<lparr>GPods := mput (podID p) ?r (GPods st), missingPods := missingPods st @ [podID p]\<rparr>
      else st\<lparr>GPods := mput (podID p) (mput ''nodeIP'' (VString ip) ?r) (GPods st), nodeIP := ip\<rparr>)"
  have "gapInv st1"
  proof (cases "ip = []")
    case True
    then have "nodeIP st = []" using ip by (cases "nodeIP st = []") simp_all
    then show ?thesis using assms True by (simp add: st1_def gapInv_def entInv_missing)
  next
    case False
    have "entInv ip (missingPods st) (GPods st)" "entInv ip (missingContainers st) (GContainers st)"
      using assms ip unfolding gapInv_def by (cases "nodeIP st = []"; simp add: entInv_new_ip)+
    then show ?thesis using False by (simp add: st1_def gapInv_def entInv_found)
  qed
  moreover have n: "nodeIP st1 = ip" using ip by (cases "nodeIP st = []") (simp_all add: st1_def)
  moreover have "nodeIP st1 = [] \<longrightarrow> ?h = []" using n ip by (cases "nodeIP st = []") simp_all
  ultimately have "gapInv (foldl gapContainer st1 (fetchContainersData p)) \<and> nodeIP (foldl gapContainer st1 (fetchContainersData p)) = ip"
    using gapContainers_inv[OF _ containersData_nodeIP] by blast
  moreover have "gapPod st p = foldl gapContainer st1 (fetchContainersData p)"
    by (simp add: gapPod_def st1_def ip_def Let_def)
  ultimately show ?thesis using ip by simp
qed

lemma gapPods_inv:
  "gapInv st \<Longrightarrow> gapInv (foldl gapPod st ps) \<and> nodeIP (foldl gapPod st ps) = (if nodeIP st = [] then firstIP ps else nodeIP st)"
  by (induction ps arbitrary: st) (auto simp: gapPod_inv)

lemma fillMissing_inv:
  assumes "entInv ip ms ents" "mget (fillMissing ip ms ents) i = Some r"
  shows "mget r ''nodeIP'' = Some (VString ip)"
proof -
  have A: "mget (fillMissing ip xs es) j = Some q \<Longrightarrow>
      (j \<in> set xs \<longrightarrow> mget q ''nodeIP'' = Some (VString ip)) \<and> (j \<notin> set xs \<longrightarrow> mget es j = Some q)" for xs es j q
  proof (induction xs arbitrary: es)
    case (Cons x xs)
    let ?es = "mput x (mput ''nodeIP'' (VString ip) (mget0 [] es x)) es"
    have "mget (fillMissing ip xs ?es) j = Some q" using Cons.prems by (simp add: fillMissing_def)
    from Cons.IH[OF this] show ?case by (auto split: if_splits)
  qed (simp add: fillMissing_def)
  show ?thesis using A[OF assms(2)] assms(1) by (auto simp: entInv_def)
qed

text \<open>
  C9: After \<open>fillGaps\<close> every pod and every container has a node address, and it is the same for all:
  the first non-empty host address in the list of pods, wherever in the list it appears.
\<close>

theorem fillGaps_nodeIP:
  assumes "mget (fillGaps pods) gl = Some ents" "mget ents eid = Some r"
  shows "mget r ''nodeIP'' = Some (VString (firstIP pods))"
proof -
  define st0 where "st0 = \<lparr>GPods = [], GContainers = [], nodeIP = [], missingPods = [], missingContainers = []\<rparr>"
  have "gapInv st0" by (simp add: gapInv_def entInv_def st0_def)
  then have "gapInv (foldl gapPod st0 pods)" "nodeIP (foldl gapPod st0 pods) = firstIP pods"
    using gapPods_inv[of st0 pods] by (simp_all add: st0_def)
  then show ?thesis using assms
    by (auto simp: fillGaps_def st0_def[symmetric] Let_def gapInv_def intro: fillMissing_inv split: if_splits)
qed

definition examplePod :: "string \<Rightarrow> string \<Rightarrow> pod" where
  "examplePod name ip =
     \<lparr>PodNamespace = ''ns'', PodName = name, PodLabels = [], CreationTimestamp = 0, OwnerReferences = [], PodNodeName = ''n'',
      Priority = None, PriorityClassName = [], PodResources = None, Containers = [], InitContainers = [],
      Status = \<lparr>Phase = ''Running'', Conditions = [\<lparr>CType = ''Ready'', CStatus = ''Unknown'', LastTransitionTime = 0\<rparr>], HostIP = ip,
        PodIP = [], StartTime = None, SReason = [], SMessage = [], ContainerStatuses = [], InitContainerStatuses = []\<rparr>\<rparr>"

theorem fillGaps_nodeIP_witness:
  "\<exists>ents r. mget (fillGaps [examplePod ''a'' [], examplePod ''b'' ''10.0.0.1'']) ''pod'' = Some ents \<and> mget ents ''ns_a'' = Some r \<and>
     mget r ''nodeIP'' = Some (VString ''10.0.0.1'')"
proof -
  let ?ps = "[examplePod ''a'' [], examplePod ''b'' ''10.0.0.1'']"
  have "Option.bind (mget (fillGaps ?ps) ''pod'') (\<lambda>ents. mget ents ''ns_a'') \<noteq> None" by code_simp
  then obtain ents r where "mget (fillGaps ?ps) ''pod'' = Some ents" "mget ents ''ns_a'' = Some r"
    by (auto simp: bind_eq_Some_conv)
  moreover have "firstIP ?ps = ''10.0.0.1''" by (simp add: examplePod_def)
  ultimately show ?thesis using fillGaps_nodeIP[of ?ps "''pod''" ents "''ns_a''" r] by auto
qed

section \<open>Conditions\<close>

text \<open>
  A pod whose readiness is \<open>Unknown\<close>, the spelling of the Kubernetes API, yields a fetch error and
  no \<open>isReady\<close> metric: only the lower-case spelling is mapped to -1.
\<close>

lemma unknown_condition_rejected:
  assumes "mget groups ''pod'' = Some pods" "mget pods eid = Some r" "mget r ''isReady'' = Some (VString ''Unknown'')"
  shows "\<exists>e. Transform (FromRaw ''isReady'') toNumericBoolean ''pod'' eid groups = Fail e"
  using assms by (simp add: Transform_def FromRaw_def toNumericBoolean_def)

theorem unknown_condition_rejected_witness:
  "\<exists>e. Transform (FromRaw ''isReady'') toNumericBoolean ''pod'' ''ns_a'' (fillGaps [examplePod ''a'' ''10.0.0.1'']) = Fail e"
proof -
  have g: "fillGaps [examplePod ''a'' ''10.0.0.1''] = [(''pod'', [(''ns_a'',
      [(''namespace'', VString ''ns''), (''podName'', VString ''a''), (''nodeName'', VString ''n''), (''isReady'', VString ''Unknown''),
       (''status'', VString ''Running''), (''nodeIP'', VString ''10.0.0.1''), (''createdAt'', VTime 0)])]), (''container'', [])]"
    by (simp add: fillGaps_def gapPod_def foundIP_def fetchPodData_def fillPodStatus_def isFakePendingPod_def examplePod_def
        addCondition_def addTransition_def putNonEmpty_def addStartTime_def addCreated_def zeroTime_def addCreator_def
        addPriority_def addPodResources_def addLabels_def podLabels_def fetchContainersData_def podID_def asStr_def
        fillMissing_def Let_def)
  show ?thesis unfolding g by (rule unknown_condition_rejected) auto
qed

end
