(* ===== verification/Kubelet_Cadvisor.thy ===== *)
theory Kubelet_Cadvisor
  imports Kubelet_Pods
begin

text \<open>
  \<open>src/kubelet/metric/cadvisor.go\<close>: container metrics from the cAdvisor endpoint of the kubelet,
  keyed by namespace, pod and container, with the container ID extracted from the cgroup path.
\<close>

section \<open>Container IDs\<close>

definition isHex :: "char \<Rightarrow> bool" where
  "isHex c = (isDigit c \<or> (97 \<le> (of_char c :: nat) \<and> (of_char c :: nat) \<le> 102))"

text \<open>The class \<open>\w\<close> of the regular expressions.\<close>

definition isWord :: "char \<Rightarrow> bool" where
  "isWord c = (isDigit c \<or> isLower c \<or> isUpper c \<or> c = CHR ''_'')"

text \<open>\<open>v[strings.LastIndex(v, "/")+1:]\<close>\<close>

definition afterLastSlash :: "string \<Rightarrow> string" where
  "afterLastSlash v = rev (takeWhile (\<lambda>c. c \<noteq> CHR ''/'') (rev v))"

text \<open>
  The pattern \<open>^.*\w+-([0-9a-f]+)\.scope$\<close>: the group is what stands between the last dash and the
  suffix, it is not empty and hexadecimal, and a word character stands before the dash; the dot does
  not match a newline.
\<close>

definition dockerNativeWithSystemD :: "string \<Rightarrow> string option" where
  "dockerNativeWithSystemD s =
     (if \<not> suffix ''.scope'' s then None
      else (let r = rev (TrimSuffix s ''.scope''); hex = takeWhile isHex r; rest = drop (length hex) r in
        case rest of
          d # w # before \<Rightarrow>
            if hex \<noteq> [] \<and> d = CHR ''-'' \<and> isWord w \<and> CHR 0x0A \<notin> set before then Some (rev hex) else None
        | _ \<Rightarrow> None))"

text \<open>The patterns \<open>^.*([0-9a-f]+)$\<close> and \<open>^([0-9a-f]+)$\<close>; the code takes the whole match.\<close>

definition dockerNativeWithoutSystemD :: "string \<Rightarrow> string option" where
  "dockerNativeWithoutSystemD s =
     (if s \<noteq> [] \<and> isHex (last s) \<and> CHR 0x0A \<notin> set s then Some s else None)"

definition dockerGeneric :: "string \<Rightarrow> string option" where
  "dockerGeneric s = (if s \<noteq> [] \<and> list_all isHex s then Some s else None)"

definition extractContainerID :: "string \<Rightarrow> string" where
  "extractContainerID v =
     (let cid = afterLastSlash v in
      case dockerNativeWithSystemD cid of
        Some m \<Rightarrow> m
      | None \<Rightarrow> (case dockerNativeWithoutSystemD cid of
                  Some m \<Rightarrow> m
                | None \<Rightarrow> (case dockerGeneric cid of Some m \<Rightarrow> m | None \<Rightarrow> cid)))"

section \<open>Grouping\<close>

fun getLabel :: "labels \<Rightarrow> string list \<Rightarrow> string \<times> bool" where
  "getLabel ls [] = ([], False)"
| "getLabel ls (name # names) = (if Has ls name then (mget0 [] ls name, True) else getLabel ls names)"

definition createRawEntityID :: "metric \<Rightarrow> string result" where
  "createRawEntityID m =
     (case getLabel (Labels m) [''container_name'', ''container''] of (containerName, ok) \<Rightarrow>
        if \<not> ok then Fail (errorsNew ''container name not found in cAdvisor metrics'')
        else if containerName = [] then Ok []
        else (let namespace = label m ''namespace'' in
          if namespace = [] then Fail (errorsNew ''namespace not found in cAdvisor metrics'')
          else (let podName = fst (getLabel (Labels m) [''pod_name'', ''pod'']) in
            if podName = [] then Fail (errorsNew ''pod name not found in cAdvisor metrics'')
            else Ok (namespace @ ''_'' @ podName @ ''_'' @ containerName))))"

definition cadvisorMetric :: "string \<Rightarrow> rawentities \<times> err list \<Rightarrow> metric \<Rightarrow> rawentities \<times> err list" where
  "cadvisorMetric name ce m = (case ce of (containers, errs) \<Rightarrow>
     if fst (getLabel (Labels m) [''container_name'', ''container'']) = ''POD'' then (containers, errs)
     else (case createRawEntityID m of
       Fail e \<Rightarrow> (containers, errs @ [e])
     | Panic p \<Rightarrow> (containers, errs)
     | Ok rawEntityID \<Rightarrow>
         if rawEntityID = [] then (containers, errs)
         else (let cid = extractContainerID (label m ''id'') in
           if cid = [] then (containers, errs @ [errorsNew ''container id not found in cAdvisor metrics''])
           else (let metrics = (case mget containers rawEntityID of
                        Some ms \<Rightarrow> ms | None \<Rightarrow> [(''containerID'', VString cid)]);
                     containers = mput rawEntityID metrics containers
             in if name = ''container_memory_usage_bytes'' then
                  (if label m ''image'' = [] then (containers, errs @ [errorsNew ''container image not found in cAdvisor metrics''])
                   else (mput rawEntityID (mput ''containerImageID'' (VString (label m ''image'')) metrics) containers, errs))
                else (mput rawEntityID (mput name (of_pvalue (MValue m)) metrics) containers, errs)))))"

text \<open>
  The fetch returns the groups and, when some metrics were skipped, a recoverable error group with
  them; the first component is the error return.
\<close>

definition CadvisorFetchFunc ::
  "(query list \<Rightarrow> metricfamily list result) \<Rightarrow> query list \<Rightarrow> (rawgroups \<times> errorgroup option) result" where
  "CadvisorFetchFunc fetchAndFilterPrometheus queries =
     rbindw (\<lambda>e. Errorf ''error requesting cadvisor metrics endpoint: %w'' [] [e]) (fetchAndFilterPrometheus queries) (\<lambda>families.
       case foldl (\<lambda>ce f. foldl (cadvisorMetric (FName f)) ce (Metrics f)) ([], []) families of (containers, errs) \<Rightarrow>
         Ok ([(''container'', containers)],
             if length errs > 0 then Some \<lparr>Recoverable = True, Errors = errs\<rparr> else None))"

section \<open>Correctness\<close>

lemma rev_span: "list_all P h \<Longrightarrow> xs = [] \<or> \<not> P (hd xs) \<Longrightarrow> takeWhile P (h @ xs) = h"
proof (induction h)
  case Nil
  then show ?case by (cases xs) auto
qed auto

text \<open>
  The ID of a container run under systemd is recovered from the last component of its cgroup path:
  the hexadecimal part between the name of the runtime and \<open>.scope\<close>; a path that ends in a hexadecimal
  ID gives that ID.
\<close>

lemma extractContainerID_paths:
  assumes "hex \<noteq> []" "list_all isHex hex" "runtime \<noteq> []" "list_all isWord runtime" "CHR 0x0A \<notin> set hex"
  shows "extractContainerID (dir @ ''/'' @ runtime @ ''-'' @ hex @ ''.scope'') = hex
    \<and> extractContainerID (dir @ ''/'' @ hex) = hex"
proof
  have no: "\<not> isHex (CHR ''/'')" "\<not> isWord (CHR ''/'')" "\<not> isWord (CHR 0x0A)"
    by (simp_all add: isHex_def isWord_def isDigit_def isLower_def isUpper_def)
  have ns: "CHR ''/'' \<notin> set hex" "CHR ''/'' \<notin> set runtime" and nl: "CHR 0x0A \<notin> set runtime"
    using assms(2,4) no unfolding list_all_iff by blast+
  have tail: "afterLastSlash (dir @ ''/'' @ x) = x" if "CHR ''/'' \<notin> set x" for x
  proof -
    have "takeWhile (\<lambda>c. c \<noteq> CHR ''/'') (rev x @ CHR ''/'' # rev dir) = rev x"
      using that by (subst takeWhile_append2) auto
    then show ?thesis by (simp add: afterLastSlash_def)
  qed
  obtain w ws where r: "rev runtime = w # ws" using assms(3) by (cases "rev runtime") auto
  have w: "isWord w" "set ws \<subseteq> set runtime" using r assms(4) set_rev[of runtime] unfolding list_all_iff by auto
  let ?s = "runtime @ ''-'' @ hex @ ''.scope''"
  have t: "rev (TrimSuffix ?s ''.scope'') = rev hex @ CHR ''-'' # w # ws"
    using r by (simp add: TrimSuffix_def suffix_def)
  have h: "takeWhile isHex (rev hex @ CHR ''-'' # w # ws) = rev hex"
    using assms(2) by (intro rev_span) (simp_all add: isHex_def isDigit_def)
  have "dockerNativeWithSystemD ?s = Some hex"
    unfolding dockerNativeWithSystemD_def Let_def t h using assms(1) w nl by (auto simp: suffix_def)
  moreover have "afterLastSlash (dir @ ''/'' @ ?s) = ?s" using ns by (intro tail) auto
  ultimately show "extractContainerID (dir @ ''/'' @ runtime @ ''-'' @ hex @ ''.scope'') = hex"
    by (simp add: extractContainerID_def Let_def)
  have e: "afterLastSlash (dir @ ''/'' @ hex) = hex" using ns by (intro tail)
  have "isHex (last hex)" using assms(1,2) by (simp add: list_all_iff)
  moreover have "\<not> suffix ''.scope'' hex"
    using assms(2) by (auto simp: suffix_def list_all_iff isHex_def isDigit_def)
  ultimately show "extractContainerID (dir @ ''/'' @ hex) = hex"
    unfolding extractContainerID_def e Let_def using assms(1,5)
    by (simp add: dockerNativeWithSystemD_def dockerNativeWithoutSystemD_def)
qed

theorem extractContainerID_paths_witness:
  "extractContainerID (''/kubepods.slice'' @ ''/'' @ ''crio'' @ ''-'' @ ''ebcc0d6'' @ ''.scope'') = ''ebcc0d6''
   \<and> extractContainerID (''/kubepods.slice'' @ ''/'' @ ''ebcc0d6'') = ''ebcc0d6''"
  by (rule extractContainerID_paths) (simp_all add: isHex_def isDigit_def isWord_def isLower_def)

text \<open>
  What is expected of a sample, a metric with the name of its family: the container it belongs to, the error it adds, and
  the value it stores. A sample without a container, of the pause container or without an identifier belongs to none.
\<close>

definition containerLabel :: "metric \<Rightarrow> string" where
  "containerLabel m = fst (getLabel (Labels m) [''container_name'', ''container''])"

definition podLabel :: "metric \<Rightarrow> string" where
  "podLabel m = fst (getLabel (Labels m) [''pod_name'', ''pod''])"

definition attributed :: "metric \<Rightarrow> string option" where
  "attributed m =
     (if containerLabel m \<in> {[], ''POD''} \<or> label m ''namespace'' = [] \<or> podLabel m = [] \<or> extractContainerID (label m ''id'') = [] then None
      else Some (label m ''namespace'' @ ''_'' @ podLabel m @ ''_'' @ containerLabel m))"

definition sampleError :: "string \<times> metric \<Rightarrow> err option" where
  "sampleError nm = (case nm of (name, m) \<Rightarrow>
     if containerLabel m = ''POD'' then None
     else if \<not> Has (Labels m) ''container_name'' \<and> \<not> Has (Labels m) ''container'' then Some (errorsNew ''container name not found in cAdvisor metrics'')
     else if containerLabel m = [] then None
     else if label m ''namespace'' = [] then Some (errorsNew ''namespace not found in cAdvisor metrics'')
     else if podLabel m = [] then Some (errorsNew ''pod name not found in cAdvisor metrics'')
     else if extractContainerID (label m ''id'') = [] then Some (errorsNew ''container id not found in cAdvisor metrics'')
     else if name = ''container_memory_usage_bytes'' \<and> label m ''image'' = [] then Some (errorsNew ''container image not found in cAdvisor metrics'')
     else None)"

definition sampleStored :: "string \<times> metric \<Rightarrow> (string \<times> goval) option" where
  "sampleStored nm = (case nm of (name, m) \<Rightarrow>
     if name \<noteq> ''container_memory_usage_bytes'' then Some (name, of_pvalue (MValue m))
     else if label m ''image'' \<noteq> [] then Some (''containerImageID'', VString (label m ''image'')) else None)"

definition cadvisorSamples :: "metricfamily list \<Rightarrow> (string \<times> metric) list" where
  "cadvisorSamples fs = concat (map (\<lambda>f. map (\<lambda>m. (FName f, m)) (Metrics f)) fs)"

definition samplesOf :: "string \<Rightarrow> (string \<times> metric) list \<Rightarrow> (string \<times> metric) list" where
  "samplesOf i ss = filter (\<lambda>(n, m). attributed m = Some i) ss"

text \<open>What is stored for a container, in order: the identifier of its first sample, then the value of each sample.\<close>

definition containerWrites :: "(string \<times> metric) list \<Rightarrow> (string \<times> goval) list" where
  "containerWrites ss =
     (case ss of [] \<Rightarrow> []
      | (_, m) # _ \<Rightarrow> (''containerID'', VString (extractContainerID (label m ''id''))) # List.map_filter sampleStored ss)"

lemma containerWrites_snoc:
  "containerWrites (ss @ [s]) =
     (if ss = [] then [(''containerID'', VString (extractContainerID (label (snd s) ''id'')))] else containerWrites ss) @
     (case sampleStored s of None \<Rightarrow> [] | Some w \<Rightarrow> [w])"
  by (cases ss) (auto simp: containerWrites_def List.map_filter_def split: option.split prod.split)

lemma cadvisorMetric_eq:
  "cadvisorMetric name (cs, es) m =
     (case attributed m of
        None \<Rightarrow> cs
      | Some i \<Rightarrow>
          (let ms = (case mget cs i of Some ms \<Rightarrow> ms | None \<Rightarrow> [(''containerID'', VString (extractContainerID (label m ''id'')))])
           in mput i (case sampleStored (name, m) of None \<Rightarrow> ms | Some (k, v) \<Rightarrow> mput k v ms) cs),
      es @ (case sampleError (name, m) of None \<Rightarrow> [] | Some e \<Rightarrow> [e]))"
proof (cases "containerLabel m = ''POD''")
  case True
  then show ?thesis by (simp add: cadvisorMetric_def attributed_def sampleError_def containerLabel_def)
next
  case False
  then show ?thesis
    by (auto simp: cadvisorMetric_def createRawEntityID_def attributed_def sampleError_def sampleStored_def containerLabel_def podLabel_def Let_def
        split: option.split)
qed

definition cadInv :: "(string \<times> metric) list \<Rightarrow> rawentities \<times> err list \<Rightarrow> bool" where
  "cadInv ss ce \<longleftrightarrow> snd ce = List.map_filter sampleError ss \<and>
     (\<forall>i. case mget (fst ce) i of None \<Rightarrow> samplesOf i ss = []
       | Some r \<Rightarrow> samplesOf i ss \<noteq> [] \<and> (\<forall>k. mget r k = map_of (rev (containerWrites (samplesOf i ss))) k))"

lemma map_filter_snoc: "List.map_filter f (xs @ [x]) = List.map_filter f xs @ (case f x of None \<Rightarrow> [] | Some y \<Rightarrow> [y])"
  by (auto simp: List.map_filter_def split: option.split)

lemma cadInv_step:
  assumes "cadInv ss (cs, es)"
  shows "cadInv (ss @ [(name, m)]) (cadvisorMetric name (cs, es) m)"
proof -
  let ?ce = "cadvisorMetric name (cs, es) m" and ?ss = "ss @ [(name, m)]"
  have es: "es = List.map_filter sampleError ss" and ent: "case mget cs i of None \<Rightarrow> samplesOf i ss = []
       | Some r \<Rightarrow> samplesOf i ss \<noteq> [] \<and> (\<forall>k. mget r k = map_of (rev (containerWrites (samplesOf i ss))) k)" for i
    using assms by (simp_all add: cadInv_def)
  have "case mget (fst ?ce) i of None \<Rightarrow> samplesOf i ?ss = []
       | Some r \<Rightarrow> samplesOf i ?ss \<noteq> [] \<and> (\<forall>k. mget r k = map_of (rev (containerWrites (samplesOf i ?ss))) k)" for i
  proof (cases "attributed m = Some i")
    case False
    then have same: "samplesOf i ?ss = samplesOf i ss" "mget (fst ?ce) i = mget cs i"
      by (auto simp: samplesOf_def cadvisorMetric_eq Let_def split: option.split)
    show ?thesis unfolding same by (rule ent)
  next
    case True
    define ms where "ms = (case mget cs i of Some ms \<Rightarrow> ms | None \<Rightarrow> [(''containerID'', VString (extractContainerID (label m ''id'')))])"
    have "mget ms k = map_of (rev (if samplesOf i ss = [] then [(''containerID'', VString (extractContainerID (label m ''id'')))]
        else containerWrites (samplesOf i ss))) k" for k
      using ent[of i] by (auto simp: ms_def split: option.splits)
    then have "mget (case sampleStored (name, m) of None \<Rightarrow> ms | Some (k, v) \<Rightarrow> mput k v ms) k
        = map_of (rev (containerWrites (samplesOf i ss @ [(name, m)]))) k" for k
      by (auto simp: containerWrites_snoc split: option.split)
    moreover have "samplesOf i ?ss = samplesOf i ss @ [(name, m)]" using True by (simp add: samplesOf_def)
    moreover have "mget (fst ?ce) i = Some (case sampleStored (name, m) of None \<Rightarrow> ms | Some (k, v) \<Rightarrow> mput k v ms)"
      using True by (simp add: cadvisorMetric_eq ms_def[symmetric] Let_def)
    ultimately show ?thesis by simp
  qed
  then show ?thesis by (simp add: cadInv_def) (simp add: cadvisorMetric_eq es map_filter_snoc)
qed

lemma cadvisor_folds: "foldl (\<lambda>ce f. foldl (cadvisorMetric (FName f)) ce (Metrics f)) ce fs = foldl (\<lambda>ce (n, m). cadvisorMetric n ce m) ce (cadvisorSamples fs)"
proof -
  have "foldl (cadvisorMetric n) ce ms = foldl (\<lambda>ce (n, m). cadvisorMetric n ce m) ce (map (\<lambda>m. (n, m)) ms)" for n ce ms
    by (induction ms arbitrary: ce) simp_all
  then show ?thesis by (induction fs arbitrary: ce) (simp_all add: cadvisorSamples_def)
qed

lemma cadInv_fold: "cadInv ss (foldl (\<lambda>ce (n, m). cadvisorMetric n ce m) ([], []) ss)"
proof (induction ss rule: rev_induct)
  case (snoc s ss)
  obtain cs es where f: "foldl (\<lambda>ce (n, m). cadvisorMetric n ce m) ([], []) ss = (cs, es)" by force
  obtain n m where s: "s = (n, m)" by force
  show ?case using cadInv_step[of ss cs es n m] snoc by (simp add: s f)
qed (simp add: cadInv_def samplesOf_def List.map_filter_def)

text \<open>
  C31: The cAdvisor fetch fails only when the endpoint cannot be read. Otherwise its entries are exactly the containers that
  some sample belongs to, keyed by a namespace, a pod and a container, none of them empty. Each has the identifier of its first
  sample, the image of the memory samples that name one, and the value of every other sample under the name of its family, the
  last one when there are several. Each sample that cannot be attributed, and each memory sample without an image, is reported,
  in order, in a recoverable group of errors, which is absent when there are none; those of the pause container and of
  no container are skipped.
\<close>

theorem CadvisorFetch_containers:
  "case fetch qs of
     Ok fs \<Rightarrow>
       (\<exists>cs. CadvisorFetchFunc fetch qs =
           Ok ([(''container'', cs)], let es = List.map_filter sampleError (cadvisorSamples fs) in if es = [] then None else Some \<lparr>Recoverable = True, Errors = es\<rparr>) \<and>
         (\<forall>i. case mget cs i of
            None \<Rightarrow> samplesOf i (cadvisorSamples fs) = []
          | Some r \<Rightarrow> (\<exists>ns p c. i = ns @ ''_'' @ p @ ''_'' @ c \<and> ns \<noteq> [] \<and> p \<noteq> [] \<and> c \<noteq> []) \<and> samplesOf i (cadvisorSamples fs) \<noteq> [] \<and>
              (\<forall>k. mget r k = map_of (rev (containerWrites (samplesOf i (cadvisorSamples fs)))) k)))
   | Fail e \<Rightarrow> CadvisorFetchFunc fetch qs = Fail (Errorf ''error requesting cadvisor metrics endpoint: %w'' [] [e])
   | Panic p \<Rightarrow> CadvisorFetchFunc fetch qs = Panic p"
proof (cases "fetch qs")
  case (Ok fs)
  obtain cs es where F: "foldl (\<lambda>ce f. foldl (cadvisorMetric (FName f)) ce (Metrics f)) ([], []) fs = (cs, es)" by force
  have inv: "cadInv (cadvisorSamples fs) (cs, es)" using cadInv_fold[of "cadvisorSamples fs"] F by (simp add: cadvisor_folds)
  have shape: "\<exists>ns p c. i = ns @ ''_'' @ p @ ''_'' @ c \<and> ns \<noteq> [] \<and> p \<noteq> [] \<and> c \<noteq> []" if ne: "samplesOf i ss \<noteq> []" for i ss
  proof -
    from ne obtain n m where "attributed m = Some i" by (auto simp: samplesOf_def filter_empty_conv)
    then have "i = label m ''namespace'' @ ''_'' @ podLabel m @ ''_'' @ containerLabel m" "label m ''namespace'' \<noteq> []" "podLabel m \<noteq> []" "containerLabel m \<noteq> []"
      by (auto simp: attributed_def split: if_splits)
    then show ?thesis by blast
  qed
  have "CadvisorFetchFunc fetch qs = Ok ([(''container'', cs)], let es = List.map_filter sampleError (cadvisorSamples fs) in
      if es = [] then None else Some \<lparr>Recoverable = True, Errors = es\<rparr>)"
    using inv by (simp add: CadvisorFetchFunc_def Ok F cadInv_def Let_def)
  moreover have "case mget cs i of
      None \<Rightarrow> samplesOf i (cadvisorSamples fs) = []
    | Some r \<Rightarrow> (\<exists>ns p c. i = ns @ ''_'' @ p @ ''_'' @ c \<and> ns \<noteq> [] \<and> p \<noteq> [] \<and> c \<noteq> []) \<and> samplesOf i (cadvisorSamples fs) \<noteq> [] \<and>
        (\<forall>k. mget r k = map_of (rev (containerWrites (samplesOf i (cadvisorSamples fs)))) k)" for i
    using inv[unfolded cadInv_def, THEN conjunct2, rule_format, of i] shape[of i "cadvisorSamples fs"] by (auto split: option.splits)
  ultimately show ?thesis using Ok by auto
qed (simp_all add: CadvisorFetchFunc_def)

definition exampleFamily :: metricfamily where
  "exampleFamily = \<lparr>FName = ''container_memory_usage_bytes'', FType = ''GAUGE'', Metrics =
     [\<lparr>Labels = [(''container'', ''c''), (''namespace'', ''n''), (''pod'', ''p''), (''id'', ''/x/abc''), (''image'', ''i'')],
       MValue = GaugeValue (Fin 1)\<rparr>]\<rparr>"

lemma example_cadvisor:
  "CadvisorFetchFunc (\<lambda>_. Ok [exampleFamily]) [] =
     Ok ([(''container'', [(''n_p_c'', [(''containerID'', VString ''abc''), (''containerImageID'', VString ''i'')])])], None)"
  by code_simp

end
