(* ===== verification/Groupers.thy ===== *)
theory Groupers
  imports Kubelet_Cadvisor
begin

text \<open>
  The groupers of the three kinds of scrape: \<open>src/kubelet/grouper/group.go\<close>,
  \<open>src/ksm/grouper/group.go\<close> with the deployment lookups of \<open>src/ksm/metric/metric.go\<close>, and
  \<open>src/controlplane/grouper/group.go\<close>, together with the contract of the interface \<open>data.Grouper\<close>
  that the scrape job relies on. The API-server listers and the clients are parameters.
\<close>

section \<open>The interface \<open>data.Grouper\<close>\<close>

type_synonym groupresult = "(rawgroups \<times> errorgroup option) result"

text \<open>
  A grouper returns groups and possibly an error group. The scrape job stops on an error group that is
  not recoverable; the contract is that nothing is returned with it and that an error group is never
  empty.
\<close>

locale grouper_contract =
  fixes Group :: "'c specgroups \<Rightarrow> groupresult"
  assumes nonrecoverable_empty: "Group specs = Ok (groups, Some e) \<Longrightarrow> \<not> Recoverable e \<Longrightarrow> groups = []"
    and errors_nonempty: "Group specs = Ok (groups, Some e) \<Longrightarrow> Errors e \<noteq> []"
    and no_fail: "Group specs \<noteq> Fail er"
begin

lemma group_cases:
  obtains (panic) p where "Group specs = Panic p"
  | (clean) groups where "Group specs = Ok (groups, None)"
  | (recoverable) groups e where "Group specs = Ok (groups, Some e)" "Recoverable e" "Errors e \<noteq> []"
  | (fatal) e where "Group specs = Ok ([], Some e)" "\<not> Recoverable e" "Errors e \<noteq> []"
proof (cases "Group specs")
  case (Ok x)
  obtain g eo where x: "x = (g, eo)" by force
  show ?thesis
  proof (cases eo)
    case None
    then show ?thesis using clean Ok x by blast
  next
    case (Some e)
    then have "Group specs = Ok (g, Some e)" using Ok x by simp
    then show ?thesis
      using recoverable[of g e] fatal[of e] errors_nonempty[of specs g e] nonrecoverable_empty[of specs g e] by blast
  qed
qed (use no_fail panic in blast)+

end

section \<open>Merging of groups\<close>

text \<open>
  The maps are shared between the groups, and merging adds to them in place; a later merge only reads
  the destination, so values are enough.
\<close>

definition mergeEntity :: "rawmetrics \<Rightarrow> rawmetrics \<Rightarrow> rawmetrics" where
  "mergeEntity e new = foldl (\<lambda>e (k, v). if mhas e k then e else mput k v e) e new"

definition mergeGroup :: "rawentities \<Rightarrow> rawentities \<Rightarrow> rawentities" where
  "mergeGroup dest g =
     map (\<lambda>(entityID, e). (entityID, case mget g entityID of None \<Rightarrow> e | Some new \<Rightarrow> mergeEntity e new)) dest"

definition fillGroupsAndMergeNonExistent :: "rawgroups \<Rightarrow> rawgroups \<Rightarrow> rawgroups" where
  "fillGroupsAndMergeNonExistent destination src =
     foldl (\<lambda>d (l, g). case mget d l of
              None \<Rightarrow> mput l g d
            | Some dest \<Rightarrow> mput l (mergeGroup dest g) d) destination src"

section \<open>The kubelet grouper\<close>

text \<open>\<open>v1.Node\<close>, the fields that are read; a condition is its type and its status.\<close>

record k8snode =
  NodeLabels :: "(string, string) gomap"
  Allocatable :: "(string, quantity) gomap"
  Capacity :: "(string, quantity) gomap"
  NodeConditions :: "(string \<times> string) list"
  Unschedulable :: bool
  KubeletVersion :: string

record kubeletconfig =
  NodeGetter :: "string \<Rightarrow> k8snode result"
  SummaryDecode :: "body \<Rightarrow> statssummary result"
  HTTPGet :: "string \<Rightarrow> httpresponse result"
  Fetchers :: "groupresult list"
  DefaultNetworkInterface :: string

definition errGroupOf :: "err list \<Rightarrow> bool \<Rightarrow> errorgroup option" where
  "errGroupOf errs rec = Some \<lparr>Recoverable = rec, Errors = errs\<rparr>"

definition countRunningPods :: "rawgroups \<Rightarrow> nat" where
  "countRunningPods rawGroups =
     length (filter (\<lambda>(i, r). mget r ''status'' = Some (VString ''Running'')) (mget0 [] rawGroups ''pod''))"

definition asInt64 :: "goval \<Rightarrow> 64 word result" where
  "asInt64 v = (case v of VInt64 w \<Rightarrow> Ok w | _ \<Rightarrow> typePanic v ''int64'')"

definition addRequested :: "string \<Rightarrow> 64 word \<Rightarrow> rawmetrics \<Rightarrow> 64 word result" where
  "addRequested key acc container =
     (case mget container key of None \<Rightarrow> Ok acc | Some v \<Rightarrow> rbind (asInt64 v) (\<lambda>w. Ok (acc + w)))"

text \<open>The requested memory and CPU of all containers, as 64-bit sums.\<close>

definition requestedSums :: "rawgroups \<Rightarrow> (64 word \<times> 64 word) result" where
  "requestedSums rawGroups =
     rfoldl (\<lambda>(mem, cpu) (i, container).
       rbind (addRequested ''memoryRequestedBytes'' mem container) (\<lambda>mem.
       rbind (addRequested ''cpuRequestedCores'' cpu container) (\<lambda>cpu. Ok (mem, cpu))))
       (0, 0) (mget0 [] rawGroups ''container'')"

text \<open>The sums either succeed or panic on a value that is not an \<open>int64\<close>; they have no error return.\<close>

lemma addRequested_no_fail: "addRequested key acc c \<noteq> Fail e"
  by (auto simp: addRequested_def asInt64_def typePanic_def split: option.splits goval.splits)

lemma rfoldl_no_fail: "(\<And>s x e. f s x \<noteq> Fail e) \<Longrightarrow> rfoldl f s xs \<noteq> Fail e"
proof (induction xs arbitrary: s)
  case (Cons x xs)
  then show ?case by (cases "f s x") auto
qed simp

lemma requestedSums_no_fail: "requestedSums rawGroups \<noteq> Fail e"
  unfolding requestedSums_def
  by (rule rfoldl_no_fail) (auto simp: rbind_Fail_iff addRequested_no_fail split: prod.splits)

definition addNodeCondition :: "(string, 64 word) gomap \<Rightarrow> string \<times> string \<Rightarrow> (string, 64 word) gomap" where
  "addNodeCondition nodeConditions cond = (case cond of (ctype, status) \<Rightarrow>
     case (if status = ''True'' then Some 1 else if status = ''False'' then Some 0
           else if status = ''Unknown'' then Some (- 1) else None) of
       None \<Rightarrow> nodeConditions
     | Some conditionValue \<Rightarrow>
         (case mget nodeConditions ctype of
            Some oldValue \<Rightarrow> mput ctype (if oldValue \<noteq> conditionValue then - 1 else conditionValue) nodeConditions
          | None \<Rightarrow> mput ctype conditionValue nodeConditions))"

definition nodeConditionMap :: "(string \<times> string) list \<Rightarrow> (string, 64 word) gomap" where
  "nodeConditionMap conds = foldl addNodeCondition [] conds"

fun runFetchers :: "groupresult list \<Rightarrow> rawgroups \<Rightarrow> rawgroups result" where
  "runFetchers [] rawGroups = Ok rawGroups"
| "runFetchers (f # fs) rawGroups =
     rbind f (\<lambda>(g, eg). runFetchers fs (fillGroupsAndMergeNonExistent rawGroups g))"

definition nodeGroup :: "string \<Rightarrow> k8snode \<Rightarrow> 64 word \<Rightarrow> 64 word \<Rightarrow> nat \<Rightarrow> rawgroups" where
  "nodeGroup nodeName node mem cpu running =
     [(''node'', [(nodeName,
        [(''labels'', VStrMap (NodeLabels node)), (''allocatable'', VResources (Allocatable node)),
         (''capacity'', VResources (Capacity node)), (''memoryRequestedBytes'', VInt64 mem),
         (''cpuRequestedCores'', VInt64 cpu), (''conditions'', VIntMap (nodeConditionMap (NodeConditions node))),
         (''unschedulable'', VBool (Unschedulable node)), (''kubeletVersion'', VString (KubeletVersion node)),
         (''runningPods'', VInt (of_nat running))])])]"

text \<open>
  \<open>Group\<close> of the kubelet grouper. A fetcher that fails with an error group still contributes; any other
  failure stops the grouping.
\<close>

definition kubeletGroup :: "kubeletconfig \<Rightarrow> 'c specgroups \<Rightarrow> groupresult" where
  "kubeletGroup cfg specs =
     (case runFetchers (Fetchers cfg) [(''network'', [(''interfaces'', [(''default'', VString (DefaultNetworkInterface cfg))])])] of
        Panic p \<Rightarrow> Panic p
      | Fail e \<Rightarrow> Ok ([], errGroupOf [Errorf ''error querying Kubelet. %s'' [errMsg e] []] False)
      | Ok rawGroups \<Rightarrow>
          (case GetMetricsData (SummaryDecode cfg) (HTTPGet cfg) of
             Panic p \<Rightarrow> Panic p
           | Fail e \<Rightarrow> Ok ([], errGroupOf [Errorf ''error querying Kubelet. %s'' [errMsg e] []] False)
           | Ok response \<Rightarrow>
               (case GroupStatsSummary (Some response) of (resources, errs) \<Rightarrow>
                  if length errs > 0 then Ok ([], errGroupOf errs True)
                  else
                    let rawGroups = fillGroupsAndMergeNonExistent rawGroups resources in
                    (case NodeGetter cfg (NodeName (SNode response)) of
                       Panic p \<Rightarrow> Panic p
                     | Fail e \<Rightarrow> Ok ([], errGroupOf [Errorf ''error querying ApiServer: %v'' [errMsg e] []] False)
                     | Ok node \<Rightarrow>
                         rbind (requestedSums rawGroups) (\<lambda>(mem, cpu).
                           Ok (fillGroupsAndMergeNonExistent rawGroups
                                 (nodeGroup (NodeName (SNode response)) node mem cpu (countRunningPods rawGroups)), None))))))"

interpretation kubelet: grouper_contract "kubeletGroup cfg :: 'c specgroups \<Rightarrow> groupresult"
  for cfg :: kubeletconfig
  by unfold_locales
     (auto simp: kubeletGroup_def errGroupOf_def rbind_Ok_iff requestedSums_no_fail Let_def
       split: result.splits prod.splits if_splits elim!: rbind.elims)

section \<open>The KSM grouper\<close>

record service =
  SvcNamespace :: string
  SvcName :: string
  Selector :: "(string, string) gomap"

record ksmconfig =
  Queries :: "query list"
  MetricFamiliesGetter :: "query list \<Rightarrow> metricfamily list result"
  ServicesLister :: "service list result"
  EnableResourceQuotaSamples :: bool

definition selectorMetric :: "service \<Rightarrow> metric" where
  "selectorMetric s =
     \<lparr>Labels = foldl (\<lambda>ls (k, v). mput (''selector_'' @ k) v ls) [] (Selector s), MValue = NilValue\<rparr>"

definition addServiceSpecSelectorToGroup :: "service list \<Rightarrow> rawentities \<Rightarrow> rawentities" where
  "addServiceSpecSelectorToGroup services serviceGroup =
     foldl (\<lambda>sg s. case mget sg (SvcNamespace s @ ''_'' @ SvcName s) of
              None \<Rightarrow> sg
            | Some r \<Rightarrow> mput (SvcNamespace s @ ''_'' @ SvcName s)
                          (mput ''apiserver_kube_service_spec_selectors'' (VMetric (selectorMetric s)) r) sg)
       serviceGroup services"

definition ksmGroup :: "ksmconfig \<Rightarrow> 'c specgroups \<Rightarrow> groupresult" where
  "ksmGroup cfg specGroups =
     (case MetricFamiliesGetter cfg (Queries cfg) of
        Panic p \<Rightarrow> Panic p
      | Fail e \<Rightarrow> Ok ([], errGroupOf [Errorf ''querying KSM: %w'' [] [e]] False)
      | Ok mFamily \<Rightarrow>
          (case GroupMetricsBySpec specGroups mFamily of
             Panic p \<Rightarrow> Panic p
           | Fail e \<Rightarrow> Panic []
           | Ok (groups, errs) \<Rightarrow>
               rbind (case mget groups ''service'' of
                     None \<Rightarrow> Ok (groups, errs)
                   | Some sg \<Rightarrow> (case ServicesLister cfg of
                       Panic p \<Rightarrow> Panic p
                     | Fail e \<Rightarrow> Ok (groups, errs @ [Errorf ''adding service spec selector to group: %w'' [] [Errorf ''listing services: %w'' [] [e]]])
                     | Ok services \<Rightarrow> Ok (mput ''service'' (addServiceSpecSelectorToGroup services sg) groups, errs)))
                 (\<lambda>(groups, errs).
                   Ok (if \<not> EnableResourceQuotaSamples cfg then mdel ''resourcequota'' groups else groups,
                       if length errs > 0 then errGroupOf errs True else None))))"

interpretation ksm: grouper_contract "ksmGroup cfg :: 'c specgroups \<Rightarrow> groupresult"
  for cfg :: ksmconfig
  by unfold_locales
     (auto simp: ksmGroup_def errGroupOf_def split: result.splits prod.splits if_splits option.splits)

text \<open>\<open>src/ksm/metric/metric.go\<close>\<close>

definition GetDeploymentNameForReplicaSet :: fetchfunc where
  "GetDeploymentNameForReplicaSet groupLabel entityID groups =
     rbindw (\<lambda>e. Errorf ''failed to fetch owner_kind of ReplicaSet: %w'' [] [e])
       (FromLabelValue ''kube_replicaset_owner'' ''owner_kind'' groupLabel entityID groups) (\<lambda>kindVal.
       case kindVal of
         VString ownerKind \<Rightarrow>
           if ownerKind \<noteq> ''Deployment'' then Fail (errorsNew ''owner_kind of ReplicaSet is not Deployment'')
           else
             rbindw (\<lambda>e. Errorf ''failed to fetch owner_name of ReplicaSet: %w'' [] [e])
               (FromLabelValue ''kube_replicaset_owner'' ''owner_name'' groupLabel entityID groups) (\<lambda>nameVal.
               case nameVal of
                 VString ownerName \<Rightarrow>
                   if ownerName = [] then Fail (errorsNew ''owner_name of ReplicaSet is empty'') else Ok (VString ownerName)
               | _ \<Rightarrow> Fail (errorsNew ''failed to convert owner_name of ReplicaSet to string''))
       | _ \<Rightarrow> Fail (errorsNew ''failed to convert owner_kind of ReplicaSet to string''))"

definition asString :: "goval \<Rightarrow> string result" where
  "asString v = (case v of VString s \<Rightarrow> Ok s | _ \<Rightarrow> typePanic v ''string'')"

definition GetDeploymentNameForPod :: fetchfunc where
  "GetDeploymentNameForPod groupLabel entityID groups =
     rbind (FromLabelValue ''kube_pod_info'' ''created_by_kind'' groupLabel entityID groups) (\<lambda>kindVal.
     rbind (asString kindVal) (\<lambda>creatorKind.
       if creatorKind = [] then Fail (errorsNew ''error generating deployment name for pod. created_by_kind field is empty'')
       else
         rbind (FromLabelValue ''kube_pod_info'' ''created_by_name'' groupLabel entityID groups) (\<lambda>nameVal.
         rbind (asString nameVal) (\<lambda>creatorName.
           if creatorName = [] then Fail (errorsNew ''error generating deployment name for pod. created_by_name field is empty'')
           else Ok (VString (deploymentNameBasedOnCreator creatorKind creatorName))))))"

section \<open>The control plane grouper\<close>

record controlplaneconfig =
  CPQueries :: "query list"
  CPClient :: "query list \<Rightarrow> metricfamily list result"
  CPEntityID :: string

definition controlplaneGroup :: "controlplaneconfig \<Rightarrow> 'c specgroups \<Rightarrow> groupresult" where
  "controlplaneGroup cfg specGroups =
     (case CPClient cfg (CPQueries cfg) of
        Panic p \<Rightarrow> Panic p
      | Fail e \<Rightarrow> Ok ([], errGroupOf [Errorf ''error querying controlplane component %s: %s'' [CPEntityID cfg, errMsg e] []] False)
      | Ok mFamily \<Rightarrow>
          (case GroupEntityMetricsBySpec specGroups mFamily (CPEntityID cfg) of
             Panic p \<Rightarrow> Panic p
           | Fail e \<Rightarrow> Panic []
           | Ok (groups, errs) \<Rightarrow> Ok (groups, if length errs > 0 then errGroupOf errs True else None)))"

interpretation controlplane: grouper_contract "controlplaneGroup cfg :: 'c specgroups \<Rightarrow> groupresult"
  for cfg :: controlplaneconfig
  by unfold_locales
     (auto simp: controlplaneGroup_def errGroupOf_def split: result.splits prod.splits if_splits)

section \<open>Correctness of the merge\<close>

lemma mget_mergeEntity: "mget (mergeEntity e new) k = (case mget e k of Some v \<Rightarrow> Some v | None \<Rightarrow> mget new k)"
  unfolding mergeEntity_def
proof (induction new arbitrary: e)
  case (Cons x new)
  then show ?case by (cases x) (auto simp: mhas_def split: option.splits)
qed (simp split: option.split)

lemma map_of_map_snd': "map_of (map (\<lambda>(k, v). (k, f k v)) xs) i = map_option (f i) (map_of xs i)"
  by (induction xs) auto

lemma mget_mergeGroup:
  "mget (mergeGroup dest g) eid =
     map_option (\<lambda>e. case mget g eid of None \<Rightarrow> e | Some new \<Rightarrow> mergeEntity e new) (mget dest eid)"
  by (simp add: mergeGroup_def map_of_map_snd')

definition mergeStep :: "rawgroups \<Rightarrow> string \<times> rawentities \<Rightarrow> rawgroups" where
  "mergeStep d lg = (case lg of (l, g) \<Rightarrow> case mget d l of None \<Rightarrow> mput l g d | Some dest \<Rightarrow> mput l (mergeGroup dest g) d)"

lemma merge_fold: "fillGroupsAndMergeNonExistent d src = foldl mergeStep d src"
  unfolding fillGroupsAndMergeNonExistent_def mergeStep_def ..

lemma mget_mergeStep_other: "l \<noteq> fst lg \<Longrightarrow> mget (mergeStep d lg) l = mget d l"
  by (auto simp: mergeStep_def split: prod.splits option.splits)

lemma mget_merge:
  "wfmap src \<Longrightarrow> mget (fillGroupsAndMergeNonExistent d src) l =
     (case mget src l of None \<Rightarrow> mget d l
      | Some g \<Rightarrow> (case mget d l of None \<Rightarrow> Some g | Some dest \<Rightarrow> Some (mergeGroup dest g)))"
proof (induction src arbitrary: d)
  case (Cons lg src)
  obtain l' g where lg: "lg = (l', g)" by force
  have IH: "mget (fillGroupsAndMergeNonExistent (mergeStep d lg) src) l =
     (case mget src l of None \<Rightarrow> mget (mergeStep d lg) l
      | Some g \<Rightarrow> (case mget (mergeStep d lg) l of None \<Rightarrow> Some g | Some dest \<Rightarrow> Some (mergeGroup dest g)))"
    using Cons.prems lg by (intro Cons.IH) (simp add: wfmap_Cons)
  show ?case
  proof (cases "l = l'")
    case True
    then have "mget src l = None" using Cons.prems lg by (simp add: wfmap_Cons)
    then show ?thesis using IH[unfolded lg] True unfolding lg by (simp add: merge_fold mergeStep_def split: option.split)
  next
    case False
    then show ?thesis using IH[unfolded lg] mget_mergeStep_other[of l "(l', g)" d] unfolding lg by (simp add: merge_fold split: option.split)
  qed
qed (simp add: merge_fold)

text \<open>
  C15: Merging fills the gaps of a group and nothing else: an entity of the destination keeps each of its
  metrics and gains those it lacks from the same entity of the source; entities that are only in the
  source are dropped; and a group missing in the destination is taken over whole.
\<close>

theorem merge_fills_gaps:
  assumes "wfmap src"
  shows "rawMetric (fillGroupsAndMergeNonExistent d src) l eid k =
    (case mget d l of
       None \<Rightarrow> rawMetric src l eid k
     | Some dest \<Rightarrow>
         if mhas dest eid then (case rawMetric d l eid k of Some v \<Rightarrow> Some v | None \<Rightarrow> rawMetric src l eid k)
         else None)"
  by (auto simp: rawMetric_def mget_merge[OF assms] mget_mergeGroup mget_mergeEntity mhas_def split: option.splits)

theorem merge_fills_gaps_witness:
  "rawMetric (fillGroupsAndMergeNonExistent [(''pod'', [(''a'', [(''x'', VInt 1)])])]
      [(''pod'', [(''a'', [(''x'', VInt 2), (''y'', VInt 3)]), (''b'', [(''x'', VInt 4)])])]) ''pod'' ''a'' ''y'' = Some (VInt 3)"
  by (subst merge_fills_gaps) (simp_all add: wfmap_def rawMetric_def mhas_def)

section \<open>Correctness of the node attributes\<close>

definition conditionValue :: "string \<Rightarrow> 64 word option" where
  "conditionValue status = (if status = ''True'' then Some 1 else if status = ''False'' then Some 0
     else if status = ''Unknown'' then Some (- 1) else None)"

definition conditionValues :: "string \<Rightarrow> (string \<times> string) list \<Rightarrow> 64 word list" where
  "conditionValues t conds = List.map_filter (\<lambda>(c, s). if c = t then conditionValue s else None) conds"

definition combined :: "64 word list \<Rightarrow> 64 word option" where
  "combined vs = (case vs of [] \<Rightarrow> None | v # ws \<Rightarrow> Some (if \<forall>w \<in> set ws. w = v then v else - 1))"

lemma combined_snoc: "combined (vs @ [v]) = Some (case combined vs of None \<Rightarrow> v | Some o' \<Rightarrow> if o' \<noteq> v then - 1 else v)"
  by (cases vs) (auto simp: combined_def)

lemma conditionValues_snoc:
  "conditionValues t (cs @ [(c, s)]) = conditionValues t cs @
     (case if c = t then conditionValue s else None of None \<Rightarrow> [] | Some v \<Rightarrow> [v])"
  by (simp add: conditionValues_def map_filter_def split: option.splits)

text \<open>
  C27: The condition map of a node has, for each condition type, the value that all its entries agree
  on, and -1 when they disagree; entries with a status outside the API are ignored. So duplicates are
  resolved to unknown whatever their order.
\<close>

theorem nodeConditionMap_spec: "mget (nodeConditionMap conds) t = combined (conditionValues t conds)"
proof (induction conds rule: rev_induct)
  case Nil
  then show ?case by (simp add: nodeConditionMap_def combined_def conditionValues_def map_filter_def)
next
  case (snoc x conds)
  obtain c s where x: "x = (c, s)" by force
  have step: "nodeConditionMap (conds @ [(c, s)]) = addNodeCondition (nodeConditionMap conds) (c, s)"
    by (simp add: nodeConditionMap_def)
  have add: "addNodeCondition m (c, s) = (case conditionValue s of None \<Rightarrow> m
      | Some v \<Rightarrow> mput c (case mget m c of None \<Rightarrow> v | Some o' \<Rightarrow> if o' \<noteq> v then - 1 else v) m)" for m
    by (simp add: addNodeCondition_def conditionValue_def split: option.split)
  show ?case unfolding x step add using snoc
    by (cases "c = t"; cases "conditionValue s") (simp_all add: conditionValues_snoc combined_snoc)
qed

text \<open>All the values that the sums look at are of type \<open>int64\<close>.\<close>

definition int64Attr :: "string \<Rightarrow> rawmetrics \<Rightarrow> 64 word option" where
  "int64Attr key r = (case mget r key of Some (VInt64 w) \<Rightarrow> Some w | _ \<Rightarrow> None)"

definition requestTyped :: "rawentities \<Rightarrow> bool" where
  "requestTyped cs \<longleftrightarrow> (\<forall>(i, r) \<in> set cs. \<forall>key \<in> {''memoryRequestedBytes'', ''cpuRequestedCores''}.
     mget r key = None \<or> (\<exists>w. mget r key = Some (VInt64 w)))"

definition sumOf :: "string \<Rightarrow> rawentities \<Rightarrow> 64 word" where
  "sumOf key cs = (\<Sum>r \<leftarrow> map snd cs. case int64Attr key r of None \<Rightarrow> 0 | Some w \<Rightarrow> w)"

lemma addRequested_typed:
  "mget r key = None \<or> (\<exists>w. mget r key = Some (VInt64 w)) \<Longrightarrow>
     addRequested key acc r = Ok (acc + (case int64Attr key r of None \<Rightarrow> 0 | Some w \<Rightarrow> w))"
  by (auto simp: addRequested_def int64Attr_def asInt64_def)

text \<open>
  The memory and CPU requested on a node are the sums over all containers, in 64-bit arithmetic,
  of the requests that are set, whatever the order in which the containers are visited; the unchecked
  type assertions do not panic when the requests are \<open>int64\<close> values, as the pods fetcher stores them.
\<close>

lemma requestedSums_total:
  assumes "requestTyped (mget0 [] groups ''container'')"
  shows "requestedSums groups =
    Ok (sumOf ''memoryRequestedBytes'' (mget0 [] groups ''container''), sumOf ''cpuRequestedCores'' (mget0 [] groups ''container''))"
proof -
  let ?f = "\<lambda>(mem, cpu) (i, container).
       rbind (addRequested ''memoryRequestedBytes'' mem container) (\<lambda>mem.
       rbind (addRequested ''cpuRequestedCores'' cpu container) (\<lambda>cpu. Ok (mem, cpu)))"
  have "rfoldl ?f (m, c) cs = Ok (m + sumOf ''memoryRequestedBytes'' cs, c + sumOf ''cpuRequestedCores'' cs)"
    if "requestTyped cs" for m c cs
    using that
  proof (induction cs arbitrary: m c)
    case (Cons x cs)
    obtain i r where x: "x = (i, r)" by force
    have "requestTyped cs" using Cons.prems by (simp add: requestTyped_def)
    moreover have "addRequested key acc r = Ok (acc + (case int64Attr key r of None \<Rightarrow> 0 | Some w \<Rightarrow> w))"
      if "key \<in> {''memoryRequestedBytes'', ''cpuRequestedCores''}" for key acc
      using Cons.prems x that by (intro addRequested_typed) (auto simp: requestTyped_def)
    ultimately show ?case using Cons.IH x by (simp add: sumOf_def add.assoc)
  qed (simp add: sumOf_def)
  then show ?thesis using assms by (simp add: requestedSums_def)
qed

theorem requestedSums_total_witness:
  "requestedSums [(''container'', [(''a'', [(''memoryRequestedBytes'', VInt64 5)]), (''b'', [(''memoryRequestedBytes'', VInt64 7), (''cpuRequestedCores'', VInt64 3)])])]
     = Ok (12, 3)"
  by (subst requestedSums_total) (auto simp: requestTyped_def sumOf_def int64Attr_def mget0_def)

section \<open>Behaviour of the groupers\<close>

lemma kubeletGroup_summary_error:
  assumes "runFetchers (Fetchers cfg) [(''network'', [(''interfaces'', [(''default'', VString (DefaultNetworkInterface cfg))])])] = Ok rg"
    and "GetMetricsData (SummaryDecode cfg) (HTTPGet cfg) = Ok response" "snd (GroupStatsSummary (Some response)) = e # es"
  shows "kubeletGroup cfg specs = Ok ([], Some \<lparr>Recoverable = True, Errors = e # es\<rparr>)"
proof -
  obtain rs where "GroupStatsSummary (Some response) = (rs, e # es)"
    using assms(3) by (cases "GroupStatsSummary (Some response)") auto
  then show ?thesis using assms(1,2) by (simp add: kubeletGroup_def errGroupOf_def)
qed

definition exampleKubelet :: kubeletconfig where
  "exampleKubelet = \<lparr>NodeGetter = (\<lambda>_. Fail (errorsNew ''no node'')),
     SummaryDecode = (\<lambda>_. Ok (exampleSummary\<lparr>SNode := (SNode exampleSummary)\<lparr>NodeName := []\<rparr>\<rparr>)),
     HTTPGet = (\<lambda>_. Ok \<lparr>StatusCode = 200, Body = \<lparr>Content = [], ReadErr = None\<rparr>\<rparr>),
     Fetchers = [], DefaultNetworkInterface = ''eth0''\<rparr>"

definition svcID :: "service \<Rightarrow> string" where
  "svcID s = SvcNamespace s @ ''_'' @ SvcName s"

lemma addSelectors_other:
  "i \<notin> svcID ` set svcs \<Longrightarrow> mget (addServiceSpecSelectorToGroup svcs sg) i = mget sg i"
  unfolding addServiceSpecSelectorToGroup_def
  by (induction svcs arbitrary: sg) (auto simp: svcID_def split: option.splits)

lemma addSelectors_mem:
  "distinct (map svcID svcs) \<Longrightarrow> s \<in> set svcs \<Longrightarrow> mget sg (svcID s) = Some r \<Longrightarrow>
   mget (addServiceSpecSelectorToGroup svcs sg) (svcID s) =
     Some (mput ''apiserver_kube_service_spec_selectors'' (VMetric (selectorMetric s)) r)"
proof (induction svcs arbitrary: sg)
  case (Cons t svcs)
  let ?sg = "addServiceSpecSelectorToGroup [t] sg"
  have c: "addServiceSpecSelectorToGroup (t # svcs) sg = addServiceSpecSelectorToGroup svcs ?sg"
    by (simp add: addServiceSpecSelectorToGroup_def)
  show ?case
  proof (cases "s = t")
    case True
    then have "svcID s \<notin> svcID ` set svcs" using Cons.prems(1) by auto
    then show ?thesis using True Cons.prems(3)
      by (simp add: c addSelectors_other) (simp add: addServiceSpecSelectorToGroup_def svcID_def)
  next
    case False
    then have s: "s \<in> set svcs" using Cons.prems by simp
    then have "svcID s \<noteq> svcID t" using Cons.prems(1) by (auto simp: image_iff)
    then have "mget ?sg (svcID s) = Some r" using Cons.prems(3) by (subst addSelectors_other) simp_all
    then show ?thesis using Cons s by (simp add: c)
  qed
qed simp

lemma selector_labels:
  "wfmap (Selector s) \<Longrightarrow> Labels (selectorMetric s) = map (\<lambda>(k, v). (''selector_'' @ k, v)) (Selector s)"
  using foldl_mput_map[OF distinct_keys_inj, of "Selector s" "(@) ''selector_''" "\<lambda>v. v"]
  by (simp add: selectorMetric_def inj_def)

text \<open>
  Each service of the cluster that KSM reports gets its selector: the grouper stores it as labels
  that the inheritance of selectors turns back into one attribute \<open>selector.k\<close> per key, and the other
  metrics of the service stay as they are.
\<close>

lemma service_selectors_roundtrip:
  assumes "distinct (map svcID svcs)" "s \<in> set svcs" "mget sg (svcID s) = Some r" "wfmap (Selector s)"
  shows "\<exists>r' m. mget (addServiceSpecSelectorToGroup svcs sg) (svcID s) = Some r'
    \<and> mget r' ''apiserver_kube_service_spec_selectors'' = Some (VMetric m)
    \<and> prefixedLabels ''selector'' (Labels m) = map (\<lambda>(k, v). (''selector.'' @ k, VString v)) (Selector s)
    \<and> (\<forall>k. k \<noteq> ''apiserver_kube_service_spec_selectors'' \<longrightarrow> mget r' k = mget r k)"
proof -
  have d: "distinct (map (\<lambda>(k, v). ''selector.'' @ k) (Selector s))"
    using assms(4) by (rule distinct_keys_inj) (simp add: inj_def)
  have "prefixedLabels ''selector'' (Labels (selectorMetric s)) = map (\<lambda>(k, v). (''selector.'' @ k, VString v)) (Selector s)"
    unfolding prefixedLabels_def selector_labels[OF assms(4)]
    by (subst foldl_mput_map) (use d in \<open>simp_all add: TrimPrefix_def comp_def case_prod_unfold\<close>)
  then show ?thesis using addSelectors_mem[OF assms(1-3)]
    by (intro exI[of _ "mput ''apiserver_kube_service_spec_selectors'' (VMetric (selectorMetric s)) r"] exI[of _ "selectorMetric s"]) simp
qed

theorem service_selectors_roundtrip_witness:
  "\<exists>r' m. mget (addServiceSpecSelectorToGroup [\<lparr>SvcNamespace = ''ns'', SvcName = ''s'', Selector = [(''app'', ''x'')]\<rparr>]
      [(''ns_s'', [])]) ''ns_s'' = Some r' \<and> mget r' ''apiserver_kube_service_spec_selectors'' = Some (VMetric m)
    \<and> prefixedLabels ''selector'' (Labels m) = [(''selector.app'', VString ''x'')]"
  using service_selectors_roundtrip[of "[\<lparr>SvcNamespace = ''ns'', SvcName = ''s'', Selector = [(''app'', ''x'')]\<rparr>]"
      "\<lparr>SvcNamespace = ''ns'', SvcName = ''s'', Selector = [(''app'', ''x'')]\<rparr>" "[(''ns_s'', [])]" "[]"]
  by (auto simp: svcID_def wfmap_def)

text \<open>
  Resource quotas are reported only when they are enabled: otherwise the KSM grouper returns no
  \<open>resourcequota\<close> group.
\<close>

lemma ksm_resourcequota_optional:
  assumes "ksmGroup cfg specs = Ok (groups, eg)" "\<not> EnableResourceQuotaSamples cfg"
  shows "mget groups ''resourcequota'' = None"
  using assms by (auto simp: ksmGroup_def split: result.splits prod.splits if_splits option.splits)

theorem ksm_resourcequota_optional_witness:
  "mget [] ''resourcequota'' = (None :: rawentities option)"
  by (rule ksm_resourcequota_optional[where specs = "[] :: unit specgroups" and eg = None
        and cfg = "\<lparr>Queries = [], MetricFamiliesGetter = (\<lambda>_. Ok []), ServicesLister = Ok [], EnableResourceQuotaSamples = False\<rparr>"])
     (simp_all add: ksmGroup_def GroupMetricsBySpec_def)

end
