(* ===== verification/Populator.thy ===== *)
theory Populator
  imports Groupers
begin

text \<open>
  \<open>src/populator/populator.go\<close>: from grouped raw metrics to entities and metric sets of the integration
  SDK. The SDK is a parameter, a record of its operations over an integration state of any type; the
  namespace filter is a parameter with a state of its own (its cache). The state that the populator
  threads is the integration, the cache of the fetch functions and the state of the filter.
\<close>

section \<open>State and effects\<close>

record ('i, 'c, 'f) popstate =
  pInt :: 'i
  pCache :: 'c
  pFilter :: 'f

text \<open>
  The operations of \<open>infra-integrations-sdk\<close>: \<open>Integration.Entity\<close> (a handle and its \<open>Metadata.Name\<close>),
  \<open>Entity.AddAttributes\<close>, \<open>Entity.NewMetricSet\<close>, \<open>Set.SetMetric\<close>, \<open>Inventory.SetItem\<close>, and the name and
  version of the integration.
\<close>

record 'i sdk =
  sdkEntity :: "string \<Rightarrow> string \<Rightarrow> 'i \<Rightarrow> (nat \<times> string) result \<times> 'i"
  sdkAddAttributes :: "nat \<Rightarrow> (string \<times> string) list \<Rightarrow> 'i \<Rightarrow> 'i"
  sdkNewMetricSet :: "nat \<Rightarrow> string \<Rightarrow> 'i \<Rightarrow> nat \<times> 'i"
  sdkSetMetric :: "nat \<Rightarrow> string \<Rightarrow> goval \<Rightarrow> sourcetype \<Rightarrow> 'i \<Rightarrow> err option \<times> 'i"
  sdkSetItem :: "nat \<Rightarrow> string \<Rightarrow> string \<Rightarrow> string \<Rightarrow> 'i \<Rightarrow> err option \<times> 'i"
  sdkName :: string
  sdkVersion :: string

type_synonym ('a, 'i, 'c, 'f) pop = "('i, 'c, 'f) popstate \<Rightarrow> 'a result \<times> ('i, 'c, 'f) popstate"

definition preturn :: "'a \<Rightarrow> ('a, 'i, 'c, 'f) pop" where
  "preturn a st = (Ok a, st)"

definition pbind :: "('a, 'i, 'c, 'f) pop \<Rightarrow> ('a \<Rightarrow> ('b, 'i, 'c, 'f) pop) \<Rightarrow> ('b, 'i, 'c, 'f) pop" where
  "pbind m f st = (case m st of (r, st') \<Rightarrow> (case r of Ok a \<Rightarrow> f a st' | Fail e \<Rightarrow> (Fail e, st') | Panic p \<Rightarrow> (Panic p, st')))"

text \<open>A call that only concerns the integration state.\<close>

definition onInt :: "('i \<Rightarrow> 'a \<times> 'i) \<Rightarrow> ('a, 'i, 'c, 'f) pop" where
  "onInt f st = (case f (pInt st) of (a, i) \<Rightarrow> (Ok a, st\<lparr>pInt := i\<rparr>))"

text \<open>\<open>definition.IntegrationPopulateConfig\<close>; a nil filterer is \<open>None\<close>.\<close>

record ('c, 'f) popconfig =
  ClusterName :: string
  CloudClusterID :: string
  K8sVersion :: string
  CfgMsTypeGuesser :: guessfunc
  CfgGroups :: rawgroups
  CfgSpecs :: "'c specgroups"
  Filterer :: "(string \<Rightarrow> 'f \<Rightarrow> bool \<times> 'f) option"

definition NamespaceGroup :: string where "NamespaceGroup = ''namespace''"
definition NamespaceFilteredLabel :: string where "NamespaceFilteredLabel = ''nrFiltered''"

definition ErrGroupNotASlice :: err where "ErrGroupNotASlice = errorsNew ''group requires a slice of metrics''"
definition ErrGenerateID :: err where "ErrGenerateID = errorsNew ''could not generate entity ID''"
definition ErrGenerateType :: err where "ErrGenerateType = errorsNew ''could not generate entity type''"
definition ErrSetMetric :: err where "ErrSetMetric = errorsNew ''could not set metric''"

section \<open>Metric sets\<close>

fun setMetrics :: "'i sdk \<Rightarrow> nat \<Rightarrow> (string, goval) gomap \<Rightarrow> sourcetype \<Rightarrow> (bool \<times> err option, 'i, 'c, 'f) pop" where
  "setMetrics sdk ms [] sourceType = preturn (True, None)"
| "setMetrics sdk ms ((k, v) # kvs) sourceType =
     pbind (onInt (sdkSetMetric sdk ms k v sourceType)) (\<lambda>r.
       case r of
         Some er \<Rightarrow> preturn (False, Some (Errorf ''%w %q: %w'' [k] [ErrSetMetric, er]))
       | None \<Rightarrow> setMetrics sdk ms kvs sourceType)"

definition populateMetricsFromMap ::
  "'i sdk \<Rightarrow> nat \<Rightarrow> (string, goval) gomap \<Rightarrow> sourcetype \<Rightarrow> (bool \<times> err option, 'i, 'c, 'f) pop" where
  "populateMetricsFromMap sdk ms metrics sourceType =
     (if length metrics = 0 then preturn (False, None) else setMetrics sdk ms metrics sourceType)"

definition populateSingleMetric ::
  "'i sdk \<Rightarrow> nat \<Rightarrow> string \<Rightarrow> goval \<Rightarrow> sourcetype \<Rightarrow> (bool \<times> err option, 'i, 'c, 'f) pop" where
  "populateSingleMetric sdk ms name v sourceType =
     pbind (onInt (sdkSetMetric sdk ms name v sourceType)) (\<lambda>r.
       case r of
         Some er \<Rightarrow> preturn (False, Some (Errorf ''%w %q: %w'' [name] [ErrSetMetric, er]))
       | None \<Rightarrow> preturn (True, None))"

definition populateValue :: "'i sdk \<Rightarrow> nat \<Rightarrow> 'c spec \<Rightarrow> goval \<Rightarrow> (bool \<times> err option, 'i, 'c, 'f) pop" where
  "populateValue sdk ms spec val =
     (case val of
        VFetched fv \<Rightarrow> populateMetricsFromMap sdk ms fv (SType spec)
      | _ \<Rightarrow> populateSingleMetric sdk ms (SName spec) val (SType spec))"

text \<open>A call of the value function, with the cache of the fetch functions.\<close>

definition fetchValue :: "'c spec \<Rightarrow> string \<Rightarrow> string \<Rightarrow> rawgroups \<Rightarrow> (goval result, 'i, 'c, 'f) pop" where
  "fetchValue spec gl eid groups st =
     (case ValueFunc spec gl eid groups (pCache st) of (r, c) \<Rightarrow> (Ok r, st\<lparr>pCache := c\<rparr>))"

fun specLoop :: "'i sdk \<Rightarrow> nat \<Rightarrow> string \<Rightarrow> string \<Rightarrow> rawgroups \<Rightarrow> 'c spec list \<Rightarrow> bool \<Rightarrow> err list \<Rightarrow> (bool \<times> err list, 'i, 'c, 'f) pop" where
  "specLoop sdk ms gl eid groups [] populated errs = preturn (populated, errs)"
| "specLoop sdk ms gl eid groups (spec # specs) populated errs =
     pbind (fetchValue spec gl eid groups) (\<lambda>r.
       case r of
         Panic p \<Rightarrow> (\<lambda>st. (Panic p, st))
       | Fail er \<Rightarrow>
           specLoop sdk ms gl eid groups specs populated
             (if \<not> Optional spec then errs @ [Errorf ''cannot fetch value for metric %q: %w'' [SName spec] [er]] else errs)
       | Ok val \<Rightarrow>
           if val = VNil then specLoop sdk ms gl eid groups specs populated errs
           else pbind (populateValue sdk ms spec val) (\<lambda>(p, e).
             specLoop sdk ms gl eid groups specs (if p then True else populated)
               (case e of
                  Some er \<Rightarrow> if \<not> Optional spec then errs @ [Errorf ''populating entity %q: %w'' [eid] [er]] else errs
                | None \<Rightarrow> errs)))"

definition metricSetPopulate :: "'i sdk \<Rightarrow> nat \<Rightarrow> string \<Rightarrow> string \<Rightarrow> rawgroups \<Rightarrow> 'c specgroups \<Rightarrow> (bool \<times> err list, 'i, 'c, 'f) pop" where
  "metricSetPopulate sdk ms gl eid groups specs =
     (case mget specs gl of
        None \<Rightarrow> preturn (False, [])
      | Some specGroup \<Rightarrow> specLoop sdk ms gl eid groups (Specs specGroup) False [])"

section \<open>Processing units\<close>

record processingunit =
  originalEntityID :: string
  entityID :: string
  entityType :: string
  rawMetricsOf :: rawmetrics

text \<open>\<open>rawMetrics[k].([]Metric)\<close> with its second result; a missing key is the nil interface.\<close>

definition asSlice :: "goval option \<Rightarrow> metric list option" where
  "asSlice v = (case v of Some (VMetrics ms) \<Rightarrow> Some ms | _ \<Rightarrow> None)"

definition splitMetric :: "rawmetrics \<Rightarrow> string \<Rightarrow> string \<Rightarrow> (string, rawmetrics) gomap \<Rightarrow> metric \<Rightarrow> (string, rawmetrics) gomap" where
  "splitMetric rawMetrics sliceName splitByLabel subGroups m =
     (case mget (Labels m) splitByLabel of
        None \<Rightarrow> subGroups
      | Some splitValue \<Rightarrow>
          let sub = (case mget subGroups splitValue of
                Some sg \<Rightarrow> sg
              | None \<Rightarrow> foldl (\<lambda>a (k, v). if k \<noteq> sliceName then mput k v a else a) [] rawMetrics);
              slice = (case asSlice (mget sub sliceName) of Some sl \<Rightarrow> sl | None \<Rightarrow> [])
          in mput splitValue (mput sliceName (VMetrics (slice @ [m])) sub) subGroups)"

definition splitGroup :: "rawmetrics \<Rightarrow> string \<Rightarrow> string \<Rightarrow> string \<Rightarrow> (string, rawmetrics) gomap result" where
  "splitGroup rawMetrics sliceMetricName groupLabel splitByLabel =
     (let sliceName = (if sliceMetricName = [] then groupLabel else sliceMetricName) in
      case asSlice (mget rawMetrics sliceName) of
        None \<Rightarrow> Fail (Errorf ''group %q key %q: %w'' [groupLabel, sliceName] [ErrGroupNotASlice])
      | Some mainMetricSlice \<Rightarrow> Ok (foldl (splitMetric rawMetrics sliceName splitByLabel) [] mainMetricSlice))"

definition prepareProcessingUnits ::
  "('c, 'f) popconfig \<Rightarrow> 'c specgroup \<Rightarrow> string \<Rightarrow> string \<Rightarrow> rawmetrics \<Rightarrow> processingunit list result" where
  "prepareProcessingUnits config specGroup groupLabel eid rawMetrics =
     (if SplitByLabel specGroup \<noteq> [] then
        rbind (splitGroup rawMetrics (SliceMetricName specGroup) groupLabel (SplitByLabel specGroup)) (\<lambda>subGroups.
          case TypeGenerator specGroup of
            None \<Rightarrow> Panic ''invalid memory address or nil pointer dereference''
          | Some gen \<Rightarrow>
              rbindw (\<lambda>e. Errorf ''error generating entity type for parent %s: %w'' [eid] [e])
                (gen groupLabel eid (CfgGroups config) (ClusterName config)) (\<lambda>ety.
                Ok (map (\<lambda>(subGroupKey, subGroupMetrics).
                  \<lparr>originalEntityID = eid, entityID = eid @ ''_'' @ subGroupKey, entityType = ety, rawMetricsOf = subGroupMetrics\<rparr>) subGroups)))
      else
        rbind (case IDGenerator specGroup of
                 None \<Rightarrow> Ok eid
               | Some gen \<Rightarrow> rbindw (\<lambda>e. Errorf ''%w for %s: %w'' [eid] [ErrGenerateID, e]) (gen groupLabel eid (CfgGroups config)) Ok)
          (\<lambda>finalEntityID.
        rbind (case TypeGenerator specGroup of
                 None \<Rightarrow> Ok []
               | Some gen \<Rightarrow> rbindw (\<lambda>e. Errorf ''%w for %s: %w'' [eid] [ErrGenerateType, e])
                               (gen groupLabel eid (CfgGroups config) (ClusterName config)) Ok)
          (\<lambda>ety. Ok [\<lparr>originalEntityID = eid, entityID = finalEntityID, entityType = ety, rawMetricsOf = rawMetrics\<rparr>])))"

section \<open>Entities\<close>

definition entityAttributes :: "('c, 'f) popconfig \<Rightarrow> (string \<times> string) list \<Rightarrow> string \<Rightarrow> (string \<times> string) list" where
  "entityAttributes config extraAttributes displayName =
     extraAttributes @ [(''clusterName'', ClusterName config), (''displayName'', displayName)] @
     (if CloudClusterID config \<noteq> [] then [(''cloud.resource_id'', CloudClusterID config)] else [])"

definition groupsForEntity :: "rawgroups \<Rightarrow> string \<Rightarrow> processingunit \<Rightarrow> rawgroups" where
  "groupsForEntity groups groupLabel unit =
     mput groupLabel [(originalEntityID unit, rawMetricsOf unit)] (foldl (\<lambda>g (n, v). mput n v g) [] groups)"

definition processUnit ::
  "'i sdk \<Rightarrow> ('c, 'f) popconfig \<Rightarrow> 'c specgroup \<Rightarrow> string \<Rightarrow> (string \<times> string) list \<Rightarrow> processingunit \<Rightarrow> (bool \<times> err list, 'i, 'c, 'f) pop" where
  "processUnit sdk config specGroup groupLabel extraAttributes unit =
     pbind (onInt (sdkEntity sdk (entityID unit) (entityType unit))) (\<lambda>er.
       case er of
         Fail e \<Rightarrow> preturn (False, [e])
       | Panic p \<Rightarrow> (\<lambda>st. (Panic p, st))
       | Ok (h, name) \<Rightarrow>
           pbind (onInt (\<lambda>i. ((), sdkAddAttributes sdk h (entityAttributes config extraAttributes name) i))) (\<lambda>_.
             case (case MsTypeGuesser specGroup of Some custom \<Rightarrow> custom | None \<Rightarrow> CfgMsTypeGuesser config) groupLabel of
               Fail e \<Rightarrow> preturn (False, [e])
             | Panic p \<Rightarrow> (\<lambda>st. (Panic p, st))
             | Ok msType \<Rightarrow>
                 pbind (onInt (sdkNewMetricSet sdk h msType)) (\<lambda>ms.
                 pbind (metricSetPopulate sdk ms groupLabel (originalEntityID unit)
                          (groupsForEntity (CfgGroups config) groupLabel unit) (CfgSpecs config)) (\<lambda>(p, errs).
                 preturn (p, map (\<lambda>e. Errorf ''error populating metric for entity ID %s: %w'' [entityID unit] [e]) errs)))))"

fun processEntities ::
  "'i sdk \<Rightarrow> ('c, 'f) popconfig \<Rightarrow> 'c specgroup \<Rightarrow> string \<Rightarrow> (string \<times> string) list \<Rightarrow> processingunit list \<Rightarrow> (bool \<times> err list, 'i, 'c, 'f) pop" where
  "processEntities sdk config specGroup groupLabel extraAttributes [] = preturn (False, [])"
| "processEntities sdk config specGroup groupLabel extraAttributes (unit # units) =
     pbind (processUnit sdk config specGroup groupLabel extraAttributes unit) (\<lambda>(p, errs).
     pbind (processEntities sdk config specGroup groupLabel extraAttributes units) (\<lambda>(p', errs').
     preturn (p \<or> p', errs @ errs')))"

definition isAllowed :: "(string \<Rightarrow> 'f \<Rightarrow> bool \<times> 'f) \<Rightarrow> string \<Rightarrow> (bool, 'i, 'c, 'f) pop" where
  "isAllowed f ns st = (case f ns (pFilter st) of (b, s) \<Rightarrow> (Ok b, st\<lparr>pFilter := s\<rparr>))"

definition filterGroup ::
  "('c, 'f) popconfig \<Rightarrow> 'c specgroup \<Rightarrow> string \<Rightarrow> rawmetrics \<Rightarrow> ((string \<times> string) list \<times> bool, 'i, 'c, 'f) pop" where
  "filterGroup config specGroup groupLabel rawMetrics =
     (case (Filterer config, NamespaceGetter specGroup) of
        (Some f, Some getter) \<Rightarrow>
          let ns = getter rawMetrics in
          if groupLabel \<noteq> NamespaceGroup then
            pbind (isAllowed f ns) (\<lambda>allowed. preturn ([], \<not> allowed))
          else
            pbind (isAllowed f ns) (\<lambda>allowed. preturn ([(NamespaceFilteredLabel, boolStr (\<not> allowed))], False))
      | _ \<Rightarrow> preturn ([], False))"

definition populateEntity ::
  "'i sdk \<Rightarrow> ('c, 'f) popconfig \<Rightarrow> string \<Rightarrow> string \<times> rawmetrics \<Rightarrow> (bool \<times> err list, 'i, 'c, 'f) pop" where
  "populateEntity sdk config groupLabel ent = (case ent of (eid, rawMetrics) \<Rightarrow>
     (case mget (CfgSpecs config) groupLabel of
        None \<Rightarrow> preturn (False, [])
      | Some specGroup \<Rightarrow>
          pbind (filterGroup config specGroup groupLabel rawMetrics) (\<lambda>(extraAttributes, skip).
            if skip then preturn (False, [])
            else (case prepareProcessingUnits config specGroup groupLabel eid rawMetrics of
                    Fail e \<Rightarrow> preturn (False, [e])
                  | Panic p \<Rightarrow> (\<lambda>st. (Panic p, st))
                  | Ok units \<Rightarrow> processEntities sdk config specGroup groupLabel extraAttributes units))))"

section \<open>The cluster\<close>

text \<open>One call after the other; the first error is wrapped and returned.\<close>

fun tryAll :: "(('i \<Rightarrow> err option \<times> 'i) \<times> string) list \<Rightarrow> 'i \<Rightarrow> err option \<times> 'i" where
  "tryAll [] i = (None, i)"
| "tryAll ((f, msg) # fs) i =
     (case f i of (Some e, i') \<Rightarrow> (Some (Errorf msg [] [e]), i') | (None, i') \<Rightarrow> tryAll fs i')"

definition populateCluster :: "'i sdk \<Rightarrow> string \<Rightarrow> string \<Rightarrow> string \<Rightarrow> (err option, 'i, 'c, 'f) pop" where
  "populateCluster sdk clusterName cloudClusterID k8sVersion =
     pbind (onInt (sdkEntity sdk clusterName ''k8s:cluster'')) (\<lambda>er.
       case er of
         Fail e \<Rightarrow> preturn (Some (Errorf ''could not create cluster entity: %w'' [] [e]))
       | Panic p \<Rightarrow> (\<lambda>st. (Panic p, st))
       | Ok (h, name) \<Rightarrow>
           pbind (onInt (sdkNewMetricSet sdk h ''K8sClusterSample'')) (\<lambda>ms.
             onInt (tryAll
               ([(sdkSetItem sdk h ''cluster'' ''name'' clusterName, ''could not set cluster name in inventory: %w''),
                 (sdkSetMetric sdk ms ''clusterName'' (VString clusterName) ATTRIBUTE, ''could not set clusterName metric: %w'')] @
                (if cloudClusterID \<noteq> [] then
                   [(sdkSetMetric sdk ms ''cloud.resource_id'' (VString cloudClusterID) ATTRIBUTE, ''could not set cloud.resource_id metric: %w'')]
                 else []) @
                [(sdkSetItem sdk h ''cluster'' ''k8sVersion'' k8sVersion, ''could not set k8sVersion in inventory: %w''),
                 (sdkSetItem sdk h ''cluster'' ''newrelic.integrationVersion'' (sdkVersion sdk), ''could not set integration version in inventory: %w''),
                 (sdkSetItem sdk h ''cluster'' ''newrelic.integrationName'' (sdkName sdk), ''could not set integration name in inventory: %w''),
                 (sdkSetMetric sdk ms ''clusterK8sVersion'' (VString k8sVersion) ATTRIBUTE, ''could not set clusterK8sVersion metric: %w'')]))))"

section \<open>The populator\<close>

fun populateEntities ::
  "'i sdk \<Rightarrow> ('c, 'f) popconfig \<Rightarrow> (string \<times> string \<times> rawmetrics) list \<Rightarrow> (bool \<times> err list, 'i, 'c, 'f) pop" where
  "populateEntities sdk config [] = preturn (False, [])"
| "populateEntities sdk config ((gl, ent) # ents) =
     pbind (populateEntity sdk config gl ent) (\<lambda>(p, errs).
     pbind (populateEntities sdk config ents) (\<lambda>(p', errs').
     preturn (p \<or> p', errs @ errs')))"

text \<open>The two nested loops over groups and entities.\<close>

definition allEntities :: "rawgroups \<Rightarrow> (string \<times> string \<times> rawmetrics) list" where
  "allEntities groups = concat (map (\<lambda>(gl, ents). map (Pair gl) ents) groups)"

definition IntegrationPopulator :: "'i sdk \<Rightarrow> ('c, 'f) popconfig \<Rightarrow> (bool \<times> err list, 'i, 'c, 'f) pop" where
  "IntegrationPopulator sdk config =
     pbind (populateEntities sdk config (allEntities (CfgGroups config))) (\<lambda>(populated, errs).
       if populated then
         pbind (populateCluster sdk (ClusterName config) (CloudClusterID config) (K8sVersion config)) (\<lambda>e.
           preturn (populated, case e of Some er \<Rightarrow> errs @ [er] | None \<Rightarrow> errs))
       else preturn (populated, errs))"

section \<open>Errors are collected\<close>

text \<open>
  The populator never returns early with an error: whatever fails for an entity is added to the errors of the job, and the
  other entities and the next job go on.
\<close>

definition collects :: "('a, 'i, 'c, 'f) pop \<Rightarrow> bool" where
  "collects m \<longleftrightarrow> (\<forall>st e. fst (m st) \<noteq> Fail e)"

named_theorems collects_intros

lemma collects_preturn [collects_intros]: "collects (preturn a)"
  by (simp add: collects_def preturn_def)

lemma collects_pbind [collects_intros]: "collects m \<Longrightarrow> (\<And>a. collects (f a)) \<Longrightarrow> collects (pbind m f)"
  by (auto simp: collects_def pbind_def split: prod.splits result.splits) (metis fst_conv)+

lemma collects_onInt [collects_intros]: "collects (onInt f)"
  by (simp add: collects_def onInt_def split: prod.split)

lemma collects_panic [collects_intros]: "collects (\<lambda>st. (Panic p, st))"
  by (simp add: collects_def)

lemma collects_isAllowed [collects_intros]: "collects (isAllowed f ns)"
  by (simp add: collects_def isAllowed_def split: prod.split)

lemma collects_fetchValue [collects_intros]: "collects (fetchValue sp gl eid gs)"
  by (simp add: collects_def fetchValue_def split: prod.split)

lemma collects_setMetrics [collects_intros]: "collects (setMetrics sdk ms kvs t)"
  by (induction kvs) (auto intro!: collects_intros split: option.split)

lemma collects_populateValue [collects_intros]: "collects (populateValue sdk ms sp v)"
  by (auto simp: populateValue_def populateMetricsFromMap_def populateSingleMetric_def intro!: collects_intros split: goval.split option.split)

lemma collects_specLoop [collects_intros]: "collects (specLoop sdk ms gl eid gs specs p es)"
  by (induction specs arbitrary: p es) (auto intro!: collects_intros split: result.split option.split prod.split)

lemma collects_metricSetPopulate [collects_intros]: "collects (metricSetPopulate sdk ms gl eid gs specs)"
  by (auto simp: metricSetPopulate_def intro!: collects_intros split: option.split)

lemma collects_processUnit [collects_intros]: "collects (processUnit sdk config sg gl as u)"
  unfolding processUnit_def by (auto intro!: collects_intros split: result.split prod.split)

lemma collects_processEntities [collects_intros]: "collects (processEntities sdk config sg gl as us)"
  by (induction us) (auto intro!: collects_intros split: prod.split)

lemma collects_filterGroup [collects_intros]: "collects (filterGroup config sg gl r)"
  by (auto simp: filterGroup_def Let_def intro!: collects_intros split: option.split)

lemma collects_populateEntity [collects_intros]: "collects (populateEntity sdk config gl ent)"
  by (auto simp: populateEntity_def intro!: collects_intros split: prod.split option.split result.split)

lemma collects_populateEntities [collects_intros]: "collects (populateEntities sdk config ents)"
  by (induction ents) (auto intro!: collects_intros split: prod.split)

lemma collects_populateCluster [collects_intros]: "collects (populateCluster sdk cn cid v)"
  unfolding populateCluster_def by (auto intro!: collects_intros split: result.split prod.split simp del: tryAll.simps)

lemma collects_IntegrationPopulator [collects_intros]: "collects (IntegrationPopulator sdk config)"
  unfolding IntegrationPopulator_def by (auto intro!: collects_intros split: prod.split)

lemma populate_collects: "fst (pbind (IntegrationPopulator sdk config) (\<lambda>(ok, errs). preturn (h ok errs)) st) \<noteq> Fail e"
proof -
  have "collects (pbind (IntegrationPopulator sdk config) (\<lambda>(ok, errs). preturn (h ok errs)))"
    by (auto intro!: collects_intros split: prod.split)
  then show ?thesis by (simp add: collects_def)
qed

section \<open>Filtered namespaces\<close>

lemmas pop_simps = pbind_def preturn_def onInt_def

definition disallowed :: "('c, 'f) popconfig \<Rightarrow> (string \<Rightarrow> 'f \<Rightarrow> bool \<times> 'f) \<Rightarrow> string \<Rightarrow> rawmetrics \<Rightarrow> bool" where
  "disallowed config f gl r \<longleftrightarrow>
     (\<exists>sg getter. mget (CfgSpecs config) gl = Some sg \<and> NamespaceGetter sg = Some getter \<and>
        gl \<noteq> NamespaceGroup \<and> (\<forall>s. \<not> fst (f (getter r) s)))"

lemma populateEntity_disallowed:
  assumes "Filterer config = Some f" "disallowed config f gl r"
  shows "\<exists>st'. populateEntity sdk config gl (eid, r) st = (Ok (False, []), st') \<and> pInt st' = pInt st \<and> pCache st' = pCache st"
proof -
  obtain sg getter where sg: "mget (CfgSpecs config) gl = Some sg" "NamespaceGetter sg = Some getter" "gl \<noteq> NamespaceGroup"
    "\<not> fst (f (getter r) (pFilter st))"
    using assms(2) by (auto simp: disallowed_def)
  obtain b s where "f (getter r) (pFilter st) = (b, s)" by force
  then show ?thesis using assms(1) sg
    by (intro exI[of _ "st\<lparr>pFilter := s\<rparr>"])
       (simp add: populateEntity_def filterGroup_def isAllowed_def pop_simps Let_def)
qed

lemma populateEntity_unspecified:
  "mget (CfgSpecs config) gl = None \<Longrightarrow> populateEntity sdk config gl ent st = (Ok (False, []), st)"
  by (simp add: populateEntity_def pop_simps split: prod.splits)

lemma populateEntities_disallowed:
  assumes "Filterer config = Some f"
    and "\<forall>(gl, eid, r) \<in> set ents. mget (CfgSpecs config) gl = None \<or> disallowed config f gl r"
  shows "\<exists>st'. populateEntities sdk config ents st = (Ok (False, []), st') \<and> pInt st' = pInt st \<and> pCache st' = pCache st"
  using assms(2)
proof (induction ents arbitrary: st)
  case (Cons x ents)
  obtain gl eid r where x: "x = (gl, eid, r)" using prod_cases3 by blast
  have "\<exists>st1. populateEntity sdk config gl (eid, r) st = (Ok (False, []), st1) \<and> pInt st1 = pInt st \<and> pCache st1 = pCache st"
  proof (cases "mget (CfgSpecs config) gl = None")
    case True
    then show ?thesis by (simp add: populateEntity_unspecified)
  next
    case False
    then have "disallowed config f gl r" using Cons.prems x by auto
    then show ?thesis by (rule populateEntity_disallowed[OF assms(1)])
  qed
  then obtain st1 where 1: "populateEntity sdk config gl (eid, r) st = (Ok (False, []), st1)" "pInt st1 = pInt st" "pCache st1 = pCache st"
    by blast
  obtain st2 where "populateEntities sdk config ents st1 = (Ok (False, []), st2)" "pInt st2 = pInt st1" "pCache st2 = pCache st1"
    using Cons.IH[of st1] Cons.prems by auto
  then show ?case using 1 x by (simp add: pop_simps)
qed (simp add: pop_simps)

text \<open>
  Entities of namespaces that the filter rejects leave no trace: the integration is not touched,
  no error is reported, and when nothing else was scraped no cluster entity is created either. Only
  the entities of the namespace group itself are exempt, they are reported as filtered.
\<close>

lemma filtered_namespaces_untouched:
  assumes "Filterer config = Some f"
    and "\<forall>(gl, eid, r) \<in> set (allEntities (CfgGroups config)). mget (CfgSpecs config) gl = None \<or> disallowed config f gl r"
  shows "\<exists>st'. IntegrationPopulator sdk config st = (Ok (False, []), st') \<and> pInt st' = pInt st \<and> pCache st' = pCache st"
  using populateEntities_disallowed[OF assms, of sdk st] by (auto simp: IntegrationPopulator_def pop_simps)

text \<open>An SDK that accepts every call and records them, for the witnesses.\<close>

datatype sdkcall =
    CallEntity string string
  | CallAttributes nat "(string \<times> string) list"
  | CallMetricSet nat string
  | CallSetMetric nat string goval sourcetype
  | CallSetItem nat string string string

definition recordSdk :: "sdkcall list sdk" where
  "recordSdk =
     \<lparr>sdkEntity = (\<lambda>n t i. (Ok (length i, n), i @ [CallEntity n t])),
      sdkAddAttributes = (\<lambda>h as i. i @ [CallAttributes h as]),
      sdkNewMetricSet = (\<lambda>h t i. (length i, i @ [CallMetricSet h t])),
      sdkSetMetric = (\<lambda>ms n v t i. (None, i @ [CallSetMetric ms n v t])),
      sdkSetItem = (\<lambda>h k f v i. (None, i @ [CallSetItem h k f v])),
      sdkName = ''com.newrelic.kubernetes'', sdkVersion = ''3''\<rparr>"

definition exampleConfig :: "(string \<Rightarrow> bool) \<Rightarrow> (unit, unit) popconfig" where
  "exampleConfig allow =
     \<lparr>ClusterName = ''cl'', CloudClusterID = [], K8sVersion = ''v1'', CfgMsTypeGuesser = K8sMetricSetTypeGuesser,
      CfgGroups = [(''pod'', [(''ns_p'', [(''namespace'', VString ''ns''), (''podName'', VString ''p'')])])],
      CfgSpecs = [(''pod'', \<lparr>IDGenerator = Some (FromRawEntityIDGroupEntityIDGenerator ''namespace''),
        TypeGenerator = Some FromRawGroupsEntityTypeGenerator, NamespaceGetter = Some KFromLabelGetNamespace,
        MsTypeGuesser = None, Specs = [\<lparr>SName = ''podName'', ValueFunc = liftFetch (FromRaw ''podName''), SType = ATTRIBUTE, Optional = False\<rparr>],
        SplitByLabel = [], SliceMetricName = []\<rparr>)],
      Filterer = Some (\<lambda>ns s. (allow ns, s))\<rparr>"

theorem filtered_namespaces_untouched_witness:
  "\<exists>st'. IntegrationPopulator recordSdk (exampleConfig (\<lambda>ns. ns \<noteq> ''ns'')) \<lparr>pInt = [], pCache = (), pFilter = ()\<rparr> = (Ok (False, []), st') \<and> pInt st' = []"
  using filtered_namespaces_untouched[of "exampleConfig (\<lambda>ns. ns \<noteq> ''ns'')" "\<lambda>ns s. (ns \<noteq> ''ns'', s)" recordSdk "\<lparr>pInt = [], pCache = (), pFilter = ()\<rparr>"]
  by (auto simp: exampleConfig_def allEntities_def disallowed_def NamespaceGroup_def KFromLabelGetNamespace_def)

section \<open>Splitting of a group\<close>

definition withLabel :: "string \<Rightarrow> string \<Rightarrow> metric list \<Rightarrow> metric list" where
  "withLabel lab v ms = filter (\<lambda>m. mget (Labels m) lab = Some v) ms"

definition splitAs :: "rawmetrics \<Rightarrow> string \<Rightarrow> string \<Rightarrow> metric list \<Rightarrow> (string, rawmetrics) gomap \<Rightarrow> bool" where
  "splitAs raw name lab ms sub \<longleftrightarrow> wfmap sub \<and> (\<forall>v. mhas sub v \<longleftrightarrow> withLabel lab v ms \<noteq> []) \<and>
     (\<forall>v sg. mget sub v = Some sg \<longrightarrow> mget sg name = Some (VMetrics (withLabel lab v ms)) \<and> (\<forall>k. k \<noteq> name \<longrightarrow> mget sg k = mget raw k))"

lemma shared_copy:
  "wfmap raw \<Longrightarrow> mget (foldl (\<lambda>a (k, v). if k \<noteq> name then mput k v a else a) [] raw) k = (if k = name then None else mget raw k)"
proof -
  assume "wfmap raw"
  then have "foldl (\<lambda>a (k, v). if k \<noteq> name then mput k v a else a) [] raw = filter (\<lambda>(k, v). k \<noteq> name) raw"
    by (rule foldl_mput_filter[where P = "\<lambda>k v. k \<noteq> name"])
  moreover have "mget (filter (\<lambda>(k, v). k \<noteq> name) raw) k = (if k = name then None else mget raw k)"
    by (induction raw) auto
  ultimately show ?thesis by simp
qed

lemma splitMetric_step:
  assumes "splitAs raw name lab ms sub" "wfmap raw"
  shows "splitAs raw name lab (ms @ [m]) (splitMetric raw name lab sub m)"
proof (cases "mget (Labels m) lab")
  case None
  then show ?thesis using assms by (simp add: splitMetric_def splitAs_def withLabel_def)
next
  case (Some v)
  define s0 where "s0 = (case mget sub v of Some sg \<Rightarrow> sg
    | None \<Rightarrow> foldl (\<lambda>a (k, v). if k \<noteq> name then mput k v a else a) [] raw)"
  have s0: "(case asSlice (mget s0 name) of Some sl \<Rightarrow> sl | None \<Rightarrow> []) = withLabel lab v ms"
    "\<forall>k. k \<noteq> name \<longrightarrow> mget s0 k = mget raw k"
  proof -
    have "mget sub v = None \<Longrightarrow> withLabel lab v ms = []" using assms(1) unfolding splitAs_def mhas_def by blast
    then show "(case asSlice (mget s0 name) of Some sl \<Rightarrow> sl | None \<Rightarrow> []) = withLabel lab v ms"
      using assms by (cases "mget sub v") (auto simp: s0_def splitAs_def shared_copy asSlice_def)
    show "\<forall>k. k \<noteq> name \<longrightarrow> mget s0 k = mget raw k"
      using assms by (cases "mget sub v") (auto simp: s0_def splitAs_def shared_copy)
  qed
  have e: "splitMetric raw name lab sub m = mput v (mput name (VMetrics (withLabel lab v ms @ [m])) s0) sub"
    using Some s0(1) by (simp add: splitMetric_def s0_def[symmetric] Let_def)
  show ?thesis unfolding e using assms(1) Some s0(2) by (auto simp: splitAs_def withLabel_def)
qed

text \<open>
  C19: Splitting a group partitions its slice: there is one sub-group per value of the label that occurs,
  holding exactly the metrics with that value in their order, together with all the other metrics of the
  group; metrics without the label are in no sub-group.
\<close>

theorem splitGroup_partition:
  assumes "wfmap raw" "name = (if sliceName = [] then gl else sliceName)" "mget raw name = Some (VMetrics ms)"
  shows "\<exists>sub. splitGroup raw sliceName gl lab = Ok sub \<and> wfmap sub
    \<and> (\<forall>v. mhas sub v \<longleftrightarrow> withLabel lab v ms \<noteq> [])
    \<and> (\<forall>v sg. mget sub v = Some sg \<longrightarrow> mget sg name = Some (VMetrics (withLabel lab v ms)) \<and> (\<forall>k. k \<noteq> name \<longrightarrow> mget sg k = mget raw k))"
proof -
  have "splitAs raw name lab ms (foldl (splitMetric raw name lab) [] ms)"
    by (induction ms rule: rev_induct)
       (simp_all add: splitMetric_step[OF _ assms(1)], simp add: splitAs_def withLabel_def mhas_def)
  then show ?thesis using assms(2,3) by (auto simp: splitGroup_def asSlice_def splitAs_def Let_def)
qed

theorem splitGroup_partition_witness:
  "\<exists>sub. splitGroup [(''kube_resourcequota'', VMetrics [\<lparr>Labels = [(''resource'', ''pods'')], MValue = GaugeValue (Fin 1)\<rparr>])]
      ''kube_resourcequota'' ''resourcequota'' ''resource'' = Ok sub \<and> mhas sub ''pods''"
  using splitGroup_partition[of "[(''kube_resourcequota'', VMetrics [\<lparr>Labels = [(''resource'', ''pods'')], MValue = GaugeValue (Fin 1)\<rparr>])]"
      "''kube_resourcequota''" "''kube_resourcequota''" "''resourcequota''" "[\<lparr>Labels = [(''resource'', ''pods'')], MValue = GaugeValue (Fin 1)\<rparr>]" "''resource''"]
  by (auto simp: wfmap_def withLabel_def)

section \<open>Errors of a metric set\<close>

text \<open>What a specification contributes when the SDK accepts every metric.\<close>

definition produces :: "goval result \<Rightarrow> bool" where
  "produces r = (case r of Ok v \<Rightarrow> v \<noteq> VNil \<and> v \<noteq> VFetched [] | _ \<Rightarrow> False)"

definition specError :: "'c spec \<Rightarrow> goval result \<Rightarrow> err list" where
  "specError sp r = (case r of Fail e \<Rightarrow> if Optional sp then [] else [Errorf ''cannot fetch value for metric %q: %w'' [SName sp] [e]] | _ \<Rightarrow> [])"

definition accepting :: "'i sdk \<Rightarrow> bool" where
  "accepting sdk \<longleftrightarrow> (\<forall>ms n v t i. fst (sdkSetMetric sdk ms n v t i) = None)"

lemma setMetrics_accepting: "accepting sdk \<Longrightarrow> \<exists>i. setMetrics sdk ms kvs t st = (Ok (True, None), st\<lparr>pInt := i\<rparr>)"
proof (induction kvs arbitrary: st)
  case (Cons kv kvs)
  obtain k v where kv: "kv = (k, v)" by force
  have "fst (sdkSetMetric sdk ms k v t (pInt st)) = None" using Cons.prems by (simp add: accepting_def)
  then obtain i where "sdkSetMetric sdk ms k v t (pInt st) = (None, i)" by (metis prod.collapse)
  moreover obtain j where "setMetrics sdk ms kvs t (st\<lparr>pInt := i\<rparr>) = (Ok (True, None), (st\<lparr>pInt := i\<rparr>)\<lparr>pInt := j\<rparr>)"
    using Cons by blast
  ultimately show ?case using kv by (auto simp: pop_simps)
next
  case Nil
  show ?case by (rule exI[of _ "pInt st"]) (simp add: pop_simps)
qed

lemma populateValue_accepting:
  assumes "accepting sdk" "v \<noteq> VNil"
  shows "\<exists>i. populateValue sdk ms sp v st = (Ok (produces (Ok v), None), st\<lparr>pInt := i\<rparr>)"
proof -
  have 1: "\<exists>i. populateSingleMetric sdk ms n v t st = (Ok (True, None), st\<lparr>pInt := i\<rparr>)" for n t
    using setMetrics_accepting[OF assms(1), of ms "[(n, v)]" t st]
    by (auto simp: populateSingleMetric_def pop_simps split: prod.splits option.splits)
  have 2: "\<exists>i. populateMetricsFromMap sdk ms fv t st = (Ok (fv \<noteq> [], None), st\<lparr>pInt := i\<rparr>)" for fv t
    using setMetrics_accepting[OF assms(1), of ms fv t st]
    by (auto simp: populateMetricsFromMap_def pop_simps intro: exI[of _ "pInt st"])
  show ?thesis using 1 2 assms(2) by (cases v) (auto simp: populateValue_def produces_def)
qed

definition pureSpec :: "string \<Rightarrow> string \<Rightarrow> rawgroups \<Rightarrow> 'c spec \<Rightarrow> bool" where
  "pureSpec gl eid groups sp \<longleftrightarrow> (\<exists>f. ValueFunc sp = liftFetch f \<and> \<not> is_panic (f gl eid groups))"

definition specResult :: "string \<Rightarrow> string \<Rightarrow> rawgroups \<Rightarrow> 'c \<Rightarrow> 'c spec \<Rightarrow> goval result" where
  "specResult gl eid groups c sp = fst (ValueFunc sp gl eid groups c)"

lemma specLoop_accepting:
  assumes "accepting sdk" "\<forall>sp \<in> set specs. pureSpec gl eid groups sp"
  shows "\<exists>i. specLoop sdk ms gl eid groups specs p errs st =
    (Ok (p \<or> (\<exists>sp \<in> set specs. produces (specResult gl eid groups (pCache st) sp)),
         errs @ concat (map (\<lambda>sp. specError sp (specResult gl eid groups (pCache st) sp)) specs)), st\<lparr>pInt := i\<rparr>)"
  using assms(2)
proof (induction specs arbitrary: p errs st)
  case (Cons sp specs)
  then obtain f where f: "ValueFunc sp = liftFetch f" "\<not> is_panic (f gl eid groups)" by (auto simp: pureSpec_def)
  have r: "specResult gl eid groups (pCache st) sp = f gl eid groups" using f by (simp add: specResult_def liftFetch_def)
  have fv: "fetchValue sp gl eid groups st = (Ok (f gl eid groups), st)" using f by (simp add: fetchValue_def liftFetch_def)
  note IH = Cons.IH[OF list.set_intros(2)[THEN Cons.prems[THEN bspec], THEN ballI]]
  show ?case
  proof (cases "f gl eid groups")
    case (Ok v)
    show ?thesis
    proof (cases "v = VNil")
      case True
      then show ?thesis using Ok fv r IH[of p errs st] by (simp add: pop_simps produces_def specError_def)
    next
      case False
      obtain i where i: "populateValue sdk ms sp v st = (Ok (produces (Ok v), None), st\<lparr>pInt := i\<rparr>)"
        using populateValue_accepting[OF assms(1) False] by blast
      then show ?thesis using Ok fv r False IH[of "if produces (Ok v) then True else p" errs "st\<lparr>pInt := i\<rparr>"]
        by (auto simp: pop_simps specError_def)
    qed
  next
    case (Fail e)
    then show ?thesis
      using fv r IH[of p "if \<not> Optional sp then errs @ [Errorf ''cannot fetch value for metric %q: %w'' [SName sp] [e]] else errs" st]
      by (auto simp: pop_simps produces_def specError_def)
  qed (use f in simp)
next
  case Nil
  show ?case by (rule exI[of _ "pInt st"]) (simp add: pop_simps)
qed

text \<open>
  When the SDK accepts every metric, a metric set reports one error for each specification that is
  not optional and could not be fetched, in their order, and none for the others; it counts as populated
  exactly when some specification produced a value.
\<close>

lemma metricSetPopulate_report:
  assumes "accepting sdk" "mget specs gl = Some sg" "\<forall>sp \<in> set (Specs sg). pureSpec gl eid groups sp"
  shows "\<exists>i. metricSetPopulate sdk ms gl eid groups specs st =
    (Ok (\<exists>sp \<in> set (Specs sg). produces (specResult gl eid groups (pCache st) sp),
         concat (map (\<lambda>sp. specError sp (specResult gl eid groups (pCache st) sp)) (Specs sg))), st\<lparr>pInt := i\<rparr>)"
  using specLoop_accepting[OF assms(1,3), of ms False "[]" st] assms(2) by (simp add: metricSetPopulate_def)

theorem metricSetPopulate_report_witness:
  "\<exists>i b e. metricSetPopulate recordSdk 0 ''pod'' ''x'' [] (CfgSpecs (exampleConfig (\<lambda>_. True))) \<lparr>pInt = [], pCache = (), pFilter = ()\<rparr>
     = (Ok (b, [e]), \<lparr>pInt = i, pCache = (), pFilter = ()\<rparr>)"
  using metricSetPopulate_report[of recordSdk "CfgSpecs (exampleConfig (\<lambda>_. True))" "''pod''"
      "snd (hd (CfgSpecs (exampleConfig (\<lambda>_. True))))" "''x''" "[]" 0 "\<lparr>pInt = [], pCache = (), pFilter = ()\<rparr>"]
  by (fastforce simp: accepting_def recordSdk_def exampleConfig_def pureSpec_def specError_def specResult_def liftFetch_def FromRaw_def)

end
