(* ===== verification/Scrape.thy ===== *)
theory Scrape
  imports Populator
begin

text \<open>
  \<open>src/scrape/scrape_job.go\<close>: a scrape job runs a grouper and hands its groups to the populator. The
  lemmas on \<open>Populate\<close> are proved once from the contract of the groupers and hold of the three groupers
  by their interpretations.
\<close>

section \<open>Jobs\<close>

record ('c, 'f) job =
  JName :: string
  JGrouper :: "'c specgroups \<Rightarrow> groupresult"
  JSpecs :: "'c specgroups"
  JFilterer :: "(string \<Rightarrow> 'f \<Rightarrow> bool \<times> 'f) option"

definition NewScrapeJob :: "string \<Rightarrow> ('c specgroups \<Rightarrow> groupresult) \<Rightarrow> 'c specgroups \<Rightarrow> (('c, 'f) job \<Rightarrow> ('c, 'f) job) list \<Rightarrow> ('c, 'f) job" where
  "NewScrapeJob name grouper specs options =
     foldl (\<lambda>j opt. opt j) \<lparr>JName = name, JGrouper = grouper, JSpecs = specs, JFilterer = None\<rparr> options"

definition JobWithFilterer :: "(string \<Rightarrow> 'f \<Rightarrow> bool \<times> 'f) \<Rightarrow> ('c, 'f) job \<Rightarrow> ('c, 'f) job" where
  "JobWithFilterer filterer j = j\<lparr>JFilterer := Some filterer\<rparr>"

definition ErrNoData :: err where "ErrNoData = errorsNew ''no data was populated''"

text \<open>
  A recoverable error group is only traced; the version is the \<open>GitVersion\<close> that \<open>version.Info\<close> prints.
\<close>

definition JobPopulate :: "'i sdk \<Rightarrow> ('c, 'f) job \<Rightarrow> string \<Rightarrow> string \<Rightarrow> string \<Rightarrow> (populateresult, 'i, 'c, 'f) pop" where
  "JobPopulate sdk s clusterName cloudClusterID k8sVersion st =
     (case JGrouper s (JSpecs s) of
        Panic p \<Rightarrow> (Panic p, st)
      | Fail e \<Rightarrow> (Fail e, st)
      | Ok (groups, errs) \<Rightarrow>
          if (case errs of Some e \<Rightarrow> \<not> Recoverable e | None \<Rightarrow> False)
          then (Ok \<lparr>PErrors = Errors (the errs), Populated = False\<rparr>, st)
          else
            pbind (IntegrationPopulator sdk
                \<lparr>ClusterName = clusterName, CloudClusterID = cloudClusterID, K8sVersion = k8sVersion,
                 CfgMsTypeGuesser = K8sMetricSetTypeGuesser, CfgGroups = groups, CfgSpecs = JSpecs s, Filterer = JFilterer s\<rparr>)
              (\<lambda>(ok, populateErrs).
                preturn (if length populateErrs > 0 then \<lparr>PErrors = populateErrs, Populated = ok\<rparr>
                         else if \<not> ok then \<lparr>PErrors = [ErrNoData], Populated = False\<rparr>
                         else \<lparr>PErrors = [], Populated = True\<rparr>)) st)"

section \<open>Outcomes\<close>

lemma populator_empty: "CfgGroups config = [] \<Longrightarrow> IntegrationPopulator sdk config st = (Ok (False, []), st)"
  by (simp add: IntegrationPopulator_def allEntities_def pop_simps)

text \<open>What a caller may rely on: success or an error, and no effect of a fatal grouping.\<close>

definition reported :: "populateresult \<Rightarrow> bool" where
  "reported r \<longleftrightarrow> Populated r \<or> PErrors r \<noteq> []"

context grouper_contract
begin

lemma populate_reported:
  assumes "JGrouper j = Group" and "JobPopulate sdk j cn cid v st = (Ok r, st')"
  shows "reported r"
proof (cases rule: group_cases[of "JSpecs j"])
  case (panic p)
  then show ?thesis using assms by (simp add: JobPopulate_def)
next
  case (clean groups)
  then show ?thesis using assms
    by (auto simp: JobPopulate_def pop_simps reported_def split: prod.splits result.splits if_splits)
next
  case (recoverable groups e)
  then show ?thesis using assms
    by (auto simp: JobPopulate_def pop_simps reported_def split: prod.splits result.splits if_splits)
next
  case (fatal e)
  then show ?thesis using assms by (auto simp: JobPopulate_def reported_def)
qed

lemma job_collects: "JGrouper j = Group \<Longrightarrow> collects (JobPopulate sdk j cn cid v)"
  unfolding collects_def using no_fail[of "JSpecs j"]
  by (cases rule: group_cases[of "JSpecs j"]) (auto simp: JobPopulate_def populate_collects)

lemma populate_changes:
  assumes "JGrouper j = Group" and "JobPopulate sdk j cn cid v st = (Ok r, st')" and "st' \<noteq> st"
  shows "\<exists>groups eo. Group (JSpecs j) = Ok (groups, eo) \<and> groups \<noteq> [] \<and> (case eo of Some e \<Rightarrow> Recoverable e | None \<Rightarrow> True)"
proof (cases rule: group_cases[of "JSpecs j"])
  case (panic p)
  then show ?thesis using assms by (simp add: JobPopulate_def)
next
  case (clean groups)
  then show ?thesis using assms
    by (cases "groups = []") (auto simp: JobPopulate_def populator_empty pop_simps)
next
  case (recoverable groups e)
  then show ?thesis using assms
    by (cases "groups = []") (auto simp: JobPopulate_def populator_empty pop_simps)
next
  case (fatal e)
  then show ?thesis using assms by (simp add: JobPopulate_def)
qed

lemma populate_outcome:
  assumes "JGrouper j = Group"
  shows "is_panic (fst (JobPopulate sdk j cn cid v st)) \<or>
    (\<exists>r st'. JobPopulate sdk j cn cid v st = (Ok r, st') \<and> (Populated r \<or> PErrors r \<noteq> []) \<and>
      (st' \<noteq> st \<longrightarrow> (\<exists>groups eo. JGrouper j (JSpecs j) = Ok (groups, eo) \<and> groups \<noteq> [] \<and>
        (case eo of Some e \<Rightarrow> Recoverable e | None \<Rightarrow> True))))"
proof (cases "JobPopulate sdk j cn cid v st")
  case (Pair r st')
  have "r \<noteq> Fail e" for e using job_collects[OF assms] Pair unfolding collects_def by (metis fst_conv)
  then show ?thesis
  proof (cases r)
    case (Ok a)
    then show ?thesis using Pair populate_reported[OF assms, of sdk cn cid v st a st'] populate_changes[OF assms, of sdk cn cid v st a st'] assms
      unfolding reported_def by auto
  qed (use Pair in auto)
qed

end

text \<open>The groupers a job can have: of the kubelet, of kube-state-metrics and of a control-plane component.\<close>

definition integrationGrouper :: "('c specgroups \<Rightarrow> groupresult) \<Rightarrow> bool" where
  "integrationGrouper g \<longleftrightarrow> (\<exists>c. g = kubeletGroup c) \<or> (\<exists>c. g = ksmGroup c) \<or> (\<exists>c. g = controlplaneGroup c)"

text \<open>
  C7: A scrape job of any of the three groupers is never silent: unless something it calls panics it
  returns a result, which either populated data or reports at least one error, and it touches the integration, the
  caches and the filter only when its grouper returned groups without a fatal error.
\<close>

theorem JobPopulate_outcome:
  assumes "integrationGrouper (JGrouper j)"
  shows "is_panic (fst (JobPopulate sdk j cn cid v st)) \<or>
    (\<exists>r st'. JobPopulate sdk j cn cid v st = (Ok r, st') \<and> (Populated r \<or> PErrors r \<noteq> []) \<and>
      (st' \<noteq> st \<longrightarrow> (\<exists>groups eo. JGrouper j (JSpecs j) = Ok (groups, eo) \<and> groups \<noteq> [] \<and>
        (case eo of Some e \<Rightarrow> Recoverable e | None \<Rightarrow> True))))"
proof -
  consider (k) c where "JGrouper j = kubeletGroup c" | (s) c where "JGrouper j = ksmGroup c"
    | (p) c where "JGrouper j = controlplaneGroup c"
    using assms by (auto simp: integrationGrouper_def)
  then show ?thesis
  proof cases
    case k
    then show ?thesis using kubelet.populate_outcome by blast
  next
    case s
    then show ?thesis using ksm.populate_outcome by blast
  next
    case p
    then show ?thesis using controlplane.populate_outcome by blast
  qed
qed

definition silentJob :: "(unit, unit) job" where
  "silentJob = NewScrapeJob ''ksm'' (ksmGroup \<lparr>Queries = [], MetricFamiliesGetter = (\<lambda>_. Ok []), ServicesLister = Ok [], EnableResourceQuotaSamples = False\<rparr>) [] []"

theorem JobPopulate_outcome_witness:
  "\<exists>r. JobPopulate recordSdk silentJob ''cl'' [] ''v1'' \<lparr>pInt = [], pCache = (), pFilter = ()\<rparr> = (Ok r, \<lparr>pInt = [], pCache = (), pFilter = ()\<rparr>)
    \<and> (Populated r \<or> PErrors r \<noteq> [])"
proof -
  have g: "integrationGrouper (JGrouper silentJob)" by (auto simp: integrationGrouper_def silentJob_def NewScrapeJob_def)
  have p: "JobPopulate recordSdk silentJob ''cl'' [] ''v1'' \<lparr>pInt = [], pCache = (), pFilter = ()\<rparr>
    = (Ok \<lparr>PErrors = [ErrNoData], Populated = False\<rparr>, \<lparr>pInt = [], pCache = (), pFilter = ()\<rparr>)"
    by (simp add: silentJob_def JobPopulate_def NewScrapeJob_def ksmGroup_def GroupMetricsBySpec_def populator_empty pop_simps)
  show ?thesis
    using JobPopulate_outcome[OF g, of recordSdk "''cl''" "[]" "''v1''" "\<lparr>pInt = [], pCache = (), pFilter = ()\<rparr>"] p by auto
qed

text \<open>
  C40: One entry of the stats summary without an identifier makes the kubelet grouper return no groups
  at all, with an error group that is marked as recoverable. The job then reports only that no data was
  populated: the data of the other pods and of the node is lost, and the errors of the grouper are in
  no result.
\<close>

theorem kubelet_summary_error_drops_all:
  assumes "JGrouper j = kubeletGroup cfg"
    and "runFetchers (Fetchers cfg) [(''network'', [(''interfaces'', [(''default'', VString (DefaultNetworkInterface cfg))])])] = Ok rg"
    and "GetMetricsData (SummaryDecode cfg) (HTTPGet cfg) = Ok response" and "snd (GroupStatsSummary (Some response)) \<noteq> []"
  shows "JobPopulate sdk j cn cid v st = (Ok \<lparr>PErrors = [ErrNoData], Populated = False\<rparr>, st)"
proof -
  obtain e es where "snd (GroupStatsSummary (Some response)) = e # es" using assms(4) by (cases "snd (GroupStatsSummary (Some response))") auto
  then have "JGrouper j (JSpecs j) = Ok ([], Some \<lparr>Recoverable = True, Errors = e # es\<rparr>)"
    using kubeletGroup_summary_error[OF assms(2,3)] assms(1) by metis
  then show ?thesis by (simp add: JobPopulate_def populator_empty pop_simps)
qed

definition exampleJob :: "(unit, unit) job" where
  "exampleJob = NewScrapeJob ''kubelet'' (kubeletGroup exampleKubelet) [] [JobWithFilterer (\<lambda>ns s. (True, s))]"

theorem kubelet_summary_error_drops_all_witness:
  "JobPopulate recordSdk exampleJob ''cl'' [] ''v1'' \<lparr>pInt = [], pCache = (), pFilter = ()\<rparr>
    = (Ok \<lparr>PErrors = [ErrNoData], Populated = False\<rparr>, \<lparr>pInt = [], pCache = (), pFilter = ()\<rparr>)"
proof -
  let ?s = "exampleSummary\<lparr>SNode := (SNode exampleSummary)\<lparr>NodeName := []\<rparr>\<rparr>"
  have e: "snd (GroupStatsSummary (Some ?s)) \<noteq> []" by code_simp
  have f: "runFetchers (Fetchers exampleKubelet) [(''network'', [(''interfaces'', [(''default'', VString (DefaultNetworkInterface exampleKubelet))])])]
      = Ok [(''network'', [(''interfaces'', [(''default'', VString ''eth0'')])])]"
    by (simp add: exampleKubelet_def)
  have m: "GetMetricsData (SummaryDecode exampleKubelet) (HTTPGet exampleKubelet) = Ok ?s"
    by (simp add: exampleKubelet_def GetMetricsData_def)
  have "JGrouper exampleJob = kubeletGroup exampleKubelet" by (simp add: exampleJob_def NewScrapeJob_def JobWithFilterer_def)
  then show ?thesis by (rule kubelet_summary_error_drops_all[OF _ f m e])
qed

end
