(* ===== verification/Filter_Simulation.thy ===== *)
theory Filter_Simulation
  imports Scrape
begin

text \<open>
  Two runs of the populator with filters that give the same answers: whatever state the filters keep,
  the results, the integration and the caches of the fetch functions are the same. The relation is a
  simulation over the operations of the populator, and the rules below carry it from the primitive
  operations to a whole scrape job.
\<close>

section \<open>The relation\<close>

definition related :: "('f \<Rightarrow> 'g \<Rightarrow> bool) \<Rightarrow> ('i, 'c, 'f) popstate \<Rightarrow> ('i, 'c, 'g) popstate \<Rightarrow> bool" where
  "related R s t \<longleftrightarrow> pInt s = pInt t \<and> pCache s = pCache t \<and> R (pFilter s) (pFilter t)"

definition simulates :: "('f \<Rightarrow> 'g \<Rightarrow> bool) \<Rightarrow> ('a, 'i, 'c, 'f) pop \<Rightarrow> ('a, 'i, 'c, 'g) pop \<Rightarrow> bool" where
  "simulates R m n \<longleftrightarrow> (\<forall>s t. related R s t \<longrightarrow> fst (m s) = fst (n t) \<and> related R (snd (m s)) (snd (n t)))"

lemma simulatesD:
  assumes "simulates R m n" "R f g"
  shows "\<exists>r i' c' f' g'. m \<lparr>pInt = i, pCache = c, pFilter = f\<rparr> = (r, \<lparr>pInt = i', pCache = c', pFilter = f'\<rparr>) \<and>
    n \<lparr>pInt = i, pCache = c, pFilter = g\<rparr> = (r, \<lparr>pInt = i', pCache = c', pFilter = g'\<rparr>) \<and> R f' g'"
proof -
  have "related R \<lparr>pInt = i, pCache = c, pFilter = f\<rparr> \<lparr>pInt = i, pCache = c, pFilter = g\<rparr>" using assms(2) by (simp add: related_def)
  then have *: "fst (m \<lparr>pInt = i, pCache = c, pFilter = f\<rparr>) = fst (n \<lparr>pInt = i, pCache = c, pFilter = g\<rparr>)"
    "related R (snd (m \<lparr>pInt = i, pCache = c, pFilter = f\<rparr>)) (snd (n \<lparr>pInt = i, pCache = c, pFilter = g\<rparr>))"
    using assms(1) unfolding simulates_def by blast+
  obtain r i' c' f' where m: "m \<lparr>pInt = i, pCache = c, pFilter = f\<rparr> = (r, \<lparr>pInt = i', pCache = c', pFilter = f'\<rparr>)"
    by (metis popstate.cases prod.collapse)
  obtain r2 i2 c2 g' where n: "n \<lparr>pInt = i, pCache = c, pFilter = g\<rparr> = (r2, \<lparr>pInt = i2, pCache = c2, pFilter = g'\<rparr>)"
    by (metis popstate.cases prod.collapse)
  show ?thesis using * unfolding m n by (simp add: related_def)
qed

named_theorems sim_intros

lemma sim_preturn [sim_intros]: "simulates R (preturn a) (preturn a)"
  by (simp add: simulates_def preturn_def)

lemma sim_panic [sim_intros]: "simulates R (\<lambda>st. (Panic p, st)) (\<lambda>st. (Panic p, st))"
  by (simp add: simulates_def)

lemma sim_pbind [sim_intros]:
  assumes m: "simulates R m n" and f: "\<And>a. simulates R (f a) (g a)"
  shows "simulates R (pbind m f) (pbind n g)"
  unfolding simulates_def
proof (intro allI impI)
  fix s :: "('c, 'd, 'a) popstate" and t :: "('c, 'd, 'b) popstate"
  assume st: "related R s t"
  obtain r s' where ms: "m s = (r, s')" by force
  moreover obtain r' t' where "n t = (r', t')" by force
  ultimately have nt: "n t = (r, t')" and st': "related R s' t'" using m st unfolding simulates_def by force+
  show "fst (pbind m f s) = fst (pbind n g t) \<and> related R (snd (pbind m f s)) (snd (pbind n g t))"
    using f st' by (cases r) (simp_all add: pbind_def ms nt simulates_def)
qed

lemma sim_onInt [sim_intros]: "simulates R (onInt f) (onInt f)"
  by (simp add: simulates_def onInt_def related_def split: prod.split)

lemma sim_fetchValue [sim_intros]: "simulates R (fetchValue sp gl eid gs) (fetchValue sp gl eid gs)"
  by (simp add: simulates_def fetchValue_def related_def split: prod.split)

section \<open>Operations that do not filter\<close>

lemma sim_setMetrics [sim_intros]: "simulates R (setMetrics sdk ms kvs ty) (setMetrics sdk ms kvs ty)"
  by (induction kvs) (auto intro!: sim_intros split: option.split)

lemma sim_populateValue [sim_intros]: "simulates R (populateValue sdk ms sp v) (populateValue sdk ms sp v)"
  by (cases v)
     (auto simp: populateValue_def populateMetricsFromMap_def populateSingleMetric_def intro!: sim_intros split: option.split)

lemma sim_specLoop [sim_intros]:
  "simulates R (specLoop sdk ms gl eid gs specs p es) (specLoop sdk ms gl eid gs specs p es)"
proof (induction specs arbitrary: p es)
  case (Cons sp specs)
  then show ?case by (auto intro!: sim_intros split: result.split prod.split)
qed (simp add: sim_intros)

lemma sim_metricSetPopulate [sim_intros]:
  "simulates R (metricSetPopulate sdk ms gl eid gs specs) (metricSetPopulate sdk ms gl eid gs specs)"
  by (auto simp: metricSetPopulate_def intro!: sim_intros split: option.split)

lemma sim_populateCluster [sim_intros]: "simulates R (populateCluster sdk cn cid v) (populateCluster sdk cn cid v)"
  by (auto simp: populateCluster_def intro!: sim_intros split: result.split prod.split)

section \<open>Operations that filter\<close>

text \<open>Filters that agree on related states and keep them related.\<close>

definition agree :: "('f \<Rightarrow> 'g \<Rightarrow> bool) \<Rightarrow> (string \<Rightarrow> 'f \<Rightarrow> bool \<times> 'f) \<Rightarrow> (string \<Rightarrow> 'g \<Rightarrow> bool \<times> 'g) \<Rightarrow> bool" where
  "agree R f g \<longleftrightarrow> (\<forall>ns s t. R s t \<longrightarrow> fst (f ns s) = fst (g ns t) \<and> R (snd (f ns s)) (snd (g ns t)))"

text \<open>Configurations that only differ in their filters.\<close>

definition sameConfig :: "('f \<Rightarrow> 'g \<Rightarrow> bool) \<Rightarrow> ('c, 'f) popconfig \<Rightarrow> ('c, 'g) popconfig \<Rightarrow> bool" where
  "sameConfig R c d \<longleftrightarrow>
     ClusterName c = ClusterName d \<and> CloudClusterID c = CloudClusterID d \<and> K8sVersion c = K8sVersion d \<and>
     CfgMsTypeGuesser c = CfgMsTypeGuesser d \<and> CfgGroups c = CfgGroups d \<and> CfgSpecs c = CfgSpecs d \<and>
     rel_option (agree R) (Filterer c) (Filterer d)"

lemma sim_isAllowed: "agree R f g \<Longrightarrow> simulates R (isAllowed f ns) (isAllowed g ns)"
  by (auto simp: simulates_def isAllowed_def agree_def related_def split: prod.split)
     (metis fst_conv snd_conv)+

lemma sim_filterGroup:
  assumes "sameConfig R c d" shows "simulates R (filterGroup c sg gl r) (filterGroup d sg gl r)"
proof -
  have "rel_option (agree R) (Filterer c) (Filterer d)" using assms by (simp add: sameConfig_def)
  then show ?thesis
    by (cases rule: option.rel_cases; cases "NamespaceGetter sg")
       (auto simp: filterGroup_def Let_def intro!: sim_intros sim_isAllowed)
qed

lemma sameConfigD:
  "sameConfig R c d \<Longrightarrow> ClusterName c = ClusterName d \<and> CloudClusterID c = CloudClusterID d \<and> K8sVersion c = K8sVersion d \<and>
     CfgMsTypeGuesser c = CfgMsTypeGuesser d \<and> CfgGroups c = CfgGroups d \<and> CfgSpecs c = CfgSpecs d"
  by (simp add: sameConfig_def)

lemma same_units: "sameConfig R c d \<Longrightarrow> prepareProcessingUnits c sg gl eid r = prepareProcessingUnits d sg gl eid r"
proof -
  assume "sameConfig R c d"
  then have "CfgGroups c = CfgGroups d" "ClusterName c = ClusterName d" by (simp_all add: sameConfig_def)
  then show ?thesis unfolding prepareProcessingUnits_def by metis
qed

lemma sim_processUnit: "sameConfig R c d \<Longrightarrow> simulates R (processUnit sdk c sg gl as u) (processUnit sdk d sg gl as u)"
  unfolding processUnit_def entityAttributes_def
  by (drule sameConfigD, simp only:) (auto intro!: sim_intros split: result.split prod.split)

lemma sim_processEntities:
  "sameConfig R c d \<Longrightarrow> simulates R (processEntities sdk c sg gl as us) (processEntities sdk d sg gl as us)"
  by (induction us) (auto intro!: sim_intros sim_processUnit split: prod.split)

lemma sim_populateEntity:
  assumes "sameConfig R c d" shows "simulates R (populateEntity sdk c gl ent) (populateEntity sdk d gl ent)"
proof -
  have "CfgSpecs c = CfgSpecs d" using assms by (simp add: sameConfig_def)
  then show ?thesis
    by (auto simp: populateEntity_def same_units[OF assms]
        intro!: sim_intros sim_filterGroup[OF assms] sim_processEntities[OF assms] split: prod.split option.split result.split)
qed

lemma sim_populateEntities:
  "sameConfig R c d \<Longrightarrow> simulates R (populateEntities sdk c ents) (populateEntities sdk d ents)"
  by (induction ents) (auto intro!: sim_intros sim_populateEntity split: prod.split)

lemma sim_IntegrationPopulator:
  assumes "sameConfig R c d" shows "simulates R (IntegrationPopulator sdk c) (IntegrationPopulator sdk d)"
proof -
  have "CfgGroups c = CfgGroups d" "ClusterName c = ClusterName d" "CloudClusterID c = CloudClusterID d" "K8sVersion c = K8sVersion d"
    using assms by (simp_all add: sameConfig_def)
  then show ?thesis
    by (auto simp: IntegrationPopulator_def intro!: sim_intros sim_populateEntities[OF assms] split: prod.split)
qed

text \<open>Jobs that only differ in their filters.\<close>

lemma sim_JobPopulate:
  assumes "JGrouper j = JGrouper k" "JSpecs j = JSpecs k" "rel_option (agree R) (JFilterer j) (JFilterer k)"
  shows "simulates R (JobPopulate sdk j cn cid v) (JobPopulate sdk k cn cid v)"
proof (cases "JGrouper k (JSpecs k)")
  case (Ok ge)
  obtain groups errs where ge: "ge = (groups, errs)" by force
  let ?cfg = "\<lambda>f. \<lparr>ClusterName = cn, CloudClusterID = cid, K8sVersion = v, CfgMsTypeGuesser = K8sMetricSetTypeGuesser,
    CfgGroups = groups, CfgSpecs = JSpecs k, Filterer = f\<rparr>"
  have "sameConfig R (?cfg (JFilterer j)) (?cfg (JFilterer k))" using assms(3) by (simp add: sameConfig_def)
  note pop = sim_IntegrationPopulator[OF this]
  show ?thesis
  proof (cases "\<exists>e. errs = Some e \<and> \<not> Recoverable e")
    case True
    then show ?thesis using assms Ok ge by (auto simp: JobPopulate_def simulates_def)
  next
    case False
    then have run: "(case errs of Some e \<Rightarrow> \<not> Recoverable e | None \<Rightarrow> False) = False" by (auto split: option.split)
    show ?thesis
      unfolding JobPopulate_def assms(1,2) Ok ge result.case prod.case run if_False
      by (auto intro!: sim_intros pop split: prod.split)
  qed
qed (use assms in \<open>simp_all add: JobPopulate_def simulates_def\<close>)

end
