(* ===== verification/Discovery.thy ===== *)
theory Discovery
  imports Config Caches Retry Filter_Simulation
begin

text \<open>
  \<open>internal/discovery\<close>: the namespace filter with its cache and the discovery of endpoints. The listers
  and the label selectors of \<open>k8s.io\<close> are parameters. The populator takes a filter with a state; the
  cache of the filter is that state, and the main result of this theory is that it cannot be noticed.
\<close>

section \<open>Namespace filter\<close>

text \<open>\<open>labels.SelectorFromSet\<close> and \<open>labels.Parse\<close>.\<close>

record 'sel selectors =
  SelectorFromSet :: "(string, string) gomap \<Rightarrow> 'sel"
  LabelsParse :: "string \<Rightarrow> err + 'sel"

text \<open>The part of \<open>v1.Namespace\<close> that is read here or by a selector.\<close>

record knamespace =
  NsName :: string
  NsLabels :: "(string, string) gomap"

record 'sel namespacefilter =
  nfC :: "namespaceselector option"
  nfLister :: "'sel \<Rightarrow> err + knamespace list"

fun containsNamespace :: "string \<Rightarrow> knamespace list \<Rightarrow> bool" where
  "containsNamespace namespace [] = False"
| "containsNamespace namespace (n # ns) = (if NsName n = namespace then True else containsNamespace namespace ns)"

definition parseToStringMap :: "(string, goval) gomap \<Rightarrow> (string, string) gomap" where
  "parseToStringMap matchLabels =
     foldl (\<lambda>m (k, v). case v of VString val \<Rightarrow> mput k val m | _ \<Rightarrow> m) [] matchLabels"

definition matchNamespaceByLabels ::
  "'sel selectors \<Rightarrow> 'sel namespacefilter \<Rightarrow> (string, goval) gomap \<Rightarrow> string \<Rightarrow> bool" where
  "matchNamespaceByLabels lib nf matchLabels namespace =
     (case nfLister nf (SelectorFromSet lib (parseToStringMap matchLabels)) of
        Inl e \<Rightarrow> True
      | Inr namespaceList \<Rightarrow> containsNamespace namespace namespaceList)"

fun matchNamespaceByExpressions ::
  "'sel selectors \<Rightarrow> 'sel namespacefilter \<Rightarrow> expression list \<Rightarrow> string \<Rightarrow> bool" where
  "matchNamespaceByExpressions lib nf [] namespace = True"
| "matchNamespaceByExpressions lib nf (e # es) namespace =
     (case ExpressionString e of
        Ok val \<Rightarrow>
          (case LabelsParse lib val of
             Inl er \<Rightarrow> True
           | Inr selector \<Rightarrow>
               (case nfLister nf selector of
                  Inl er \<Rightarrow> True
                | Inr namespaceList \<Rightarrow>
                    if \<not> containsNamespace namespace namespaceList then False
                    else matchNamespaceByExpressions lib nf es namespace))
      | _ \<Rightarrow> True)"

definition IsAllowed :: "'sel selectors \<Rightarrow> 'sel namespacefilter \<Rightarrow> string \<Rightarrow> bool" where
  "IsAllowed lib nf namespace =
     (case nfC nf of
        None \<Rightarrow> True
      | Some c \<Rightarrow>
          (case MatchLabels c of
             Some matchLabels \<Rightarrow> matchNamespaceByLabels lib nf matchLabels namespace
           | None \<Rightarrow>
               (case MatchExpressions c of
                  Some es \<Rightarrow> matchNamespaceByExpressions lib nf es namespace
                | None \<Rightarrow> True)))"

section \<open>Cache of the filter\<close>

record nsstore =
  nsCache :: "(string, bool) gomap"

definition NewNamespaceInMemoryStore :: nsstore where
  "NewNamespaceInMemoryStore = \<lparr>nsCache = []\<rparr>"

definition NsPut :: "string \<Rightarrow> bool \<Rightarrow> nsstore \<Rightarrow> nsstore" where
  "NsPut namespace match m = m\<lparr>nsCache := mput namespace match (nsCache m)\<rparr>"

definition NsMatch :: "nsstore \<Rightarrow> string \<Rightarrow> bool option" where
  "NsMatch m namespace = mget (nsCache m) namespace"

definition NsVacuum :: "nsstore \<Rightarrow> nsstore" where
  "NsVacuum m = m\<lparr>nsCache := []\<rparr>"

definition CachedIsAllowed :: "(string \<Rightarrow> bool) \<Rightarrow> string \<Rightarrow> nsstore \<Rightarrow> bool \<times> nsstore" where
  "CachedIsAllowed filt namespace cache =
     (case NsMatch cache namespace of
        Some match \<Rightarrow> (match, cache)
      | None \<Rightarrow> let match = filt namespace in (match, NsPut namespace match cache))"

interpretation nscache: swept_cache_contract NsMatch NsPut NewNamespaceInMemoryStore "\<lambda>_ :: unit. NsVacuum"
  by unfold_locales (auto simp: NsMatch_def NsPut_def NewNamespaceInMemoryStore_def NsVacuum_def)

section \<open>Endpoint slices\<close>

record sliceendpoint =
  Ready :: "bool option"
  Addresses :: "string list"

record endpointslice =
  SliceEndpoints :: "sliceendpoint list"
  SlicePorts :: "32 word option list"

text \<open>\<open>net.JoinHostPort\<close>.\<close>

definition JoinHostPort :: "string \<Rightarrow> string \<Rightarrow> string" where
  "JoinHostPort host port =
     (if CHR '':'' \<in> set host then ''['' @ host @ '']:'' @ port else host @ '':'' @ port)"

definition discoverPort ::
  "int \<Rightarrow> string \<Rightarrow> string list \<times> (string, unit) gomap \<Rightarrow> 32 word option \<Rightarrow> string list \<times> (string, unit) gomap" where
  "discoverPort dport address st port =
     (case (st, port) of
        (st, None) \<Rightarrow> st
      | ((hosts, seen), Some p) \<Rightarrow>
          if dport \<noteq> 0 \<and> dport \<noteq> sint p then (hosts, seen)
          else let host = JoinHostPort address (Itoa (sint p)) in
            if \<not> mhas seen host then (hosts @ [host], mput host () seen) else (hosts, seen))"

definition discoverEndpoint ::
  "int \<Rightarrow> endpointslice \<Rightarrow> string list \<times> (string, unit) gomap \<Rightarrow> sliceendpoint \<Rightarrow> string list \<times> (string, unit) gomap" where
  "discoverEndpoint dport sl st endpoint =
     (if Ready endpoint = Some False then st
      else foldl (\<lambda>st address. foldl (discoverPort dport address) st (SlicePorts sl)) st (Addresses endpoint))"

definition SliceDiscover :: "(err + endpointslice list) \<Rightarrow> int \<Rightarrow> err + string list" where
  "SliceDiscover listed dport =
     (case listed of
        Inl e \<Rightarrow> Inl (Errorf ''listing endpointslices: %w'' [] [e])
      | Inr slices \<Rightarrow>
          Inr (sort (fst (foldl (\<lambda>st sl. foldl (discoverEndpoint dport sl) st (SliceEndpoints sl)) ([], []) slices))))"

section \<open>Discovery with a timeout\<close>

definition ErrDiscoveryTimeout :: err where
  "ErrDiscoveryTimeout = errorsNew ''timeout discovering endpoints''"

text \<open>One round of the loop that started at \<open>start\<close>.\<close>

definition discoverRound ::
  "'w clock \<Rightarrow> ('w \<Rightarrow> (err + string list) \<times> 'w) \<Rightarrow> int \<Rightarrow> int \<Rightarrow> int \<Rightarrow> 'w \<Rightarrow> ((err + string list) \<times> 'w) + 'w" where
  "discoverRound clk inner backoffDelay timeout start w =
     (if Now clk w - start < timeout then
        (case inner w of
           (Inl e, w') \<Rightarrow> Inl (Inl (Errorf ''discovering endpoints: %w'' [] [e]), w')
         | (Inr endpoints, w') \<Rightarrow>
             if length endpoints > 0 then Inl (Inr endpoints, w') else Inr (Sleep clk backoffDelay w'))
      else Inl (Inl ErrDiscoveryTimeout, w))"

definition DiscoverWithTimeout ::
  "'w clock \<Rightarrow> ('w \<Rightarrow> (err + string list) \<times> 'w) \<Rightarrow> int \<Rightarrow> int \<Rightarrow> 'w \<Rightarrow> ((err + string list) \<times> 'w) option" where
  "DiscoverWithTimeout clk inner backoffDelay timeout w =
     untilDone (discoverRound clk inner backoffDelay timeout (Now clk w)) w"

section \<open>What the filter selects\<close>

text \<open>The meaning of a selector, on the labels of a namespace; labels win over expressions.\<close>

definition labelsHold :: "(string, goval) gomap \<Rightarrow> (string, string) gomap \<Rightarrow> bool" where
  "labelsHold m ls \<longleftrightarrow> list_all (\<lambda>(k, v). case v of VString s \<Rightarrow> mget ls k = Some s | _ \<Rightarrow> False) m"

definition exprHolds :: "expression \<Rightarrow> (string, string) gomap \<Rightarrow> bool" where
  "exprHolds e ls \<longleftrightarrow>
     (ToLower (ExprOperator e) = ''in'' \<longleftrightarrow> (case mget ls (ExprKey e) of Some s \<Rightarrow> VString s \<in> set (ExprValues e) | None \<Rightarrow> False))"

definition unrestricted :: "namespaceselector \<Rightarrow> bool" where
  "unrestricted c \<longleftrightarrow> MatchLabels c = None \<and> (MatchExpressions c = None \<or> MatchExpressions c = Some [])"

definition selectorHolds :: "namespaceselector \<Rightarrow> (string, string) gomap \<Rightarrow> bool" where
  "selectorHolds c ls \<longleftrightarrow>
     (case MatchLabels c of
        Some m \<Rightarrow> labelsHold m ls
      | None \<Rightarrow> (case MatchExpressions c of Some es \<Rightarrow> (\<forall>e \<in> set es. exprHolds e ls) | None \<Rightarrow> True))"

text \<open>An operator that is not known ends the evaluation: its expression and those behind it do not count.\<close>

definition knownOperator :: "expression \<Rightarrow> bool" where
  "knownOperator e \<longleftrightarrow> ToLower (ExprOperator e) \<in> {''in'', ''notin''}"

definition effective :: "namespaceselector \<Rightarrow> namespaceselector" where
  "effective c = c\<lparr>MatchExpressions := map_option (takeWhile knownOperator) (MatchExpressions c)\<rparr>"

definition selectsNamespace :: "namespaceselector \<Rightarrow> knamespace list \<Rightarrow> string \<Rightarrow> bool" where
  "selectsNamespace c nss ns \<longleftrightarrow> unrestricted (effective c) \<or> (\<exists>n \<in> set nss. NsName n = ns \<and> selectorHolds (effective c) (NsLabels n))"

text \<open>
  The syntax of Kubernetes labels: names and values of at most 63 characters that begin and end with a letter or a digit, and
  keys with an optional prefix, a DNS subdomain.
\<close>

definition labelAlnum :: "char \<Rightarrow> bool" where
  "labelAlnum c \<longleftrightarrow> isLower c \<or> isUpper c \<or> isDigit c"

definition labelName :: "string \<Rightarrow> bool" where
  "labelName s \<longleftrightarrow> s \<noteq> [] \<and> length s \<le> 63 \<and> list_all (\<lambda>c. labelAlnum c \<or> c \<in> set ''-_.'') s \<and> labelAlnum (hd s) \<and> labelAlnum (last s)"

definition labelPrefix :: "string \<Rightarrow> bool" where
  "labelPrefix s \<longleftrightarrow> length s \<le> 253 \<and>
     list_all (\<lambda>l. labelName l \<and> list_all (\<lambda>c. isLower c \<or> isDigit c \<or> c = CHR ''-'') l) (splitOn (CHR ''.'') s)"

definition labelKey :: "string \<Rightarrow> bool" where
  "labelKey k \<longleftrightarrow> k \<noteq> ''in'' \<and> k \<noteq> ''notin'' \<and>
     (case splitOn (CHR ''/'') k of [n] \<Rightarrow> labelName n | [p, n] \<Rightarrow> labelPrefix p \<and> labelName n | _ \<Rightarrow> False)"

definition operatorWord :: "string \<Rightarrow> bool" where
  "operatorWord op \<longleftrightarrow> op \<noteq> [] \<and> list_all isLower op"

definition expressionWF :: "expression \<Rightarrow> bool" where
  "expressionWF e \<longleftrightarrow> labelKey (ExprKey e) \<and> operatorWord (ToLower (ExprOperator e)) \<and> ExprValues e \<noteq> [] \<and>
     list_all (\<lambda>v. case v of VString s \<Rightarrow> labelName s | _ \<Rightarrow> False) (ExprValues e)"

definition selectorWF :: "namespaceselector \<Rightarrow> bool" where
  "selectorWF c \<longleftrightarrow>
     (case MatchLabels c of Some m \<Rightarrow> wfmap m | None \<Rightarrow> True) \<and>
     (case MatchExpressions c of Some es \<Rightarrow> list_all expressionWF es | None \<Rightarrow> True)"

text \<open>
  What \<open>k8s.io\<close> documents: the lister lists the namespaces that a selector matches or fails, a selector made from a set wants
  each of its labels, and the parser reads \<open>key in (a,b)\<close> as one of the values, \<open>key notin (a,b)\<close> as none of them, and
  no other word as an operator.
\<close>

definition listsMatching :: "('sel \<Rightarrow> (string, string) gomap \<Rightarrow> bool) \<Rightarrow> 'sel namespacefilter \<Rightarrow> knamespace list \<Rightarrow> bool" where
  "listsMatching matches nf nss \<longleftrightarrow>
     distinct (map NsName nss) \<and> (\<forall>sel. (\<exists>e. nfLister nf sel = Inl e) \<or> nfLister nf sel = Inr (filter (\<lambda>n. matches sel (NsLabels n)) nss))"

definition wantsLabels :: "'sel selectors \<Rightarrow> ('sel \<Rightarrow> (string, string) gomap \<Rightarrow> bool) \<Rightarrow> bool" where
  "wantsLabels lib matches \<longleftrightarrow> (\<forall>m ls. matches (SelectorFromSet lib m) ls \<longleftrightarrow> (\<forall>(k, s) \<in> set m. mget ls k = Some s))"

definition parsesRequirements :: "'sel selectors \<Rightarrow> ('sel \<Rightarrow> (string, string) gomap \<Rightarrow> bool) \<Rightarrow> bool" where
  "parsesRequirements lib matches \<longleftrightarrow>
     (\<forall>k vs. labelKey k \<longrightarrow> vs \<noteq> [] \<longrightarrow> list_all labelName vs \<longrightarrow>
        (\<exists>sel. LabelsParse lib (k @ '' in ('' @ joinWith '','' vs @ '')'') = Inr sel \<and> (\<forall>ls. matches sel ls \<longleftrightarrow> (\<exists>v \<in> set vs. mget ls k = Some v))) \<and>
        (\<exists>sel. LabelsParse lib (k @ '' notin ('' @ joinWith '','' vs @ '')'') = Inr sel \<and> (\<forall>ls. matches sel ls \<longleftrightarrow> (\<forall>v \<in> set vs. mget ls k \<noteq> Some v))) \<and>
        (\<forall>op. operatorWord op \<longrightarrow> op \<notin> {''in'', ''notin''} \<longrightarrow>
           (\<exists>e. LabelsParse lib (k @ '' '' @ op @ '' ('' @ joinWith '','' vs @ '')'') = Inl e)))"

lemma labelsHold_iff: "labelsHold m ls \<longleftrightarrow> (\<forall>(k, v) \<in> set m. \<exists>s. v = VString s \<and> mget ls k = Some s)"
  unfolding labelsHold_def list_all_iff by (intro ball_cong refl) (auto split: goval.splits)

lemma exprHolds_iff:
  "exprHolds e ls \<longleftrightarrow> (ToLower (ExprOperator e) = ''in'' \<longleftrightarrow> (\<exists>s. mget ls (ExprKey e) = Some s \<and> VString s \<in> set (ExprValues e)))"
  by (auto simp: exprHolds_def split: option.split)

lemma containsNamespace_iff: "containsNamespace ns l \<longleftrightarrow> (\<exists>n \<in> set l. NsName n = ns)"
  by (induction l) auto

lemma parseToStringMap_strings:
  assumes "wfmap m" "map snd m = map VString ss"
  shows "map (\<lambda>(k, s). (k, VString s)) (parseToStringMap m) = m"
proof -
  let ?f = "\<lambda>acc (k, v). case v of VString val \<Rightarrow> mput k val acc | _ \<Rightarrow> acc"
  have "map (\<lambda>(k, s). (k, VString s)) (foldl ?f acc m) = map (\<lambda>(k, s). (k, VString s)) acc @ m"
    if "distinct (map fst (acc @ zip (map fst m) ss))" "map snd m = map VString ss" for acc
    using that
  proof (induction m arbitrary: acc ss)
    case (Cons kv m)
    then obtain k s ss' where kv: "kv = (k, VString s)" "ss = s # ss'" by (cases kv; cases ss) auto
    then have "mget acc k = None" using Cons.prems(1) by (auto simp: map_of_eq_None_iff)
    moreover have "distinct (map fst ((acc @ [(k, s)]) @ zip (map fst m) ss'))" using Cons.prems(1) kv by auto
    ultimately show ?case using Cons.IH[of "acc @ [(k, s)]" ss'] Cons.prems kv by (simp add: mput_fresh)
  qed simp
  from this[of "[]"] assms show ?thesis
    by (simp add: parseToStringMap_def wfmap_def) (metis length_map map_fst_zip)
qed

lemma matchByLabels_iff:
  assumes "listsMatching matches nf nss" "wantsLabels lib matches" "wfmap m" "map snd m = map VString ss"
  shows "(\<exists>n \<in> set nss. NsName n = ns \<and> labelsHold m (NsLabels n)) \<Longrightarrow> matchNamespaceByLabels lib nf m ns"
    and "matchNamespaceByLabels lib nf m ns \<Longrightarrow> \<nexists>sel e. nfLister nf sel = Inl e \<Longrightarrow> \<exists>n \<in> set nss. NsName n = ns \<and> labelsHold m (NsLabels n)"
proof -
  let ?p = "parseToStringMap m"
  have "(\<forall>(k, s) \<in> set ?p. mget ls k = Some s) \<longleftrightarrow> labelsHold (map (\<lambda>(k, s). (k, VString s)) ?p) ls" for ls
    by (auto simp: labelsHold_iff)
  then have m: "matches (SelectorFromSet lib ?p) ls \<longleftrightarrow> labelsHold m ls" for ls
    using assms(2) parseToStringMap_strings[OF assms(3,4)] by (simp add: wantsLabels_def)
  consider e where "nfLister nf (SelectorFromSet lib ?p) = Inl e"
    | "nfLister nf (SelectorFromSet lib ?p) = Inr (filter (\<lambda>n. matches (SelectorFromSet lib ?p) (NsLabels n)) nss)"
    using assms(1) unfolding listsMatching_def by blast
  then show "(\<exists>n \<in> set nss. NsName n = ns \<and> labelsHold m (NsLabels n)) \<Longrightarrow> matchNamespaceByLabels lib nf m ns"
    and "matchNamespaceByLabels lib nf m ns \<Longrightarrow> \<nexists>sel e. nfLister nf sel = Inl e \<Longrightarrow> \<exists>n \<in> set nss. NsName n = ns \<and> labelsHold m (NsLabels n)"
    by (cases, auto simp: matchNamespaceByLabels_def containsNamespace_iff m)+
qed

text \<open>What the parser makes of an expression that is printed.\<close>

lemma expression_parsed:
  assumes "parsesRequirements lib matches" "expressionWF e"
  shows "\<exists>s. ExpressionString e = Ok s \<and>
    (if knownOperator e then \<exists>sel. LabelsParse lib s = Inr sel \<and> (\<forall>ls. matches sel ls \<longleftrightarrow> exprHolds e ls) else \<exists>er. LabelsParse lib s = Inl er)"
proof -
  have str: "\<forall>v \<in> set (ExprValues e). v = VString (case v of VString s \<Rightarrow> s)" "list_all labelName (map (\<lambda>v. case v of VString s \<Rightarrow> s) (ExprValues e))"
    using assms(2) by (auto simp: expressionWF_def list_all_iff split: goval.splits)
  define vs where "vs = map (\<lambda>v. case v of VString s \<Rightarrow> s) (ExprValues e)"
  have vs: "ExprValues e = map VString vs" unfolding vs_def using str(1) by (simp add: map_idI)
  have wf: "labelKey (ExprKey e)" "operatorWord (ToLower (ExprOperator e))" "vs \<noteq> []" "list_all labelName vs"
    using assms(2) str(2) by (simp_all add: expressionWF_def vs_def)
  note law = assms(1)[unfolded parsesRequirements_def, rule_format, OF wf(1,3,4)]
  have mem: "VString x \<in> set (ExprValues e) \<longleftrightarrow> x \<in> set vs" for x using vs by auto
  consider (i) "ToLower (ExprOperator e) = ''in''" | (n) "ToLower (ExprOperator e) = ''notin''"
    | (o) "ToLower (ExprOperator e) \<notin> {''in'', ''notin''}" by blast
  then show ?thesis
  proof cases
    case i
    then show ?thesis using law ExpressionString_Ok[OF vs] by (auto simp: knownOperator_def exprHolds_iff mem)
  next
    case n
    then show ?thesis using law ExpressionString_Ok[OF vs] by (fastforce simp: knownOperator_def exprHolds_iff mem)
  next
    case o
    then show ?thesis using law wf(2) ExpressionString_Ok[OF vs] by (simp add: knownOperator_def)
  qed
qed

lemma matchByExpressions_iff:
  assumes "listsMatching matches nf nss" "parsesRequirements lib matches" "list_all expressionWF es"
  shows "(\<forall>e \<in> set (takeWhile knownOperator es). \<exists>n \<in> set nss. NsName n = ns \<and> exprHolds e (NsLabels n)) \<Longrightarrow> matchNamespaceByExpressions lib nf es ns"
    and "matchNamespaceByExpressions lib nf es ns \<Longrightarrow> \<nexists>sel e. nfLister nf sel = Inl e \<Longrightarrow>
      \<forall>e \<in> set (takeWhile knownOperator es). \<exists>n \<in> set nss. NsName n = ns \<and> exprHolds e (NsLabels n)"
proof -
  have step: "matchNamespaceByExpressions lib nf (e # es) ns \<longleftrightarrow>
      \<not> knownOperator e \<or>
      ((\<exists>n \<in> set nss. NsName n = ns \<and> exprHolds e (NsLabels n)) \<and> matchNamespaceByExpressions lib nf es ns)"
    if wf: "expressionWF e" and up: "\<nexists>sel er. nfLister nf sel = Inl er" for e es
  proof -
    obtain s where "ExpressionString e = Ok s"
      "if knownOperator e then \<exists>sel. LabelsParse lib s = Inr sel \<and> (\<forall>ls. matches sel ls \<longleftrightarrow> exprHolds e ls) else \<exists>er. LabelsParse lib s = Inl er"
      using expression_parsed[OF assms(2) wf] by blast
    moreover have "nfLister nf sel = Inr (filter (\<lambda>n. matches sel (NsLabels n)) nss)" for sel
      using assms(1) up unfolding listsMatching_def by blast
    ultimately show ?thesis by (cases "knownOperator e") (auto simp: containsNamespace_iff)
  qed
  have pass: "matchNamespaceByExpressions lib nf (e # es) ns"
    if wf: "expressionWF e" and ok: "knownOperator e \<Longrightarrow> (\<exists>n \<in> set nss. NsName n = ns \<and> exprHolds e (NsLabels n)) \<and> matchNamespaceByExpressions lib nf es ns" for e es
  proof -
    obtain s where s: "ExpressionString e = Ok s"
      "if knownOperator e then \<exists>sel. LabelsParse lib s = Inr sel \<and> (\<forall>ls. matches sel ls \<longleftrightarrow> exprHolds e ls) else \<exists>er. LabelsParse lib s = Inl er"
      using expression_parsed[OF assms(2) wf] by blast
    show ?thesis
    proof (cases "knownOperator e")
      case True
      then obtain sel where sel: "LabelsParse lib s = Inr sel" "\<forall>ls. matches sel ls \<longleftrightarrow> exprHolds e ls" using s(2) by auto
      have "(\<exists>er. nfLister nf sel = Inl er) \<or> nfLister nf sel = Inr (filter (\<lambda>n. matches sel (NsLabels n)) nss)"
        using assms(1) unfolding listsMatching_def by blast
      then show ?thesis using s(1) sel ok[OF True] by (auto simp: containsNamespace_iff)
    qed (use s in auto)
  qed
  show "(\<forall>e \<in> set (takeWhile knownOperator es). \<exists>n \<in> set nss. NsName n = ns \<and> exprHolds e (NsLabels n)) \<Longrightarrow> matchNamespaceByExpressions lib nf es ns"
    using assms(3) by (induction es) (auto intro!: pass simp del: matchNamespaceByExpressions.simps(2))
  show "matchNamespaceByExpressions lib nf es ns \<Longrightarrow> \<nexists>sel e. nfLister nf sel = Inl e \<Longrightarrow>
      \<forall>e \<in> set (takeWhile knownOperator es). \<exists>n \<in> set nss. NsName n = ns \<and> exprHolds e (NsLabels n)"
    using assms(3) by (induction es) (auto simp: step simp del: matchNamespaceByExpressions.simps(2))
qed

text \<open>When the lister fails, the namespace passes.\<close>

lemma IsAllowed_fails_open:
  assumes "\<forall>sel. \<exists>e. nfLister nf sel = Inl e" shows "IsAllowed lib nf ns"
proof -
  have fails: "nfLister nf sel \<noteq> Inr l" for sel l using assms by (metis sum.distinct(1))
  have "matchNamespaceByExpressions lib nf es ns" for es
    using fails by (cases es) (auto split: result.split sum.split)
  moreover have "matchNamespaceByLabels lib nf m ns" for m
    using fails by (auto simp: matchNamespaceByLabels_def split: sum.split)
  ultimately show ?thesis by (simp add: IsAllowed_def split: option.split)
qed

text \<open>
  C24: The filter lets a namespace pass exactly when the configuration has no criteria, or the namespace
  exists and its labels satisfy the selector: every label of \<open>matchLabels\<close> when it is given, every
  expression of \<open>matchExpressions\<close> otherwise, up to the first one whose operator is neither \<open>In\<close> nor \<open>NotIn\<close>. \<open>In\<close> asks for
  one of the values, \<open>NotIn\<close> for none of them. An error of the lister only ever lets more namespaces pass: a selected one always
  does, another one only when a listing fails, and every one does when all listings fail. The configuration is one
  that the check of the loader accepts, with keys and values in the syntax of labels.
\<close>

theorem IsAllowed_selects:
  assumes "listsMatching matches nf nss" "wantsLabels lib matches" "parsesRequirements lib matches"
    and "nfC nf = Some c" "stringsOnly c" "selectorWF c"
  shows "((\<nexists>sel e. nfLister nf sel = Inl e) \<longrightarrow> (IsAllowed lib nf ns \<longleftrightarrow> selectsNamespace c nss ns)) \<and>
    (selectsNamespace c nss ns \<longrightarrow> IsAllowed lib nf ns) \<and>
    ((\<forall>sel. \<exists>e. nfLister nf sel = Inl e) \<longrightarrow> IsAllowed lib nf ns)"
proof -
  have same: "n = n'" if "n \<in> set nss" "n' \<in> set nss" "NsName n = NsName n'" for n n'
    using assms(1) that by (auto simp: listsMatching_def distinct_map inj_on_def)
  have "(selectsNamespace c nss ns \<longrightarrow> IsAllowed lib nf ns) \<and>
      ((\<nexists>sel e. nfLister nf sel = Inl e) \<longrightarrow> IsAllowed lib nf ns \<longrightarrow> selectsNamespace c nss ns)"
  proof (cases "MatchLabels c")
    case (Some m)
    then obtain ss where ss: "map snd m = map VString ss" using assms(5) by (auto simp: stringsOnly_def)
    have wf: "wfmap m" using assms(6) Some by (simp add: selectorWF_def split: option.splits)
    show ?thesis
      using Some assms(4) matchByLabels_iff[OF assms(1,2) wf ss, of ns]
      by (simp add: IsAllowed_def selectsNamespace_def unrestricted_def effective_def selectorHolds_def)
  next
    case no_labels: None
    show ?thesis
    proof (cases "MatchExpressions c")
      case None
      then show ?thesis using no_labels assms(4) by (simp add: IsAllowed_def selectsNamespace_def unrestricted_def effective_def)
    next
      case (Some es)
      let ?es = "takeWhile knownOperator es"
      have wf: "list_all expressionWF es" using assms(6) Some no_labels by (simp add: selectorWF_def)
      have "(\<forall>e \<in> set ?es. \<exists>n \<in> set nss. NsName n = ns \<and> exprHolds e (NsLabels n))
          \<longleftrightarrow> ?es = [] \<or> (\<exists>n \<in> set nss. NsName n = ns \<and> (\<forall>e \<in> set ?es. exprHolds e (NsLabels n)))"
        using same by (cases ?es) (auto, metis)
      then have "selectsNamespace c nss ns \<longleftrightarrow> (\<forall>e \<in> set ?es. \<exists>n \<in> set nss. NsName n = ns \<and> exprHolds e (NsLabels n))"
        using Some no_labels by (simp add: selectsNamespace_def unrestricted_def effective_def selectorHolds_def)
      then show ?thesis
        using Some no_labels assms(4) matchByExpressions_iff[OF assms(1,3) wf, of ns] by (simp add: IsAllowed_def)
    qed
  qed
  then show ?thesis using IsAllowed_fails_open by blast
qed

text \<open>A library of selectors that are predicates on labels, with a parser of one requirement.\<close>

definition parseRequirement :: "string \<Rightarrow> err + ((string, string) gomap \<Rightarrow> bool)" where
  "parseRequirement s =
     (let k = takeWhile (\<lambda>c. c \<noteq> CHR '' '') s;
          op = takeWhile (\<lambda>c. c \<noteq> CHR '' '') (drop (length k + 1) s);
          vs = splitOn (CHR '','') (butlast (drop (length k + length op + 3) s))
      in if op = ''in'' then Inr (\<lambda>ls. list_ex (\<lambda>v. mget ls k = Some v) vs)
         else if op = ''notin'' then Inr (\<lambda>ls. list_all (\<lambda>v. mget ls k \<noteq> Some v) vs)
         else Inl (errorsNew ''unable to parse requirement''))"

lemma parseRequirement_parts:
  assumes "CHR '' '' \<notin> set k" "CHR '' '' \<notin> set op" "vs \<noteq> []" "\<forall>v \<in> set vs. CHR '','' \<notin> set v"
  shows "parseRequirement (k @ '' '' @ op @ '' ('' @ joinWith '','' vs @ '')'') =
     (if op = ''in'' then Inr (\<lambda>ls. list_ex (\<lambda>v. mget ls k = Some v) vs)
      else if op = ''notin'' then Inr (\<lambda>ls. list_all (\<lambda>v. mget ls k \<noteq> Some v) vs)
      else Inl (errorsNew ''unable to parse requirement''))"
proof -
  have word: "takeWhile (\<lambda>c. c \<noteq> CHR '' '') (w @ CHR '' '' # r) = w" if "CHR '' '' \<notin> set w" for w r :: string
    using that by (induction w) auto
  have "splitOn (CHR '','') (butlast (joinWith '','' vs @ '')'')) = vs" using splitOn_joinWith[OF assms(3,4)] by simp
  moreover have "drop (length k + length op + 3) (k @ '' '' @ op @ '' ('' @ joinWith '','' vs @ '')'') = joinWith '','' vs @ '')''"
    using append_eq_conv_conj[of "k @ '' '' @ op @ '' (''" "joinWith '','' vs @ '')''" "k @ '' '' @ op @ '' ('' @ joinWith '','' vs @ '')''"]
    by (simp add: numeral_3_eq_3 del: drop_append)
  moreover have "drop (length k + 1) (k @ '' '' @ op @ '' ('' @ joinWith '','' vs @ '')'') = op @ CHR '' '' # (CHR ''('' # joinWith '','' vs @ '')'')" by simp
  ultimately show ?thesis
    using word[OF assms(1), of "op @ '' ('' @ joinWith '','' vs @ '')''"] word[OF assms(2), of "CHR ''('' # joinWith '','' vs @ '')''"]
    by (simp add: parseRequirement_def Let_def)
qed

lemma labelName_chars: "labelName s \<Longrightarrow> c \<in> set s \<Longrightarrow> labelAlnum c \<or> c \<in> set ''-_.''"
  by (auto simp: labelName_def list_all_iff)

lemma label_no_space: "\<not> labelAlnum (CHR '' '')" "\<not> labelAlnum (CHR '','')"
  by (simp_all add: labelAlnum_def isLower_def isUpper_def isDigit_def)

lemma labelKey_no_space: "labelKey k \<Longrightarrow> CHR '' '' \<notin> set k"
proof
  assume k: "labelKey k" "CHR '' '' \<in> set k"
  have name: "CHR '' '' \<notin> set n" if "labelName n" for n using labelName_chars[OF that] label_no_space by auto
  have all: "\<forall>p \<in> set ps. CHR '' '' \<notin> set p \<Longrightarrow> d \<noteq> CHR '' '' \<Longrightarrow> CHR '' '' \<notin> set (joinWith [d] ps)" for d ps
    by (induction "[d]" ps rule: joinWith.induct) auto
  have pre: "CHR '' '' \<notin> set p" if "labelPrefix p" for p
    using that all[of "splitOn (CHR ''.'') p" "CHR ''.''"] name unfolding joinWith_splitOn by (auto simp: labelPrefix_def list_all_iff)
  have "\<forall>p \<in> set (splitOn (CHR ''/'') k). CHR '' '' \<notin> set p"
    using k(1) name pre by (auto simp: labelKey_def split: list.splits)
  from all[OF this, of "CHR ''/''", unfolded joinWith_splitOn] k(2) show False by simp
qed

definition predicateSelectors :: "((string, string) gomap \<Rightarrow> bool) selectors" where
  "predicateSelectors = \<lparr>SelectorFromSet = (\<lambda>m ls. \<forall>(k, s) \<in> set m. mget ls k = Some s), LabelsParse = parseRequirement\<rparr>"

lemma predicateSelectors_parse: "parsesRequirements predicateSelectors (\<lambda>p. p)"
  unfolding parsesRequirements_def
proof (intro allI impI)
  fix k vs
  assume a: "labelKey k" "vs \<noteq> []" "list_all labelName vs"
  have c: "\<forall>v \<in> set vs. CHR '','' \<notin> set v"
    using a(3) labelName_chars label_no_space by (fastforce simp: list_all_iff)
  have parse: "LabelsParse predicateSelectors (k @ '' '' @ op @ '' ('' @ joinWith '','' vs @ '')'') =
     (if op = ''in'' then Inr (\<lambda>ls. list_ex (\<lambda>v. mget ls k = Some v) vs)
      else if op = ''notin'' then Inr (\<lambda>ls. list_all (\<lambda>v. mget ls k \<noteq> Some v) vs)
      else Inl (errorsNew ''unable to parse requirement''))" if "CHR '' '' \<notin> set op" for op
    using parseRequirement_parts[OF labelKey_no_space[OF a(1)] that a(2) c] by (simp add: predicateSelectors_def)
  have op: "CHR '' '' \<notin> set op" if "operatorWord op" for op
    using that by (auto simp: operatorWord_def list_all_iff isLower_def)
  show "(\<exists>sel. LabelsParse predicateSelectors (k @ '' in ('' @ joinWith '','' vs @ '')'') = Inr sel \<and> (\<forall>ls. sel ls \<longleftrightarrow> (\<exists>v \<in> set vs. mget ls k = Some v))) \<and>
      (\<exists>sel. LabelsParse predicateSelectors (k @ '' notin ('' @ joinWith '','' vs @ '')'') = Inr sel \<and> (\<forall>ls. sel ls \<longleftrightarrow> (\<forall>v \<in> set vs. mget ls k \<noteq> Some v))) \<and>
      (\<forall>op. operatorWord op \<longrightarrow> op \<notin> {''in'', ''notin''} \<longrightarrow>
         (\<exists>e. LabelsParse predicateSelectors (k @ '' '' @ op @ '' ('' @ joinWith '','' vs @ '')'') = Inl e))"
    using parse[of "''in''"] parse[of "''notin''"] parse op by (simp add: list_ex_iff list_all_iff)
qed

definition exampleSelector :: namespaceselector where
  "exampleSelector = \<lparr>MatchLabels = None,
     MatchExpressions = Some [\<lparr>ExprKey = ''env'', ExprOperator = ''NotIn'', ExprValues = [VString ''dev'']\<rparr>]\<rparr>"

definition exampleNamespaces :: "knamespace list" where
  "exampleNamespaces =
     [\<lparr>NsName = ''a'', NsLabels = [(''env'', ''dev'')]\<rparr>, \<lparr>NsName = ''b'', NsLabels = []\<rparr>, \<lparr>NsName = ''c'', NsLabels = [(''env'', ''qa''), (''newrelic.com/scrape'', ''true'')]\<rparr>]"

definition listingFilter :: "namespaceselector \<Rightarrow> ((string, string) gomap \<Rightarrow> bool) namespacefilter" where
  "listingFilter c = \<lparr>nfC = Some c, nfLister = (\<lambda>sel. Inr (filter (\<lambda>n. sel (NsLabels n)) exampleNamespaces))\<rparr>"

definition exampleFilter :: "((string, string) gomap \<Rightarrow> bool) namespacefilter" where
  "exampleFilter = listingFilter exampleSelector"

text \<open>Two expressions, and behind them one with an unknown operator.\<close>

definition scrapeSelector :: namespaceselector where
  "scrapeSelector = \<lparr>MatchLabels = None,
     MatchExpressions = Some [\<lparr>ExprKey = ''newrelic.com/scrape'', ExprOperator = ''In'', ExprValues = [VString ''yes'', VString ''true'']\<rparr>,
       \<lparr>ExprKey = ''env'', ExprOperator = ''NotIn'', ExprValues = [VString ''dev'']\<rparr>,
       \<lparr>ExprKey = ''env'', ExprOperator = ''Exists'', ExprValues = [VString ''x'']\<rparr>]\<rparr>"

theorem IsAllowed_selects_witness:
  "map (IsAllowed predicateSelectors (listingFilter scrapeSelector)) [''a'', ''b'', ''c'', ''d''] = [False, False, True, False] \<and>
   map (IsAllowed predicateSelectors exampleFilter) [''a'', ''b'', ''c'', ''d''] = [False, True, True, False]"
proof -
  have use: "IsAllowed predicateSelectors (listingFilter c) ns \<longleftrightarrow> selectsNamespace c exampleNamespaces ns" if "stringsOnly c" "selectorWF c" for c ns
  proof -
    have "listsMatching (\<lambda>p. p) (listingFilter c) exampleNamespaces" by (simp add: listsMatching_def listingFilter_def exampleNamespaces_def)
    moreover have "wantsLabels predicateSelectors (\<lambda>p. p)" by (simp add: wantsLabels_def predicateSelectors_def)
    moreover have "nfC (listingFilter c) = Some c" by (simp add: listingFilter_def)
    ultimately show ?thesis
      using IsAllowed_selects[of "\<lambda>p. p" "listingFilter c" exampleNamespaces predicateSelectors c ns] predicateSelectors_parse that
      by (simp add: listingFilter_def)
  qed
  have one: "\<exists>ss. [VString s] = map VString ss" "\<exists>ss. [VString s, VString s'] = map VString ss" for s s'
    by (rule exI[of _ "[s]"], simp) (rule exI[of _ "[s, s']"], simp)
  have "selectorWF scrapeSelector" "selectorWF exampleSelector" by code_simp+
  moreover have "stringsOnly scrapeSelector" "stringsOnly exampleSelector" using one by (simp_all add: stringsOnly_def scrapeSelector_def exampleSelector_def)
  moreover have "map (selectsNamespace scrapeSelector exampleNamespaces) [''a'', ''b'', ''c'', ''d''] = [False, False, True, False]"
    "map (selectsNamespace exampleSelector exampleNamespaces) [''a'', ''b'', ''c'', ''d''] = [False, True, True, False]"
    by code_simp+
  ultimately show ?thesis by (simp add: use exampleFilter_def)
qed

section \<open>The cache of the filter cannot be noticed\<close>

text \<open>A cache whose entries are answers of the filter.\<close>

definition cacheOf :: "(string \<Rightarrow> bool) \<Rightarrow> nsstore \<Rightarrow> bool" where
  "cacheOf filt cache \<longleftrightarrow> (\<forall>ns b. NsMatch cache ns = Some b \<longrightarrow> b = filt ns)"

lemma cacheOf_step:
  assumes "cacheOf filt cache"
  shows "fst (CachedIsAllowed filt ns cache) = filt ns" "cacheOf filt (snd (CachedIsAllowed filt ns cache))"
  using assms by (auto simp: CachedIsAllowed_def cacheOf_def nscache.lookup_store Let_def split: option.split if_splits)

lemma cacheOf_fresh: "cacheOf filt NewNamespaceInMemoryStore" "cacheOf filt (NsVacuum cache)"
  by (simp_all add: cacheOf_def NsMatch_def NewNamespaceInMemoryStore_def NsVacuum_def)

text \<open>
  C17: The cache of the namespace filter is transparent to a whole scrape job. From a cache that only
  holds answers of the filter, in particular an empty or a vacuumed one, a job with the cached filter
  returns what it returns with the filter alone, makes the same calls of the SDK and leaves the same
  caches of the fetch functions, and the cache again only holds answers of the filter.
\<close>

theorem cachedFilter_transparent:
  assumes "cacheOf filt cache"
  shows "\<exists>r i c cache'.
    JobPopulate sdk (NewScrapeJob name grouper specs [JobWithFilterer (CachedIsAllowed filt)]) cn cid v
      \<lparr>pInt = i0, pCache = c0, pFilter = cache\<rparr> = (r, \<lparr>pInt = i, pCache = c, pFilter = cache'\<rparr>) \<and>
    JobPopulate sdk (NewScrapeJob name grouper specs [JobWithFilterer (\<lambda>ns s. (filt ns, s))]) cn cid v
      \<lparr>pInt = i0, pCache = c0, pFilter = ()\<rparr> = (r, \<lparr>pInt = i, pCache = c, pFilter = ()\<rparr>) \<and>
    cacheOf filt cache'"
proof -
  let ?R = "\<lambda>s (t :: unit). cacheOf filt s"
  let ?run = "JobPopulate sdk (NewScrapeJob name grouper specs [JobWithFilterer (CachedIsAllowed filt)]) cn cid v"
  let ?plain = "JobPopulate sdk (NewScrapeJob name grouper specs [JobWithFilterer (\<lambda>ns s. (filt ns, s))]) cn cid v"
  have "agree ?R (CachedIsAllowed filt) (\<lambda>ns s. (filt ns, s))" by (simp add: agree_def cacheOf_step)
  then have "simulates ?R ?run ?plain" by (intro sim_JobPopulate) (simp_all add: NewScrapeJob_def JobWithFilterer_def)
  from simulatesD[OF this assms, of i0 c0 "()"] show ?thesis by fastforce
qed

text \<open>A job over three pods of two namespaces, one of which the filter rejects.\<close>

definition namespacedGroup :: "unit specgroup" where
  "namespacedGroup =
     \<lparr>IDGenerator = None, TypeGenerator = Some (\<lambda>gl eid g cl. Ok (''k8s:'' @ cl @ '':pod'')),
      NamespaceGetter = Some (\<lambda>r. case mget r ''namespace'' of Some (VString ns) \<Rightarrow> ns | _ \<Rightarrow> []),
      MsTypeGuesser = None, Specs = [], SplitByLabel = [], SliceMetricName = []\<rparr>"

definition threePods :: rawgroups where
  "threePods =
     [(''pod'', [(''a_p'', [(''namespace'', VString ''a'')]), (''b_p'', [(''namespace'', VString ''b'')]), (''b_q'', [(''namespace'', VString ''b'')])])]"

definition filteredRun :: "(string \<Rightarrow> 'f \<Rightarrow> bool \<times> 'f) \<Rightarrow> 'f \<Rightarrow> populateresult result \<times> (sdkcall list, unit, 'f) popstate" where
  "filteredRun f st =
     JobPopulate recordSdk (NewScrapeJob ''ksm'' (\<lambda>_. Ok (threePods, None)) [(''pod'', namespacedGroup)] [JobWithFilterer f]) ''cl'' [] ''v1''
       \<lparr>pInt = [], pCache = (), pFilter = st\<rparr>"

theorem cachedFilter_transparent_witness:
  "filteredRun (CachedIsAllowed (\<lambda>ns. ns = ''b'')) NewNamespaceInMemoryStore =
     (Ok \<lparr>PErrors = [ErrNoData], Populated = False\<rparr>,
      \<lparr>pInt = [CallEntity ''b_p'' ''k8s:cl:pod'', CallAttributes 0 [(''clusterName'', ''cl''), (''displayName'', ''b_p'')], CallMetricSet 0 ''K8sPodSample'',
               CallEntity ''b_q'' ''k8s:cl:pod'', CallAttributes 3 [(''clusterName'', ''cl''), (''displayName'', ''b_q'')], CallMetricSet 3 ''K8sPodSample''],
       pCache = (), pFilter = \<lparr>nsCache = [(''a'', False), (''b'', True)]\<rparr>\<rparr>)"
proof -
  let ?c = "filteredRun (CachedIsAllowed (\<lambda>ns. ns = ''b'')) NewNamespaceInMemoryStore"
  let ?p = "filteredRun (\<lambda>ns s. (ns = ''b'', s)) ()"
  have "fst ?c = fst ?p \<and> pInt (snd ?c) = pInt (snd ?p) \<and> pCache (snd ?c) = pCache (snd ?p)"
    using cachedFilter_transparent[OF cacheOf_fresh(1), of recordSdk "''ksm''" "\<lambda>_. Ok (threePods, None)" "[(''pod'', namespacedGroup)]" "\<lambda>ns. ns = ''b''"
        "''cl''" "[]" "''v1''" "[]" "()"]
    by (auto simp: filteredRun_def)
  moreover have "fst ?p = Ok \<lparr>PErrors = [ErrNoData], Populated = False\<rparr>"
    "pInt (snd ?p) = [CallEntity ''b_p'' ''k8s:cl:pod'', CallAttributes 0 [(''clusterName'', ''cl''), (''displayName'', ''b_p'')], CallMetricSet 0 ''K8sPodSample'',
       CallEntity ''b_q'' ''k8s:cl:pod'', CallAttributes 3 [(''clusterName'', ''cl''), (''displayName'', ''b_q'')], CallMetricSet 3 ''K8sPodSample'']"
    by code_simp+
  moreover have "nsCache (pFilter (snd ?c)) = [(''a'', False), (''b'', True)]" by code_simp
  ultimately show ?thesis by (intro prod_eqI) simp_all
qed

section \<open>Discovered endpoints\<close>

text \<open>The addresses and ports that the discovery should return.\<close>

definition readyHosts :: "int \<Rightarrow> endpointslice list \<Rightarrow> string set" where
  "readyHosts dport slices =
     {JoinHostPort address (Itoa (sint p)) | sl ep address p.
        sl \<in> set slices \<and> ep \<in> set (SliceEndpoints sl) \<and> Ready ep \<noteq> Some False \<and> address \<in> set (Addresses ep) \<and>
        Some p \<in> set (SlicePorts sl) \<and> (dport = 0 \<or> dport = sint p)}"

text \<open>The two accumulators of the loops: the hosts so far, without repetition, and the set of them.\<close>

definition seenHosts :: "string list \<times> (string, unit) gomap \<Rightarrow> bool" where
  "seenHosts st \<longleftrightarrow> distinct (fst st) \<and> (\<forall>h. mhas (snd st) h \<longleftrightarrow> h \<in> set (fst st))"

lemma foldl_hosts:
  assumes "\<And>st x. seenHosts st \<Longrightarrow> seenHosts (f st x) \<and> set (fst (f st x)) = set (fst st) \<union> A x"
  shows "seenHosts st \<Longrightarrow> seenHosts (foldl f st xs) \<and> set (fst (foldl f st xs)) = set (fst st) \<union> (\<Union>x \<in> set xs. A x)"
  by (induction xs arbitrary: st) (use assms in auto)

lemma discoverPort_hosts:
  assumes "seenHosts st"
  shows "seenHosts (discoverPort dport address st port) \<and> set (fst (discoverPort dport address st port)) =
    set (fst st) \<union> {JoinHostPort address (Itoa (sint p)) | p. port = Some p \<and> (dport = 0 \<or> dport = sint p)}"
  using assms by (cases st; cases port) (auto simp: discoverPort_def seenHosts_def Let_def)

lemma discoverEndpoint_hosts:
  assumes "seenHosts st"
  shows "seenHosts (discoverEndpoint dport sl st ep) \<and> set (fst (discoverEndpoint dport sl st ep)) = set (fst st) \<union>
    {JoinHostPort address (Itoa (sint p)) | address p. Ready ep \<noteq> Some False \<and> address \<in> set (Addresses ep) \<and>
       Some p \<in> set (SlicePorts sl) \<and> (dport = 0 \<or> dport = sint p)}"
proof -
  have "seenHosts (foldl (\<lambda>st a. foldl (discoverPort dport a) st (SlicePorts sl)) st (Addresses ep)) \<and>
      set (fst (foldl (\<lambda>st a. foldl (discoverPort dport a) st (SlicePorts sl)) st (Addresses ep))) = set (fst st) \<union>
      (\<Union>a \<in> set (Addresses ep). \<Union>port \<in> set (SlicePorts sl).
         {JoinHostPort a (Itoa (sint p)) | p. port = Some p \<and> (dport = 0 \<or> dport = sint p)})"
    by (intro foldl_hosts discoverPort_hosts assms)
  then show ?thesis using assms by (auto simp: discoverEndpoint_def)
qed

text \<open>
  C35: The discovery of endpoint slices returns, sorted and without repetition, exactly the pairs of an
  address of an endpoint that is not marked as not ready and a port of its slice that passes the
  filter, whatever the order of the slices and however often a pair is listed.
\<close>

theorem SliceDiscover_exact:
  "\<exists>hosts. SliceDiscover (Inr slices) dport = Inr hosts \<and> sorted hosts \<and> distinct hosts \<and> set hosts = readyHosts dport slices"
proof -
  let ?st = "foldl (\<lambda>st sl. foldl (discoverEndpoint dport sl) st (SliceEndpoints sl)) ([], []) slices"
  have "seenHosts ?st \<and> set (fst ?st) = set (fst ([] :: string list, [] :: (string, unit) gomap)) \<union>
      (\<Union>sl \<in> set slices. \<Union>ep \<in> set (SliceEndpoints sl).
        {JoinHostPort address (Itoa (sint p)) | address p. Ready ep \<noteq> Some False \<and> address \<in> set (Addresses ep) \<and>
           Some p \<in> set (SlicePorts sl) \<and> (dport = 0 \<or> dport = sint p)})"
    by (intro foldl_hosts discoverEndpoint_hosts) (simp_all add: seenHosts_def mhas_def)
  then have "distinct (fst ?st)" "set (fst ?st) = readyHosts dport slices"
    by (auto simp: seenHosts_def readyHosts_def)
  then show ?thesis by (simp add: SliceDiscover_def)
qed

text \<open>
  The discovery with a timeout returns whenever its back-off is positive, the clock advances while
  it sleeps and the inner discovery takes no negative time. It returns endpoints only when there are
  some, the timeout error only once the timeout has passed, and otherwise the error of the inner
  discovery, wrapped.
\<close>

lemma DiscoverWithTimeout_returns:
  assumes "ticks clk" "forward clk inner" "0 < backoff"
  shows "\<exists>r w'. DiscoverWithTimeout clk inner backoff timeout w = Some (r, w') \<and>
    (case r of
       Inr endpoints \<Rightarrow> endpoints \<noteq> []
     | Inl e \<Rightarrow> (e = ErrDiscoveryTimeout \<and> Now clk w + timeout \<le> Now clk w') \<or>
                (\<exists>w1 e'. fst (inner w1) = Inl e' \<and> e = Errorf ''discovering endpoints: %w'' [] [e']))"
proof -
  let ?body = "discoverRound clk inner backoff timeout (Now clk w)"
  have "\<exists>r. untilDone ?body w = Some r"
  proof (rule untilDone_deadline[of _ clk "Now clk w + timeout"])
    fix w1 w2 assume "?body w1 = Inr w2"
    then obtain w' where *: "Now clk w1 - Now clk w < timeout" "inner w1 = (Inr [], w')" "w2 = Sleep clk backoff w'"
      by (auto simp: discoverRound_def split: if_splits prod.splits sum.splits)
    then show "Now clk w1 < Now clk w + timeout \<and> Now clk w1 < Now clk w2"
      using ticksD[OF assms(1), of backoff w'] forwardD[OF assms(2) *(2)] assms(3) by auto
  qed
  then obtain r w' where ret: "untilDone ?body w = Some (r, w')" by auto
  from untilDone_last[OF ret] obtain w1 where "?body w1 = Inl (r, w')" ..
  then have "case r of Inr endpoints \<Rightarrow> endpoints \<noteq> []
      | Inl e \<Rightarrow> (e = ErrDiscoveryTimeout \<and> Now clk w + timeout \<le> Now clk w') \<or>
          (\<exists>w1 e'. fst (inner w1) = Inl e' \<and> e = Errorf ''discovering endpoints: %w'' [] [e'])"
    by (auto simp: discoverRound_def split: if_splits prod.splits sum.splits) (metis fst_conv)+
  then show ?thesis using ret by (auto simp: DiscoverWithTimeout_def)
qed

theorem DiscoverWithTimeout_returns_witness:
  "\<exists>r w'. DiscoverWithTimeout bareClock (\<lambda>t. (Inr (if t < 20 then [] else [''10.0.0.1:8080'']), t + 1)) 7 60 0 = Some (r, w')"
  using DiscoverWithTimeout_returns[OF ticks_bareClock,
      of "\<lambda>t. (Inr (if t < 20 then [] else [''10.0.0.1:8080'']), t + 1)" 7 60 0]
  by (auto simp: forward_def bareClock_def)

end
