(* ===== verification/Kubelet_Client.thy ===== *)
theory Kubelet_Client
  imports Config Retry Network_Route Discovery
begin

text \<open>
  \<open>src/kubelet/client\<close>: how the integration connects to the kubelet. The API server, the file system and
  the network are a parameter, a record of calls that may fail and change the world; what a connection is
  made of (address, transport, verification of certificates) is data.
\<close>

section \<open>Connections\<close>

record url =
  UScheme :: string
  UHost :: string
  UPath :: string

text \<open>\<open>URL.String\<close> of an address without user, query and characters to be escaped.\<close>

definition urlString :: "url \<Rightarrow> string" where
  "urlString u =
     UScheme u @ ''://'' @ UHost u @ (if UPath u \<noteq> [] \<and> hd (UPath u) \<noteq> CHR ''/'' then ''/'' else []) @ UPath u"

text \<open>\<open>path.Join\<close>.\<close>

definition pathJoin :: "string list \<Rightarrow> string" where
  "pathJoin elems = (case filter (\<lambda>e. e \<noteq> []) elems of [] \<Rightarrow> [] | es \<Rightarrow> Clean (joinWith ''/'' es))"

text \<open>\<open>tls.Config\<close>: whether verification is skipped, and the certificates of the bundle, if any. The minimal version is 1.2 always.\<close>

record tlsclient =
  SkipVerify :: bool
  RootCAs :: "string option"

text \<open>
  A round tripper: the default transport, one that adds the bearer token of a file and uses a TLS
  configuration, or the one that \<open>client-go\<close> makes for the API server.
\<close>

datatype transport = DefaultTransport | BearerTransport string tlsclient | APITransport

record httpclient =
  HcTimeout :: int
  HcTransport :: transport

record connparams =
  cpURL :: url
  cpClient :: httpclient

record restconfig =
  RestHost :: string
  BearerTokenFile :: string

text \<open>
  The calls: \<open>url.Parse\<close>, \<open>http.NewRequest\<close>, \<open>Client.Do\<close> with the status of the response, the port of the
  kubelet in the status of a node, \<open>os.ReadFile\<close>, \<open>AppendCertsFromPEM\<close>, and the constructors of the two
  transports of \<open>client-go\<close>.
\<close>

record 'w kubeletworld =
  parseURL :: "string \<Rightarrow> err + url"
  requestErr :: "string \<Rightarrow> err option"
  doRequest :: "httpclient \<Rightarrow> string \<Rightarrow> (int, 'w) io"
  nodeKubeletPort :: "string \<Rightarrow> (32 word, 'w) io"
  readFile :: "string \<Rightarrow> (string, 'w) io"
  appendCerts :: "string \<Rightarrow> bool"
  newBearer :: "string \<Rightarrow> (unit, 'w) io"
  transportForAPI :: "(unit, 'w) io"

section \<open>Port and scheme\<close>

definition httpScheme :: string where "httpScheme = ''http''"
definition httpsScheme :: string where "httpsScheme = ''https''"
definition healthzPath :: string where "healthzPath = ''/healthz''"
definition defaultHTTPKubeletPort :: "32 word" where "defaultHTTPKubeletPort = 10255"
definition defaultHTTPSKubeletPort :: "32 word" where "defaultHTTPSKubeletPort = 10250"

definition getPort :: "'w kubeletworld \<Rightarrow> config \<Rightarrow> (32 word, 'w) io" where
  "getPort kw cfg =
     (if KubeletPort (Kubelet cfg) \<noteq> 0 then ioReturn (KubeletPort (Kubelet cfg))
      else ioBind (\<lambda>e. Errorf ''getting node %q: %w'' [CfgNodeName cfg] [e]) (nodeKubeletPort kw (CfgNodeName cfg)) ioReturn)"

definition getTestConnectionEndpoint :: "config \<Rightarrow> string" where
  "getTestConnectionEndpoint cfg =
     (if TestConnectionEndpoint cfg \<noteq> [] then TestConnectionEndpoint cfg else healthzPath)"

definition schemeFor :: "config \<Rightarrow> 32 word \<Rightarrow> string" where
  "schemeFor cfg kubeletPort =
     (if KubeletScheme (Kubelet cfg) \<noteq> [] then KubeletScheme (Kubelet cfg)
      else if kubeletPort = defaultHTTPKubeletPort then httpScheme
      else if kubeletPort = defaultHTTPSKubeletPort then httpsScheme
      else [])"

section \<open>Checks of a connection\<close>

definition errBadStatusCode :: err where "errBadStatusCode = errorsNew ''non-200 status code''"
definition errCABundleAppend :: err where "errCABundleAppend = errorsNew ''appending kubelet CA bundle to cert pool''"

definition probeURL :: "connparams \<Rightarrow> string \<Rightarrow> string" where
  "probeURL conn endpoint = urlString ((cpURL conn)\<lparr>UPath := pathJoin [UPath (cpURL conn), endpoint]\<rparr>)"

definition checkConnection :: "'w kubeletworld \<Rightarrow> connparams \<Rightarrow> string \<Rightarrow> (unit, 'w) io" where
  "checkConnection kw conn endpoint =
     (let u = probeURL conn endpoint in
      case requestErr kw u of
        Some e \<Rightarrow> ioFail (Errorf ''creating request to %q: %w'' [u] [e])
      | None \<Rightarrow>
          ioBind (\<lambda>e. Errorf ''connecting to %q: %w'' [u] [e]) (doRequest kw (cpClient conn) u) (\<lambda>status.
            if status \<noteq> 200 then ioFail (Errorf ''calling %s got %w: %d'' [u, Itoa status] [errBadStatusCode])
            else ioReturn ()))"

definition defaultConnParamsHTTP :: "config \<Rightarrow> string \<Rightarrow> connparams" where
  "defaultConnParamsHTTP cfg hostURL =
     \<lparr>cpURL = \<lparr>UScheme = httpScheme, UHost = hostURL, UPath = []\<rparr>,
      cpClient = \<lparr>HcTimeout = KubeletTimeout (Kubelet cfg), HcTransport = DefaultTransport\<rparr>\<rparr>"

definition defaultConnParamsHTTPS :: "config \<Rightarrow> string \<Rightarrow> transport \<Rightarrow> connparams" where
  "defaultConnParamsHTTPS cfg hostURL tripper =
     \<lparr>cpURL = \<lparr>UScheme = httpsScheme, UHost = hostURL, UPath = []\<rparr>,
      cpClient = \<lparr>HcTimeout = KubeletTimeout (Kubelet cfg), HcTransport = tripper\<rparr>\<rparr>"

definition checkConn :: "'w kubeletworld \<Rightarrow> config \<Rightarrow> connparams \<Rightarrow> (connparams, 'w) io" where
  "checkConn kw cfg conn =
     ioBind (\<lambda>e. Errorf ''checking connection via API proxy: %w'' [] [e])
       (checkConnection kw conn (getTestConnectionEndpoint cfg)) (\<lambda>_. ioReturn conn)"

definition checkConnectionHTTP :: "'w kubeletworld \<Rightarrow> config \<Rightarrow> string \<Rightarrow> (connparams, 'w) io" where
  "checkConnectionHTTP kw cfg hostURL = checkConn kw cfg (defaultConnParamsHTTP cfg hostURL)"

definition checkConnectionHTTPS :: "'w kubeletworld \<Rightarrow> config \<Rightarrow> string \<Rightarrow> transport \<Rightarrow> (connparams, 'w) io" where
  "checkConnectionHTTPS kw cfg hostURL tripper = checkConn kw cfg (defaultConnParamsHTTPS cfg hostURL tripper)"

definition apiProxyPath :: "string \<Rightarrow> string" where
  "apiProxyPath nodeName = ''/api/v1/nodes/'' @ nodeName @ ''/proxy/''"

definition checkConnectionAPIProxy :: "'w kubeletworld \<Rightarrow> config \<Rightarrow> string \<Rightarrow> string \<Rightarrow> transport \<Rightarrow> (connparams, 'w) io" where
  "checkConnectionAPIProxy kw cfg apiServer nodeName tripperAPIproxy =
     (case parseURL kw apiServer of
        Inl e \<Rightarrow> ioFail (Errorf ''parsing kubernetes api url from in cluster config: %w'' [] [e])
      | Inr apiURL \<Rightarrow>
          checkConn kw cfg
            \<lparr>cpURL = \<lparr>UScheme = UScheme apiURL, UHost = UHost apiURL, UPath = pathJoin [apiProxyPath nodeName]\<rparr>,
             cpClient = \<lparr>HcTimeout = KubeletTimeout (Kubelet cfg), HcTransport = tripperAPIproxy\<rparr>\<rparr>)"

definition orElse :: "('a, 'w) io \<Rightarrow> (err \<Rightarrow> ('a, 'w) io) \<Rightarrow> ('a, 'w) io" where
  "orElse m f w = (case m w of (Inr a, w') \<Rightarrow> (Inr a, w') | (Inl e, w') \<Rightarrow> f e w')"

definition checkLocalConnection :: "'w kubeletworld \<Rightarrow> config \<Rightarrow> transport \<Rightarrow> string \<Rightarrow> string \<Rightarrow> (connparams, 'w) io" where
  "checkLocalConnection kw cfg tripper scheme hostURL =
     ioBind (\<lambda>e. Errorf ''no connection succeeded through localhost: %w'' [] [e])
       (if scheme = httpScheme then checkConnectionHTTP kw cfg hostURL
        else if scheme = httpsScheme then checkConnectionHTTPS kw cfg hostURL tripper
        else orElse (checkConnectionHTTPS kw cfg hostURL tripper) (\<lambda>_. checkConnectionHTTP kw cfg hostURL)) ioReturn"

section \<open>Transport\<close>

definition buildKubeletTLSConfig :: "'w kubeletworld \<Rightarrow> string \<Rightarrow> (tlsclient, 'w) io" where
  "buildKubeletTLSConfig kw caBundlePath =
     (if caBundlePath = [] then ioReturn \<lparr>SkipVerify = True, RootCAs = None\<rparr>
      else
        ioBind (\<lambda>e. Errorf ''reading kubelet CA bundle %q: %w'' [caBundlePath] [e]) (readFile kw caBundlePath) (\<lambda>caData.
          if \<not> appendCerts kw caData then ioFail (Errorf ''%w from %q'' [caBundlePath] [errCABundleAppend])
          else ioReturn \<lparr>SkipVerify = False, RootCAs = Some caData\<rparr>))"

definition tripperWithBearerTokenAndRefresh :: "'w kubeletworld \<Rightarrow> string \<Rightarrow> string \<Rightarrow> (transport, 'w) io" where
  "tripperWithBearerTokenAndRefresh kw tokenFile caBundlePath =
     ioBind id (buildKubeletTLSConfig kw caBundlePath) (\<lambda>tlsConfig.
     ioBind (\<lambda>e. Errorf ''creating bearerAuthWithRefreshRoundTripper: %w'' [] [e]) (newBearer kw tokenFile) (\<lambda>_.
     ioReturn (BearerTransport tokenFile tlsConfig)))"

section \<open>Connecting\<close>

definition tryConnect :: "'w kubeletworld \<Rightarrow> config \<Rightarrow> restconfig \<Rightarrow> 32 word \<Rightarrow> string \<Rightarrow> (connparams, 'w) io" where
  "tryConnect kw cfg rc kubeletPort kubeletScheme =
     (let hostURL = JoinHostPort (NodeIP cfg) (Itoa (sint kubeletPort)) in
      ioBind (\<lambda>e. Errorf ''creating tripper connecting to kubelet through nodeIP: %w'' [] [e])
        (tripperWithBearerTokenAndRefresh kw (BearerTokenFile rc) (CABundlePath (Kubelet cfg))) (\<lambda>trip.
        orElse (checkLocalConnection kw cfg trip kubeletScheme hostURL) (\<lambda>_.
          ioBind (\<lambda>e. Errorf ''creating tripper connecting to kubelet through API server proxy: %w'' [] [e]) (transportForAPI kw) (\<lambda>_.
          ioBind (\<lambda>e. Errorf ''creating connection parameters for API proxy: %w'' [] [e])
            (checkConnectionAPIProxy kw cfg (RestHost rc) (CfgNodeName cfg) APITransport) ioReturn))))"

text \<open>One round of \<open>connectWithRetry\<close>; the time that has passed is read before the attempt.\<close>

definition retryRound ::
  "'w clock \<Rightarrow> config \<Rightarrow> (connparams, 'w) io \<Rightarrow> int \<Rightarrow> int \<times> 'w \<Rightarrow> ((err + connparams) \<times> 'w) + (int \<times> 'w)" where
  "retryRound clk cfg attempt start = (\<lambda>(n, w).
     let attempts = n + 1; elapsed = Now clk w - start; timeout = InitTimeout (Kubelet cfg) in
     case attempt w of
       (Inr conn, w') \<Rightarrow> Inl (Inr conn, w')
     | (Inl e, w') \<Rightarrow>
         if elapsed \<ge> timeout then
           Inl (Inl (Err ''failed to connect to kubelet after %d attempts over %s (timeout: %s): %w''
                       [EStr (Itoa attempts), EVal (dur elapsed), EVal (dur timeout)] [e]), w')
         else Inr (attempts, Sleep clk (if InitBackoff (Kubelet cfg) > timeout - elapsed then timeout - elapsed else InitBackoff (Kubelet cfg)) w'))"

definition connectWithRetry ::
  "'w clock \<Rightarrow> 'w kubeletworld \<Rightarrow> config \<Rightarrow> restconfig \<Rightarrow> 32 word \<Rightarrow> string \<Rightarrow> 'w \<Rightarrow> ((err + connparams) \<times> 'w) option" where
  "connectWithRetry clk kw cfg rc kubeletPort kubeletScheme w =
     untilDone (retryRound clk cfg (tryConnect kw cfg rc kubeletPort kubeletScheme) (Now clk w)) (0, w)"

definition Connect :: "'w clock \<Rightarrow> 'w kubeletworld \<Rightarrow> config \<Rightarrow> restconfig \<Rightarrow> 'w \<Rightarrow> ((err + connparams) \<times> 'w) option" where
  "Connect clk kw cfg rc w =
     (case getPort kw cfg w of
        (Inl e, w') \<Rightarrow> Some (Inl (Errorf ''getting kubelet port: %w'' [] [e]), w')
      | (Inr kubeletPort, w') \<Rightarrow>
          let kubeletScheme = schemeFor cfg kubeletPort in
          if InitTimeout (Kubelet cfg) = 0 then Some (tryConnect kw cfg rc kubeletPort kubeletScheme w')
          else connectWithRetry clk kw cfg rc kubeletPort kubeletScheme w')"

text \<open>A static connector returns its address and client unchecked.\<close>

definition FixedConnect :: "url \<Rightarrow> httpclient \<Rightarrow> (connparams, 'w) io" where
  "FixedConnect u c = ioReturn \<lparr>cpURL = u, cpClient = c\<rparr>"

section \<open>Client\<close>

text \<open>A client retries with \<open>pester\<close> when the connection has an \<open>http.Client\<close>, which it always has here.\<close>

record kubeletclient =
  kcDoer :: httpclient
  kcRetries :: int
  kcEndpoint :: url

definition NewClient :: "(connparams, 'w) io option \<Rightarrow> int \<Rightarrow> (kubeletclient, 'w) io" where
  "NewClient connector retries =
     (case connector of
        None \<Rightarrow> ioFail (errorsNew ''connector should not be nil'')
      | Some connect \<Rightarrow>
          ioBind (\<lambda>e. Errorf ''connecting to kubelet using the connector: %w'' [] [e]) connect (\<lambda>conn.
            ioReturn \<lparr>kcDoer = cpClient conn, kcRetries = retries, kcEndpoint = cpURL conn\<rparr>))"

text \<open>\<open>perform\<close> is the doer of the client, which sends a GET request.\<close>

definition GetURI :: "(string \<Rightarrow> err option) \<Rightarrow> (string \<Rightarrow> ('resp, 'w) io) \<Rightarrow> url \<Rightarrow> ('resp, 'w) io" where
  "GetURI requestFails perform target =
     (case requestFails (urlString target) of
        Some e \<Rightarrow> ioFail (Errorf ''error creating request to: %s. Got error: %w '' [urlString target] [e])
      | None \<Rightarrow> ioBind (\<lambda>e. Errorf ''error getting url %s: %w '' [urlString target] [e]) (perform (urlString target)) ioReturn)"

definition endpointFor :: "kubeletclient \<Rightarrow> string \<Rightarrow> url" where
  "endpointFor kc urlPath = (kcEndpoint kc)\<lparr>UPath := pathJoin [UPath (kcEndpoint kc), urlPath]\<rparr>"

definition ClientGet :: "(string \<Rightarrow> err option) \<Rightarrow> (string \<Rightarrow> ('resp, 'w) io) \<Rightarrow> kubeletclient \<Rightarrow> string \<Rightarrow> ('resp, 'w) io" where
  "ClientGet requestFails perform kc urlPath =
     ioBind (\<lambda>e. Errorf ''error getting path %s: %w '' [urlPath] [e]) (GetURI requestFails perform (endpointFor kc urlPath)) ioReturn"

definition MetricFamiliesGetFunc ::
  "(string \<Rightarrow> query list \<Rightarrow> metricfamily list result) \<Rightarrow> kubeletclient \<Rightarrow> string \<Rightarrow> query list \<Rightarrow> metricfamily list result" where
  "MetricFamiliesGetFunc getFiltered kc path queries =
     rbindw (\<lambda>e. Errorf ''getting filtered metric families %q: %w'' [urlString (endpointFor kc path)] [e])
       (getFiltered (urlString (endpointFor kc path)) queries) Ok"

section \<open>What a connection guarantees\<close>

text \<open>The connection answered a request for the test endpoint with 200.\<close>

definition probed :: "'w kubeletworld \<Rightarrow> config \<Rightarrow> connparams \<Rightarrow> bool" where
  "probed kw cfg conn \<longleftrightarrow>
     (\<exists>w w'. doRequest kw (cpClient conn) (probeURL conn (getTestConnectionEndpoint cfg)) w = (Inr 200, w'))"

text \<open>
  The three kinds of connection. Only the second one carries the token of the service account, it is
  encrypted, and its peer is verified against the configured bundle unless none is configured.
\<close>

definition plainConn :: "connparams \<Rightarrow> bool" where
  "plainConn conn \<longleftrightarrow> UScheme (cpURL conn) = ''http'' \<and> HcTransport (cpClient conn) = DefaultTransport"

definition verifiedBy :: "'w kubeletworld \<Rightarrow> string \<Rightarrow> tlsclient \<Rightarrow> bool" where
  "verifiedBy kw ca tls \<longleftrightarrow>
     (SkipVerify tls \<longleftrightarrow> ca = []) \<and>
     (ca \<noteq> [] \<longrightarrow> (\<exists>bundle w w'. readFile kw ca w = (Inr bundle, w') \<and> appendCerts kw bundle \<and> RootCAs tls = Some bundle))"

definition tokenConn :: "'w kubeletworld \<Rightarrow> config \<Rightarrow> restconfig \<Rightarrow> connparams \<Rightarrow> bool" where
  "tokenConn kw cfg rc conn \<longleftrightarrow>
     UScheme (cpURL conn) = ''https'' \<and>
     (\<exists>tls. HcTransport (cpClient conn) = BearerTransport (BearerTokenFile rc) tls \<and> verifiedBy kw (CABundlePath (Kubelet cfg)) tls)"

definition proxyConn :: "'w kubeletworld \<Rightarrow> config \<Rightarrow> restconfig \<Rightarrow> connparams \<Rightarrow> bool" where
  "proxyConn kw cfg rc conn \<longleftrightarrow>
     HcTransport (cpClient conn) = APITransport \<and>
     (\<exists>u. parseURL kw (RestHost rc) = Inr u \<and> UScheme (cpURL conn) = UScheme u \<and> UHost (cpURL conn) = UHost u \<and>
        UPath (cpURL conn) = pathJoin [apiProxyPath (CfgNodeName cfg)])"

lemma checkConn_Inr: "checkConn kw cfg conn w = (Inr c, w') \<Longrightarrow> c = conn \<and> probed kw cfg conn"
  by (auto simp: checkConn_def checkConnection_def probed_def ioBind_Inr Let_def split: option.splits if_splits)

lemma orElse_Inr: "orElse m f w = (Inr a, w') \<Longrightarrow> m w = (Inr a, w') \<or> (\<exists>e w1. m w = (Inl e, w1) \<and> f e w1 = (Inr a, w'))"
  by (auto simp: orElse_def split: prod.splits sum.splits)

lemma tripper_Inr:
  "tripperWithBearerTokenAndRefresh kw tokenFile ca w = (Inr trip, w') \<Longrightarrow>
   \<exists>tls. trip = BearerTransport tokenFile tls \<and> verifiedBy kw ca tls"
  by (auto simp: tripperWithBearerTokenAndRefresh_def buildKubeletTLSConfig_def ioBind_Inr verifiedBy_def split: if_splits)

lemma local_Inr:
  assumes "checkLocalConnection kw cfg trip scheme hostURL w = (Inr conn, w')"
  shows "probed kw cfg conn \<and> (conn = defaultConnParamsHTTP cfg hostURL \<or> conn = defaultConnParamsHTTPS cfg hostURL trip)"
  using assms
  by (auto simp: checkLocalConnection_def ioBind_Inr checkConnectionHTTP_def checkConnectionHTTPS_def
      dest!: orElse_Inr checkConn_Inr split: if_splits)

lemma tryConnect_Inr:
  assumes "tryConnect kw cfg rc port scheme w = (Inr conn, w')"
  shows "probed kw cfg conn \<and> (plainConn conn \<or> tokenConn kw cfg rc conn \<or> proxyConn kw cfg rc conn)"
proof -
  let ?host = "JoinHostPort (NodeIP cfg) (Itoa (sint port))"
  obtain trip w1 where trip: "tripperWithBearerTokenAndRefresh kw (BearerTokenFile rc) (CABundlePath (Kubelet cfg)) w = (Inr trip, w1)"
    and rest: "checkLocalConnection kw cfg trip scheme ?host w1 = (Inr conn, w') \<or>
      (\<exists>w2. checkConnectionAPIProxy kw cfg (RestHost rc) (CfgNodeName cfg) APITransport w2 = (Inr conn, w'))"
    using assms by (auto simp: tryConnect_def Let_def ioBind_Inr dest!: orElse_Inr) blast
  from rest show ?thesis
  proof
    assume "checkLocalConnection kw cfg trip scheme ?host w1 = (Inr conn, w')"
    from local_Inr[OF this] show ?thesis
      using tripper_Inr[OF trip]
      by (auto simp: plainConn_def tokenConn_def defaultConnParamsHTTP_def defaultConnParamsHTTPS_def httpScheme_def httpsScheme_def)
  next
    assume "\<exists>w2. checkConnectionAPIProxy kw cfg (RestHost rc) (CfgNodeName cfg) APITransport w2 = (Inr conn, w')"
    then show ?thesis
      by (auto simp: checkConnectionAPIProxy_def proxyConn_def dest!: checkConn_Inr split: sum.splits)
  qed
qed

lemma retry_Inr:
  assumes "connectWithRetry clk kw cfg rc port scheme w = Some (Inr conn, w')"
  shows "\<exists>w1. tryConnect kw cfg rc port scheme w1 = (Inr conn, w')"
proof -
  from untilDone_last[OF assms[unfolded connectWithRetry_def]]
  obtain n w1 where *: "retryRound clk cfg (tryConnect kw cfg rc port scheme) (Now clk w) (n, w1) = Inl (Inr conn, w')" by auto
  then show ?thesis
    by (cases "tryConnect kw cfg rc port scheme w1"; cases "fst (tryConnect kw cfg rc port scheme w1)")
       (auto simp: retryRound_def Let_def split: if_splits)
qed

text \<open>
  C20: A connection to the kubelet is only returned after it answered a request for the test endpoint with
  200. The token of the service account is only sent over a direct connection with TLS, whose peer is
  verified against the configured bundle of certificates whenever one is configured; the other connections
  are a direct one without TLS, which carries no token, and the proxy of the API server for this node.
\<close>

theorem Connect_safe:
  assumes "Connect clk kw cfg rc w = Some (Inr conn, w')"
  shows "probed kw cfg conn \<and> (plainConn conn \<or> tokenConn kw cfg rc conn \<or> proxyConn kw cfg rc conn)"
  using assms by (auto simp: Connect_def Let_def dest: retry_Inr tryConnect_Inr split: prod.splits sum.splits if_splits)

text \<open>A world in which the kubelet answers over TLS from the time 5 on.\<close>

definition exampleWorld :: "int kubeletworld" where
  "exampleWorld =
     \<lparr>parseURL = (\<lambda>s. Inl (errorsNew ''invalid URL'')), requestErr = (\<lambda>_. None),
      doRequest = (\<lambda>c u t. (if 5 \<le> t \<and> HcTransport c \<noteq> DefaultTransport then Inr 200 else Inl (errorsNew ''connection refused''), t + 1)),
      nodeKubeletPort = (\<lambda>_ t. (Inr 10250, t)), readFile = (\<lambda>_ t. (Inr ''pem'', t)), appendCerts = (\<lambda>_. True),
      newBearer = (\<lambda>_ t. (Inr (), t)), transportForAPI = (\<lambda>t. (Inr (), t))\<rparr>"

definition emptyComponent :: controlplanecomponent where
  "emptyComponent = \<lparr>ComponentEnabled = False, StaticEndpoint = None, Autodiscover = []\<rparr>"

definition exampleCfg :: config where
  "exampleCfg =
     \<lparr>Verbose = False, LogLevel = [], CfgClusterName = ''cl'', DisableCloudClusterIDDetection = False, KubeconfigPath = [],
      NodeIP = ''10.0.0.1'', TestConnectionEndpoint = ''/healthz'', CfgNodeName = ''n1'', Interval = 15000000000, SinkType = ''http'',
      SinkHTTP = \<lparr>SinkPort = 8001, SinkTimeout = 3, SinkRetries = 3, SinkTLS = \<lparr>TLSEnabled = False, CertPath = [], KeyPath = [], CAPath = []\<rparr>,
        ProbeTimeout = 90, ProbeBackoff = 5\<rparr>,
      ControlPlane = \<lparr>ControlPlaneEnabled = False, ETCD = emptyComponent, APIServer = emptyComponent, ControllerManager = emptyComponent,
        Scheduler = emptyComponent, ControlPlaneTimeout = 10, ControlPlaneRetries = 3\<rparr>,
      Kubelet = \<lparr>KubeletEnabled = True, FetchPodsFromKubeService = False, KubeletPort = 0, KubeletScheme = [], NetworkRouteFile = [],
        KubeletTimeout = 10, KubeletRetries = 3, ScraperMaxReruns = 4, InitTimeout = 20, InitBackoff = 10, CABundlePath = ''/ca.pem''\<rparr>,
      KSM = \<lparr>KsmEnabled = False, StaticURL = [], KsmScheme = [], KsmPort = 0, KsmSelector = [], KsmNamespace = [], Distributed = False,
        KsmTimeout = 10, KsmRetries = 3, KsmResourceQuotaSamples = False, DiscoveryBackoffDelay = 7, DiscoveryTimeout = 60\<rparr>,
      NamespaceSelector = None\<rparr>"

definition exampleConn :: connparams where
  "exampleConn = defaultConnParamsHTTPS exampleCfg ''10.0.0.1:10250'' (BearerTransport ''token'' \<lparr>SkipVerify = False, RootCAs = Some ''pem''\<rparr>)"

lemma exampleCfg_client:
  "KubeletPort (Kubelet exampleCfg) = 0" "KubeletScheme (Kubelet exampleCfg) = []" "CABundlePath (Kubelet exampleCfg) = ''/ca.pem''"
  "InitTimeout (Kubelet exampleCfg) = 20" "InitBackoff (Kubelet exampleCfg) = 10" "NodeIP exampleCfg = ''10.0.0.1''"
  by (simp_all add: exampleCfg_def)

lemma example_try:
  "tryConnect exampleWorld exampleCfg \<lparr>RestHost = ''h'', BearerTokenFile = ''token''\<rparr> 10250 ''https'' t =
     (if 5 \<le> t then (Inr exampleConn, t + 1)
      else (Inl (Errorf ''creating connection parameters for API proxy: %w'' []
        [Errorf ''parsing kubernetes api url from in cluster config: %w'' [] [errorsNew ''invalid URL'']]), t + 1))"
proof -
  have host: "JoinHostPort ''10.0.0.1'' (Itoa 10250) = ''10.0.0.1:10250''"
    by (simp add: JoinHostPort_def Itoa_def natStr.simps digitChar_def char_of_def bit_0)
  have world: "requestErr exampleWorld u = None" "readFile exampleWorld p t = (Inr ''pem'', t)" "appendCerts exampleWorld d"
    "newBearer exampleWorld b t = (Inr (), t)" "transportForAPI exampleWorld t = (Inr (), t)" "parseURL exampleWorld u = Inl (errorsNew ''invalid URL'')"
    "doRequest exampleWorld c u t = (if 5 \<le> t \<and> HcTransport c \<noteq> DefaultTransport then Inr 200 else Inl (errorsNew ''connection refused''), t + 1)"
    for u p d b c t by (simp_all add: exampleWorld_def)
  show ?thesis
    by (simp add: tryConnect_def Let_def exampleCfg_client host tripperWithBearerTokenAndRefresh_def buildKubeletTLSConfig_def
        checkLocalConnection_def checkConnectionHTTPS_def checkConnectionAPIProxy_def checkConn_def checkConnection_def world
        ioBind_def ioReturn_def ioFail_def orElse_def httpScheme_def httpsScheme_def exampleConn_def defaultConnParamsHTTPS_def)
qed

lemma example_connect:
  "Connect bareClock exampleWorld exampleCfg \<lparr>RestHost = ''h'', BearerTokenFile = ''token''\<rparr> 0 = Some (Inr exampleConn, 12)"
proof -
  let ?round = "retryRound bareClock exampleCfg (tryConnect exampleWorld exampleCfg \<lparr>RestHost = ''h'', BearerTokenFile = ''token''\<rparr> 10250 ''https'') 0"
  have "?round (0, 0) = Inr (1, 11)" "?round (1, 11) = Inl (Inr exampleConn, 12)"
    by (simp_all add: retryRound_def Let_def example_try exampleCfg_client bareClock_def)
  then have "untilDone ?round (0, 0) = Some (Inr exampleConn, 12)" by (simp add: untilDone_simps)
  moreover have "getPort exampleWorld exampleCfg 0 = (Inr 10250, 0)"
    by (simp add: getPort_def exampleCfg_client exampleWorld_def ioBind_def ioReturn_def)
  moreover have "schemeFor exampleCfg 10250 = ''https''"
    by (simp add: schemeFor_def exampleCfg_client defaultHTTPKubeletPort_def defaultHTTPSKubeletPort_def httpsScheme_def)
  ultimately show ?thesis by (simp add: Connect_def Let_def exampleCfg_client connectWithRetry_def bareClock_def)
qed

theorem Connect_safe_witness:
  "probed exampleWorld exampleCfg exampleConn \<and> tokenConn exampleWorld exampleCfg \<lparr>RestHost = ''h'', BearerTokenFile = ''token''\<rparr> exampleConn"
  using Connect_safe[OF example_connect]
  by (auto simp: plainConn_def proxyConn_def exampleConn_def defaultConnParamsHTTPS_def httpsScheme_def)

section \<open>The connector returns\<close>

definition forwardWorld :: "'w clock \<Rightarrow> 'w kubeletworld \<Rightarrow> bool" where
  "forwardWorld clk kw \<longleftrightarrow>
     (\<forall>c u. forward clk (doRequest kw c u)) \<and> (\<forall>n. forward clk (nodeKubeletPort kw n)) \<and> (\<forall>p. forward clk (readFile kw p)) \<and>
     (\<forall>f. forward clk (newBearer kw f)) \<and> forward clk (transportForAPI kw)"

lemma forward_orElse: "forward clk m \<Longrightarrow> (\<And>e. forward clk (f e)) \<Longrightarrow> forward clk (orElse m f)"
  unfolding forward_def orElse_def by (auto split: prod.split sum.split) (metis order_trans snd_conv)+

lemma forward_checkConn: "forwardWorld clk kw \<Longrightarrow> forward clk (checkConn kw cfg conn)"
  unfolding forwardWorld_def checkConn_def checkConnection_def Let_def
  by (auto intro!: forward_intros split: option.split)

lemma forward_tryConnect:
  assumes "forwardWorld clk kw" shows "forward clk (tryConnect kw cfg rc port scheme)"
  using assms forward_checkConn[OF assms]
  by (auto simp: forwardWorld_def tryConnect_def Let_def tripperWithBearerTokenAndRefresh_def buildKubeletTLSConfig_def checkLocalConnection_def
      checkConnectionHTTP_def checkConnectionHTTPS_def checkConnectionAPIProxy_def intro!: forward_intros forward_orElse split: sum.split)

lemma retryRound_advances:
  assumes "ticks clk" "forward clk attempt" "0 < InitBackoff (Kubelet cfg)"
    and "retryRound clk cfg attempt start (n, w) = Inr (n', w')"
  shows "Now clk w < start + InitTimeout (Kubelet cfg) \<and> Now clk w < Now clk w'"
proof -
  let ?left = "InitTimeout (Kubelet cfg) - (Now clk w - start)"
  let ?d = "if InitBackoff (Kubelet cfg) > ?left then ?left else InitBackoff (Kubelet cfg)"
  obtain e w1 where a: "attempt w = (Inl e, w1)" and left: "0 < ?left" and w': "w' = Sleep clk ?d w1"
    using assms(4) by (cases "attempt w"; cases "fst (attempt w)") (auto simp: retryRound_def Let_def split: if_splits)
  have "0 < ?d" using assms(3) left by simp
  then show ?thesis using ticksD[OF assms(1), of ?d w1] forwardD[OF assms(2) a] left w' by auto
qed

text \<open>
  The connector returns whenever the initial back-off is positive or retries are disabled, the clock
  advances while it sleeps and no call takes negative time. It gives up on a kubelet it cannot reach only
  when the initial timeout has passed, and then reports the last error.
\<close>

lemma Connect_returns:
  assumes "ticks clk" "forwardWorld clk kw" "InitTimeout (Kubelet cfg) = 0 \<or> 0 < InitBackoff (Kubelet cfg)"
  shows "\<exists>r w'. Connect clk kw cfg rc w = Some (r, w') \<and>
    (\<forall>e port w0. getPort kw cfg w = (Inr port, w0) \<and> r = Inl e \<longrightarrow>
       Now clk w0 + InitTimeout (Kubelet cfg) \<le> Now clk w' \<and>
       (\<exists>w1 e'. tryConnect kw cfg rc port (schemeFor cfg port) w1 = (Inl e', w') \<and> (e = e' \<or> (\<exists>f as. e = Err f as [e']))))"
proof (cases "getPort kw cfg w")
  case (Pair r0 w0)
  show ?thesis
  proof (cases r0)
    case (Inl e)
    then show ?thesis using Pair by (simp add: Connect_def)
  next
    case (Inr port)
    let ?attempt = "tryConnect kw cfg rc port (schemeFor cfg port)"
    have fwd: "forward clk ?attempt" using assms(2) by (rule forward_tryConnect)
    show ?thesis
    proof (cases "InitTimeout (Kubelet cfg) = 0")
      case True
      then show ?thesis using Pair Inr forwardD[OF fwd] by (cases "?attempt w0") (auto simp: Connect_def Let_def)
    next
      case False
      then have b: "0 < InitBackoff (Kubelet cfg)" using assms(3) by simp
      let ?round = "retryRound clk cfg ?attempt (Now clk w0)"
      have "\<exists>r. untilDone ?round (0, w0) = Some r"
      proof (rule untilDone_deadline[of _ "\<lparr>Now = Now clk \<circ> snd, Sleep = undefined\<rparr>" "Now clk w0 + InitTimeout (Kubelet cfg)"])
        fix s s' assume "?round s = Inr s'"
        then show "Now \<lparr>Now = Now clk \<circ> snd, Sleep = undefined\<rparr> s < Now clk w0 + InitTimeout (Kubelet cfg) \<and>
            Now \<lparr>Now = Now clk \<circ> snd, Sleep = undefined\<rparr> s < Now \<lparr>Now = Now clk \<circ> snd, Sleep = undefined\<rparr> s'"
          using retryRound_advances[OF assms(1) fwd b] by (cases s; cases s') auto
      qed
      then obtain r w' where ret: "untilDone ?round (0, w0) = Some (r, w')" by auto
      from untilDone_last[OF ret] obtain n w1 where last: "?round (n, w1) = Inl (r, w')" by auto
      obtain res w2 where t: "?attempt w1 = (res, w2)" by force
      have "Now clk w0 + InitTimeout (Kubelet cfg) \<le> Now clk w' \<and>
          (\<exists>w1 e'. ?attempt w1 = (Inl e', w') \<and> (\<exists>f as. e = Err f as [e']))" if "r = Inl e" for e
        using last t that forwardD[OF fwd t] by (cases res) (auto simp: retryRound_def Let_def split: if_splits)
      then show ?thesis using ret False Pair Inr by (auto simp: Connect_def Let_def connectWithRetry_def) blast
    qed
  qed
qed

theorem Connect_returns_witness:
  "\<exists>r w'. Connect bareClock exampleWorld exampleCfg \<lparr>RestHost = ''h'', BearerTokenFile = ''token''\<rparr> 7 = Some (r, w')"
  using Connect_returns[OF ticks_bareClock, of exampleWorld exampleCfg "\<lparr>RestHost = ''h'', BearerTokenFile = ''token''\<rparr>" 7]
  by (auto simp: forwardWorld_def forward_def exampleWorld_def bareClock_def exampleCfg_client)

end
