(* ===== verification/Metric_Specs.thy ===== *)
theory Metric_Specs
  imports Scrape
begin

text \<open>
  The specification tables of \<open>src/metric/definition.go\<close> as data: the expression of every \<open>ValueFunc\<close>
  is kept as a term of the datatype \<open>fetcher\<close>, one constructor per function the tables call, and
  \<open>runFetcher\<close> gives its meaning with the fetch functions of the other theories. Keeping the expression
  makes decidable what a table says, for instance which metrics it reads. This theory holds the
  expressions, the tables of the control plane and the queries that go with them.
\<close>

section \<open>Expressions\<close>

datatype transform =
    tFromNano | tFromNanoToMilli | tToTimestamp | tToNumericBoolean | tToCores | tFromPrometheusNumeric
  | tOneMetricPerLabel | tOneAttributePerAllocatable | tOneAttributePerCapacity | tPrefixFromMapInt string

datatype filterexpr = pFilterCPUUsedCores

text \<open>The camel-case conversion is a library function.\<close>

fun runTransform :: "(string \<Rightarrow> string) \<Rightarrow> transform \<Rightarrow> transformfunc" where
  "runTransform camelcase tFromNano = fromNano"
| "runTransform camelcase tFromNanoToMilli = fromNanoToMilli"
| "runTransform camelcase tToTimestamp = toTimestamp"
| "runTransform camelcase tToNumericBoolean = toNumericBoolean"
| "runTransform camelcase tToCores = toCores"
| "runTransform camelcase tFromPrometheusNumeric = fromPrometheusNumeric"
| "runTransform camelcase tOneMetricPerLabel = OneMetricPerLabel"
| "runTransform camelcase tOneAttributePerAllocatable = OneAttributePerAllocatable camelcase"
| "runTransform camelcase tOneAttributePerCapacity = OneAttributePerCapacity camelcase"
| "runTransform camelcase (tPrefixFromMapInt pre) = PrefixFromMapInt pre"

fun runFilter :: "filterexpr \<Rightarrow> filterfunc" where
  "runFilter pFilterCPUUsedCores = filterCPUUsedCores"

datatype fetcher =
    eFromRaw string
  | eTransform fetcher transform
  | eTransformAndFilter fetcher transform filterexpr
  | eFromValue string "labelsfilter list"
  | eFromValueWithOverriddenName string string "labelsfilter list"
  | eFromValueWithLabelsFilter string string "labelsfilter list"
  | eCountFromValueWithLabelsFilter string string "labelsfilter list"
  | eFromSummary string
  | eFromFlattenedMetrics string string
  | eFromLabelValue string string
  | eFromMetricWithPrefixedLabels string string
  | eInheritAllLabelsFrom string string
  | eInheritAllSelectorsFrom string string
  | eSubtract fetcher fetcher
  | eToUtilization fetcher fetcher
  | eToComplementPercentage string string
  | eFetchIfMissing fetcher fetcher
  | eFetchWithDefault fetcher goval
  | eIsPersistentVolume
  | eGetDeploymentNameForReplicaSet
  | eGetDeploymentNameForPod
  | eAllocatableCPUCores
  | eAllocatableMemoryBytes

fun runFetcher :: "(string \<Rightarrow> string) \<Rightarrow> fetcher \<Rightarrow> fetchfunc" where
  "runFetcher cc (eFromRaw k) = FromRaw k"
| "runFetcher cc (eTransform f t) = Transform (runFetcher cc f) (runTransform cc t)"
| "runFetcher cc (eTransformAndFilter f t p) = TransformAndFilter (runFetcher cc f) (runTransform cc t) (runFilter p)"
| "runFetcher cc (eFromValue k fs) = FromValue k fs"
| "runFetcher cc (eFromValueWithOverriddenName k n fs) = FromValueWithOverriddenName k n fs"
| "runFetcher cc (eFromValueWithLabelsFilter k n fs) = FromValueWithLabelsFilter k n fs"
| "runFetcher cc (eCountFromValueWithLabelsFilter k n fs) = CountFromValueWithLabelsFilter k n fs"
| "runFetcher cc (eFromSummary k) = FromSummary k"
| "runFetcher cc (eFromFlattenedMetrics k l) = FromFlattenedMetrics k l"
| "runFetcher cc (eFromLabelValue k l) = FromLabelValue k l"
| "runFetcher cc (eFromMetricWithPrefixedLabels k p) = FromMetricWithPrefixedLabels k p"
| "runFetcher cc (eInheritAllLabelsFrom g k) = InheritAllLabelsFrom g k"
| "runFetcher cc (eInheritAllSelectorsFrom g k) = InheritAllSelectorsFrom g k"
| "runFetcher cc (eSubtract f g) = Subtract (runFetcher cc f) (runFetcher cc g)"
| "runFetcher cc (eToUtilization f g) = toUtilization (runFetcher cc f) (runFetcher cc g)"
| "runFetcher cc (eToComplementPercentage d c) = toComplementPercentage d c"
| "runFetcher cc (eFetchIfMissing f g) = fetchIfMissing (runFetcher cc f) (runFetcher cc g)"
| "runFetcher cc (eFetchWithDefault f v) = fetchWithDefault (runFetcher cc f) v"
| "runFetcher cc eIsPersistentVolume = isPersistentVolume"
| "runFetcher cc eGetDeploymentNameForReplicaSet = GetDeploymentNameForReplicaSet"
| "runFetcher cc eGetDeploymentNameForPod = GetDeploymentNameForPod"
| "runFetcher cc eAllocatableCPUCores = AllocatableCPUCores"
| "runFetcher cc eAllocatableMemoryBytes = AllocatableMemoryBytes"

text \<open>Only the network metrics of the kubelet use the interface cache.\<close>

datatype valueexpr = Fetch fetcher | Fallback string

fun runValue :: "(string \<Rightarrow> string) \<Rightarrow> valueexpr \<Rightarrow> interfacecache option sfetch" where
  "runValue cc (Fetch f) = liftFetch (runFetcher cc f)"
| "runValue cc (Fallback k) = FromRawWithFallbackToDefaultInterface k"

text \<open>A row of a table; a missing \<open>Type\<close> is the zero value \<open>GAUGE\<close>, a missing \<open>Optional\<close> is false.\<close>

datatype specentry = Entry (ESName: string) (EFetch: valueexpr) (EType: sourcetype) (EOptional: bool)

record groupentry =
  EIDGenerator :: "idgenerator option"
  ETypeGenerator :: "typegenerator option"
  ENamespaceGetter :: "(rawmetrics \<Rightarrow> string) option"
  EMsTypeGuesser :: "guessfunc option"
  ESpecs :: "specentry list"
  ESplitByLabel :: string
  ESliceMetricName :: string

type_synonym specentries = "(string, groupentry) gomap"

definition runEntry :: "(string \<Rightarrow> string) \<Rightarrow> specentry \<Rightarrow> interfacecache option spec" where
  "runEntry cc e = \<lparr>SName = ESName e, ValueFunc = runValue cc (EFetch e), SType = EType e, Optional = EOptional e\<rparr>"

definition runGroup :: "(string \<Rightarrow> string) \<Rightarrow> groupentry \<Rightarrow> interfacecache option specgroup" where
  "runGroup cc g =
     \<lparr>IDGenerator = EIDGenerator g, TypeGenerator = ETypeGenerator g, NamespaceGetter = ENamespaceGetter g,
      MsTypeGuesser = EMsTypeGuesser g, Specs = map (runEntry cc) (ESpecs g), SplitByLabel = ESplitByLabel g,
      SliceMetricName = ESliceMetricName g\<rparr>"

definition runSpecs :: "(string \<Rightarrow> string) \<Rightarrow> specentries \<Rightarrow> interfacecache option specgroups" where
  "runSpecs cc es = map (\<lambda>(gl, g). (gl, runGroup cc g)) es"

text \<open>A query for a metric, the fields that a literal does not set being zero.\<close>

definition ask :: "string \<Rightarrow> query" where
  "ask name = \<lparr>CustomName = [], MetricName = name, QLabelsOp = QueryOpAnd, QLabels = [], QValueOp = QueryOpAnd, QVal = NilValue\<rparr>"

definition queryName :: "query \<Rightarrow> string" where
  "queryName q = (if CustomName q \<noteq> [] then CustomName q else MetricName q)"

text \<open>The fetch functions for computed metrics.\<close>

definition attrCPUUsage :: string where "attrCPUUsage = ''cpuUsedCores''"
definition attrCPURequests :: string where "attrCPURequests = ''cpuRequestedCores''"
definition attrMemoryUsage :: string where "attrMemoryUsage = ''memoryUsedBytes''"
definition attrMemoryWorkingSet :: string where "attrMemoryWorkingSet = ''memoryWorkingSetBytes''"
definition attrMemoryRequests :: string where "attrMemoryRequests = ''memoryRequestedBytes''"
definition attrMemoryLimit :: string where "attrMemoryLimit = ''memoryLimitBytes''"

definition workingSetBytes :: fetcher where "workingSetBytes = eFromRaw ''workingSetBytes''"
definition cpuUsedCores :: fetcher where
  "cpuUsedCores = eTransformAndFilter (eFromRaw ''usageNanoCores'') tFromNano pFilterCPUUsedCores"
definition cpuLimitCores :: fetcher where "cpuLimitCores = eTransform (eFromRaw ''cpuLimitCores'') tToCores"
definition cpuRequestedCores :: fetcher where "cpuRequestedCores = eTransform (eFromRaw ''cpuRequestedCores'') tToCores"
definition processOpenFds :: fetcher where "processOpenFds = eFromValueWithOverriddenName ''process_open_fds'' ''processOpenFds'' []"
definition processMaxFds :: fetcher where "processMaxFds = eFromValueWithOverriddenName ''process_max_fds'' ''processMaxFds'' []"
definition allocatableCPUCores :: fetcher where "allocatableCPUCores = eAllocatableCPUCores"
definition allocatableMemoryBytes :: fetcher where "allocatableMemoryBytes = eAllocatableMemoryBytes"

section \<open>Tables of the control plane\<close>

definition apiServerGroupSpecs :: "specentry list" where
  "apiServerGroupSpecs =
    [Entry ''apiserverRequestsDelta'' (Fetch (eFromValueWithOverriddenName ''apiserver_request_total'' ''apiserverRequestsDelta'' [IncludeOnlyLabelsFilter [''verb'', ''code'']])) DELTA False,
     Entry ''apiserverRequestsRate'' (Fetch (eFromValueWithOverriddenName ''apiserver_request_total'' ''apiserverRequestsRate'' [IncludeOnlyLabelsFilter [''verb'', ''code'']])) RATE False,
     Entry ''apiserverCurrentInflightRequestsMutating'' (Fetch (eFromValueWithLabelsFilter ''apiserver_current_inflight_requests'' ''apiserverCurrentInflightRequestsMutating'' [IncludeOnlyWhenLabelMatchFilter [(''request_kind'', ''mutating'')]])) GAUGE False,
     Entry ''apiserverCurrentInflightRequestsReadOnly'' (Fetch (eFromValueWithLabelsFilter ''apiserver_current_inflight_requests'' ''apiserverCurrentInflightRequestsReadOnly'' [IncludeOnlyWhenLabelMatchFilter [(''request_kind'', ''readOnly'')]])) GAUGE False,
     Entry ''restClientRequestsDelta'' (Fetch (eFromValueWithOverriddenName ''rest_client_requests_total'' ''restClientRequestsDelta'' [IncludeOnlyLabelsFilter [''method'', ''code'']])) DELTA False,
     Entry ''restClientRequestsRate'' (Fetch (eFromValueWithOverriddenName ''rest_client_requests_total'' ''restClientRequestsRate'' [IncludeOnlyLabelsFilter [''method'', ''code'']])) RATE False,
     Entry ''etcdObjectCounts'' (Fetch (eFromValueWithOverriddenName ''etcd_object_counts'' ''etcdObjectCounts'' [])) GAUGE True,
     Entry ''apiserverStorageObjects'' (Fetch (eFetchIfMissing (eFromValueWithOverriddenName ''apiserver_storage_objects'' ''apiserverStorageObjects'' []) (eFromValueWithOverriddenName ''etcd_object_counts'' ''etcdObjectCounts'' []))) GAUGE False,
     Entry ''processResidentMemoryBytes'' (Fetch (eFromValueWithOverriddenName ''process_resident_memory_bytes'' ''processResidentMemoryBytes'' [])) GAUGE False,
     Entry ''processCpuSecondsDelta'' (Fetch (eFromValueWithOverriddenName ''process_cpu_seconds_total'' ''processCpuSecondsDelta'' [])) DELTA False,
     Entry ''goThreads'' (Fetch (eFromValueWithOverriddenName ''go_threads'' ''goThreads'' [])) GAUGE False,
     Entry ''goGoroutines'' (Fetch (eFromValueWithOverriddenName ''go_goroutines'' ''goGoroutines'' [])) GAUGE False]"

definition apiServerGroup :: "groupentry" where
  "apiServerGroup =
    \<lparr>EIDGenerator = Some FromRawEntityIDGenerator, ETypeGenerator = Some ControlPlaneComponentTypeGenerator, ENamespaceGetter = None,
     EMsTypeGuesser = None, ESpecs = apiServerGroupSpecs, ESplitByLabel = [], ESliceMetricName = []\<rparr>"

definition APIServerSpecs :: specentries where
  "APIServerSpecs = [(''api-server'', apiServerGroup)]"

definition APIServerQueries :: "query list" where
  "APIServerQueries =
    [ask ''apiserver_request_total'',
     ask ''rest_client_requests_total'',
     ask ''etcd_object_counts'',
     ask ''apiserver_storage_objects'',
     ask ''apiserver_current_inflight_requests'',
     ask ''process_resident_memory_bytes'',
     ask ''process_cpu_seconds_total'',
     ask ''go_threads'',
     ask ''go_goroutines'']"

definition controllerManagerGroupSpecs :: "specentry list" where
  "controllerManagerGroupSpecs =
    [Entry ''workqueueAddsDelta'' (Fetch (eFromValueWithOverriddenName ''workqueue_adds_total'' ''workqueueAddsDelta'' [])) DELTA True,
     Entry ''workqueueDepth'' (Fetch (eFromValueWithOverriddenName ''workqueue_depth'' ''workqueueDepth'' [])) GAUGE True,
     Entry ''workqueueRetriesDelta'' (Fetch (eFromValueWithOverriddenName ''workqueue_retries_total'' ''workqueueRetriesDelta'' [])) DELTA True,
     Entry ''leaderElectionMasterStatus'' (Fetch (eFromValueWithOverriddenName ''leader_election_master_status'' ''leaderElectionMasterStatus'' [IgnoreLabelsFilter [''name'']])) GAUGE False,
     Entry ''processResidentMemoryBytes'' (Fetch (eFromValueWithOverriddenName ''process_resident_memory_bytes'' ''processResidentMemoryBytes'' [])) GAUGE False,
     Entry ''processCpuSecondsDelta'' (Fetch (eFromValueWithOverriddenName ''process_cpu_seconds_total'' ''processCpuSecondsDelta'' [])) DELTA False,
     Entry ''goThreads'' (Fetch (eFromValueWithOverriddenName ''go_threads'' ''goThreads'' [])) GAUGE False,
     Entry ''goGoroutines'' (Fetch (eFromValueWithOverriddenName ''go_goroutines'' ''goGoroutines'' [])) GAUGE False,
     Entry ''nodeCollectorEvictionsDelta'' (Fetch (eFromValueWithOverriddenName ''node_collector_evictions_total'' ''nodeCollectorEvictionsDelta'' [IgnoreLabelsFilter [''zone'']])) PDELTA False]"

definition controllerManagerGroup :: "groupentry" where
  "controllerManagerGroup =
    \<lparr>EIDGenerator = Some FromRawEntityIDGenerator, ETypeGenerator = Some ControlPlaneComponentTypeGenerator, ENamespaceGetter = None,
     EMsTypeGuesser = None, ESpecs = controllerManagerGroupSpecs, ESplitByLabel = [], ESliceMetricName = []\<rparr>"

definition ControllerManagerSpecs :: specentries where
  "ControllerManagerSpecs = [(''controller-manager'', controllerManagerGroup)]"

definition ControllerManagerQueries :: "query list" where
  "ControllerManagerQueries =
    [ask ''workqueue_adds_total'',
     ask ''workqueue_depth'',
     ask ''workqueue_retries_total'',
     ask ''leader_election_master_status'',
     ask ''process_resident_memory_bytes'',
     ask ''process_cpu_seconds_total'',
     ask ''go_threads'',
     ask ''go_goroutines'',
     ask ''node_collector_evictions_total'']"

definition schedulerGroupSpecs :: "specentry list" where
  "schedulerGroupSpecs =
    [Entry ''leaderElectionMasterStatus'' (Fetch (eFromValueWithOverriddenName ''leader_election_master_status'' ''leaderElectionMasterStatus'' [IgnoreLabelsFilter [''name'']])) GAUGE False,
     Entry ''restClientRequestsDelta'' (Fetch (eFromValueWithOverriddenName ''rest_client_requests_total'' ''restClientRequestsDelta'' [])) DELTA False,
     Entry ''restClientRequestsRate'' (Fetch (eFromValueWithOverriddenName ''rest_client_requests_total'' ''restClientRequestsRate'' [])) RATE False,
     Entry ''schedulerScheduleAttemptsDelta'' (Fetch (eFromValueWithOverriddenName ''scheduler_schedule_attempts_total'' ''schedulerScheduleAttemptsDelta'' [])) DELTA False,
     Entry ''schedulerScheduleAttemptsRate'' (Fetch (eFromValueWithOverriddenName ''scheduler_schedule_attempts_total'' ''schedulerScheduleAttemptsRate'' [])) RATE False,
     Entry ''schedulerSchedulingDurationSeconds'' (Fetch (eFromSummary ''scheduler_scheduling_duration_seconds'')) GAUGE True,
     Entry ''schedulerPreemptionAttemptsDelta'' (Fetch (eFromValueWithOverriddenName ''scheduler_total_preemption_attempts'' ''schedulerPreemptionAttemptsDelta'' [])) DELTA False,
     Entry ''schedulerPendingPodsActive'' (Fetch (eFromValueWithLabelsFilter ''scheduler_pending_pods'' ''schedulerPendingPodsActive'' [IncludeOnlyWhenLabelMatchFilter [(''queue'', ''active'')]])) GAUGE False,
     Entry ''schedulerPendingPodsBackoff'' (Fetch (eFromValueWithLabelsFilter ''scheduler_pending_pods'' ''schedulerPendingPodsBackoff'' [IncludeOnlyWhenLabelMatchFilter [(''queue'', ''backoff'')]])) GAUGE False,
     Entry ''schedulerPendingPodsUnschedulable'' (Fetch (eFromValueWithLabelsFilter ''scheduler_pending_pods'' ''schedulerPendingPodsUnschedulable'' [IncludeOnlyWhenLabelMatchFilter [(''queue'', ''unschedulable'')]])) GAUGE False,
     Entry ''schedulerPodPreemptionVictims'' (Fetch (eFromValueWithOverriddenName ''scheduler_pod_preemption_victims'' ''schedulerPodPreemptionVictims'' [])) GAUGE False,
     Entry ''processResidentMemoryBytes'' (Fetch (eFromValueWithOverriddenName ''process_resident_memory_bytes'' ''processResidentMemoryBytes'' [])) GAUGE False,
     Entry ''processCpuSecondsDelta'' (Fetch (eFromValueWithOverriddenName ''process_cpu_seconds_total'' ''processCpuSecondsDelta'' [])) DELTA False,
     Entry ''goThreads'' (Fetch (eFromValueWithOverriddenName ''go_threads'' ''goThreads'' [])) GAUGE False,
     Entry ''goGoroutines'' (Fetch (eFromValueWithOverriddenName ''go_goroutines'' ''goGoroutines'' [])) GAUGE False]"

definition schedulerGroup :: "groupentry" where
  "schedulerGroup =
    \<lparr>EIDGenerator = Some FromRawEntityIDGenerator, ETypeGenerator = Some ControlPlaneComponentTypeGenerator, ENamespaceGetter = None,
     EMsTypeGuesser = None, ESpecs = schedulerGroupSpecs, ESplitByLabel = [], ESliceMetricName = []\<rparr>"

definition SchedulerSpecs :: specentries where
  "SchedulerSpecs = [(''scheduler'', schedulerGroup)]"

definition SchedulerQueries :: "query list" where
  "SchedulerQueries =
    [ask ''leader_election_master_status'',
     ask ''rest_client_requests_total'',
     ask ''scheduler_schedule_attempts_total'',
     ask ''scheduler_scheduling_duration_seconds'',
     ask ''scheduler_total_preemption_attempts'',
     ask ''scheduler_pending_pods'',
     ask ''scheduler_pod_preemption_victims'',
     ask ''process_resident_memory_bytes'',
     ask ''process_cpu_seconds_total'',
     ask ''go_threads'',
     ask ''go_goroutines'']"

definition etcdGroupSpecs :: "specentry list" where
  "etcdGroupSpecs =
    [Entry ''etcdServerHasLeader'' (Fetch (eFromValueWithOverriddenName ''etcd_server_has_leader'' ''etcdServerHasLeader'' [])) GAUGE False,
     Entry ''etcdServerLeaderChangesSeenDelta'' (Fetch (eFromValueWithOverriddenName ''etcd_server_leader_changes_seen_total'' ''etcdServerLeaderChangesSeenDelta'' [])) DELTA False,
     Entry ''etcdMvccDbTotalSizeInBytes'' (Fetch (eFromValueWithOverriddenName ''etcd_mvcc_db_total_size_in_bytes'' ''etcdMvccDbTotalSizeInBytes'' [])) GAUGE False,
     Entry ''etcdServerProposalsCommittedRate'' (Fetch (eFromValueWithOverriddenName ''etcd_server_proposals_committed_total'' ''etcdServerProposalsCommittedRate'' [])) RATE False,
     Entry ''etcdServerProposalsCommittedDelta'' (Fetch (eFromValueWithOverriddenName ''etcd_server_proposals_committed_total'' ''etcdServerProposalsCommittedDelta'' [])) DELTA False,
     Entry ''etcdServerProposalsAppliedRate'' (Fetch (eFromValueWithOverriddenName ''etcd_server_proposals_applied_total'' ''etcdServerProposalsAppliedRate'' [])) RATE False,
     Entry ''etcdServerProposalsAppliedDelta'' (Fetch (eFromValueWithOverriddenName ''etcd_server_proposals_applied_total'' ''etcdServerProposalsAppliedDelta'' [])) DELTA False,
     Entry ''etcdServerProposalsPending'' (Fetch (eFromValueWithOverriddenName ''etcd_server_proposals_pending'' ''etcdServerProposalsPending'' [])) GAUGE False,
     Entry ''etcdServerProposalsFailedRate'' (Fetch (eFromValueWithOverriddenName ''etcd_server_proposals_failed_total'' ''etcdServerProposalsFailedRate'' [])) RATE False,
     Entry ''etcdServerProposalsFailedDelta'' (Fetch (eFromValueWithOverriddenName ''etcd_server_proposals_failed_total'' ''etcdServerProposalsFailedDelta'' [])) DELTA False,
     Entry ''processOpenFds'' (Fetch processOpenFds) GAUGE False,
     Entry ''processMaxFds'' (Fetch processMaxFds) GAUGE False,
     Entry ''etcdNetworkClientGrpcReceivedBytesRate'' (Fetch (eFromValueWithOverriddenName ''etcd_network_client_grpc_received_bytes_total'' ''etcdNetworkClientGrpcReceivedBytesRate'' [])) RATE False,
     Entry ''etcdNetworkClientGrpcSentBytesRate'' (Fetch (eFromValueWithOverriddenName ''etcd_network_client_grpc_sent_bytes_total'' ''etcdNetworkClientGrpcSentBytesRate'' [])) RATE False,
     Entry ''processResidentMemoryBytes'' (Fetch (eFromValueWithOverriddenName ''process_resident_memory_bytes'' ''processResidentMemoryBytes'' [])) GAUGE False,
     Entry ''processCpuSecondsDelta'' (Fetch (eFromValueWithOverriddenName ''process_cpu_seconds_total'' ''processCpuSecondsDelta'' [])) DELTA False,
     Entry ''goThreads'' (Fetch (eFromValueWithOverriddenName ''go_threads'' ''goThreads'' [])) GAUGE False,
     Entry ''goGoroutines'' (Fetch (eFromValueWithOverriddenName ''go_goroutines'' ''goGoroutines'' [])) GAUGE False,
     Entry ''processFdsUtilization'' (Fetch (eToUtilization processOpenFds processMaxFds)) GAUGE False]"

definition etcdGroup :: "groupentry" where
  "etcdGroup =
    \<lparr>EIDGenerator = Some FromRawEntityIDGenerator, ETypeGenerator = Some ControlPlaneComponentTypeGenerator, ENamespaceGetter = None,
     EMsTypeGuesser = None, ESpecs = etcdGroupSpecs, ESplitByLabel = [], ESliceMetricName = []\<rparr>"

definition EtcdSpecs :: specentries where
  "EtcdSpecs = [(''etcd'', etcdGroup)]"

definition EtcdQueries :: "query list" where
  "EtcdQueries =
    [ask ''etcd_server_has_leader'',
     ask ''etcd_server_leader_changes_seen_total'',
     ask ''etcd_mvcc_db_total_size_in_bytes'',
     ask ''etcd_server_proposals_committed_total'',
     ask ''etcd_server_proposals_applied_total'',
     ask ''etcd_server_proposals_pending'',
     ask ''etcd_server_proposals_failed_total'',
     ask ''process_open_fds'',
     ask ''process_max_fds'',
     ask ''etcd_network_client_grpc_received_bytes_total'',
     ask ''etcd_network_client_grpc_sent_bytes_total'',
     ask ''process_resident_memory_bytes'',
     ask ''process_cpu_seconds_total'',
     ask ''go_threads'',
     ask ''go_goroutines'']"

section \<open>What an expression reads\<close>

fun readsFilter :: "filterexpr \<Rightarrow> string list" where
  "readsFilter pFilterCPUUsedCores = [attrCPULimit]"

fun metricsRead :: "fetcher \<Rightarrow> string list" where
  "metricsRead (eFromRaw k) = [k]"
| "metricsRead (eTransform f t) = metricsRead f"
| "metricsRead (eTransformAndFilter f t p) = metricsRead f @ readsFilter p"
| "metricsRead (eFromValue k fs) = [k]"
| "metricsRead (eFromValueWithOverriddenName k n fs) = [k]"
| "metricsRead (eFromValueWithLabelsFilter k n fs) = [k]"
| "metricsRead (eCountFromValueWithLabelsFilter k n fs) = [k]"
| "metricsRead (eFromSummary k) = [k]"
| "metricsRead (eFromFlattenedMetrics k l) = [k]"
| "metricsRead (eFromLabelValue k l) = [k]"
| "metricsRead (eFromMetricWithPrefixedLabels k p) = [k]"
| "metricsRead (eInheritAllLabelsFrom g k) = [k]"
| "metricsRead (eInheritAllSelectorsFrom g k) = [k]"
| "metricsRead (eSubtract f g) = metricsRead f @ metricsRead g"
| "metricsRead (eToUtilization f g) = metricsRead f @ metricsRead g"
| "metricsRead (eToComplementPercentage d c) = [d, c]"
| "metricsRead (eFetchIfMissing f g) = metricsRead f @ metricsRead g"
| "metricsRead (eFetchWithDefault f v) = metricsRead f"
| "metricsRead eIsPersistentVolume = [''pvcName'']"
| "metricsRead eGetDeploymentNameForReplicaSet = [''kube_replicaset_owner'']"
| "metricsRead eGetDeploymentNameForPod = [''kube_pod_info'']"
| "metricsRead eAllocatableCPUCores = [''allocatable'']"
| "metricsRead eAllocatableMemoryBytes = [''allocatable'']"

fun valueReads :: "valueexpr \<Rightarrow> string list" where
  "valueReads (Fetch f) = metricsRead f"
| "valueReads (Fallback k) = [k, ''interfaces'']"

definition tableReads :: "specentries \<Rightarrow> string list" where
  "tableReads es = concat (map (\<lambda>(gl, g). concat (map (valueReads \<circ> EFetch) (ESpecs g))) es)"

text \<open>Expressions that look at their own entity only, through its raw metrics.\<close>

fun ownEntity :: "fetcher \<Rightarrow> bool" where
  "ownEntity (eTransform f t) = ownEntity f"
| "ownEntity (eTransformAndFilter f t p) = False"
| "ownEntity (eSubtract f g) = (ownEntity f \<and> ownEntity g)"
| "ownEntity (eToUtilization f g) = (ownEntity f \<and> ownEntity g)"
| "ownEntity (eFetchIfMissing f g) = (ownEntity f \<and> ownEntity g)"
| "ownEntity (eFetchWithDefault f v) = ownEntity f"
| "ownEntity (eInheritAllLabelsFrom g k) = False"
| "ownEntity (eInheritAllSelectorsFrom g k) = False"
| "ownEntity f = True"

lemma FromLabelValue_raw:
  "FromRaw k gl eid gs = FromRaw k gl eid gs' \<Longrightarrow> FromLabelValue k l gl eid gs = FromLabelValue k l gl eid gs'"
  by (simp add: FromLabelValue_def)

lemma deployment_names_raw:
  "FromRaw ''kube_replicaset_owner'' gl eid gs = FromRaw ''kube_replicaset_owner'' gl eid gs' \<Longrightarrow>
     GetDeploymentNameForReplicaSet gl eid gs = GetDeploymentNameForReplicaSet gl eid gs'"
  "FromRaw ''kube_pod_info'' gl eid gs = FromRaw ''kube_pod_info'' gl eid gs' \<Longrightarrow>
     GetDeploymentNameForPod gl eid gs = GetDeploymentNameForPod gl eid gs'"
  unfolding GetDeploymentNameForReplicaSet_def GetDeploymentNameForPod_def
  by (simp_all only: FromLabelValue_raw[of "''kube_replicaset_owner''" gl eid gs gs'] FromLabelValue_raw[of "''kube_pod_info''" gl eid gs gs'])

text \<open>\<open>metricsRead\<close> is right about them: the value depends on the metrics it lists and on nothing else.\<close>

lemma metricsRead_sound:
  assumes "ownEntity f" "\<forall>k \<in> set (metricsRead f). FromRaw k gl eid gs = FromRaw k gl eid gs'"
  shows "runFetcher cc f gl eid gs = runFetcher cc f gl eid gs'"
  using assms
proof (induction f)
  case (eToComplementPercentage d c)
  then have "FromRaw d gl eid gs = FromRaw d gl eid gs'" "FromRaw c gl eid gs = FromRaw c gl eid gs'" by auto
  then show ?case by (simp add: toComplementPercentage_def)
qed (auto simp: Transform_def FromValue_def FromValueWithOverriddenName_def FromValueWithLabelsFilter_def
       CountFromValueWithLabelsFilter_def FromSummary_def FromFlattenedMetrics_def
       FromMetricWithPrefixedLabels_def Subtract_def toUtilization_def fetchIfMissing_def
       fetchWithDefault_def isPersistentVolume_def
       AllocatableCPUCores_def AllocatableMemoryBytes_def intro: FromLabelValue_raw deployment_names_raw split: result.split)

section \<open>Panics\<close>

lemma runTransform_no_panic [simp]: "\<not> is_panic (runTransform cc t v)"
  by (cases t)
     (auto simp: fromNano_def fromNanoToMilli_def toTimestamp_def toNumericBoolean_def toCores_def fromPrometheusNumeric_def
       OneMetricPerLabel_def OneAttributePerAllocatable_def OneAttributePerCapacity_def oneAttributePerResource_def
       PrefixFromMapInt_def split: goval.splits pvalue.splits)

text \<open>
  Expressions that cannot panic. The operands of a subtraction are converted with a type assertion, so
  they have to end in \<open>fromPrometheusNumeric\<close>; \<open>toComplementPercentage\<close> asserts the types of raw values.
\<close>

fun numericExpr :: "fetcher \<Rightarrow> bool" where
  "numericExpr (eTransform f tFromPrometheusNumeric) = True"
| "numericExpr f = False"

fun calmExpr :: "fetcher \<Rightarrow> bool" where
  "calmExpr (eTransform f t) = calmExpr f"
| "calmExpr (eTransformAndFilter f t p) = calmExpr f"
| "calmExpr (eSubtract f g) = (calmExpr f \<and> calmExpr g \<and> numericExpr f \<and> numericExpr g)"
| "calmExpr (eToUtilization f g) = (calmExpr f \<and> calmExpr g)"
| "calmExpr (eToComplementPercentage d c) = False"
| "calmExpr (eFetchIfMissing f g) = (calmExpr f \<and> calmExpr g)"
| "calmExpr (eFetchWithDefault f v) = calmExpr f"
| "calmExpr f = True"

fun calmValue :: "valueexpr \<Rightarrow> bool" where
  "calmValue (Fetch f) = calmExpr f"
| "calmValue (Fallback k) = False"

lemma withLabelsLoop_no_panic [simp]: "\<not> is_panic (withLabelsLoop n ms fs vals)"
  by (induction n ms fs vals rule: withLabelsLoop.induct) (auto split: option.splits)

lemma withLabels_no_panic [simp]: "\<not> is_panic (fetchedValuesFromRawMetricsWithLabels n ov ms z fs)"
  by (auto simp: fetchedValuesFromRawMetricsWithLabels_def Let_def)

lemma summaryLoop_no_panic [simp]: "\<not> is_panic (summaryLoop k ms vals)"
  by (induction k ms vals rule: summaryLoop.induct) (auto split: pvalue.splits)

lemma prom_fetch_no_panic [simp]:
  "\<not> is_panic (FromValueWithLabelsFilter k n fs gl eid gs)"
  "\<not> is_panic (CountFromValueWithLabelsFilter k n fs gl eid gs)"
  "\<not> is_panic (FromSummary k gl eid gs)"
  "\<not> is_panic (FromFlattenedMetrics k l gl eid gs)"
  "\<not> is_panic (FromMetricWithPrefixedLabels k p gl eid gs)"
  by (auto simp: FromValueWithLabelsFilter_def CountFromValueWithLabelsFilter_def FromSummary_def FromFlattenedMetrics_def
        FromMetricWithPrefixedLabels_def FromRaw_def split: goval.splits option.splits list.splits result.splits)

lemma getRawEntityID_no_panic [simp]: "\<not> is_panic (getRawEntityID pl gl eid gs)"
  by (auto simp: getRawEntityID_def getRandomMetricWithLabels_def split: goval.splits option.splits prod.splits bool.splits)

lemma labelsFromMetric_no_panic [simp]: "\<not> is_panic (labelsFromMetric pl k gl eid gs pre)"
proof -
  have "\<exists>m. v = VMetric m" if "fetchMetric k pl rid gs = Ok v" for rid v
    using that unfolding fetchMetric_def rbind_Ok_iff
    by (elim exE conjE, rename_tac raw, case_tac raw) auto
  moreover have "\<not> is_panic (fetchMetric k pl rid gs)" for rid
    by (auto simp: fetchMetric_def split: goval.splits)
  ultimately have "\<not> is_panic (case fetchMetric k pl rid gs of
      Ok v \<Rightarrow> (case v of VMetric m \<Rightarrow> Ok (VFetched (prefixedLabels pre (Labels m))) | _ \<Rightarrow> typePanic v ''prometheus.Metric'')
    | Fail _ \<Rightarrow> Fail er | Panic p \<Rightarrow> Panic p)" for rid er
    by (cases "fetchMetric k pl rid gs") (fastforce, simp, metis is_panic.simps(1))
  then show ?thesis unfolding labelsFromMetric_def by (intro rbindw_no_panic) auto
qed

lemma FromLabelValue_string: "FromLabelValue k l gl eid gs = Ok v \<Longrightarrow> \<exists>s. v = VString s"
  unfolding FromLabelValue_def rbind_Ok_iff
  by (elim exE conjE, rename_tac raw, case_tac raw) (auto split: list.splits option.splits)

lemma deployment_names_no_panic [simp]:
  "\<not> is_panic (GetDeploymentNameForReplicaSet gl eid gs)" "\<not> is_panic (GetDeploymentNameForPod gl eid gs)"
  by (auto simp: GetDeploymentNameForReplicaSet_def GetDeploymentNameForPod_def asString_def dest!: FromLabelValue_string split: goval.splits)

lemma convertValue_no_panic [simp]: "\<not> is_panic (convertValue v)"
  by (induction v rule: convertValue.induct) auto

lemma computed_no_panic [simp]:
  "\<not> is_panic (computePercentage a b)" "\<not> is_panic (isPersistentVolume gl eid gs)"
  "\<not> is_panic (AllocatableCPUCores gl eid gs)" "\<not> is_panic (AllocatableMemoryBytes gl eid gs)"
  "\<not> is_panic (runFilter p v gl eid gs)"
  subgoal by (simp add: computePercentage_def)
  subgoal by (auto simp: isPersistentVolume_def split: result.splits)
  subgoal by (auto simp: AllocatableCPUCores_def split: goval.splits option.splits)
  subgoal by (auto simp: AllocatableMemoryBytes_def split: goval.splits option.splits)
  subgoal by (cases p) (auto simp: filterCPUUsedCores_def toCores_def Let_def split: goval.splits option.splits)
  done

lemma fromPrometheusNumeric_float: "fromPrometheusNumeric v = Ok w \<Longrightarrow> \<exists>x. w = VFloat64 x"
  by (cases v) (auto simp: fromPrometheusNumeric_def split: pvalue.splits)

lemma numericExpr_float: "numericExpr f \<Longrightarrow> runFetcher cc f gl eid gs = Ok v \<Longrightarrow> \<exists>x. v = VFloat64 x"
  by (cases f rule: numericExpr.cases) (auto simp: Transform_def rbind_Ok_iff dest: fromPrometheusNumeric_float)

lemma calmExpr_no_panic: "calmExpr f \<Longrightarrow> \<not> is_panic (runFetcher cc f gl eid gs)"
proof (induction f)
  case (eSubtract f g)
  then show ?case
    using numericExpr_float[of f cc gl eid gs] numericExpr_float[of g cc gl eid gs]
    by (auto simp: Subtract_def asFloat64_def)
qed (auto simp: Transform_def TransformAndFilter_def InheritAllLabelsFrom_def InheritAllSelectorsFrom_def toUtilization_def
       fetchIfMissing_def fetchWithDefault_def split: result.splits)

lemma runFetcher_calm: "calmExpr f \<Longrightarrow> \<not> is_panic (fst (runValue cc (Fetch f) gl eid gs c))"
  by (simp add: liftFetch_def calmExpr_no_panic)

section \<open>Tables that cannot panic\<close>

text \<open>
  A group of a table whose expressions are all free of panics, with a type generator when its entities
  are split, and with generators that never panic.
\<close>

definition quietGenerators :: "groupentry \<Rightarrow> bool" where
  "quietGenerators g \<longleftrightarrow>
     (\<forall>gen. EIDGenerator g = Some gen \<longrightarrow> (\<forall>gl eid gs. \<not> is_panic (gen gl eid gs))) \<and>
     (\<forall>gen. ETypeGenerator g = Some gen \<longrightarrow> (\<forall>gl eid gs cl. \<not> is_panic (gen gl eid gs cl))) \<and>
     (\<forall>gen. EMsTypeGuesser g = Some gen \<longrightarrow> (\<forall>gl. \<not> is_panic (gen gl)))"

definition calmTable :: "specentries \<Rightarrow> bool" where
  "calmTable es = list_all (\<lambda>(gl, g). list_all (calmValue \<circ> EFetch) (ESpecs g) \<and>
     (ESplitByLabel g \<noteq> [] \<longrightarrow> ETypeGenerator g \<noteq> None)) es"

lemma getLabels_no_panic [simp]: "\<not> is_panic (getLabels gl eid k gs ls)"
  by (induction gl eid k gs ls rule: getLabels.induct) (auto split: goval.splits)

lemma generators_no_panic [simp]:
  "\<not> is_panic (FromRawEntityIDGenerator gl eid gs)"
  "\<not> is_panic (ControlPlaneComponentTypeGenerator gl eid gs cl)"
  "\<not> is_panic (defaultEntityTypeFromLabelValue k grp gl eid gs cl)"
  "\<not> is_panic (FromLabelValueEntityTypeGenerator k gl eid gs cl)"
  "\<not> is_panic (FromLabelValueEntityTypeGeneratorWithCustomGroup k grp gl eid gs cl)"
  "\<not> is_panic (FromLabelValueEntityIDGenerator k l gl eid gs)"
  "\<not> is_panic (FromLabelsValueEntityIDGeneratorForPendingPods gl eid gs)"
  "\<not> is_panic (metricSetTypeGuesserWithCustomGroup grp gl)"
  by (auto simp: FromRawEntityIDGenerator_def ControlPlaneComponentTypeGenerator_def defaultEntityTypeFromLabelValue_def
        FromLabelValueEntityTypeGenerator_def FromLabelValueEntityTypeGeneratorWithCustomGroup_def
        FromLabelValueEntityIDGenerator_def FromLabelsValueEntityIDGeneratorForPendingPods_def
        metricSetTypeGuesserWithCustomGroup_def K8sMetricSetTypeGuesser_def Let_def split: goval.splits)

lemmas controlplane_tables =
  APIServerSpecs_def apiServerGroup_def apiServerGroupSpecs_def APIServerQueries_def
  ControllerManagerSpecs_def controllerManagerGroup_def controllerManagerGroupSpecs_def ControllerManagerQueries_def
  SchedulerSpecs_def schedulerGroup_def schedulerGroupSpecs_def SchedulerQueries_def
  EtcdSpecs_def etcdGroup_def etcdGroupSpecs_def EtcdQueries_def

definition controlplaneTables :: "(specentries \<times> query list) list" where
  "controlplaneTables = [(APIServerSpecs, APIServerQueries), (ControllerManagerSpecs, ControllerManagerQueries),
     (SchedulerSpecs, SchedulerQueries), (EtcdSpecs, EtcdQueries)]"

text \<open>
  Every metric that the specifications of a control-plane component read is asked for by the queries
  of that component, every query asks for a metric that a specification reads, and no two queries store
  their metrics under the same name.
\<close>

lemma controlplane_queries_complete:
  "list_all (\<lambda>(specs, queries). set (tableReads specs) = set (map queryName queries) \<and> distinct (map queryName queries))
     controlplaneTables"
  by code_simp

lemma controlplane_calm: "list_all (\<lambda>(specs, queries). calmTable specs) controlplaneTables"
  by code_simp

lemma controlplane_quiet: "list_all (\<lambda>(specs, queries). list_all (quietGenerators \<circ> snd) specs) controlplaneTables"
  by (simp add: controlplaneTables_def quietGenerators_def controlplane_tables)

end
