(* ===== verification/Ksm_Specs.thy ===== *)
theory Ksm_Specs
  imports Metric_Specs
begin

text \<open>
  The specifications and the queries of kube-state-metrics, \<open>KSMSpecs\<close> and \<open>KSMQueries\<close> of
  \<open>src/metric/definition.go\<close>, and what they guarantee together with the KSM grouper.
\<close>

section \<open>Tables\<close>

definition ksmPersistentvolumeSpecs :: "specentry list" where
  "ksmPersistentvolumeSpecs =
    [Entry ''createdAt'' (Fetch (eFromValue ''kube_persistentvolume_created'' [])) GAUGE False,
     Entry ''capacityBytes'' (Fetch (eFromValue ''kube_persistentvolume_capacity_bytes'' [])) GAUGE False,
     Entry ''statusPhase'' (Fetch (eFromLabelValue ''kube_persistentvolume_status_phase'' ''phase'')) ATTRIBUTE False,
     Entry ''volumeName'' (Fetch (eFromLabelValue ''kube_persistentvolume_info'' ''persistentvolume'')) ATTRIBUTE False,
     Entry ''pvcName'' (Fetch (eFromLabelValue ''kube_persistentvolume_claim_ref'' ''name'')) ATTRIBUTE False,
     Entry ''pvcNamespace'' (Fetch (eFromLabelValue ''kube_persistentvolume_claim_ref'' ''claim_namespace'')) ATTRIBUTE False,
     Entry ''label.*'' (Fetch (eFromMetricWithPrefixedLabels ''kube_persistentvolume_labels'' ''label'')) ATTRIBUTE False,
     Entry ''storageClass'' (Fetch (eFromLabelValue ''kube_persistentvolume_info'' ''storageclass'')) ATTRIBUTE False,
     Entry ''hostPath'' (Fetch (eFromLabelValue ''kube_persistentvolume_info'' ''host_path'')) ATTRIBUTE False,
     Entry ''hostPathType'' (Fetch (eFromLabelValue ''kube_persistentvolume_info'' ''host_path_type'')) ATTRIBUTE False,
     Entry ''localFs'' (Fetch (eFromLabelValue ''kube_persistentvolume_info'' ''local_fs'')) ATTRIBUTE False,
     Entry ''localPath'' (Fetch (eFromLabelValue ''kube_persistentvolume_info'' ''local_path'')) ATTRIBUTE False,
     Entry ''csiVolumeHandle'' (Fetch (eFromLabelValue ''kube_persistentvolume_info'' ''csi_volume_handle'')) ATTRIBUTE False,
     Entry ''csiDriver'' (Fetch (eFromLabelValue ''kube_persistentvolume_info'' ''csi_driver'')) ATTRIBUTE False,
     Entry ''nfsPath'' (Fetch (eFromLabelValue ''kube_persistentvolume_info'' ''nfs_path'')) ATTRIBUTE False,
     Entry ''nfsServer'' (Fetch (eFromLabelValue ''kube_persistentvolume_info'' ''nfs_server'')) ATTRIBUTE False,
     Entry ''iscsiInitiatorName'' (Fetch (eFromLabelValue ''kube_persistentvolume_info'' ''iscsi_initiator_name'')) ATTRIBUTE False,
     Entry ''iscsiLun'' (Fetch (eFromLabelValue ''kube_persistentvolume_info'' ''iscsi_lun'')) ATTRIBUTE False,
     Entry ''iscsiIqn'' (Fetch (eFromLabelValue ''kube_persistentvolume_info'' ''iscsi_iqn'')) ATTRIBUTE False,
     Entry ''iscsiTargetPortal'' (Fetch (eFromLabelValue ''kube_persistentvolume_info'' ''iscsi_target_portal'')) ATTRIBUTE False,
     Entry ''fcTargetWwns'' (Fetch (eFromLabelValue ''kube_persistentvolume_info'' ''fc_target_wwns'')) ATTRIBUTE False,
     Entry ''fcLun'' (Fetch (eFromLabelValue ''kube_persistentvolume_info'' ''fc_lun'')) ATTRIBUTE False,
     Entry ''fcWwids'' (Fetch (eFromLabelValue ''kube_persistentvolume_info'' ''fc_wwids'')) ATTRIBUTE False,
     Entry ''azureDiskName'' (Fetch (eFromLabelValue ''kube_persistentvolume_info'' ''azure_disk_name'')) ATTRIBUTE False,
     Entry ''ebsVolumeId'' (Fetch (eFromLabelValue ''kube_persistentvolume_info'' ''ebs_volume_id'')) ATTRIBUTE False,
     Entry ''gcePersistentDiskName'' (Fetch (eFromLabelValue ''kube_persistentvolume_info'' ''gce_persistent_disk_name'')) ATTRIBUTE False]"

definition ksmPersistentvolume :: "groupentry" where
  "ksmPersistentvolume =
    \<lparr>EIDGenerator = Some (FromLabelValueEntityIDGenerator ''kube_persistentvolume_info'' ''persistentvolume''), ETypeGenerator = Some (FromLabelValueEntityTypeGeneratorWithCustomGroup ''kube_persistentvolume_info'' ''PersistentVolume''), ENamespaceGetter = Some FromLabelGetNamespace,
     EMsTypeGuesser = Some (metricSetTypeGuesserWithCustomGroup ''PersistentVolume''), ESpecs = ksmPersistentvolumeSpecs, ESplitByLabel = [], ESliceMetricName = []\<rparr>"

definition ksmCronjobSpecs :: "specentry list" where
  "ksmCronjobSpecs =
    [Entry ''createdAt'' (Fetch (eFromValue ''kube_cronjob_created'' [])) GAUGE False,
     Entry ''isActive'' (Fetch (eFromValue ''kube_cronjob_status_active'' [])) GAUGE False,
     Entry ''nextScheduledTime'' (Fetch (eFromValue ''kube_cronjob_next_schedule_time'' [])) GAUGE False,
     Entry ''lastScheduledTime'' (Fetch (eFromValue ''kube_cronjob_status_last_schedule_time'' [])) GAUGE False,
     Entry ''isSuspended'' (Fetch (eFromValue ''kube_cronjob_spec_suspend'' [])) GAUGE False,
     Entry ''specStartingDeadlineSeconds'' (Fetch (eFromValue ''kube_cronjob_spec_starting_deadline_seconds'' [])) GAUGE False,
     Entry ''metadataResourceVersion'' (Fetch (eFromValue ''kube_cronjob_metadata_resource_version'' [])) GAUGE False,
     Entry ''cronjobName'' (Fetch (eFromLabelValue ''kube_cronjob_created'' ''cronjob'')) ATTRIBUTE False,
     Entry ''namespace'' (Fetch (eFromLabelValue ''kube_cronjob_created'' ''namespace'')) ATTRIBUTE False,
     Entry ''namespaceName'' (Fetch (eFromLabelValue ''kube_cronjob_created'' ''namespace'')) ATTRIBUTE False,
     Entry ''label.*'' (Fetch (eFromMetricWithPrefixedLabels ''kube_cronjob_labels'' ''label'')) ATTRIBUTE False,
     Entry ''schedule'' (Fetch (eFromLabelValue ''kube_cronjob_info'' ''schedule'')) ATTRIBUTE False,
     Entry ''concurrencyPolicy'' (Fetch (eFromLabelValue ''kube_cronjob_info'' ''concurrency_policy'')) ATTRIBUTE False]"

definition ksmCronjob :: "groupentry" where
  "ksmCronjob =
    \<lparr>EIDGenerator = Some (FromLabelValueEntityIDGenerator ''kube_cronjob_created'' ''cronjob''), ETypeGenerator = Some (FromLabelValueEntityTypeGenerator ''kube_cronjob_created''), ENamespaceGetter = Some FromLabelGetNamespace,
     EMsTypeGuesser = None, ESpecs = ksmCronjobSpecs, ESplitByLabel = [], ESliceMetricName = []\<rparr>"

definition ksmJobNameSpecs :: "specentry list" where
  "ksmJobNameSpecs =
    [Entry ''createdAt'' (Fetch (eFromValue ''kube_job_created'' [])) GAUGE False,
     Entry ''startedAt'' (Fetch (eFromValue ''kube_job_status_start_time'' [])) GAUGE False,
     Entry ''completedAt'' (Fetch (eFromValue ''kube_job_status_completion_time'' [])) GAUGE False,
     Entry ''specParallelism'' (Fetch (eFromValue ''kube_job_spec_parallelism'' [])) GAUGE False,
     Entry ''specCompletions'' (Fetch (eFromValue ''kube_job_spec_completions'' [])) GAUGE False,
     Entry ''specActiveDeadlineSeconds'' (Fetch (eFromValue ''kube_job_spec_active_deadline_seconds'' [])) GAUGE False,
     Entry ''activePods'' (Fetch (eFromValue ''kube_job_status_active'' [])) GAUGE False,
     Entry ''succeededPods'' (Fetch (eFromValue ''kube_job_status_succeeded'' [])) GAUGE False,
     Entry ''failedPods'' (Fetch (eFromValue ''kube_job_status_failed'' [])) GAUGE False,
     Entry ''isComplete'' (Fetch (eFromLabelValue ''kube_job_complete'' ''condition'')) ATTRIBUTE False,
     Entry ''failed'' (Fetch (eFromLabelValue ''kube_job_failed'' ''condition'')) ATTRIBUTE False,
     Entry ''failedPodsReason'' (Fetch (eFromLabelValue ''kube_job_status_failed'' ''reason'')) ATTRIBUTE False,
     Entry ''ownerName'' (Fetch (eFromLabelValue ''kube_job_owner'' ''owner_name'')) ATTRIBUTE False,
     Entry ''ownerKind'' (Fetch (eFromLabelValue ''kube_job_owner'' ''owner_kind'')) ATTRIBUTE False,
     Entry ''ownerIsController'' (Fetch (eFromLabelValue ''kube_job_owner'' ''owner_is_controller'')) ATTRIBUTE False,
     Entry ''jobName'' (Fetch (eFromLabelValue ''kube_job_created'' ''job_name'')) ATTRIBUTE False,
     Entry ''namespace'' (Fetch (eFromLabelValue ''kube_job_created'' ''namespace'')) ATTRIBUTE False,
     Entry ''namespaceName'' (Fetch (eFromLabelValue ''kube_job_created'' ''namespace'')) ATTRIBUTE False,
     Entry ''label.*'' (Fetch (eFromMetricWithPrefixedLabels ''kube_job_labels'' ''label'')) ATTRIBUTE False]"

definition ksmJobName :: "groupentry" where
  "ksmJobName =
    \<lparr>EIDGenerator = Some (FromLabelValueEntityIDGenerator ''kube_job_created'' ''job_name''), ETypeGenerator = Some (FromLabelValueEntityTypeGeneratorWithCustomGroup ''kube_job_created'' ''job''), ENamespaceGetter = Some FromLabelGetNamespace,
     EMsTypeGuesser = Some (metricSetTypeGuesserWithCustomGroup ''job''), ESpecs = ksmJobNameSpecs, ESplitByLabel = [], ESliceMetricName = []\<rparr>"

definition ksmPersistentvolumeclaimSpecs :: "specentry list" where
  "ksmPersistentvolumeclaimSpecs =
    [Entry ''createdAt'' (Fetch (eFromValue ''kube_persistentvolumeclaim_created'' [])) GAUGE False,
     Entry ''requestedStorageBytes'' (Fetch (eFromValue ''kube_persistentvolumeclaim_resource_requests_storage_bytes'' [])) GAUGE False,
     Entry ''accessMode'' (Fetch (eFromLabelValue ''kube_persistentvolumeclaim_access_mode'' ''access_mode'')) ATTRIBUTE False,
     Entry ''statusPhase'' (Fetch (eFromLabelValue ''kube_persistentvolumeclaim_status_phase'' ''phase'')) ATTRIBUTE False,
     Entry ''storageClass'' (Fetch (eFromLabelValue ''kube_persistentvolumeclaim_info'' ''storageclass'')) ATTRIBUTE False,
     Entry ''pvcName'' (Fetch (eFromLabelValue ''kube_persistentvolumeclaim_info'' ''persistentvolumeclaim'')) ATTRIBUTE False,
     Entry ''volumeName'' (Fetch (eFromLabelValue ''kube_persistentvolumeclaim_info'' ''volumename'')) ATTRIBUTE False,
     Entry ''namespace'' (Fetch (eFromLabelValue ''kube_persistentvolumeclaim_info'' ''namespace'')) ATTRIBUTE False,
     Entry ''namespaceName'' (Fetch (eFromLabelValue ''kube_persistentvolumeclaim_info'' ''namespace'')) ATTRIBUTE False,
     Entry ''label.*'' (Fetch (eFromMetricWithPrefixedLabels ''kube_persistentvolumeclaim_labels'' ''label'')) ATTRIBUTE False]"

definition ksmPersistentvolumeclaim :: "groupentry" where
  "ksmPersistentvolumeclaim =
    \<lparr>EIDGenerator = Some (FromLabelValueEntityIDGenerator ''kube_persistentvolumeclaim_info'' ''persistentvolumeclaim''), ETypeGenerator = Some (FromLabelValueEntityTypeGeneratorWithCustomGroup ''kube_persistentvolumeclaim_info'' ''PersistentVolumeClaim''), ENamespaceGetter = Some FromLabelGetNamespace,
     EMsTypeGuesser = Some (metricSetTypeGuesserWithCustomGroup ''PersistentVolumeClaim''), ESpecs = ksmPersistentvolumeclaimSpecs, ESplitByLabel = [], ESliceMetricName = []\<rparr>"

definition ksmReplicasetSpecs :: "specentry list" where
  "ksmReplicasetSpecs =
    [Entry ''createdAt'' (Fetch (eFromValue ''kube_replicaset_created'' [])) GAUGE False,
     Entry ''podsDesired'' (Fetch (eFromValue ''kube_replicaset_spec_replicas'' [])) GAUGE False,
     Entry ''podsReady'' (Fetch (eFromValue ''kube_replicaset_status_ready_replicas'' [])) GAUGE False,
     Entry ''podsTotal'' (Fetch (eFromValue ''kube_replicaset_status_replicas'' [])) GAUGE False,
     Entry ''podsFullyLabeled'' (Fetch (eFromValue ''kube_replicaset_status_fully_labeled_replicas'' [])) GAUGE False,
     Entry ''observedGeneration'' (Fetch (eFromValue ''kube_replicaset_status_observed_generation'' [])) GAUGE False,
     Entry ''metadataGeneration'' (Fetch (eFromValue ''kube_replicaset_metadata_generation'' [])) GAUGE False,
     Entry ''replicasetName'' (Fetch (eFromLabelValue ''kube_replicaset_created'' ''replicaset'')) ATTRIBUTE False,
     Entry ''namespace'' (Fetch (eFromLabelValue ''kube_replicaset_created'' ''namespace'')) ATTRIBUTE False,
     Entry ''namespaceName'' (Fetch (eFromLabelValue ''kube_replicaset_created'' ''namespace'')) ATTRIBUTE False,
     Entry ''deploymentName'' (Fetch eGetDeploymentNameForReplicaSet) ATTRIBUTE True,
     Entry ''label.*'' (Fetch (eFromMetricWithPrefixedLabels ''kube_replicaset_labels'' ''label'')) ATTRIBUTE False,
     Entry ''ownerName'' (Fetch (eFromLabelValue ''kube_replicaset_owner'' ''owner_name'')) ATTRIBUTE False,
     Entry ''ownerKind'' (Fetch (eFromLabelValue ''kube_replicaset_owner'' ''owner_kind'')) ATTRIBUTE False,
     Entry ''ownerIsController'' (Fetch (eFromLabelValue ''kube_replicaset_owner'' ''owner_is_controller'')) ATTRIBUTE False,
     Entry ''podsMissing'' (Fetch (eSubtract (eTransform (eFromValue ''kube_replicaset_spec_replicas'' []) tFromPrometheusNumeric) (eTransform (eFromValue ''kube_replicaset_status_ready_replicas'' []) tFromPrometheusNumeric))) GAUGE False]"

definition ksmReplicaset :: "groupentry" where
  "ksmReplicaset =
    \<lparr>EIDGenerator = Some (FromLabelValueEntityIDGenerator ''kube_replicaset_created'' ''replicaset''), ETypeGenerator = Some (FromLabelValueEntityTypeGenerator ''kube_replicaset_created''), ENamespaceGetter = Some FromLabelGetNamespace,
     EMsTypeGuesser = None, ESpecs = ksmReplicasetSpecs, ESplitByLabel = [], ESliceMetricName = []\<rparr>"

definition ksmStatefulsetSpecs :: "specentry list" where
  "ksmStatefulsetSpecs =
    [Entry ''createdAt'' (Fetch (eFromValue ''kube_statefulset_created'' [])) GAUGE False,
     Entry ''podsDesired'' (Fetch (eFromValue ''kube_statefulset_replicas'' [])) GAUGE False,
     Entry ''podsReady'' (Fetch (eFromValue ''kube_statefulset_status_replicas_ready'' [])) GAUGE False,
     Entry ''podsCurrent'' (Fetch (eFromValue ''kube_statefulset_status_replicas_current'' [])) GAUGE False,
     Entry ''podsTotal'' (Fetch (eFromValue ''kube_statefulset_status_replicas'' [])) GAUGE False,
     Entry ''podsUpdated'' (Fetch (eFromValue ''kube_statefulset_status_replicas_updated'' [])) GAUGE False,
     Entry ''observedGeneration'' (Fetch (eFromValue ''kube_statefulset_status_observed_generation'' [])) GAUGE False,
     Entry ''metadataGeneration'' (Fetch (eFromValue ''kube_statefulset_metadata_generation'' [])) GAUGE False,
     Entry ''currentRevision'' (Fetch (eFromValue ''kube_statefulset_status_current_revision'' [])) GAUGE False,
     Entry ''updateRevision'' (Fetch (eFromValue ''kube_statefulset_status_update_revision'' [])) GAUGE False,
     Entry ''statefulsetName'' (Fetch (eFromLabelValue ''kube_statefulset_created'' ''statefulset'')) ATTRIBUTE False,
     Entry ''namespaceName'' (Fetch (eFromLabelValue ''kube_statefulset_created'' ''namespace'')) ATTRIBUTE False,
     Entry ''label.*'' (Fetch (eFromMetricWithPrefixedLabels ''kube_statefulset_labels'' ''label'')) ATTRIBUTE False,
     Entry ''podsMissing'' (Fetch (eSubtract (eTransform (eFromValue ''kube_statefulset_replicas'' []) tFromPrometheusNumeric) (eTransform (eFromValue ''kube_statefulset_status_replicas_ready'' []) tFromPrometheusNumeric))) GAUGE False]"

definition ksmStatefulset :: "groupentry" where
  "ksmStatefulset =
    \<lparr>EIDGenerator = Some (FromLabelValueEntityIDGenerator ''kube_statefulset_created'' ''statefulset''), ETypeGenerator = Some (FromLabelValueEntityTypeGenerator ''kube_statefulset_created''), ENamespaceGetter = Some FromLabelGetNamespace,
     EMsTypeGuesser = None, ESpecs = ksmStatefulsetSpecs, ESplitByLabel = [], ESliceMetricName = []\<rparr>"

definition ksmDaemonsetSpecs :: "specentry list" where
  "ksmDaemonsetSpecs =
    [Entry ''createdAt'' (Fetch (eFromValue ''kube_daemonset_created'' [])) GAUGE False,
     Entry ''podsDesired'' (Fetch (eFromValue ''kube_daemonset_status_desired_number_scheduled'' [])) GAUGE False,
     Entry ''podsScheduled'' (Fetch (eFromValue ''kube_daemonset_status_current_number_scheduled'' [])) GAUGE False,
     Entry ''podsAvailable'' (Fetch (eFromValue ''kube_daemonset_status_number_available'' [])) GAUGE False,
     Entry ''podsReady'' (Fetch (eFromValue ''kube_daemonset_status_number_ready'' [])) GAUGE False,
     Entry ''podsUnavailable'' (Fetch (eFromValue ''kube_daemonset_status_number_unavailable'' [])) GAUGE False,
     Entry ''podsMisscheduled'' (Fetch (eFromValue ''kube_daemonset_status_number_misscheduled'' [])) GAUGE False,
     Entry ''podsUpdatedScheduled'' (Fetch (eFromValue ''kube_daemonset_status_updated_number_scheduled'' [])) GAUGE False,
     Entry ''observedGeneration'' (Fetch (eFromValue ''kube_daemonset_status_observed_generation'' [])) GAUGE False,
     Entry ''metadataGeneration'' (Fetch (eFromValue ''kube_daemonset_metadata_generation'' [])) GAUGE False,
     Entry ''namespaceName'' (Fetch (eFromLabelValue ''kube_daemonset_created'' ''namespace'')) ATTRIBUTE False,
     Entry ''daemonsetName'' (Fetch (eFromLabelValue ''kube_daemonset_created'' ''daemonset'')) ATTRIBUTE False,
     Entry ''label.*'' (Fetch (eFromMetricWithPrefixedLabels ''kube_daemonset_labels'' ''label'')) ATTRIBUTE False,
     Entry ''podsMissing'' (Fetch (eSubtract (eTransform (eFromValue ''kube_daemonset_status_desired_number_scheduled'' []) tFromPrometheusNumeric) (eTransform (eFromValue ''kube_daemonset_status_number_ready'' []) tFromPrometheusNumeric))) GAUGE False]"

definition ksmDaemonset :: "groupentry" where
  "ksmDaemonset =
    \<lparr>EIDGenerator = Some (FromLabelValueEntityIDGenerator ''kube_daemonset_created'' ''daemonset''), ETypeGenerator = Some (FromLabelValueEntityTypeGenerator ''kube_daemonset_created''), ENamespaceGetter = Some FromLabelGetNamespace,
     EMsTypeGuesser = None, ESpecs = ksmDaemonsetSpecs, ESplitByLabel = [], ESliceMetricName = []\<rparr>"

definition ksmNamespaceSpecs :: "specentry list" where
  "ksmNamespaceSpecs =
    [Entry ''createdAt'' (Fetch (eFromValue ''kube_namespace_created'' [])) GAUGE False,
     Entry ''namespace'' (Fetch (eFromLabelValue ''kube_namespace_created'' ''namespace'')) ATTRIBUTE False,
     Entry ''namespaceName'' (Fetch (eFromLabelValue ''kube_namespace_created'' ''namespace'')) ATTRIBUTE False,
     Entry ''status'' (Fetch (eFromLabelValue ''kube_namespace_status_phase'' ''phase'')) ATTRIBUTE False,
     Entry ''label.*'' (Fetch (eFromMetricWithPrefixedLabels ''kube_namespace_labels'' ''label'')) ATTRIBUTE False,
     Entry ''annotation.*'' (Fetch (eFromMetricWithPrefixedLabels ''kube_namespace_annotations'' ''annotation'')) ATTRIBUTE False]"

definition ksmNamespace :: "groupentry" where
  "ksmNamespace =
    \<lparr>EIDGenerator = None, ETypeGenerator = Some (FromLabelValueEntityTypeGenerator ''kube_namespace_created''), ENamespaceGetter = Some FromLabelGetNamespace,
     EMsTypeGuesser = None, ESpecs = ksmNamespaceSpecs, ESplitByLabel = [], ESliceMetricName = []\<rparr>"

definition ksmDeploymentSpecs :: "specentry list" where
  "ksmDeploymentSpecs =
    [Entry ''createdAt'' (Fetch (eFromValue ''kube_deployment_created'' [])) GAUGE False,
     Entry ''podsDesired'' (Fetch (eFromValue ''kube_deployment_spec_replicas'' [])) GAUGE False,
     Entry ''podsTotal'' (Fetch (eFromValue ''kube_deployment_status_replicas'' [])) GAUGE False,
     Entry ''podsReady'' (Fetch (eFromValue ''kube_deployment_status_replicas_ready'' [])) GAUGE False,
     Entry ''podsAvailable'' (Fetch (eFromValue ''kube_deployment_status_replicas_available'' [])) GAUGE False,
     Entry ''podsUnavailable'' (Fetch (eFromValue ''kube_deployment_status_replicas_unavailable'' [])) GAUGE False,
     Entry ''podsUpdated'' (Fetch (eFromValue ''kube_deployment_status_replicas_updated'' [])) GAUGE False,
     Entry ''observedGeneration'' (Fetch (eFromValue ''kube_deployment_status_observed_generation'' [])) GAUGE False,
     Entry ''isPaused'' (Fetch (eFromValue ''kube_deployment_spec_paused'' [])) GAUGE False,
     Entry ''rollingUpdateMaxPodsSurge'' (Fetch (eFromValue ''kube_deployment_spec_strategy_rollingupdate_max_surge'' [])) GAUGE False,
     Entry ''metadataGeneration'' (Fetch (eFromValue ''kube_deployment_metadata_generation'' [])) GAUGE False,
     Entry ''conditionAvailable'' (Fetch (eFromLabelValue ''kube_deployment_status_condition_available'' ''status'')) ATTRIBUTE False,
     Entry ''conditionProgressing'' (Fetch (eFromLabelValue ''kube_deployment_status_condition_progressing'' ''status'')) ATTRIBUTE False,
     Entry ''conditionReplicaFailure'' (Fetch (eFromLabelValue ''kube_deployment_status_condition_replica_failure'' ''status'')) ATTRIBUTE False,
     Entry ''podsMaxUnavailable'' (Fetch (eFromValue ''kube_deployment_spec_strategy_rollingupdate_max_unavailable'' [])) GAUGE False,
     Entry ''namespace'' (Fetch (eFromLabelValue ''kube_deployment_created'' ''namespace'')) ATTRIBUTE False,
     Entry ''namespaceName'' (Fetch (eFromLabelValue ''kube_deployment_created'' ''namespace'')) ATTRIBUTE False,
     Entry ''deploymentName'' (Fetch (eFromLabelValue ''kube_deployment_created'' ''deployment'')) ATTRIBUTE False,
     Entry ''label.*'' (Fetch (eInheritAllLabelsFrom ''namespace'' ''kube_namespace_labels'')) ATTRIBUTE False,
     Entry ''label.*'' (Fetch (eFromMetricWithPrefixedLabels ''kube_deployment_labels'' ''label'')) ATTRIBUTE False,
     Entry ''annotation.*'' (Fetch (eFromMetricWithPrefixedLabels ''kube_deployment_annotations'' ''annotation'')) ATTRIBUTE False,
     Entry ''podsMissing'' (Fetch (eSubtract (eTransform (eFromValue ''kube_deployment_spec_replicas'' []) tFromPrometheusNumeric) (eTransform (eFromValue ''kube_deployment_status_replicas'' []) tFromPrometheusNumeric))) GAUGE False]"

definition ksmDeployment :: "groupentry" where
  "ksmDeployment =
    \<lparr>EIDGenerator = Some (FromLabelValueEntityIDGenerator ''kube_deployment_created'' ''deployment''), ETypeGenerator = Some (FromLabelValueEntityTypeGenerator ''kube_deployment_created''), ENamespaceGetter = Some FromLabelGetNamespace,
     EMsTypeGuesser = None, ESpecs = ksmDeploymentSpecs, ESplitByLabel = [], ESliceMetricName = []\<rparr>"

definition ksmServiceSpecs :: "specentry list" where
  "ksmServiceSpecs =
    [Entry ''createdAt'' (Fetch (eFromValue ''kube_service_created'' [])) GAUGE False,
     Entry ''namespaceName'' (Fetch (eFromLabelValue ''kube_service_created'' ''namespace'')) ATTRIBUTE False,
     Entry ''serviceName'' (Fetch (eFromLabelValue ''kube_service_created'' ''service'')) ATTRIBUTE False,
     Entry ''loadBalancerIP'' (Fetch (eFromLabelValue ''kube_service_info'' ''load_balancer_ip'')) ATTRIBUTE True,
     Entry ''externalName'' (Fetch (eFromLabelValue ''kube_service_info'' ''external_name'')) ATTRIBUTE True,
     Entry ''clusterIP'' (Fetch (eFromLabelValue ''kube_service_info'' ''cluster_ip'')) ATTRIBUTE True,
     Entry ''label.*'' (Fetch (eFromMetricWithPrefixedLabels ''kube_service_labels'' ''label'')) ATTRIBUTE False,
     Entry ''specType'' (Fetch (eFromLabelValue ''kube_service_spec_type'' ''type'')) ATTRIBUTE False,
     Entry ''selector.*'' (Fetch (eInheritAllSelectorsFrom ''service'' ''apiserver_kube_service_spec_selectors'')) ATTRIBUTE False]"

definition ksmService :: "groupentry" where
  "ksmService =
    \<lparr>EIDGenerator = Some (FromLabelValueEntityIDGenerator ''kube_service_created'' ''service''), ETypeGenerator = Some (FromLabelValueEntityTypeGenerator ''kube_service_created''), ENamespaceGetter = Some FromLabelGetNamespace,
     EMsTypeGuesser = None, ESpecs = ksmServiceSpecs, ESplitByLabel = [], ESliceMetricName = []\<rparr>"

definition ksmEndpointSpecs :: "specentry list" where
  "ksmEndpointSpecs =
    [Entry ''createdAt'' (Fetch (eFromValue ''kube_endpoint_created'' [])) GAUGE False,
     Entry ''namespaceName'' (Fetch (eFromLabelValue ''kube_endpoint_created'' ''namespace'')) ATTRIBUTE False,
     Entry ''endpointName'' (Fetch (eFromLabelValue ''kube_endpoint_created'' ''endpoint'')) ATTRIBUTE False,
     Entry ''label.*'' (Fetch (eFromMetricWithPrefixedLabels ''kube_endpoint_labels'' ''label'')) ATTRIBUTE False,
     Entry ''addressAvailable'' (Fetch (eFromValue ''kube_endpoint_address_available'' [])) GAUGE True,
     Entry ''addressNotReady'' (Fetch (eFromValue ''kube_endpoint_address_not_ready'' [])) GAUGE True,
     Entry ''addressAvailable'' (Fetch (eCountFromValueWithLabelsFilter ''kube_endpoint_address'' ''addressAvailable'' [IncludeOnlyWhenLabelMatchFilter [(''ready'', ''true'')]])) GAUGE True,
     Entry ''addressNotReady'' (Fetch (eCountFromValueWithLabelsFilter ''kube_endpoint_address'' ''addressNotReady'' [IncludeOnlyWhenLabelMatchFilter [(''ready'', ''false'')]])) GAUGE True]"

definition ksmEndpoint :: "groupentry" where
  "ksmEndpoint =
    \<lparr>EIDGenerator = Some (FromLabelValueEntityIDGenerator ''kube_endpoint_created'' ''endpoint''), ETypeGenerator = Some (FromLabelValueEntityTypeGenerator ''kube_endpoint_created''), ENamespaceGetter = Some FromLabelGetNamespace,
     EMsTypeGuesser = None, ESpecs = ksmEndpointSpecs, ESplitByLabel = [], ESliceMetricName = []\<rparr>"

definition ksmPodSpecs :: "specentry list" where
  "ksmPodSpecs =
    [Entry ''createdAt'' (Fetch (eFromValue ''kube_pod_created'' [])) GAUGE False,
     Entry ''createdKind'' (Fetch (eFromLabelValue ''kube_pod_info'' ''created_by_kind'')) ATTRIBUTE False,
     Entry ''createdBy'' (Fetch (eFromLabelValue ''kube_pod_info'' ''created_by_name'')) ATTRIBUTE False,
     Entry ''nodeIP'' (Fetch (eFromLabelValue ''kube_pod_info'' ''host_ip'')) ATTRIBUTE False,
     Entry ''namespace'' (Fetch (eFromLabelValue ''kube_pod_info'' ''namespace'')) ATTRIBUTE False,
     Entry ''namespaceName'' (Fetch (eFromLabelValue ''kube_pod_info'' ''namespace'')) ATTRIBUTE False,
     Entry ''nodeName'' (Fetch (eFromLabelValue ''kube_pod_info'' ''node'')) ATTRIBUTE False,
     Entry ''podName'' (Fetch (eFromLabelValue ''kube_pod_info'' ''pod'')) ATTRIBUTE False,
     Entry ''isReady'' (Fetch (eTransform (eFetchWithDefault (eFromLabelValue ''kube_pod_status_ready'' ''condition'') (VString ''false'')) tToNumericBoolean)) GAUGE False,
     Entry ''status'' (Fetch (eFromLabelValue ''kube_pod_status_phase'' ''phase'')) ATTRIBUTE False,
     Entry ''isScheduled'' (Fetch (eTransform (eFromLabelValue ''kube_pod_status_scheduled'' ''condition'') tToNumericBoolean)) GAUGE False,
     Entry ''deploymentName'' (Fetch eGetDeploymentNameForPod) ATTRIBUTE False,
     Entry ''priorityClassName'' (Fetch (eFromLabelValue ''kube_pod_info'' ''priority_class'')) ATTRIBUTE True,
     Entry ''label.*'' (Fetch (eFromMetricWithPrefixedLabels ''kube_pod_labels'' ''label'')) ATTRIBUTE False,
     Entry ''annotation.*'' (Fetch (eFromMetricWithPrefixedLabels ''kube_pod_annotations'' ''annotation'')) ATTRIBUTE False]"

definition ksmPod :: "groupentry" where
  "ksmPod =
    \<lparr>EIDGenerator = Some FromLabelsValueEntityIDGeneratorForPendingPods, ETypeGenerator = Some (FromLabelValueEntityTypeGenerator ''kube_pod_status_phase''), ENamespaceGetter = Some FromLabelGetNamespace,
     EMsTypeGuesser = None, ESpecs = ksmPodSpecs, ESplitByLabel = [], ESliceMetricName = []\<rparr>"

definition ksmHorizontalpodautoscalerSpecs :: "specentry list" where
  "ksmHorizontalpodautoscalerSpecs =
    [Entry ''metadataGeneration'' (Fetch (eFromValue ''kube_horizontalpodautoscaler_metadata_generation'' [])) GAUGE False,
     Entry ''maxReplicas'' (Fetch (eFromValue ''kube_horizontalpodautoscaler_spec_max_replicas'' [])) GAUGE False,
     Entry ''minReplicas'' (Fetch (eFromValue ''kube_horizontalpodautoscaler_spec_min_replicas'' [])) GAUGE False,
     Entry ''targetMetric'' (Fetch (eFromValue ''kube_horizontalpodautoscaler_spec_target_metric'' [])) GAUGE False,
     Entry ''currentReplicas'' (Fetch (eFromValue ''kube_horizontalpodautoscaler_status_current_replicas'' [])) GAUGE False,
     Entry ''desiredReplicas'' (Fetch (eFromValue ''kube_horizontalpodautoscaler_status_desired_replicas'' [])) GAUGE False,
     Entry ''namespaceName'' (Fetch (eFromLabelValue ''kube_horizontalpodautoscaler_metadata_generation'' ''namespace'')) ATTRIBUTE False,
     Entry ''label.*'' (Fetch (eFromMetricWithPrefixedLabels ''kube_horizontalpodautoscaler_labels'' ''label'')) ATTRIBUTE False,
     Entry ''isActive'' (Fetch (eFromValue ''kube_horizontalpodautoscaler_status_condition_active'' [])) GAUGE False,
     Entry ''isAble'' (Fetch (eFromValue ''kube_horizontalpodautoscaler_status_condition_able'' [])) GAUGE False,
     Entry ''isLimited'' (Fetch (eFromValue ''kube_horizontalpodautoscaler_status_condition_limited'' [])) GAUGE False]"

definition ksmHorizontalpodautoscaler :: "groupentry" where
  "ksmHorizontalpodautoscaler =
    \<lparr>EIDGenerator = Some (FromLabelValueEntityIDGenerator ''kube_horizontalpodautoscaler_status_current_replicas'' ''horizontalpodautoscaler''), ETypeGenerator = Some (FromLabelValueEntityTypeGeneratorWithCustomGroup ''kube_horizontalpodautoscaler_status_current_replicas'' ''hpa''), ENamespaceGetter = Some FromLabelGetNamespace,
     EMsTypeGuesser = Some (metricSetTypeGuesserWithCustomGroup ''hpa''), ESpecs = ksmHorizontalpodautoscalerSpecs, ESplitByLabel = [], ESliceMetricName = []\<rparr>"

definition ksmResourcequotaSpecs :: "specentry list" where
  "ksmResourcequotaSpecs =
    [Entry ''createdAt'' (Fetch (eFromValue ''kube_resourcequota_created'' [])) GAUGE False,
     Entry ''namespaceName'' (Fetch (eFromLabelValue ''kube_resourcequota_created'' ''namespace'')) ATTRIBUTE False,
     Entry ''resourcequotaName'' (Fetch (eFromLabelValue ''kube_resourcequota_created'' ''resourcequota'')) ATTRIBUTE False,
     Entry ''resource'' (Fetch (eFromLabelValue ''kube_resourcequota'' ''resource'')) ATTRIBUTE False,
     Entry ''resource.*'' (Fetch (eFromFlattenedMetrics ''kube_resourcequota'' ''type'')) GAUGE False,
     Entry ''label.*'' (Fetch (eFromMetricWithPrefixedLabels ''kube_resourcequota_labels'' ''label'')) ATTRIBUTE True,
     Entry ''annotation.*'' (Fetch (eFromMetricWithPrefixedLabels ''kube_resourcequota_annotations'' ''annotation'')) ATTRIBUTE True]"

definition ksmResourcequota :: "groupentry" where
  "ksmResourcequota =
    \<lparr>EIDGenerator = None, ETypeGenerator = Some (FromLabelValueEntityTypeGenerator ''kube_resourcequota_created''), ENamespaceGetter = Some FromLabelGetNamespace,
     EMsTypeGuesser = None, ESpecs = ksmResourcequotaSpecs, ESplitByLabel = ''resource'', ESliceMetricName = ''kube_resourcequota''\<rparr>"

definition KSMSpecs :: specentries where
  "KSMSpecs =
    [(''persistentvolume'', ksmPersistentvolume),
     (''cronjob'', ksmCronjob),
     (''job_name'', ksmJobName),
     (''persistentvolumeclaim'', ksmPersistentvolumeclaim),
     (''replicaset'', ksmReplicaset),
     (''statefulset'', ksmStatefulset),
     (''daemonset'', ksmDaemonset),
     (''namespace'', ksmNamespace),
     (''deployment'', ksmDeployment),
     (''service'', ksmService),
     (''endpoint'', ksmEndpoint),
     (''pod'', ksmPod),
     (''horizontalpodautoscaler'', ksmHorizontalpodautoscaler),
     (''resourcequota'', ksmResourcequota)]"

definition ksmVolumeJobQueries :: "query list" where
  "ksmVolumeJobQueries =
    [ask ''kube_persistentvolume_created'',
     ask ''kube_persistentvolume_capacity_bytes'',
     (ask ''kube_persistentvolume_status_phase'')\<lparr>QVal := GaugeValue (Fin 1)\<rparr>,
     ask ''kube_persistentvolume_claim_ref'',
     ask ''kube_persistentvolume_info'',
     (ask ''kube_persistentvolume_labels'')\<lparr>QVal := GaugeValue (Fin 1)\<rparr>,
     ask ''kube_cronjob_info'',
     (ask ''kube_cronjob_labels'')\<lparr>QVal := GaugeValue (Fin 1)\<rparr>,
     ask ''kube_cronjob_created'',
     ask ''kube_cronjob_next_schedule_time'',
     ask ''kube_cronjob_status_active'',
     ask ''kube_cronjob_status_last_schedule_time'',
     ask ''kube_cronjob_spec_suspend'',
     ask ''kube_cronjob_spec_starting_deadline_seconds'',
     ask ''kube_cronjob_metadata_resource_version'',
     ask ''kube_job_info'',
     (ask ''kube_job_labels'')\<lparr>QVal := GaugeValue (Fin 1)\<rparr>,
     ask ''kube_job_owner'',
     ask ''kube_job_spec_parallelism'',
     ask ''kube_job_spec_completions'',
     ask ''kube_job_spec_active_deadline_seconds'',
     ask ''kube_job_status_active'',
     ask ''kube_job_status_succeeded'',
     (ask ''kube_job_status_failed'')\<lparr>QVal := GaugeValue (Fin 1)\<rparr>,
     ask ''kube_job_status_start_time'',
     ask ''kube_job_status_completion_time'',
     (ask ''kube_job_complete'')\<lparr>QVal := GaugeValue (Fin 1)\<rparr>,
     (ask ''kube_job_failed'')\<lparr>QVal := GaugeValue (Fin 1)\<rparr>,
     ask ''kube_job_created'']"

definition ksmSetQueries :: "query list" where
  "ksmSetQueries =
    [ask ''kube_persistentvolumeclaim_created'',
     ask ''kube_persistentvolumeclaim_access_mode'',
     ask ''kube_persistentvolumeclaim_info'',
     ask ''kube_persistentvolumeclaim_resource_requests_storage_bytes'',
     (ask ''kube_persistentvolumeclaim_status_phase'')\<lparr>QVal := GaugeValue (Fin 1)\<rparr>,
     (ask ''kube_persistentvolumeclaim_labels'')\<lparr>QVal := GaugeValue (Fin 1)\<rparr>,
     ask ''kube_statefulset_replicas'',
     ask ''kube_statefulset_status_replicas_ready'',
     ask ''kube_statefulset_status_replicas'',
     ask ''kube_statefulset_status_replicas_current'',
     ask ''kube_statefulset_status_replicas_updated'',
     ask ''kube_statefulset_status_observed_generation'',
     ask ''kube_statefulset_metadata_generation'',
     ask ''kube_statefulset_status_current_revision'',
     ask ''kube_statefulset_status_update_revision'',
     ask ''kube_statefulset_created'',
     (ask ''kube_statefulset_labels'')\<lparr>QVal := GaugeValue (Fin 1)\<rparr>,
     ask ''kube_daemonset_created'',
     ask ''kube_daemonset_status_desired_number_scheduled'',
     ask ''kube_daemonset_status_current_number_scheduled'',
     ask ''kube_daemonset_status_number_ready'',
     ask ''kube_daemonset_status_number_available'',
     ask ''kube_daemonset_status_number_unavailable'',
     ask ''kube_daemonset_status_number_misscheduled'',
     ask ''kube_daemonset_status_updated_number_scheduled'',
     ask ''kube_daemonset_status_observed_generation'',
     ask ''kube_daemonset_metadata_generation'',
     (ask ''kube_daemonset_labels'')\<lparr>QVal := GaugeValue (Fin 1)\<rparr>,
     ask ''kube_replicaset_spec_replicas'',
     ask ''kube_replicaset_status_ready_replicas'',
     ask ''kube_replicaset_status_replicas'',
     ask ''kube_replicaset_status_fully_labeled_replicas'',
     ask ''kube_replicaset_status_observed_generation'',
     ask ''kube_replicaset_metadata_generation'',
     ask ''kube_replicaset_created'',
     (ask ''kube_replicaset_labels'')\<lparr>QVal := GaugeValue (Fin 1)\<rparr>,
     ask ''kube_replicaset_owner'']"

definition ksmDeploymentQueries :: "query list" where
  "ksmDeploymentQueries =
    [(ask ''kube_namespace_labels'')\<lparr>QVal := GaugeValue (Fin 1)\<rparr>,
     ask ''kube_namespace_annotations'',
     ask ''kube_namespace_created'',
     (ask ''kube_namespace_status_phase'')\<lparr>QVal := GaugeValue (Fin 1)\<rparr>,
     (ask ''kube_deployment_labels'')\<lparr>QVal := GaugeValue (Fin 1)\<rparr>,
     ask ''kube_deployment_annotations'',
     ask ''kube_deployment_created'',
     ask ''kube_deployment_spec_replicas'',
     ask ''kube_deployment_status_replicas'',
     ask ''kube_deployment_status_replicas_ready'',
     ask ''kube_deployment_status_replicas_available'',
     ask ''kube_deployment_status_replicas_unavailable'',
     ask ''kube_deployment_status_replicas_updated'',
     ask ''kube_deployment_status_observed_generation'',
     ask ''kube_deployment_spec_paused'',
     ask ''kube_deployment_spec_strategy_rollingupdate_max_surge'',
     ask ''kube_deployment_metadata_generation'',
     (ask ''kube_deployment_status_condition'')\<lparr>CustomName := ''kube_deployment_status_condition_available'', QLabels := [(''condition'', ''Available'')], QVal := GaugeValue (Fin 1)\<rparr>,
     (ask ''kube_deployment_status_condition'')\<lparr>CustomName := ''kube_deployment_status_condition_progressing'', QLabels := [(''condition'', ''Progressing'')], QVal := GaugeValue (Fin 1)\<rparr>,
     (ask ''kube_deployment_status_condition'')\<lparr>CustomName := ''kube_deployment_status_condition_replica_failure'', QLabels := [(''condition'', ''ReplicaFailure'')], QVal := GaugeValue (Fin 1)\<rparr>,
     ask ''kube_deployment_spec_strategy_rollingupdate_max_unavailable'']"

definition ksmPodNodeQueries :: "query list" where
  "ksmPodNodeQueries =
    [(ask ''kube_pod_status_phase'')\<lparr>QLabels := [(''phase'', ''Pending'')], QVal := GaugeValue (Fin 1)\<rparr>,
     ask ''kube_pod_info'',
     ask ''kube_pod_created'',
     ask ''kube_pod_labels'',
     ask ''kube_pod_annotations'',
     (ask ''kube_pod_status_scheduled'')\<lparr>QVal := GaugeValue (Fin 1)\<rparr>,
     (ask ''kube_pod_status_ready'')\<lparr>QVal := GaugeValue (Fin 1)\<rparr>,
     ask ''kube_pod_start_time'',
     ask ''kube_pod_spec_priority_class'',
     ask ''kube_service_created'',
     ask ''kube_service_labels'',
     ask ''kube_service_info'',
     ask ''kube_service_status_load_balancer_ingress'',
     (ask ''kube_service_spec_type'')\<lparr>QVal := GaugeValue (Fin 1)\<rparr>,
     ask ''kube_endpoint_created'',
     ask ''kube_endpoint_labels'',
     ask ''kube_endpoint_address_not_ready'',
     ask ''kube_endpoint_address_available'',
     ask ''kube_endpoint_address'',
     ask ''kube_horizontalpodautoscaler_info'',
     ask ''kube_horizontalpodautoscaler_labels'',
     ask ''kube_horizontalpodautoscaler_metadata_generation'',
     ask ''kube_horizontalpodautoscaler_spec_max_replicas'',
     ask ''kube_horizontalpodautoscaler_spec_min_replicas'',
     ask ''kube_horizontalpodautoscaler_spec_target_metric'',
     (ask ''kube_horizontalpodautoscaler_status_condition'')\<lparr>CustomName := ''kube_horizontalpodautoscaler_status_condition_active'', QLabelsOp := QueryOpAnd, QLabels := [(''condition'', ''ScalingActive''), (''status'', ''true'')]\<rparr>,
     (ask ''kube_horizontalpodautoscaler_status_condition'')\<lparr>CustomName := ''kube_horizontalpodautoscaler_status_condition_able'', QLabelsOp := QueryOpAnd, QLabels := [(''condition'', ''AbleToScale''), (''status'', ''true'')]\<rparr>,
     (ask ''kube_horizontalpodautoscaler_status_condition'')\<lparr>CustomName := ''kube_horizontalpodautoscaler_status_condition_limited'', QLabelsOp := QueryOpAnd, QLabels := [(''condition'', ''ScalingLimited''), (''status'', ''true'')]\<rparr>,
     ask ''kube_horizontalpodautoscaler_status_current_replicas'',
     ask ''kube_horizontalpodautoscaler_status_desired_replicas'',
     ask ''kube_node_info'',
     ask ''kube_node_labels'',
     (ask ''kube_node_status_condition'')\<lparr>QVal := GaugeValue (Fin 1)\<rparr>,
     ask ''kube_node_spec_unschedulable'',
     ask ''kube_resourcequota'',
     ask ''kube_resourcequota_created'',
     ask ''kube_resourcequota_labels'',
     ask ''kube_resourcequota_annotations'']"

definition KSMQueries :: "query list" where
  "KSMQueries = ksmVolumeJobQueries @ ksmSetQueries @ ksmDeploymentQueries @ ksmPodNodeQueries"

section \<open>Queries and specifications\<close>

text \<open>The groups in the order of the parts of the query list that feed them.\<close>

definition groupReads :: "groupentry list \<Rightarrow> string list" where
  "groupReads gs = concat (map (\<lambda>g. concat (map (valueReads \<circ> EFetch) (ESpecs g))) gs)"

definition readsWithin :: "groupentry list \<Rightarrow> query list \<Rightarrow> bool" where
  "readsWithin gs qs = (let names = map queryName qs in list_all (\<lambda>k. List.member names k) (remdups (groupReads gs)))"

lemma readsWithin_set: "readsWithin gs qs \<Longrightarrow> set (groupReads gs) \<subseteq> queryName ` set qs"
  by (auto simp: readsWithin_def Let_def list_all_iff)

lemma ksmVolumeJob_reads: "readsWithin [ksmPersistentvolume, ksmCronjob, ksmJobName] ksmVolumeJobQueries"
  by code_simp

lemma ksmSet_reads: "readsWithin [ksmPersistentvolumeclaim, ksmReplicaset, ksmStatefulset, ksmDaemonset] ksmSetQueries"
  by code_simp

lemma ksmDeployment_reads: "readsWithin [ksmNamespace, ksmDeployment] ksmDeploymentQueries"
  by code_simp

lemma ksmPodNode_reads: "readsWithin [ksmEndpoint, ksmPod, ksmHorizontalpodautoscaler, ksmResourcequota] ksmPodNodeQueries"
  by code_simp

lemma ksmService_reads:
  "list_all (\<lambda>k. k = ''apiserver_kube_service_spec_selectors'' \<or> List.member (map queryName ksmPodNodeQueries) k) (groupReads [ksmService])
   \<and> List.member (groupReads [ksmService]) ''apiserver_kube_service_spec_selectors''"
  by code_simp

lemma ksm_selectors_not_queried: "\<not> List.member (map queryName KSMQueries) ''apiserver_kube_service_spec_selectors''"
  by code_simp

text \<open>The word after \<open>kube_\<close> separates the four parts of the query list.\<close>

definition kindOf :: "query \<Rightarrow> string" where
  "kindOf q = takeWhile (\<lambda>c. c \<noteq> CHR ''_'') (drop 5 (queryName q))"

definition kindsIn :: "string list \<Rightarrow> query list \<Rightarrow> bool" where
  "kindsIn ks qs = list_all (\<lambda>q. List.member ks (kindOf q)) qs"

lemma ksmVolumeJob_kinds: "kindsIn [''persistentvolume'', ''cronjob'', ''job''] ksmVolumeJobQueries"
  by code_simp

lemma ksmSet_kinds: "kindsIn [''persistentvolumeclaim'', ''replicaset'', ''statefulset'', ''daemonset''] ksmSetQueries"
  by code_simp

lemma ksmDeployment_kinds: "kindsIn [''namespace'', ''deployment''] ksmDeploymentQueries"
  by code_simp

lemma ksmPodNode_kinds: "kindsIn [''pod'', ''service'', ''endpoint'', ''horizontalpodautoscaler'', ''node'', ''resourcequota''] ksmPodNodeQueries"
  by code_simp

lemma kinds_disjoint:
  assumes "kindsIn ks qs" "kindsIn ks' qs'" "set ks \<inter> set ks' = {}"
  shows "queryName ` set qs \<inter> queryName ` set qs' = {}"
proof -
  have "False" if "q \<in> set qs" "q' \<in> set qs'" "queryName q = queryName q'" for q q'
  proof -
    have "kindOf q = kindOf q'" using that(3) by (simp add: kindOf_def)
    moreover have "kindOf q \<in> set ks" "kindOf q' \<in> set ks'" using assms(1,2) that by (auto simp: kindsIn_def list_all_iff)
    ultimately show False using assms(3) by auto
  qed
  then show ?thesis by blast
qed

lemma ksm_part_names_distinct:
  "distinct (map queryName ksmVolumeJobQueries)" "distinct (map queryName ksmSetQueries)"
  "distinct (map queryName ksmDeploymentQueries)" "distinct (map queryName ksmPodNodeQueries)"
  by code_simp+

lemma ksm_query_names_distinct: "distinct (map queryName KSMQueries)"
proof -
  note k = ksmVolumeJob_kinds ksmSet_kinds ksmDeployment_kinds ksmPodNode_kinds
  have "queryName ` set ksmVolumeJobQueries \<inter> queryName ` set ksmSetQueries = {}"
    "queryName ` set ksmVolumeJobQueries \<inter> queryName ` set ksmDeploymentQueries = {}"
    "queryName ` set ksmVolumeJobQueries \<inter> queryName ` set ksmPodNodeQueries = {}"
    "queryName ` set ksmSetQueries \<inter> queryName ` set ksmDeploymentQueries = {}"
    "queryName ` set ksmSetQueries \<inter> queryName ` set ksmPodNodeQueries = {}"
    "queryName ` set ksmDeploymentQueries \<inter> queryName ` set ksmPodNodeQueries = {}"
    using kinds_disjoint[OF k(1) k(2)] kinds_disjoint[OF k(1) k(3)] kinds_disjoint[OF k(1) k(4)]
      kinds_disjoint[OF k(2) k(3)] kinds_disjoint[OF k(2) k(4)] kinds_disjoint[OF k(3) k(4)] by simp_all
  then show ?thesis by (auto simp: KSMQueries_def ksm_part_names_distinct)
qed

text \<open>
  C29: Every metric that the KSM specifications read is asked for by the KSM queries, except the
  selectors of the services, which the grouper adds from the API server; the queries store their
  metrics under distinct names.
\<close>

theorem ksm_queries_complete:
  "set (tableReads KSMSpecs) - set (map queryName KSMQueries) = {''apiserver_kube_service_spec_selectors''}
   \<and> distinct (map queryName KSMQueries)"
proof -
  have "tableReads KSMSpecs = groupReads (map snd KSMSpecs)"
    by (simp add: tableReads_def groupReads_def case_prod_unfold comp_def)
  moreover have "set (groupReads (map snd KSMSpecs)) =
      set (groupReads [ksmPersistentvolume, ksmCronjob, ksmJobName]) \<union>
      set (groupReads [ksmPersistentvolumeclaim, ksmReplicaset, ksmStatefulset, ksmDaemonset]) \<union>
      set (groupReads [ksmNamespace, ksmDeployment]) \<union>
      set (groupReads [ksmEndpoint, ksmPod, ksmHorizontalpodautoscaler, ksmResourcequota]) \<union> set (groupReads [ksmService])"
    by (auto simp: KSMSpecs_def groupReads_def)
  ultimately show ?thesis
    using ksmVolumeJob_reads[THEN readsWithin_set] ksmSet_reads[THEN readsWithin_set] ksmDeployment_reads[THEN readsWithin_set]
      ksmPodNode_reads[THEN readsWithin_set] ksmService_reads ksm_selectors_not_queried ksm_query_names_distinct
    by (auto simp: KSMQueries_def list_all_iff)
qed

lemma ksm_calm: "calmTable KSMSpecs"
  by code_simp

lemma ksm_quiet: "list_all (quietGenerators \<circ> snd) KSMSpecs"
  by (simp add: KSMSpecs_def quietGenerators_def ksmPersistentvolume_def ksmCronjob_def ksmJobName_def
      ksmPersistentvolumeclaim_def ksmReplicaset_def ksmStatefulset_def ksmDaemonset_def ksmNamespace_def ksmDeployment_def
      ksmService_def ksmEndpoint_def ksmPod_def ksmHorizontalpodautoscaler_def ksmResourcequota_def)

end
