(* ===== verification/Panic_Freedom.thy ===== *)
theory Panic_Freedom
  imports Ksm_Specs
begin

text \<open>
  The scrape of kube-state-metrics and of the control plane from end to end: whatever the endpoints
  answer, populating the integration does not panic. The proof goes through the populator once, for any
  specifications that cannot panic themselves, and applies it to the two sets of tables.
\<close>

section \<open>Computations that never panic\<close>

definition calm :: "('a, 'i, 'c, 'f) pop \<Rightarrow> bool" where
  "calm m \<longleftrightarrow> (\<forall>st. \<not> is_panic (fst (m st)))"

named_theorems calm_intros

lemma calmD: "calm m \<Longrightarrow> \<not> is_panic (fst (m st))"
  by (simp add: calm_def)

lemma calm_preturn [calm_intros]: "calm (preturn a)"
  by (simp add: calm_def preturn_def)

lemma calm_pbind [calm_intros]: "calm m \<Longrightarrow> (\<And>a. calm (f a)) \<Longrightarrow> calm (pbind m f)"
  by (auto simp: calm_def pbind_def split: prod.splits result.splits) (metis fst_conv is_panic.simps(1))+

lemma calm_pbind_Ok: "calm m \<Longrightarrow> (\<And>a st st'. m st = (Ok a, st') \<Longrightarrow> calm (f a)) \<Longrightarrow> calm (pbind m f)"
  by (auto simp: calm_def pbind_def split: prod.splits result.splits) (metis fst_conv is_panic.simps(1))+

lemma calm_onInt [calm_intros]: "calm (onInt f)"
  by (simp add: calm_def onInt_def split: prod.split)

lemma calm_isAllowed [calm_intros]: "calm (isAllowed f ns)"
  by (simp add: calm_def isAllowed_def split: prod.split)

section \<open>The populator\<close>

text \<open>
  What the populator relies on, for the groups that satisfy a predicate \<open>W\<close>: the value functions of a
  group and its generators do not panic on them.
\<close>

definition calmSpec :: "(rawgroups \<Rightarrow> bool) \<Rightarrow> string \<Rightarrow> 'c spec \<Rightarrow> bool" where
  "calmSpec W gl sp \<longleftrightarrow> (\<forall>eid gs c. W gs \<longrightarrow> \<not> is_panic (fst (ValueFunc sp gl eid gs c)))"

definition calmGroup :: "(rawgroups \<Rightarrow> bool) \<Rightarrow> string \<Rightarrow> 'c specgroup \<Rightarrow> bool" where
  "calmGroup W gl sg \<longleftrightarrow> (\<forall>sp \<in> set (Specs sg). calmSpec W gl sp) \<and>
     (\<forall>gen. IDGenerator sg = Some gen \<longrightarrow> (\<forall>gl eid gs. \<not> is_panic (gen gl eid gs))) \<and>
     (\<forall>gen. TypeGenerator sg = Some gen \<longrightarrow> (\<forall>gl eid gs cl. \<not> is_panic (gen gl eid gs cl))) \<and>
     (\<forall>gen. MsTypeGuesser sg = Some gen \<longrightarrow> (\<forall>gl. \<not> is_panic (gen gl))) \<and>
     (SplitByLabel sg \<noteq> [] \<longrightarrow> TypeGenerator sg \<noteq> None)"

definition calmSdk :: "'i sdk \<Rightarrow> bool" where
  "calmSdk sdk \<longleftrightarrow> (\<forall>n t i. \<not> is_panic (fst (sdkEntity sdk n t i)))"

lemma calm_setMetrics [calm_intros]: "calm (setMetrics sdk ms kvs t)"
  by (induction kvs) (auto intro!: calm_intros split: option.split)

lemma calm_populateValue [calm_intros]: "calm (populateValue sdk ms sp v)"
  by (auto simp: populateValue_def populateMetricsFromMap_def populateSingleMetric_def intro!: calm_intros split: goval.split option.split)

lemma calm_fetchValue: "calm (fetchValue sp gl eid gs)"
  by (simp add: calm_def fetchValue_def split: prod.split)

lemma fetchValue_quiet: "calmSpec W gl sp \<Longrightarrow> W gs \<Longrightarrow> fetchValue sp gl eid gs st \<noteq> (Ok (Panic q), st')"
  by (cases "ValueFunc sp gl eid gs (pCache st)")
     (auto simp: fetchValue_def calmSpec_def, metis fst_conv is_panic.simps(1))

lemma calm_specLoop:
  "\<forall>sp \<in> set specs. calmSpec W gl sp \<Longrightarrow> W gs \<Longrightarrow> calm (specLoop sdk ms gl eid gs specs p es)"
proof (induction specs arbitrary: p es)
  case (Cons sp specs)
  then show ?case
    by (auto intro!: calm_pbind_Ok[OF calm_fetchValue] calm_intros split: result.split option.split prod.split)
       (auto dest: fetchValue_quiet)
qed (auto intro: calm_intros)

lemma calm_sdkEntity:
  "calmSdk sdk \<Longrightarrow> (\<And>h n. calm (f (Ok (h, n)))) \<Longrightarrow> (\<And>e. calm (f (Fail e))) \<Longrightarrow> calm (pbind (onInt (sdkEntity sdk a b)) f)"
  by (intro calm_pbind_Ok calm_onInt)
     (auto simp: calmSdk_def onInt_def split: prod.splits,
      metis fst_conv is_panic.simps(1) result.exhaust surj_pair)

lemma calm_populateCluster: "calmSdk sdk \<Longrightarrow> calm (populateCluster sdk cn cid v)"
  unfolding populateCluster_def by (rule calm_sdkEntity) (auto intro!: calm_intros)

lemma prepare_no_panic: "calmGroup W gl sg \<Longrightarrow> \<not> is_panic (prepareProcessingUnits config sg gl eid r)"
  by (auto simp: prepareProcessingUnits_def splitGroup_def calmGroup_def Let_def split: option.split)

lemma prepare_quiet: "calmGroup W gl sg \<Longrightarrow> prepareProcessingUnits config sg gl eid r \<noteq> Panic p"
  using prepare_no_panic by (metis is_panic.simps(1))

text \<open>A processing unit belongs to its entity; without a split it has all the raw metrics of it.\<close>

definition unitOf :: "'c specgroup \<Rightarrow> string \<Rightarrow> rawmetrics \<Rightarrow> processingunit \<Rightarrow> bool" where
  "unitOf sg eid r u \<longleftrightarrow> originalEntityID u = eid \<and> (SplitByLabel sg = [] \<longrightarrow> rawMetricsOf u = r)"

lemma prepare_units: "prepareProcessingUnits config sg gl eid r = Ok us \<Longrightarrow> u \<in> set us \<Longrightarrow> unitOf sg eid r u"
  by (auto simp: prepareProcessingUnits_def unitOf_def rbind_Ok_iff rbindw_Ok_iff split: if_splits option.splits)

definition calmConfig :: "(rawgroups \<Rightarrow> bool) \<Rightarrow> 'c specgroups \<Rightarrow> ('c, 'f) popconfig \<Rightarrow> bool" where
  "calmConfig W specs config \<longleftrightarrow> CfgSpecs config = specs \<and> W (CfgGroups config) \<and> (\<forall>gl. \<not> is_panic (CfgMsTypeGuesser config gl))"

text \<open>
  The contract of a set of specifications with the populator: on groups that satisfy \<open>W\<close> they do not
  panic, and \<open>W\<close> survives the replacement of a group by the metrics of one unit of it.
\<close>

locale calm_scrape =
  fixes W :: "rawgroups \<Rightarrow> bool" and specs :: "'c specgroups"
  assumes specs_calm: "mget specs gl = Some sg \<Longrightarrow> calmGroup W gl sg"
    and units_kept: "W gs \<Longrightarrow> (gl, ents) \<in> set gs \<Longrightarrow> (eid, r) \<in> set ents \<Longrightarrow> mget specs gl = Some sg \<Longrightarrow>
      unitOf sg eid r u \<Longrightarrow> W (groupsForEntity gs gl u)"
begin

lemma metricSetPopulate_calm:
  assumes "W gs" shows "calm (metricSetPopulate sdk ms gl eid gs specs)"
proof (cases "mget specs gl")
  case (Some sg)
  then show ?thesis using specs_calm[OF Some] assms calm_specLoop[of "Specs sg" W gl gs] by (simp add: metricSetPopulate_def calmGroup_def)
qed (simp add: metricSetPopulate_def calm_intros)

lemma processUnit_calm:
  assumes "calmSdk sdk" "calmConfig W specs config" "calmGroup W gl sg" "W (groupsForEntity (CfgGroups config) gl u)"
  shows "calm (processUnit sdk config sg gl as u)"
proof -
  have "\<not> is_panic ((case MsTypeGuesser sg of Some custom \<Rightarrow> custom | None \<Rightarrow> CfgMsTypeGuesser config) gl)" (is "\<not> is_panic ?t")
    using assms by (auto simp: calmGroup_def calmConfig_def split: option.split)
  then have t: "?t \<noteq> Panic p" for p by auto
  have c: "CfgSpecs config = specs" using assms(2) by (simp add: calmConfig_def)
  show ?thesis unfolding processUnit_def
  proof (rule calm_sdkEntity[OF assms(1)])
    fix h n
    show "calm (case Ok (h, n) of Fail e \<Rightarrow> preturn (False, [e]) | Panic p \<Rightarrow> (\<lambda>st. (Panic p, st)) | Ok (h, name) \<Rightarrow>
           pbind (onInt (\<lambda>i. ((), sdkAddAttributes sdk h (entityAttributes config as name) i))) (\<lambda>_.
             case ?t of
               Fail e \<Rightarrow> preturn (False, [e])
             | Panic p \<Rightarrow> (\<lambda>st. (Panic p, st))
             | Ok msType \<Rightarrow>
                 pbind (onInt (sdkNewMetricSet sdk h msType)) (\<lambda>ms.
                 pbind (metricSetPopulate sdk ms gl (originalEntityID u)
                          (groupsForEntity (CfgGroups config) gl u) (CfgSpecs config)) (\<lambda>(p, errs).
                 preturn (p, map (\<lambda>e. Errorf ''error populating metric for entity ID %s: %w'' [entityID u] [e]) errs)))))"
      using t unfolding c
      by (cases ?t) (auto intro!: calm_intros metricSetPopulate_calm[OF assms(4)] split: prod.split)
  qed (simp add: calm_intros)
qed

lemma processEntities_calm:
  assumes "calmSdk sdk" "calmConfig W specs config" "calmGroup W gl sg" "\<forall>u \<in> set us. W (groupsForEntity (CfgGroups config) gl u)"
  shows "calm (processEntities sdk config sg gl as us)"
  using assms(4) by (induction us) (auto intro!: calm_intros processUnit_calm[OF assms(1-3)] split: prod.split)

lemma populateEntity_calm:
  assumes "calmSdk sdk" "calmConfig W specs config" "(gl, ents) \<in> set (CfgGroups config)" "(eid, r) \<in> set ents"
  shows "calm (populateEntity sdk config gl (eid, r))"
proof (cases "mget specs gl")
  case (Some sg)
  note sg = specs_calm[OF Some]
  have W: "W (CfgGroups config)" and c: "CfgSpecs config = specs" using assms(2) by (simp_all add: calmConfig_def)
  have "calm (case prepareProcessingUnits config sg gl eid r of Fail e \<Rightarrow> preturn (False, [e]) | Panic p \<Rightarrow> (\<lambda>st. (Panic p, st))
      | Ok units \<Rightarrow> processEntities sdk config sg gl as units)" for as
    using prepare_quiet[OF sg, of config eid r] prepare_units[of config sg gl eid r] units_kept[OF W assms(3,4) Some]
    by (cases "prepareProcessingUnits config sg gl eid r") (auto intro!: calm_intros processEntities_calm[OF assms(1,2) sg])
  then show ?thesis using Some
    by (auto simp: populateEntity_def c filterGroup_def Let_def intro!: calm_intros split: prod.split option.split)
qed (use assms(2) in \<open>simp add: populateEntity_def calmConfig_def calm_intros\<close>)

lemma populateEntities_calm:
  assumes "calmSdk sdk" "calmConfig W specs config" "set ents \<subseteq> set (allEntities (CfgGroups config))"
  shows "calm (populateEntities sdk config ents)"
  using assms(3)
proof (induction ents)
  case (Cons x ents)
  obtain gl eid r where x: "x = (gl, eid, r)" using prod_cases3 by blast
  then have "calm (populateEntity sdk config gl (eid, r))"
    using Cons.prems by (auto simp: allEntities_def intro!: populateEntity_calm[OF assms(1,2)])
  then show ?case using Cons x by (auto intro!: calm_intros split: prod.split)
qed (simp add: calm_intros)

lemma IntegrationPopulator_calm: "calmSdk sdk \<Longrightarrow> calmConfig W specs config \<Longrightarrow> calm (IntegrationPopulator sdk config)"
  unfolding IntegrationPopulator_def
  by (auto intro!: calm_intros populateEntities_calm calm_populateCluster split: prod.split)

lemma job_calm:
  assumes "calmSdk sdk" "JSpecs j = specs" "\<not> is_panic (JGrouper j specs)" "\<And>g e. JGrouper j specs = Ok (g, e) \<Longrightarrow> W g"
  shows "calm (JobPopulate sdk j cn cid v)"
  unfolding calm_def
proof
  fix st
  show "\<not> is_panic (fst (JobPopulate sdk j cn cid v st))"
  proof (cases "JGrouper j specs")
    case (Ok ge)
    obtain g e where ge: "ge = (g, e)" by force
    then have ip: "calm (IntegrationPopulator sdk \<lparr>ClusterName = cn, CloudClusterID = cid, K8sVersion = v,
        CfgMsTypeGuesser = K8sMetricSetTypeGuesser, CfgGroups = g, CfgSpecs = specs, Filterer = JFilterer j\<rparr>)"
      using assms(1,4) Ok by (intro IntegrationPopulator_calm) (simp_all add: calmConfig_def K8sMetricSetTypeGuesser_def)
    show ?thesis using Ok ge unfolding JobPopulate_def assms(2)
      by (auto intro!: calmD calm_pbind[OF ip] calm_preturn split: prod.split)
  qed (use assms in \<open>simp_all add: JobPopulate_def\<close>)
qed

end

section \<open>The tables\<close>

lemma calmValue_runValue: "calmValue v \<Longrightarrow> \<not> is_panic (fst (runValue cc v gl eid gs c))"
  by (cases v) (simp_all add: liftFetch_def calmExpr_no_panic)

lemma calm_runGroup:
  assumes "list_all (calmValue \<circ> EFetch) (ESpecs g)" "ESplitByLabel g \<noteq> [] \<longrightarrow> ETypeGenerator g \<noteq> None" "quietGenerators g"
  shows "calmGroup W gl (runGroup cc g)"
  using assms by (auto simp: calmGroup_def runGroup_def calmSpec_def runEntry_def quietGenerators_def list_all_iff calmValue_runValue)

text \<open>A table whose expressions cannot panic at all meets the contract for any groups.\<close>

lemma calm_table:
  assumes "calmTable es" "list_all (quietGenerators \<circ> snd) es"
  shows "calm_scrape (\<lambda>_. True) (runSpecs cc es)"
proof
  fix gl sg
  assume "mget (runSpecs cc es) gl = Some sg"
  then obtain g where g: "(gl, g) \<in> set es" "sg = runGroup cc g" by (auto simp: runSpecs_def dest!: map_of_SomeD)
  then show "calmGroup (\<lambda>_. True) gl sg" using assms by (auto simp: calmTable_def list_all_iff intro!: calm_runGroup)
qed simp

lemma wfmap_runSpecs: "wfmap es \<Longrightarrow> wfmap (runSpecs cc es)"
  by (simp add: wfmap_def runSpecs_def case_prod_unfold comp_def)

lemma ksmGroup_no_panic:
  assumes "wfmap specs" "\<not> is_panic (MetricFamiliesGetter cfg (Queries cfg))" "\<not> is_panic (ServicesLister cfg)"
  shows "\<not> is_panic (ksmGroup cfg specs)"
proof -
  have "\<exists>x. GroupMetricsBySpec specs families = Ok x" for families
    using groupLabels_correct[of "map fst specs" "([], [])" families] assms(1)
    by (auto simp: GroupMetricsBySpec_def wfmap_def)
  then show ?thesis using assms(2,3)
    by (auto simp: ksmGroup_def split: result.split option.split prod.split) (metis result.distinct(1,3))+
qed

lemma controlplaneGroup_no_panic:
  assumes "wfmap specs" "\<not> is_panic (CPClient cfg (CPQueries cfg))"
  shows "\<not> is_panic (controlplaneGroup cfg specs)"
proof -
  have "\<exists>x. GroupEntityMetricsBySpec specs families (CPEntityID cfg) = Ok x" for families
    using entityLabels_correct[of "map fst specs" "([], [])" families "CPEntityID cfg"] assms(1)
    by (auto simp: GroupEntityMetricsBySpec_def wfmap_def)
  then show ?thesis using assms(2)
    by (auto simp: controlplaneGroup_def split: result.split prod.split) (metis result.distinct(1,3))+
qed

lemma ksm_wf: "wfmap KSMSpecs"
  by (simp add: wfmap_def KSMSpecs_def)

lemma controlplane_wf: "list_all (\<lambda>(specs, queries). wfmap specs) controlplaneTables"
  by (simp add: controlplaneTables_def controlplane_tables wfmap_def)

interpretation ksm_specs: calm_scrape "\<lambda>_. True" "runSpecs cc KSMSpecs"
  for cc :: "string \<Rightarrow> string"
  by (rule calm_table[OF ksm_calm ksm_quiet])

lemma ksm_job_calm:
  assumes "JGrouper j = ksmGroup cfg" "JSpecs j = runSpecs cc KSMSpecs" and "calmSdk sdk"
    and "\<not> is_panic (MetricFamiliesGetter cfg (Queries cfg))" "\<not> is_panic (ServicesLister cfg)"
  shows "calm (JobPopulate sdk j cn cid v)"
  using assms ksmGroup_no_panic[OF wfmap_runSpecs[OF ksm_wf] assms(4,5)] by (intro ksm_specs.job_calm) simp_all

text \<open>
  Scraping kube-state-metrics never panics, whatever metric families the endpoint returns: with the
  KSM specifications, a job populates the integration or returns errors. The client, the service lister
  and the SDK are only assumed not to panic themselves.
\<close>

lemma ksm_job_never_panics:
  assumes "JGrouper j = ksmGroup cfg" "JSpecs j = runSpecs cc KSMSpecs" and "calmSdk sdk"
    and "\<not> is_panic (MetricFamiliesGetter cfg (Queries cfg))" "\<not> is_panic (ServicesLister cfg)"
  shows "\<not> is_panic (fst (JobPopulate sdk j cn cid v st))"
  using ksm_job_calm[OF assms] by (rule calmD)

lemma recordSdk_calm: "calmSdk recordSdk"
  by (simp add: calmSdk_def recordSdk_def)

theorem ksm_job_never_panics_witness:
  "\<not> is_panic (fst (JobPopulate recordSdk
      (NewScrapeJob ''KSM'' (ksmGroup \<lparr>Queries = KSMQueries, MetricFamiliesGetter = (\<lambda>_. Ok []), ServicesLister = Ok [], EnableResourceQuotaSamples = True\<rparr>)
        (runSpecs id KSMSpecs) []) ''cl'' [] ''v1'' \<lparr>pInt = [], pCache = None, pFilter = ()\<rparr>))"
  by (rule ksm_job_never_panics[OF _ _ recordSdk_calm]) (simp add: NewScrapeJob_def)+

text \<open>
  The scrape of a control-plane component never panics either, for each of the four sets of
  specifications.
\<close>

lemma controlplane_scrape:
  assumes "(specs, queries) \<in> set controlplaneTables"
  shows "calm_scrape (\<lambda>_. True) (runSpecs cc specs)"
  using assms controlplane_calm controlplane_quiet by (intro calm_table) (fastforce simp: list_all_iff)+

lemma controlplane_job_calm:
  assumes "(specs, queries) \<in> set controlplaneTables"
    and "JGrouper j = controlplaneGroup cfg" "JSpecs j = runSpecs cc specs" and "calmSdk sdk"
    and "\<not> is_panic (CPClient cfg (CPQueries cfg))"
  shows "calm (JobPopulate sdk j cn cid v)"
proof -
  have "wfmap specs" using assms(1) controlplane_wf by (fastforce simp: list_all_iff)
  then show ?thesis using assms(2-5) controlplaneGroup_no_panic[OF wfmap_runSpecs assms(5)]
    by (intro calm_scrape.job_calm[OF controlplane_scrape[OF assms(1)]]) simp_all
qed

theorem controlplane_job_never_panics_witness:
  "\<not> is_panic (fst (JobPopulate recordSdk
      (NewScrapeJob ''etcd'' (controlplaneGroup \<lparr>CPQueries = EtcdQueries, CPClient = (\<lambda>_. Ok []), CPEntityID = ''etcd-1''\<rparr>)
        (runSpecs id EtcdSpecs) []) ''cl'' [] ''v1'' \<lparr>pInt = [], pCache = None, pFilter = ()\<rparr>))"
  by (rule calmD, rule controlplane_job_calm[OF _ _ _ recordSdk_calm, where specs = EtcdSpecs and queries = EtcdQueries])
     (simp add: NewScrapeJob_def controlplaneTables_def)+

end
