(* ===== verification/Control_Plane.thy ===== *)
theory Control_Plane
  imports Kubelet_Client Panic_Freedom
begin

text \<open>
  \<open>src/controlplane\<close>: the components of the control plane, the discovery of their pods, the authentication
  of requests, the choice of an endpoint, and the scraper that runs a job for each component. Informers,
  label selectors and the network are parameters.
\<close>

section \<open>Components\<close>

record component =
  CompName :: string
  CompSpecs :: specentries
  CompQueries :: "query list"
  AutodiscoverConfigs :: "autodiscover list"
  StaticEndpointConfig :: "endpoint option"

definition componentOf :: "string \<Rightarrow> query list \<Rightarrow> specentries \<Rightarrow> controlplanecomponent \<Rightarrow> component list" where
  "componentOf name queries specs c =
     (if ComponentEnabled c
      then [\<lparr>CompName = name, CompSpecs = specs, CompQueries = queries, AutodiscoverConfigs = Autodiscover c, StaticEndpointConfig = StaticEndpoint c\<rparr>]
      else [])"

definition newComponents :: "controlplanecfg \<Rightarrow> component list" where
  "newComponents c =
     componentOf ''scheduler'' SchedulerQueries SchedulerSpecs (Scheduler c) @
     componentOf ''etcd'' EtcdQueries EtcdSpecs (ETCD c) @
     componentOf ''controller-manager'' ControllerManagerQueries ControllerManagerSpecs (ControllerManager c) @
     componentOf ''api-server'' APIServerQueries APIServerSpecs (APIServer c)"

definition secretNamespace :: "auth option \<Rightarrow> string" where
  "secretNamespace a = (case a of None \<Rightarrow> [] | Some au \<Rightarrow> (case MTLS au of None \<Rightarrow> [] | Some m \<Rightarrow> TLSSecretNamespace m))"

text \<open>The endpoints of a component, in the order in which \<open>secretNamespaces\<close> visits them.\<close>

definition componentEndpoints :: "component \<Rightarrow> endpoint list" where
  "componentEndpoints c =
     (case StaticEndpointConfig c of Some e \<Rightarrow> [e] | None \<Rightarrow> []) @ concat (map AutoEndpoints (AutodiscoverConfigs c))"

definition secretNamespaces :: "component list \<Rightarrow> string list" where
  "secretNamespaces components =
     filter (\<lambda>n. n \<noteq> [])
       (map fst (foldl (\<lambda>s e. mput (secretNamespace (EndpointAuth e)) () s) [] (concat (map componentEndpoints components))))"

definition autodiscoverNamespaces :: "component list \<Rightarrow> string list" where
  "autodiscoverNamespaces components =
     filter (\<lambda>n. n \<noteq> []) (map AutoNamespace (concat (map AutodiscoverConfigs components)))"

section \<open>Listers\<close>

text \<open>A lister for each of the given namespaces; \<open>Lister\<close> is the lookup.\<close>

definition NewNamespaceSecretListerer :: "(string \<Rightarrow> 'l) \<Rightarrow> string list \<Rightarrow> (string, 'l) gomap" where
  "NewNamespaceSecretListerer informer namespaces = foldl (\<lambda>m ns. mput ns (informer ns) m) [] namespaces"

definition NewNamespacePodListerer :: "(string \<Rightarrow> 'l) \<Rightarrow> string list \<Rightarrow> (string, 'l) gomap" where
  "NewNamespacePodListerer informer namespaces = foldl (\<lambda>m ns. mput ns (informer ns) m) [] namespaces"

definition SecretLister :: "(string, 'l) gomap \<Rightarrow> string \<Rightarrow> 'l option" where
  "SecretLister listers namespace = mget listers namespace"

definition PodLister :: "(string, 'l) gomap \<Rightarrow> string \<Rightarrow> 'l option" where
  "PodLister listers namespace = mget listers namespace"

section \<open>Pods\<close>

record kpod =
  KPodName :: string
  KPodNodeName :: string

definition ErrPodNotFound :: err where "ErrPodNotFound = errorsNew ''pod not found''"

fun firstPod :: "autodiscover \<Rightarrow> string \<Rightarrow> kpod list \<Rightarrow> kpod result" where
  "firstPod ad nodeName [] = Fail ErrPodNotFound"
| "firstPod ad nodeName (pod # pods) =
     (if MatchNode ad \<and> KPodNodeName pod \<noteq> nodeName then firstPod ad nodeName pods else Ok pod)"

text \<open>\<open>convert\<close> is \<open>labels.ConvertSelectorToLabelsMap\<close>; a lister takes the set of labels that the pods must have.\<close>

definition DiscoverPod ::
  "(string \<Rightarrow> (string, string) gomap result) \<Rightarrow> (string, (string, string) gomap \<Rightarrow> kpod list result) gomap \<Rightarrow> string \<Rightarrow> autodiscover \<Rightarrow> kpod result" where
  "DiscoverPod convert podListers nodeName ad =
     (case PodLister podListers (AutoNamespace ad) of
        None \<Rightarrow> Fail (Errorf ''pod lister for namespace: %s not found'' [AutoNamespace ad] [])
      | Some lister \<Rightarrow>
          rbindw (\<lambda>e. Errorf ''invalid selector %q: %w'' [AutoSelector ad] [e]) (convert (AutoSelector ad)) (\<lambda>labelsSet.
          rbindw (\<lambda>e. Err ''listing pods with selector %q: %w'' [EVal (VStrMap labelsSet)] [e]) (lister labelsSet)
            (firstPod ad nodeName)))"

section \<open>Authentication\<close>

record secret =
  SecretName :: string
  SecretType :: string
  SecretData :: "(string, string) gomap"

record certificates =
  CertPEM :: string
  KeyPEM :: string
  CaPEM :: "string option"

text \<open>\<open>transport.Config\<close>: what the round tripper is made of.\<close>

record transportconfig =
  Insecure :: bool
  TokenFile :: string
  ClientCerts :: "certificates option"

definition mTLSAuth :: string where "mTLSAuth = ''mTLS''"
definition bearerAuth :: string where "bearerAuth = ''bearer''"

definition getTLSCertificatesFromSecret ::
  "(string, string \<Rightarrow> secret result) gomap \<Rightarrow> mtls \<Rightarrow> certificates result" where
  "getTLSCertificatesFromSecret secretListers m =
     (if TLSSecretName m = [] then Fail (errorsNew ''mTLS secret name cannot be empty'')
      else if TLSSecretNamespace m = [] then Fail (errorsNew ''mTLS secret namespace cannot be empty'')
      else case SecretLister secretListers (TLSSecretNamespace m) of
        None \<Rightarrow> Fail (Errorf ''could not find secret lister for namespace %q'' [TLSSecretNamespace m] [])
      | Some lister \<Rightarrow>
          rbindw (\<lambda>e. Errorf ''could not find secret %q containing TLS configuration: %w'' [TLSSecretName m] [e]) (lister (TLSSecretName m)) (\<lambda>secret.
            let (certKey, keyKey, caKey) =
              (if SecretType secret = ''kubernetes.io/tls'' then (''tls.crt'', ''tls.key'', ''ca.crt'') else (''cert'', ''key'', ''cacert'')) in
            case mget (SecretData secret) certKey of
              None \<Rightarrow> Fail (Errorf ''could not find TLS certificate in %q field in secret %q'' [certKey, SecretName secret] [])
            | Some cert \<Rightarrow>
                (case mget (SecretData secret) keyKey of
                   None \<Rightarrow> Fail (Errorf ''could not find TLS key in %q field in secret %q'' [keyKey, SecretName secret] [])
                 | Some key \<Rightarrow> Ok \<lparr>CertPEM = cert, KeyPEM = key, CaPEM = mget (SecretData secret) caKey\<rparr>)))"

text \<open>\<open>newTransport\<close> is \<open>transport.New\<close> of \<open>client-go\<close>, which may reject a configuration.\<close>

definition AuthenticatedTransport ::
  "(transportconfig \<Rightarrow> err option) \<Rightarrow> (string, string \<Rightarrow> secret result) gomap \<Rightarrow> string \<Rightarrow> endpoint \<Rightarrow> transportconfig result" where
  "AuthenticatedTransport newTransport secretListers tokenFile e =
     (let base = \<lparr>Insecure = InsecureSkipVerify e, TokenFile = [], ClientCerts = None\<rparr> in
      rbind
        (case EndpointAuth e of
           None \<Rightarrow> Ok base
         | Some a \<Rightarrow>
             if EqualFold (AuthType a) bearerAuth then Ok (base\<lparr>TokenFile := tokenFile\<rparr>)
             else (case (EqualFold (AuthType a) mTLSAuth, MTLS a) of
                 (True, Some m) \<Rightarrow>
                   rbindw (\<lambda>er. Errorf ''could not load TLS configuration for endpoint %q: %w'' [EndpointURL e] [er])
                     (getTLSCertificatesFromSecret secretListers m) (\<lambda>certs.
                       if CaPEM certs = None \<and> \<not> InsecureSkipVerify e
                       then Fail (Errorf ''insecureSkipVerify is false and CA cert is missing from secret %q'' [EndpointURL e] [])
                       else Ok (base\<lparr>ClientCerts := Some certs\<rparr>))
               | _ \<Rightarrow> Fail (Errorf ''unknown authorization type %q'' [AuthType a] [])))
        (\<lambda>config. case newTransport config of
           Some er \<Rightarrow> Fail (Errorf ''creating the round tripper: %w'' [] [er])
         | None \<Rightarrow> Ok config))"

section \<open>Connector\<close>

record cphttpclient =
  CcTimeout :: int
  CcTransport :: transportconfig

record cpconn =
  CcURL :: url
  CcClient :: cphttpclient

definition defaultMetricsPath :: string where "defaultMetricsPath = ''/metrics''"

definition cpProbe :: "(cphttpclient \<Rightarrow> string \<Rightarrow> (int \<times> string, 'w) io) \<Rightarrow> string \<Rightarrow> cphttpclient \<Rightarrow> (unit, 'w) io" where
  "cpProbe head endpoint client =
     ioBind (\<lambda>e. Errorf ''http HEAD request failed: %w'' [] [e]) (head client endpoint) (\<lambda>(code, status).
       if code \<noteq> 200 then ioFail (Errorf ''http request failed with status: %v'' [status] []) else ioReturn ())"

text \<open>The part of the loop body that makes the connection of an endpoint.\<close>

definition endpointConn :: "(string \<Rightarrow> url result) \<Rightarrow> (endpoint \<Rightarrow> transportconfig result) \<Rightarrow> int \<Rightarrow> endpoint \<Rightarrow> cpconn result" where
  "endpointConn parse authenticated timeout e =
     rbindw (\<lambda>er. Errorf ''parsing endpoint url %q: %w'' [EndpointURL e] [er]) (parse (EndpointURL e)) (\<lambda>u0.
       let u = (if TrimSuffix (UPath u0) ''/'' = [] then u0\<lparr>UPath := defaultMetricsPath\<rparr> else u0) in
       rbindw (\<lambda>er. Errorf ''creating HTTP client for endpoint %q: %w'' [EndpointURL e] [er]) (authenticated e) (\<lambda>rt.
         Ok \<lparr>CcURL = u, CcClient = \<lparr>CcTimeout = timeout, CcTransport = rt\<rparr>\<rparr>))"

fun cpConnect ::
  "(string \<Rightarrow> url result) \<Rightarrow> (cphttpclient \<Rightarrow> string \<Rightarrow> (int \<times> string, 'w) io) \<Rightarrow> (endpoint \<Rightarrow> transportconfig result)
     \<Rightarrow> int \<Rightarrow> endpoint list \<Rightarrow> 'w \<Rightarrow> cpconn result \<times> 'w" where
  "cpConnect parse head authenticated timeout [] w = (Fail (errorsNew ''all endpoints in the list failed to respond''), w)"
| "cpConnect parse head authenticated timeout (e # es) w =
     (case endpointConn parse authenticated timeout e of
        Fail er \<Rightarrow> (Fail er, w)
      | Panic p \<Rightarrow> (Panic p, w)
      | Ok conn \<Rightarrow>
          (case cpProbe head (urlString (CcURL conn)) (CcClient conn) w of
             (Inl er, w') \<Rightarrow> cpConnect parse head authenticated timeout es w'
           | (Inr _, w') \<Rightarrow> (Ok conn, w')))"

section \<open>Scraper\<close>

text \<open>What the scraper needs from outside, and what it made at the start.\<close>

record 'w cpworld =
  cwParse :: "string \<Rightarrow> url result"
  cwHead :: "cphttpclient \<Rightarrow> string \<Rightarrow> (int \<times> string, 'w) io"
  cwConvert :: "string \<Rightarrow> (string, string) gomap result"
  cwNewTransport :: "transportconfig \<Rightarrow> err option"
  cwTokenFile :: string
  cwSecrets :: "string \<Rightarrow> string \<Rightarrow> secret result"
  cwPods :: "string \<Rightarrow> (string, string) gomap \<Rightarrow> kpod list result"
  cwFetch :: "cpconn \<Rightarrow> string \<Rightarrow> query list \<Rightarrow> metricfamily list result"

record cpscraper =
  csComponents :: "component list"
  csSecretListers :: "(string, string \<Rightarrow> secret result) gomap"
  csPodListers :: "(string, (string, string) gomap \<Rightarrow> kpod list result) gomap"
  csNodeName :: string
  csTimeout :: int

definition NewCPScraper :: "'w cpworld \<Rightarrow> config \<Rightarrow> cpscraper" where
  "NewCPScraper cw cfg =
     (let components = newComponents (ControlPlane cfg) in
      \<lparr>csComponents = components,
       csSecretListers = NewNamespaceSecretListerer (cwSecrets cw) (secretNamespaces components),
       csPodListers = NewNamespacePodListerer (cwPods cw) (autodiscoverNamespaces components),
       csNodeName = CfgNodeName cfg, csTimeout = ControlPlaneTimeout (ControlPlane cfg)\<rparr>)"

text \<open>\<open>Client.MetricFamiliesGetFunc\<close>.\<close>

definition cpMetricFamilies :: "'w cpworld \<Rightarrow> cpconn \<Rightarrow> query list \<Rightarrow> metricfamily list result" where
  "cpMetricFamilies cw conn queries =
     rbindw (\<lambda>e. Errorf ''getting filtered metric families %q: %w'' [urlString (CcURL conn)] [e])
       (cwFetch cw conn (urlString (CcURL conn)) queries) Ok"

definition cpJob :: "'w cpworld \<Rightarrow> (string \<Rightarrow> string) \<Rightarrow> component \<Rightarrow> cpconn \<Rightarrow> string \<Rightarrow> (interfacecache option, 'f) job" where
  "cpJob cw cc c conn eid =
     NewScrapeJob (CompName c)
       (controlplaneGroup \<lparr>CPQueries = CompQueries c, CPClient = cpMetricFamilies cw conn, CPEntityID = eid\<rparr>) (runSpecs cc (CompSpecs c)) []"

text \<open>The client of a connector over the given endpoints.\<close>

definition cpClientFor :: "'w cpworld \<Rightarrow> cpscraper \<Rightarrow> endpoint list \<Rightarrow> 'w \<Rightarrow> cpconn result \<times> 'w" where
  "cpClientFor cw s endpoints w =
     (case cpConnect (cwParse cw) (cwHead cw) (AuthenticatedTransport (cwNewTransport cw) (csSecretListers s) (cwTokenFile cw))
             (csTimeout s) endpoints w of
        (r, w') \<Rightarrow> (rbindw (\<lambda>e. Errorf ''connecting to component using the connector: %w'' [] [e]) r Ok, w'))"

definition externalEndpoint :: "'w cpworld \<Rightarrow> (string \<Rightarrow> string) \<Rightarrow> cpscraper \<Rightarrow> component \<Rightarrow> endpoint \<Rightarrow> 'w \<Rightarrow> (interfacecache option, 'f) job result \<times> 'w" where
  "externalEndpoint cw cc s c e w =
     (case cpClientFor cw s [e] w of
        (r, w') \<Rightarrow>
          (rbindw (\<lambda>er. Errorf ''creating client for %q failed: %w'' [CompName c] [er]) r (\<lambda>conn.
           rbindw (\<lambda>er. Errorf ''parsing static endpoint url for %q failed: %w'' [CompName c] [er]) (cwParse cw (EndpointURL e)) (\<lambda>u.
           Ok (cpJob cw cc c conn (UHost u)))), w'))"

fun autodiscoverLoop ::
  "'w cpworld \<Rightarrow> (string \<Rightarrow> string) \<Rightarrow> cpscraper \<Rightarrow> component \<Rightarrow> autodiscover list \<Rightarrow> 'w \<Rightarrow> (interfacecache option, 'f) job option result \<times> 'w" where
  "autodiscoverLoop cw cc s c [] w = (Ok None, w)"
| "autodiscoverLoop cw cc s c (ad # ads) w =
     (case DiscoverPod (cwConvert cw) (csPodListers s) (csNodeName s) ad of
        Panic p \<Rightarrow> (Panic p, w)
      | Fail e \<Rightarrow>
          if errorsIs e ErrPodNotFound then autodiscoverLoop cw cc s c ads w
          else (Fail (Errorf ''discovering pod for %q: %w'' [CompName c] [e]), w)
      | Ok pod \<Rightarrow>
          (case cpClientFor cw s (AutoEndpoints ad) w of
             (Panic p, w') \<Rightarrow> (Panic p, w')
           | (Fail e, w') \<Rightarrow> autodiscoverLoop cw cc s c ads w'
           | (Ok conn, w') \<Rightarrow> (Ok (Some (cpJob cw cc c conn (KPodName pod))), w')))"

definition componentJob :: "'w cpworld \<Rightarrow> (string \<Rightarrow> string) \<Rightarrow> cpscraper \<Rightarrow> component \<Rightarrow> 'w \<Rightarrow> (interfacecache option, 'f) job option result \<times> 'w" where
  "componentJob cw cc s c w =
     (case StaticEndpointConfig c of
        Some e \<Rightarrow>
          (case externalEndpoint cw cc s c e w of
             (r, w') \<Rightarrow> (rbindw (\<lambda>er. Errorf ''configuring %q external endpoint: %w'' [CompName c] [er]) r (\<lambda>j. Ok (Some j)), w'))
      | None \<Rightarrow>
          (case autodiscoverLoop cw cc s c (AutodiscoverConfigs c) w of
             (r, w') \<Rightarrow> (rbindw (\<lambda>er. Errorf ''autodiscovering %q endpoint: %w'' [CompName c] [er]) r Ok, w')))"

fun componentJobs :: "'w cpworld \<Rightarrow> (string \<Rightarrow> string) \<Rightarrow> cpscraper \<Rightarrow> component list \<Rightarrow> 'w \<Rightarrow> (interfacecache option, 'f) job list result \<times> 'w" where
  "componentJobs cw cc s [] w = (Ok [], w)"
| "componentJobs cw cc s (c # cs) w =
     (case componentJob cw cc s c w of
        (Panic p, w') \<Rightarrow> (Panic p, w')
      | (Fail e, w') \<Rightarrow> (Fail e, w')
      | (Ok j, w') \<Rightarrow>
          (case componentJobs cw cc s cs w' of
             (r, w'') \<Rightarrow> (rbind r (\<lambda>js. Ok ((case j of Some job \<Rightarrow> [job] | None \<Rightarrow> []) @ js)), w'')))"

text \<open>The errors of the jobs are only logged.\<close>

fun runJobs :: "'i sdk \<Rightarrow> ('c, 'f) job list \<Rightarrow> string \<Rightarrow> string \<Rightarrow> string \<Rightarrow> (unit, 'i, 'c, 'f) pop" where
  "runJobs sdk [] cn cid v = preturn ()"
| "runJobs sdk (j # js) cn cid v = pbind (JobPopulate sdk j cn cid v) (\<lambda>_. runJobs sdk js cn cid v)"

definition CPRun ::
  "'i sdk \<Rightarrow> 'w cpworld \<Rightarrow> (string \<Rightarrow> string) \<Rightarrow> cpscraper \<Rightarrow> string \<Rightarrow> string \<Rightarrow> string \<Rightarrow> 'w
     \<Rightarrow> ('i, interfacecache option, 'f) popstate \<Rightarrow> unit result \<times> 'w \<times> ('i, interfacecache option, 'f) popstate" where
  "CPRun sdk cw cc s cn cid v w st =
     (case componentJobs cw cc s (csComponents s) w of
        (Panic p, w') \<Rightarrow> (Panic p, w', st)
      | (Fail e, w') \<Rightarrow> (Fail e, w', st)
      | (Ok js, w') \<Rightarrow> (case runJobs sdk js cn cid v st of (r, st') \<Rightarrow> (r, w', st')))"

section \<open>Listers for every configured namespace\<close>

lemma mget_listers: "mget (foldl (\<lambda>m ns. mput ns (informer ns) m) acc nss) ns = (if ns \<in> set nss then Some (informer ns) else mget acc ns)"
  by (induction nss arbitrary: acc) auto

lemma mem_secretNamespaces:
  "n \<in> set (secretNamespaces cs) \<longleftrightarrow> n \<noteq> [] \<and> (\<exists>c \<in> set cs. \<exists>e \<in> set (componentEndpoints c). secretNamespace (EndpointAuth e) = n)"
proof -
  have "set (map fst (foldl (\<lambda>s e. mput (f e) () s) acc es)) = set (map fst acc) \<union> f ` set es" for f :: "endpoint \<Rightarrow> string" and acc es
    by (induction es arbitrary: acc) (auto simp: dom_map_of_conv_image_fst[symmetric] update_conv')
  then show ?thesis by (auto simp: secretNamespaces_def)
qed

lemma mem_autodiscoverNamespaces:
  "n \<in> set (autodiscoverNamespaces cs) \<longleftrightarrow> n \<noteq> [] \<and> (\<exists>c \<in> set cs. \<exists>ad \<in> set (AutodiscoverConfigs c). AutoNamespace ad = n)"
  by (auto simp: autodiscoverNamespaces_def)

text \<open>Entries of the autodiscovery that are passed over: no pod matches, or no endpoint of the pod answers.\<close>

fun passedOver :: "'w cpworld \<Rightarrow> cpscraper \<Rightarrow> autodiscover list \<Rightarrow> 'w \<Rightarrow> 'w \<Rightarrow> bool" where
  "passedOver cw s [] w w' \<longleftrightarrow> w' = w"
| "passedOver cw s (ad # ads) w w' \<longleftrightarrow>
     (case DiscoverPod (cwConvert cw) (csPodListers s) (csNodeName s) ad of
        Panic _ \<Rightarrow> False
      | Fail e \<Rightarrow> errorsIs e ErrPodNotFound \<and> passedOver cw s ads w w'
      | Ok _ \<Rightarrow> (case cpClientFor cw s (AutoEndpoints ad) w of (Fail _, w1) \<Rightarrow> passedOver cw s ads w1 w' | _ \<Rightarrow> False))"

lemma autodiscoverLoop_passed:
  "passedOver cw s before w w1 \<Longrightarrow> autodiscoverLoop cw cc s c (before @ ads) w = autodiscoverLoop cw cc s c ads w1"
  by (induction before arbitrary: w) (auto split: result.splits prod.splits)

lemma componentJobs_fail:
  fixes js :: "(interfacecache option, 'f) job list"
  assumes "componentJobs cw cc s pre w = (Ok js, w1)" "componentJob cw cc s c w1 = (Fail e :: (interfacecache option, 'f) job option result, w2)"
  shows "componentJobs cw cc s (pre @ c # suf) w = (Fail e :: (interfacecache option, 'f) job list result, w2)"
  using assms by (induction pre arbitrary: w js) (auto simp: rbind_Ok_iff split: result.splits prod.splits)

text \<open>
  C33: The listers that the control plane scraper makes at the start cover what it asks for later. The
  lookup of the secret of any configured endpoint never fails for want of a lister, and pod discovery
  finds a lister exactly for the entries that name a namespace. An entry without a namespace that the autodiscovery reaches, which is
  when its component has no static endpoint, the jobs of the components before it could be made and the entries before
  it were passed over, ends the whole run with an error and populates nothing, where the configuration promises a search of all
  namespaces.
\<close>

theorem listers_cover_config:
  fixes cfg :: config and cw :: "'w cpworld" and sdk :: "'i sdk" and st :: "('i, interfacecache option, 'f) popstate"
  defines "s \<equiv> NewCPScraper cw cfg"
  assumes "csComponents s = pre @ c # suf"
  shows "(\<forall>e \<in> set (componentEndpoints c). \<forall>a m. EndpointAuth e = Some a \<longrightarrow> MTLS a = Some m \<longrightarrow> TLSSecretNamespace m \<noteq> [] \<longrightarrow>
      SecretLister (csSecretListers s) (TLSSecretNamespace m) = Some (cwSecrets cw (TLSSecretNamespace m))) \<and>
    (\<forall>ad \<in> set (AutodiscoverConfigs c).
      PodLister (csPodListers s) (AutoNamespace ad) = (if AutoNamespace ad = [] then None else Some (cwPods cw (AutoNamespace ad)))) \<and>
    (\<forall>before ad after (js :: (interfacecache option, 'f) job list) w w1 w2. AutodiscoverConfigs c = before @ ad # after \<longrightarrow> AutoNamespace ad = [] \<longrightarrow> StaticEndpointConfig c = None \<longrightarrow>
      componentJobs cw cc s pre w = (Ok js, w1) \<longrightarrow> passedOver cw s before w1 w2 \<longrightarrow>
      CPRun sdk cw cc s cn cid v w st =
        (Fail (Errorf ''autodiscovering %q endpoint: %w'' [CompName c] [Errorf ''discovering pod for %q: %w'' [CompName c]
           [Errorf ''pod lister for namespace: %s not found'' [[]] []]]), w2, st))"
proof -
  have mem: "c \<in> set (csComponents s)" using assms(2) by simp
  have secrets: "SecretLister (csSecretListers s) n = (if n \<in> set (secretNamespaces (csComponents s)) then Some (cwSecrets cw n) else None)" for n
    by (simp add: s_def NewCPScraper_def Let_def SecretLister_def NewNamespaceSecretListerer_def mget_listers)
  have pods: "PodLister (csPodListers s) n = (if n \<in> set (autodiscoverNamespaces (csComponents s)) then Some (cwPods cw n) else None)" for n
    by (simp add: s_def NewCPScraper_def Let_def PodLister_def NewNamespacePodListerer_def mget_listers)
  have none: "PodLister (csPodListers s) [] = None" by (simp add: pods mem_autodiscoverNamespaces)
  show ?thesis
  proof (intro conjI ballI allI impI)
    fix e a m
    assume "e \<in> set (componentEndpoints c)" "EndpointAuth e = Some a" "MTLS a = Some m" "TLSSecretNamespace m \<noteq> []"
    then have "TLSSecretNamespace m \<in> set (secretNamespaces (csComponents s))"
      using mem by (force simp: mem_secretNamespaces secretNamespace_def)
    then show "SecretLister (csSecretListers s) (TLSSecretNamespace m) = Some (cwSecrets cw (TLSSecretNamespace m))" by (simp add: secrets)
  next
    fix ad assume "ad \<in> set (AutodiscoverConfigs c)"
    then show "PodLister (csPodListers s) (AutoNamespace ad) = (if AutoNamespace ad = [] then None else Some (cwPods cw (AutoNamespace ad)))"
      using mem by (auto simp: pods mem_autodiscoverNamespaces)
  next
    fix before ad after w w1 w2 and js :: "(interfacecache option, 'f) job list"
    assume a: "AutodiscoverConfigs c = before @ ad # after" "AutoNamespace ad = []" "StaticEndpointConfig c = None"
      and js: "componentJobs cw cc s pre w = (Ok js, w1)" and b: "passedOver cw s before w1 w2"
    have "componentJob cw cc s c w1 =
        (Fail (Errorf ''autodiscovering %q endpoint: %w'' [CompName c] [Errorf ''discovering pod for %q: %w'' [CompName c]
           [Errorf ''pod lister for namespace: %s not found'' [[]] []]]) :: (interfacecache option, 'f) job option result, w2)"
      by (simp add: componentJob_def a autodiscoverLoop_passed[OF b] DiscoverPod_def none ErrPodNotFound_def)
    from componentJobs_fail[OF js this, of suf] show "CPRun sdk cw cc s cn cid v w st =
        (Fail (Errorf ''autodiscovering %q endpoint: %w'' [CompName c] [Errorf ''discovering pod for %q: %w'' [CompName c]
           [Errorf ''pod lister for namespace: %s not found'' [[]] []]]), w2, st)"
      by (simp add: CPRun_def assms(2))
  qed
qed

text \<open>
  A component with a static endpoint that asks for a client certificate, and one with two entries: the first matches no pod, and
  the second has no namespace.
\<close>

definition exampleEndpoint :: endpoint where
  "exampleEndpoint = \<lparr>EndpointURL = ''https://etcd:2379'', EndpointAuth = Some \<lparr>AuthType = ''mTLS'', MTLS = Some \<lparr>TLSSecretName = ''certs'', TLSSecretNamespace = ''kube''\<rparr>\<rparr>,
     InsecureSkipVerify = False\<rparr>"

definition exampleCPWorld :: "unit cpworld" where
  "exampleCPWorld =
     \<lparr>cwParse = (\<lambda>s. Ok \<lparr>UScheme = ''https'', UHost = ''etcd:2379'', UPath = []\<rparr>), cwHead = (\<lambda>_ _ w. (Inr (200, ''200 OK''), w)),
      cwConvert = (\<lambda>_. Ok []), cwNewTransport = (\<lambda>_. None), cwTokenFile = ''token'',
      cwSecrets = (\<lambda>_ _. Ok \<lparr>SecretName = ''certs'', SecretType = ''Opaque'', SecretData = [(''cert'', ''C''), (''key'', ''K''), (''cacert'', ''A'')]\<rparr>),
      cwPods = (\<lambda>_ _. Ok []), cwFetch = (\<lambda>_ _ _. Ok [])\<rparr>"

definition exampleCPCfg :: config where
  "exampleCPCfg = exampleCfg\<lparr>ControlPlane := (ControlPlane exampleCfg)\<lparr>
     ETCD := \<lparr>ComponentEnabled = True, StaticEndpoint = Some exampleEndpoint, Autodiscover = []\<rparr>,
     Scheduler := \<lparr>ComponentEnabled = True, StaticEndpoint = None,
       Autodiscover = [\<lparr>AutoNamespace = ''kube-system'', AutoSelector = ''tier=control-plane'', MatchNode = False, AutoEndpoints = []\<rparr>,
         \<lparr>AutoNamespace = [], AutoSelector = ''tier=control-plane'', MatchNode = False, AutoEndpoints = []\<rparr>]\<rparr>\<rparr>\<rparr>"

lemma exampleCP_components:
  "csComponents (NewCPScraper cw exampleCPCfg) =
     componentOf ''scheduler'' SchedulerQueries SchedulerSpecs (Scheduler (ControlPlane exampleCPCfg)) @
     componentOf ''etcd'' EtcdQueries EtcdSpecs (ETCD (ControlPlane exampleCPCfg))"
  by (simp add: NewCPScraper_def Let_def newComponents_def exampleCPCfg_def componentOf_def exampleCfg_def emptyComponent_def)

theorem listers_cover_config_witness:
  "let s = NewCPScraper exampleCPWorld exampleCPCfg in
     SecretLister (csSecretListers s) ''kube'' = Some (cwSecrets exampleCPWorld ''kube'') \<and>
     PodLister (csPodListers s) ''kube-system'' = Some (cwPods exampleCPWorld ''kube-system'') \<and> PodLister (csPodListers s) [] = None \<and>
     CPRun recordSdk exampleCPWorld id s ''cl'' [] ''v1'' () \<lparr>pInt = [], pCache = None, pFilter = ()\<rparr> =
       (Fail (Errorf ''autodiscovering %q endpoint: %w'' [''scheduler''] [Errorf ''discovering pod for %q: %w'' [''scheduler'']
          [Errorf ''pod lister for namespace: %s not found'' [[]] []]]), (), \<lparr>pInt = [], pCache = None, pFilter = ()\<rparr>)"
proof -
  let ?s = "NewCPScraper exampleCPWorld exampleCPCfg" and ?st = "\<lparr>pInt = [], pCache = None, pFilter = ()\<rparr>"
  let ?ads = "Autodiscover (Scheduler (ControlPlane exampleCPCfg))"
  define sch where "sch = hd (componentOf ''scheduler'' SchedulerQueries SchedulerSpecs (Scheduler (ControlPlane exampleCPCfg)))"
  define etcd where "etcd = hd (componentOf ''etcd'' EtcdQueries EtcdSpecs (ETCD (ControlPlane exampleCPCfg)))"
  have cs: "csComponents ?s = [] @ sch # [etcd]" "csComponents ?s = [sch] @ etcd # []"
    unfolding exampleCP_components by (simp_all add: sch_def etcd_def exampleCPCfg_def componentOf_def)
  have s: "AutodiscoverConfigs sch = [?ads ! 0] @ (?ads ! 1) # []" "StaticEndpointConfig sch = None" "CompName sch = ''scheduler''"
    "AutoNamespace (?ads ! 0) = ''kube-system''" "AutoNamespace (?ads ! 1) = []" "exampleEndpoint \<in> set (componentEndpoints etcd)"
    by (simp_all add: sch_def etcd_def exampleCPCfg_def componentOf_def componentEndpoints_def)
  note r = listers_cover_config[OF cs(1)] and e = listers_cover_config[OF cs(2)]
  have l: "PodLister (csPodListers ?s) ''kube-system'' = Some (cwPods exampleCPWorld ''kube-system'')" "PodLister (csPodListers ?s) [] = None"
    using r[THEN conjunct2, THEN conjunct1] s(1,4,5) by auto
  have "passedOver exampleCPWorld ?s [?ads ! 0] () ()"
    by (simp add: DiscoverPod_def s(4) l(1)) (simp add: exampleCPWorld_def ErrPodNotFound_def)
  then have "CPRun recordSdk exampleCPWorld id ?s ''cl'' [] ''v1'' () ?st =
      (Fail (Errorf ''autodiscovering %q endpoint: %w'' [''scheduler''] [Errorf ''discovering pod for %q: %w'' [''scheduler'']
          [Errorf ''pod lister for namespace: %s not found'' [[]] []]]), (), ?st)"
    using r[THEN conjunct2, THEN conjunct2, rule_format, OF s(1,5,2), of id "()" "[]" "()" "()"] s(3) by simp
  moreover have "SecretLister (csSecretListers ?s) ''kube'' = Some (cwSecrets exampleCPWorld ''kube'')"
    using e[THEN conjunct1] s(6) by (fastforce simp: exampleEndpoint_def)
  ultimately show ?thesis using l by simp
qed

section \<open>Authentication\<close>

text \<open>
  C25: The transport for an endpoint verifies the peer unless the endpoint says otherwise, carries the token
  of the service account only for the type \<open>bearer\<close>, and a client certificate only for the type \<open>mTLS\<close> and,
  when the peer is verified, only together with the certificate of the authority from the same secret.
  Every other type is refused, in particular the type \<open>token\<close> that the configuration documents.
\<close>

theorem AuthenticatedTransport_safe:
  assumes "AuthenticatedTransport newTransport listers tokenFile e = Ok t"
  shows "Insecure t = InsecureSkipVerify e \<and>
    (TokenFile t \<noteq> [] \<longrightarrow> (\<exists>a. EndpointAuth e = Some a \<and> EqualFold (AuthType a) ''bearer'')) \<and>
    (\<forall>certs. ClientCerts t = Some certs \<longrightarrow>
       (\<exists>a m. EndpointAuth e = Some a \<and> EqualFold (AuthType a) ''mTLS'' \<and> MTLS a = Some m \<and>
          getTLSCertificatesFromSecret listers m = Ok certs) \<and> (InsecureSkipVerify e \<or> CaPEM certs \<noteq> None)) \<and>
    (\<forall>a. EndpointAuth e = Some a \<longrightarrow> EqualFold (AuthType a) ''bearer'' \<or> EqualFold (AuthType a) ''mTLS'')"
  using assms
  by (auto simp: AuthenticatedTransport_def bearerAuth_def mTLSAuth_def rbind_Ok_iff rbindw_Ok_iff Let_def
      split: option.splits if_splits bool.splits)

theorem AuthenticatedTransport_safe_witness:
  "\<exists>t. AuthenticatedTransport (\<lambda>_. None) [(''kube'', cwSecrets exampleCPWorld ''kube'')] ''token'' exampleEndpoint = Ok t \<and>
     \<not> Insecure t \<and> (\<exists>certs. ClientCerts t = Some certs \<and> CaPEM certs \<noteq> None)"
proof -
  have fold: "EqualFold ''mTLS'' bearerAuth = False" "EqualFold ''mTLS'' mTLSAuth = True"
    by (simp_all add: EqualFold_def ToLower_def lowChar_def isUpper_def bearerAuth_def mTLSAuth_def)
  let ?certs = "\<lparr>CertPEM = ''C'', KeyPEM = ''K'', CaPEM = Some ''A''\<rparr>"
  have t: "AuthenticatedTransport (\<lambda>_. None) [(''kube'', cwSecrets exampleCPWorld ''kube'')] ''token'' exampleEndpoint
      = Ok \<lparr>Insecure = False, TokenFile = [], ClientCerts = Some ?certs\<rparr>"
    by (simp add: AuthenticatedTransport_def exampleEndpoint_def fold getTLSCertificatesFromSecret_def SecretLister_def exampleCPWorld_def)
  from AuthenticatedTransport_safe[OF t] show ?thesis using t by (simp add: exampleEndpoint_def)
qed

lemma documented_auth_type_refused:
  "EndpointAuth e = Some a \<Longrightarrow> AuthType a = ''token'' \<Longrightarrow>
   AuthenticatedTransport newTransport listers tokenFile e = Fail (Errorf ''unknown authorization type %q'' [''token''] [])"
  by (simp add: AuthenticatedTransport_def EqualFold_def ToLower_def lowChar_def isUpper_def bearerAuth_def mTLSAuth_def)

section \<open>Choice of an endpoint\<close>

text \<open>The connection that an endpoint of the configuration stands for.\<close>

definition connFor :: "(string \<Rightarrow> url result) \<Rightarrow> (endpoint \<Rightarrow> transportconfig result) \<Rightarrow> int \<Rightarrow> endpoint \<Rightarrow> cpconn \<Rightarrow> bool" where
  "connFor parse authenticated timeout e conn \<longleftrightarrow>
     (\<exists>u rt. parse (EndpointURL e) = Ok u \<and> authenticated e = Ok rt \<and> CcClient conn = \<lparr>CcTimeout = timeout, CcTransport = rt\<rparr> \<and>
        CcURL conn = (if UPath u \<in> {[], ''/''} then u\<lparr>UPath := ''/metrics''\<rparr> else u))"

definition answers :: "(cphttpclient \<Rightarrow> string \<Rightarrow> (int \<times> string, 'w) io) \<Rightarrow> cpconn \<Rightarrow> 'w \<Rightarrow> 'w \<Rightarrow> bool" where
  "answers head conn w w' \<longleftrightarrow> (\<exists>status. head (CcClient conn) (urlString (CcURL conn)) w = (Inr (200, status), w'))"

lemma TrimSuffix_slash: "TrimSuffix p ''/'' = [] \<longleftrightarrow> p \<in> {[], ''/''}"
  by (auto simp: TrimSuffix_def suffix_def)

lemma cpProbe_Inr: "cpProbe head (urlString (CcURL conn)) (CcClient conn) w = (Inr (), w') \<longleftrightarrow> answers head conn w w'"
  by (auto simp: cpProbe_def ioBind_Inr answers_def split: if_splits)

lemma endpointConn_Ok: "endpointConn parse authenticated timeout e = Ok c \<longleftrightarrow> connFor parse authenticated timeout e c"
  by (cases c) (auto simp: endpointConn_def connFor_def rbindw_Ok_iff TrimSuffix_slash defaultMetricsPath_def Let_def)

text \<open>
  The connector returns the first endpoint of the list that answers a request for its head with 200,
  with the metrics path added when the address has none; every endpoint before it could be addressed and
  authenticated and did not answer with 200.
\<close>

lemma cpConnect_first:
  assumes "cpConnect parse head authenticated timeout es w = (Ok conn, w')"
  shows "\<exists>before e after w1. es = before @ e # after \<and> connFor parse authenticated timeout e conn \<and> answers head conn w1 w' \<and>
    (\<forall>b \<in> set before. \<exists>c wb. connFor parse authenticated timeout b c \<and> (\<nexists>wa. answers head c wb wa))"
  using assms
proof (induction es arbitrary: w)
  case (Cons e es)
  obtain c where c: "connFor parse authenticated timeout e c"
    and run: "(case cpProbe head (urlString (CcURL c)) (CcClient c) w of
        (Inl er, w1) \<Rightarrow> cpConnect parse head authenticated timeout es w1 | (Inr _, w1) \<Rightarrow> (Ok c, w1)) = (Ok conn, w')"
    using Cons.prems by (cases "endpointConn parse authenticated timeout e") (auto simp: endpointConn_Ok)
  obtain r w1 where p: "cpProbe head (urlString (CcURL c)) (CcClient c) w = (r, w1)" by force
  show ?case
  proof (cases r)
    case (Inl er)
    then have "cpConnect parse head authenticated timeout es w1 = (Ok conn, w')" using run p by simp
    from Cons.IH[OF this] obtain before e' after w2 where
      "es = before @ e' # after" "connFor parse authenticated timeout e' conn" "answers head conn w2 w'"
      "\<forall>b \<in> set before. \<exists>c wb. connFor parse authenticated timeout b c \<and> (\<nexists>wa. answers head c wb wa)" by blast
    moreover have "\<nexists>wa. answers head c w wa" using p Inl cpProbe_Inr[of head c w] by auto
    ultimately show ?thesis using c by (intro exI[of _ "e # before"]) auto
  next
    case (Inr x)
    then have "conn = c" "answers head conn w w'" using run p cpProbe_Inr[of head c w w1] by auto
    then show ?thesis using c by (intro exI[of _ "[]"]) auto
  qed
qed simp

theorem cpConnect_first_witness:
  "\<exists>w1. answers (cwHead exampleCPWorld)
     \<lparr>CcURL = \<lparr>UScheme = ''https'', UHost = ''etcd:2379'', UPath = ''/metrics''\<rparr>,
      CcClient = \<lparr>CcTimeout = 10, CcTransport = \<lparr>Insecure = True, TokenFile = [], ClientCerts = None\<rparr>\<rparr>\<rparr> w1 ()"
proof -
  let ?t = "\<lparr>Insecure = True, TokenFile = [], ClientCerts = None\<rparr>"
  have "cpConnect (cwParse exampleCPWorld) (cwHead exampleCPWorld) (\<lambda>_. Ok ?t) 10 [exampleEndpoint] () =
      (Ok \<lparr>CcURL = \<lparr>UScheme = ''https'', UHost = ''etcd:2379'', UPath = ''/metrics''\<rparr>, CcClient = \<lparr>CcTimeout = 10, CcTransport = ?t\<rparr>\<rparr>, ())"
    by (simp add: exampleCPWorld_def TrimSuffix_slash defaultMetricsPath_def Let_def cpProbe_def ioBind_def ioReturn_def endpointConn_def)
  from cpConnect_first[OF this] show ?thesis by blast
qed

section \<open>A run of the scraper does not panic\<close>

definition calmCPWorld :: "'w cpworld \<Rightarrow> bool" where
  "calmCPWorld cw \<longleftrightarrow> (\<forall>s. \<not> is_panic (cwParse cw s)) \<and> (\<forall>s. \<not> is_panic (cwConvert cw s)) \<and> (\<forall>ns n. \<not> is_panic (cwSecrets cw ns n)) \<and>
     (\<forall>ns ls. \<not> is_panic (cwPods cw ns ls)) \<and> (\<forall>c u q. \<not> is_panic (cwFetch cw c u q))"

lemma secrets_calm:
  assumes "calmCPWorld cw" "SecretLister (csSecretListers (NewCPScraper cw cfg)) ns = Some l"
  shows "\<not> is_panic (l n)"
  using assms
  by (auto simp: NewCPScraper_def Let_def SecretLister_def NewNamespaceSecretListerer_def mget_listers calmCPWorld_def split: if_splits)

lemma transport_calm:
  assumes "calmCPWorld cw"
  shows "\<not> is_panic (AuthenticatedTransport nt (csSecretListers (NewCPScraper cw cfg)) tf e)"
proof -
  have certs: "\<not> is_panic (getTLSCertificatesFromSecret (csSecretListers (NewCPScraper cw cfg)) m)" for m
    using secrets_calm[OF assms] by (auto simp: getTLSCertificatesFromSecret_def Let_def split: option.split)
  show ?thesis
    using certs by (auto simp: AuthenticatedTransport_def Let_def split: option.split bool.split)
qed

lemma cpConnect_calm:
  assumes "\<And>s. \<not> is_panic (parse s)" "\<And>e. \<not> is_panic (authenticated e)"
  shows "\<not> is_panic (fst (cpConnect parse head authenticated timeout es w))"
proof (induction es arbitrary: w)
  case (Cons e es)
  have "\<not> is_panic (endpointConn parse authenticated timeout e)" using assms by (simp add: endpointConn_def Let_def)
  then show ?case using Cons by (cases "endpointConn parse authenticated timeout e") (auto split: prod.split sum.split)
qed simp

lemma cpClientFor_calm:
  assumes "calmCPWorld cw" shows "\<not> is_panic (fst (cpClientFor cw (NewCPScraper cw cfg) es w))"
proof -
  have "\<not> is_panic (fst (cpConnect (cwParse cw) (cwHead cw)
      (AuthenticatedTransport (cwNewTransport cw) (csSecretListers (NewCPScraper cw cfg)) (cwTokenFile cw)) (csTimeout (NewCPScraper cw cfg)) es w))"
    by (intro cpConnect_calm transport_calm[OF assms]) (use assms in \<open>simp add: calmCPWorld_def\<close>)
  then show ?thesis by (auto simp: cpClientFor_def split: prod.split)
qed

lemma DiscoverPod_calm:
  assumes "calmCPWorld cw" shows "\<not> is_panic (DiscoverPod (cwConvert cw) (csPodListers (NewCPScraper cw cfg)) n ad)"
proof -
  have "\<not> is_panic (firstPod ad n pods)" for pods by (induction pods) auto
  then show ?thesis using assms
    by (auto simp: DiscoverPod_def NewCPScraper_def Let_def PodLister_def NewNamespacePodListerer_def mget_listers calmCPWorld_def split: option.split if_splits)
qed

text \<open>A job of the control plane: its component is one of the configured ones.\<close>

definition cpJobOf :: "'w cpworld \<Rightarrow> (string \<Rightarrow> string) \<Rightarrow> component list \<Rightarrow> (interfacecache option, 'f) job \<Rightarrow> bool" where
  "cpJobOf cw cc cs j \<longleftrightarrow> (\<exists>c \<in> set cs. \<exists>conn eid. j = cpJob cw cc c conn eid)"

text \<open>A result that is no panic and, when it is a value, satisfies a predicate.\<close>

definition safeResult :: "('a \<Rightarrow> bool) \<Rightarrow> 'a result \<Rightarrow> bool" where
  "safeResult P r \<longleftrightarrow> (case r of Ok a \<Rightarrow> P a | Fail _ \<Rightarrow> True | Panic _ \<Rightarrow> False)"

lemma autodiscoverLoop_calm:
  assumes "calmCPWorld cw" "c \<in> set cs"
  shows "safeResult (pred_option (cpJobOf cw cc cs :: (interfacecache option, 'f) job \<Rightarrow> bool)) (fst (autodiscoverLoop cw cc (NewCPScraper cw cfg) c ads w))"
proof (induction ads arbitrary: w)
  case (Cons ad ads)
  let ?d = "DiscoverPod (cwConvert cw) (csPodListers (NewCPScraper cw cfg)) (csNodeName (NewCPScraper cw cfg)) ad"
  have d: "\<not> is_panic ?d" by (rule DiscoverPod_calm[OF assms(1)])
  obtain k w1 where k: "cpClientFor cw (NewCPScraper cw cfg) (AutoEndpoints ad) w = (k, w1)" by force
  then have "\<not> is_panic k" using cpClientFor_calm[OF assms(1), of cfg "AutoEndpoints ad" w] by simp
  then show ?case using d k Cons.IH assms(2)
    by (cases ?d; cases k) (auto simp: safeResult_def cpJobOf_def)
qed (simp add: safeResult_def)

lemma componentJob_calm:
  assumes "calmCPWorld cw" "c \<in> set cs"
  shows "safeResult (pred_option (cpJobOf cw cc cs :: (interfacecache option, 'f) job \<Rightarrow> bool)) (fst (componentJob cw cc (NewCPScraper cw cfg) c w))"
proof (cases "StaticEndpointConfig c")
  case None
  obtain r :: "(interfacecache option, 'f) job option result" and w1 where r: "autodiscoverLoop cw cc (NewCPScraper cw cfg) c (AutodiscoverConfigs c) w = (r, w1)" by force
  then have "safeResult (pred_option (cpJobOf cw cc cs)) r"
    using autodiscoverLoop_calm[where ?'f = 'f, OF assms, of cc cfg "AutodiscoverConfigs c" w] by simp
  then show ?thesis using None r by (cases r) (simp_all add: componentJob_def safeResult_def)
next
  case (Some e)
  obtain k w1 where k: "cpClientFor cw (NewCPScraper cw cfg) [e] w = (k, w1)" by force
  then have "\<not> is_panic k" using cpClientFor_calm[OF assms(1), of cfg "[e]" w] by simp
  moreover have "\<not> is_panic (cwParse cw (EndpointURL e))" using assms(1) by (simp add: calmCPWorld_def)
  ultimately show ?thesis using Some k assms(2)
    by (cases k; cases "cwParse cw (EndpointURL e)") (auto simp: componentJob_def externalEndpoint_def safeResult_def cpJobOf_def)
qed

lemma componentJobs_calm:
  assumes "calmCPWorld cw" "set sub \<subseteq> set cs"
  shows "safeResult (list_all (cpJobOf cw cc cs :: (interfacecache option, 'f) job \<Rightarrow> bool)) (fst (componentJobs cw cc (NewCPScraper cw cfg) sub w))"
  using assms(2)
proof (induction sub arbitrary: w)
  case (Cons c sub)
  obtain r :: "(interfacecache option, 'f) job option result" and w1 where r: "componentJob cw cc (NewCPScraper cw cfg) c w = (r, w1)" by force
  obtain q :: "(interfacecache option, 'f) job list result" and w2 where q: "componentJobs cw cc (NewCPScraper cw cfg) sub w1 = (q, w2)" by force
  have "safeResult (pred_option (cpJobOf cw cc cs)) r"
    using componentJob_calm[where ?'f = 'f, OF assms(1), of c cs cc cfg w] Cons.prems r by simp
  moreover have "safeResult (list_all (cpJobOf cw cc cs)) q" using Cons.IH[of w1] Cons.prems q by simp
  ultimately show ?case using r q
    by (cases r; cases q) (auto simp: safeResult_def split: option.split)
qed (simp add: safeResult_def)

lemma components_tables: "c \<in> set (newComponents cp) \<Longrightarrow> (CompSpecs c, CompQueries c) \<in> set controlplaneTables"
  by (auto simp: newComponents_def componentOf_def controlplaneTables_def split: if_splits)

lemma cpJob_calm:
  assumes "calmCPWorld cw" "calmSdk sdk" "cpJobOf cw cc (csComponents (NewCPScraper cw cfg)) j"
  shows "calm (JobPopulate sdk j cn cid v)"
proof -
  obtain c conn eid where c: "c \<in> set (newComponents (ControlPlane cfg))" and j: "j = cpJob cw cc c conn eid"
    using assms(3) by (auto simp: cpJobOf_def NewCPScraper_def Let_def)
  let ?g = "\<lparr>CPQueries = CompQueries c, CPClient = cpMetricFamilies cw conn, CPEntityID = eid\<rparr>"
  have "\<not> is_panic (CPClient ?g (CPQueries ?g))" using assms(1) by (simp add: cpMetricFamilies_def calmCPWorld_def)
  then show ?thesis
    by (intro controlplane_job_calm[OF components_tables[OF c], where cfg = ?g and cc = cc] assms(2)) (simp_all add: j cpJob_def NewScrapeJob_def)
qed

lemma runJobs_calm: "\<forall>j \<in> set js. calm (JobPopulate sdk j cn cid v) \<Longrightarrow> calm (runJobs sdk js cn cid v)"
  by (induction js) (auto intro!: calm_intros)

lemma CPRun_no_panic:
  fixes st :: "('i, interfacecache option, 'f) popstate"
  assumes "calmCPWorld cw" "calmSdk sdk"
  shows "\<not> is_panic (fst (CPRun sdk cw cc (NewCPScraper cw cfg) cn cid v w st))"
proof -
  let ?s = "NewCPScraper cw cfg"
  obtain r :: "(interfacecache option, 'f) job list result" and w1 where r: "componentJobs cw cc ?s (csComponents ?s) w = (r, w1)" by force
  then have j: "safeResult (list_all (cpJobOf cw cc (csComponents ?s))) r"
    using componentJobs_calm[where ?'f = 'f, OF assms(1) order_refl, of cc "csComponents ?s" cfg w] by simp
  show ?thesis
  proof (cases r)
    case (Ok js)
    then have "calm (runJobs sdk js cn cid v)"
      using j by (intro runJobs_calm ballI cpJob_calm[OF assms]) (auto simp: safeResult_def list_all_iff)
    then have "\<not> is_panic (fst (runJobs sdk js cn cid v st))" by (rule calmD)
    then show ?thesis using r Ok by (cases "runJobs sdk js cn cid v st") (simp add: CPRun_def)
  qed (use r j in \<open>auto simp: CPRun_def safeResult_def\<close>)
qed

text \<open>
  A run of the control plane scraper never panics, for any configuration and whatever the API server
  and the endpoints answer; only the SDK and the client libraries are assumed not to panic themselves.
\<close>

lemma CPRun_never_panics:
  fixes st :: "('i, interfacecache option, 'f) popstate"
  assumes "calmCPWorld cw" "calmSdk sdk"
  shows "\<not> is_panic (fst (CPRun sdk cw cc (NewCPScraper cw cfg) cn cid v w st))"
  using assms by (rule CPRun_no_panic)

theorem CPRun_never_panics_witness:
  "\<not> is_panic (fst (CPRun recordSdk exampleCPWorld id (NewCPScraper exampleCPWorld exampleCPCfg) ''cl'' [] ''v1'' ()
      \<lparr>pInt = [], pCache = None, pFilter = ()\<rparr>))"
  by (rule CPRun_never_panics[OF _ recordSdk_calm]) (simp add: calmCPWorld_def exampleCPWorld_def)

end
