(* ===== verification/Kubelet_Specs.thy ===== *)
theory Kubelet_Specs
  imports Metric_Specs
begin

text \<open>
  The specifications of the kubelet scrape, \<open>NewKubeletSpecs\<close>, and the queries of the cAdvisor endpoint,
  both of \<open>src/metric/definition.go\<close>.
\<close>

section \<open>Tables\<close>

definition CadvisorQueries :: "query list" where
  "CadvisorQueries =
    [(ask ''container_memory_usage_bytes'')\<lparr>QLabelsOp := QueryOpNor, QLabels := [(''container_name'', [])]\<rparr>,
     ask ''container_cpu_cfs_periods_total'',
     ask ''container_cpu_cfs_throttled_periods_total'',
     ask ''container_cpu_cfs_throttled_seconds_total'',
     ask ''container_memory_mapped_file'',
     ask ''container_oom_events_total'']"

definition kubeletPodSpecs :: "specentry list" where
  "kubeletPodSpecs =
    [Entry attrCPUUsage (Fetch cpuUsedCores) GAUGE True,
     Entry attrMemoryUsage (Fetch (eFromRaw ''usageBytes'')) GAUGE True,
     Entry attrMemoryWorkingSet (Fetch workingSetBytes) GAUGE True,
     Entry ''net.rxBytesPerSecond'' (Fallback ''rxBytes'') RATE False,
     Entry ''net.txBytesPerSecond'' (Fallback ''txBytes'') RATE False,
     Entry ''net.errorsPerSecond'' (Fallback ''errors'') RATE False,
     Entry ''createdAt'' (Fetch (eTransform (eFromRaw ''createdAt'') tToTimestamp)) GAUGE True,
     Entry ''scheduledAt'' (Fetch (eTransform (eFromRaw ''scheduledAt'') tToTimestamp)) GAUGE True,
     Entry ''initializedAt'' (Fetch (eTransform (eFromRaw ''initializedAt'') tToTimestamp)) GAUGE True,
     Entry ''containersReadyAt'' (Fetch (eTransform (eFromRaw ''containersReadyAt'') tToTimestamp)) GAUGE True,
     Entry ''readyAt'' (Fetch (eTransform (eFromRaw ''readyAt'') tToTimestamp)) GAUGE True,
     Entry ''startTime'' (Fetch (eTransform (eFromRaw ''startTime'') tToTimestamp)) GAUGE False,
     Entry ''createdKind'' (Fetch (eFromRaw ''createdKind'')) ATTRIBUTE True,
     Entry ''createdBy'' (Fetch (eFromRaw ''createdBy'')) ATTRIBUTE True,
     Entry ''nodeIP'' (Fetch (eFromRaw ''nodeIP'')) ATTRIBUTE False,
     Entry ''podIP'' (Fetch (eFromRaw ''podIP'')) ATTRIBUTE True,
     Entry ''namespace'' (Fetch (eFromRaw ''namespace'')) ATTRIBUTE False,
     Entry ''namespaceName'' (Fetch (eFromRaw ''namespace'')) ATTRIBUTE False,
     Entry ''nodeName'' (Fetch (eFromRaw ''nodeName'')) ATTRIBUTE False,
     Entry ''podName'' (Fetch (eFromRaw ''podName'')) ATTRIBUTE False,
     Entry ''isReady'' (Fetch (eTransform (eFromRaw ''isReady'') tToNumericBoolean)) GAUGE False,
     Entry ''status'' (Fetch (eFromRaw ''status'')) ATTRIBUTE False,
     Entry ''isScheduled'' (Fetch (eTransform (eFromRaw ''isScheduled'') tToNumericBoolean)) GAUGE False,
     Entry ''deploymentName'' (Fetch (eFromRaw ''deploymentName'')) ATTRIBUTE True,
     Entry ''daemonsetName'' (Fetch (eFromRaw ''daemonsetName'')) ATTRIBUTE True,
     Entry ''jobName'' (Fetch (eFromRaw ''jobName'')) ATTRIBUTE True,
     Entry ''replicasetName'' (Fetch (eFromRaw ''replicasetName'')) ATTRIBUTE True,
     Entry ''statefulsetName'' (Fetch (eFromRaw ''statefulsetName'')) ATTRIBUTE True,
     Entry ''priority'' (Fetch (eFromRaw ''priority'')) GAUGE True,
     Entry ''priorityClassName'' (Fetch (eFromRaw ''priorityClassName'')) ATTRIBUTE True,
     Entry ''label.*'' (Fetch (eTransform (eFromRaw ''labels'') tOneMetricPerLabel)) ATTRIBUTE False,
     Entry ''reason'' (Fetch (eFromRaw ''reason'')) ATTRIBUTE True,
     Entry ''message'' (Fetch (eFromRaw ''message'')) ATTRIBUTE True,
     Entry attrCPURequests (Fetch cpuRequestedCores) GAUGE True,
     Entry attrCPULimit (Fetch cpuLimitCores) GAUGE True,
     Entry attrMemoryRequests (Fetch (eFromRaw ''memoryRequestedBytes'')) GAUGE True,
     Entry attrMemoryLimit (Fetch (eFromRaw ''memoryLimitBytes'')) GAUGE True,
     Entry ''requestedCpuCoresUtilization'' (Fetch (eToUtilization cpuUsedCores cpuRequestedCores)) GAUGE True,
     Entry ''cpuCoresUtilization'' (Fetch (eToUtilization cpuUsedCores cpuLimitCores)) GAUGE True,
     Entry ''requestedMemoryUtilization'' (Fetch (eToUtilization (eFromRaw ''usageBytes'') (eFromRaw ''memoryRequestedBytes''))) GAUGE True,
     Entry ''memoryUtilization'' (Fetch (eToUtilization (eFromRaw ''usageBytes'') (eFromRaw ''memoryLimitBytes''))) GAUGE True]"

definition kubeletPod :: "groupentry" where
  "kubeletPod =
    \<lparr>EIDGenerator = Some (FromRawEntityIDGroupEntityIDGenerator ''namespace''), ETypeGenerator = Some FromRawGroupsEntityTypeGenerator, ENamespaceGetter = Some KFromLabelGetNamespace,
     EMsTypeGuesser = None, ESpecs = kubeletPodSpecs, ESplitByLabel = [], ESliceMetricName = []\<rparr>"

definition kubeletContainerSpecs :: "specentry list" where
  "kubeletContainerSpecs =
    [Entry attrMemoryUsage (Fetch (eFromRaw ''usageBytes'')) GAUGE False,
     Entry attrMemoryWorkingSet (Fetch workingSetBytes) GAUGE False,
     Entry attrCPUUsage (Fetch cpuUsedCores) GAUGE False,
     Entry ''fsAvailableBytes'' (Fetch (eFromRaw ''fsAvailableBytes'')) GAUGE False,
     Entry ''fsCapacityBytes'' (Fetch (eFromRaw ''fsCapacityBytes'')) GAUGE False,
     Entry ''fsUsedBytes'' (Fetch (eFromRaw ''fsUsedBytes'')) GAUGE False,
     Entry ''fsUsedPercent'' (Fetch (eToComplementPercentage ''fsUsedBytes'' ''fsAvailableBytes'')) GAUGE False,
     Entry ''fsInodesFree'' (Fetch (eFromRaw ''fsInodesFree'')) GAUGE False,
     Entry ''fsInodes'' (Fetch (eFromRaw ''fsInodes'')) GAUGE False,
     Entry ''fsInodesUsed'' (Fetch (eFromRaw ''fsInodesUsed'')) GAUGE False,
     Entry ''containerID'' (Fetch (eFromRaw ''containerID'')) ATTRIBUTE False,
     Entry ''containerImageID'' (Fetch (eFromRaw ''containerImageID'')) ATTRIBUTE False,
     Entry ''containerMemoryMappedFileBytes'' (Fetch (eFromRaw ''container_memory_mapped_file'')) GAUGE True,
     Entry ''containerOOMEventsDelta'' (Fetch (eFromRaw ''container_oom_events_total'')) PDELTA True,
     Entry ''containerCpuCfsPeriodsDelta'' (Fetch (eFromRaw ''container_cpu_cfs_periods_total'')) PDELTA True,
     Entry ''containerCpuCfsThrottledPeriodsDelta'' (Fetch (eFromRaw ''container_cpu_cfs_throttled_periods_total'')) PDELTA True,
     Entry ''containerCpuCfsThrottledSecondsDelta'' (Fetch (eFromRaw ''container_cpu_cfs_throttled_seconds_total'')) PDELTA True,
     Entry ''containerCpuCfsPeriodsTotal'' (Fetch (eFromRaw ''container_cpu_cfs_periods_total'')) GAUGE True,
     Entry ''containerCpuCfsThrottledPeriodsTotal'' (Fetch (eFromRaw ''container_cpu_cfs_throttled_periods_total'')) GAUGE True,
     Entry ''containerCpuCfsThrottledSecondsTotal'' (Fetch (eFromRaw ''container_cpu_cfs_throttled_seconds_total'')) GAUGE True,
     Entry ''containerName'' (Fetch (eFromRaw ''containerName'')) ATTRIBUTE False,
     Entry ''containerImage'' (Fetch (eFromRaw ''containerImage'')) ATTRIBUTE False,
     Entry ''deploymentName'' (Fetch (eFromRaw ''deploymentName'')) ATTRIBUTE True,
     Entry ''daemonsetName'' (Fetch (eFromRaw ''daemonsetName'')) ATTRIBUTE True,
     Entry ''jobName'' (Fetch (eFromRaw ''jobName'')) ATTRIBUTE True,
     Entry ''replicasetName'' (Fetch (eFromRaw ''replicasetName'')) ATTRIBUTE True,
     Entry ''statefulsetName'' (Fetch (eFromRaw ''statefulsetName'')) ATTRIBUTE True,
     Entry ''namespace'' (Fetch (eFromRaw ''namespace'')) ATTRIBUTE False,
     Entry ''namespaceName'' (Fetch (eFromRaw ''namespace'')) ATTRIBUTE False,
     Entry ''podName'' (Fetch (eFromRaw ''podName'')) ATTRIBUTE False,
     Entry ''nodeName'' (Fetch (eFromRaw ''nodeName'')) ATTRIBUTE False,
     Entry ''nodeIP'' (Fetch (eFromRaw ''nodeIP'')) ATTRIBUTE False,
     Entry ''restartCount'' (Fetch (eFromRaw ''restartCount'')) GAUGE False,
     Entry ''restartCountDelta'' (Fetch (eFromRaw ''restartCount'')) PDELTA False,
     Entry attrCPURequests (Fetch cpuRequestedCores) GAUGE True,
     Entry attrCPULimit (Fetch cpuLimitCores) GAUGE True,
     Entry attrMemoryRequests (Fetch (eFromRaw ''memoryRequestedBytes'')) GAUGE True,
     Entry attrMemoryLimit (Fetch (eFromRaw ''memoryLimitBytes'')) GAUGE True,
     Entry ''status'' (Fetch (eFromRaw ''status'')) ATTRIBUTE False,
     Entry ''isReady'' (Fetch (eTransform (eFromRaw ''isReady'') tToNumericBoolean)) GAUGE False,
     Entry ''reason'' (Fetch (eFromRaw ''reason'')) ATTRIBUTE True,
     Entry ''lastTerminatedExitCode'' (Fetch (eFromRaw ''lastTerminatedExitCode'')) GAUGE True,
     Entry ''lastTerminatedExitReason'' (Fetch (eFromRaw ''lastTerminatedExitReason'')) ATTRIBUTE True,
     Entry ''lastTerminatedTimestamp'' (Fetch (eTransform (eFromRaw ''lastTerminatedTimestamp'') tToTimestamp)) GAUGE True,
     Entry ''label.*'' (Fetch (eTransform (eFromRaw ''labels'') tOneMetricPerLabel)) ATTRIBUTE False,
     Entry ''cpuCoresUtilization'' (Fetch (eToUtilization cpuUsedCores cpuLimitCores)) GAUGE True,
     Entry ''requestedCpuCoresUtilization'' (Fetch (eToUtilization cpuUsedCores cpuRequestedCores)) GAUGE True,
     Entry ''memoryUtilization'' (Fetch (eToUtilization (eFromRaw ''usageBytes'') (eFromRaw ''memoryLimitBytes''))) GAUGE True,
     Entry ''requestedMemoryUtilization'' (Fetch (eToUtilization (eFromRaw ''usageBytes'') (eFromRaw ''memoryRequestedBytes''))) GAUGE True]"

definition kubeletContainer :: "groupentry" where
  "kubeletContainer =
    \<lparr>EIDGenerator = Some (FromRawGroupsEntityIDGenerator ''containerName''), ETypeGenerator = Some FromRawGroupsEntityTypeGenerator, ENamespaceGetter = Some KFromLabelGetNamespace,
     EMsTypeGuesser = None, ESpecs = kubeletContainerSpecs, ESplitByLabel = [], ESliceMetricName = []\<rparr>"

definition kubeletNodeSpecs :: "specentry list" where
  "kubeletNodeSpecs =
    [Entry ''nodeName'' (Fetch (eFromRaw ''nodeName'')) ATTRIBUTE False,
     Entry attrCPUUsage (Fetch cpuUsedCores) GAUGE False,
     Entry ''cpuUsedCoreMilliseconds'' (Fetch (eTransform (eFromRaw ''usageCoreNanoSeconds'') tFromNanoToMilli)) GAUGE False,
     Entry attrMemoryUsage (Fetch (eFromRaw ''memoryUsageBytes'')) GAUGE False,
     Entry ''memoryAvailableBytes'' (Fetch (eFromRaw ''memoryAvailableBytes'')) GAUGE False,
     Entry attrMemoryWorkingSet (Fetch (eFromRaw ''memoryWorkingSetBytes'')) GAUGE False,
     Entry ''memoryRssBytes'' (Fetch (eFromRaw ''memoryRssBytes'')) GAUGE False,
     Entry ''memoryPageFaults'' (Fetch (eFromRaw ''memoryPageFaults'')) GAUGE False,
     Entry ''memoryMajorPageFaultsPerSecond'' (Fetch (eFromRaw ''memoryMajorPageFaults'')) RATE False,
     Entry ''net.rxBytesPerSecond'' (Fallback ''rxBytes'') RATE False,
     Entry ''net.txBytesPerSecond'' (Fallback ''txBytes'') RATE False,
     Entry ''net.errorsPerSecond'' (Fallback ''errors'') RATE False,
     Entry ''fsAvailableBytes'' (Fetch (eFromRaw ''fsAvailableBytes'')) GAUGE False,
     Entry ''fsCapacityBytes'' (Fetch (eFromRaw ''fsCapacityBytes'')) GAUGE False,
     Entry ''fsUsedBytes'' (Fetch (eFromRaw ''fsUsedBytes'')) GAUGE False,
     Entry ''fsInodesFree'' (Fetch (eFromRaw ''fsInodesFree'')) GAUGE False,
     Entry ''fsInodes'' (Fetch (eFromRaw ''fsInodes'')) GAUGE False,
     Entry ''fsInodesUsed'' (Fetch (eFromRaw ''fsInodesUsed'')) GAUGE False,
     Entry ''runtimeAvailableBytes'' (Fetch (eFromRaw ''runtimeAvailableBytes'')) GAUGE False,
     Entry ''runtimeCapacityBytes'' (Fetch (eFromRaw ''runtimeCapacityBytes'')) GAUGE False,
     Entry ''runtimeUsedBytes'' (Fetch (eFromRaw ''runtimeUsedBytes'')) GAUGE False,
     Entry ''runtimeInodesFree'' (Fetch (eFromRaw ''runtimeInodesFree'')) GAUGE False,
     Entry ''runtimeInodes'' (Fetch (eFromRaw ''runtimeInodes'')) GAUGE False,
     Entry ''runtimeInodesUsed'' (Fetch (eFromRaw ''runtimeInodesUsed'')) GAUGE False,
     Entry ''label.*'' (Fetch (eTransform (eFromRaw ''labels'') tOneMetricPerLabel)) ATTRIBUTE False,
     Entry ''allocatable.*'' (Fetch (eTransform (eFromRaw ''allocatable'') tOneAttributePerAllocatable)) GAUGE False,
     Entry ''capacity.*'' (Fetch (eTransform (eFromRaw ''capacity'') tOneAttributePerCapacity)) GAUGE False,
     Entry ''condition.*'' (Fetch (eTransform (eFromRaw ''conditions'') (tPrefixFromMapInt ''condition.''))) GAUGE False,
     Entry ''unschedulable'' (Fetch (eTransform (eFromRaw ''unschedulable'') tToNumericBoolean)) GAUGE False,
     Entry attrMemoryRequests (Fetch (eFromRaw ''memoryRequestedBytes'')) GAUGE False,
     Entry attrCPURequests (Fetch cpuRequestedCores) GAUGE False,
     Entry ''kubeletVersion'' (Fetch (eFromRaw ''kubeletVersion'')) ATTRIBUTE False,
     Entry ''runningPods'' (Fetch (eFromRaw ''runningPods'')) GAUGE False,
     Entry ''fsCapacityUtilization'' (Fetch (eToUtilization (eFromRaw ''fsUsedBytes'') (eFromRaw ''fsCapacityBytes''))) GAUGE False,
     Entry ''allocatableCpuCoresUtilization'' (Fetch (eToUtilization cpuUsedCores allocatableCPUCores)) GAUGE False,
     Entry ''allocatableMemoryUtilization'' (Fetch (eToUtilization (eFromRaw ''memoryWorkingSetBytes'') allocatableMemoryBytes)) GAUGE False]"

definition kubeletNode :: "groupentry" where
  "kubeletNode =
    \<lparr>EIDGenerator = None, ETypeGenerator = Some FromRawGroupsEntityTypeGenerator, ENamespaceGetter = None,
     EMsTypeGuesser = None, ESpecs = kubeletNodeSpecs, ESplitByLabel = [], ESliceMetricName = []\<rparr>"

definition kubeletVolumeSpecs :: "specentry list" where
  "kubeletVolumeSpecs =
    [Entry ''volumeName'' (Fetch (eFromRaw ''volumeName'')) ATTRIBUTE False,
     Entry ''podName'' (Fetch (eFromRaw ''podName'')) ATTRIBUTE False,
     Entry ''namespace'' (Fetch (eFromRaw ''namespace'')) ATTRIBUTE False,
     Entry ''namespaceName'' (Fetch (eFromRaw ''namespace'')) ATTRIBUTE False,
     Entry ''persistent'' (Fetch eIsPersistentVolume) ATTRIBUTE False,
     Entry ''pvcName'' (Fetch (eFromRaw ''pvcName'')) ATTRIBUTE True,
     Entry ''pvcNamespace'' (Fetch (eFromRaw ''pvcNamespace'')) ATTRIBUTE True,
     Entry ''pvcNamespaceName'' (Fetch (eFromRaw ''pvcNamespace'')) ATTRIBUTE True,
     Entry ''fsAvailableBytes'' (Fetch (eFromRaw ''fsAvailableBytes'')) GAUGE False,
     Entry ''fsCapacityBytes'' (Fetch (eFromRaw ''fsCapacityBytes'')) GAUGE False,
     Entry ''fsUsedBytes'' (Fetch (eFromRaw ''fsUsedBytes'')) GAUGE False,
     Entry ''fsUsedPercent'' (Fetch (eToComplementPercentage ''fsUsedBytes'' ''fsAvailableBytes'')) GAUGE False,
     Entry ''fsInodesFree'' (Fetch (eFromRaw ''fsInodesFree'')) GAUGE False,
     Entry ''fsInodes'' (Fetch (eFromRaw ''fsInodes'')) GAUGE False,
     Entry ''fsInodesUsed'' (Fetch (eFromRaw ''fsInodesUsed'')) GAUGE False]"

definition kubeletVolume :: "groupentry" where
  "kubeletVolume =
    \<lparr>EIDGenerator = None, ETypeGenerator = Some FromRawGroupsEntityTypeGenerator, ENamespaceGetter = Some KFromLabelGetNamespace,
     EMsTypeGuesser = None, ESpecs = kubeletVolumeSpecs, ESplitByLabel = [], ESliceMetricName = []\<rparr>"

definition NewKubeletSpecs :: specentries where
  "NewKubeletSpecs =
    [(''pod'', kubeletPod),
     (''container'', kubeletContainer),
     (''node'', kubeletNode),
     (''volume'', kubeletVolume)]"

end
