(* ===== verification/Scrapers.thy ===== *)
theory Scrapers
  imports Control_Plane Kubelet_Specs
begin

text \<open>
  \<open>src/ksm/scraper.go\<close>, \<open>src/ksm/client\<close> and \<open>src/kubelet/scraper.go\<close>: the scrapers of kube-state-metrics
  and of the kubelet, which find their endpoints, build a job and run it.
\<close>

section \<open>Kube-state-metrics\<close>

definition defaultLabelSelector :: string where "defaultLabelSelector = ''app.kubernetes.io/name=kube-state-metrics''"
definition defaultScheme :: string where "defaultScheme = ''http''"
definition ksmMetricsPath :: string where "ksmMetricsPath = ''metrics''"

record discoveryconfig =
  dcSelector :: string
  dcNamespace :: string
  dcPort :: int

definition discoveryConfig :: "ksmcfg \<Rightarrow> discoveryconfig" where
  "discoveryConfig k =
     \<lparr>dcSelector = (if KsmSelector k \<noteq> [] then KsmSelector k else defaultLabelSelector),
      dcNamespace = (if KsmNamespace k \<noteq> [] then KsmNamespace k else []),
      dcPort = (if KsmPort k \<noteq> 0 then KsmPort k else 0)\<rparr>"

text \<open>\<open>list\<close> is the lister of endpoint slices that the informer of the selector and the namespace provides.\<close>

definition buildDiscoverer ::
  "'w clock \<Rightarrow> (string \<Rightarrow> string \<Rightarrow> (endpointslice list, 'w) io) \<Rightarrow> ksmcfg \<Rightarrow> 'w \<Rightarrow> ((err + string list) \<times> 'w) option" where
  "buildDiscoverer clk list k =
     (let dc = discoveryConfig k in
      DiscoverWithTimeout clk (\<lambda>w. case list (dcSelector dc) (dcNamespace dc) w of (slices, w') \<Rightarrow> (SliceDiscover slices (dcPort dc), w'))
        (DiscoveryBackoffDelay k) (DiscoveryTimeout k))"

definition ksmURLs :: "ksmcfg \<Rightarrow> ('w \<Rightarrow> ((err + string list) \<times> 'w) option) \<Rightarrow> 'w \<Rightarrow> ((err + string list) \<times> 'w) option" where
  "ksmURLs k discover w =
     (if StaticURL k \<noteq> [] then Some (Inr [StaticURL k], w)
      else case discover w of
        None \<Rightarrow> None
      | Some (Inl e, w') \<Rightarrow> Some (Inl (Errorf ''discovering KSM endpoints: %w'' [] [e]), w')
      | Some (Inr endpoints, w') \<Rightarrow>
          let scheme = (if KsmScheme k = [] then defaultScheme else KsmScheme k) in
          Some (Inr (map (\<lambda>endpoint. urlString \<lparr>UScheme = scheme, UHost = endpoint, UPath = ksmMetricsPath\<rparr>) endpoints), w'))"

text \<open>\<open>getFiltered\<close> is the request through \<open>pester\<close>; the client wraps its error.\<close>

definition ksmFamilies :: "(string \<Rightarrow> query list \<Rightarrow> metricfamily list result) \<Rightarrow> string \<Rightarrow> query list \<Rightarrow> metricfamily list result" where
  "ksmFamilies getFiltered url queries =
     rbindw (\<lambda>e. Errorf ''getting filtered metric families: %w'' [] [e]) (getFiltered url queries) Ok"

definition ksmJob ::
  "(string \<Rightarrow> query list \<Rightarrow> metricfamily list result) \<Rightarrow> service list result \<Rightarrow> (string \<Rightarrow> string) \<Rightarrow> config
     \<Rightarrow> (string \<Rightarrow> 'f \<Rightarrow> bool \<times> 'f) option \<Rightarrow> string \<Rightarrow> (interfacecache option, 'f) job" where
  "ksmJob getFiltered services cc cfg filterer endpoint =
     NewScrapeJob ''kube-state-metrics''
       (ksmGroup \<lparr>Queries = KSMQueries, MetricFamiliesGetter = ksmFamilies getFiltered endpoint, ServicesLister = services,
          EnableResourceQuotaSamples = KsmResourceQuotaSamples (KSM cfg)\<rparr>)
       (runSpecs cc KSMSpecs) [\<lambda>j. j\<lparr>JFilterer := filterer\<rparr>]"

text \<open>The loop over the endpoints, with the variable \<open>populated\<close>.\<close>

fun ksmLoop :: "(string \<Rightarrow> (populateresult, 'i, 'c, 'f) pop) \<Rightarrow> bool \<Rightarrow> bool \<Rightarrow> string list \<Rightarrow> (bool, 'i, 'c, 'f) pop" where
  "ksmLoop populate distributed populated [] = preturn populated"
| "ksmLoop populate distributed populated (endpoint # endpoints) =
     pbind (populate endpoint) (\<lambda>r.
       if \<not> Populated r then ksmLoop populate distributed populated endpoints
       else if \<not> distributed then preturn True
       else ksmLoop populate distributed True endpoints)"

definition KsmRun ::
  "'i sdk \<Rightarrow> ('w \<Rightarrow> ((err + string list) \<times> 'w) option) \<Rightarrow> (string \<Rightarrow> (interfacecache option, 'f) job) \<Rightarrow> config \<Rightarrow> string \<Rightarrow> string
     \<Rightarrow> 'w \<Rightarrow> ('i, interfacecache option, 'f) popstate \<Rightarrow> (unit result \<times> 'w \<times> ('i, interfacecache option, 'f) popstate) option" where
  "KsmRun sdk discover jobFor cfg cid v w st =
     (case ksmURLs (KSM cfg) discover w of
        None \<Rightarrow> None
      | Some (Inl e, w') \<Rightarrow> Some (Fail e, w', st)
      | Some (Inr endpoints, w') \<Rightarrow>
          (case ksmLoop (\<lambda>endpoint. JobPopulate sdk (jobFor endpoint) (CfgClusterName cfg) cid v) (Distributed (KSM cfg)) False endpoints st of
             (Ok populated, st') \<Rightarrow>
               Some (if \<not> populated then Fail (errorsNew ''KSM data was not populated after trying all endpoints'') else Ok (), w', st')
           | (Fail e, st') \<Rightarrow> Some (Fail e, w', st')
           | (Panic p, st') \<Rightarrow> Some (Panic p, w', st')))"

section \<open>Kubelet\<close>

record kubeletscraper =
  ksDefaultInterface :: string
  ksCloudClusterID :: string
  ksVersion :: string
  ksCurrentReruns :: int
  ksMaxReruns :: int

text \<open>The version comes from the API server; an interface that cannot be found is only logged.\<close>

definition NewKubeletScraper :: "(err + string) \<Rightarrow> (string \<Rightarrow> (err + string) option) \<Rightarrow> config \<Rightarrow> string \<Rightarrow> err + kubeletscraper" where
  "NewKubeletScraper serverVersion openFile cfg cid =
     (case serverVersion of
        Inl e \<Rightarrow> Inl (Errorf ''fetching K8s version: %w'' [] [e])
      | Inr version \<Rightarrow>
          Inr \<lparr>ksDefaultInterface = (case DefaultInterface openFile (NetworkRouteFile (Kubelet cfg)) of Ok i \<Rightarrow> i | _ \<Rightarrow> []),
               ksCloudClusterID = cid, ksVersion = version, ksCurrentReruns = 0, ksMaxReruns = ScraperMaxReruns (Kubelet cfg)\<rparr>)"

definition IncCurrentReruns :: "kubeletscraper \<Rightarrow> kubeletscraper" where
  "IncCurrentReruns s = s\<lparr>ksCurrentReruns := ksCurrentReruns s + 1\<rparr>"

definition IsMaxRerunReached :: "kubeletscraper \<Rightarrow> bool" where
  "IsMaxRerunReached s = (ksCurrentReruns s > ksMaxReruns s)"

text \<open>
  The constructor of the fetcher of pods: with the Kubernetes service it asks the API server for the pods of
  the node, at an address that is parsed from the configuration in the cluster or from the environment.
\<close>

definition KubeServiceKubeletPodsPath :: string where "KubeServiceKubeletPodsPath = ''/api/v1/pods''"

definition getKubeServiceHost :: "err + restconfig \<Rightarrow> (string \<Rightarrow> string) \<Rightarrow> string" where
  "getKubeServiceHost inCluster getenv =
     (case inCluster of
        Inr rc \<Rightarrow> RestHost rc
      | Inl e \<Rightarrow> ''https://'' @ JoinHostPort (getenv ''KUBERNETES_SERVICE_HOST'') (getenv ''KUBERNETES_SERVICE_PORT''))"

definition NewPodsFetcher :: "(string \<Rightarrow> err + url) \<Rightarrow> string \<Rightarrow> config \<Rightarrow> podsfetcher" where
  "NewPodsFetcher parse host cfg =
     (if FetchPodsFromKubeService (Kubelet cfg)
      then case parse host of
        Inl e \<Rightarrow> \<lparr>useKubeService = False, uri = []\<rparr>
      | Inr u \<Rightarrow>
          \<lparr>useKubeService = True,
           uri = urlString (u\<lparr>UPath := pathJoin [UPath u, KubeServiceKubeletPodsPath]\<rparr>) @ ''?fieldSelector=spec.nodeName='' @ CfgNodeName cfg\<rparr>
      else \<lparr>useKubeService = False, uri = []\<rparr>)"

text \<open>\<open>pods\<close> and \<open>cadvisor\<close> are the results of the two fetchers; a nil filterer is \<open>None\<close>.\<close>

definition kubeletJob ::
  "(string \<Rightarrow> k8snode result) \<Rightarrow> (body \<Rightarrow> statssummary result) \<Rightarrow> (string \<Rightarrow> httpresponse result) \<Rightarrow> rawgroups result \<Rightarrow> groupresult
     \<Rightarrow> (string \<Rightarrow> string) \<Rightarrow> (string \<Rightarrow> 'f \<Rightarrow> bool \<times> 'f) option \<Rightarrow> kubeletscraper \<Rightarrow> (interfacecache option, 'f) job" where
  "kubeletJob nodeGetter decode get pods cadvisor cc filterer s =
     NewScrapeJob ''kubelet''
       (kubeletGroup \<lparr>NodeGetter = nodeGetter, SummaryDecode = decode, HTTPGet = get,
          Fetchers = [rbind pods (\<lambda>g. Ok (g, None)), cadvisor], DefaultNetworkInterface = ksDefaultInterface s\<rparr>)
       (runSpecs cc NewKubeletSpecs) [\<lambda>j. j\<lparr>JFilterer := filterer\<rparr>]"

definition KubeletRun ::
  "'i sdk \<Rightarrow> (kubeletscraper \<Rightarrow> (interfacecache option, 'f) job) \<Rightarrow> string \<Rightarrow> kubeletscraper \<Rightarrow> (unit, 'i, interfacecache option, 'f) pop" where
  "KubeletRun sdk jobFor clusterName s =
     pbind (JobPopulate sdk (jobFor s) clusterName (ksCloudClusterID s) (ksVersion s)) (\<lambda>r.
       if \<not> Populated r then (\<lambda>st. (Fail (errorsNew ''kubelet data was not populated after trying all endpoints''), st))
       else preturn ())"

text \<open>Pods are fetched from the kubelet, or from the API server for this node alone.\<close>

lemma pods_source:
  "Kubelet_Pods.Fetch Get GetURI' (NewPodsFetcher parse host cfg) = Get KubeletPodsPath \<or>
   (\<exists>u. FetchPodsFromKubeService (Kubelet cfg) \<and> parse host = Inr u \<and>
     Kubelet_Pods.Fetch Get GetURI' (NewPodsFetcher parse host cfg) =
       GetURI' (urlString (u\<lparr>UPath := pathJoin [UPath u, ''/api/v1/pods'']\<rparr>) @ ''?fieldSelector=spec.nodeName='' @ CfgNodeName cfg))"
  by (auto simp: NewPodsFetcher_def Kubelet_Pods.Fetch_def KubeServiceKubeletPodsPath_def split: sum.split)

section \<open>The endpoints of kube-state-metrics\<close>

text \<open>The jobs of endpoints that run one after the other, with their results.\<close>

fun tries :: "(string \<Rightarrow> (populateresult, 'i, 'c, 'f) pop) \<Rightarrow> string list \<Rightarrow> ('i, 'c, 'f) popstate \<Rightarrow> populateresult list \<Rightarrow> ('i, 'c, 'f) popstate \<Rightarrow> bool" where
  "tries populate [] st rs st' \<longleftrightarrow> rs = [] \<and> st' = st"
| "tries populate (e # es) st rs st' \<longleftrightarrow> (\<exists>r st1 rs'. populate e st = (Ok r, st1) \<and> rs = r # rs' \<and> tries populate es st1 rs' st')"

lemma ksmLoop_Cons:
  assumes "ksmLoop populate d p (e # es) st = (res, st')" "\<And>er. fst (populate e st) \<noteq> Fail er"
  shows "(\<exists>q. populate e st = (Panic q, st') \<and> res = Panic q) \<or>
    (\<exists>r st1. populate e st = (Ok r, st1) \<and> (if Populated r \<and> \<not> d then res = Ok True \<and> st' = st1
       else ksmLoop populate d (p \<or> Populated r) es st1 = (res, st')))"
proof (cases "populate e st")
  case (Pair x st1)
  then show ?thesis using assms by (cases x) (auto simp: pop_simps split: if_splits)
qed

lemma ksmLoop_tries:
  assumes "\<And>e st er. fst (populate e st) \<noteq> Fail er" "ksmLoop populate d p es st = (res, st')"
  shows "case res of
      Ok b \<Rightarrow> if d then \<exists>rs. tries populate es st rs st' \<and> (b \<longleftrightarrow> p \<or> (\<exists>x \<in> set rs. Populated x))
        else (\<exists>tried rest rs x. b \<and> es = tried @ rest \<and> tries populate tried st (rs @ [x]) st' \<and> Populated x \<and> (\<forall>y \<in> set rs. \<not> Populated y)) \<or>
          (\<exists>rs. b = p \<and> tries populate es st rs st' \<and> (\<forall>y \<in> set rs. \<not> Populated y))
    | Fail _ \<Rightarrow> False
    | Panic q \<Rightarrow> \<exists>tried e rest rs st1. es = tried @ e # rest \<and> tries populate tried st rs st1 \<and> populate e st1 = (Panic q, st') \<and>
        (d \<or> (\<forall>x \<in> set rs. \<not> Populated x))"
  using assms(2)
proof (induction es arbitrary: st p)
  case (Cons e es)
  note step1 = ksmLoop_Cons[OF Cons.prems assms(1)]
  consider
    (panic) q where "populate e st = (Panic q, st')" "res = Panic q"
    | (stop) r st1 where "populate e st = (Ok r, st1)" "Populated r" "\<not> d" "res = Ok True" "st' = st1"
    | (go) r st1 where "populate e st = (Ok r, st1)" "\<not> (Populated r \<and> \<not> d)" "ksmLoop populate d (p \<or> Populated r) es st1 = (res, st')"
  proof -
    from step1 show thesis
    proof (elim disjE exE conjE)
      fix q
      assume "populate e st = (Panic q, st')" "res = Panic q"
      then show thesis by (rule that(1))
    next
      fix r st1
      assume "populate e st = (Ok r, st1)" "if Populated r \<and> \<not> d then res = Ok True \<and> st' = st1
          else ksmLoop populate d (p \<or> Populated r) es st1 = (res, st')"
      then show thesis by (cases "Populated r \<and> \<not> d") (simp_all add: that(2) that(3))
    qed
  qed
  then show ?case
  proof cases
    case panic
    moreover have "e # es = [] @ e # es" "tries populate [] st [] st" by simp_all
    ultimately have "\<exists>tried e' rest rs st1. e # es = tried @ e' # rest \<and> tries populate tried st rs st1 \<and> populate e' st1 = (Panic q, st') \<and>
        (d \<or> (\<forall>x \<in> set rs. \<not> Populated x))" by (metis empty_iff list.set(1))
    then show ?thesis using panic(2) by simp
  next
    case stop
    then have "tries populate [e] st ([] @ [r]) st'" by simp
    then have "\<exists>tried rest rs x. e # es = tried @ rest \<and> tries populate tried st (rs @ [x]) st' \<and> Populated x \<and> (\<forall>y \<in> set rs. \<not> Populated y)"
      using stop(2) by (intro exI[of _ "[e]"] exI[of _ es] exI[of _ "[]"] exI[of _ r]) simp
    then show ?thesis using stop(3,4) by (simp only: result.case if_False simp_thms)
  next
    case go
    note IH = Cons.IH[OF go(3)]
    have step: "tries populate (e # ts) st (r # rs) st2" if "tries populate ts st1 rs st2" for ts rs st2 using go(1) that by simp
    show ?thesis
    proof (cases res)
      case (Ok b)
      show ?thesis
      proof (cases d)
        case True
        then obtain rs where "tries populate es st1 rs st'" "b \<longleftrightarrow> (p \<or> Populated r) \<or> (\<exists>x \<in> set rs. Populated x)" using IH Ok by auto
        then show ?thesis using Ok True step by (auto intro!: exI[of _ "r # rs"])
      next
        case False
        then have r: "\<not> Populated r" using go(2) by simp
        from IH Ok False consider
          (a) tried rest rs x where "b" "es = tried @ rest" "tries populate tried st1 (rs @ [x]) st'" "Populated x" "\<forall>y \<in> set rs. \<not> Populated y"
          | (n) rs where "b = p" "tries populate es st1 rs st'" "\<forall>y \<in> set rs. \<not> Populated y"
          using r by auto
        then show ?thesis
        proof cases
          case a
          then have "tries populate (e # tried) st ((r # rs) @ [x]) st'" using step by simp
          moreover have "\<forall>y \<in> set (r # rs). \<not> Populated y" using a(5) r by simp
          moreover have "e # es = (e # tried) @ rest" using a(2) by simp
          ultimately have "\<exists>tried rest rs x. b \<and> e # es = tried @ rest \<and> tries populate tried st (rs @ [x]) st' \<and> Populated x \<and> (\<forall>y \<in> set rs. \<not> Populated y)"
            using a(1,4) by blast
          then show ?thesis using Ok False by simp
        next
          case n
          then have "\<exists>rs. b = p \<and> tries populate (e # es) st rs st' \<and> (\<forall>y \<in> set rs. \<not> Populated y)" using step[of es rs st'] r
            by (intro exI[of _ "r # rs"]) simp
          then show ?thesis using Ok False by simp
        qed
      qed
    next
      case (Panic q)
      then obtain tried e' rest rs st2 where t: "es = tried @ e' # rest" "tries populate tried st1 rs st2" "populate e' st2 = (Panic q, st')"
        "d \<or> (\<forall>x \<in> set rs. \<not> Populated x)" using IH by auto
      then have "e # es = (e # tried) @ e' # rest" "d \<or> (\<forall>x \<in> set (r # rs). \<not> Populated x)" using go(2) by auto
      then show ?thesis using step[OF t(2)] t(3) Panic by (simp only: result.case) blast
    qed (use IH in simp)
  qed
qed (auto simp: preturn_def)

text \<open>
  C32: A run of the KSM scraper takes the static endpoint alone when it is configured, else the discovered ones, and tries them in
  order. Without the distributed mode it succeeds at the first one that populates data, and has not touched the rest; in
  the distributed mode it tries every one, and succeeds when one populates. It fails when the discovery does, with its error and nothing
  changed, or when every endpoint was tried in vain; and it panics only where the job of an endpoint does.
\<close>

theorem KsmRun_first_endpoint:
  fixes sdk :: "'i sdk" and cfg :: config and cid v :: string and filterer :: "(string \<Rightarrow> 'f \<Rightarrow> bool \<times> 'f) option"
    and getFiltered :: "string \<Rightarrow> query list \<Rightarrow> metricfamily list result" and services :: "service list result" and cc :: "string \<Rightarrow> string"
  defines "populate \<equiv> \<lambda>endpoint. JobPopulate sdk (ksmJob getFiltered services cc cfg filterer endpoint) (CfgClusterName cfg) cid v"
  assumes "KsmRun sdk discover (ksmJob getFiltered services cc cfg filterer) cfg cid v w st = Some (r, w', st')"
  shows "\<exists>x. ksmURLs (KSM cfg) discover w = Some (x, w') \<and> (case x of
      Inl e \<Rightarrow> r = Fail e \<and> st' = st
    | Inr es \<Rightarrow> (StaticURL (KSM cfg) \<noteq> [] \<longrightarrow> es = [StaticURL (KSM cfg)]) \<and>
       (case r of
          Ok _ \<Rightarrow> if Distributed (KSM cfg) then \<exists>rs. tries populate es st rs st' \<and> (\<exists>y \<in> set rs. Populated y)
            else \<exists>tried rest rs y. es = tried @ rest \<and> tries populate tried st (rs @ [y]) st' \<and> Populated y \<and> (\<forall>y \<in> set rs. \<not> Populated y)
        | Fail _ \<Rightarrow> \<exists>rs. tries populate es st rs st' \<and> (\<forall>y \<in> set rs. \<not> Populated y)
        | Panic p \<Rightarrow> \<exists>tried e rest rs st1. es = tried @ e # rest \<and> tries populate tried st rs st1 \<and> populate e st1 = (Panic p, st') \<and>
            (Distributed (KSM cfg) \<or> (\<forall>y \<in> set rs. \<not> Populated y))))"
proof -
  have nf: "fst (populate e s) \<noteq> Fail er" for e s er
    unfolding populate_def by (rule ksm.job_collects[unfolded collects_def, rule_format]) (simp add: ksmJob_def NewScrapeJob_def)
  obtain x where x: "ksmURLs (KSM cfg) discover w = Some (x, w')"
    using assms(2) by (auto simp: KsmRun_def split: option.splits sum.splits prod.splits result.splits)
  show ?thesis
  proof (cases x)
    case (Inl e)
    then show ?thesis using x assms(2) by (auto simp: KsmRun_def)
  next
    case (Inr es)
    have static: "StaticURL (KSM cfg) \<noteq> [] \<longrightarrow> es = [StaticURL (KSM cfg)]" using x Inr by (auto simp: ksmURLs_def)
    obtain res st2 where l: "ksmLoop populate (Distributed (KSM cfg)) False es st = (res, st2)" by fastforce
    note t = ksmLoop_tries[of populate, OF nf l]
    have r: "r = (case res of Ok b \<Rightarrow> if b then Ok () else Fail (errorsNew ''KSM data was not populated after trying all endpoints'')
        | Fail e \<Rightarrow> Fail e | Panic p \<Rightarrow> Panic p) \<and> st' = st2"
      using assms(2) x Inr l by (auto simp: KsmRun_def populate_def split: result.splits)
    show ?thesis
    proof (cases res)
      case (Ok b)
      then show ?thesis using x Inr static r t by (cases b; cases "Distributed (KSM cfg)") auto
    next
      case (Panic q)
      then show ?thesis using x Inr static r t by simp
    qed (use t in simp)
  qed
qed

definition twoEndpoints :: "bool \<Rightarrow> config" where
  "twoEndpoints distributed = exampleCfg\<lparr>KSM := (KSM exampleCfg)\<lparr>Distributed := distributed\<rparr>\<rparr>"

theorem KsmRun_first_endpoint_witness:
  "\<forall>d. let populate = \<lambda>endpoint. JobPopulate recordSdk (ksmJob (\<lambda>_ _. Fail ErrNoData) (Ok []) id (twoEndpoints d) None endpoint) ''cl'' [] ''v1'';
           st = \<lparr>pInt = [], pCache = None, pFilter = ()\<rparr> in
     KsmRun recordSdk (\<lambda>w. Some (Inr [''10.0.0.1:8080'', ''10.0.0.2:8080''], w)) (ksmJob (\<lambda>_ _. Fail ErrNoData) (Ok []) id (twoEndpoints d) None)
        (twoEndpoints d) [] ''v1'' () st
      = Some (Fail (errorsNew ''KSM data was not populated after trying all endpoints''), (), st) \<and>
     (\<exists>rs. tries populate [''http://10.0.0.1:8080/metrics'', ''http://10.0.0.2:8080/metrics''] st rs st \<and> length rs = 2 \<and> (\<forall>y \<in> set rs. \<not> Populated y))"
proof (intro allI)
  fix d
  let ?st = "\<lparr>pInt = [], pCache = None, pFilter = ()\<rparr>"
  let ?job = "ksmJob (\<lambda>_ _. Fail ErrNoData) (Ok []) id (twoEndpoints d) None"
  let ?disc = "\<lambda>w :: unit. Some (Inr [''10.0.0.1:8080'', ''10.0.0.2:8080''] :: err + string list, w)"
  let ?urls = "[''http://10.0.0.1:8080/metrics'', ''http://10.0.0.2:8080/metrics'']"
  have cn: "CfgClusterName (twoEndpoints d) = ''cl''" by (simp add: twoEndpoints_def exampleCfg_def)
  have pop: "\<exists>x. JobPopulate recordSdk (?job e) cn cid v st = (Ok x, st) \<and> \<not> Populated x" for e cn cid v st
    by (simp add: JobPopulate_def ksmJob_def NewScrapeJob_def ksmGroup_def ksmFamilies_def populator_empty pop_simps)
  have urls: "ksmURLs (KSM (twoEndpoints d)) ?disc () = Some (Inr ?urls, ())"
    by (simp add: ksmURLs_def twoEndpoints_def exampleCfg_def urlString_def defaultScheme_def ksmMetricsPath_def Let_def)
  have run: "KsmRun recordSdk ?disc ?job (twoEndpoints d) [] ''v1'' () ?st
      = Some (Fail (errorsNew ''KSM data was not populated after trying all endpoints''), (), ?st)"
  proof -
    obtain x where "JobPopulate recordSdk (?job (?urls ! 0)) ''cl'' [] ''v1'' ?st = (Ok x, ?st)" "\<not> Populated x" using pop by blast
    moreover obtain y where "JobPopulate recordSdk (?job (?urls ! 1)) ''cl'' [] ''v1'' ?st = (Ok y, ?st)" "\<not> Populated y" using pop by blast
    ultimately show ?thesis using urls by (simp add: KsmRun_def cn pop_simps)
  qed
  from KsmRun_first_endpoint[OF run] obtain rs where
    "tries (\<lambda>endpoint. JobPopulate recordSdk (?job endpoint) ''cl'' [] ''v1'') ?urls ?st rs ?st" "\<forall>y \<in> set rs. \<not> Populated y"
    using urls by (auto simp: cn)
  then show "let populate = \<lambda>endpoint. JobPopulate recordSdk (?job endpoint) ''cl'' [] ''v1''; st = ?st in
      KsmRun recordSdk ?disc ?job (twoEndpoints d) [] ''v1'' () st
      = Some (Fail (errorsNew ''KSM data was not populated after trying all endpoints''), (), st) \<and>
      (\<exists>rs. tries populate ?urls st rs st \<and> length rs = 2 \<and> (\<forall>y \<in> set rs. \<not> Populated y))"
    using run unfolding Let_def by (intro conjI exI[of _ rs]) auto
qed

section \<open>Cluster-scoped objects\<close>

text \<open>
  Persistent volumes have no namespace, so with any namespace filter that rejects the empty name, as one
  that looks for an existing namespace does, none of them is reported: their entities leave the integration
  untouched, without an error.
\<close>

lemma persistentvolumes_filtered:
  assumes "Filterer config = Some f" "CfgSpecs config = runSpecs cc KSMSpecs" "\<forall>s. \<not> fst (f [] s)"
    and "\<forall>(k, m) \<in> set r. \<forall>pm. m = VMetric pm \<longrightarrow> mget (Labels pm) ''namespace'' = None"
  shows "\<exists>st'. populateEntity sdk config ''persistentvolume'' (eid, r) st = (Ok (False, []), st') \<and> pInt st' = pInt st \<and> pCache st' = pCache st"
proof -
  have ns: "FromLabelGetNamespace r = []" using assms(4)
  proof (induction r)
    case (Cons kv r)
    then show ?case by (cases kv) (auto simp: label_def mget0_def split: goval.split)
  qed simp
  have sg: "mget (CfgSpecs config) ''persistentvolume'' = Some (runGroup cc ksmPersistentvolume)"
    unfolding assms(2) by (simp add: runSpecs_def KSMSpecs_def)
  have getter: "NamespaceGetter (runGroup cc ksmPersistentvolume) = Some FromLabelGetNamespace"
    by (simp add: runGroup_def ksmPersistentvolume_def)
  have "disallowed config f ''persistentvolume'' r"
    unfolding disallowed_def using sg getter ns assms(3) by (simp add: NamespaceGroup_def)
  then show ?thesis by (rule populateEntity_disallowed[OF assms(1)])
qed

theorem persistentvolumes_filtered_witness:
  "\<exists>st'. populateEntity recordSdk
      \<lparr>ClusterName = ''cl'', CloudClusterID = [], K8sVersion = ''v1'', CfgMsTypeGuesser = K8sMetricSetTypeGuesser,
       CfgGroups = [], CfgSpecs = runSpecs id KSMSpecs, Filterer = Some (\<lambda>ns s. (IsAllowed predicateSelectors exampleFilter ns, s))\<rparr>
      ''persistentvolume'' (''pv1'', [(''kube_persistentvolume_info'', VMetric \<lparr>Labels = [(''persistentvolume'', ''pv1'')], MValue = GaugeValue (Fin 1)\<rparr>)])
      \<lparr>pInt = [], pCache = None, pFilter = ()\<rparr> = (Ok (False, []), st') \<and> pInt st' = []"
proof -
  have "\<not> IsAllowed predicateSelectors exampleFilter []" by code_simp
  then show ?thesis
    using persistentvolumes_filtered[of "\<lparr>ClusterName = ''cl'', CloudClusterID = [], K8sVersion = ''v1'', CfgMsTypeGuesser = K8sMetricSetTypeGuesser,
        CfgGroups = [], CfgSpecs = runSpecs id KSMSpecs, Filterer = Some (\<lambda>ns s. (IsAllowed predicateSelectors exampleFilter ns, s))\<rparr>"
        "\<lambda>ns s. (IsAllowed predicateSelectors exampleFilter ns, s)" id
        "[(''kube_persistentvolume_info'', VMetric \<lparr>Labels = [(''persistentvolume'', ''pv1'')], MValue = GaugeValue (Fin 1)\<rparr>)]"
        recordSdk "''pv1''" "\<lparr>pInt = [], pCache = None, pFilter = ()\<rparr>"]
    by auto
qed

end
