(* ===== verification/Storer.thy ===== *)
theory Storer
  imports Caches "HOL-Library.Signed_Division"
begin

text \<open>
  \<open>internal/storer/storer.go\<close>: the in-memory store that the integration uses to compute rates and deltas.
  Entries carry the time at which they were set, in nanoseconds; \<open>vacuum\<close> removes the entries that are
  older than the time to live. The goroutine that calls it on each tick takes the same lock as \<open>Set\<close> and
  \<open>Get\<close>, so the operations are atomic steps.
\<close>

section \<open>Operations\<close>

record jsonentry =
  entryTimestamp :: int
  entryValue :: goval

record inmemorystore =
  cachedData :: "(string, jsonentry) gomap"
  storeTTL :: int

definition NewInMemoryStore :: "int \<Rightarrow> inmemorystore" where
  "NewInMemoryStore ttl = \<lparr>cachedData = [], storeTTL = ttl\<rparr>"

definition unixSeconds :: "int \<Rightarrow> int" where
  "unixSeconds ts = ts div 1000000000"

definition StoreSet :: "int \<Rightarrow> string \<Rightarrow> goval \<Rightarrow> inmemorystore \<Rightarrow> int \<times> inmemorystore" where
  "StoreSet ts key v ims =
     (unixSeconds ts, ims\<lparr>cachedData := mput key \<lparr>entryTimestamp = ts, entryValue = v\<rparr> (cachedData ims)\<rparr>)"

text \<open>
  The destination of \<open>Get\<close>, an \<open>interface{}\<close> that should hold a pointer, with the type it points to. The
  value is returned, to be stored there. \<open>persist.ErrNotFound\<close> of the SDK is a parameter. Reflection on a nil value panics when its type is asked for.
\<close>

datatype destination = NotPointer | NilPointer | PointerTo string

definition assignable :: "string \<Rightarrow> string \<Rightarrow> bool" where
  "assignable src dst = (src = dst \<or> dst = ''interface {}'')"

definition StoreGet :: "err \<Rightarrow> string \<Rightarrow> destination \<Rightarrow> inmemorystore \<Rightarrow> (int \<times> goval) result" where
  "StoreGet errNotFound key dest ims =
     (case dest of
        PointerTo dst \<Rightarrow>
          (case mget (cachedData ims) key of
             None \<Rightarrow> Fail errNotFound
           | Some entry \<Rightarrow>
               if entryValue entry = VNil then Panic ''reflect: call of reflect.Value.Type on zero Value''
               else if \<not> assignable (goType (entryValue entry)) dst
               then Fail (Errorf ''the types of cache source and dst are different: %q %q'' [goType (entryValue entry), dst] [])
               else Ok (unixSeconds (entryTimestamp entry), entryValue entry))
      | _ \<Rightarrow> Fail (errorsNew ''destination argument must be an empty pointer''))"

text \<open>\<open>time.Duration.Seconds\<close>: whole seconds and the rest are converted apart.\<close>

definition Seconds :: "int \<Rightarrow> float64" where
  "Seconds d =
     (let sec = d sdiv 1000000000; nsec = d smod 1000000000
      in fadd (rnd (of_int sec)) (fdiv (rnd (of_int nsec)) (Fin 1000000000)))"

text \<open>\<open>time.Since\<close> reads the clock for each entry: \<open>now k\<close> is the time when the entry of \<open>k\<close> is visited.\<close>

definition vacuum :: "(string \<Rightarrow> int) \<Rightarrow> inmemorystore \<Rightarrow> inmemorystore" where
  "vacuum now ims =
     ims\<lparr>cachedData := foldl (\<lambda>m (k, v). if flt (Seconds (storeTTL ims)) (Seconds (now k - entryTimestamp v)) then mdel k m else m)
       (cachedData ims) (cachedData ims)\<rparr>"

section \<open>The cache contract\<close>

definition storeLookup :: "inmemorystore \<Rightarrow> string \<Rightarrow> jsonentry option" where
  "storeLookup ims k = mget (cachedData ims) k"

definition storePut :: "string \<Rightarrow> jsonentry \<Rightarrow> inmemorystore \<Rightarrow> inmemorystore" where
  "storePut k e ims = snd (StoreSet (entryTimestamp e) k (entryValue e) ims)"

lemma foldl_mdel:
  "mget (foldl (\<lambda>m (k, v). if P k v then mdel k m else m) acc xs) j =
     (if \<exists>v. (j, v) \<in> set xs \<and> P j v then None else mget acc j)"
  by (induction xs arbitrary: acc) (auto split: if_splits)

lemma storeLookup_vacuum:
  "storeLookup (vacuum now ims) k =
     (if \<exists>e. (k, e) \<in> set (cachedData ims) \<and> flt (Seconds (storeTTL ims)) (Seconds (now k - entryTimestamp e)) then None
      else storeLookup ims k)"
  unfolding storeLookup_def vacuum_def by (simp add: foldl_mdel)

interpretation store: swept_cache_contract storeLookup storePut "NewInMemoryStore ttl" vacuum
  by unfold_locales (simp_all add: storeLookup_def storePut_def StoreSet_def NewInMemoryStore_def storeLookup_vacuum[unfolded storeLookup_def])

section \<open>Age of the entries\<close>

lemma rnd_int: "0 \<le> k \<Longrightarrow> k < 2 ^ 53 \<Longrightarrow> rnd (of_int k) = Fin (of_int k)"
  using rnd_nat[of "nat k"] by (simp add: nat_less_iff)

lemma Seconds_nonneg:
  assumes "0 \<le> d" "d < 2 ^ 63"
  shows "\<exists>q. Seconds d = rnd (of_int (d div 1000000000) + q) \<and> 0 \<le> q \<and> q \<le> 1 \<and>
    rnd (of_int (d mod 1000000000) / 1000000000) = Fin q"
proof -
  let ?s = "d div 1000000000" and ?n = "d mod 1000000000"
  have sec: "d sdiv 1000000000 = ?s" and nsec: "d smod 1000000000 = ?n"
    using assms(1) by (simp_all add: signed_divide_int_def signed_modulo_int_def sgn_if minus_div_mult_eq_mod)
  have conv: "rnd (of_int ?s) = Fin (of_int ?s)" "rnd (of_int ?n) = Fin (of_int ?n)"
    using assms by (auto intro!: rnd_int simp: pos_imp_zdiv_nonneg_iff)
  have "(of_int ?n :: rat) < of_int 1000000000" by (simp only: of_int_less_iff)
  then have "(of_int ?n :: rat) / 1000000000 \<le> 1" by simp
  then have "fle (rnd (of_int ?n / 1000000000)) (Fin 1)" using rnd_mono[of _ 1] by simp
  moreover have "fle (Fin 0) (rnd (of_int ?n / 1000000000))" by (rule rnd_ge_0) simp
  ultimately obtain q where q: "rnd (of_int ?n / 1000000000) = Fin q" "0 \<le> q" "q \<le> 1"
    by (cases "rnd (of_int ?n / 1000000000)") auto
  then show ?thesis by (intro exI[of _ q]) (simp add: Seconds_def sec nsec conv)
qed

lemma Seconds_mono:
  assumes "0 \<le> a" "a \<le> b" "b < 2 ^ 63" shows "fle (Seconds a) (Seconds b)"
proof -
  obtain p where p: "Seconds a = rnd (of_int (a div 1000000000) + p)" "p \<le> 1" "rnd (of_int (a mod 1000000000) / 1000000000) = Fin p"
    using Seconds_nonneg[of a] assms by auto
  obtain q where q: "Seconds b = rnd (of_int (b div 1000000000) + q)" "0 \<le> q" "rnd (of_int (b mod 1000000000) / 1000000000) = Fin q"
    using Seconds_nonneg[of b] assms by auto
  have "(of_int (a div 1000000000) :: rat) + p \<le> of_int (b div 1000000000) + q"
  proof (cases "a div 1000000000 = b div 1000000000")
    case True
    then have "a mod 1000000000 \<le> b mod 1000000000" using assms(2) by (metis add_le_cancel_left mult_div_mod_eq)
    then have "fle (Fin p) (Fin q)" unfolding p(3)[symmetric] q(3)[symmetric] by (intro rnd_mono divide_right_mono) simp_all
    then show ?thesis using True by simp
  next
    case False
    then have "a div 1000000000 + 1 \<le> b div 1000000000" using zdiv_mono1[OF assms(2), of 1000000000] by simp
    then have "(of_int (a div 1000000000 + 1) :: rat) \<le> of_int (b div 1000000000)" by (simp only: of_int_le_iff)
    then show ?thesis using p(2) q(2) by simp
  qed
  then show ?thesis unfolding p(1) q(1) by (rule rnd_mono)
qed

text \<open>Two seconds more are seen in spite of the rounding.\<close>

lemma Seconds_strict:
  assumes "0 \<le> a" "a + 2000000000 \<le> b" "b < 2 ^ 63" shows "flt (Seconds a) (Seconds b)"
proof -
  let ?s = "a div 1000000000"
  obtain p where p: "Seconds a = rnd (of_int ?s + p)" "p \<le> 1" using Seconds_nonneg[of a] assms by auto
  obtain q where q: "Seconds b = rnd (of_int (b div 1000000000) + q)" "0 \<le> q" using Seconds_nonneg[of b] assms by auto
  have "?s + 2 \<le> b div 1000000000" using zdiv_mono1[OF assms(2), of 1000000000] by simp
  then have "(of_int (?s + 2) :: rat) \<le> of_int (b div 1000000000)" by (simp only: of_int_le_iff)
  then have hi: "fle (rnd (of_int (?s + 2))) (Seconds b)" unfolding q(1) using q(2) by (intro rnd_mono) simp
  have lo: "fle (Seconds a) (rnd (of_int (?s + 1)))" unfolding p(1) using p(2) by (intro rnd_mono) simp
  have "0 \<le> ?s" "?s + 2 < 2 ^ 53" using assms by auto
  then have ends: "rnd (of_int (?s + 1)) = Fin (of_int (?s + 1))" "rnd (of_int (?s + 2)) = Fin (of_int (?s + 2))"
    by (auto intro!: rnd_int simp del: of_int_add)
  show ?thesis using lo hi unfolding ends by (cases "Seconds a"; cases "Seconds b") (auto simp: flt_def)
qed

text \<open>
  C37: Vacuuming the store keeps every entry that is not older than the time to live, with its value and
  its timestamp, removes every entry that is older by two seconds or more, and adds none. In between the
  comparison of the two ages as floating-point seconds decides.
\<close>

theorem vacuum_by_age:
  assumes "wfmap (cachedData ims)" "mget (cachedData ims) k = Some e" "entryTimestamp e \<le> now k"
    and "now k - entryTimestamp e < 2 ^ 63" "0 \<le> storeTTL ims" "storeTTL ims < 2 ^ 63"
  shows "(now k - entryTimestamp e \<le> storeTTL ims \<longrightarrow> mget (cachedData (vacuum now ims)) k = Some e) \<and>
    (storeTTL ims + 2000000000 \<le> now k - entryTimestamp e \<longrightarrow> mget (cachedData (vacuum now ims)) k = None) \<and>
    (\<forall>j d. mget (cachedData (vacuum now ims)) j = Some d \<longrightarrow> mget (cachedData ims) j = Some d)"
proof -
  have only: "(k, e') \<in> set (cachedData ims) \<longleftrightarrow> e' = e" for e'
    using assms(1,2) mget_of_set mget_SomeD by (metis option.inject)
  have young: "\<not> flt (Seconds (storeTTL ims)) (Seconds (now k - entryTimestamp e))" if "now k - entryTimestamp e \<le> storeTTL ims"
  proof -
    have "fle (Seconds (now k - entryTimestamp e)) (Seconds (storeTTL ims))" using assms that by (intro Seconds_mono) auto
    then show ?thesis by (cases "Seconds (storeTTL ims)"; cases "Seconds (now k - entryTimestamp e)") (auto simp: flt_def)
  qed
  have old: "flt (Seconds (storeTTL ims)) (Seconds (now k - entryTimestamp e))" if "storeTTL ims + 2000000000 \<le> now k - entryTimestamp e"
    using assms that by (intro Seconds_strict) auto
  have l: "mget (cachedData s) j = storeLookup s j" for s j by (simp add: storeLookup_def)
  show ?thesis
    unfolding l using young old only assms(2) store.lookup_sweep[of now ims] by (auto simp: storeLookup_vacuum) (auto simp: storeLookup_def)
qed

definition exampleStore :: inmemorystore where
  "exampleStore = snd (StoreSet 500 ''k'' (VString ''v'') (NewInMemoryStore 600000000000))"

theorem vacuum_by_age_witness:
  "mget (cachedData (vacuum (\<lambda>_. 600000000500) exampleStore)) ''k'' = Some \<lparr>entryTimestamp = 500, entryValue = VString ''v''\<rparr> \<and>
   mget (cachedData (vacuum (\<lambda>_. 602000000500) exampleStore)) ''k'' = None"
  using vacuum_by_age[of exampleStore "''k''" "\<lparr>entryTimestamp = 500, entryValue = VString ''v''\<rparr>" "\<lambda>_. 600000000500"]
    vacuum_by_age[of exampleStore "''k''" "\<lparr>entryTimestamp = 500, entryValue = VString ''v''\<rparr>" "\<lambda>_. 602000000500"]
  by (simp add: exampleStore_def StoreSet_def NewInMemoryStore_def wfmap_def)

text \<open>
  What was set is read back into a destination of its type, with the second in which it was set. Into
  a destination of another concrete type it is not read, and other keys are not affected.
\<close>

lemma StoreGet_StoreSet:
  assumes "v \<noteq> VNil"
  shows "StoreGet nf k (PointerTo (goType v)) (snd (StoreSet ts k v ims)) = Ok (fst (StoreSet ts k v ims), v) \<and>
    (dst \<noteq> goType v \<and> dst \<noteq> ''interface {}'' \<longrightarrow> \<not> is_ok (StoreGet nf k (PointerTo dst) (snd (StoreSet ts k v ims)))) \<and>
    (j \<noteq> k \<longrightarrow> StoreGet nf j dest (snd (StoreSet ts k v ims)) = StoreGet nf j dest ims)"
  using assms by (auto simp: StoreGet_def StoreSet_def assignable_def split: destination.split)

theorem StoreGet_StoreSet_witness:
  "StoreGet (errorsNew ''key not found'') ''k'' (PointerTo ''string'') exampleStore = Ok (0, VString ''v'') \<and>
   \<not> is_ok (StoreGet (errorsNew ''key not found'') ''k'' (PointerTo ''float64'') exampleStore)"
  using StoreGet_StoreSet[of "VString ''v''" "errorsNew ''key not found''" "''k''" 500 "NewInMemoryStore 600000000000" "''float64''" "''k''" NilPointer]
  unfolding exampleStore_def by (simp add: StoreSet_def unixSeconds_def)

text \<open>A stored nil makes a later read panic.\<close>

lemma StoreGet_nil_panics: "is_panic (StoreGet nf k (PointerTo dst) (snd (StoreSet ts k VNil ims)))"
  by (simp add: StoreGet_def StoreSet_def)

end
