(* ===== verification/Agent_Sink.thy ===== *)
theory Agent_Sink
  imports Kubelet_Client Storer
begin

text \<open>
  \<open>src/integration\<close>: the wrapper of the SDK, which waits for the agent to be ready and sends the published
  data to it, with the prober and the HTTP sink. The network and the file system are a parameter.
\<close>

section \<open>Clients\<close>

text \<open>\<open>http.DefaultClient\<close>, or a client with its own certificate, key and authority.\<close>

datatype sinkclient = DefaultClient | TLSClient string string string

text \<open>
  The calls: \<open>http.NewRequest\<close> and \<open>Client.Do\<close> with a deadline for the request, a POST through \<open>pester\<close>,
  \<open>tls.LoadX509KeyPair\<close>, \<open>os.ReadFile\<close> and \<open>AppendCertsFromPEM\<close>.
\<close>

record 'w sinkworld =
  swRequestErr :: "string \<Rightarrow> err option"
  swGet :: "sinkclient \<Rightarrow> int \<Rightarrow> string \<Rightarrow> (int, 'w) io"
  swPost :: "sinkclient \<Rightarrow> int \<Rightarrow> int \<Rightarrow> string \<Rightarrow> string \<Rightarrow> (int, 'w) io"
  swKeyPair :: "string \<Rightarrow> string \<Rightarrow> (string \<times> string, 'w) io"
  swReadFile :: "string \<Rightarrow> (string, 'w) io"
  swAppendCerts :: "string \<Rightarrow> bool"

definition ErrCAAppend :: err where "ErrCAAppend = errorsNew ''appending certs to pool''"

definition NewTLSClient :: "'w sinkworld \<Rightarrow> tlsconfig \<Rightarrow> (sinkclient, 'w) io" where
  "NewTLSClient sw conf =
     ioBind (\<lambda>e. Errorf ''loading client certificates: %w'' [] [e]) (swKeyPair sw (CertPath conf) (KeyPath conf)) (\<lambda>(cert, key).
     ioBind (\<lambda>e. Errorf ''loading CA certificate: %w'' [] [e]) (swReadFile sw (CAPath conf)) (\<lambda>caCert.
       if \<not> swAppendCerts sw caCert then ioFail (Errorf ''%w from %q'' [CAPath conf] [ErrCAAppend])
       else ioReturn (TLSClient cert key caCert)))"

section \<open>Prober\<close>

record prober =
  pbTimeout :: int
  pbBackoff :: int
  pbClient :: sinkclient

definition NewProber :: "int \<Rightarrow> int \<Rightarrow> (prober \<Rightarrow> err + prober) list \<Rightarrow> err + prober" where
  "NewProber timeout backoff options =
     foldl (\<lambda>p opt. case p of Inl e \<Rightarrow> Inl e
        | Inr p \<Rightarrow> (case opt p of Inl e \<Rightarrow> Inl (Errorf ''configuring prober: %w'' [] [e]) | Inr q \<Rightarrow> Inr q))
       (Inr \<lparr>pbTimeout = timeout, pbBackoff = backoff, pbClient = DefaultClient\<rparr>) options"

definition WithClient :: "sinkclient \<Rightarrow> prober \<Rightarrow> err + prober" where
  "WithClient c p = Inr (p\<lparr>pbClient := c\<rparr>)"

definition ErrProbeTimeout :: err where "ErrProbeTimeout = errorsNew ''probe timed out''"
definition errProbeNotOk :: err where "errProbeNotOk = errorsNew ''probe did not return 200 Ok''"

text \<open>The deadline of a request is a third of the timeout.\<close>

definition attempt :: "'w sinkworld \<Rightarrow> prober \<Rightarrow> string \<Rightarrow> (unit, 'w) io" where
  "attempt sw p url =
     (case swRequestErr sw url of
        Some e \<Rightarrow> ioFail (Errorf ''building GET %q: %w'' [url] [e])
      | None \<Rightarrow>
          ioBind (\<lambda>e. Errorf ''probe attempt to infra agent (%s) failed: %w'' [url] [e]) (swGet sw (pbClient p) (pbTimeout p sdiv 3) url) (\<lambda>status.
            if status \<noteq> 200 then ioFail (Errorf ''%w: %d'' [Itoa status] [errProbeNotOk]) else ioReturn ()))"

definition probeRound :: "'w clock \<Rightarrow> prober \<Rightarrow> (unit, 'w) io \<Rightarrow> int \<Rightarrow> 'w \<Rightarrow> (err option \<times> 'w) + 'w" where
  "probeRound clk p att start w =
     (if Now clk w - start > pbTimeout p then Inl (Some (Err ''%w after %s'' [EVal (dur (pbTimeout p))] [ErrProbeTimeout]), w)
      else case att w of
        (Inl e, w') \<Rightarrow> Inr (Sleep clk (pbBackoff p) w')
      | (Inr _, w') \<Rightarrow> Inl (None, w'))"

definition Probe :: "'w clock \<Rightarrow> 'w sinkworld \<Rightarrow> prober \<Rightarrow> string \<Rightarrow> 'w \<Rightarrow> (err option \<times> 'w) option" where
  "Probe clk sw p url w = untilDone (probeRound clk p (attempt sw p url) (Now clk w)) w"

section \<open>Sink\<close>

record agentsink =
  asURL :: string
  asClient :: sinkclient
  asRetries :: int
  asTimeout :: int

definition NewSink :: "string \<Rightarrow> (sinkclient \<times> int \<times> int) option \<Rightarrow> err + agentsink" where
  "NewSink url client =
     (case client of
        None \<Rightarrow> Inl (errorsNew ''client cannot be nil'')
      | Some (c, retries, timeout) \<Rightarrow>
          if url = [] then Inl (errorsNew ''url cannot be empty'')
          else Inr \<lparr>asURL = url, asClient = c, asRetries = retries, asTimeout = timeout\<rparr>)"

definition SinkWrite :: "'w sinkworld \<Rightarrow> agentsink \<Rightarrow> string \<Rightarrow> 'w \<Rightarrow> (int \<times> err option) \<times> 'w" where
  "SinkWrite sw h p w =
     (case swRequestErr sw (asURL h) of
        Some e \<Rightarrow> ((0, Some (Errorf ''preparing request: %w'' [] [e])), w)
      | None \<Rightarrow>
          (case swPost sw (asClient h) (asRetries h) (asTimeout h) (asURL h) p w of
             (Inl e, w') \<Rightarrow> ((0, Some (Errorf ''performing HTTP request: %w'' [] [e])), w')
           | (Inr code, w') \<Rightarrow>
               if code \<noteq> 204 then ((0, Some (Errorf ''unexpected status code: %d, expected: %d'' [Itoa code, ''204''] [])), w')
               else ((int (length p), None), w')))"

section \<open>Wrapper\<close>

text \<open>The writer of the wrapper is standard output until an option sets a sink.\<close>

record wrapper =
  wrName :: string
  wrVersion :: string
  wrSink :: "agentsink option"

definition agentReadyPath :: string where "agentReadyPath = ''/v1/data/ready''"
definition DefaultAgentForwarderhost :: string where "DefaultAgentForwarderhost = ''localhost''"
definition DefaultAgentForwarderPath :: string where "DefaultAgentForwarderPath = ''/v1/data''"

definition WithMetadata :: "string \<Rightarrow> string \<Rightarrow> wrapper \<Rightarrow> wrapper" where
  "WithMetadata name version iw = iw\<lparr>wrName := name, wrVersion := version\<rparr>"

definition readyURL :: "httpsink \<Rightarrow> string" where
  "readyURL sc =
     (if TLSEnabled (SinkTLS sc) then ''https'' else ''http'') @ ''://'' @
     JoinHostPort DefaultAgentForwarderhost (Itoa (SinkPort sc)) @ agentReadyPath"

definition dataURL :: "httpsink \<Rightarrow> string" where
  "dataURL sc = ''http://'' @ JoinHostPort DefaultAgentForwarderhost (Itoa (SinkPort sc)) @ DefaultAgentForwarderPath"

definition sinkClient :: "'w sinkworld \<Rightarrow> httpsink \<Rightarrow> (sinkclient, 'w) io" where
  "sinkClient sw sc =
     (if TLSEnabled (SinkTLS sc)
      then ioBind (\<lambda>e. Errorf ''creating TLS client: %w'' [] [e]) (NewTLSClient sw (SinkTLS sc)) ioReturn
      else ioReturn DefaultClient)"

definition WithHTTPSink :: "'w clock \<Rightarrow> 'w sinkworld \<Rightarrow> httpsink \<Rightarrow> wrapper \<Rightarrow> 'w \<Rightarrow> ((err + wrapper) \<times> 'w) option" where
  "WithHTTPSink clk sw sc iw w =
     (case sinkClient sw sc w of
        (Inl e, w') \<Rightarrow> Some (Inl e, w')
      | (Inr client, w') \<Rightarrow>
          (case NewProber (ProbeTimeout sc) (ProbeBackoff sc) [WithClient client] of
             Inl e \<Rightarrow> Some (Inl (Errorf ''building prober: %w'' [] [e]), w')
           | Inr p \<Rightarrow>
               (case Probe clk sw p (readyURL sc) w' of
                  None \<Rightarrow> None
                | Some (Some e, w2) \<Rightarrow> Some (Inl (Errorf ''timeout waiting for agent: %w'' [] [e]), w2)
                | Some (None, w2) \<Rightarrow>
                    (case NewSink (dataURL sc) (Some (client, SinkRetries sc, SinkTimeout sc)) of
                       Inl e \<Rightarrow> Some (Inl (Errorf ''creating HTTP Sink: %w'' [] [e]), w2)
                     | Inr h \<Rightarrow> Some (Inr (iw\<lparr>wrSink := Some h\<rparr>), w2)))))"

fun applyOptions :: "(wrapper \<Rightarrow> 'w \<Rightarrow> ((err + wrapper) \<times> 'w) option) list \<Rightarrow> wrapper \<Rightarrow> 'w \<Rightarrow> ((err + wrapper) \<times> 'w) option" where
  "applyOptions [] iw w = Some (Inr iw, w)"
| "applyOptions (opt # opts) iw w =
     (case opt iw w of
        None \<Rightarrow> None
      | Some (Inl e, w') \<Rightarrow> Some (Inl (Errorf ''applying option: %w'' [] [e]), w')
      | Some (Inr iw', w') \<Rightarrow> applyOptions opts iw' w')"

definition NewWrapper :: "(wrapper \<Rightarrow> 'w \<Rightarrow> ((err + wrapper) \<times> 'w) option) list \<Rightarrow> 'w \<Rightarrow> ((err + wrapper) \<times> 'w) option" where
  "NewWrapper opts w = applyOptions opts \<lparr>wrName = [], wrVersion = [], wrSink = None\<rparr> w"

definition DefaultTTL :: int where "DefaultTTL = 10 * 60 * second"

text \<open>\<open>sdkNew\<close> is the constructor of the SDK, given the name, the version, the writer and the store.\<close>

definition WrapperIntegration :: "(string \<Rightarrow> string \<Rightarrow> agentsink option \<Rightarrow> inmemorystore \<Rightarrow> err + 'i) \<Rightarrow> wrapper \<Rightarrow> err + 'i" where
  "WrapperIntegration sdkNew iw = sdkNew (wrName iw) (wrVersion iw) (wrSink iw) (NewInMemoryStore DefaultTTL)"

section \<open>Waiting for the agent\<close>

lemma attempt_Inr:
  "attempt sw p url w = (Inr (), w') \<longleftrightarrow> swRequestErr sw url = None \<and> swGet sw (pbClient p) (pbTimeout p sdiv 3) url w = (Inr 200, w')"
  by (auto simp: attempt_def ioBind_Inr split: option.split if_splits)

lemma forward_attempt:
  "(\<And>c d u. forward clk (swGet sw c d u)) \<Longrightarrow> forward clk (attempt sw p url)"
  unfolding attempt_def by (auto intro!: forward_intros split: option.split)

text \<open>
  The prober returns whenever its back-off is positive, the clock advances while it sleeps and no
  request takes negative time. It returns without an error exactly on a response with status 200, to a
  request whose deadline is a third of the timeout, and the timeout error only when the timeout has passed.
\<close>

lemma Probe_returns:
  assumes "ticks clk" "\<And>c d u. forward clk (swGet sw c d u)" "0 < pbBackoff p"
  shows "\<exists>r w'. Probe clk sw p url w = Some (r, w') \<and>
    (case r of
       None \<Rightarrow> \<exists>w1. Now clk w1 \<le> Now clk w + pbTimeout p \<and> swGet sw (pbClient p) (pbTimeout p sdiv 3) url w1 = (Inr 200, w')
     | Some e \<Rightarrow> errorsIs e ErrProbeTimeout \<and> Now clk w + pbTimeout p < Now clk w')"
proof -
  let ?round = "probeRound clk p (attempt sw p url) (Now clk w)"
  have "\<exists>r. untilDone ?round w = Some r"
  proof (rule untilDone_deadline[of _ clk "Now clk w + pbTimeout p + 1"])
    fix w1 w2 assume "?round w1 = Inr w2"
    then obtain e w3 where *: "\<not> Now clk w1 - Now clk w > pbTimeout p" "attempt sw p url w1 = (Inl e, w3)" "w2 = Sleep clk (pbBackoff p) w3"
      by (auto simp: probeRound_def split: if_splits prod.splits sum.splits)
    then show "Now clk w1 < Now clk w + pbTimeout p + 1 \<and> Now clk w1 < Now clk w2"
      using ticksD[OF assms(1), of "pbBackoff p" w3] forwardD[OF forward_attempt *(2)] assms(2,3) by force
  qed
  then obtain r w' where ret: "untilDone ?round w = Some (r, w')" by auto
  from untilDone_last[OF ret] obtain w1 where "?round w1 = Inl (r, w')" ..
  then have "case r of None \<Rightarrow> \<exists>w1. Now clk w1 \<le> Now clk w + pbTimeout p \<and> swGet sw (pbClient p) (pbTimeout p sdiv 3) url w1 = (Inr 200, w')
      | Some e \<Rightarrow> errorsIs e ErrProbeTimeout \<and> Now clk w + pbTimeout p < Now clk w'"
    using attempt_Inr[of sw p url w1 w']
    by (auto simp: probeRound_def ErrProbeTimeout_def split: if_splits prod.splits sum.splits intro!: exI[of _ w1])
  then show ?thesis using ret by (auto simp: Probe_def)
qed

definition exampleSinkWorld :: "int sinkworld" where
  "exampleSinkWorld =
     \<lparr>swRequestErr = (\<lambda>_. None), swGet = (\<lambda>c d u t. (if t < 10 then Inl (errorsNew ''connection refused'') else Inr 200, t + 1)),
      swPost = (\<lambda>_ _ _ _ _ t. (Inr 204, t + 1)), swKeyPair = (\<lambda>c k t. (Inr (c, k), t)), swReadFile = (\<lambda>f t. (Inr f, t)), swAppendCerts = (\<lambda>_. True)\<rparr>"

theorem Probe_returns_witness:
  "\<exists>r w'. Probe bareClock exampleSinkWorld \<lparr>pbTimeout = 90, pbBackoff = 5, pbClient = DefaultClient\<rparr> ''http://localhost:8001/v1/data/ready'' 0 = Some (r, w')"
  using Probe_returns[OF ticks_bareClock, of exampleSinkWorld "\<lparr>pbTimeout = 90, pbBackoff = 5, pbClient = DefaultClient\<rparr>"
      "''http://localhost:8001/v1/data/ready''" 0]
  by (auto simp: forward_def exampleSinkWorld_def bareClock_def)

section \<open>Where the data goes\<close>

text \<open>
  With TLS enabled for the sink, the agent is probed over TLS, but the data is posted to an address
  with the scheme \<open>http\<close>, without encryption.
\<close>

lemma sink_ignores_tls:
  assumes "WithHTTPSink clk sw sc iw w = Some (Inr iw', w')" "TLSEnabled (SinkTLS sc)"
  shows "prefix ''https://'' (readyURL sc) \<and> (\<exists>h. wrSink iw' = Some h \<and> prefix ''http://'' (asURL h))"
  using assms
  by (auto simp: WithHTTPSink_def NewSink_def dataURL_def readyURL_def split: prod.splits sum.splits option.splits if_splits)

definition exampleSink :: httpsink where
  "exampleSink = \<lparr>SinkPort = 8001, SinkTimeout = 3, SinkRetries = 3,
     SinkTLS = \<lparr>TLSEnabled = True, CertPath = ''c'', KeyPath = ''k'', CAPath = ''a''\<rparr>, ProbeTimeout = 90, ProbeBackoff = 5\<rparr>"

theorem sink_ignores_tls_witness:
  "\<exists>iw' h. WithHTTPSink bareClock exampleSinkWorld exampleSink \<lparr>wrName = [], wrVersion = [], wrSink = None\<rparr> 20 = Some (Inr iw', 21) \<and>
     wrSink iw' = Some h \<and> prefix ''http://'' (asURL h)"
proof -
  let ?p = "\<lparr>pbTimeout = 90, pbBackoff = 5, pbClient = TLSClient ''c'' ''k'' ''a''\<rparr>"
  let ?h = "\<lparr>asURL = dataURL exampleSink, asClient = TLSClient ''c'' ''k'' ''a'', asRetries = 3, asTimeout = 3\<rparr>"
  have "probeRound bareClock ?p (attempt exampleSinkWorld ?p (readyURL exampleSink)) 20 20 = Inl (None, 21)"
    by (simp add: probeRound_def bareClock_def attempt_def exampleSinkWorld_def ioBind_def ioReturn_def)
  then have probe: "Probe bareClock exampleSinkWorld ?p (readyURL exampleSink) 20 = Some (None, 21)"
    by (simp add: Probe_def untilDone_simps bareClock_def)
  have client: "sinkClient exampleSinkWorld exampleSink 20 = (Inr (TLSClient ''c'' ''k'' ''a''), 20)"
    by (simp add: sinkClient_def exampleSink_def NewTLSClient_def exampleSinkWorld_def ioBind_def ioReturn_def)
  have "NewProber (ProbeTimeout exampleSink) (ProbeBackoff exampleSink) [WithClient (TLSClient ''c'' ''k'' ''a'')] = Inr ?p"
    by (simp add: NewProber_def WithClient_def exampleSink_def)
  moreover have "NewSink (dataURL exampleSink) (Some (TLSClient ''c'' ''k'' ''a'', SinkRetries exampleSink, SinkTimeout exampleSink)) = Inr ?h"
    by (simp add: NewSink_def dataURL_def exampleSink_def)
  ultimately have run: "WithHTTPSink bareClock exampleSinkWorld exampleSink \<lparr>wrName = [], wrVersion = [], wrSink = None\<rparr> 20
      = Some (Inr \<lparr>wrName = [], wrVersion = [], wrSink = Some ?h\<rparr>, 21)"
    by (simp add: WithHTTPSink_def client probe)
  have "TLSEnabled (SinkTLS exampleSink)" by (simp add: exampleSink_def)
  from sink_ignores_tls[OF run this] show ?thesis using run by auto
qed

text \<open>A write succeeds, with all bytes, exactly on the status 204.\<close>

lemma SinkWrite_ok:
  "SinkWrite sw h p w = ((n, None), w') \<longleftrightarrow>
     n = int (length p) \<and> swRequestErr sw (asURL h) = None \<and>
     swPost sw (asClient h) (asRetries h) (asTimeout h) (asURL h) p w = (Inr 204, w')"
  by (auto simp: SinkWrite_def split: option.splits prod.splits sum.splits if_splits)

end
