(* ===== verification/Cloud.thy ===== *)
theory Cloud
  imports Retry Network_Route
begin

text \<open>
  \<open>internal/cloud\<close>: the identifier of the cluster from the provider identifier of the node, for Azure, AWS
  and Google. The Kubernetes API, the EC2 API and the metadata server are parameters. The regular
  expressions of the code alternate literals with segments; they are kept as such a list and matched from
  left to right, and \<open>matchSegs_iff\<close> shows that this is what the expressions mean.
\<close>

section \<open>Provider identifiers\<close>

text \<open>The class \<open>[a-zA-Z0-9._\-()]\<close>, a literal or a group of one or more of its characters.\<close>

definition segChar :: "char \<Rightarrow> bool" where
  "segChar c = (isLower c \<or> isUpper c \<or> isDigit c \<or> c \<in> set ''._-()'')"

datatype piece = Lit string | Seg

text \<open>\<open>FindStringSubmatch\<close> of an anchored expression: the groups of the match.\<close>

fun matchSegs :: "piece list \<Rightarrow> string \<Rightarrow> string list option" where
  "matchSegs [] s = (if s = [] then Some [] else None)"
| "matchSegs (Lit l # ps) s = (if HasPrefix s l then matchSegs ps (drop (length l) s) else None)"
| "matchSegs (Seg # ps) s =
     (let seg = takeWhile segChar s in
      if seg = [] then None else map_option (\<lambda>ms. seg # ms) (matchSegs ps (dropWhile segChar s)))"

definition azurePattern :: "piece list" where
  "azurePattern =
     [Lit ''azure:///subscriptions/'', Seg, Lit ''/resourceGroups/'', Seg, Lit ''/providers/'', Seg,
      Lit ''/virtualMachineScaleSets/'', Seg, Lit ''/virtualMachines/'', Seg]"

definition awsPattern :: "piece list" where
  "awsPattern = [Lit ''aws:///'', Seg, Lit ''/'', Seg]"

definition gcePattern :: "piece list" where
  "gcePattern = [Lit ''gce://'', Seg, Lit ''/'', Seg, Lit ''/'', Seg]"

section \<open>AKS\<close>

definition parseAzureProviderID :: "string \<Rightarrow> string \<times> string" where
  "parseAzureProviderID providerID =
     (case matchSegs azurePattern providerID of None \<Rightarrow> ([], []) | Some matches \<Rightarrow> (matches ! 0, matches ! 1))"

definition nodeGroupComponentCount :: nat where "nodeGroupComponentCount = 4"

definition parseAKSNodeResourceGroup :: "string \<Rightarrow> string \<times> string" where
  "parseAKSNodeResourceGroup nodeRG =
     (if \<not> HasPrefix (ToLower nodeRG) ''mc_'' then ([], [])
      else let parts = splitOn (CHR ''_'') nodeRG in
        if length parts \<noteq> nodeGroupComponentCount then ([], []) else (parts ! 1, parts ! 2))"

definition errUnsupportedAKSResourceID :: err where
  "errUnsupportedAKSResourceID = errorsNew ''cannot assemble AKS resource id from providerID (custom node resource groups and names with underscores are unsupported)''"

definition aksID :: "string \<Rightarrow> string \<Rightarrow> string \<Rightarrow> string" where
  "aksID sub rg cluster =
     ''/subscriptions/'' @ sub @ ''/resourceGroups/'' @ rg @ ''/providers/Microsoft.ContainerService/managedClusters/'' @ cluster"

definition aksDetect :: "string \<Rightarrow> err + string" where
  "aksDetect providerID =
     (case parseAzureProviderID providerID of
        (subscriptionID, nodeRG) \<Rightarrow>
          (case parseAKSNodeResourceGroup nodeRG of
             (resourceGroup, cluster) \<Rightarrow>
               if subscriptionID = [] \<or> resourceGroup = [] \<or> cluster = []
               then Inl (Errorf ''%w: %q'' [providerID] [errUnsupportedAKSResourceID])
               else Inr (aksID subscriptionID resourceGroup cluster)))"

section \<open>EKS\<close>

text \<open>The fields of the EC2 types that are read; a nil pointer is \<open>None\<close>, which \<open>aws.ToString\<close> makes empty.\<close>

record ec2tag =
  TagKey :: "string option"
  TagValue :: "string option"

record ec2instance =
  InstanceTags :: "ec2tag list"

record reservation =
  OwnerId :: "string option"
  Instances :: "ec2instance list"

definition awsToString :: "string option \<Rightarrow> string" where
  "awsToString p = (case p of None \<Rightarrow> [] | Some s \<Rightarrow> s)"

definition eksClusterNameTag :: string where "eksClusterNameTag = ''aws:eks:cluster-name''"

definition errIncompleteEKSMetadata :: err where "errIncompleteEKSMetadata = errorsNew ''incomplete EKS metadata''"
definition errMissingRegionInstance :: err where "errMissingRegionInstance = errorsNew ''missing region/instance-id from providerID''"
definition errClusterNameTagNotFound :: err where "errClusterNameTagNotFound = errorsNew ''cluster-name tag not found on instance''"

definition parseAWSProviderID :: "string \<Rightarrow> string \<times> string" where
  "parseAWSProviderID providerID =
     (case matchSegs awsPattern providerID of None \<Rightarrow> ([], []) | Some matches \<Rightarrow> (matches ! 0, matches ! 1))"

definition azToRegion :: "string \<Rightarrow> string" where
  "azToRegion az = (if az = [] then [] else if isLower (last az) then butlast az else az)"

definition awsPartition :: "string \<Rightarrow> string" where
  "awsPartition region =
     (if HasPrefix region ''us-gov-'' then ''aws-us-gov'' else if HasPrefix region ''cn-'' then ''aws-cn'' else ''aws'')"

text \<open>The three loops, innermost first: each returns what the first match found.\<close>

fun tagLoop :: "ec2tag list \<Rightarrow> string option" where
  "tagLoop [] = None"
| "tagLoop (tag # tags) = (if awsToString (TagKey tag) = eksClusterNameTag then Some (awsToString (TagValue tag)) else tagLoop tags)"

fun instanceLoop :: "ec2instance list \<Rightarrow> string option" where
  "instanceLoop [] = None"
| "instanceLoop (inst # insts) = (case tagLoop (InstanceTags inst) of Some name \<Rightarrow> Some name | None \<Rightarrow> instanceLoop insts)"

fun reservationLoop :: "reservation list \<Rightarrow> (string \<times> string) option" where
  "reservationLoop [] = None"
| "reservationLoop (r # rs) =
     (case instanceLoop (Instances r) of Some name \<Rightarrow> Some (name, awsToString (OwnerId r)) | None \<Rightarrow> reservationLoop rs)"

text \<open>
  What the detectors call: the node of a name with its provider identifier, the EC2 client of a region and its
  description of an instance, the construction of a request and its response, a status with the bytes of the
  body and the error that reading it ends with.
\<close>

record 'w cloudworld =
  clNode :: "string \<Rightarrow> (string, 'w) io"
  clNewEC2 :: "string \<Rightarrow> (unit, 'w) io"
  clDescribe :: "string \<Rightarrow> string \<Rightarrow> (reservation list, 'w) io"
  clRequestErr :: "string \<Rightarrow> err option"
  clGet :: "string \<Rightarrow> (int \<times> string \<times> err option, 'w) io"

definition identityFromAPI :: "'w cloudworld \<Rightarrow> string \<Rightarrow> string \<Rightarrow> (string \<times> string, 'w) io" where
  "identityFromAPI cl region instanceID =
     (if region = [] \<or> instanceID = [] then ioFail errMissingRegionInstance
      else
        ioBind (\<lambda>e. e) (clNewEC2 cl region) (\<lambda>_.
        ioBind (\<lambda>e. Errorf ''describing instance %s: %w'' [instanceID] [e]) (clDescribe cl region instanceID) (\<lambda>out.
          case reservationLoop out of
            Some ids \<Rightarrow> ioReturn ids
          | None \<Rightarrow> ioFail (Errorf ''%w: tag %s instance %s'' [eksClusterNameTag, instanceID] [errClusterNameTagNotFound]))))"

definition eksID :: "string \<Rightarrow> string \<Rightarrow> string \<Rightarrow> string" where
  "eksID region account cluster =
     ''arn:'' @ awsPartition region @ '':eks:'' @ region @ '':'' @ account @ '':cluster/'' @ cluster"

definition eksDetect :: "'w cloudworld \<Rightarrow> string \<Rightarrow> (string, 'w) io" where
  "eksDetect cl providerID =
     (case parseAWSProviderID providerID of
        (availabilityZone, instanceID) \<Rightarrow>
          let region = azToRegion availabilityZone in
          ioBind (\<lambda>e. Errorf ''EKS detection failed (API): %w'' [] [e]) (identityFromAPI cl region instanceID) (\<lambda>(clusterName, accountID).
            if region = [] \<or> accountID = [] \<or> clusterName = []
            then ioFail (Errorf ''%w: region=%q account=%q cluster=%q'' [region, accountID, clusterName] [errIncompleteEKSMetadata])
            else ioReturn (eksID region accountID clusterName)))"

section \<open>GKE\<close>

definition defaultGKEMetadataBaseURL :: string where
  "defaultGKEMetadataBaseURL = ''http://metadata.google.internal/computeMetadata/v1''"

definition errUnexpectedStatus :: err where "errUnexpectedStatus = errorsNew ''unexpected metadata response status''"
definition errIncompleteGKEMetadata :: err where "errIncompleteGKEMetadata = errorsNew ''incomplete GKE metadata''"
definition maxMetadataBodyBytes :: nat where "maxMetadataBodyBytes = 1 * 1024 * 1024"

text \<open>\<open>io.ReadAll\<close> of a limited reader: an error behind the limit is not reached.\<close>

definition readLimited :: "string \<times> err option \<Rightarrow> err + string" where
  "readLimited body =
     (case body of (bytes, e) \<Rightarrow>
        if maxMetadataBodyBytes \<le> length bytes then Inr (take maxMetadataBodyBytes bytes)
        else case e of Some er \<Rightarrow> Inl er | None \<Rightarrow> Inr bytes)"

definition doMetadataGet :: "'w cloudworld \<Rightarrow> string \<Rightarrow> (string, 'w) io" where
  "doMetadataGet cl url =
     ioBind (\<lambda>e. Errorf ''request failed: %w'' [] [e]) (clGet cl url) (\<lambda>(status, rest).
       case readLimited rest of
         Inl e \<Rightarrow> ioFail (Errorf ''reading response body: %w'' [] [e])
       | Inr body \<Rightarrow>
           if status \<noteq> 200 then ioFail (Errorf ''%w %d: %s'' [Itoa status, body] [errUnexpectedStatus]) else ioReturn body)"

definition metadata :: "'w cloudworld \<Rightarrow> string \<Rightarrow> (string, 'w) io" where
  "metadata cl path =
     (case clRequestErr cl (defaultGKEMetadataBaseURL @ path) of
        Some e \<Rightarrow> ioFail (Errorf ''building GKE metadata request: %w'' [] [e])
      | None \<Rightarrow> ioBind (\<lambda>e. e) (doMetadataGet cl (defaultGKEMetadataBaseURL @ path)) (\<lambda>body. ioReturn (TrimSpace body)))"

definition parseGCEProviderID :: "string \<Rightarrow> string \<times> string \<times> string" where
  "parseGCEProviderID providerID =
     (case matchSegs gcePattern providerID of None \<Rightarrow> ([], [], []) | Some matches \<Rightarrow> (matches ! 0, matches ! 1, matches ! 2))"

definition gkeID :: "string \<Rightarrow> string \<Rightarrow> string \<Rightarrow> string" where
  "gkeID project location cluster = ''/projects/'' @ project @ ''/locations/'' @ location @ ''/clusters/'' @ cluster"

definition gkeProject :: "'w cloudworld \<Rightarrow> string \<Rightarrow> (string, 'w) io" where
  "gkeProject cl providerID =
     (case parseGCEProviderID providerID of
        (projectID, _, _) \<Rightarrow>
          if projectID = [] then ioBind (\<lambda>e. Errorf ''querying GKE project-id: %w'' [] [e]) (metadata cl ''/project/project-id'') ioReturn
          else ioReturn projectID)"

definition gkeDetect :: "'w cloudworld \<Rightarrow> string \<Rightarrow> (string, 'w) io" where
  "gkeDetect cl providerID =
     ioBind (\<lambda>e. Errorf ''querying GKE cluster-name: %w'' [] [e]) (metadata cl ''/instance/attributes/cluster-name'') (\<lambda>name.
     ioBind (\<lambda>e. Errorf ''querying GKE cluster-location: %w'' [] [e]) (metadata cl ''/instance/attributes/cluster-location'') (\<lambda>location.
     ioBind (\<lambda>e. e) (gkeProject cl providerID) (\<lambda>projectID.
       if projectID = [] \<or> location = [] \<or> name = []
       then ioFail (Errorf ''%w: project=%q location=%q cluster=%q'' [projectID, location, name] [errIncompleteGKEMetadata])
       else ioReturn (gkeID projectID location name))))"

section \<open>Detector\<close>

datatype provider = ProviderGKE | ProviderEKS | ProviderAKS | ProviderUnknown

definition errUnrecognizedProviderID :: err where "errUnrecognizedProviderID = errorsNew ''unrecognized providerID''"

definition DetectClusterID :: "'w cloudworld \<Rightarrow> string \<Rightarrow> 'w \<Rightarrow> (err + string) \<times> provider \<times> 'w" where
  "DetectClusterID cl nodeName w =
     (case clNode cl nodeName w of
        (Inl e, w') \<Rightarrow> (Inl (Errorf ''getting node %q: %w'' [nodeName] [e]), ProviderUnknown, w')
      | (Inr providerID, w') \<Rightarrow>
          if HasPrefix providerID ''gce://'' then (case gkeDetect cl providerID w' of (r, w2) \<Rightarrow> (r, ProviderGKE, w2))
          else if HasPrefix providerID ''aws://'' then (case eksDetect cl providerID w' of (r, w2) \<Rightarrow> (r, ProviderEKS, w2))
          else if HasPrefix providerID ''azure://'' then (aksDetect providerID, ProviderAKS, w')
          else (Inl (Errorf ''%w: %q'' [providerID] [errUnrecognizedProviderID]), ProviderUnknown, w'))"

section \<open>What a match means\<close>

text \<open>The text of a pattern with given segments, and the patterns whose segments cannot run into what follows.\<close>

fun render :: "piece list \<Rightarrow> string list \<Rightarrow> string option" where
  "render [] [] = Some []"
| "render (Lit l # ps) ms = map_option (\<lambda>s. l @ s) (render ps ms)"
| "render (Seg # ps) (m # ms) = map_option (\<lambda>s. m @ s) (render ps ms)"
| "render _ _ = None"

definition segment :: "string \<Rightarrow> bool" where
  "segment m \<longleftrightarrow> m \<noteq> [] \<and> list_all segChar m"

fun delimited :: "piece list \<Rightarrow> bool" where
  "delimited [] = True"
| "delimited (Lit l # ps) = delimited ps"
| "delimited [Seg] = True"
| "delimited (Seg # Lit (c # l) # ps) = (\<not> segChar c \<and> delimited (Lit (c # l) # ps))"
| "delimited (Seg # _) = False"

lemma matchSegs_sound: "matchSegs ps s = Some ms \<Longrightarrow> render ps ms = Some s \<and> list_all segment ms"
proof (induction ps s arbitrary: ms rule: matchSegs.induct)
  case (2 l ps s)
  then show ?case by (auto simp: HasPrefix_def prefix_def split: if_splits)
next
  case (3 ps s)
  let ?seg = "takeWhile segChar s"
  from 3(2) obtain ms' where "?seg \<noteq> []" "ms = ?seg # ms'" "matchSegs ps (dropWhile segChar s) = Some ms'"
    by (auto simp: Let_def split: if_splits)
  moreover have "list_all segChar ?seg" by (auto simp: list_all_iff dest: set_takeWhileD)
  ultimately show ?case using 3(1)[OF refl] by (auto simp: segment_def)
qed (auto split: if_splits)

lemma takeWhile_segment:
  "list_all segChar m \<Longrightarrow> (s = [] \<or> \<not> segChar (hd s)) \<Longrightarrow> takeWhile segChar (m @ s) = m \<and> dropWhile segChar (m @ s) = s"
  by (induction m) (cases s; auto)+

lemma delimited_Seg: "delimited (Seg # ps) \<Longrightarrow> delimited ps"
  by (induction "Seg # ps" rule: delimited.induct) auto

lemma delimited_rest: "delimited (Seg # ps) \<Longrightarrow> render ps ms = Some t \<Longrightarrow> t = [] \<or> \<not> segChar (hd t)"
  by (cases "Seg # ps" rule: delimited.cases; cases ms) auto

lemma matchSegs_complete: "delimited ps \<Longrightarrow> list_all segment ms \<Longrightarrow> render ps ms = Some s \<Longrightarrow> matchSegs ps s = Some ms"
proof (induction ps ms arbitrary: s rule: render.induct)
  case (2 l ps ms)
  then show ?case by (auto simp: HasPrefix_def)
next
  case (3 ps m ms)
  from 3(4) obtain t where t: "render ps ms = Some t" "s = m @ t" by auto
  have m: "m \<noteq> []" "list_all segChar m" "list_all segment ms" using 3(3) segment_def[of m] by simp_all
  have "takeWhile segChar s = m" "dropWhile segChar s = t"
    using takeWhile_segment[OF m(2) delimited_rest[OF 3(2) t(1)]] t(2) by simp_all
  then show ?case using 3(1)[OF delimited_Seg[OF 3(2)] m(3) t(1)] m(1) by simp
qed auto

lemma matchSegs_iff: "delimited ps \<Longrightarrow> matchSegs ps s = Some ms \<longleftrightarrow> render ps ms = Some s \<and> list_all segment ms"
  using matchSegs_sound matchSegs_complete by blast

lemma delimited_patterns [simp]: "delimited azurePattern" "delimited awsPattern" "delimited gcePattern"
  by (simp_all add: azurePattern_def awsPattern_def gcePattern_def segChar_def isLower_def isUpper_def isDigit_def)

lemma azure_match:
  "matchSegs azurePattern p = Some ms \<longleftrightarrow> (\<exists>sub rg prov vmss vm. ms = [sub, rg, prov, vmss, vm] \<and> list_all segment ms \<and>
     p = ''azure:///subscriptions/'' @ sub @ ''/resourceGroups/'' @ rg @ ''/providers/'' @ prov @ ''/virtualMachineScaleSets/'' @ vmss @
       ''/virtualMachines/'' @ vm)"
proof -
  have "render azurePattern ms = Some p \<longleftrightarrow> (\<exists>sub rg prov vmss vm. ms = [sub, rg, prov, vmss, vm] \<and>
     p = ''azure:///subscriptions/'' @ sub @ ''/resourceGroups/'' @ rg @ ''/providers/'' @ prov @ ''/virtualMachineScaleSets/'' @ vmss @
       ''/virtualMachines/'' @ vm)"
    unfolding azurePattern_def
    by (cases ms; cases "tl ms"; cases "tl (tl ms)"; cases "tl (tl (tl ms))"; cases "tl (tl (tl (tl ms)))"; cases "tl (tl (tl (tl (tl ms))))") auto
  then show ?thesis by (auto simp: matchSegs_iff)
qed

lemma aws_match:
  "matchSegs awsPattern p = Some ms \<longleftrightarrow> (\<exists>az inst. ms = [az, inst] \<and> list_all segment ms \<and> p = ''aws:///'' @ az @ ''/'' @ inst)"
proof -
  have "render awsPattern ms = Some p \<longleftrightarrow> (\<exists>az inst. ms = [az, inst] \<and> p = ''aws:///'' @ az @ ''/'' @ inst)"
    unfolding awsPattern_def by (cases ms; cases "tl ms"; cases "tl (tl ms)") auto
  then show ?thesis by (auto simp: matchSegs_iff)
qed

section \<open>AKS\<close>

lemma lowChar_underscore: "lowChar c = CHR ''_'' \<longleftrightarrow> c = CHR ''_''"
  by (cases c) (auto simp: lowChar_def isUpper_def char_of_def)

text \<open>A node resource group that is understood has four parts, the first of which is \<open>mc\<close> in any case.\<close>

definition unscored :: "string \<Rightarrow> bool" where
  "unscored s \<longleftrightarrow> CHR ''_'' \<notin> set s"

lemma mc_prefix:
  assumes "unscored mc"
  shows "HasPrefix (ToLower (mc @ CHR ''_'' # s)) ''mc_'' \<longleftrightarrow> ToLower mc = ''mc''"
proof -
  have "CHR ''_'' \<notin> set (ToLower mc)" using assms lowChar_underscore by (force simp: ToLower_def unscored_def)
  moreover have "lowChar (CHR ''_'') = CHR ''_''" by (simp add: lowChar_def isUpper_def)
  ultimately show ?thesis
    by (cases "ToLower mc"; cases "tl (ToLower mc)"; cases "tl (tl (ToLower mc))") (auto simp: HasPrefix_def ToLower_def)
qed

lemma parts_join:
  "splitOn (CHR ''_'') g = [mc, rg, cl, region] \<longleftrightarrow>
     unscored mc \<and> unscored rg \<and> unscored cl \<and> unscored region \<and> g = mc @ ''_'' @ rg @ ''_'' @ cl @ ''_'' @ region"
proof
  assume a: "splitOn (CHR ''_'') g = [mc, rg, cl, region]"
  then have "g = joinWith ''_'' [mc, rg, cl, region]" by (metis joinWith_splitOn)
  moreover have "unscored x" if "x \<in> {mc, rg, cl, region}" for x
    using splitOn_elems[of x "CHR ''_''" g] a that by (auto simp: unscored_def)
  ultimately show "unscored mc \<and> unscored rg \<and> unscored cl \<and> unscored region \<and> g = mc @ ''_'' @ rg @ ''_'' @ cl @ ''_'' @ region" by simp
next
  assume "unscored mc \<and> unscored rg \<and> unscored cl \<and> unscored region \<and> g = mc @ ''_'' @ rg @ ''_'' @ cl @ ''_'' @ region"
  then show "splitOn (CHR ''_'') g = [mc, rg, cl, region]" by (simp add: unscored_def splitOn_append_first splitOn_no_sep)
qed

lemma parseAKS_iff:
  assumes "rg \<noteq> []" "cl \<noteq> []"
  shows "parseAKSNodeResourceGroup g = (rg, cl) \<longleftrightarrow>
    (\<exists>mc region. ToLower mc = ''mc'' \<and> unscored rg \<and> unscored cl \<and> unscored region \<and> g = mc @ ''_'' @ rg @ ''_'' @ cl @ ''_'' @ region)"
proof
  assume a: "parseAKSNodeResourceGroup g = (rg, cl)"
  then have p: "HasPrefix (ToLower g) ''mc_''" "length (splitOn (CHR ''_'') g) = 4"
      "splitOn (CHR ''_'') g ! 1 = rg" "splitOn (CHR ''_'') g ! 2 = cl"
    using assms by (auto simp: parseAKSNodeResourceGroup_def Let_def nodeGroupComponentCount_def split: if_splits)
  then have "splitOn (CHR ''_'') g = [splitOn (CHR ''_'') g ! 0, rg, cl, splitOn (CHR ''_'') g ! 3]"
    by (intro nth_equalityI) (auto simp: less_Suc_eq numeral_eq_Suc)
  then obtain mc region where j: "unscored mc" "unscored rg" "unscored cl" "unscored region" "g = mc @ ''_'' @ rg @ ''_'' @ cl @ ''_'' @ region"
    using parts_join by blast
  then have "ToLower mc = ''mc''" using p(1) mc_prefix[OF j(1)] by simp
  then show "\<exists>mc region. ToLower mc = ''mc'' \<and> unscored rg \<and> unscored cl \<and> unscored region \<and> g = mc @ ''_'' @ rg @ ''_'' @ cl @ ''_'' @ region"
    using j by blast
next
  assume "\<exists>mc region. ToLower mc = ''mc'' \<and> unscored rg \<and> unscored cl \<and> unscored region \<and> g = mc @ ''_'' @ rg @ ''_'' @ cl @ ''_'' @ region"
  then obtain mc region where j: "ToLower mc = ''mc''" "unscored rg" "unscored cl" "unscored region" "g = mc @ ''_'' @ rg @ ''_'' @ cl @ ''_'' @ region" by blast
  have "unscored mc"
  proof (rule ccontr)
    assume "\<not> unscored mc"
    then have "lowChar (CHR ''_'') \<in> set (ToLower mc)" by (simp add: ToLower_def unscored_def)
    then show False using j(1) by (simp add: lowChar_def isUpper_def)
  qed
  then show "parseAKSNodeResourceGroup g = (rg, cl)"
    using mc_prefix[of mc] j parts_join[of g mc rg cl region] by (simp add: parseAKSNodeResourceGroup_def Let_def nodeGroupComponentCount_def)
qed

text \<open>
  C38: A cluster on Azure is identified exactly when the node is a virtual machine of a scale set in a managed
  resource group \<open>MC_\<close>\<open>group\<close>\<open>_\<close>\<open>cluster\<close>\<open>_\<close>\<open>region\<close>, in either case, whose group and cluster have no
  underscore, and the identifier is then the one of that group and that cluster in the node's subscription.
\<close>

theorem aksDetect_iff:
  "aksDetect p = Inr rid \<longleftrightarrow>
    (\<exists>sub mc rg cluster region prov vmss vm.
       ToLower mc = ''mc'' \<and> rg \<noteq> [] \<and> cluster \<noteq> [] \<and> unscored rg \<and> unscored cluster \<and> unscored region \<and>
       list_all segment [sub, mc @ ''_'' @ rg @ ''_'' @ cluster @ ''_'' @ region, prov, vmss, vm] \<and>
       p = ''azure:///subscriptions/'' @ sub @ ''/resourceGroups/'' @ (mc @ ''_'' @ rg @ ''_'' @ cluster @ ''_'' @ region) @
         ''/providers/'' @ prov @ ''/virtualMachineScaleSets/'' @ vmss @ ''/virtualMachines/'' @ vm \<and>
       rid = ''/subscriptions/'' @ sub @ ''/resourceGroups/'' @ rg @ ''/providers/Microsoft.ContainerService/managedClusters/'' @ cluster)"
  (is "_ \<longleftrightarrow> ?R")
proof
  assume a: "aksDetect p = Inr rid"
  then obtain sub g rg cluster where d: "parseAzureProviderID p = (sub, g)" "parseAKSNodeResourceGroup g = (rg, cluster)"
      "sub \<noteq> []" "rg \<noteq> []" "cluster \<noteq> []" "rid = aksID sub rg cluster"
    by (auto simp: aksDetect_def split: prod.splits if_splits)
  then obtain prov vmss vm where m: "list_all segment [sub, g, prov, vmss, vm]"
      "p = ''azure:///subscriptions/'' @ sub @ ''/resourceGroups/'' @ g @ ''/providers/'' @ prov @ ''/virtualMachineScaleSets/'' @ vmss @ ''/virtualMachines/'' @ vm"
    by (cases "matchSegs azurePattern p") (auto simp: parseAzureProviderID_def azure_match)
  moreover obtain mc region where "ToLower mc = ''mc''" "unscored rg" "unscored cluster" "unscored region" "g = mc @ ''_'' @ rg @ ''_'' @ cluster @ ''_'' @ region"
    using d parseAKS_iff by blast
  ultimately show ?R using d(4-6) unfolding aksID_def by blast
next
  assume ?R
  then obtain sub mc rg cluster region prov vmss vm where r: "ToLower mc = ''mc''" "rg \<noteq> []" "cluster \<noteq> []" "unscored rg" "unscored cluster" "unscored region"
      "list_all segment [sub, mc @ ''_'' @ rg @ ''_'' @ cluster @ ''_'' @ region, prov, vmss, vm]"
      "p = ''azure:///subscriptions/'' @ sub @ ''/resourceGroups/'' @ (mc @ ''_'' @ rg @ ''_'' @ cluster @ ''_'' @ region) @
         ''/providers/'' @ prov @ ''/virtualMachineScaleSets/'' @ vmss @ ''/virtualMachines/'' @ vm" "rid = aksID sub rg cluster"
    unfolding aksID_def by blast
  then have "matchSegs azurePattern p = Some [sub, mc @ ''_'' @ rg @ ''_'' @ cluster @ ''_'' @ region, prov, vmss, vm]"
    unfolding azure_match by blast
  moreover have "parseAKSNodeResourceGroup (mc @ ''_'' @ rg @ ''_'' @ cluster @ ''_'' @ region) = (rg, cluster)"
    using parseAKS_iff[OF r(2,3)] r(1,4-6) by blast
  moreover have "sub \<noteq> []" using r(7) by (simp add: segment_def)
  ultimately show "aksDetect p = Inr rid" using r(2,3,9) by (simp add: aksDetect_def parseAzureProviderID_def)
qed

section \<open>All providers\<close>

lemma tagLoop_Some: "tagLoop ts = Some n \<Longrightarrow> \<exists>t\<in>set ts. TagKey t = Some eksClusterNameTag \<and> awsToString (TagValue t) = n"
  by (induction ts) (auto simp: awsToString_def eksClusterNameTag_def split: if_splits option.splits)

lemma instanceLoop_Some: "instanceLoop is = Some n \<Longrightarrow> \<exists>i\<in>set is. tagLoop (InstanceTags i) = Some n"
  by (induction "is") (auto split: option.splits)

lemma reservationLoop_Some:
  "reservationLoop rs = Some (n, a) \<Longrightarrow> \<exists>r\<in>set rs. instanceLoop (Instances r) = Some n \<and> awsToString (OwnerId r) = a"
  by (induction rs) (auto split: option.splits)

lemma awsToString_nonempty: "awsToString x = s \<Longrightarrow> s \<noteq> [] \<Longrightarrow> x = Some s"
  by (cases x) (auto simp: awsToString_def)

definition ownedCluster :: "reservation list \<Rightarrow> string \<Rightarrow> string \<Rightarrow> bool" where
  "ownedCluster out cluster account \<longleftrightarrow>
     (\<exists>r\<in>set out. OwnerId r = Some account \<and>
       (\<exists>i\<in>set (Instances r). \<exists>t\<in>set (InstanceTags i). TagKey t = Some ''aws:eks:cluster-name'' \<and> TagValue t = Some cluster))"

lemma reservationLoop_owned:
  assumes "reservationLoop out = Some (cluster, account)" "cluster \<noteq> []" "account \<noteq> []"
  shows "ownedCluster out cluster account"
proof -
  obtain r where r: "r \<in> set out" "instanceLoop (Instances r) = Some cluster" "awsToString (OwnerId r) = account"
    using reservationLoop_Some[OF assms(1)] by blast
  obtain i where i: "i \<in> set (Instances r)" "tagLoop (InstanceTags i) = Some cluster" using instanceLoop_Some[OF r(2)] by blast
  obtain t where "t \<in> set (InstanceTags i)" "TagKey t = Some eksClusterNameTag" "awsToString (TagValue t) = cluster"
    using tagLoop_Some[OF i(2)] by blast
  then show ?thesis
    using r i(1) assms(2,3) awsToString_nonempty unfolding ownedCluster_def eksClusterNameTag_def by blast
qed

lemma eksDetect_Inr:
  assumes "eksDetect cl p w = (Inr rid, w')"
  shows "\<exists>az inst account cluster w1 w2 out.
    p = ''aws:///'' @ az @ ''/'' @ inst \<and> azToRegion az \<noteq> [] \<and> account \<noteq> [] \<and> cluster \<noteq> [] \<and>
    clDescribe cl (azToRegion az) inst w1 = (Inr out, w2) \<and> ownedCluster out cluster account \<and> rid = eksID (azToRegion az) account cluster"
proof -
  obtain az inst cluster account w1 where d: "parseAWSProviderID p = (az, inst)" "identityFromAPI cl (azToRegion az) inst w = (Inr (cluster, account), w1)"
      "azToRegion az \<noteq> []" "account \<noteq> []" "cluster \<noteq> []" "rid = eksID (azToRegion az) account cluster"
    using assms by (auto simp: eksDetect_def Let_def ioBind_Inr split: prod.splits if_splits)
  obtain w2 w3 out where "clDescribe cl (azToRegion az) inst w2 = (Inr out, w3)" "reservationLoop out = Some (cluster, account)"
    using d(2) by (auto simp: identityFromAPI_def ioBind_Inr split: if_splits option.splits)
  moreover have "p = ''aws:///'' @ az @ ''/'' @ inst"
    using d(1,3) by (cases "matchSegs awsPattern p") (auto simp: parseAWSProviderID_def aws_match azToRegion_def)
  ultimately show ?thesis using d(3-6) reservationLoop_owned by blast
qed

lemma gkeDetect_Inr:
  assumes "gkeDetect cl p w = (Inr rid, w')"
  shows "\<exists>project location cluster w1 w2.
    project \<noteq> [] \<and> location \<noteq> [] \<and> cluster \<noteq> [] \<and> rid = gkeID project location cluster \<and>
    metadata cl ''/instance/attributes/cluster-name'' w = (Inr cluster, w1) \<and>
    metadata cl ''/instance/attributes/cluster-location'' w1 = (Inr location, w2) \<and> gkeProject cl p w2 = (Inr project, w')"
  using assms by (auto simp: gkeDetect_def ioBind_Inr split: if_splits)

text \<open>
  C39: An identifier that is detected is made of the data of the node's own provider, none of it empty: on AWS
  of the region of the provider identifier and of a cluster tag and an owner that EC2 returned for that
  instance, on Google of the metadata server's answers and of the project in the provider identifier, on
  Azure of the provider identifier alone. There is none for any other provider.
\<close>

theorem DetectClusterID_assembled:
  assumes "DetectClusterID cl node w = (Inr rid, prov, w')"
  shows "\<exists>p w0. clNode cl node w = (Inr p, w0) \<and>
    (case prov of
       ProviderUnknown \<Rightarrow> False
     | ProviderAKS \<Rightarrow> HasPrefix p ''azure://'' \<and> aksDetect p = Inr rid \<and> w' = w0
     | ProviderEKS \<Rightarrow>
         \<exists>az inst account cluster w1 w2 out.
           p = ''aws:///'' @ az @ ''/'' @ inst \<and> azToRegion az \<noteq> [] \<and> account \<noteq> [] \<and> cluster \<noteq> [] \<and>
           clDescribe cl (azToRegion az) inst w1 = (Inr out, w2) \<and> ownedCluster out cluster account \<and> rid = eksID (azToRegion az) account cluster
     | ProviderGKE \<Rightarrow>
         HasPrefix p ''gce://'' \<and>
         (\<exists>project location cluster w1 w2.
           project \<noteq> [] \<and> location \<noteq> [] \<and> cluster \<noteq> [] \<and> rid = gkeID project location cluster \<and>
           metadata cl ''/instance/attributes/cluster-name'' w0 = (Inr cluster, w1) \<and>
           metadata cl ''/instance/attributes/cluster-location'' w1 = (Inr location, w2) \<and> gkeProject cl p w2 = (Inr project, w')))"
proof -
  obtain p w0 where n: "clNode cl node w = (Inr p, w0)"
    using assms by (auto simp: DetectClusterID_def split: prod.splits sum.splits)
  note run = assms[unfolded DetectClusterID_def n, simplified]
  show ?thesis
  proof (cases prov)
    case ProviderGKE
    then have "HasPrefix p ''gce://''" "gkeDetect cl p w0 = (Inr rid, w')"
      using run by (auto split: if_splits prod.splits)
    then show ?thesis using n ProviderGKE gkeDetect_Inr[of cl p w0 rid w'] by simp
  next
    case ProviderEKS
    then have "eksDetect cl p w0 = (Inr rid, w')" using run by (auto split: if_splits prod.splits)
    then show ?thesis using n ProviderEKS eksDetect_Inr[of cl p w0 rid w'] by simp
  next
    case ProviderAKS
    then show ?thesis using n run by (auto split: if_splits prod.splits)
  next
    case ProviderUnknown
    then show ?thesis using run by (auto split: if_splits prod.splits)
  qed
qed

text \<open>A node of a cluster in the partition of China.\<close>

definition exampleCloud :: "unit cloudworld" where
  "exampleCloud =
     \<lparr>clNode = (\<lambda>_ w. (Inr ''aws:///cn-north-1a/i-0abc'', w)), clNewEC2 = (\<lambda>_ w. (Inr (), w)),
      clDescribe = (\<lambda>_ _ w. (Inr [\<lparr>OwnerId = Some ''42'', Instances =
        [\<lparr>InstanceTags = [\<lparr>TagKey = None, TagValue = None\<rparr>, \<lparr>TagKey = Some ''aws:eks:cluster-name'', TagValue = Some ''prod''\<rparr>]\<rparr>]\<rparr>], w)),
      clRequestErr = (\<lambda>_. None), clGet = (\<lambda>_ w. (Inr (404, [], None), w))\<rparr>"

theorem DetectClusterID_assembled_witness:
  "DetectClusterID exampleCloud ''n1'' () = (Inr ''arn:aws-cn:eks:cn-north-1:42:cluster/prod'', ProviderEKS, ()) \<and>
   (\<exists>az inst account cluster out. clDescribe exampleCloud (azToRegion az) inst () = (Inr out, ()) \<and> ownedCluster out cluster account \<and>
     ''arn:aws-cn:eks:cn-north-1:42:cluster/prod'' = eksID (azToRegion az) account cluster)"
proof -
  have run: "DetectClusterID exampleCloud ''n1'' () = (Inr ''arn:aws-cn:eks:cn-north-1:42:cluster/prod'', ProviderEKS, ())"
    by code_simp
  from DetectClusterID_assembled[OF run] show ?thesis using run by fastforce
qed

end
