(* ===== verification/Startup.thy ===== *)
theory Startup
  imports Scrapers Agent_Sink Cloud
begin

text \<open>
  \<open>cmd/nri-kubernetes/main.go\<close>: the start of the integration, up to its loop. The agent is awaited, the
  clients are built, the identifier of the cluster is detected and the enabled scrapers are set up; a
  failure of any of them but the detection ends the process with a code. A start that never returns is
  \<open>None\<close>.
\<close>

section \<open>Outcomes\<close>

text \<open>The values of \<open>iota\<close>: two constants precede the blank one.\<close>

definition exitClients :: int where "exitClients = 3"
definition exitConfig :: int where "exitConfig = 4"
definition exitIntegration :: int where "exitIntegration = 5"
definition exitLoop :: int where "exitLoop = 6"
definition exitSetup :: int where "exitSetup = 7"

datatype 's outcome = Running 's | Exited int | Crashed string

type_synonym ('a, 'w) run = "'w \<Rightarrow> ((err + 'a) \<times> 'w) option"

text \<open>A call that always returns, the early return of a wrapped error, and the exit on an error.\<close>

definition once :: "('a, 'w) io \<Rightarrow> ('a, 'w) run" where
  "once m w = Some (m w)"

definition runBind :: "string \<Rightarrow> ('a, 'w) run \<Rightarrow> ('a \<Rightarrow> ('b, 'w) run) \<Rightarrow> ('b, 'w) run" where
  "runBind msg m f w =
     (case m w of None \<Rightarrow> None | Some (Inl e, w') \<Rightarrow> Some (Inl (Errorf msg [] [e]), w') | Some (Inr a, w') \<Rightarrow> f a w')"

definition orExit :: "int \<Rightarrow> ('a, 'w) run \<Rightarrow> ('a \<Rightarrow> 'w \<Rightarrow> ('b outcome \<times> 'w) option) \<Rightarrow> 'w \<Rightarrow> ('b outcome \<times> 'w) option" where
  "orExit code m f w =
     (case m w of None \<Rightarrow> None | Some (Inl e, w') \<Rightarrow> Some (Exited code, w') | Some (Inr a, w') \<Rightarrow> f a w')"

section \<open>Clients\<close>

text \<open>
  The calls of \<open>client-go\<close>: the configuration in the cluster and from a file, the home directory, the
  construction of a clientset, the version of the API server, the wait for the cache of an informer, named by
  what it lists, which is \<open>None\<close> when the cache never syncs; the constructor of the SDK; the opening of
  the route file.
\<close>

record ('w, 'i) mainworld =
  mwInCluster :: "(restconfig, 'w) io"
  mwHomeDir :: string
  mwLocalConfig :: "string \<Rightarrow> (restconfig, 'w) io"
  mwClientset :: "restconfig \<Rightarrow> err option"
  mwServerVersion :: "(string, 'w) io"
  mwCacheSync :: "string \<Rightarrow> 'w \<Rightarrow> 'w option"
  mwSdkNew :: "string \<Rightarrow> string \<Rightarrow> agentsink option \<Rightarrow> inmemorystore \<Rightarrow> err + 'i"
  mwOpenRoute :: "string \<Rightarrow> (err + string) option"

definition getK8sConfig :: "('w, 'i) mainworld \<Rightarrow> config \<Rightarrow> (restconfig, 'w) io" where
  "getK8sConfig mw c =
     orElse (mwInCluster mw) (\<lambda>_.
       let kubeconf = (if KubeconfigPath c = [] then pathJoin [mwHomeDir mw, ''.kube'', ''config''] else KubeconfigPath c) in
       ioBind (\<lambda>e. Errorf ''could not load local kube config: %w'' [] [e]) (mwLocalConfig mw kubeconf) ioReturn)"

record ksmclient =
  kmTimeout :: int
  kmRetries :: int

record clusterclients =
  ccConfig :: restconfig
  ccKsm :: "ksmclient option"
  ccKubelet :: "kubeletclient option"

definition kubeletClientFor :: "'w clock \<Rightarrow> 'w kubeletworld \<Rightarrow> config \<Rightarrow> restconfig \<Rightarrow> (kubeletclient, 'w) run" where
  "kubeletClientFor clk kw c rc w =
     (case Connect clk kw c rc w of
        None \<Rightarrow> None
      | Some r \<Rightarrow> Some (NewClient (Some (\<lambda>_. r)) (KubeletRetries (Kubelet c)) w))"

definition whenEnabled :: "bool \<Rightarrow> ('a, 'w) run \<Rightarrow> ('a option, 'w) run" where
  "whenEnabled enabled m w =
     (if enabled then (case m w of None \<Rightarrow> None | Some (r, w') \<Rightarrow> Some (map_sum (\<lambda>e. e) Some r, w')) else Some (Inr None, w))"

definition buildClients :: "'w clock \<Rightarrow> 'w kubeletworld \<Rightarrow> ('w, 'i) mainworld \<Rightarrow> config \<Rightarrow> (clusterclients, 'w) run" where
  "buildClients clk kw mw c =
     runBind ''retrieving k8s config: %w'' (once (getK8sConfig mw c)) (\<lambda>k8sConfig.
       case mwClientset mw k8sConfig of
         Some e \<Rightarrow> once (ioFail (Errorf ''building kubernetes client: %w'' [] [e]))
       | None \<Rightarrow>
           let ksmCli = (if KsmEnabled (KSM c) then Some \<lparr>kmTimeout = KsmTimeout (KSM c), kmRetries = KsmRetries (KSM c)\<rparr> else None) in
           runBind ''building Kubelet client: %w'' (whenEnabled (KubeletEnabled (Kubelet c)) (kubeletClientFor clk kw c k8sConfig)) (\<lambda>kubeletCli.
             once (ioReturn \<lparr>ccConfig = k8sConfig, ccKsm = ksmCli, ccKubelet = kubeletCli\<rparr>)))"

section \<open>Scrapers\<close>

text \<open>The filter of a scraper: none without a selector, else the cached one over the shared cache.\<close>

definition filtererFor ::
  "'sel selectors \<Rightarrow> ('sel \<Rightarrow> err + knamespace list) \<Rightarrow> config \<Rightarrow> (string \<Rightarrow> nsstore \<Rightarrow> bool \<times> nsstore) option" where
  "filtererFor lib lister c =
     (case NamespaceSelector c of
        None \<Rightarrow> None
      | Some sel \<Rightarrow> Some (CachedIsAllowed (IsAllowed lib \<lparr>nfC = Some sel, nfLister = lister\<rparr>)))"

text \<open>
  Each lister starts its informer and waits for its cache with \<open>WaitForCacheSync\<close>, whose stop channel nobody closes
  during the start. A cache that never syncs, because the API server refuses to list, blocks the start.
\<close>

primrec syncCaches :: "('w, 'i) mainworld \<Rightarrow> string list \<Rightarrow> 'w \<Rightarrow> 'w option" where
  "syncCaches mw [] w = Some w"
| "syncCaches mw (k # ks) w = (case mwCacheSync mw k w of None \<Rightarrow> None | Some w' \<Rightarrow> syncCaches mw ks w')"

definition syncThen :: "('w, 'i) mainworld \<Rightarrow> string list \<Rightarrow> ('w \<Rightarrow> 'r option) \<Rightarrow> 'w \<Rightarrow> 'r option" where
  "syncThen mw ks m w = (case syncCaches mw ks w of None \<Rightarrow> None | Some w' \<Rightarrow> m w')"

text \<open>The informers by what they list: of the filter, of the KSM, the kubelet and the control plane scraper.\<close>

definition filterCaches :: "config \<Rightarrow> string list" where
  "filterCaches c = (case NamespaceSelector c of None \<Rightarrow> [] | Some _ \<Rightarrow> [''namespaces''])"

definition sliceKind :: "discoveryconfig \<Rightarrow> string" where
  "sliceKind dc = ''endpointslices of '' @ dcSelector dc @ '' in '' @ dcNamespace dc"

definition ksmCaches :: "config \<Rightarrow> string list" where
  "ksmCaches c = [sliceKind (discoveryConfig (KSM c)), ''services'']"

definition kubeletCaches :: "string list" where
  "kubeletCaches = [''nodes'']"

definition controlPlaneCaches :: "config \<Rightarrow> string list" where
  "controlPlaneCaches c =
     map (\<lambda>ns. ''secrets in '' @ ns) (secretNamespaces (newComponents (ControlPlane c))) @
     map (\<lambda>ns. ''pods in '' @ ns) (autodiscoverNamespaces (newComponents (ControlPlane c)))"

definition startCaches :: "config \<Rightarrow> string list" where
  "startCaches c =
     (if KubeletEnabled (Kubelet c) then filterCaches c @ kubeletCaches else []) @
     (if KsmEnabled (KSM c) then filterCaches c @ ksmCaches c else []) @
     (if ControlPlaneEnabled (ControlPlane c) then controlPlaneCaches c else [])"

text \<open>With a client, the discoverer and the listers are built without an error; the version may fail.\<close>

record ksmscraper =
  kmClient :: "ksmclient option"
  kmVersion :: string
  kmCloudClusterID :: string
  kmFilterer :: "(string \<Rightarrow> nsstore \<Rightarrow> bool \<times> nsstore) option"

definition setupKSM ::
  "('w, 'i) mainworld \<Rightarrow> 'sel selectors \<Rightarrow> ('sel \<Rightarrow> err + knamespace list) \<Rightarrow> config \<Rightarrow> string \<Rightarrow> ksmclient option \<Rightarrow> (ksmscraper, 'w) run" where
  "setupKSM mw lib lister c cid client =
     syncThen mw (filterCaches c)
       (runBind ''building KSM scraper: %w''
         (runBind ''fetching K8s version: %w'' (once (mwServerVersion mw)) (\<lambda>v.
           syncThen mw (ksmCaches c)
             (once (ioReturn \<lparr>kmClient = client, kmVersion = v, kmCloudClusterID = cid, kmFilterer = filtererFor lib lister c\<rparr>))))
         (\<lambda>s. once (ioReturn s)))"

text \<open>The kubelet scraper reads the version, then lists the nodes, then looks for the default interface, which cannot fail it.\<close>

definition setupKubelet ::
  "('w, 'i) mainworld \<Rightarrow> 'sel selectors \<Rightarrow> ('sel \<Rightarrow> err + knamespace list) \<Rightarrow> config \<Rightarrow> string
     \<Rightarrow> (kubeletscraper \<times> (string \<Rightarrow> nsstore \<Rightarrow> bool \<times> nsstore) option, 'w) run" where
  "setupKubelet mw lib lister c cid =
     syncThen mw (filterCaches c)
       (runBind ''building kubelet scraper: %w''
         (\<lambda>w. case mwServerVersion mw w of
            (v, w') \<Rightarrow>
              (case NewKubeletScraper v (mwOpenRoute mw) c cid of
                 Inl e \<Rightarrow> Some (Inl e, w')
               | Inr s \<Rightarrow> syncThen mw kubeletCaches (once (ioReturn s)) w'))
         (\<lambda>s. once (ioReturn (s, filtererFor lib lister c))))"

record controlplanescraper =
  cpsScraper :: cpscraper
  cpsConfig :: restconfig
  cpsVersion :: string
  cpsCloudClusterID :: string

definition setupControlPlane :: "('w, 'i) mainworld \<Rightarrow> 'w cpworld \<Rightarrow> config \<Rightarrow> string \<Rightarrow> (controlplanescraper, 'w) run" where
  "setupControlPlane mw cw c cid w =
     (case getK8sConfig mw c w of
        (Inl e, w') \<Rightarrow> Some (Inl e, w')
      | (Inr restConfig, w') \<Rightarrow>
          runBind ''building control plane scraper: %w''
            (runBind ''fetching K8s version: %w'' (once (mwServerVersion mw)) (\<lambda>v.
              syncThen mw (controlPlaneCaches c)
                (once (ioReturn \<lparr>cpsScraper = NewCPScraper cw c, cpsConfig = restConfig, cpsVersion = v, cpsCloudClusterID = cid\<rparr>))))
            (\<lambda>s. once (ioReturn s)) w')"

definition detectCloudClusterID :: "'w cloudworld \<Rightarrow> config \<Rightarrow> 'w \<Rightarrow> string \<times> 'w" where
  "detectCloudClusterID cl c w =
     (if DisableCloudClusterIDDetection c then ([], w)
      else case DetectClusterID cl (CfgNodeName c) w of (Inl e, _, w') \<Rightarrow> ([], w') | (Inr rid, _, w') \<Rightarrow> (rid, w'))"

section \<open>Start\<close>

definition integrationName :: string where "integrationName = ''com.newrelic.kubernetes''"
definition integrationVersion :: string where "integrationVersion = ''0.0.0''"

record 'i started =
  stConfig :: config
  stIntegration :: 'i
  stClients :: clusterclients
  stClusterID :: string
  stKubelet :: "(kubeletscraper \<times> (string \<Rightarrow> nsstore \<Rightarrow> bool \<times> nsstore) option) option"
  stKsm :: "ksmscraper option"
  stControlPlane :: "controlplanescraper option"

text \<open>The wrapper: metadata, and the sink when it is HTTP.\<close>

definition wrapperOptions :: "'w clock \<Rightarrow> 'w sinkworld \<Rightarrow> config \<Rightarrow> (wrapper \<Rightarrow> (wrapper, 'w) run) list" where
  "wrapperOptions clk sw c =
     (\<lambda>iw. once (ioReturn (WithMetadata integrationName integrationVersion iw))) #
     (if SinkType c = SinkTypeHTTP then [WithHTTPSink clk sw (SinkHTTP c)] else [])"

definition setupScrapers ::
  "('w, 'i) mainworld \<Rightarrow> 'sel selectors \<Rightarrow> ('sel \<Rightarrow> err + knamespace list) \<Rightarrow> 'w cpworld \<Rightarrow> config \<Rightarrow> clusterclients \<Rightarrow> string \<Rightarrow> 'i
     \<Rightarrow> 'w \<Rightarrow> ('i started outcome \<times> 'w) option" where
  "setupScrapers mw lib lister cw c clients cid i =
     orExit exitSetup (whenEnabled (KubeletEnabled (Kubelet c)) (setupKubelet mw lib lister c cid)) (\<lambda>kubelet.
     orExit exitSetup (whenEnabled (KsmEnabled (KSM c)) (setupKSM mw lib lister c cid (ccKsm clients))) (\<lambda>ksm.
     orExit exitSetup (whenEnabled (ControlPlaneEnabled (ControlPlane c)) (setupControlPlane mw cw c cid)) (\<lambda>cp w.
       Some (Running \<lparr>stConfig = c, stIntegration = i, stClients = clients, stClusterID = cid, stKubelet = kubelet, stKsm = ksm, stControlPlane = cp\<rparr>, w))))"

definition startWith ::
  "'w clock \<Rightarrow> 'w sinkworld \<Rightarrow> 'w kubeletworld \<Rightarrow> 'w cloudworld \<Rightarrow> 'w cpworld \<Rightarrow> ('w, 'i) mainworld \<Rightarrow> 'sel selectors \<Rightarrow> ('sel \<Rightarrow> err + knamespace list)
     \<Rightarrow> config \<Rightarrow> 'w \<Rightarrow> ('i started outcome \<times> 'w) option" where
  "startWith clk sw kw cl cw mw lib lister c =
     (if SinkType c \<noteq> SinkTypeHTTP \<and> SinkType c \<noteq> SinkTypeStdout then (\<lambda>w. Some (Exited exitConfig, w))
      else
        orExit exitIntegration (NewWrapper (wrapperOptions clk sw c)) (\<lambda>iw.
        orExit exitIntegration (\<lambda>w. Some (WrapperIntegration (mwSdkNew mw) iw, w)) (\<lambda>i.
        orExit exitClients (buildClients clk kw mw c) (\<lambda>clients w.
          case detectCloudClusterID cl c w of (cid, w') \<Rightarrow> setupScrapers mw lib lister cw c clients cid i w'))))"

definition startMain ::
  "'w clock \<Rightarrow> 'w sinkworld \<Rightarrow> 'w kubeletworld \<Rightarrow> 'w cloudworld \<Rightarrow> 'w cpworld \<Rightarrow> ('w, 'i) mainworld \<Rightarrow> 'sel selectors \<Rightarrow> ('sel \<Rightarrow> err + knamespace list)
     \<Rightarrow> config option \<times> err option \<Rightarrow> 'w \<Rightarrow> ('i started outcome \<times> 'w) option" where
  "startMain clk sw kw cl cw mw lib lister loaded w =
     (case loaded of
        (_, Some e) \<Rightarrow> Some (Exited exitIntegration, w)
      | (None, None) \<Rightarrow> Some (Crashed ''invalid memory address or nil pointer dereference'', w)
      | (Some c, None) \<Rightarrow> startWith clk sw kw cl cw mw lib lister c w)"

section \<open>The start returns\<close>

definition returns :: "('w \<Rightarrow> ('r \<times> 'w) option) \<Rightarrow> bool" where
  "returns m \<longleftrightarrow> (\<forall>w. \<exists>r w'. m w = Some (r, w'))"

lemma returns_once [intro]: "returns (once m)"
  by (auto simp: returns_def once_def intro: prod.exhaust)

lemma returns_runBind [intro]:
  assumes "returns m" "\<And>a. returns (f a)"
  shows "returns (runBind msg m f)"
  unfolding returns_def
proof
  fix w
  obtain r w' where "m w = Some (r, w')" using assms(1) unfolding returns_def by blast
  then show "\<exists>r w'. runBind msg m f w = Some (r, w')" using assms(2) by (cases r) (auto simp: runBind_def returns_def)
qed

lemma returns_orExit [intro]:
  assumes "returns m" "\<And>a. returns (f a)"
  shows "returns (orExit code m f)"
  unfolding returns_def
proof
  fix w
  obtain r w' where "m w = Some (r, w')" using assms(1) unfolding returns_def by blast
  then show "\<exists>r w'. orExit code m f w = Some (r, w')" using assms(2) by (cases r) (auto simp: orExit_def returns_def)
qed

lemma returns_whenEnabled [intro]: "(enabled \<Longrightarrow> returns m) \<Longrightarrow> returns (whenEnabled enabled m)"
  by (cases enabled) (force simp: returns_def whenEnabled_def split: option.split)+

lemma returns_NewWrapper:
  assumes "ticks clk" "\<And>c d u. forward clk (swGet sw c d u)" "SinkType c = SinkTypeHTTP \<Longrightarrow> 0 < ProbeBackoff (SinkHTTP c)"
  shows "returns (NewWrapper (wrapperOptions clk sw c))"
proof -
  have sink: "returns (WithHTTPSink clk sw (SinkHTTP c) iw)" if "SinkType c = SinkTypeHTTP" for iw
    unfolding returns_def
  proof
    fix w
    let ?p = "\<lambda>client. \<lparr>pbTimeout = ProbeTimeout (SinkHTTP c), pbBackoff = ProbeBackoff (SinkHTTP c), pbClient = client\<rparr>"
    have "\<exists>r w'. Probe clk sw (?p client) u w1 = Some (r, w')" for client u w1
      using Probe_returns[OF assms(1,2), of "?p client" u w1] assms(3)[OF that] by auto
    moreover have "NewProber (ProbeTimeout (SinkHTTP c)) (ProbeBackoff (SinkHTTP c)) [WithClient client] = Inr (?p client)" for client
      by (simp add: NewProber_def WithClient_def)
    ultimately show "\<exists>r w'. WithHTTPSink clk sw (SinkHTTP c) iw w = Some (r, w')"
      by (auto simp: WithHTTPSink_def split: prod.split sum.split option.split) (metis option.distinct(1))+
  qed
  show ?thesis
  proof (cases "SinkType c = SinkTypeHTTP")
    case True
    have "\<exists>r w'. applyOptions [WithHTTPSink clk sw (SinkHTTP c)] iw w = Some (r, w')" for iw w
      using sink[OF True, of iw, unfolded returns_def, rule_format, of w] by (auto split: sum.split)
    then show ?thesis using True by (simp add: returns_def NewWrapper_def wrapperOptions_def once_def ioReturn_def)
  next
    case False
    then show ?thesis by (simp add: returns_def NewWrapper_def wrapperOptions_def once_def ioReturn_def)
  qed
qed

lemma returns_kubeletClientFor:
  assumes "ticks clk" "forwardWorld clk kw" "InitTimeout (Kubelet c) = 0 \<or> 0 < InitBackoff (Kubelet c)"
  shows "returns (kubeletClientFor clk kw c rc)"
  unfolding returns_def
proof
  fix w
  obtain r w' where "Connect clk kw c rc w = Some (r, w')" using Connect_returns[OF assms] by blast
  then show "\<exists>r w'. kubeletClientFor clk kw c rc w = Some (r, w')" by (simp add: kubeletClientFor_def)
qed

lemma returns_buildClients:
  assumes "ticks clk" "forwardWorld clk kw" "KubeletEnabled (Kubelet c) \<Longrightarrow> InitTimeout (Kubelet c) = 0 \<or> 0 < InitBackoff (Kubelet c)"
  shows "returns (buildClients clk kw mw c)"
  unfolding buildClients_def Let_def
  by (intro returns_runBind returns_once)
    (auto split: option.split intro!: returns_whenEnabled returns_runBind returns_once returns_kubeletClientFor assms)

text \<open>The caches that sync; the start waits for nothing else in the listers.\<close>

definition cachesSync :: "('w, 'i) mainworld \<Rightarrow> string list \<Rightarrow> bool" where
  "cachesSync mw ks \<longleftrightarrow> (\<forall>k \<in> set ks. \<forall>w. mwCacheSync mw k w \<noteq> None)"

lemma cachesSync_simps [simp]:
  "cachesSync mw []"
  "cachesSync mw (k # ks) \<longleftrightarrow> (\<forall>w. \<exists>w'. mwCacheSync mw k w = Some w') \<and> cachesSync mw ks"
  "cachesSync mw (ks @ ls) \<longleftrightarrow> cachesSync mw ks \<and> cachesSync mw ls"
  by (auto simp: cachesSync_def)

lemma syncCaches_Some: "cachesSync mw ks \<Longrightarrow> \<exists>w'. syncCaches mw ks w = Some w'"
proof (induction ks arbitrary: w)
  case (Cons k ks)
  then obtain w1 where "mwCacheSync mw k w = Some w1" by fastforce
  then show ?case using Cons by simp
qed simp

lemma syncCaches_None: "k \<in> set ks \<Longrightarrow> (\<And>w. mwCacheSync mw k w = None) \<Longrightarrow> syncCaches mw ks w = None"
  by (induction ks arbitrary: w) (auto split: option.split)

lemma returns_syncThen:
  assumes "cachesSync mw ks" "returns m"
  shows "returns (syncThen mw ks m)"
  unfolding returns_def
proof
  fix w
  obtain w1 where "syncCaches mw ks w = Some w1" using syncCaches_Some[OF assms(1)] by blast
  then show "\<exists>r w'. syncThen mw ks m w = Some (r, w')" using assms(2) by (simp add: syncThen_def returns_def)
qed

lemma returns_setupKSM:
  assumes "cachesSync mw (filterCaches c @ ksmCaches c)"
  shows "returns (setupKSM mw lib lister c cid client)"
  using assms unfolding setupKSM_def by (intro returns_syncThen returns_runBind returns_once) simp_all

lemma returns_setupKubelet:
  assumes "cachesSync mw (filterCaches c @ kubeletCaches)"
  shows "returns (setupKubelet mw lib lister c cid)"
proof -
  have sync: "returns (syncThen mw kubeletCaches (once (ioReturn s)))" for s :: kubeletscraper
    using assms by (intro returns_syncThen returns_once) simp
  have "returns (\<lambda>w. case mwServerVersion mw w of (v, w') \<Rightarrow> (case NewKubeletScraper v (mwOpenRoute mw) c cid of
      Inl e \<Rightarrow> Some (Inl e, w') | Inr s \<Rightarrow> syncThen mw kubeletCaches (once (ioReturn s)) w'))"
    using sync by (auto simp: returns_def split: prod.split sum.split)
  then show ?thesis using assms unfolding setupKubelet_def by (intro returns_syncThen returns_runBind returns_once) simp_all
qed

lemma returns_setupControlPlane:
  assumes "cachesSync mw (controlPlaneCaches c)"
  shows "returns (setupControlPlane mw cw c cid)"
proof -
  have "returns (runBind ''building control plane scraper: %w''
      (runBind ''fetching K8s version: %w'' (once (mwServerVersion mw)) (\<lambda>v. syncThen mw (controlPlaneCaches c) (once (ioReturn (mk v)))))
      (\<lambda>s. once (ioReturn s)))" for mk :: "string \<Rightarrow> controlplanescraper"
    using assms by (intro returns_runBind returns_syncThen returns_once)
  then show ?thesis by (auto simp: returns_def setupControlPlane_def split: prod.split sum.split)
qed

lemma returns_setupScrapers:
  assumes "cachesSync mw (startCaches c)"
  shows "returns (setupScrapers mw lib lister cw c clients cid i)"
  using assms unfolding setupScrapers_def
  by (intro returns_orExit returns_whenEnabled returns_setupKSM returns_setupKubelet returns_setupControlPlane)
    (auto simp: startCaches_def returns_def split: if_splits)

lemma returns_startWith:
  assumes "ticks clk" "\<And>c d u. forward clk (swGet sw c d u)" "forwardWorld clk kw"
    and "SinkType c = SinkTypeHTTP \<Longrightarrow> 0 < ProbeBackoff (SinkHTTP c)"
    and "KubeletEnabled (Kubelet c) \<Longrightarrow> InitTimeout (Kubelet c) = 0 \<or> 0 < InitBackoff (Kubelet c)" "cachesSync mw (startCaches c)"
  shows "returns (startWith clk sw kw cl cw mw lib lister c)"
proof -
  have "returns (\<lambda>w. case detectCloudClusterID cl c w of (cid, w') \<Rightarrow> setupScrapers mw lib lister cw c clients cid i w')" for clients i
    using returns_setupScrapers[OF assms(6), of lib lister cw clients _ i] by (auto simp: returns_def split: prod.split)
  moreover have "returns (\<lambda>w. Some (WrapperIntegration (mwSdkNew mw) iw, w))" for iw by (simp add: returns_def)
  ultimately show ?thesis
    using returns_NewWrapper[OF assms(1,2,4)] returns_buildClients[OF assms(1,3,5)] unfolding startWith_def
    by (auto simp: returns_def[of "\<lambda>w. Some (Exited exitConfig, w)"] intro!: returns_orExit)
qed

lemma startMain_total:
  assumes "ticks clk" "\<And>c d u. forward clk (swGet sw c d u)" "forwardWorld clk kw"
    and "\<And>c. fst loaded = Some c \<Longrightarrow> SinkType c = SinkTypeHTTP \<Longrightarrow> 0 < ProbeBackoff (SinkHTTP c)"
    and "\<And>c. fst loaded = Some c \<Longrightarrow> KubeletEnabled (Kubelet c) \<Longrightarrow> InitTimeout (Kubelet c) = 0 \<or> 0 < InitBackoff (Kubelet c)"
    and "\<And>c. fst loaded = Some c \<Longrightarrow> cachesSync mw (startCaches c)"
  shows "\<exists>out w'. startMain clk sw kw cl cw mw lib lister loaded w = Some (out, w')"
proof (cases loaded)
  case (Pair c e)
  show ?thesis
  proof (cases "\<exists>c. loaded = (Some c, None)")
    case True
    then obtain c where c: "loaded = (Some c, None)" by blast
    have "returns (startWith clk sw kw cl cw mw lib lister c)" by (rule returns_startWith) (use assms c in auto)
    then show ?thesis using c by (simp add: startMain_def returns_def)
  qed (use Pair in \<open>auto simp: startMain_def split: option.split\<close>)
qed

text \<open>
  The start returns, whatever the agent, the kubelet and the cloud do, when the caches of its informers sync: with a
  positive back-off of the prober and of the connector, a clock that advances while the process sleeps and calls that take
  no negative time, it ends in the loop or in an exit.
\<close>

lemma startMain_returns:
  assumes "ticks clk" "\<And>c d u. forward clk (swGet sw c d u)" "forwardWorld clk kw"
    and "\<And>c. fst loaded = Some c \<Longrightarrow> SinkType c = SinkTypeHTTP \<Longrightarrow> 0 < ProbeBackoff (SinkHTTP c)"
    and "\<And>c. fst loaded = Some c \<Longrightarrow> KubeletEnabled (Kubelet c) \<Longrightarrow> InitTimeout (Kubelet c) = 0 \<or> 0 < InitBackoff (Kubelet c)"
    and "\<And>c. fst loaded = Some c \<Longrightarrow> cachesSync mw (startCaches c)"
  shows "\<exists>out w'. startMain clk sw kw cl cw mw lib lister loaded w = Some (out, w')"
  using assms by (rule startMain_total)

section \<open>What was started\<close>

lemma orExit_Some:
  "orExit code m f w = Some (out, w') \<longleftrightarrow>
     (\<exists>e. m w = Some (Inl e, w') \<and> out = Exited code) \<or> (\<exists>a w1. m w = Some (Inr a, w1) \<and> f a w1 = Some (out, w'))"
  by (auto simp: orExit_def split: option.splits sum.splits)

lemma runBind_Inr: "runBind msg m f w = Some (Inr b, w') \<longleftrightarrow> (\<exists>a w1. m w = Some (Inr a, w1) \<and> f a w1 = Some (Inr b, w'))"
  by (auto simp: runBind_def split: option.splits sum.splits)

lemma syncThen_Some: "syncThen mw ks m w = Some r \<longleftrightarrow> (\<exists>w'. syncCaches mw ks w = Some w' \<and> m w' = Some r)"
  by (simp add: syncThen_def split: option.split)

lemma whenEnabled_Inl: "whenEnabled enabled m w = Some (Inl e, w') \<longleftrightarrow> enabled \<and> m w = Some (Inl e, w')"
  by (auto simp: whenEnabled_def map_sum_def split: option.splits prod.splits sum.splits)

lemma whenEnabled_Inr:
  "whenEnabled enabled m w = Some (Inr x, w') \<longleftrightarrow>
     (if enabled then \<exists>a. x = Some a \<and> m w = Some (Inr a, w') else x = None \<and> w' = w)"
  by (auto simp: whenEnabled_def map_sum_def split: option.splits prod.splits sum.splits)

lemma Connect_probed: "Connect clk kw cfg rc w = Some (Inr conn, w') \<Longrightarrow> probed kw cfg conn"
  by (auto simp: Connect_def Let_def dest: retry_Inr tryConnect_Inr split: prod.splits sum.splits if_splits)

lemma buildClients_Inr:
  assumes "buildClients clk kw mw c w = Some (Inr clients, w')"
  shows "(ccKsm clients \<noteq> None \<longleftrightarrow> KsmEnabled (KSM c)) \<and>
    (if KubeletEnabled (Kubelet c)
     then \<exists>conn w1 w2. Connect clk kw c (ccConfig clients) w1 = Some (Inr conn, w2) \<and>
       ccKubelet clients = Some \<lparr>kcDoer = cpClient conn, kcRetries = KubeletRetries (Kubelet c), kcEndpoint = cpURL conn\<rparr>
     else ccKubelet clients = None)"
  using assms
  by (fastforce simp: buildClients_def Let_def runBind_Inr once_def whenEnabled_Inr kubeletClientFor_def NewClient_def ioBind_Inr
      split: option.splits if_splits)

lemma setupKubelet_Inr:
  assumes "setupKubelet mw lib lister c cid w = Some (Inr x, w')"
  shows "\<exists>s. x = (s, filtererFor lib lister c) \<and> ksCurrentReruns s = 0 \<and> ksMaxReruns s = ScraperMaxReruns (Kubelet c) \<and> ksCloudClusterID s = cid"
proof -
  let ?m = "\<lambda>w. case mwServerVersion mw w of (v, w') \<Rightarrow> (case NewKubeletScraper v (mwOpenRoute mw) c cid of
      Inl e \<Rightarrow> Some (Inl e, w') | Inr s \<Rightarrow> syncThen mw kubeletCaches (once (ioReturn s)) w')"
  obtain s w1 w2 where x: "x = (s, filtererFor lib lister c)" and m: "?m w1 = Some (Inr s, w2)"
    using assms unfolding setupKubelet_def syncThen_Some runBind_Inr by (auto simp: once_def ioReturn_def)
  obtain v w3 where v: "mwServerVersion mw w1 = (v, w3)" by fastforce
  with m have "NewKubeletScraper v (mwOpenRoute mw) c cid = Inr s"
    by (auto simp: syncThen_Some once_def ioReturn_def split: sum.splits)
  then show ?thesis using x by (auto simp: NewKubeletScraper_def split: sum.splits)
qed

lemma setupScrapers_Running:
  assumes "setupScrapers mw lib lister cw c clients cid i w = Some (Running st, w')"
  shows "stConfig st = c \<and> stIntegration st = i \<and> stClients st = clients \<and> stClusterID st = cid \<and>
    (if KubeletEnabled (Kubelet c)
     then \<exists>s. stKubelet st = Some (s, filtererFor lib lister c) \<and> ksCurrentReruns s = 0 \<and> ksMaxReruns s = ScraperMaxReruns (Kubelet c) \<and> ksCloudClusterID s = cid
     else stKubelet st = None) \<and>
    (if KsmEnabled (KSM c)
     then \<exists>s. stKsm st = Some s \<and> kmClient s = ccKsm clients \<and> kmFilterer s = filtererFor lib lister c \<and> kmCloudClusterID s = cid
     else stKsm st = None) \<and>
    (if ControlPlaneEnabled (ControlPlane c)
     then \<exists>s. stControlPlane st = Some s \<and> cpsScraper s = NewCPScraper cw c \<and> cpsCloudClusterID s = cid
     else stControlPlane st = None)"
proof -
  obtain kubelet ksm cp w1 w2 where
    k: "whenEnabled (KubeletEnabled (Kubelet c)) (setupKubelet mw lib lister c cid) w = Some (Inr kubelet, w1)" and
    m: "whenEnabled (KsmEnabled (KSM c)) (setupKSM mw lib lister c cid (ccKsm clients)) w1 = Some (Inr ksm, w2)" and
    p: "whenEnabled (ControlPlaneEnabled (ControlPlane c)) (setupControlPlane mw cw c cid) w2 = Some (Inr cp, w')" and
    st: "st = \<lparr>stConfig = c, stIntegration = i, stClients = clients, stClusterID = cid, stKubelet = kubelet, stKsm = ksm, stControlPlane = cp\<rparr>"
    using assms by (auto simp: setupScrapers_def orExit_Some)
  have "if KubeletEnabled (Kubelet c)
     then \<exists>s. kubelet = Some (s, filtererFor lib lister c) \<and> ksCurrentReruns s = 0 \<and> ksMaxReruns s = ScraperMaxReruns (Kubelet c) \<and> ksCloudClusterID s = cid
     else kubelet = None"
    using k setupKubelet_Inr[of mw lib lister c cid w _ w1] by (fastforce simp: whenEnabled_Inr split: if_splits)
  moreover have "if KsmEnabled (KSM c)
     then \<exists>s. ksm = Some s \<and> kmClient s = ccKsm clients \<and> kmFilterer s = filtererFor lib lister c \<and> kmCloudClusterID s = cid
     else ksm = None"
    using m by (auto simp: whenEnabled_Inr syncThen_Some runBind_Inr once_def ioReturn_def setupKSM_def)
  moreover have "if ControlPlaneEnabled (ControlPlane c)
     then \<exists>s. cp = Some s \<and> cpsScraper s = NewCPScraper cw c \<and> cpsCloudClusterID s = cid else cp = None"
    using p by (auto simp: whenEnabled_Inr syncThen_Some runBind_Inr once_def ioReturn_def setupControlPlane_def split: prod.splits sum.splits)
  ultimately show ?thesis using st by simp
qed

lemma setupScrapers_Exited: "setupScrapers mw lib lister cw c clients cid i w = Some (out, w') \<Longrightarrow> (\<exists>st. out = Running st) \<or> out = Exited exitSetup"
  by (auto simp: setupScrapers_def orExit_Some)

text \<open>What a started process has of each scraper, given its configuration.\<close>

definition kubeletStarted :: "'w kubeletworld \<Rightarrow> 'sel selectors \<Rightarrow> ('sel \<Rightarrow> err + knamespace list) \<Rightarrow> 'i started \<Rightarrow> bool" where
  "kubeletStarted kw lib lister st \<longleftrightarrow>
     (let c = stConfig st in
      if KubeletEnabled (Kubelet c)
      then \<exists>s conn. stKubelet st = Some (s, filtererFor lib lister c) \<and> ksCurrentReruns s = 0 \<and>
        ksMaxReruns s = ScraperMaxReruns (Kubelet c) \<and> ksCloudClusterID s = stClusterID st \<and>
        ccKubelet (stClients st) = Some \<lparr>kcDoer = cpClient conn, kcRetries = KubeletRetries (Kubelet c), kcEndpoint = cpURL conn\<rparr> \<and> probed kw c conn
      else stKubelet st = None \<and> ccKubelet (stClients st) = None)"

definition ksmStarted :: "'sel selectors \<Rightarrow> ('sel \<Rightarrow> err + knamespace list) \<Rightarrow> 'i started \<Rightarrow> bool" where
  "ksmStarted lib lister st \<longleftrightarrow>
     (let c = stConfig st in
      if KsmEnabled (KSM c)
      then \<exists>s client. stKsm st = Some s \<and> kmClient s = Some client \<and> kmFilterer s = filtererFor lib lister c \<and> kmCloudClusterID s = stClusterID st
      else stKsm st = None)"

definition controlPlaneStarted :: "'w cpworld \<Rightarrow> 'i started \<Rightarrow> bool" where
  "controlPlaneStarted cw st \<longleftrightarrow>
     (let c = stConfig st in
      if ControlPlaneEnabled (ControlPlane c)
      then \<exists>s. stControlPlane st = Some s \<and> cpsScraper s = NewCPScraper cw c \<and> cpsCloudClusterID s = stClusterID st
      else stControlPlane st = None)"

lemma scrapers_started:
  assumes b: "buildClients clk kw mw c w1 = Some (Inr clients, w2)"
    and s: "setupScrapers mw lib lister cw c clients cid i w3 = Some (Running st, w')"
  shows "stConfig st = c \<and> kubeletStarted kw lib lister st \<and> ksmStarted lib lister st \<and> controlPlaneStarted cw st"
proof -
  note f = setupScrapers_Running[OF s]
  have c: "stConfig st = c" "stClients st = clients" "stClusterID st = cid" using f by simp_all
  have "kubeletStarted kw lib lister st"
  proof (cases "KubeletEnabled (Kubelet c)")
    case True
    then obtain conn where "ccKubelet clients = Some \<lparr>kcDoer = cpClient conn, kcRetries = KubeletRetries (Kubelet c), kcEndpoint = cpURL conn\<rparr>" "probed kw c conn"
      using buildClients_Inr[OF b] Connect_probed by fastforce
    then show ?thesis using f c True by (simp add: kubeletStarted_def Let_def) blast
  next
    case False
    then show ?thesis using f c buildClients_Inr[OF b] by (simp add: kubeletStarted_def Let_def)
  qed
  moreover have "ksmStarted lib lister st"
    using f c buildClients_Inr[OF b] by (cases "KsmEnabled (KSM c)") (auto simp: ksmStarted_def Let_def)
  moreover have "controlPlaneStarted cw st"
    using f c by (cases "ControlPlaneEnabled (ControlPlane c)") (auto simp: controlPlaneStarted_def Let_def)
  ultimately show ?thesis using c(1) by blast
qed

lemma startMain_result:
  assumes "startMain clk sw kw cl cw mw lib lister loaded w = Some (out, w')"
  shows "case out of
      Running st \<Rightarrow> loaded = (Some (stConfig st), None) \<and> SinkType (stConfig st) \<in> {SinkTypeHTTP, SinkTypeStdout} \<and>
        kubeletStarted kw lib lister st \<and> ksmStarted lib lister st \<and> controlPlaneStarted cw st
    | Exited code \<Rightarrow> code \<in> {exitIntegration, exitConfig, exitClients, exitSetup} \<and>
        (code = exitConfig \<longleftrightarrow> (\<exists>c. loaded = (Some c, None) \<and> SinkType c \<notin> {SinkTypeHTTP, SinkTypeStdout}))
    | Crashed p \<Rightarrow> loaded = (None, None)"
proof (cases "\<exists>c. loaded = (Some c, None)")
  case False
  then show ?thesis using assms by (auto simp: startMain_def exitIntegration_def exitConfig_def split: prod.splits option.splits)
next
  case True
  then obtain c where c: "loaded = (Some c, None)" by blast
  then have run: "startWith clk sw kw cl cw mw lib lister c w = Some (out, w')" using assms by (simp add: startMain_def)
  show ?thesis
  proof (cases "SinkType c \<in> {SinkTypeHTTP, SinkTypeStdout}")
    case False
    then show ?thesis using run c by (auto simp: startWith_def)
  next
    case sink: True
    show ?thesis
    proof (cases "\<exists>clients cid i w1 w2 w3. buildClients clk kw mw c w1 = Some (Inr clients, w2) \<and>
        setupScrapers mw lib lister cw c clients cid i w3 = Some (out, w')")
      case False
      then have "out \<in> {Exited exitIntegration, Exited exitClients}"
        using run sink by (auto simp: startWith_def orExit_Some case_prod_beta; blast)
      then show ?thesis using c sink by (auto simp: exitIntegration_def exitConfig_def exitClients_def)
    next
      case True
      then obtain clients cid i w1 w2 w3 where b: "buildClients clk kw mw c w1 = Some (Inr clients, w2)"
        and s: "setupScrapers mw lib lister cw c clients cid i w3 = Some (out, w')" by blast
      show ?thesis
      proof (cases out)
        case (Running st)
        then show ?thesis using scrapers_started[OF b s[unfolded Running]] c sink by simp
      next
        case (Exited code)
        then show ?thesis using setupScrapers_Exited[OF s] c sink by (auto simp: exitIntegration_def exitConfig_def exitClients_def exitSetup_def)
      next
        case (Crashed p)
        then show ?thesis using setupScrapers_Exited[OF s] by simp
      qed
    qed
  qed
qed

text \<open>The causes of an exit, each with what succeeded before it.\<close>

definition setupFails ::
  "('w, 'i) mainworld \<Rightarrow> 'sel selectors \<Rightarrow> ('sel \<Rightarrow> err + knamespace list) \<Rightarrow> 'w cpworld \<Rightarrow> config \<Rightarrow> clusterclients \<Rightarrow> string \<Rightarrow> 'w \<Rightarrow> bool" where
  "setupFails mw lib lister cw c clients cid w \<longleftrightarrow>
     (KubeletEnabled (Kubelet c) \<and> (\<exists>e w'. setupKubelet mw lib lister c cid w = Some (Inl e, w'))) \<or>
     (\<exists>kubelet w1. whenEnabled (KubeletEnabled (Kubelet c)) (setupKubelet mw lib lister c cid) w = Some (Inr kubelet, w1) \<and>
       ((KsmEnabled (KSM c) \<and> (\<exists>e w'. setupKSM mw lib lister c cid (ccKsm clients) w1 = Some (Inl e, w'))) \<or>
        (\<exists>ksm w2. whenEnabled (KsmEnabled (KSM c)) (setupKSM mw lib lister c cid (ccKsm clients)) w1 = Some (Inr ksm, w2) \<and>
          ControlPlaneEnabled (ControlPlane c) \<and> (\<exists>e w'. setupControlPlane mw cw c cid w2 = Some (Inl e, w')))))"

definition exitCause ::
  "'w clock \<Rightarrow> 'w sinkworld \<Rightarrow> 'w kubeletworld \<Rightarrow> 'w cloudworld \<Rightarrow> 'w cpworld \<Rightarrow> ('w, 'i) mainworld \<Rightarrow> 'sel selectors \<Rightarrow> ('sel \<Rightarrow> err + knamespace list)
     \<Rightarrow> config \<Rightarrow> 'w \<Rightarrow> int \<Rightarrow> bool" where
  "exitCause clk sw kw cl cw mw lib lister c w code \<longleftrightarrow>
     (case NewWrapper (wrapperOptions clk sw c) w of
        None \<Rightarrow> False
      | Some (Inl e, w1) \<Rightarrow> code = exitIntegration
      | Some (Inr iw, w1) \<Rightarrow>
          ((\<exists>e. WrapperIntegration (mwSdkNew mw) iw = Inl e) \<and> code = exitIntegration) \<or>
          ((\<exists>i. WrapperIntegration (mwSdkNew mw) iw = Inr i) \<and>
            ((\<exists>e w2. buildClients clk kw mw c w1 = Some (Inl e, w2)) \<and> code = exitClients \<or>
             (\<exists>clients w2 cid w3. buildClients clk kw mw c w1 = Some (Inr clients, w2) \<and> detectCloudClusterID cl c w2 = (cid, w3) \<and>
               setupFails mw lib lister cw c clients cid w3) \<and> code = exitSetup)))"

lemma setupScrapers_exit:
  "setupScrapers mw lib lister cw c clients cid i w = Some (Exited code, w') \<Longrightarrow> code = exitSetup \<and> setupFails mw lib lister cw c clients cid w"
  by (auto simp: setupScrapers_def orExit_Some whenEnabled_Inl setupFails_def)

lemma startWith_exit:
  assumes "startWith clk sw kw cl cw mw lib lister c w = Some (Exited code, w')" "SinkType c \<in> {SinkTypeHTTP, SinkTypeStdout}"
  shows "exitCause clk sw kw cl cw mw lib lister c w code"
proof -
  have step: "(\<exists>e w1. m w = Some (Inl e, w1) \<and> code = k) \<or> (\<exists>a w1. m w = Some (Inr a, w1) \<and> f a w1 = Some (Exited code, w'))"
    if "orExit k m f w = Some (Exited code, w')" for k m f w
    using that by (auto simp: orExit_Some)
  note run = assms(1)[unfolded startWith_def]
  consider e w1 where "NewWrapper (wrapperOptions clk sw c) w = Some (Inl e, w1)" "code = exitIntegration"
    | iw w1 where "NewWrapper (wrapperOptions clk sw c) w = Some (Inr iw, w1)"
        "orExit exitIntegration (\<lambda>w. Some (WrapperIntegration (mwSdkNew mw) iw, w)) (\<lambda>i.
           orExit exitClients (buildClients clk kw mw c) (\<lambda>clients w.
             case detectCloudClusterID cl c w of (cid, w') \<Rightarrow> setupScrapers mw lib lister cw c clients cid i w')) w1 = Some (Exited code, w')"
    using run assms(2) by (auto simp: orExit_Some split: if_splits)
  then show ?thesis
  proof cases
    case 1
    then show ?thesis by (simp add: exitCause_def)
  next
    case 2
    note sdk = step[OF 2(2)]
    show ?thesis
    proof (cases "WrapperIntegration (mwSdkNew mw) iw")
      case (Inl e)
      then show ?thesis using sdk 2(1) by (auto simp: exitCause_def)
    next
      case (Inr i)
      then have "orExit exitClients (buildClients clk kw mw c) (\<lambda>clients w.
          case detectCloudClusterID cl c w of (cid, w') \<Rightarrow> setupScrapers mw lib lister cw c clients cid i w') w1 = Some (Exited code, w')"
        using sdk by simp
      from step[OF this] show ?thesis
      proof (elim disjE exE conjE)
        fix e w2
        assume "buildClients clk kw mw c w1 = Some (Inl e, w2)" "code = exitClients"
        then show ?thesis using 2(1) Inr by (simp add: exitCause_def)
      next
        fix clients w2
        assume b: "buildClients clk kw mw c w1 = Some (Inr clients, w2)"
          and s: "(case detectCloudClusterID cl c w2 of (cid, w') \<Rightarrow> setupScrapers mw lib lister cw c clients cid i w') = Some (Exited code, w')"
        obtain cid w3 where d: "detectCloudClusterID cl c w2 = (cid, w3)" by fastforce
        with s have "code = exitSetup \<and> setupFails mw lib lister cw c clients cid w3" by (simp add: setupScrapers_exit)
        then show ?thesis using 2(1) Inr b d by (simp add: exitCause_def)
      qed
    qed
  qed
qed

text \<open>
  C21: A start that ends in the loop has loaded a configuration with a known sink and has exactly the enabled
  scrapers, each with its client and the detected identifier of the cluster; the kubelet and the KSM
  scraper share the filter of the namespace selector, the kubelet scraper has no failed run behind it, and
  its connection answered a probe. Any other start exits with the code of its cause: the code of the integration when the
  configuration is not loaded, the wrapper fails or the SDK does, that of the configuration exactly when the sink
  is unknown, that of the clients when they cannot be built, and that of the set-up when an enabled scraper, the ones before it
  built, cannot be set up.
\<close>

theorem startMain_outcome:
  assumes "startMain clk sw kw cl cw mw lib lister loaded w = Some (out, w')"
  shows "case out of
      Running st \<Rightarrow> loaded = (Some (stConfig st), None) \<and> SinkType (stConfig st) \<in> {SinkTypeHTTP, SinkTypeStdout} \<and>
        kubeletStarted kw lib lister st \<and> ksmStarted lib lister st \<and> controlPlaneStarted cw st
    | Exited code \<Rightarrow> code \<in> {exitIntegration, exitConfig, exitClients, exitSetup} \<and>
        (code = exitConfig \<longleftrightarrow> (\<exists>c. loaded = (Some c, None) \<and> SinkType c \<notin> {SinkTypeHTTP, SinkTypeStdout})) \<and>
        (code = exitConfig \<or> (\<exists>e. snd loaded = Some e) \<and> code = exitIntegration \<or>
          (\<exists>c. loaded = (Some c, None) \<and> exitCause clk sw kw cl cw mw lib lister c w code))
    | Crashed p \<Rightarrow> loaded = (None, None)"
proof (cases out)
  case (Exited code)
  note r = startMain_result[OF assms, unfolded Exited outcome.case]
  have "(\<exists>e. snd loaded = Some e) \<and> code = exitIntegration \<or> (\<exists>c. loaded = (Some c, None) \<and> exitCause clk sw kw cl cw mw lib lister c w code)"
    if n: "code \<noteq> exitConfig"
  proof (cases "\<exists>c. loaded = (Some c, None)")
    case True
    then obtain c where c: "loaded = (Some c, None)" by blast
    then show ?thesis using startWith_exit[of clk sw kw cl cw mw lib lister c w code w'] assms r n by (auto simp: startMain_def Exited)
  next
    case False
    then show ?thesis using assms by (auto simp: startMain_def Exited split: prod.splits option.splits)
  qed
  then show ?thesis using r by (simp add: Exited) blast
qed (use startMain_result[OF assms] in simp_all)

section \<open>A start\<close>

definition exampleMain :: "(int, unit) mainworld" where
  "exampleMain =
     \<lparr>mwInCluster = (\<lambda>w. (Inl (errorsNew ''not in a cluster''), w)), mwHomeDir = ''/root'',
      mwLocalConfig = (\<lambda>f w. (if f = ''/root/.kube/config'' then Inr \<lparr>RestHost = ''h'', BearerTokenFile = ''token''\<rparr> else Inl (errorsNew f), w)),
      mwClientset = (\<lambda>_. None), mwServerVersion = (\<lambda>w. (Inr ''v1'', w)), mwCacheSync = (\<lambda>_ w. Some w), mwSdkNew = (\<lambda>_ _ _ _. Inr ()), mwOpenRoute = (\<lambda>_. None)\<rparr>"

definition offline :: "int cloudworld" where
  "offline =
     \<lparr>clNode = (\<lambda>n w. (Inl (errorsNew ''no node''), w)), clNewEC2 = (\<lambda>_ w. (Inr (), w)), clDescribe = (\<lambda>_ _ w. (Inr [], w)),
      clRequestErr = (\<lambda>_. None), clGet = (\<lambda>_ w. (Inr (404, [], None), w))\<rparr>"

theorem startMain_returns_witness:
  "\<forall>cw lib lister. \<exists>out w'. startMain bareClock exampleSinkWorld exampleWorld offline cw exampleMain lib lister (Some exampleCfg, None) 0 = Some (out, w')"
  by (intro allI startMain_returns[OF ticks_bareClock])
    (auto simp: forward_def forwardWorld_def exampleSinkWorld_def exampleWorld_def bareClock_def exampleCfg_def cachesSync_def exampleMain_def)

text \<open>A configuration with kube-state-metrics alone, and the standard output as its sink.\<close>

definition ksmOnlyCfg :: config where
  "ksmOnlyCfg = exampleCfg\<lparr>SinkType := ''stdout'', Kubelet := (Kubelet exampleCfg)\<lparr>KubeletEnabled := False\<rparr>, KSM := (KSM exampleCfg)\<lparr>KsmEnabled := True\<rparr>\<rparr>"

text \<open>The same start with a clientset that cannot be built, and with a cache that never syncs.\<close>

lemma example_start:
  "\<exists>st. startMain bareClock exampleSinkWorld exampleWorld offline cw exampleMain lib lister (Some ksmOnlyCfg, None) 0 = Some (Running st, 0)"
  "startMain bareClock exampleSinkWorld exampleWorld offline cw (exampleMain\<lparr>mwClientset := \<lambda>_. Some (errorsNew ''no host'')\<rparr>) lib lister (Some ksmOnlyCfg, None) 0
     = Some (Exited exitClients, 0)"
  "startMain bareClock exampleSinkWorld exampleWorld offline cw (exampleMain\<lparr>mwCacheSync := \<lambda>k w. if k = ''services'' then None else Some w\<rparr>) lib lister
     (Some ksmOnlyCfg, None) 0 = None"
proof -
  have clean: "Clean ''/root/.kube/config'' = ''/root/.kube/config''" by code_simp
  note ev = startMain_def startWith_def ksmOnlyCfg_def exampleCfg_def SinkTypeHTTP_def SinkTypeStdout_def wrapperOptions_def NewWrapper_def
        once_def ioReturn_def ioFail_def orExit_def WrapperIntegration_def exampleMain_def buildClients_def runBind_def getK8sConfig_def orElse_def pathJoin_def clean
        ioBind_def whenEnabled_def detectCloudClusterID_def DetectClusterID_def offline_def setupScrapers_def setupKSM_def syncThen_def filterCaches_def ksmCaches_def
  show "\<exists>st. startMain bareClock exampleSinkWorld exampleWorld offline cw exampleMain lib lister (Some ksmOnlyCfg, None) 0 = Some (Running st, 0)"
    by (simp add: ev)
  show "startMain bareClock exampleSinkWorld exampleWorld offline cw (exampleMain\<lparr>mwClientset := \<lambda>_. Some (errorsNew ''no host'')\<rparr>) lib lister (Some ksmOnlyCfg, None) 0
     = Some (Exited exitClients, 0)" by (simp add: ev)
  show "startMain bareClock exampleSinkWorld exampleWorld offline cw (exampleMain\<lparr>mwCacheSync := \<lambda>k w. if k = ''services'' then None else Some w\<rparr>) lib lister
     (Some ksmOnlyCfg, None) 0 = None" by (simp add: ev)
qed

theorem startMain_outcome_witness:
  "\<forall>cw lib lister. (\<exists>st. startMain bareClock exampleSinkWorld exampleWorld offline cw exampleMain lib lister (Some ksmOnlyCfg, None) 0 = Some (Running st, 0) \<and>
      stConfig st = ksmOnlyCfg \<and> kubeletStarted exampleWorld lib lister st \<and> ksmStarted lib lister st \<and> controlPlaneStarted cw st) \<and>
    (let mw = exampleMain\<lparr>mwClientset := \<lambda>_. Some (errorsNew ''no host'')\<rparr> in
      startMain bareClock exampleSinkWorld exampleWorld offline cw mw lib lister (Some ksmOnlyCfg, None) 0 = Some (Exited exitClients, 0) \<and>
      exitCause bareClock exampleSinkWorld exampleWorld offline cw mw lib lister ksmOnlyCfg 0 exitClients)"
proof (intro allI conjI)
  fix cw lib lister
  obtain st where run: "startMain bareClock exampleSinkWorld exampleWorld offline cw exampleMain lib lister (Some ksmOnlyCfg, None) 0 = Some (Running st, 0)"
    using example_start(1) by blast
  from startMain_outcome[OF run] show "\<exists>st. startMain bareClock exampleSinkWorld exampleWorld offline cw exampleMain lib lister (Some ksmOnlyCfg, None) 0
      = Some (Running st, 0) \<and> stConfig st = ksmOnlyCfg \<and> kubeletStarted exampleWorld lib lister st \<and> ksmStarted lib lister st \<and> controlPlaneStarted cw st"
    using run by auto
  from startMain_outcome[OF example_start(2)[of cw lib lister]] example_start(2)[of cw lib lister]
  show "let mw = exampleMain\<lparr>mwClientset := \<lambda>_. Some (errorsNew ''no host'')\<rparr> in
      startMain bareClock exampleSinkWorld exampleWorld offline cw mw lib lister (Some ksmOnlyCfg, None) 0 = Some (Exited exitClients, 0) \<and>
      exitCause bareClock exampleSinkWorld exampleWorld offline cw mw lib lister ksmOnlyCfg 0 exitClients"
    by (simp add: exitClients_def exitConfig_def)
qed

end
