(* ===== verification/Main_Loop.thy ===== *)
theory Main_Loop
  imports Startup
begin

text \<open>
  \<open>cmd/nri-kubernetes/main.go\<close>: the loop that runs the scrapers, publishes, vacuums the caches and sleeps
  until the next tick. The scrapers and the publication
  are parameters of the loop, run over the state of the populator and the world; a run that does not return
  is \<open>None\<close>.
\<close>

section \<open>The loop\<close>

type_synonym 'i mainpop = "('i, interfacecache option, nsstore) popstate"
type_synonym ('w, 'i) runner = "'w \<Rightarrow> 'i mainpop \<Rightarrow> (unit result \<times> 'w \<times> 'i mainpop) option"

record ('w, 'i) mainstate =
  msCount :: "64 word"
  msKubelet :: kubeletscraper
  msWorld :: 'w
  msPop :: "'i mainpop"

record ('w, 'i) scrapers =
  scKsm :: "('w, 'i) runner"
  scKubelet :: "kubeletscraper \<Rightarrow> ('w, 'i) runner"
  scControlPlane :: "('w, 'i) runner"
  scPublish :: "'w \<Rightarrow> 'i mainpop \<Rightarrow> err option \<times> 'w \<times> 'i mainpop"

text \<open>One enabled scraper: an error goes to its handler, a panic ends the run.\<close>

definition stage ::
  "bool \<Rightarrow> (('w, 'i) mainstate \<Rightarrow> ('w, 'i) runner) \<Rightarrow> (err \<Rightarrow> ('w, 'i) mainstate \<Rightarrow> (unit result \<times> ('w, 'i) mainstate) option)
     \<Rightarrow> (('w, 'i) mainstate \<Rightarrow> (unit result \<times> ('w, 'i) mainstate) option) \<Rightarrow> ('w, 'i) mainstate \<Rightarrow> (unit result \<times> ('w, 'i) mainstate) option" where
  "stage enabled run handle continue s =
     (if \<not> enabled then continue s
      else case run s (msWorld s) (msPop s) of
        None \<Rightarrow> None
      | Some (Panic p, w, st) \<Rightarrow> Some (Panic p, s\<lparr>msWorld := w, msPop := st\<rparr>)
      | Some (Fail e, w, st) \<Rightarrow> handle e (s\<lparr>msWorld := w, msPop := st\<rparr>)
      | Some (Ok _, w, st) \<Rightarrow> continue (s\<lparr>msWorld := w, msPop := st\<rparr>))"

definition runControlPlane :: "config \<Rightarrow> ('w, 'i) scrapers \<Rightarrow> ('w, 'i) mainstate \<Rightarrow> (unit result \<times> ('w, 'i) mainstate) option" where
  "runControlPlane cfg sc =
     stage (ControlPlaneEnabled (ControlPlane cfg)) (\<lambda>_. scControlPlane sc)
       (\<lambda>e s. Some (Fail (Errorf ''retrieving control plane data: %w'' [] [e]), s)) (\<lambda>s. Some (Ok (), s))"

definition runKubelet :: "config \<Rightarrow> ('w, 'i) scrapers \<Rightarrow> ('w, 'i) mainstate \<Rightarrow> (unit result \<times> ('w, 'i) mainstate) option" where
  "runKubelet cfg sc =
     stage (KubeletEnabled (Kubelet cfg)) (\<lambda>s. scKubelet sc (msKubelet s))
       (\<lambda>e s. if IsMaxRerunReached (msKubelet s) then Some (Fail (Errorf ''retrieving kubelet data: %w'' [] [e]), s)
              else runControlPlane cfg sc (s\<lparr>msKubelet := IncCurrentReruns (msKubelet s)\<rparr>)) (runControlPlane cfg sc)"

definition runScrapers :: "config \<Rightarrow> ('w, 'i) scrapers \<Rightarrow> ('w, 'i) mainstate \<Rightarrow> (unit result \<times> ('w, 'i) mainstate) option" where
  "runScrapers cfg sc =
     stage (KsmEnabled (KSM cfg)) (\<lambda>_. scKsm sc)
       (\<lambda>e s. Some (Fail (Errorf ''retrieving ksm data: %w'' [] [e]), s)) (runKubelet cfg sc)"

definition interfaceCacheVacuumInterval :: "64 word" where "interfaceCacheVacuumInterval = 10"

text \<open>Go's remainder truncates; by zero it panics.\<close>

definition nextTick :: "int \<Rightarrow> int \<Rightarrow> int" where
  "nextTick interval spent = interval - (spent smod interval)"

definition iteration :: "'w clock \<Rightarrow> config \<Rightarrow> ('w, 'i) scrapers \<Rightarrow> ('w, 'i) mainstate \<Rightarrow> ('w, 'i) mainstate outcome option" where
  "iteration clk cfg sc s0 =
     (let s = s0\<lparr>msCount := msCount s0 + 1\<rparr>; start = Now clk (msWorld s) in
      case runScrapers cfg sc s of
        None \<Rightarrow> None
      | Some (Panic p, _) \<Rightarrow> Some (Crashed p)
      | Some (Fail e, _) \<Rightarrow> Some (Exited exitLoop)
      | Some (Ok _, s1) \<Rightarrow>
          (case scPublish sc (msWorld s1) (msPop s1) of
             (Some e, _) \<Rightarrow> Some (Exited exitLoop)
           | (None, w, st) \<Rightarrow>
               let st1 = st\<lparr>pFilter := NsVacuum (pFilter st)\<rparr>;
                   st2 = (if msCount s1 mod interfaceCacheVacuumInterval = 0 then st1\<lparr>pCache := map_option ICVacuum (pCache st1)\<rparr> else st1);
                   totalTime = Now clk w - start
               in if Interval cfg = 0 then Some (Crashed ''runtime error: integer divide by zero'')
                  else Some (Running (s1\<lparr>msWorld := Sleep clk (nextTick (Interval cfg) totalTime) w, msPop := st2\<rparr>))))"

text \<open>The states at the head of the loop.\<close>

inductive reached :: "'w clock \<Rightarrow> config \<Rightarrow> ('w, 'i) scrapers \<Rightarrow> ('w, 'i) mainstate \<Rightarrow> ('w, 'i) mainstate \<Rightarrow> bool"
  for clk cfg sc s0 where
  start: "reached clk cfg sc s0 s0"
| again: "reached clk cfg sc s0 s \<Longrightarrow> iteration clk cfg sc s = Some (Running s') \<Longrightarrow> reached clk cfg sc s0 s'"

inductive_cases reachedE: "reached clk cfg sc s0 s"

definition initial :: "config \<Rightarrow> ('w, 'i) mainstate \<Rightarrow> bool" where
  "initial cfg s \<longleftrightarrow> msCount s = 0 \<and> ksCurrentReruns (msKubelet s) = 0 \<and> ksMaxReruns (msKubelet s) = ScraperMaxReruns (Kubelet cfg) \<and>
     pFilter (msPop s) = NewNamespaceInMemoryStore \<and> pCache (msPop s) = Some NewInterfaceCache"

text \<open>A started process enters the loop in an initial state, with fresh caches.\<close>

lemma started_initial:
  assumes "kubeletStarted kw lib lister st" "stKubelet st = Some (s, filt)"
  shows "initial (stConfig st) \<lparr>msCount = 0, msKubelet = s, msWorld = w,
    msPop = \<lparr>pInt = stIntegration st, pCache = Some NewInterfaceCache, pFilter = NewNamespaceInMemoryStore\<rparr>\<rparr>"
  using assms by (auto simp: initial_def kubeletStarted_def Let_def split: if_splits)

section \<open>The state of the loop\<close>

lemma stage_rules:
  assumes "stage enabled run handle continue s = Some (Ok u, s')"
  obtains (skip) "\<not> enabled" "continue s = Some (Ok u, s')"
  | (ok) w st v where "enabled" "run s (msWorld s) (msPop s) = Some (Ok v, w, st)" "continue (s\<lparr>msWorld := w, msPop := st\<rparr>) = Some (Ok u, s')"
  | (fail) w st e where "enabled" "run s (msWorld s) (msPop s) = Some (Fail e, w, st)" "handle e (s\<lparr>msWorld := w, msPop := st\<rparr>) = Some (Ok u, s')"
  using assms by (auto simp: stage_def split: if_splits option.splits result.splits)

lemma runControlPlane_keeps: "runControlPlane cfg sc t = Some (Ok u, t') \<Longrightarrow> msCount t' = msCount t \<and> msKubelet t' = msKubelet t"
  unfolding runControlPlane_def by (elim stage_rules) auto

text \<open>Failed runs of the kubelet scraper are counted and never forgotten.\<close>

lemma runScrapers_kubelet:
  assumes "runScrapers cfg sc s = Some (Ok u, s')"
  shows "msCount s' = msCount s \<and>
    (msKubelet s' = msKubelet s \<or> (\<not> IsMaxRerunReached (msKubelet s) \<and> msKubelet s' = IncCurrentReruns (msKubelet s)))"
proof -
  have "msCount t' = msCount t \<and>
      (msKubelet t' = msKubelet t \<or> (\<not> IsMaxRerunReached (msKubelet t) \<and> msKubelet t' = IncCurrentReruns (msKubelet t)))"
    if "runKubelet cfg sc t = Some (Ok u, t')" for t t'
    using that unfolding runKubelet_def
    by (elim stage_rules) (auto dest: runControlPlane_keeps split: if_splits)
  then show ?thesis using assms unfolding runScrapers_def by (elim stage_rules) fastforce+
qed

lemma vacuumed: "NsVacuum n = NewNamespaceInMemoryStore" "ICVacuum c = NewInterfaceCache"
  by (simp_all add: NsVacuum_def NewNamespaceInMemoryStore_def ICVacuum_def NewInterfaceCache_def)

lemma iteration_Running:
  assumes "iteration clk cfg sc s = Some (Running s')"
  shows "Interval cfg \<noteq> 0 \<and> msCount s' = msCount s + 1 \<and> pFilter (msPop s') = NewNamespaceInMemoryStore \<and>
    (msCount s' mod interfaceCacheVacuumInterval = 0 \<longrightarrow> (\<forall>c. pCache (msPop s') = Some c \<longrightarrow> c = NewInterfaceCache)) \<and>
    (msKubelet s' = msKubelet s \<or> (\<not> IsMaxRerunReached (msKubelet s) \<and> msKubelet s' = IncCurrentReruns (msKubelet s)))"
proof -
  obtain u s1 where s1: "runScrapers cfg sc (s\<lparr>msCount := msCount s + 1\<rparr>) = Some (Ok u, s1)"
    using assms by (auto simp: iteration_def Let_def split: option.splits result.splits)
  show ?thesis
  proof (cases "msCount s1 mod interfaceCacheVacuumInterval = 0")
    case True
    then have "msKubelet s' = msKubelet s1 \<and> msCount s' = msCount s1 \<and> Interval cfg \<noteq> 0 \<and>
        pFilter (msPop s') = NewNamespaceInMemoryStore \<and> (\<forall>c. pCache (msPop s') = Some c \<longrightarrow> c = NewInterfaceCache)"
      using assms by (auto simp: iteration_def Let_def s1 vacuumed split: prod.splits option.splits if_splits)
    then show ?thesis using runScrapers_kubelet[OF s1] by auto
  next
    case False
    then have "msKubelet s' = msKubelet s1 \<and> msCount s' = msCount s1 \<and> Interval cfg \<noteq> 0 \<and>
        pFilter (msPop s') = NewNamespaceInMemoryStore"
      using assms by (auto simp: iteration_def Let_def s1 vacuumed split: prod.splits option.splits if_splits)
    then show ?thesis using runScrapers_kubelet[OF s1] False by simp
  qed
qed

text \<open>
  C10: Whenever the loop comes round, the cache of the namespace filter is empty, so a run never uses an
  answer of an earlier one, whatever changed in between; the cache of network interfaces is empty at every
  tenth round; the configured interval is not zero; and the failed runs of the kubelet scraper that were
  tolerated so far are at most one more than the configured maximum, over the whole life of the process.
\<close>

theorem loop_invariant:
  assumes "reached clk cfg sc s0 s" "initial cfg s0"
  shows "cacheOf filt (pFilter (msPop s)) \<and>
    (msCount s mod interfaceCacheVacuumInterval = 0 \<longrightarrow> (\<forall>c. pCache (msPop s) = Some c \<longrightarrow> c = NewInterfaceCache)) \<and>
    (s \<noteq> s0 \<longrightarrow> Interval cfg \<noteq> 0) \<and>
    ksMaxReruns (msKubelet s) = ScraperMaxReruns (Kubelet cfg) \<and>
    0 \<le> ksCurrentReruns (msKubelet s) \<and> ksCurrentReruns (msKubelet s) \<le> max 0 (ScraperMaxReruns (Kubelet cfg) + 1)"
  using assms
proof (induction rule: reached.induct)
  case start
  then show ?case by (simp add: initial_def cacheOf_fresh(1))
next
  case (again s s')
  from iteration_Running[OF again(2)] show ?case
    using again(3)[OF again(4)] by (auto simp: cacheOf_fresh(1) IncCurrentReruns_def IsMaxRerunReached_def)
qed

text \<open>A kubelet that fails in every round, and publications that succeed.\<close>

definition failingKubelet :: "(int, unit) scrapers" where
  "failingKubelet =
     \<lparr>scKsm = (\<lambda>w st. None), scKubelet = (\<lambda>k w st. Some (Fail (errorsNew ''no data''), w + 1, st)), scControlPlane = (\<lambda>w st. None),
      scPublish = (\<lambda>w st. (None, w + 1, st\<lparr>pFilter := NsPut ''a'' True (pFilter st)\<rparr>))\<rparr>"

definition exampleStart :: "(int, unit) mainstate" where
  "exampleStart =
     \<lparr>msCount = 0, msKubelet = \<lparr>ksDefaultInterface = [], ksCloudClusterID = [], ksVersion = ''v1'', ksCurrentReruns = 0, ksMaxReruns = 4\<rparr>,
      msWorld = 0, msPop = \<lparr>pInt = (), pCache = Some NewInterfaceCache, pFilter = NewNamespaceInMemoryStore\<rparr>\<rparr>"

lemma initial_example: "initial exampleCfg exampleStart"
  by (simp add: initial_def exampleStart_def exampleCfg_def)

lemma example_round:
  "iteration bareClock exampleCfg failingKubelet exampleStart
     = Some (Running (exampleStart\<lparr>msCount := 1, msKubelet := IncCurrentReruns (msKubelet exampleStart), msWorld := 15000000000\<rparr>))"
  by (simp add: iteration_def runScrapers_def runKubelet_def runControlPlane_def stage_def exampleCfg_def failingKubelet_def exampleStart_def
      IsMaxRerunReached_def IncCurrentReruns_def interfaceCacheVacuumInterval_def nextTick_def bareClock_def vacuumed
      signed_modulo_int_def signed_divide_int_def)

theorem loop_invariant_witness:
  "\<exists>s. reached bareClock exampleCfg failingKubelet exampleStart s \<and> ksCurrentReruns (msKubelet s) = 1 \<and> msCount s = 1 \<and>
    cacheOf (\<lambda>_. False) (pFilter (msPop s)) \<and> ksCurrentReruns (msKubelet s) \<le> max 0 (ScraperMaxReruns (Kubelet exampleCfg) + 1)"
proof -
  let ?s = "exampleStart\<lparr>msCount := 1, msKubelet := IncCurrentReruns (msKubelet exampleStart), msWorld := 15000000000\<rparr>"
  have r: "reached bareClock exampleCfg failingKubelet exampleStart ?s"
    using reached.again[OF reached.start example_round] .
  have "cacheOf (\<lambda>_. False) (pFilter (msPop ?s))" "ksCurrentReruns (msKubelet ?s) \<le> max 0 (ScraperMaxReruns (Kubelet exampleCfg) + 1)"
    using loop_invariant[OF r initial_example, of "\<lambda>_. False"] by blast+
  moreover have "ksCurrentReruns (msKubelet ?s) = 1" "msCount ?s = 1" by (simp_all add: IncCurrentReruns_def exampleStart_def)
  ultimately show ?thesis using r by blast
qed

text \<open>
  The sleep at the end of a round is positive and at most the interval, and it ends on the grid of the
  interval that starts with the round, so a round that takes longer skips ticks and never shifts them.
\<close>

lemma nextTick_grid:
  assumes "0 < interval" "0 \<le> spent"
  shows "0 < nextTick interval spent \<and> nextTick interval spent \<le> interval \<and> (spent + nextTick interval spent) mod interval = 0"
proof -
  have "spent smod interval = spent mod interval"
    using assms by (simp add: signed_modulo_int_def signed_divide_int_def sgn_if minus_div_mult_eq_mod)
  moreover have "(spent + (interval - spent mod interval)) mod interval = 0"
    by (metis add_diff_cancel_left' add_diff_eq diff_add_eq minus_mod_eq_mult_div mod_add_self2 mod_mult_self1_is_0 mult.commute)
  ultimately show ?thesis using assms pos_mod_bound[of interval spent] pos_mod_sign[of interval spent] by (simp add: nextTick_def)
qed

theorem nextTick_grid_witness:
  "nextTick 15000000000 37000000000 = 8000000000 \<and> (37000000000 + nextTick 15000000000 37000000000) mod 15000000000 = (0 :: int)"
  using nextTick_grid[of 15000000000 37000000000] by (simp add: nextTick_def signed_modulo_int_def signed_divide_int_def)

text \<open>
  An interval of zero, which is what a configuration without one has, crashes the process at the end
  of the first successful round: no round is ever followed by another.
\<close>

lemma zero_interval_crashes:
  assumes "Interval cfg = 0"
  shows "(reached clk cfg sc s0 s \<longleftrightarrow> s = s0) \<and>
    (runScrapers cfg sc (s0\<lparr>msCount := msCount s0 + 1\<rparr>) = Some (Ok u, s1) \<and> scPublish sc (msWorld s1) (msPop s1) = (None, w, st)
      \<longrightarrow> iteration clk cfg sc s0 = Some (Crashed ''runtime error: integer divide by zero''))"
proof -
  have "s = s0" if "reached clk cfg sc s0 s"
    using that by cases (use iteration_Running assms in blast)+
  then show ?thesis using assms by (auto simp: reached.start iteration_def Let_def)
qed

theorem zero_interval_crashes_witness:
  "(\<forall>s. reached bareClock (exampleCfg\<lparr>Interval := 0\<rparr>) failingKubelet exampleStart s \<longleftrightarrow> s = exampleStart) \<and>
   iteration bareClock (exampleCfg\<lparr>Interval := 0\<rparr>) failingKubelet exampleStart = Some (Crashed ''runtime error: integer divide by zero'')"
proof -
  let ?cfg = "exampleCfg\<lparr>Interval := 0\<rparr>"
  let ?s1 = "exampleStart\<lparr>msCount := 1, msKubelet := IncCurrentReruns (msKubelet exampleStart), msWorld := 1\<rparr>"
  have zero: "Interval ?cfg = 0" by simp
  have "runScrapers ?cfg failingKubelet (exampleStart\<lparr>msCount := msCount exampleStart + 1\<rparr>) = Some (Ok (), ?s1)"
    by (simp add: runScrapers_def runKubelet_def runControlPlane_def stage_def exampleCfg_def failingKubelet_def exampleStart_def
        IsMaxRerunReached_def IncCurrentReruns_def)
  moreover obtain st where "scPublish failingKubelet (msWorld ?s1) (msPop ?s1) = (None, 2, st)"
    by (simp add: failingKubelet_def)
  ultimately show ?thesis
    using zero_interval_crashes[OF zero, of bareClock failingKubelet exampleStart] by blast
qed

end
