(* ===== verification/Kubelet_Typing.thy ===== *)
theory Kubelet_Typing
  imports Panic_Freedom Kubelet_Specs Kubelet_Client
begin

text \<open>
  A type discipline for the raw metrics of the kubelet. The code stores values of any type under string
  keys and reads them back with type assertions and type switches, far from where they were stored. The
  tables below declare the Go types of every key of every group; the functions that fill the groups keep
  to them, and the specifications only assert or transform what the declarations allow. So the scrape of
  the kubelet cannot panic.
\<close>

section \<open>Declarations\<close>

type_synonym typing = "(string, string list) gomap"

definition ofType :: "string \<Rightarrow> string list \<Rightarrow> typing" where
  "ofType t ks = map (\<lambda>k. (k, [t])) ks"

definition fsKeys :: "string \<Rightarrow> string list" where
  "fsKeys pre = map ((@) pre) [''AvailableBytes'', ''CapacityBytes'', ''UsedBytes'', ''InodesFree'', ''Inodes'', ''InodesUsed'']"

definition networkTypes :: typing where
  "networkTypes = ofType ''uint64'' [''rxBytes'', ''txBytes'', ''errors''] @ ofType ''map[string]definition.RawMetrics'' [''interfaces'']"

definition resourceTypes :: typing where
  "resourceTypes = ofType ''int64'' [''cpuRequestedCores'', ''cpuLimitCores'', ''memoryRequestedBytes'', ''memoryLimitBytes'']"

definition usageTypes :: typing where
  "usageTypes = ofType ''uint64'' [''usageNanoCores'', ''usageBytes'', ''workingSetBytes'']"

definition workloadTypes :: typing where
  "workloadTypes =
     ofType ''string'' [''namespace'', ''podName'', ''nodeName'', ''nodeIP'', ''status'', ''reason'', ''daemonsetName'', ''deploymentName'',
       ''jobName'', ''replicasetName'', ''statefulsetName''] @
     ofType ''map[string]string'' [''labels'']"

definition podTypes :: typing where
  "podTypes = workloadTypes @ networkTypes @ resourceTypes @ usageTypes @
     ofType ''string'' [''podIP'', ''isReady'', ''isScheduled'', ''createdBy'', ''createdKind'', ''message'', ''priorityClassName''] @
     ofType ''time.Time'' [''startTime'', ''createdAt'', ''initializedAt'', ''readyAt'', ''containersReadyAt'', ''scheduledAt''] @
     ofType ''int32'' [''priority'']"

text \<open>A value of cAdvisor has the type of its metric.\<close>

definition promTypes :: "string list" where
  "promTypes = [''prometheus.CounterValue'', ''prometheus.GaugeValue'', ''*io_prometheus_client.Summary'', ''prometheus.noValueType'', ''<nil>'']"

definition containerTypes :: typing where
  "containerTypes = workloadTypes @ resourceTypes @ usageTypes @
     ofType ''string'' [''containerName'', ''containerImage'', ''containerID'', ''containerImageID'', ''lastTerminatedExitReason''] @
     ofType ''bool'' [''isReady''] @ ofType ''int32'' [''restartCount'', ''lastTerminatedExitCode''] @
     ofType ''time.Time'' [''startedAt'', ''lastTerminatedTimestamp''] @ ofType ''uint64'' (fsKeys ''fs'') @
     map (\<lambda>q. (queryName q, promTypes)) CadvisorQueries"

definition volumeTypes :: typing where
  "volumeTypes =
     ofType ''string'' [''volumeName'', ''pvcName'', ''pvcNamespace'', ''namespace'', ''podName''] @ ofType ''uint64'' (fsKeys ''fs'')"

definition nodeTypes :: typing where
  "nodeTypes = networkTypes @
     ofType ''string'' [''nodeName'', ''kubeletVersion''] @
     ofType ''uint64'' ([''usageNanoCores'', ''usageCoreNanoSeconds'', ''memoryUsageBytes'', ''memoryAvailableBytes'', ''memoryWorkingSetBytes'',
       ''memoryRssBytes'', ''memoryPageFaults'', ''memoryMajorPageFaults''] @ fsKeys ''fs'' @ fsKeys ''runtime'') @
     ofType ''int64'' [''memoryRequestedBytes'', ''cpuRequestedCores''] @
     [(''labels'', [''map[string]string'']), (''allocatable'', [''v1.ResourceList'']), (''capacity'', [''v1.ResourceList'']),
      (''conditions'', [''map[string]int'']), (''unschedulable'', [''bool'']), (''runningPods'', [''int''])]"

definition kubeletTypes :: "(string, typing) gomap" where
  "kubeletTypes =
     [(''pod'', podTypes), (''container'', containerTypes), (''volume'', volumeTypes), (''node'', nodeTypes),
      (''network'', [(''default'', [''string''])])]"

section \<open>Typed raw metrics\<close>

definition hasType :: "typing \<Rightarrow> string \<Rightarrow> goval \<Rightarrow> bool" where
  "hasType \<Gamma> k v = (goType v \<in> set (mget0 [] \<Gamma> k))"

definition entTyped :: "typing \<Rightarrow> rawmetrics \<Rightarrow> bool" where
  "entTyped \<Gamma> r = list_all (\<lambda>(k, v). hasType \<Gamma> k v) r"

definition groupTyped :: "string \<Rightarrow> rawentities \<Rightarrow> bool" where
  "groupTyped gl ents = list_all (\<lambda>(eid, r). entTyped (mget0 [] kubeletTypes gl) r) ents"

definition typedGroups :: "rawgroups \<Rightarrow> bool" where
  "typedGroups gs = list_all (\<lambda>(gl, ents). groupTyped gl ents) gs"

named_theorems typing

lemma set_mput_subset: "set (mput k v m) \<subseteq> insert (k, v) (set m)"
  by (induction m) auto

lemma list_all_mput: "list_all P m \<Longrightarrow> P (k, v) \<Longrightarrow> list_all P (mput k v m)"
  using set_mput_subset[of k v m] by (auto simp: list_all_iff)

lemma entTyped_Nil [typing]: "entTyped \<Gamma> []"
  by (simp add: entTyped_def)

lemma entTyped_Cons [typing]: "hasType \<Gamma> k v \<Longrightarrow> entTyped \<Gamma> r \<Longrightarrow> entTyped \<Gamma> ((k, v) # r)"
  by (simp add: entTyped_def)

lemma entTyped_append [typing]: "entTyped \<Gamma> r \<Longrightarrow> entTyped \<Gamma> s \<Longrightarrow> entTyped \<Gamma> (r @ s)"
  by (simp add: entTyped_def)

lemma entTyped_mput [typing]: "hasType \<Gamma> k v \<Longrightarrow> entTyped \<Gamma> r \<Longrightarrow> entTyped \<Gamma> (mput k v r)"
  by (simp add: entTyped_def list_all_mput)

lemma entTyped_mget: "entTyped \<Gamma> r \<Longrightarrow> mget r k = Some v \<Longrightarrow> hasType \<Gamma> k v"
  by (auto simp: entTyped_def list_all_iff dest: map_of_SomeD)

lemma groupTyped_Nil [typing]: "groupTyped gl []"
  by (simp add: groupTyped_def)

lemma groupTyped_mput: "groupTyped gl ents \<Longrightarrow> entTyped (mget0 [] kubeletTypes gl) r \<Longrightarrow> groupTyped gl (mput eid r ents)"
  by (simp add: groupTyped_def list_all_mput)

lemma groupTyped_mget: "groupTyped gl ents \<Longrightarrow> mget ents eid = Some r \<Longrightarrow> entTyped (mget0 [] kubeletTypes gl) r"
  by (auto simp: groupTyped_def list_all_iff dest: map_of_SomeD)

lemma groupTyped_mget0: "groupTyped gl ents \<Longrightarrow> entTyped (mget0 [] kubeletTypes gl) (mget0 [] ents eid)"
  using groupTyped_mget[of gl ents eid] by (cases "mget ents eid") (auto simp: mget0_def intro: typing)

lemma typedGroups_mget: "typedGroups gs \<Longrightarrow> mget gs gl = Some ents \<Longrightarrow> groupTyped gl ents"
  by (auto simp: typedGroups_def list_all_iff dest: map_of_SomeD)

lemma typedGroups_mget0: "typedGroups gs \<Longrightarrow> groupTyped gl (mget0 [] gs gl)"
  using typedGroups_mget[of gs gl] by (cases "mget gs gl") (auto simp: mget0_def intro: typing)

lemma typedGroups_mput: "typedGroups gs \<Longrightarrow> groupTyped gl ents \<Longrightarrow> typedGroups (mput gl ents gs)"
  by (simp add: typedGroups_def list_all_mput)

lemma foldl_keeps: "P s \<Longrightarrow> (\<And>s x. P s \<Longrightarrow> x \<in> set xs \<Longrightarrow> P (f s x)) \<Longrightarrow> P (foldl f s xs)"
  by (induction xs arbitrary: s) auto

definition declares :: "typing \<Rightarrow> string \<Rightarrow> string list \<Rightarrow> bool" where
  "declares \<Gamma> t ks = list_all (\<lambda>k. t \<in> set (mget0 [] \<Gamma> k)) ks"

lemmas type_tables = podTypes_def containerTypes_def volumeTypes_def nodeTypes_def workloadTypes_def networkTypes_def resourceTypes_def
  usageTypes_def ofType_def fsKeys_def

section \<open>The stats summary\<close>

lemma addAll_typed [typing]: "entTyped \<Gamma> r \<Longrightarrow> declares \<Gamma> ''uint64'' (map fst xs) \<Longrightarrow> entTyped \<Gamma> (addAll xs r)"
  unfolding addAll_def declares_def
  by (rule foldl_keeps) (auto simp: AddUint64RawMetric_def list_all_iff hasType_def intro!: typing split: option.split, force)

lemma addInterface_typed: "entTyped \<Gamma> r \<Longrightarrow> declares \<Gamma> ''uint64'' [''rxBytes'', ''txBytes'', ''errors''] \<Longrightarrow> entTyped \<Gamma> (addInterface i r)"
  by (auto simp: addInterface_def Let_def declares_def hasType_def intro!: typing split: option.split)

lemma addNetwork_typed [typing]:
  "entTyped \<Gamma> r \<Longrightarrow> declares \<Gamma> ''uint64'' [''rxBytes'', ''txBytes'', ''errors''] \<Longrightarrow>
     declares \<Gamma> ''map[string]definition.RawMetrics'' [''interfaces''] \<Longrightarrow> entTyped \<Gamma> (addNetwork n r)"
  by (auto simp: addNetwork_def hasType_def declares_def[of _ "''map[string]definition.RawMetrics''"] intro!: typing addInterface_typed split: option.split)

lemma addFs_typed [typing]: "entTyped \<Gamma> r \<Longrightarrow> declares \<Gamma> ''uint64'' (fsKeys pre) \<Longrightarrow> entTyped \<Gamma> (addFs pre fs r)"
  by (auto simp: addFs_def fsKeys_def intro!: typing split: option.split)

lemma addUsage_typed [typing]:
  "entTyped \<Gamma> r \<Longrightarrow> declares \<Gamma> ''uint64'' [''usageNanoCores'', ''usageBytes'', ''workingSetBytes''] \<Longrightarrow> entTyped \<Gamma> (addUsage c m r)"
  by (auto simp: addUsage_def Let_def AddUint64RawMetric_def declares_def hasType_def intro!: typing split: option.split)

text \<open>The declarations, evaluated once.\<close>

lemma pod_strings: "list_all (\<lambda>k. hasType podTypes k (VString s))
    [''namespace'', ''podName'', ''nodeName'', ''nodeIP'', ''podIP'', ''status'', ''isReady'', ''isScheduled'', ''createdBy'', ''createdKind'',
     ''reason'', ''message'', ''priorityClassName'', ''daemonsetName'', ''deploymentName'', ''jobName'', ''replicasetName'', ''statefulsetName'']"
  by code_simp

lemma pod_times: "list_all (\<lambda>k. hasType podTypes k (VTime t))
    [''startTime'', ''createdAt'', ''initializedAt'', ''readyAt'', ''containersReadyAt'', ''scheduledAt'']"
  by code_simp

lemma pod_others: "hasType podTypes ''priority'' (VInt32 w)" "hasType podTypes ''labels'' (VStrMap m)"
  "declares podTypes ''uint64'' [''rxBytes'', ''txBytes'', ''errors'']" "declares podTypes ''map[string]definition.RawMetrics'' [''interfaces'']"
  "declares podTypes ''uint64'' [''usageNanoCores'', ''usageBytes'', ''workingSetBytes'']"
  "declares podTypes ''int64'' [''memoryLimitBytes'', ''memoryRequestedBytes'', ''cpuLimitCores'', ''cpuRequestedCores'']"
  by code_simp+

lemma container_strings: "list_all (\<lambda>k. hasType containerTypes k (VString s))
    [''namespace'', ''podName'', ''nodeName'', ''nodeIP'', ''status'', ''reason'', ''containerName'', ''containerImage'', ''containerID'',
     ''containerImageID'', ''lastTerminatedExitReason'', ''daemonsetName'', ''deploymentName'', ''jobName'', ''replicasetName'', ''statefulsetName'']"
  by code_simp

lemma container_others: "hasType containerTypes ''labels'' (VStrMap m)" "hasType containerTypes ''isReady'' (VBool b)"
  "hasType containerTypes ''restartCount'' (VInt32 w)" "hasType containerTypes ''lastTerminatedExitCode'' (VInt32 w)"
  "hasType containerTypes ''startedAt'' (VTime t)" "hasType containerTypes ''lastTerminatedTimestamp'' (VTime t)"
  "declares containerTypes ''uint64'' (fsKeys ''fs'')"
  "declares containerTypes ''uint64'' [''usageNanoCores'', ''usageBytes'', ''workingSetBytes'']"
  "declares containerTypes ''int64'' [''memoryLimitBytes'', ''memoryRequestedBytes'', ''cpuLimitCores'', ''cpuRequestedCores'']"
  by code_simp+

lemma volume_others: "list_all (\<lambda>k. hasType volumeTypes k (VString s)) [''volumeName'', ''pvcName'', ''pvcNamespace'', ''namespace'', ''podName'']"
  "declares volumeTypes ''uint64'' (fsKeys ''fs'')"
  by code_simp+

lemma node_others: "list_all (\<lambda>k. hasType nodeTypes k (VString s)) [''nodeName'', ''kubeletVersion'']"
  "declares nodeTypes ''uint64'' [''usageNanoCores'', ''usageCoreNanoSeconds'']"
  "declares nodeTypes ''uint64'' [''memoryUsageBytes'', ''memoryAvailableBytes'', ''memoryWorkingSetBytes'', ''memoryRssBytes'',
     ''memoryPageFaults'', ''memoryMajorPageFaults'']"
  "declares nodeTypes ''uint64'' [''rxBytes'', ''txBytes'', ''errors'']" "declares nodeTypes ''map[string]definition.RawMetrics'' [''interfaces'']"
  "declares nodeTypes ''uint64'' (fsKeys ''fs'')" "declares nodeTypes ''uint64'' (fsKeys ''runtime'')"
  "hasType nodeTypes ''labels'' (VStrMap m)" "hasType nodeTypes ''allocatable'' (VResources rs)" "hasType nodeTypes ''capacity'' (VResources rs)"
  "hasType nodeTypes ''memoryRequestedBytes'' (VInt64 w)" "hasType nodeTypes ''cpuRequestedCores'' (VInt64 w)"
  "hasType nodeTypes ''conditions'' (VIntMap im)" "hasType nodeTypes ''unschedulable'' (VBool b)" "hasType nodeTypes ''runningPods'' (VInt w)"
  by code_simp+

lemmas declared = pod_strings[simplified] pod_times[simplified] pod_others container_strings[simplified] container_others
  volume_others(1)[simplified] volume_others(2) node_others(1)[simplified] node_others(2-)

lemma fetchNodeStats_typed: "fetchNodeStats n = Ok (r, eid) \<Longrightarrow> entTyped nodeTypes r"
  by (auto simp: fetchNodeStats_def Let_def declared intro!: typing split: if_splits option.splits)

lemma fetchPodStats_typed: "fetchPodStats p = Ok (r, eid) \<Longrightarrow> entTyped podTypes r"
  by (auto simp: fetchPodStats_def Let_def declared intro!: typing split: if_splits)

lemma fetchContainerStats_typed: "fetchContainerStats c = Ok r \<Longrightarrow> entTyped containerTypes r"
  by (auto simp: fetchContainerStats_def Let_def declared intro!: typing split: if_splits)

lemma fetchVolumeStats_typed: "fetchVolumeStats v = Ok r \<Longrightarrow> entTyped volumeTypes r"
  by (auto simp: fetchVolumeStats_def Let_def declared intro!: typing split: if_splits option.splits)

lemma types_of [simp]:
  "mget0 [] kubeletTypes ''pod'' = podTypes" "mget0 [] kubeletTypes ''container'' = containerTypes"
  "mget0 [] kubeletTypes ''volume'' = volumeTypes" "mget0 [] kubeletTypes ''node'' = nodeTypes"
  by (simp_all add: kubeletTypes_def mget0_def)

lemma putEntity_typed: "typedGroups g \<Longrightarrow> entTyped (mget0 [] kubeletTypes gl) r \<Longrightarrow> typedGroups (putEntity gl eid r g)"
  by (simp add: putEntity_def typedGroups_mput groupTyped_mput typedGroups_mget0)

lemma groupVolume_typed: "typedGroups (fst ge) \<Longrightarrow> typedGroups (fst (groupVolume ns pod ge v))"
  by (auto simp: groupVolume_def Let_def declared intro!: putEntity_typed typing dest: fetchVolumeStats_typed split: result.split)

lemma groupContainer_typed: "typedGroups (fst ge) \<Longrightarrow> typedGroups (fst (groupContainer ns pod ge c))"
  by (auto simp: groupContainer_def Let_def declared intro!: putEntity_typed typing dest: fetchContainerStats_typed split: result.split)

lemma groupPod_typed: "typedGroups (fst ge) \<Longrightarrow> typedGroups (fst (groupPod ge pod))"
  by (auto simp: groupPod_def Let_def intro!: foldl_keeps[where P = "typedGroups \<circ> fst", unfolded comp_def] groupVolume_typed groupContainer_typed
      putEntity_typed dest!: fetchPodStats_typed split: result.split)

lemma GroupStatsSummary_typed: "typedGroups (fst (GroupStatsSummary s))"
proof -
  have e: "typedGroups emptyGroups" "typedGroups []" by (simp_all add: emptyGroups_def typedGroups_def groupTyped_Nil)
  show ?thesis
    by (auto simp: GroupStatsSummary_def Let_def e intro!: foldl_keeps[where P = "typedGroups \<circ> fst", unfolded comp_def] groupPod_typed
        putEntity_typed dest!: fetchNodeStats_typed split: option.split result.split)
qed

section \<open>Pods\<close>

lemma addQuantity_typed [typing]: "entTyped \<Gamma> r \<Longrightarrow> declares \<Gamma> ''int64'' [key] \<Longrightarrow> entTyped \<Gamma> (addQuantity key f rs n r)"
  by (auto simp: addQuantity_def declares_def hasType_def intro!: typing split: option.split)

lemma addResources_typed [typing]:
  "entTyped \<Gamma> r \<Longrightarrow> declares \<Gamma> ''int64'' [''memoryLimitBytes'', ''memoryRequestedBytes'', ''cpuLimitCores'', ''cpuRequestedCores''] \<Longrightarrow>
     entTyped \<Gamma> (addResources rs r)"
  by (auto simp: addResources_def declares_def intro!: typing)

lemma putNonEmpty_typed [typing]: "entTyped \<Gamma> r \<Longrightarrow> hasType \<Gamma> k (VString s) \<Longrightarrow> entTyped \<Gamma> (putNonEmpty k s r)"
  by (auto simp: putNonEmpty_def intro: typing)

definition workloadDeclared :: "typing \<Rightarrow> bool" where
  "workloadDeclared \<Gamma> = (declares \<Gamma> ''string'' [''daemonsetName'', ''deploymentName'', ''jobName'', ''replicasetName'', ''statefulsetName''] \<and>
     declares \<Gamma> ''map[string]string'' [''labels''])"

lemma workload_declared: "workloadDeclared podTypes" "workloadDeclared containerTypes"
  by code_simp+

lemma addWorkload_typed [typing]:
  "entTyped \<Gamma> r \<Longrightarrow> workloadDeclared \<Gamma> \<Longrightarrow> entTyped \<Gamma> (addWorkloadNameBasedOnCreator kind name r)"
  by (simp add: addWorkloadNameBasedOnCreator_def Let_def workloadDeclared_def declares_def entTyped_mput hasType_def)

lemma addOwner_typed [typing]: "entTyped \<Gamma> r \<Longrightarrow> workloadDeclared \<Gamma> \<Longrightarrow> entTyped \<Gamma> (addOwner p r)"
  by (simp add: addOwner_def addWorkload_typed split: list.split prod.split)

lemma addLabels_typed [typing]: "entTyped \<Gamma> r \<Longrightarrow> workloadDeclared \<Gamma> \<Longrightarrow> entTyped \<Gamma> (addLabels p r)"
  by (simp add: addLabels_def Let_def workloadDeclared_def declares_def entTyped_mput hasType_def)

lemma addCondition_typed: "entTyped podTypes r \<Longrightarrow> entTyped podTypes (addCondition r c)"
  by (simp add: addCondition_def addTransition_def declared entTyped_mput)

lemma addConditions_typed: "entTyped podTypes r \<Longrightarrow> entTyped podTypes (foldl addCondition r cs)"
  by (rule foldl_keeps, assumption) (rule addCondition_typed)

lemma fillPodStatus_typed [typing]: "entTyped podTypes r \<Longrightarrow> entTyped podTypes (fillPodStatus r p)"
  by (simp add: fillPodStatus_def declared entTyped_mput addConditions_typed)

lemma podSteps_typed [typing]:
  assumes "entTyped podTypes r"
  shows "entTyped podTypes (addStartTime p r)" "entTyped podTypes (addCreated p r)" "entTyped podTypes (addPriority p r)"
    "entTyped podTypes (addCreator p r)" "entTyped podTypes (addPodResources p r)"
  using assms by (simp_all add: addStartTime_def addCreated_def addPriority_def addCreator_def addPodResources_def declared workload_declared
    entTyped_mput addWorkload_typed addResources_typed split: option.split list.split prod.split)

lemma fetchPodData_typed: "entTyped podTypes (fetchPodData p)"
  unfolding fetchPodData_def Let_def by (intro typing) (simp_all add: declared workload_declared)

lemma containerStatusMetrics_typed: "entTyped containerTypes (containerStatusMetrics c)"
  by (auto simp: containerStatusMetrics_def lastTerminatedAttrs_def declared intro!: typing split: option.split)

lemma fillContainerStatuses_typed: "entTyped containerTypes (mget0 [] (fillContainerStatuses p byName) i)"
proof -
  have "groupTyped ''container'' (fillContainerStatuses p byName)"
    unfolding fillContainerStatuses_def
    by (rule foldl_keeps) (auto intro!: typing groupTyped_mput simp: containerStatusMetrics_typed)
  then show ?thesis using groupTyped_mget0[of "''container''"] by simp
qed

lemma copy_typed: "entTyped \<Gamma> m \<Longrightarrow> entTyped \<Gamma> r \<Longrightarrow> entTyped \<Gamma> (foldl (\<lambda>r (k, v). mput k v r) r m)"
  by (rule foldl_keeps) (auto intro!: entTyped_mput simp: entTyped_def[of \<Gamma> m] list_all_iff)

lemma containerMetrics_typed: "entTyped containerTypes (containerMetrics p byName (fillContainerStatuses p byName) c)"
  unfolding containerMetrics_def Let_def
  by (intro typing copy_typed fillContainerStatuses_typed) (simp_all add: declared workload_declared)

lemma fetchContainersData_typed: "groupTyped ''container'' (fetchContainersData p)"
  unfolding fetchContainersData_def Let_def
  by (rule foldl_keeps) (auto intro!: typing groupTyped_mput simp: containerMetrics_typed)

definition gapTyped :: "gapstate \<Rightarrow> bool" where
  "gapTyped st = (groupTyped ''pod'' (GPods st) \<and> groupTyped ''container'' (GContainers st))"

lemma gapContainer_typed: "gapTyped st \<Longrightarrow> entTyped containerTypes c \<Longrightarrow> gapTyped (gapContainer st (cid, c))"
  by (auto simp: gapTyped_def gapContainer_def Let_def declared intro!: groupTyped_mput typing)

lemma gapPod_typed: "gapTyped st \<Longrightarrow> gapTyped (gapPod st p)"
  unfolding gapPod_def Let_def
proof (rule foldl_keeps)
  fix st x
  assume "gapTyped st" "x \<in> set (fetchContainersData p)"
  then show "gapTyped (gapContainer st x)"
    using fetchContainersData_typed[of p] by (cases x) (auto simp: groupTyped_def list_all_iff intro: gapContainer_typed)
qed (auto simp: gapTyped_def declared intro!: groupTyped_mput typing fetchPodData_typed)

lemma fillMissing_typed: "groupTyped gl ents \<Longrightarrow> hasType (mget0 [] kubeletTypes gl) ''nodeIP'' (VString ip) \<Longrightarrow> groupTyped gl (fillMissing ip ids ents)"
  unfolding fillMissing_def by (rule foldl_keeps) (auto intro!: groupTyped_mput typing groupTyped_mget0)

lemma fillGaps_typed: "typedGroups (fillGaps pods)"
proof -
  have "gapTyped (foldl gapPod \<lparr>GPods = [], GContainers = [], nodeIP = [], missingPods = [], missingContainers = []\<rparr> pods)"
    by (rule foldl_keeps) (simp add: gapTyped_def groupTyped_Nil, rule gapPod_typed)
  then show ?thesis
    by (simp add: fillGaps_def Let_def typedGroups_def gapTyped_def fillMissing_typed declared)
qed

lemma DoPodsFetch_typed: "DoPodsFetch decode Get URI f = Ok g \<Longrightarrow> typedGroups g"
  by (auto simp: DoPodsFetch_def rbind_Ok_iff fillGaps_typed split: if_splits prod.splits option.splits result.splits)

section \<open>cAdvisor\<close>

text \<open>The families a client returns bear the names of the queries.\<close>

definition namedBy :: "query list \<Rightarrow> metricfamily list \<Rightarrow> bool" where
  "namedBy queries fs = list_all (\<lambda>f. FName f \<in> set (map queryName queries)) fs"

lemma Execute_named: "valid (Execute ss q pf) \<Longrightarrow> FName (Execute ss q pf) = queryName q"
  unfolding valid_Execute_iff by (auto simp: Execute_def queryName_def zeroFamily_def split: if_splits)

lemma handleResponse_named: "handleResponseWithFilter ss parser late resp queries = Ok fs \<Longrightarrow> namedBy queries fs"
proof -
  assume ok: "handleResponseWithFilter ss parser late resp queries = Ok fs"
  then obtain r where r: "resp = Some r" "StatusCode r = 200"
    by (cases resp) (simp_all add: handleResponseWithFilter_def split: if_splits)
  obtain families perr where "parseResponse parser (Body r) = (families, perr)" by force
  then have "fs = concat (map (\<lambda>pf. filter valid (map (\<lambda>q. Execute ss q pf) queries)) families)"
    using ok r by (simp add: handleResponseWithFilter_def Let_def split: option.splits if_splits)
  then show ?thesis by (auto simp: namedBy_def list_all_iff Execute_named)
qed

lemma GetFiltered_named: "GetFilteredMetricFamilies ss parser late urlErr Do url queries = Ok fs \<Longrightarrow> namedBy queries fs"
  by (auto simp: GetFilteredMetricFamilies_def rbindw_Ok_iff dest: handleResponse_named)

lemma cadvisor_declared: "list_all (\<lambda>q. list_all (\<lambda>t. t \<in> set (mget0 [] containerTypes (queryName q))) promTypes) CadvisorQueries"
  by code_simp

lemma goType_of_pvalue: "goType (of_pvalue p) \<in> set promTypes"
  by (cases p) (simp_all add: promTypes_def)

lemma cadvisorMetric_typed:
  assumes "groupTyped ''container'' (fst ce)" "name \<in> set (map queryName CadvisorQueries)"
  shows "groupTyped ''container'' (fst (cadvisorMetric name ce m))"
proof -
  have "hasType containerTypes name (of_pvalue p)" for p
    using cadvisor_declared assms(2) goType_of_pvalue[of p] by (auto simp: hasType_def list_all_iff)
  note name = this
  obtain cs es where ce: "ce = (cs, es)" by force
  then have cs: "groupTyped ''container'' cs" using assms(1) by simp
  show ?thesis
  proof (cases "createRawEntityID m")
    case (Ok i)
    define ms where "ms = (case mget cs i of Some ms \<Rightarrow> ms | None \<Rightarrow> [(''containerID'', VString (extractContainerID (label m ''id'')))])"
    have "entTyped containerTypes ms"
      using groupTyped_mget[OF cs, of i] by (simp add: ms_def entTyped_Cons entTyped_Nil declared split: option.split)
    then show ?thesis using cs
      by (simp add: cadvisorMetric_def ce Ok Let_def ms_def[symmetric] groupTyped_mput entTyped_mput name declared)
  qed (use cs in \<open>simp_all add: cadvisorMetric_def ce\<close>)
qed

lemma CadvisorFetch_typed:
  assumes "\<And>fs. get CadvisorQueries = Ok fs \<Longrightarrow> namedBy CadvisorQueries fs" "CadvisorFetchFunc get CadvisorQueries = Ok (g, e)"
  shows "typedGroups g"
proof -
  obtain families where f: "get CadvisorQueries = Ok families" using assms(2) by (auto simp: CadvisorFetchFunc_def rbindw_Ok_iff)
  define ce where "ce = foldl (\<lambda>ce f. foldl (cadvisorMetric (FName f)) ce (Metrics f)) ([], []) families"
  have "groupTyped ''container'' (fst ce)"
    unfolding ce_def using assms(1)[OF f]
    by (intro foldl_keeps[where P = "\<lambda>ce. groupTyped ''container'' (fst ce)"])
       (auto simp: namedBy_def list_all_iff groupTyped_Nil intro: cadvisorMetric_typed)
  then show ?thesis using assms(2) f by (auto simp: CadvisorFetchFunc_def ce_def[symmetric] typedGroups_def split: prod.splits)
qed

section \<open>The grouper\<close>

lemma mergeEntity_typed: "entTyped \<Gamma> e \<Longrightarrow> entTyped \<Gamma> new \<Longrightarrow> entTyped \<Gamma> (mergeEntity e new)"
  unfolding mergeEntity_def by (rule foldl_keeps) (auto intro!: entTyped_mput simp: entTyped_def[of \<Gamma> new] list_all_iff)

lemma mergeGroup_typed: "groupTyped gl dest \<Longrightarrow> groupTyped gl g \<Longrightarrow> groupTyped gl (mergeGroup dest g)"
  by (auto simp: mergeGroup_def groupTyped_def[of gl dest] groupTyped_def[of gl "map _ _"] list_all_iff
      intro!: mergeEntity_typed dest: groupTyped_mget split: option.split)

lemma merge_typed: "typedGroups d \<Longrightarrow> typedGroups src \<Longrightarrow> typedGroups (fillGroupsAndMergeNonExistent d src)"
  unfolding merge_fold
  by (rule foldl_keeps)
     (auto simp: mergeStep_def typedGroups_def[of src] list_all_iff intro!: typedGroups_mput mergeGroup_typed dest: typedGroups_mget split: option.split)

lemma nodeGroup_typed: "typedGroups (nodeGroup name node mem cpu running)"
  by (simp add: nodeGroup_def typedGroups_def groupTyped_def entTyped_Cons entTyped_Nil declared)

definition typedFetcher :: "groupresult \<Rightarrow> bool" where
  "typedFetcher f \<longleftrightarrow> (\<forall>g e. f = Ok (g, e) \<longrightarrow> typedGroups g)"

lemma typedFetcher_simps [simp]: "typedFetcher (Ok (g, e)) = typedGroups g" "typedFetcher (Fail x)" "typedFetcher (Panic p)"
  by (simp_all add: typedFetcher_def)

lemma runFetchers_typed:
  "\<forall>f \<in> set fs. typedFetcher f \<Longrightarrow> typedGroups g \<Longrightarrow> runFetchers fs g = Ok g' \<Longrightarrow> typedGroups g'"
  by (induction fs g rule: runFetchers.induct) (auto simp: typedFetcher_def rbind_Ok_iff intro: merge_typed)

lemma runFetchers_no_panic: "\<forall>f \<in> set fs. \<not> is_panic f \<Longrightarrow> \<not> is_panic (runFetchers fs g)"
  by (induction fs g rule: runFetchers.induct) (auto intro!: rbind_no_panic)

lemma goType_int64: "goType v = ''int64'' \<Longrightarrow> \<exists>w. v = VInt64 w"
  by (cases v) (auto elim: goType.elims)

lemma requestTyped: "typedGroups g \<Longrightarrow> requestTyped (mget0 [] g ''container'')"
proof -
  assume g: "typedGroups g"
  have t: "mget0 [] containerTypes ''memoryRequestedBytes'' = [''int64'']" "mget0 [] containerTypes ''cpuRequestedCores'' = [''int64'']"
    by code_simp+
  have "mget r k = None \<or> (\<exists>w. mget r k = Some (VInt64 w))"
    if "(i, r) \<in> set (mget0 [] g ''container'')" "mget0 [] containerTypes k = [''int64'']" for i r k
  proof (cases "mget r k")
    case (Some v)
    have "entTyped containerTypes r" using typedGroups_mget0[OF g, of "''container''"] that(1) by (auto simp: groupTyped_def list_all_iff)
    from entTyped_mget[OF this Some] show ?thesis using Some that(2) by (simp add: hasType_def goType_int64)
  qed simp
  note this[OF _ t(1)] this[OF _ t(2)]
  then show ?thesis by (auto simp: requestTyped_def)
qed

text \<open>
  The grouper stores typed values when its fetchers do, and it does not panic when what it calls does not:
  the assertions on the requested resources succeed.
\<close>

definition network :: "kubeletconfig \<Rightarrow> rawgroups" where
  "network cfg = [(''network'', [(''interfaces'', [(''default'', VString (DefaultNetworkInterface cfg))])])]"

lemma network_typed: "typedGroups (network cfg)"
  by (simp add: network_def typedGroups_def groupTyped_def entTyped_def hasType_def kubeletTypes_def mget0_def)

lemma summary_typed: "typedGroups g \<Longrightarrow> GroupStatsSummary s = (rs, es) \<Longrightarrow> typedGroups (fillGroupsAndMergeNonExistent g rs)"
  using GroupStatsSummary_typed[of s] by (simp add: merge_typed)

lemma kubeletGroup_typed:
  assumes "\<forall>f \<in> set (Fetchers cfg). typedFetcher f"
  shows "typedFetcher (kubeletGroup cfg specs)"
proof -
  have fetched: "typedGroups g" if "runFetchers (Fetchers cfg) (network cfg) = Ok g" for g
    using runFetchers_typed[OF assms network_typed that] .
  have summed: "typedFetcher (rbind (requestedSums g) (\<lambda>(mem, cpu). Ok (fillGroupsAndMergeNonExistent g (nodeGroup n nd mem cpu k), None)))"
    if "typedGroups g" for g n nd k
    using that by (simp add: requestedSums_total requestTyped merge_typed nodeGroup_typed)
  have "typedGroups []" by (simp add: typedGroups_def)
  then show ?thesis using fetched unfolding kubeletGroup_def network_def Let_def
    by (auto split: result.split prod.split intro!: summed intro: summary_typed)
qed

definition safeKubelet :: "kubeletconfig \<Rightarrow> bool" where
  "safeKubelet cfg \<longleftrightarrow> (\<forall>f \<in> set (Fetchers cfg). typedFetcher f \<and> \<not> is_panic f) \<and> (\<forall>n. \<not> is_panic (NodeGetter cfg n)) \<and>
     (\<forall>b. \<not> is_panic (SummaryDecode cfg b)) \<and> (\<forall>p. \<not> is_panic (HTTPGet cfg p))"

lemma GetMetricsData_no_panic:
  "(\<And>b. \<not> is_panic (decode b)) \<Longrightarrow> (\<And>p. \<not> is_panic (get p)) \<Longrightarrow> \<not> is_panic (GetMetricsData decode get)"
  unfolding GetMetricsData_def by (intro rbindw_no_panic) (auto simp: Let_def split: prod.split intro!: rbindw_no_panic)

lemma kubeletGroup_no_panic:
  assumes "safeKubelet cfg"
  shows "\<not> is_panic (kubeletGroup cfg specs)"
proof -
  have fetched: "runFetchers (Fetchers cfg) (network cfg) \<noteq> Panic p" for p
    using assms runFetchers_no_panic[of "Fetchers cfg" "network cfg"] by (metis safeKubelet_def is_panic.simps(1))
  have data: "GetMetricsData (SummaryDecode cfg) (HTTPGet cfg) \<noteq> Panic p" for p
    using assms GetMetricsData_no_panic[of "SummaryDecode cfg" "HTTPGet cfg"] by (metis safeKubelet_def is_panic.simps(1))
  have node: "NodeGetter cfg n \<noteq> Panic p" for n p using assms by (metis safeKubelet_def is_panic.simps(1))
  have summed: "\<not> is_panic (requestedSums g)" if "typedGroups g" for g
    using that by (simp add: requestedSums_total requestTyped)
  have "typedGroups g" if "runFetchers (Fetchers cfg) (network cfg) = Ok g" for g
    using runFetchers_typed[OF _ network_typed that] assms by (simp add: safeKubelet_def)
  then show ?thesis
    using fetched data node unfolding kubeletGroup_def network_def Let_def
    by (auto split: result.split prod.split intro!: summed intro: summary_typed)
qed

section \<open>The specifications\<close>

text \<open>
  The Go types that a transformation accepts, and the expressions that respect the declarations: they read
  declared keys, transform values of accepted types, and take percentages of \<open>uint64\<close> values only.
\<close>

fun accepts :: "transform \<Rightarrow> string \<Rightarrow> bool" where
  "accepts tFromNano t = (t = ''uint64'')"
| "accepts tFromNanoToMilli t = (t = ''uint64'')"
| "accepts tToTimestamp t = (t = ''time.Time'')"
| "accepts tToNumericBoolean t = (t = ''bool'' \<or> t = ''string'')"
| "accepts tToCores t = (t = ''int'' \<or> t = ''int64'')"
| "accepts tFromPrometheusNumeric t = (t = ''prometheus.GaugeValue'' \<or> t = ''prometheus.CounterValue'')"
| "accepts tOneMetricPerLabel t = (t = ''map[string]string'')"
| "accepts tOneAttributePerAllocatable t = (t = ''v1.ResourceList'')"
| "accepts tOneAttributePerCapacity t = (t = ''v1.ResourceList'')"
| "accepts (tPrefixFromMapInt pre) t = (t = ''map[string]int'')"

definition declaredAs :: "typing \<Rightarrow> (string \<Rightarrow> bool) \<Rightarrow> string \<Rightarrow> bool" where
  "declaredAs \<Gamma> P k = (case mget \<Gamma> k of None \<Rightarrow> False | Some ts \<Rightarrow> list_all P ts)"

fun wellTyped :: "typing \<Rightarrow> fetcher \<Rightarrow> bool" where
  "wellTyped \<Gamma> (eFromRaw k) = mhas \<Gamma> k"
| "wellTyped \<Gamma> (eTransform (eFromRaw k) t) = declaredAs \<Gamma> (accepts t) k"
| "wellTyped \<Gamma> (eTransformAndFilter (eFromRaw k) t p) = declaredAs \<Gamma> (accepts t) k"
| "wellTyped \<Gamma> (eToUtilization f g) = (wellTyped \<Gamma> f \<and> wellTyped \<Gamma> g)"
| "wellTyped \<Gamma> (eToComplementPercentage d c) = (declaredAs \<Gamma> (\<lambda>t. t = ''uint64'') d \<and> declaredAs \<Gamma> (\<lambda>t. t = ''uint64'') c)"
| "wellTyped \<Gamma> eIsPersistentVolume = declaredAs \<Gamma> (\<lambda>t. t = ''string'') ''pvcName''"
| "wellTyped \<Gamma> eAllocatableCPUCores = declaredAs \<Gamma> (\<lambda>t. t = ''v1.ResourceList'') ''allocatable''"
| "wellTyped \<Gamma> eAllocatableMemoryBytes = declaredAs \<Gamma> (\<lambda>t. t = ''v1.ResourceList'') ''allocatable''"
| "wellTyped \<Gamma> _ = False"

fun valueTyped :: "typing \<Rightarrow> valueexpr \<Rightarrow> bool" where
  "valueTyped \<Gamma> (Fetch f) = wellTyped \<Gamma> f"
| "valueTyped \<Gamma> (Fallback k) = declaredAs \<Gamma> (\<lambda>t. t = ''uint64'') k"

lemma pod_wellTyped: "list_all (valueTyped podTypes \<circ> EFetch) kubeletPodSpecs"
  by code_simp

lemma container_wellTyped: "list_all (valueTyped containerTypes \<circ> EFetch) kubeletContainerSpecs"
  by code_simp

lemma node_wellTyped: "list_all (valueTyped nodeTypes \<circ> EFetch) kubeletNodeSpecs"
  by code_simp

lemma volume_wellTyped: "list_all (valueTyped volumeTypes \<circ> EFetch) kubeletVolumeSpecs"
  by code_simp

lemma kubelet_wellTyped:
  "list_all (\<lambda>(gl, g). list_all (valueTyped (mget0 [] kubeletTypes gl) \<circ> EFetch) (ESpecs g) \<and> ESplitByLabel g = []) NewKubeletSpecs"
  by (simp add: NewKubeletSpecs_def kubeletPod_def kubeletContainer_def kubeletNode_def kubeletVolume_def
      pod_wellTyped container_wellTyped node_wellTyped volume_wellTyped)

lemma rawMetric_typed: "typedGroups gs \<Longrightarrow> rawMetric gs gl eid k = Some v \<Longrightarrow> hasType (mget0 [] kubeletTypes gl) k v"
  by (auto simp: rawMetric_def bind_eq_Some_conv intro: typedGroups_mget groupTyped_mget entTyped_mget)

lemma rawMetric_declaredAs: "typedGroups gs \<Longrightarrow> rawMetric gs gl eid k = Some v \<Longrightarrow> declaredAs (mget0 [] kubeletTypes gl) P k \<Longrightarrow> P (goType v)"
  by (auto simp: declaredAs_def list_all_iff hasType_def mget0_def dest: rawMetric_typed split: option.splits)

lemma goType_uint64: "goType v = ''uint64'' \<Longrightarrow> \<exists>w. v = VUint64 w"
  by (cases v) (auto elim: goType.elims)

lemma accepts_transform: "accepts t (goType v) \<Longrightarrow> t \<noteq> tToNumericBoolean \<Longrightarrow> \<exists>w. runTransform cc t v = Ok w"
  by (cases t; cases v rule: goType.cases)
     (auto simp: fromNano_def fromNanoToMilli_def toTimestamp_def toCores_def fromPrometheusNumeric_def OneMetricPerLabel_def
       OneAttributePerAllocatable_def OneAttributePerCapacity_def oneAttributePerResource_def PrefixFromMapInt_def)

lemma complement_typed:
  assumes "typedGroups gs" "wellTyped (mget0 [] kubeletTypes gl) (eToComplementPercentage d c)"
  shows "\<not> is_panic (toComplementPercentage d c gl eid gs)"
  unfolding toComplementPercentage_def
proof (intro rbind_no_panic rbindw_no_panic)
  fix v assume "FromRaw c gl eid gs = Ok v"
  then have "goType v = ''uint64''" using rawMetric_declaredAs[OF assms(1), of gl eid c v "\<lambda>t. t = ''uint64''"] assms(2) by (simp add: FromRaw_Ok_iff)
  then show "\<not> is_panic (asUint64 v)" by (auto dest!: goType_uint64 simp: asUint64_def)
next
  fix v assume "FromRaw d gl eid gs = Ok v"
  then have "goType v = ''uint64''" using rawMetric_declaredAs[OF assms(1), of gl eid d v "\<lambda>t. t = ''uint64''"] assms(2) by (simp add: FromRaw_Ok_iff)
  then show "\<not> is_panic (asUint64 v)" by (auto dest!: goType_uint64 simp: asUint64_def)
qed simp_all

lemma wellTyped_no_panic:
  "typedGroups gs \<Longrightarrow> wellTyped (mget0 [] kubeletTypes gl) f \<Longrightarrow> \<not> is_panic (runFetcher cc f gl eid gs)"
proof (induction "mget0 [] kubeletTypes gl" f rule: wellTyped.induct)
  case (5 d c)
  then show ?case using complement_typed by simp
qed (auto simp: Transform_def TransformAndFilter_def toUtilization_def split: result.split)

lemma fallback_no_panic: "\<not> is_panic (fst (FromRawWithFallbackToDefaultInterface k gl eid gs c))"
proof -
  have m: "\<not> is_panic (getMetricFromInterface i k e)" for i e
    by (auto simp: getMetricFromInterface_def getInterfaces_def split: option.split goval.split)
  have "\<not> is_panic (resolveInterface gl k e gs)" for e
    by (auto simp: resolveInterface_def resolveInterfaceHeuristic_def getInterfaces_def selectPrimaryInterface_def Let_def
        split: option.split goval.split intro!: rbind_no_panic rbindw_no_panic)
  moreover have "\<not> is_panic (getEntityMetrics gl eid gs)" by (simp add: getEntityMetrics_def split: option.split)
  ultimately show ?thesis using m
    by (auto simp: FromRawWithFallbackToDefaultInterface_def split: result.split option.split) (metis is_panic.simps(1))+
qed

lemma valueTyped_no_panic:
  "typedGroups gs \<Longrightarrow> valueTyped (mget0 [] kubeletTypes gl) v \<Longrightarrow> \<not> is_panic (fst (runValue cc v gl eid gs c))"
  by (cases v) (simp_all add: liftFetch_def wellTyped_no_panic fallback_no_panic)

lemma kubelet_quiet: "list_all (quietGenerators \<circ> snd) NewKubeletSpecs"
  by (simp add: NewKubeletSpecs_def quietGenerators_def kubeletPod_def kubeletContainer_def kubeletNode_def kubeletVolume_def)

section \<open>Scraping the kubelet\<close>

lemma groupsForEntity_typed: "typedGroups gs \<Longrightarrow> entTyped (mget0 [] kubeletTypes gl) (rawMetricsOf u) \<Longrightarrow> typedGroups (groupsForEntity gs gl u)"
proof -
  assume gs: "typedGroups gs" and u: "entTyped (mget0 [] kubeletTypes gl) (rawMetricsOf u)"
  have "typedGroups (foldl (\<lambda>g (n, v). mput n v g) [] gs)"
  proof (rule foldl_keeps)
    fix s x
    assume "typedGroups s" "x \<in> set gs"
    then show "typedGroups (case x of (n, v) \<Rightarrow> mput n v s)"
      using gs by (cases x) (auto simp: typedGroups_def[of gs] list_all_iff intro: typedGroups_mput)
  qed (simp add: typedGroups_def)
  then show ?thesis using u by (simp add: groupsForEntity_def typedGroups_mput groupTyped_def)
qed

interpretation kubelet_specs: calm_scrape typedGroups "runSpecs cc NewKubeletSpecs"
  for cc :: "string \<Rightarrow> string"
proof
  fix gl sg
  assume "mget (runSpecs cc NewKubeletSpecs) gl = Some sg"
  then obtain g where g: "(gl, g) \<in> set NewKubeletSpecs" "sg = runGroup cc g" by (auto simp: runSpecs_def dest!: map_of_SomeD)
  then have "list_all (valueTyped (mget0 [] kubeletTypes gl) \<circ> EFetch) (ESpecs g)" "ESplitByLabel g = []" "quietGenerators g"
    using kubelet_wellTyped kubelet_quiet by (fastforce simp: list_all_iff)+
  moreover from this have "calmSpec typedGroups gl (runEntry cc e)" if "e \<in> set (ESpecs g)" for e
    using that by (auto simp: calmSpec_def runEntry_def list_all_iff dest!: valueTyped_no_panic)
  ultimately show "calmGroup typedGroups gl sg" unfolding g(2)
    by (auto simp: calmGroup_def runGroup_def quietGenerators_def)
next
  fix gs :: rawgroups and gl ents eid r sg u
  assume a: "typedGroups gs" "(gl, ents) \<in> set gs" "(eid, r) \<in> set ents" "mget (runSpecs cc NewKubeletSpecs) gl = Some sg" "unitOf sg eid r u"
  then obtain g where g: "(gl, g) \<in> set NewKubeletSpecs" "sg = runGroup cc g" by (auto simp: runSpecs_def dest!: map_of_SomeD)
  then have "SplitByLabel sg = []" using kubelet_wellTyped by (fastforce simp: list_all_iff runGroup_def)
  moreover have "entTyped (mget0 [] kubeletTypes gl) r" using a(1-3) by (fastforce simp: typedGroups_def groupTyped_def list_all_iff)
  ultimately show "typedGroups (groupsForEntity gs gl u)" using a by (intro groupsForEntity_typed) (auto simp: unitOf_def)
qed

text \<open>The two fetchers of the kubelet: pods, and cAdvisor with a client that applies the queries.\<close>

lemma pods_safe:
  assumes "\<And>s. \<not> is_panic (decode s)" "\<And>p. \<not> is_panic (get p)" "\<And>p. \<not> is_panic (getURI p)"
  shows "\<not> is_panic (DoPodsFetch decode get getURI f)"
  unfolding DoPodsFetch_def
  by (intro rbind_no_panic) (use assms in \<open>auto simp: Kubelet_Pods.Fetch_def split: prod.split option.split result.split\<close>, metis is_panic.simps(1))

lemma cadvisor_safe: "\<not> is_panic (get queries) \<Longrightarrow> \<not> is_panic (CadvisorFetchFunc get queries)"
  unfolding CadvisorFetchFunc_def by (intro rbindw_no_panic) (auto split: prod.split)

text \<open>The fetchers of the scraper; \<open>getFiltered\<close> is the client of the Prometheus endpoint.\<close>

definition kubeletFetchers ::
  "(string \<Rightarrow> pod list result) \<Rightarrow> (string \<Rightarrow> httpresponse result) \<Rightarrow> (string \<Rightarrow> httpresponse result) \<Rightarrow> podsfetcher
     \<Rightarrow> (string \<Rightarrow> query list \<Rightarrow> metricfamily list result) \<Rightarrow> kubeletclient \<Rightarrow> string \<Rightarrow> groupresult list" where
  "kubeletFetchers decode get getURI f getFiltered kc path =
     [rbind (DoPodsFetch decode get getURI f) (\<lambda>g. Ok (g, None)), CadvisorFetchFunc (MetricFamiliesGetFunc getFiltered kc path) CadvisorQueries]"

lemma kubeletFetchers_typed:
  assumes "\<And>url fs. getFiltered url CadvisorQueries = Ok fs \<Longrightarrow> namedBy CadvisorQueries fs"
    and "x \<in> set (kubeletFetchers decode get getURI f getFiltered kc path)"
  shows "typedFetcher x"
proof -
  have "typedFetcher (CadvisorFetchFunc (MetricFamiliesGetFunc getFiltered kc path) CadvisorQueries)"
    using assms(1) by (auto simp: typedFetcher_def MetricFamiliesGetFunc_def rbindw_Ok_iff dest!: CadvisorFetch_typed[rotated])
  moreover have "typedFetcher (rbind (DoPodsFetch decode get getURI f) (\<lambda>g. Ok (g, None)))"
    using DoPodsFetch_typed[of decode get getURI f] by (auto simp: typedFetcher_def rbind_Ok_iff)
  ultimately show ?thesis using assms(2) by (auto simp: kubeletFetchers_def)
qed

lemma kubelet_job_calm:
  assumes "JGrouper j = kubeletGroup cfg" "JSpecs j = runSpecs cc NewKubeletSpecs" "calmSdk sdk" "safeKubelet cfg"
  shows "calm (JobPopulate sdk j cn cid v)"
  using assms kubeletGroup_no_panic[OF assms(4)] kubeletGroup_typed[of cfg "runSpecs cc NewKubeletSpecs"]
  by (intro kubelet_specs.job_calm) (auto simp: typedFetcher_def safeKubelet_def)

text \<open>
  C8: The raw metrics of the kubelet are well-typed: whatever the endpoints answer, every value that the
  grouper stores has a Go type that the tables declare for its group and key, and each transformation that the
  specifications apply to a raw metric accepts it, the conversion of strings to numeric booleans excepted.
\<close>

theorem kubelet_groups_typed:
  assumes "Fetchers cfg = kubeletFetchers decode get getURI f (GetFilteredMetricFamilies ss parser late urlErr Do) kc path"
    and "kubeletGroup cfg specs = Ok (groups, e)"
  shows "typedGroups groups \<and>
    (\<forall>(gl, g) \<in> set NewKubeletSpecs. \<forall>sp \<in> set (ESpecs g). \<forall>k t eid v.
       EFetch sp = Fetch (eTransform (eFromRaw k) t) \<and> t \<noteq> tToNumericBoolean \<and> rawMetric groups gl eid k = Some v \<longrightarrow>
       (\<exists>w. runTransform cc t v = Ok w))"
proof -
  have "\<forall>f \<in> set (Fetchers cfg). typedFetcher f"
    unfolding assms(1) by (auto dest: GetFiltered_named intro: kubeletFetchers_typed)
  then have t: "typedGroups groups" using kubeletGroup_typed[of cfg specs] assms(2) by (auto simp: typedFetcher_def)
  have "\<exists>w. runTransform cc t v = Ok w"
    if "(gl, g) \<in> set NewKubeletSpecs" "sp \<in> set (ESpecs g)" "EFetch sp = Fetch (eTransform (eFromRaw k) t)" "t \<noteq> tToNumericBoolean"
      "rawMetric groups gl eid k = Some v" for gl g sp k t eid v
  proof -
    have "valueTyped (mget0 [] kubeletTypes gl) (EFetch sp)" using kubelet_wellTyped that(1,2) by (fastforce simp: list_all_iff)
    then show ?thesis using rawMetric_declaredAs[OF t that(5)] that(3,4) by (auto intro: accepts_transform)
  qed
  then show ?thesis using t by blast
qed

definition exampleTypedPod :: pod where
  "exampleTypedPod = (examplePod ''p'' ''10.0.0.1'')\<lparr>Containers :=
     [\<lparr>KName = ''c'', Image = ''i'', KResources = \<lparr>Requests = [(''memory'', \<lparr>QtyValue = 7, QtyMilliValue = 7000, QtyFloat64 = Fin 7\<rparr>)], Limits = []\<rparr>,
       RestartPolicy = None\<rparr>]\<rparr>"

definition exampleAnswer :: httpresponse where
  "exampleAnswer = \<lparr>StatusCode = 200, Body = \<lparr>Content = ''{}'', ReadErr = None\<rparr>\<rparr>"

definition exampleNodeObject :: k8snode where
  "exampleNodeObject = \<lparr>NodeLabels = [], Allocatable = [], Capacity = [], NodeConditions = [], Unschedulable = False, KubeletVersion = ''v1''\<rparr>"

definition exampleFetchers :: "groupresult list" where
  "exampleFetchers = kubeletFetchers (\<lambda>_. Ok [exampleTypedPod]) (\<lambda>_. Ok exampleAnswer) (\<lambda>_. Ok exampleAnswer) \<lparr>useKubeService = False, uri = []\<rparr>
     (GetFilteredMetricFamilies (\<lambda>_. []) (\<lambda>_. ([], None)) False (\<lambda>_. None) (\<lambda>_. Ok (Some exampleAnswer)))
     \<lparr>kcDoer = undefined, kcRetries = 0, kcEndpoint = \<lparr>UScheme = ''https'', UHost = ''h'', UPath = []\<rparr>\<rparr> ''/metrics/cadvisor''"

definition exampleScrape :: "groupresult list \<Rightarrow> kubeletconfig" where
  "exampleScrape fetchers = \<lparr>NodeGetter = (\<lambda>_. Ok exampleNodeObject), SummaryDecode = (\<lambda>_. Ok exampleSummary), HTTPGet = (\<lambda>_. Ok exampleAnswer),
     Fetchers = fetchers, DefaultNetworkInterface = ''eth0''\<rparr>"

lemma exampleFetchers_eq: "exampleFetchers = [Ok (fillGaps [exampleTypedPod], None), Ok ([(''container'', [])], None)]"
proof -
  have "DoPodsFetch (\<lambda>_. Ok [exampleTypedPod]) (\<lambda>_. Ok exampleAnswer) (\<lambda>_. Ok exampleAnswer) \<lparr>useKubeService = False, uri = []\<rparr> =
      Ok (fillGaps [exampleTypedPod])"
    by (simp add: DoPodsFetch_def Kubelet_Pods.Fetch_def exampleAnswer_def readAllLimited_def maxPodsResponseBytes_def)
  moreover have "GetFilteredMetricFamilies (\<lambda>_. []) (\<lambda>_. ([], None)) False (\<lambda>_. None) (\<lambda>_. Ok (Some exampleAnswer)) u CadvisorQueries = Ok []" for u
    by (simp add: GetFilteredMetricFamilies_def NewRequest_def handleResponseWithFilter_def parseResponse_def exampleAnswer_def
        filterUnsupportedMetrics_def scannerErr_def rawLines_def maxScanTokenSize_def Let_def)
  ultimately show ?thesis by (simp add: exampleFetchers_def kubeletFetchers_def CadvisorFetchFunc_def MetricFamiliesGetFunc_def)
qed

theorem kubelet_groups_typed_witness:
  "\<exists>groups. kubeletGroup (exampleScrape exampleFetchers) (runSpecs id NewKubeletSpecs) = Ok (groups, None) \<and> typedGroups groups \<and>
     rawMetric groups ''node'' ''n'' ''memoryRequestedBytes'' = Some (VInt64 7)"
proof -
  let ?specs = "runSpecs id NewKubeletSpecs"
  let ?cfg = "exampleScrape [Ok (fillGaps [exampleTypedPod], None), Ok ([(''container'', [])], None)]"
  have "kubeletGroup ?cfg sp = kubeletGroup ?cfg ([] :: interfacecache option specgroups)" for sp :: "interfacecache option specgroups"
    by (simp add: kubeletGroup_def)
  then have eq: "kubeletGroup ?cfg ([] :: interfacecache option specgroups) = kubeletGroup (exampleScrape exampleFetchers) ?specs"
    by (metis exampleFetchers_eq)
  have "case kubeletGroup ?cfg ([] :: interfacecache option specgroups) of
      Ok (g, None) \<Rightarrow> rawMetric g ''node'' ''n'' ''memoryRequestedBytes'' = Some (VInt64 7) | _ \<Rightarrow> False"
    by code_simp
  then obtain groups where g: "kubeletGroup (exampleScrape exampleFetchers) ?specs = Ok (groups, None)"
    "rawMetric groups ''node'' ''n'' ''memoryRequestedBytes'' = Some (VInt64 7)"
    unfolding eq by (auto split: result.splits option.splits)
  have "Fetchers (exampleScrape exampleFetchers) = exampleFetchers" by (simp add: exampleScrape_def)
  from kubelet_groups_typed[OF trans[OF this exampleFetchers_def] g(1)] g show ?thesis by blast
qed

end
