(* ===== verification/Process.thy ===== *)
theory Process
  imports Main_Loop Kubelet_Typing
begin

text \<open>
  The whole process, \<open>cmd/nri-kubernetes/main.go\<close> with everything it runs: the start, then the loop over the
  scrapers of kube-state-metrics, of the kubelet and of the control plane as they were set up. The lemmas
  show when a round returns, that no answer of the outside crashes the process, and how it makes progress.
\<close>

section \<open>Rounds\<close>

text \<open>What the rounds call: the SDK, the API server, the endpoints and their decoders. Every answer may change with the world.\<close>

record ('w, 'i) roundworld =
  rwSdk :: "'i sdk"
  rwCamelCase :: "string \<Rightarrow> string"
  rwSlices :: "string \<Rightarrow> string \<Rightarrow> (endpointslice list, 'w) io"
  rwServices :: "'w \<Rightarrow> service list result"
  rwNode :: "'w \<Rightarrow> string \<Rightarrow> k8snode result"
  rwInCluster :: "err + restconfig"
  rwGetenv :: "string \<Rightarrow> string"
  rwParseURL :: "string \<Rightarrow> err + url"
  rwGet :: "'w \<Rightarrow> kubeletclient \<Rightarrow> string \<Rightarrow> httpresponse result"
  rwGetURI :: "'w \<Rightarrow> kubeletclient \<Rightarrow> string \<Rightarrow> httpresponse result"
  rwDecodeSummary :: "body \<Rightarrow> statssummary result"
  rwDecodePods :: "string \<Rightarrow> pod list result"
  rwSummaryString :: "summary option \<Rightarrow> string"
  rwTextParser :: textparser
  rwLate :: "'w \<Rightarrow> bool"
  rwURLError :: "string \<Rightarrow> err option"
  rwKsmDo :: "'w \<Rightarrow> httprequest \<Rightarrow> httpresponse option result"
  rwCAdvisorDo :: "'w \<Rightarrow> httprequest \<Rightarrow> httpresponse option result"
  rwPublish :: "'w \<Rightarrow> 'i mainpop \<Rightarrow> err option \<times> 'w \<times> 'i mainpop"
  rwElapse :: "'w \<Rightarrow> 'w"

definition filteredFamilies ::
  "('w, 'i) roundworld \<Rightarrow> ('w \<Rightarrow> httprequest \<Rightarrow> httpresponse option result) \<Rightarrow> 'w \<Rightarrow> string \<Rightarrow> query list \<Rightarrow> metricfamily list result" where
  "filteredFamilies rw Do w = GetFilteredMetricFamilies (rwSummaryString rw) (rwTextParser rw) (rwLate rw w) (rwURLError rw) (Do w)"

definition nilDereference :: string where
  "nilDereference = ''invalid memory address or nil pointer dereference''"

definition ksmRunner :: "'w clock \<Rightarrow> ('w, 'i) roundworld \<Rightarrow> 'i started \<Rightarrow> ('w, 'i) runner" where
  "ksmRunner clk rw started w st =
     (case stKsm started of
        None \<Rightarrow> Some (Panic nilDereference, w, st)
      | Some s \<Rightarrow>
          let c = stConfig started in
          KsmRun (rwSdk rw) (buildDiscoverer clk (rwSlices rw) (KSM c))
            (ksmJob (filteredFamilies rw (rwKsmDo rw) w) (rwServices rw w) (rwCamelCase rw) c (kmFilterer s))
            c (kmCloudClusterID s) (kmVersion s) w st)"

definition KubeletCAdvisorMetricsPath :: string where
  "KubeletCAdvisorMetricsPath = ''/metrics/cadvisor''"

definition kubeletRunner :: "('w, 'i) roundworld \<Rightarrow> 'i started \<Rightarrow> kubeletscraper \<Rightarrow> ('w, 'i) runner" where
  "kubeletRunner rw started s w st =
     (case (stKubelet started, ccKubelet (stClients started)) of
        (Some (_, filterer), Some kc) \<Rightarrow>
          let c = stConfig started;
              podsFetcher = NewPodsFetcher (rwParseURL rw) (getKubeServiceHost (rwInCluster rw) (rwGetenv rw)) c;
              job = kubeletJob (rwNode rw w) (rwDecodeSummary rw) (rwGet rw w kc)
                (DoPodsFetch (rwDecodePods rw) (rwGet rw w kc) (rwGetURI rw w kc) podsFetcher)
                (CadvisorFetchFunc (MetricFamiliesGetFunc (filteredFamilies rw (rwCAdvisorDo rw) w) kc KubeletCAdvisorMetricsPath) CadvisorQueries)
                (rwCamelCase rw) filterer
          in (case KubeletRun (rwSdk rw) job (CfgClusterName c) s st of (r, st') \<Rightarrow> Some (r, rwElapse rw w, st'))
      | _ \<Rightarrow> Some (Panic nilDereference, w, st))"

definition controlPlaneRunner :: "('w, 'i) roundworld \<Rightarrow> 'w cpworld \<Rightarrow> 'i started \<Rightarrow> ('w, 'i) runner" where
  "controlPlaneRunner rw cw started w st =
     (case stControlPlane started of
        None \<Rightarrow> Some (Panic nilDereference, w, st)
      | Some s \<Rightarrow> Some (CPRun (rwSdk rw) cw (rwCamelCase rw) (cpsScraper s) (CfgClusterName (stConfig started))
          (cpsCloudClusterID s) (cpsVersion s) w st))"

definition startedScrapers :: "'w clock \<Rightarrow> ('w, 'i) roundworld \<Rightarrow> 'w cpworld \<Rightarrow> 'i started \<Rightarrow> ('w, 'i) scrapers" where
  "startedScrapers clk rw cw started =
     \<lparr>scKsm = ksmRunner clk rw started, scKubelet = kubeletRunner rw started, scControlPlane = controlPlaneRunner rw cw started,
      scPublish = rwPublish rw\<rparr>"

section \<open>The process\<close>

text \<open>The first \<open>n\<close> rounds of the loop.\<close>

fun rounds :: "'w clock \<Rightarrow> config \<Rightarrow> ('w, 'i) scrapers \<Rightarrow> nat \<Rightarrow> ('w, 'i) mainstate \<Rightarrow> ('w, 'i) mainstate outcome option" where
  "rounds clk cfg sc 0 s = Some (Running s)"
| "rounds clk cfg sc (Suc n) s =
     (case iteration clk cfg sc s of Some (Running s') \<Rightarrow> rounds clk cfg sc n s' | r \<Rightarrow> r)"

text \<open>The state in which the loop is entered; without a kubelet scraper its counters are never read.\<close>

definition loopStart :: "'i started \<Rightarrow> 'w \<Rightarrow> ('w, 'i) mainstate" where
  "loopStart started w =
     \<lparr>msCount = 0,
      msKubelet = (case stKubelet started of
          Some (s, _) \<Rightarrow> s
        | None \<Rightarrow> \<lparr>ksDefaultInterface = [], ksCloudClusterID = [], ksVersion = [], ksCurrentReruns = 0,
            ksMaxReruns = ScraperMaxReruns (Kubelet (stConfig started))\<rparr>),
      msWorld = w,
      msPop = \<lparr>pInt = stIntegration started, pCache = Some NewInterfaceCache, pFilter = NewNamespaceInMemoryStore\<rparr>\<rparr>"

record ('w, 'i, 'sel) outside =
  oClock :: "'w clock"
  oSink :: "'w sinkworld"
  oKubelet :: "'w kubeletworld"
  oCloud :: "'w cloudworld"
  oControlPlane :: "'w cpworld"
  oMain :: "('w, 'i) mainworld"
  oSelectors :: "'sel selectors"
  oNamespaces :: "'sel \<Rightarrow> err + knamespace list"
  oRound :: "('w, 'i) roundworld"

definition mainProcess ::
  "('w, 'i, 'sel) outside \<Rightarrow> config option \<times> err option \<Rightarrow> nat \<Rightarrow> 'w \<Rightarrow> ('w, 'i) mainstate outcome option" where
  "mainProcess ow loaded n w =
     (case startMain (oClock ow) (oSink ow) (oKubelet ow) (oCloud ow) (oControlPlane ow) (oMain ow) (oSelectors ow) (oNamespaces ow) loaded w of
        None \<Rightarrow> None
      | Some (Exited code, w') \<Rightarrow> Some (Exited code)
      | Some (Crashed p, w') \<Rightarrow> Some (Crashed p)
      | Some (Running started, w') \<Rightarrow>
          rounds (oClock ow) (stConfig started) (startedScrapers (oClock ow) (oRound ow) (oControlPlane ow) started) n (loopStart started w'))"

section \<open>No answer of the outside crashes the process\<close>

text \<open>The libraries do not panic themselves: the SDK, the clients of the API server and the decoders.\<close>

definition calmRound :: "('w, 'i) roundworld \<Rightarrow> bool" where
  "calmRound rw \<longleftrightarrow> calmSdk (rwSdk rw) \<and> (\<forall>w. \<not> is_panic (rwServices rw w)) \<and> (\<forall>w n. \<not> is_panic (rwNode rw w n)) \<and>
     (\<forall>w kc p. \<not> is_panic (rwGet rw w kc p)) \<and> (\<forall>w kc p. \<not> is_panic (rwGetURI rw w kc p)) \<and>
     (\<forall>b. \<not> is_panic (rwDecodeSummary rw b)) \<and> (\<forall>s. \<not> is_panic (rwDecodePods rw s)) \<and>
     (\<forall>w r. \<not> is_panic (rwKsmDo rw w r)) \<and> (\<forall>w r. \<not> is_panic (rwCAdvisorDo rw w r))"

lemma filteredFamilies_no_panic: "(\<And>r. \<not> is_panic (Do w r)) \<Longrightarrow> \<not> is_panic (filteredFamilies rw Do w url qs)"
proof -
  assume a: "\<And>r. \<not> is_panic (Do w r)"
  have "\<not> is_panic (handleResponseWithFilter ss parser late resp qs)" for ss parser late resp
    by (auto simp: handleResponseWithFilter_def Let_def split: option.split prod.split)
  then show ?thesis using a
    by (auto simp: filteredFamilies_def GetFilteredMetricFamilies_def NewRequest_def intro!: rbindw_no_panic split: option.split)
qed

lemma filteredFamilies_named: "filteredFamilies rw Do w url qs = Ok fs \<Longrightarrow> namedBy qs fs"
  unfolding filteredFamilies_def by (rule GetFiltered_named)

lemma ksmLoop_calm: "(\<And>e. calm (populate e)) \<Longrightarrow> calm (ksmLoop populate distributed populated es)"
  by (induction populate distributed populated es rule: ksmLoop.induct) (auto intro!: calm_intros)

lemma calm_Panic: "calm m \<Longrightarrow> m st \<noteq> (Panic p, st')"
  by (metis calmD fst_conv is_panic.simps(1))

definition panicked :: "(unit result \<times> 'w \<times> 'i mainpop) option \<Rightarrow> bool" where
  "panicked r \<longleftrightarrow> (\<exists>p w st. r = Some (Panic p, w, st))"

lemma ksmRunner_calm:
  assumes "calmRound rw" "stKsm started \<noteq> None"
  shows "\<not> panicked (ksmRunner clk rw started w st)"
proof -
  obtain s where s: "stKsm started = Some s" using assms(2) by blast
  let ?c = "stConfig started" and ?families = "filteredFamilies rw (rwKsmDo rw) w"
  let ?job = "ksmJob ?families (rwServices rw w) (rwCamelCase rw) ?c (kmFilterer s)"
  have "\<not> is_panic (ksmFamilies ?families e KSMQueries)" for e
    using filteredFamilies_no_panic[of "rwKsmDo rw" w rw e KSMQueries] assms(1)
    by (auto simp: ksmFamilies_def calmRound_def intro!: rbindw_no_panic)
  then have "calm (JobPopulate (rwSdk rw) (?job e) (CfgClusterName ?c) (kmCloudClusterID s) (kmVersion s))" for e
    using assms(1) by (intro ksm_job_calm) (auto simp: ksmJob_def NewScrapeJob_def calmRound_def)
  from calm_Panic[OF ksmLoop_calm[OF this]] show ?thesis
    by (auto simp: ksmRunner_def s KsmRun_def Let_def panicked_def split: option.splits sum.splits prod.splits result.splits if_splits)
qed

lemma kubeletRunner_calm:
  assumes "calmRound rw" "stKubelet started \<noteq> None" "ccKubelet (stClients started) \<noteq> None"
  shows "\<not> panicked (kubeletRunner rw started s w st)"
proof -
  obtain s0 filterer kc where k: "stKubelet started = Some (s0, filterer)" "ccKubelet (stClients started) = Some kc" using assms(2,3) by auto
  let ?c = "stConfig started"
  let ?f = "NewPodsFetcher (rwParseURL rw) (getKubeServiceHost (rwInCluster rw) (rwGetenv rw)) ?c"
  let ?families = "filteredFamilies rw (rwCAdvisorDo rw) w"
  let ?pods = "DoPodsFetch (rwDecodePods rw) (rwGet rw w kc) (rwGetURI rw w kc) ?f"
  let ?cadvisor = "CadvisorFetchFunc (MetricFamiliesGetFunc ?families kc KubeletCAdvisorMetricsPath) CadvisorQueries"
  let ?cfg = "\<lparr>NodeGetter = rwNode rw w, SummaryDecode = rwDecodeSummary rw, HTTPGet = rwGet rw w kc,
      Fetchers = [rbind ?pods (\<lambda>g. Ok (g, None)), ?cadvisor], DefaultNetworkInterface = ksDefaultInterface s\<rparr>"
  have "\<not> is_panic ?pods" using assms(1) by (intro pods_safe) (simp_all add: calmRound_def)
  moreover have "\<not> is_panic ?cadvisor"
    using filteredFamilies_no_panic[of "rwCAdvisorDo rw" w rw] assms(1)
    by (intro cadvisor_safe) (auto simp: MetricFamiliesGetFunc_def calmRound_def intro!: rbindw_no_panic)
  moreover have "\<forall>x \<in> {rbind ?pods (\<lambda>g. Ok (g, None)), ?cadvisor}. typedFetcher x"
    using kubeletFetchers_typed[of ?families _ "rwDecodePods rw" "rwGet rw w kc" "rwGetURI rw w kc" ?f kc KubeletCAdvisorMetricsPath]
    by (auto simp: kubeletFetchers_def dest: filteredFamilies_named)
  ultimately have "safeKubelet ?cfg" using assms(1) by (auto simp: safeKubelet_def calmRound_def)
  then have "calm (JobPopulate (rwSdk rw) (kubeletJob (rwNode rw w) (rwDecodeSummary rw) (rwGet rw w kc) ?pods ?cadvisor (rwCamelCase rw) filterer s)
      (CfgClusterName ?c) (ksCloudClusterID s) (ksVersion s))"
    using assms(1) by (intro kubelet_job_calm[where cfg = ?cfg]) (simp_all add: kubeletJob_def NewScrapeJob_def calmRound_def)
  then have "calm (KubeletRun (rwSdk rw) (kubeletJob (rwNode rw w) (rwDecodeSummary rw) (rwGet rw w kc) ?pods ?cadvisor (rwCamelCase rw) filterer)
      (CfgClusterName ?c) s)"
    unfolding KubeletRun_def by (rule calm_pbind) (simp add: calm_def preturn_def)
  from calm_Panic[OF this] show ?thesis
    by (auto simp: kubeletRunner_def k Let_def panicked_def split: prod.splits)
qed

lemma controlPlaneRunner_calm:
  assumes "calmRound rw" "calmCPWorld cw" "stControlPlane started = Some s" "cpsScraper s = NewCPScraper cw c"
  shows "\<not> panicked (controlPlaneRunner rw cw started w st)"
  using CPRun_no_panic[OF assms(2), of "rwSdk rw" "rwCamelCase rw" c "CfgClusterName (stConfig started)" "cpsCloudClusterID s" "cpsVersion s" w st] assms
  by (cases "CPRun (rwSdk rw) cw (rwCamelCase rw) (cpsScraper s) (CfgClusterName (stConfig started)) (cpsCloudClusterID s) (cpsVersion s) w st")
     (auto simp: controlPlaneRunner_def panicked_def calmRound_def)

text \<open>A round crashes only in a scraper, or in the division by the interval.\<close>

lemma stage_Panic:
  assumes "stage enabled run handle continue s = Some (Panic p, s')"
    and "enabled \<Longrightarrow> \<not> panicked (run s (msWorld s) (msPop s))"
  shows "(\<exists>t. continue t = Some (Panic p, s')) \<or> (\<exists>e t. handle e t = Some (Panic p, s'))"
  using assms by (auto simp: stage_def panicked_def split: if_splits option.splits result.splits)

lemma runScrapers_calm:
  assumes "\<And>w st. KsmEnabled (KSM cfg) \<Longrightarrow> \<not> panicked (scKsm sc w st)"
    and "\<And>k w st. KubeletEnabled (Kubelet cfg) \<Longrightarrow> \<not> panicked (scKubelet sc k w st)"
    and "\<And>w st. ControlPlaneEnabled (ControlPlane cfg) \<Longrightarrow> \<not> panicked (scControlPlane sc w st)"
  shows "runScrapers cfg sc s \<noteq> Some (Panic p, s')"
proof
  assume "runScrapers cfg sc s = Some (Panic p, s')"
  then have "\<exists>t. runKubelet cfg sc t = Some (Panic p, s')"
    unfolding runScrapers_def using assms(1) by (auto dest!: stage_Panic)
  moreover have "runControlPlane cfg sc t \<noteq> Some (Panic p, s')" for t
    unfolding runControlPlane_def using assms(3) by (auto dest!: stage_Panic)
  ultimately show False
    unfolding runKubelet_def using assms(2) by (auto dest!: stage_Panic split: if_splits)
qed

lemma iteration_crash:
  assumes "\<And>s s' p. runScrapers cfg sc s \<noteq> Some (Panic p, s')" "iteration clk cfg sc s = Some (Crashed p)"
  shows "Interval cfg = 0 \<and> p = ''runtime error: integer divide by zero''"
  using assms by (auto simp: iteration_def Let_def split: option.splits prod.splits result.splits if_splits)

lemma rounds_crash:
  assumes "\<And>s s' p. runScrapers cfg sc s \<noteq> Some (Panic p, s')" "rounds clk cfg sc n s = Some (Crashed p)"
  shows "Interval cfg = 0 \<and> p = ''runtime error: integer divide by zero''"
  using assms(2)
proof (induction n arbitrary: s)
  case (Suc n)
  then show ?case using iteration_crash[OF assms(1), of clk s p] by (auto split: option.splits outcome.splits)
qed simp

lemma startedScrapers_calm:
  assumes "calmRound rw" "calmCPWorld cw" "kubeletStarted kw lib lister started" "ksmStarted lib lister started" "controlPlaneStarted cw started"
  shows "runScrapers (stConfig started) (startedScrapers clk rw cw started) s \<noteq> Some (Panic p, s')"
proof (rule runScrapers_calm)
  fix w st
  assume "KsmEnabled (KSM (stConfig started))"
  then show "\<not> panicked (scKsm (startedScrapers clk rw cw started) w st)"
    using assms(4) ksmRunner_calm[OF assms(1)] by (auto simp: startedScrapers_def ksmStarted_def Let_def)
next
  fix k w st
  assume "KubeletEnabled (Kubelet (stConfig started))"
  then show "\<not> panicked (scKubelet (startedScrapers clk rw cw started) k w st)"
    using assms(3) kubeletRunner_calm[OF assms(1)] by (auto simp: startedScrapers_def kubeletStarted_def Let_def)
next
  fix w st
  assume "ControlPlaneEnabled (ControlPlane (stConfig started))"
  then show "\<not> panicked (scControlPlane (startedScrapers clk rw cw started) w st)"
    using assms(5) controlPlaneRunner_calm[OF assms(1,2)] by (auto simp: startedScrapers_def controlPlaneStarted_def Let_def)
qed

text \<open>
  C1: With a configuration whose interval is not zero the process never crashes, in no round and whatever the
  agent, the API server, the kubelet, kube-state-metrics, the components of the control plane and the cloud
  answer: the type assertions and the dereferences of the program succeed. Only the libraries are assumed
  not to panic themselves.
\<close>

theorem process_never_crashes:
  assumes "calmRound (oRound ow)" "calmCPWorld (oControlPlane ow)" "loaded = (Some c, None)" "Interval c \<noteq> 0"
  shows "mainProcess ow loaded n w \<noteq> Some (Crashed p)"
proof
  assume crash: "mainProcess ow loaded n w = Some (Crashed p)"
  obtain out w' where m: "startMain (oClock ow) (oSink ow) (oKubelet ow) (oCloud ow) (oControlPlane ow) (oMain ow) (oSelectors ow)
      (oNamespaces ow) loaded w = Some (out, w')"
    using crash by (auto simp: mainProcess_def split: option.splits)
  note crash' = crash[unfolded mainProcess_def m option.case prod.case]
  from startMain_result[OF m] crash' assms(3) obtain started where r: "out = Running started"
    by (cases out) auto
  with startMain_result[OF m] assms(3) have s: "stConfig started = c" "kubeletStarted (oKubelet ow) (oSelectors ow) (oNamespaces ow) started"
    "ksmStarted (oSelectors ow) (oNamespaces ow) started" "controlPlaneStarted (oControlPlane ow) started"
    by auto
  have "rounds (oClock ow) c (startedScrapers (oClock ow) (oRound ow) (oControlPlane ow) started) n (loopStart started w') = Some (Crashed p)"
    using crash' r s(1) by simp
  from rounds_crash[OF startedScrapers_calm[OF assms(1,2) s(2-4), unfolded s(1)] this] assms(4) show False by simp
qed

section \<open>Every round returns\<close>

text \<open>A round waits for the endpoints of kube-state-metrics only; the other scrapers do not poll.\<close>

definition roundReturns :: "'w clock \<Rightarrow> ('w, 'i) roundworld \<Rightarrow> config \<Rightarrow> bool" where
  "roundReturns clk rw c \<longleftrightarrow> KsmEnabled (KSM c) \<longrightarrow> StaticURL (KSM c) \<noteq> [] \<or>
     (\<forall>sel ns. forward clk (rwSlices rw sel ns)) \<and> 0 < DiscoveryBackoffDelay (KSM c)"

lemma discovery_returns:
  assumes "ticks clk" "forward clk (slices (dcSelector (discoveryConfig k)) (dcNamespace (discoveryConfig k)))" "0 < DiscoveryBackoffDelay k"
  shows "\<exists>r w'. buildDiscoverer clk slices k w = Some (r, w')"
proof -
  have "forward clk (\<lambda>w. case slices (dcSelector (discoveryConfig k)) (dcNamespace (discoveryConfig k)) w of (sl, w') \<Rightarrow> (SliceDiscover sl (dcPort (discoveryConfig k)), w'))"
    using assms(2) by (auto simp: forward_def split: prod.split) (metis snd_conv)
  from DiscoverWithTimeout_returns[OF assms(1) this assms(3)] show ?thesis by (simp add: buildDiscoverer_def Let_def) blast
qed

lemma ksmRunner_returns:
  assumes "ticks clk" "roundReturns clk rw (stConfig started)" "KsmEnabled (KSM (stConfig started))"
  shows "ksmRunner clk rw started w st \<noteq> None"
proof -
  let ?k = "KSM (stConfig started)"
  have "ksmURLs ?k (buildDiscoverer clk (rwSlices rw) ?k) w \<noteq> None"
    using assms discovery_returns[OF assms(1), of "rwSlices rw" ?k w]
    by (auto simp: ksmURLs_def roundReturns_def Let_def split: option.split sum.split)
  then show ?thesis by (auto simp: ksmRunner_def KsmRun_def Let_def split: option.split sum.split prod.split result.split)
qed

lemma iteration_returns:
  assumes "ticks clk" "roundReturns clk rw (stConfig started)"
  shows "iteration clk (stConfig started) (startedScrapers clk rw cw started) s \<noteq> None"
proof -
  let ?c = "stConfig started" and ?sc = "startedScrapers clk rw cw started"
  have cp: "runControlPlane ?c ?sc t \<noteq> None" for t
    by (auto simp: runControlPlane_def stage_def startedScrapers_def controlPlaneRunner_def split: option.split result.split)
  have k: "runKubelet ?c ?sc t \<noteq> None" for t
    using cp by (auto simp: runKubelet_def stage_def startedScrapers_def kubeletRunner_def Let_def split: option.split result.split prod.split)
  have "runScrapers ?c ?sc t \<noteq> None" for t
    using k[unfolded startedScrapers_def] ksmRunner_returns[OF assms, of "msWorld t" "msPop t"]
    by (auto simp: runScrapers_def stage_def startedScrapers_def simp del: not_None_eq split: option.split result.split)
  moreover have "iteration clk ?c ?sc s = None \<Longrightarrow> \<exists>t. runScrapers ?c ?sc t = None"
    by (auto simp: iteration_def Let_def split: option.splits prod.splits result.splits if_splits)
  ultimately show ?thesis by blast
qed

text \<open>
  C11: The process does not hang in its own loops: when the caches of the informers of the enabled scrapers sync, the
  clock advances during sleeps, calls take no negative time and the back-offs of the prober, of the connection
  to the kubelet and of the discovery of kube-state-metrics are positive, the start returns and so does every round, whatever
  the calls answer. Each prefix of its rounds ends in the next round, in an exit or in a crash. The caches are needed: the second
  part of the witness has a cache of services that never syncs, and that process stays in its start.
\<close>

theorem mainProcess_returns:
  assumes "ticks (oClock ow)" "\<And>c d u. forward (oClock ow) (swGet (oSink ow) c d u)" "forwardWorld (oClock ow) (oKubelet ow)"
    and "\<And>c. fst loaded = Some c \<Longrightarrow> SinkType c = SinkTypeHTTP \<Longrightarrow> 0 < ProbeBackoff (SinkHTTP c)"
    and "\<And>c. fst loaded = Some c \<Longrightarrow> KubeletEnabled (Kubelet c) \<Longrightarrow> InitTimeout (Kubelet c) = 0 \<or> 0 < InitBackoff (Kubelet c)"
    and "\<And>c. fst loaded = Some c \<Longrightarrow> cachesSync (oMain ow) (startCaches c)"
    and "\<And>c. fst loaded = Some c \<Longrightarrow> roundReturns (oClock ow) (oRound ow) c"
  shows "\<exists>out. mainProcess ow loaded n w = Some out"
proof -
  obtain out w' where m: "startMain (oClock ow) (oSink ow) (oKubelet ow) (oCloud ow) (oControlPlane ow) (oMain ow) (oSelectors ow)
      (oNamespaces ow) loaded w = Some (out, w')"
    using startMain_total[OF assms(1-6)] by blast
  show ?thesis
  proof (cases out)
    case (Running started)
    then have "loaded = (Some (stConfig started), None)" using startMain_result[OF m] by simp
    then have r: "roundReturns (oClock ow) (oRound ow) (stConfig started)" using assms(7) by simp
    have "\<exists>out. rounds (oClock ow) (stConfig started) (startedScrapers (oClock ow) (oRound ow) (oControlPlane ow) started) n s = Some out" for s
    proof (induction n arbitrary: s)
      case (Suc n)
      obtain out' where "iteration (oClock ow) (stConfig started) (startedScrapers (oClock ow) (oRound ow) (oControlPlane ow) started) s = Some out'"
        using iteration_returns[OF assms(1) r] by blast
      then show ?case using Suc by (cases out') auto
    qed simp
    then show ?thesis using m Running by (simp add: mainProcess_def)
  qed (use m in \<open>simp_all add: mainProcess_def\<close>)
qed

text \<open>A world in which every call of a round fails.\<close>

definition down :: err where "down = errorsNew ''connection refused''"

definition downRound :: "(int, unit) roundworld" where
  "downRound =
     \<lparr>rwSdk = \<lparr>sdkEntity = (\<lambda>n t i. (Ok (0, n), i)), sdkAddAttributes = (\<lambda>_ _ i. i), sdkNewMetricSet = (\<lambda>_ _ i. (0, i)),
        sdkSetMetric = (\<lambda>_ _ _ _ i. (None, i)), sdkSetItem = (\<lambda>_ _ _ _ i. (None, i)), sdkName = ''n'', sdkVersion = ''v''\<rparr>,
      rwCamelCase = id, rwSlices = (\<lambda>_ _ w. (Inl down, w)), rwServices = (\<lambda>_. Fail down), rwNode = (\<lambda>_ _. Fail down),
      rwInCluster = Inl down, rwGetenv = (\<lambda>_. []), rwParseURL = (\<lambda>_. Inl down), rwGet = (\<lambda>_ _ _. Fail down), rwGetURI = (\<lambda>_ _ _. Fail down),
      rwDecodeSummary = (\<lambda>_. Fail down), rwDecodePods = (\<lambda>_. Fail down), rwSummaryString = (\<lambda>_. []), rwTextParser = (\<lambda>_. ([], None)),
      rwLate = (\<lambda>_. False), rwURLError = (\<lambda>_. None), rwKsmDo = (\<lambda>_ _. Fail down), rwCAdvisorDo = (\<lambda>_ _. Fail down),
      rwPublish = (\<lambda>w st. (None, w, st)), rwElapse = (\<lambda>w. w + 1)\<rparr>"

definition downControlPlane :: "int cpworld" where
  "downControlPlane =
     \<lparr>cwParse = (\<lambda>_. Fail down), cwHead = (\<lambda>_ _ w. (Inl down, w)), cwConvert = (\<lambda>_. Fail down), cwNewTransport = (\<lambda>_. None), cwTokenFile = [],
      cwSecrets = (\<lambda>_ _. Fail down), cwPods = (\<lambda>_ _. Fail down), cwFetch = (\<lambda>_ _ _. Fail down)\<rparr>"

definition downOutside :: "'sel selectors \<Rightarrow> ('sel \<Rightarrow> err + knamespace list) \<Rightarrow> (int, unit, 'sel) outside" where
  "downOutside lib lister =
     \<lparr>oClock = bareClock, oSink = exampleSinkWorld, oKubelet = exampleWorld, oCloud = offline, oControlPlane = downControlPlane,
      oMain = exampleMain, oSelectors = lib, oNamespaces = lister, oRound = downRound\<rparr>"

theorem process_never_crashes_witness:
  "\<forall>lib lister n p. mainProcess (downOutside lib lister) (Some exampleCfg, None) n 0 \<noteq> Some (Crashed p)"
proof (intro allI process_never_crashes[where c = exampleCfg])
  show "calmRound (oRound (downOutside lib lister))" for lib lister
    by (simp add: downOutside_def downRound_def calmRound_def calmSdk_def)
  show "calmCPWorld (oControlPlane (downOutside lib lister))" for lib lister
    by (simp add: downOutside_def downControlPlane_def calmCPWorld_def)
qed (simp_all add: exampleCfg_def)

definition blockedOutside :: "'sel selectors \<Rightarrow> ('sel \<Rightarrow> err + knamespace list) \<Rightarrow> (int, unit, 'sel) outside" where
  "blockedOutside lib lister =
     (downOutside lib lister)\<lparr>oMain := exampleMain\<lparr>mwCacheSync := \<lambda>k w. if k = ''services'' then None else Some w\<rparr>\<rparr>"

lemma blocked_start: "mainProcess (blockedOutside lib lister) (Some ksmOnlyCfg, None) n 0 = None"
  using example_start(3)[of downControlPlane lib lister] by (simp add: mainProcess_def blockedOutside_def downOutside_def)

theorem mainProcess_returns_witness:
  "\<forall>lib lister n. (\<exists>out. mainProcess (downOutside lib lister) (Some ksmOnlyCfg, None) n 0 = Some out) \<and>
     mainProcess (blockedOutside lib lister) (Some ksmOnlyCfg, None) n 0 = None"
proof (intro allI conjI mainProcess_returns blocked_start)
qed (auto simp: downOutside_def ticks_def forward_def forwardWorld_def exampleSinkWorld_def exampleWorld_def bareClock_def exampleCfg_def
      ksmOnlyCfg_def roundReturns_def cachesSync_def exampleMain_def downRound_def)

section \<open>Progress\<close>

text \<open>Runs and publications that return, in forward time; the control plane and kube-state-metrics without an error.\<close>

definition returnsOk :: "'w clock \<Rightarrow> ('w, 'i) runner \<Rightarrow> bool" where
  "returnsOk clk run \<longleftrightarrow> (\<forall>w st. \<exists>w' st'. run w st = Some (Ok (), w', st') \<and> Now clk w \<le> Now clk w')"

definition returnsFail :: "'w clock \<Rightarrow> ('w, 'i) runner \<Rightarrow> bool" where
  "returnsFail clk run \<longleftrightarrow> (\<forall>w st. \<exists>e w' st'. run w st = Some (Fail e, w', st') \<and> Now clk w \<le> Now clk w')"

definition healthy :: "'w clock \<Rightarrow> config \<Rightarrow> ('w, 'i) scrapers \<Rightarrow> bool" where
  "healthy clk cfg sc \<longleftrightarrow> (KsmEnabled (KSM cfg) \<longrightarrow> returnsOk clk (scKsm sc)) \<and>
     (ControlPlaneEnabled (ControlPlane cfg) \<longrightarrow> returnsOk clk (scControlPlane sc)) \<and>
     (\<forall>w st. \<exists>w' st'. scPublish sc w st = (None, w', st') \<and> Now clk w \<le> Now clk w')"

lemma stage_Ok:
  assumes "enabled \<Longrightarrow> returnsOk clk (run s)"
  shows "\<exists>w st. stage enabled run handle continue s = continue (s\<lparr>msWorld := w, msPop := st\<rparr>) \<and> Now clk (msWorld s) \<le> Now clk w"
proof (cases enabled)
  case True
  then obtain w st where "run s (msWorld s) (msPop s) = Some (Ok (), w, st)" "Now clk (msWorld s) \<le> Now clk w"
    using assms unfolding returnsOk_def by blast
  then show ?thesis using True by (auto simp: stage_def)
next
  case False
  then show ?thesis by (intro exI[of _ "msWorld s"] exI[of _ "msPop s"]) (simp add: stage_def)
qed

lemma runControlPlane_healthy:
  "healthy clk cfg sc \<Longrightarrow>
     \<exists>w st. runControlPlane cfg sc s = Some (Ok (), s\<lparr>msWorld := w, msPop := st\<rparr>) \<and> Now clk (msWorld s) \<le> Now clk w"
  unfolding runControlPlane_def by (rule stage_Ok) (simp add: healthy_def)

text \<open>The kubelet decides how a round goes.\<close>

definition afterKubelet :: "bool \<Rightarrow> kubeletscraper \<Rightarrow> kubeletscraper" where
  "afterKubelet ok k = (if ok then k else IncCurrentReruns k)"

definition kubeletRound :: "'w clock \<Rightarrow> config \<Rightarrow> ('w, 'i) scrapers \<Rightarrow> bool \<Rightarrow> kubeletscraper \<Rightarrow> bool" where
  "kubeletRound clk cfg sc ok k \<longleftrightarrow>
     (if ok then KubeletEnabled (Kubelet cfg) \<longrightarrow> returnsOk clk (scKubelet sc k)
      else KubeletEnabled (Kubelet cfg) \<and> returnsFail clk (scKubelet sc k) \<and> \<not> IsMaxRerunReached k)"

lemma runScrapers_healthy:
  assumes h: "healthy clk cfg sc" and k: "kubeletRound clk cfg sc ok (msKubelet s)"
  shows "\<exists>w st. runScrapers cfg sc s = Some (Ok (), s\<lparr>msKubelet := afterKubelet ok (msKubelet s), msWorld := w, msPop := st\<rparr>) \<and>
    Now clk (msWorld s) \<le> Now clk w"
proof -
  have "\<exists>w st. runScrapers cfg sc s = runKubelet cfg sc (s\<lparr>msWorld := w, msPop := st\<rparr>) \<and> Now clk (msWorld s) \<le> Now clk w"
    unfolding runScrapers_def by (rule stage_Ok) (use h in \<open>simp add: healthy_def\<close>)
  then obtain w1 st1 where 1: "runScrapers cfg sc s = runKubelet cfg sc (s\<lparr>msWorld := w1, msPop := st1\<rparr>)" "Now clk (msWorld s) \<le> Now clk w1"
    by blast
  let ?s1 = "s\<lparr>msWorld := w1, msPop := st1\<rparr>"
  have "\<exists>w st. runKubelet cfg sc ?s1 = runControlPlane cfg sc (s\<lparr>msKubelet := afterKubelet ok (msKubelet s), msWorld := w, msPop := st\<rparr>) \<and>
      Now clk w1 \<le> Now clk w"
  proof (cases ok)
    case True
    have "\<exists>w st. runKubelet cfg sc ?s1 = runControlPlane cfg sc (?s1\<lparr>msWorld := w, msPop := st\<rparr>) \<and> Now clk (msWorld ?s1) \<le> Now clk w"
      unfolding runKubelet_def by (rule stage_Ok) (use k True in \<open>simp add: kubeletRound_def\<close>)
    then show ?thesis using True by (simp add: afterKubelet_def)
  next
    case False
    then obtain er w2 st2 where "scKubelet sc (msKubelet s) w1 st1 = Some (Fail er, w2, st2)" "Now clk w1 \<le> Now clk w2"
      using k unfolding kubeletRound_def returnsFail_def by (simp add: False) blast
    then show ?thesis using k False
      by (intro exI[of _ w2] exI[of _ st2], cases s) (simp add: kubeletRound_def runKubelet_def stage_def afterKubelet_def)
  qed
  then obtain w2 st2 where 2: "runKubelet cfg sc ?s1 = runControlPlane cfg sc (s\<lparr>msKubelet := afterKubelet ok (msKubelet s), msWorld := w2, msPop := st2\<rparr>)"
    "Now clk w1 \<le> Now clk w2" by blast
  show ?thesis
    using runControlPlane_healthy[OF h, of "s\<lparr>msKubelet := afterKubelet ok (msKubelet s), msWorld := w2, msPop := st2\<rparr>"] 1 2 by force
qed

lemma iteration_healthy:
  assumes h: "healthy clk cfg sc" and c: "ticks clk" "0 < Interval cfg"
    and k: "kubeletRound clk cfg sc ok (msKubelet s)"
  shows "\<exists>s'. iteration clk cfg sc s = Some (Running s') \<and> msKubelet s' = afterKubelet ok (msKubelet s) \<and> msCount s' = msCount s + 1 \<and>
    Now clk (msWorld s) + Interval cfg \<le> Now clk (msWorld s')"
proof -
  let ?s = "s\<lparr>msCount := msCount s + 1\<rparr>"
  obtain w st where r: "runScrapers cfg sc ?s = Some (Ok (), ?s\<lparr>msKubelet := afterKubelet ok (msKubelet s), msWorld := w, msPop := st\<rparr>)"
    "Now clk (msWorld s) \<le> Now clk w"
    using runScrapers_healthy[OF h, of ok ?s] k by auto
  obtain w' st' where p: "scPublish sc w st = (None, w', st')" "Now clk w \<le> Now clk w'" using h unfolding healthy_def by blast
  let ?t = "Now clk w' - Now clk (msWorld s)"
  have t: "0 \<le> ?t" using r(2) p(2) by simp
  then have n: "0 < nextTick (Interval cfg) ?t" "(?t + nextTick (Interval cfg) ?t) mod Interval cfg = 0"
    using nextTick_grid[OF c(2)] by blast+
  then have "Interval cfg \<le> ?t + nextTick (Interval cfg) ?t" using t c(2) by (intro zdvd_imp_le) auto
  moreover have "Now clk w' + nextTick (Interval cfg) ?t \<le> Now clk (Sleep clk (nextTick (Interval cfg) ?t) w')"
    using ticksD[OF c(1)] n(1) by simp
  ultimately show ?thesis using r(1) p(1) c(2) by (auto simp: iteration_def Let_def)
qed

lemma rounds_healthy:
  assumes "healthy clk cfg sc" "ticks clk" "0 < Interval cfg"
    and k: "\<And>k. (ok \<or> ksCurrentReruns k \<le> ksMaxReruns k) \<Longrightarrow> kubeletRound clk cfg sc ok k"
    and "ok \<or> ksCurrentReruns (msKubelet s) + int n \<le> ksMaxReruns (msKubelet s) + 1"
  shows "\<exists>s'. rounds clk cfg sc n s = Some (Running s') \<and> msCount s' = msCount s + of_nat n \<and>
    msKubelet s' = (afterKubelet ok ^^ n) (msKubelet s) \<and> Now clk (msWorld s) + int n * Interval cfg \<le> Now clk (msWorld s')"
  using assms(5)
proof (induction n arbitrary: s)
  case (Suc n)
  have "kubeletRound clk cfg sc ok (msKubelet s)" using Suc.prems by (intro k) auto
  from iteration_healthy[OF assms(1-3) this] obtain s1 where s1: "iteration clk cfg sc s = Some (Running s1)"
    "msKubelet s1 = afterKubelet ok (msKubelet s)" "msCount s1 = msCount s + 1" "Now clk (msWorld s) + Interval cfg \<le> Now clk (msWorld s1)"
    by blast
  have "ok \<or> ksCurrentReruns (msKubelet s1) + int n \<le> ksMaxReruns (msKubelet s1) + 1"
    using Suc.prems s1(2) by (cases ok) (simp_all add: afterKubelet_def IncCurrentReruns_def)
  from Suc.IH[OF this] s1 show ?case by (auto simp: algebra_simps funpow_swap1)
qed simp

text \<open>
  C13: As long as every enabled scraper and every publication returns without an error, the loop never stops:
  it reaches every round, and its rounds are at least an interval apart.
\<close>

theorem rounds_progress:
  assumes "healthy clk cfg sc" "KubeletEnabled (Kubelet cfg) \<Longrightarrow> \<forall>k. returnsOk clk (scKubelet sc k)" "ticks clk" "0 < Interval cfg"
  shows "\<exists>s'. rounds clk cfg sc n s = Some (Running s') \<and> msCount s' = msCount s + of_nat n \<and> msKubelet s' = msKubelet s \<and>
    Now clk (msWorld s) + int n * Interval cfg \<le> Now clk (msWorld s')"
proof -
  have "(afterKubelet True ^^ n) k = k" for k n by (induction n) (simp_all add: afterKubelet_def)
  moreover have "kubeletRound clk cfg sc True k" for k using assms(2) by (simp add: kubeletRound_def)
  ultimately show ?thesis using rounds_healthy[OF assms(1,3,4), of True s n] by simp
qed

lemma rounds_add: "rounds clk cfg sc m s = Some (Running s') \<Longrightarrow> rounds clk cfg sc (m + n) s = rounds clk cfg sc n s'"
  by (induction m arbitrary: s) (auto split: option.splits outcome.splits)

text \<open>
  C12: A kubelet whose data cannot be populated does not go unnoticed: when every run of its scraper fails, and the other
  enabled scrapers and the publications succeed, the process goes through as many rounds as the configured maximum and one
  more, and in the round after them it exits with the code of the loop. The chart and the comment of the setting promise
  that maximum as the number of reruns, which is one run less: the code exits when its counter is above it, not when it is reached.
\<close>

theorem kubelet_outage_exits:
  assumes "healthy clk cfg sc" "KubeletEnabled (Kubelet cfg)" "\<forall>k. returnsFail clk (scKubelet sc k)" "ticks clk" "0 < Interval cfg"
    and "0 \<le> ScraperMaxReruns (Kubelet cfg)" "initial cfg s0"
  shows "(n < nat (ScraperMaxReruns (Kubelet cfg)) + 2 \<longrightarrow>
      (\<exists>s. rounds clk cfg sc n s0 = Some (Running s) \<and> ksCurrentReruns (msKubelet s) = int n)) \<and>
    (nat (ScraperMaxReruns (Kubelet cfg)) + 2 \<le> n \<longrightarrow> rounds clk cfg sc n s0 = Some (Exited exitLoop))"
proof -
  let ?m = "nat (ScraperMaxReruns (Kubelet cfg)) + 1"
  have k: "ksCurrentReruns ((afterKubelet False ^^ n) k) = ksCurrentReruns k + int n \<and> ksMaxReruns ((afterKubelet False ^^ n) k) = ksMaxReruns k" for k n
    by (induction n) (simp_all add: afterKubelet_def IncCurrentReruns_def)
  have round: "kubeletRound clk cfg sc False k" if "False \<or> ksCurrentReruns k \<le> ksMaxReruns k" for k
    using assms(2,3) that by (simp add: kubeletRound_def IsMaxRerunReached_def)
  have run: "\<exists>s. rounds clk cfg sc n s0 = Some (Running s) \<and> ksCurrentReruns (msKubelet s) = int n \<and> ksMaxReruns (msKubelet s) = ScraperMaxReruns (Kubelet cfg)"
    if "n \<le> ?m" for n
  proof -
    have "False \<or> ksCurrentReruns (msKubelet s0) + int n \<le> ksMaxReruns (msKubelet s0) + 1"
      using that assms(6,7) by (simp add: initial_def)
    from rounds_healthy[OF assms(1,4,5) round this] obtain s' where
      "rounds clk cfg sc n s0 = Some (Running s')" "msKubelet s' = (afterKubelet False ^^ n) (msKubelet s0)" by blast
    then show ?thesis using k[of n "msKubelet s0"] assms(7) by (simp add: initial_def)
  qed
  obtain s where s: "rounds clk cfg sc ?m s0 = Some (Running s)" "IsMaxRerunReached (msKubelet s)"
    using run[of ?m] assms(6) by (auto simp: IsMaxRerunReached_def)
  have "\<exists>w st. runScrapers cfg sc t = runKubelet cfg sc (t\<lparr>msWorld := w, msPop := st\<rparr>) \<and> Now clk (msWorld t) \<le> Now clk w" for t
    unfolding runScrapers_def by (rule stage_Ok) (use assms(1) in \<open>simp add: healthy_def\<close>)
  then obtain w st where r: "runScrapers cfg sc (s\<lparr>msCount := msCount s + 1\<rparr>) = runKubelet cfg sc (s\<lparr>msCount := msCount s + 1, msWorld := w, msPop := st\<rparr>)"
    by fastforce
  obtain e w' st' where "scKubelet sc (msKubelet s) w st = Some (Fail e, w', st')" using assms(3) unfolding returnsFail_def by blast
  then have exit: "iteration clk cfg sc s = Some (Exited exitLoop)"
    using r s(2) assms(2) by (simp add: iteration_def Let_def runKubelet_def stage_def)
  have "rounds clk cfg sc n s0 = Some (Exited exitLoop)" if big: "nat (ScraperMaxReruns (Kubelet cfg)) + 2 \<le> n"
  proof -
    obtain j where "n = nat (ScraperMaxReruns (Kubelet cfg)) + 2 + j" using le_Suc_ex[OF big] by blast
    then have "n = ?m + Suc j" by simp
    then show ?thesis using rounds_add[OF s(1), of "Suc j"] exit by simp
  qed
  then show ?thesis using run[of n] by auto
qed

definition steadyKubelet :: "(int, unit) scrapers" where
  "steadyKubelet = failingKubelet\<lparr>scKubelet := \<lambda>k w st. Some (Ok (), w + 1, st)\<rparr>"

theorem rounds_progress_witness:
  "KubeletEnabled (Kubelet exampleCfg) \<and> (\<exists>s'. rounds bareClock exampleCfg steadyKubelet 100 exampleStart = Some (Running s') \<and>
     msCount s' = 100 \<and> ksCurrentReruns (msKubelet s') = 0 \<and> 1500000000000 \<le> msWorld s')"
  using rounds_progress[of bareClock exampleCfg steadyKubelet 100 exampleStart]
  by (auto simp: healthy_def steadyKubelet_def failingKubelet_def exampleCfg_def bareClock_def ticks_def exampleStart_def returnsOk_def)

theorem kubelet_outage_exits_witness:
  "(\<exists>s. rounds bareClock exampleCfg failingKubelet 5 exampleStart = Some (Running s) \<and> ksCurrentReruns (msKubelet s) = 5) \<and>
   rounds bareClock exampleCfg failingKubelet 6 exampleStart = Some (Exited exitLoop)"
proof -
  have "healthy bareClock exampleCfg failingKubelet" "KubeletEnabled (Kubelet exampleCfg)" "\<forall>k. returnsFail bareClock (scKubelet failingKubelet k)"
    "0 < Interval exampleCfg" "0 \<le> ScraperMaxReruns (Kubelet exampleCfg)" "ScraperMaxReruns (Kubelet exampleCfg) = 4"
    by (auto simp: healthy_def failingKubelet_def exampleCfg_def bareClock_def returnsFail_def)
  from kubelet_outage_exits[OF this(1-3) ticks_bareClock this(4,5) initial_example, of 5]
    kubelet_outage_exits[OF this(1-3) ticks_bareClock this(4,5) initial_example, of 6] this(6)
  show ?thesis by simp
qed

end
