(* ===== verification/Lifecycle.thy ===== *)
theory Lifecycle
  imports Process
begin

text \<open>
  The stop channels of the informers: \<open>internal/discovery\<close> opens one for each lister, the scrapers collect them
  and close them in \<open>Close\<close>, which \<open>cmd/nri-kubernetes/main.go\<close> defers. An informer runs as long as
  its channel is open; the wait of the constructors for the caches is in \<open>Startup\<close>. The lemmas show which informers a set-up starts and which of them the deferred
  calls stop.
\<close>

section \<open>Channels and informers\<close>

type_synonym chan = "nat option"

record informers =
  infNext :: nat
  infClosed :: "nat list"
  infStarted :: "(string \<times> nat) list"

definition makeChan :: "informers \<Rightarrow> nat \<times> informers" where
  "makeChan s = (infNext s, s\<lparr>infNext := Suc (infNext s)\<rparr>)"

definition closeChan :: "chan \<Rightarrow> informers \<Rightarrow> unit result \<times> informers" where
  "closeChan c s =
     (case c of
        None \<Rightarrow> (Panic ''close of nil channel'', s)
      | Some i \<Rightarrow>
          if i \<in> set (infClosed s) then (Panic ''close of closed channel'', s) else (Ok (), s\<lparr>infClosed := i # infClosed s\<rparr>))"

text \<open>\<open>factory.Start\<close> for the informer of one kind of objects.\<close>

definition startInformer :: "string \<Rightarrow> nat \<Rightarrow> informers \<Rightarrow> informers" where
  "startInformer kind i s = s\<lparr>infStarted := infStarted s @ [(kind, i)]\<rparr>"

definition running :: "informers \<Rightarrow> (string \<times> nat) set" where
  "running s = {(kind, i) \<in> set (infStarted s). i \<notin> set (infClosed s)}"

definition openChan :: "informers \<Rightarrow> chan \<Rightarrow> bool" where
  "openChan s c \<longleftrightarrow> (\<exists>i. c = Some i \<and> i < infNext s \<and> i \<notin> set (infClosed s))"

definition wfInformers :: "informers \<Rightarrow> bool" where
  "wfInformers s \<longleftrightarrow> (\<forall>i \<in> set (infClosed s). i < infNext s) \<and> (\<forall>(kind, i) \<in> set (infStarted s). i < infNext s)"

definition noInformers :: informers where
  "noInformers = \<lparr>infNext = 0, infClosed = [], infStarted = []\<rparr>"

section \<open>Listers\<close>

text \<open>The lister itself belongs to \<open>client-go\<close>; it is returned with the channel that stops its informer.\<close>

definition NewNodeLister :: "'l \<Rightarrow> informers \<Rightarrow> ('l \<times> chan) \<times> informers" where
  "NewNodeLister lister s =
     (case makeChan s of (stopCh, s') \<Rightarrow> ((lister, Some stopCh), startInformer ''nodes'' stopCh s'))"

definition NewServicesLister :: "'l \<Rightarrow> informers \<Rightarrow> ('l \<times> chan) \<times> informers" where
  "NewServicesLister lister s =
     (case makeChan s of (stopCh, s') \<Rightarrow> ((lister, Some stopCh), startInformer ''services'' stopCh s'))"

text \<open>The loops over the namespaces, which start one informer for each.\<close>

definition SecretListererWithCloser :: "(string \<Rightarrow> 'l) \<Rightarrow> string list \<Rightarrow> informers \<Rightarrow> ((string, 'l) gomap \<times> chan) \<times> informers" where
  "SecretListererWithCloser lister namespaces s =
     (case makeChan s of (stopCh, s') \<Rightarrow>
        ((NewNamespaceSecretListerer lister namespaces, Some stopCh),
         foldl (\<lambda>s ns. startInformer (''secrets in '' @ ns) stopCh s) s' namespaces))"

definition PodListererWithCloser :: "(string \<Rightarrow> 'l) \<Rightarrow> string list \<Rightarrow> informers \<Rightarrow> ((string, 'l) gomap \<times> chan) \<times> informers" where
  "PodListererWithCloser lister namespaces s =
     (case makeChan s of (stopCh, s') \<Rightarrow>
        ((NewNamespacePodListerer lister namespaces, Some stopCh),
         foldl (\<lambda>s ns. startInformer (''pods in '' @ ns) stopCh s) s' namespaces))"

definition ErrClientNotConfigured :: err where "ErrClientNotConfigured = errorsNew ''client must be configured''"

definition NewEndpointSliceDiscoverer ::
  "bool \<Rightarrow> (string \<Rightarrow> string \<Rightarrow> 'l) \<Rightarrow> discoveryconfig \<Rightarrow> informers \<Rightarrow> (('l \<times> int) \<times> chan) result \<times> informers" where
  "NewEndpointSliceDiscoverer hasClient lister dc s =
     (if \<not> hasClient then (Fail ErrClientNotConfigured, s)
      else case makeChan s of (stopCh, s') \<Rightarrow>
        (Ok ((lister (dcSelector dc) (dcNamespace dc), dcPort dc), Some stopCh),
         startInformer (''endpointslices of '' @ dcSelector dc @ '' in '' @ dcNamespace dc) stopCh s'))"

section \<open>The namespace filter\<close>

record 'sel closablefilter =
  cfFilter :: "'sel namespacefilter"
  cfStopCh :: chan

definition NewNamespaceFilter :: "namespaceselector option \<Rightarrow> ('sel \<Rightarrow> err + knamespace list) \<Rightarrow> informers \<Rightarrow> 'sel closablefilter \<times> informers" where
  "NewNamespaceFilter c lister s =
     (case makeChan s of (stopCh, s') \<Rightarrow>
        (\<lparr>cfFilter = \<lparr>nfC = c, nfLister = lister\<rparr>, cfStopCh = Some stopCh\<rparr>, startInformer ''namespaces'' stopCh s'))"

definition NamespaceFilterClose :: "'sel closablefilter \<Rightarrow> informers \<Rightarrow> unit result \<times> informers" where
  "NamespaceFilterClose nf s =
     (if cfStopCh nf = None then (Fail (errorsNew ''invalid channel''), s) else closeChan (cfStopCh nf) s)"

section \<open>The constructors and Close\<close>

text \<open>The scrapers as they were modelled, with \<open>informerClosers\<close>. The version is asked for before any informer is started;
  the constructors of the authenticator and of the pod discoverer fail only through their options, and that of the logger does not.\<close>

definition KubeletNewScraper ::
  "(err + string) \<Rightarrow> (string \<Rightarrow> (err + string) option) \<Rightarrow> 'l \<Rightarrow> config \<Rightarrow> string \<Rightarrow> informers \<Rightarrow> (err + (kubeletscraper \<times> 'l \<times> chan list)) \<times> informers" where
  "KubeletNewScraper version openFile nodes cfg cid s =
     (case NewKubeletScraper version openFile cfg cid of
        Inl e \<Rightarrow> (Inl e, s)
      | Inr scraper \<Rightarrow> (case NewNodeLister nodes s of ((nodeGetter, nodeCloser), s') \<Rightarrow> (Inr (scraper, nodeGetter, [nodeCloser]), s')))"

definition KsmNewScraper ::
  "(err + string) \<Rightarrow> bool \<Rightarrow> (string \<Rightarrow> string \<Rightarrow> 'e) \<Rightarrow> 'l \<Rightarrow> config \<Rightarrow> informers \<Rightarrow> (string \<times> ('e \<times> int) \<times> 'l \<times> chan list) result \<times> informers" where
  "KsmNewScraper version hasClient slices services cfg s =
     (case version of
        Inl e \<Rightarrow> (Fail (Errorf ''fetching K8s version: %w'' [] [e]), s)
      | Inr v \<Rightarrow>
          (case NewEndpointSliceDiscoverer hasClient slices (discoveryConfig (KSM cfg)) s of
             (Fail e, s1) \<Rightarrow> (Fail (Errorf ''building endpoints disoverer: %w'' [] [Errorf ''creating EndpointSlice discoverer: %w'' [] [e]]), s1)
           | (Panic p, s1) \<Rightarrow> (Panic p, s1)
           | (Ok (discoverer, endpointsCloser), s1) \<Rightarrow>
               (case NewServicesLister services s1 of
                  ((servicesLister, servicesCloser), s2) \<Rightarrow> (Ok (v, discoverer, servicesLister, [endpointsCloser, servicesCloser]), s2))))"

definition ControlPlaneNewScraper ::
  "(err + string) \<Rightarrow> 'w cpworld \<Rightarrow> config \<Rightarrow> informers \<Rightarrow> (err + (string \<times> cpscraper \<times> chan list)) \<times> informers" where
  "ControlPlaneNewScraper version cw cfg s =
     (case version of
        Inl e \<Rightarrow> (Inl (Errorf ''fetching K8s version: %w'' [] [e]), s)
      | Inr v \<Rightarrow>
          (let components = newComponents (ControlPlane cfg) in
           case SecretListererWithCloser (cwSecrets cw) (secretNamespaces components) s of
             ((secretListerer, secretCloser), s1) \<Rightarrow>
               (case PodListererWithCloser (cwPods cw) (autodiscoverNamespaces components) s1 of
                  ((podListerer, podCloser), s2) \<Rightarrow>
                    (Inr (v, \<lparr>csComponents = components, csSecretListers = secretListerer, csPodListers = podListerer,
                       csNodeName = CfgNodeName cfg, csTimeout = ControlPlaneTimeout (ControlPlane cfg)\<rparr>, [secretCloser, podCloser]), s2))))"

text \<open>\<open>Close\<close> of a scraper, the same loop in the three packages.\<close>

fun closeAll :: "chan list \<Rightarrow> informers \<Rightarrow> unit result \<times> informers" where
  "closeAll [] s = (Ok (), s)"
| "closeAll (ch # chs) s =
     (case closeChan ch s of
        (Ok _, s') \<Rightarrow> closeAll chs s'
      | (r, s') \<Rightarrow> (r, s'))"

text \<open>The filter is made before the scraper, an option of its constructor; nothing keeps its channel but the filter.\<close>

definition withFilter :: "('sel \<Rightarrow> err + knamespace list) \<Rightarrow> config \<Rightarrow> informers \<Rightarrow> 'sel closablefilter list \<times> informers" where
  "withFilter lister c s =
     (if NamespaceSelector c = None then ([], s)
      else case NewNamespaceFilter (NamespaceSelector c) lister s of (f, s') \<Rightarrow> ([f], s'))"

definition setupKubeletInformers ::
  "(err + string) \<Rightarrow> (string \<Rightarrow> (err + string) option) \<Rightarrow> 'l \<Rightarrow> ('sel \<Rightarrow> err + knamespace list) \<Rightarrow> config \<Rightarrow> string
     \<Rightarrow> informers \<Rightarrow> (chan list \<times> 'sel closablefilter list) result \<times> informers" where
  "setupKubeletInformers version openFile nodes lister c cid s =
     (case withFilter lister c s of (fs, s1) \<Rightarrow>
       (case KubeletNewScraper version openFile nodes c cid s1 of
          (Inl e, s2) \<Rightarrow> (Fail (Errorf ''building kubelet scraper: %w'' [] [e]), s2)
        | (Inr (_, _, closers), s2) \<Rightarrow> (Ok (closers, fs), s2)))"

definition setupKsmInformers ::
  "(err + string) \<Rightarrow> bool \<Rightarrow> (string \<Rightarrow> string \<Rightarrow> 'e) \<Rightarrow> 'l \<Rightarrow> ('sel \<Rightarrow> err + knamespace list) \<Rightarrow> config
     \<Rightarrow> informers \<Rightarrow> (chan list \<times> 'sel closablefilter list) result \<times> informers" where
  "setupKsmInformers version hasClient slices services lister c s =
     (case withFilter lister c s of (fs, s1) \<Rightarrow>
       (case KsmNewScraper version hasClient slices services c s1 of
          (Fail e, s2) \<Rightarrow> (Fail (Errorf ''building KSM scraper: %w'' [] [e]), s2)
        | (Panic p, s2) \<Rightarrow> (Panic p, s2)
        | (Ok (_, _, _, closers), s2) \<Rightarrow> (Ok (closers, fs), s2)))"

definition setupControlPlaneInformers ::
  "(err + restconfig) \<Rightarrow> (err + string) \<Rightarrow> 'w cpworld \<Rightarrow> config \<Rightarrow> informers \<Rightarrow> (chan list \<times> 'sel closablefilter list) result \<times> informers" where
  "setupControlPlaneInformers restConfig version cw c s =
     (case restConfig of
        Inl e \<Rightarrow> (Fail e, s)
      | Inr _ \<Rightarrow>
          (case ControlPlaneNewScraper version cw c s of
             (Inl e, s') \<Rightarrow> (Fail (Errorf ''building control plane scraper: %w'' [] [e]), s')
           | (Inr (_, _, closers), s') \<Rightarrow> (Ok (closers, []), s')))"

text \<open>
  The set-up of the enabled scrapers in \<open>main\<close>: each successful one defers its \<open>Close\<close>, the last deferred first. A
  failure exits the process.
\<close>

definition setupStage ::
  "bool \<Rightarrow> (informers \<Rightarrow> (chan list \<times> 'f list) result \<times> informers)
     \<Rightarrow> (chan list list \<times> 'f list \<Rightarrow> informers \<Rightarrow> (chan list list \<times> 'f list) result \<times> informers)
     \<Rightarrow> chan list list \<times> 'f list \<Rightarrow> informers \<Rightarrow> (chan list list \<times> 'f list) result \<times> informers" where
  "setupStage enabled setup next acc s =
     (if \<not> enabled then next acc s
      else case setup s of
        (Ok (closers, fs), s') \<Rightarrow> next (closers # fst acc, fs @ snd acc) s'
      | (Fail e, s') \<Rightarrow> (Fail e, s')
      | (Panic p, s') \<Rightarrow> (Panic p, s'))"

record ('sel, 'l, 'e, 'w) listers =
  liKubeletVersion :: "err + string"
  liKsmVersion :: "err + string"
  liControlPlaneVersion :: "err + string"
  liRestConfig :: "err + restconfig"
  liOpenFile :: "string \<Rightarrow> (err + string) option"
  liNodes :: 'l
  liServices :: 'l
  liSlices :: "string \<Rightarrow> string \<Rightarrow> 'e"
  liNamespaces :: "'sel \<Rightarrow> err + knamespace list"
  liControlPlane :: "'w cpworld"

definition mainInformers ::
  "('sel, 'l, 'e, 'w) listers \<Rightarrow> config \<Rightarrow> string \<Rightarrow> informers \<Rightarrow> (chan list list \<times> 'sel closablefilter list) result \<times> informers" where
  "mainInformers li c cid =
     setupStage (KubeletEnabled (Kubelet c)) (setupKubeletInformers (liKubeletVersion li) (liOpenFile li) (liNodes li) (liNamespaces li) c cid)
       (setupStage (KsmEnabled (KSM c)) (setupKsmInformers (liKsmVersion li) True (liSlices li) (liServices li) (liNamespaces li) c)
         (setupStage (ControlPlaneEnabled (ControlPlane c)) (setupControlPlaneInformers (liRestConfig li) (liControlPlaneVersion li) (liControlPlane li) c)
           (\<lambda>acc s. (Ok acc, s)))) ([], [])"

text \<open>The deferred calls run to the last one, also after a panic of one of them.\<close>

fun deferredCloses :: "chan list list \<Rightarrow> informers \<Rightarrow> unit result \<times> informers" where
  "deferredCloses [] s = (Ok (), s)"
| "deferredCloses (chs # rest) s =
     (case closeAll chs s of
        (Panic p, s') \<Rightarrow> (case deferredCloses rest s' of (Ok _, s'') \<Rightarrow> (Panic p, s'') | r \<Rightarrow> r)
      | (_, s') \<Rightarrow> deferredCloses rest s')"

fun closeFilters :: "'sel closablefilter list \<Rightarrow> informers \<Rightarrow> unit result \<times> informers" where
  "closeFilters [] s = (Ok (), s)"
| "closeFilters (f # fs) s = (case NamespaceFilterClose f s of (Ok _, s') \<Rightarrow> closeFilters fs s' | r \<Rightarrow> r)"

text \<open>The constructors make the scrapers that the start was shown to make.\<close>

lemma constructors_agree:
  "(case fst (KubeletNewScraper version openFile nodes cfg cid s) of Inl e \<Rightarrow> Inl e | Inr (scraper, _, _) \<Rightarrow> Inr scraper) =
     NewKubeletScraper version openFile cfg cid"
  "fst (ControlPlaneNewScraper version cw cfg s) = Inr (v, scraper, closers) \<Longrightarrow> scraper = NewCPScraper cw cfg \<and> version = Inr v"
  by (auto simp: KubeletNewScraper_def NewNodeLister_def makeChan_def ControlPlaneNewScraper_def NewCPScraper_def Let_def
      SecretListererWithCloser_def PodListererWithCloser_def split: sum.splits)

section \<open>The contract of a lister\<close>

text \<open>What a constructor with a stop channel does to the informers: it opens one channel, and its informers run on it.\<close>

definition batch :: "string list \<Rightarrow> informers \<Rightarrow> informers" where
  "batch kinds s = s\<lparr>infNext := Suc (infNext s), infStarted := infStarted s @ map (\<lambda>k. (k, infNext s)) kinds\<rparr>"

text \<open>
  The informers since \<open>s0\<close>: those of the namespaces run on the channels of \<open>F\<close>, the others on those of \<open>D\<close>, and
  \<open>K\<close> are their kinds.
\<close>

definition owns :: "informers \<Rightarrow> informers \<Rightarrow> nat set \<Rightarrow> nat set \<Rightarrow> string set \<Rightarrow> bool" where
  "owns s0 s D F K \<longleftrightarrow> infNext s0 \<le> infNext s \<and> infClosed s = infClosed s0 \<and> D \<inter> F = {} \<and> D \<union> F = {infNext s0..<infNext s} \<and>
     (\<exists>new. infStarted s = infStarted s0 @ new \<and> fst ` set new = K \<and>
       (\<forall>(k, i) \<in> set new. if k = ''namespaces'' then i \<in> F else i \<in> D))"

lemma owns_start: "owns s s {} {} {}"
  by (simp add: owns_def)

locale informer_source =
  fixes make :: "informers \<Rightarrow> ('r \<times> chan) \<times> informers" and kinds :: "string list"
  assumes make: "\<exists>r. make s = ((r, Some (infNext s)), batch kinds s)"
begin

lemma made: "make s = ((r, c), s') \<Longrightarrow> c = Some (infNext s) \<and> s' = batch kinds s"
  using make[of s] by auto

lemma owns_make:
  assumes "owns s0 s D F K" "make s = ((r, c), s')" "''namespaces'' \<notin> set kinds"
  shows "c = Some (infNext s) \<and> owns s0 s' (insert (infNext s) D) F (K \<union> set kinds)"
proof -
  obtain new where new: "infStarted s = infStarted s0 @ new" "fst ` set new = K"
    "\<forall>(k, i) \<in> set new. if k = ''namespaces'' then i \<in> F else i \<in> D" using assms(1) by (auto simp: owns_def)
  have fresh: "infNext s \<notin> D \<union> F" using assms(1) by (auto simp: owns_def)
  have "\<exists>new'. infStarted s' = infStarted s0 @ new' \<and> fst ` set new' = K \<union> set kinds \<and>
      (\<forall>(k, i) \<in> set new'. if k = ''namespaces'' then i \<in> F else i \<in> insert (infNext s) D)"
    using made[OF assms(2)] new assms(3)
    by (intro exI[of _ "new @ map (\<lambda>k. (k, infNext s)) kinds"]) (auto simp: batch_def image_Un image_image split: if_splits)
  then show ?thesis using made[OF assms(2)] assms(1) fresh by (auto simp: owns_def batch_def)
qed

lemma owns_make_namespaces:
  assumes "owns s0 s D F K" "make s = ((r, c), s')" "kinds = [''namespaces'']"
  shows "c = Some (infNext s) \<and> owns s0 s' D (insert (infNext s) F) (insert ''namespaces'' K)"
proof -
  obtain new where new: "infStarted s = infStarted s0 @ new" "fst ` set new = K"
    "\<forall>(k, i) \<in> set new. if k = ''namespaces'' then i \<in> F else i \<in> D" using assms(1) by (auto simp: owns_def)
  have fresh: "infNext s \<notin> D \<union> F" using assms(1) by (auto simp: owns_def)
  have "\<exists>new'. infStarted s' = infStarted s0 @ new' \<and> fst ` set new' = insert ''namespaces'' K \<and>
      (\<forall>(k, i) \<in> set new'. if k = ''namespaces'' then i \<in> insert (infNext s) F else i \<in> D)"
    using made[OF assms(2)] new assms(3)
    by (intro exI[of _ "new @ [(''namespaces'', infNext s)]"]) (auto simp: batch_def split: if_splits)
  then show ?thesis using made[OF assms(2)] assms(1) fresh by (auto simp: owns_def batch_def)
qed

text \<open>Closing the channel stops the informers of the lister and no others.\<close>

lemma close_stops:
  assumes "wfInformers s" "make s = ((r, c), s')"
  shows "\<exists>s''. closeChan c s' = (Ok (), s'') \<and> running s'' = running s \<and> is_panic (fst (closeChan c s''))"
proof -
  have c: "c = Some (infNext s)" "s' = batch kinds s" using made[OF assms(2)] by simp_all
  have "infNext s \<notin> set (infClosed s)" "\<And>k i. (k, i) \<in> set (infStarted s) \<Longrightarrow> i \<noteq> infNext s"
    using assms(1) by (auto simp: wfInformers_def)
  then show ?thesis by (auto simp: c closeChan_def batch_def running_def)
qed

end

lemma foldl_startInformer: "foldl (\<lambda>s ns. startInformer (f ns) i s) s nss = s\<lparr>infStarted := infStarted s @ map (\<lambda>ns. (f ns, i)) nss\<rparr>"
  by (induction nss arbitrary: s) (simp_all add: startInformer_def)

interpretation nodes: informer_source "NewNodeLister l" "[''nodes'']"
  by unfold_locales (simp add: NewNodeLister_def makeChan_def startInformer_def batch_def)

interpretation services: informer_source "NewServicesLister l" "[''services'']"
  by unfold_locales (simp add: NewServicesLister_def makeChan_def startInformer_def batch_def)

interpretation secrets: informer_source "SecretListererWithCloser l nss" "map (\<lambda>ns. ''secrets in '' @ ns) nss"
  by unfold_locales (simp add: SecretListererWithCloser_def makeChan_def foldl_startInformer batch_def comp_def)

interpretation pods: informer_source "PodListererWithCloser l nss" "map (\<lambda>ns. ''pods in '' @ ns) nss"
  by unfold_locales (simp add: PodListererWithCloser_def makeChan_def foldl_startInformer batch_def comp_def)

interpretation slices: informer_source
    "\<lambda>s. ((fst (NewEndpointSliceDiscoverer True l dc s), Some (infNext s)), snd (NewEndpointSliceDiscoverer True l dc s))" "[sliceKind dc]"
  by unfold_locales (simp add: NewEndpointSliceDiscoverer_def makeChan_def startInformer_def batch_def sliceKind_def)

interpretation namespaces: informer_source "\<lambda>s. ((fst (NewNamespaceFilter c l s), cfStopCh (fst (NewNamespaceFilter c l s))), snd (NewNamespaceFilter c l s))" "[''namespaces'']"
  by unfold_locales (simp add: NewNamespaceFilter_def makeChan_def startInformer_def batch_def)

section \<open>Informers of the process\<close>

definition ledger :: "informers \<Rightarrow> informers \<Rightarrow> nat list \<Rightarrow> nat list \<Rightarrow> string set \<Rightarrow> bool" where
  "ledger s0 s ds fs K \<longleftrightarrow> owns s0 s (set ds) (set fs) K \<and> distinct ds \<and> distinct fs"

lemma owns_bound: "owns s0 s D F K \<Longrightarrow> infNext s \<notin> D \<and> infNext s \<notin> F"
  by (auto simp: owns_def)

lemma ledger_start: "ledger s s [] [] {}"
  by (simp add: ledger_def owns_start)

lemma ledger_swap: "ledger s0 s (b # a # ds) fs K \<Longrightarrow> ledger s0 s (a # b # ds) fs K"
  by (auto simp: ledger_def insert_commute)

context informer_source
begin

lemma ledger_make:
  assumes "ledger s0 s ds fs K" "make s = ((r, c), s')" "''namespaces'' \<notin> set kinds"
  shows "c = Some (infNext s) \<and> ledger s0 s' (infNext s # ds) fs (K \<union> set kinds)"
  using owns_make[of s0 s "set ds" "set fs" K r c s'] owns_bound[of s0 s "set ds" "set fs" K] assms by (auto simp: ledger_def)

lemma ledger_make_namespaces:
  assumes "ledger s0 s ds fs K" "make s = ((r, c), s')" "kinds = [''namespaces'']"
  shows "c = Some (infNext s) \<and> ledger s0 s' ds (infNext s # fs) (insert ''namespaces'' K)"
  using owns_make_namespaces[of s0 s "set ds" "set fs" K r c s'] owns_bound[of s0 s "set ds" "set fs" K] assms by (auto simp: ledger_def)

end

text \<open>A set-up adds closers and filters to the ledger.\<close>

definition adds :: "(informers \<Rightarrow> (chan list \<times> 'sel closablefilter list) result \<times> informers) \<Rightarrow> string set \<Rightarrow> bool" where
  "adds setup kinds \<longleftrightarrow> (\<forall>s closers filters s' s0 ds fs K. setup s = (Ok (closers, filters), s') \<longrightarrow> ledger s0 s ds fs K \<longrightarrow>
     (\<exists>ds' fs'. closers = map Some ds' \<and> map cfStopCh filters = map Some fs' \<and> ds' \<noteq> [] \<and> ledger s0 s' (ds' @ ds) (fs' @ fs) (K \<union> kinds)))"

definition filterKinds :: "config \<Rightarrow> string set" where
  "filterKinds c = (if NamespaceSelector c = None then {} else {''namespaces''})"

lemma ledger_withFilter:
  assumes "ledger s0 s ds fs K" "withFilter lister c s = (filters, s')"
  shows "\<exists>fs'. map cfStopCh filters = map Some fs' \<and> ledger s0 s' ds (fs' @ fs) (K \<union> filterKinds c)"
proof (cases "NamespaceSelector c")
  case None
  then show ?thesis using assms by (auto simp: withFilter_def filterKinds_def)
next
  case (Some sel)
  obtain f s1 where f: "NewNamespaceFilter (Some sel) lister s = (f, s1)" by fastforce
  then have "cfStopCh f = Some (infNext s) \<and> ledger s0 s1 ds (infNext s # fs) (insert ''namespaces'' K)"
    using namespaces.ledger_make_namespaces[OF assms(1), of "Some sel" lister f "cfStopCh f" s1] by simp
  then show ?thesis using assms(2) f Some by (intro exI[of _ "[infNext s]"]) (auto simp: withFilter_def filterKinds_def)
qed

lemma adds_kubelet: "adds (setupKubeletInformers version openFile l lister c cid) (filterKinds c \<union> {''nodes''})"
  unfolding adds_def
proof (intro allI impI)
  fix s closers filters s' s0 ds fs K
  assume m: "setupKubeletInformers version openFile l lister c cid s = (Ok (closers, filters), s')" and l: "ledger s0 s ds fs K"
  obtain fl s1 where f: "withFilter lister c s = (fl, s1)" by fastforce
  obtain r ch s2 where n: "NewNodeLister l s1 = ((r, ch), s2)" by (metis surj_pair)
  have e: "fl = filters" "closers = [ch]" "s2 = s'"
    using m f n by (auto simp: setupKubeletInformers_def KubeletNewScraper_def split: sum.splits)
  obtain fs' where fs: "map cfStopCh filters = map Some fs'" "ledger s0 s1 ds (fs' @ fs) (K \<union> filterKinds c)"
    using ledger_withFilter[OF l f] e by auto
  show "\<exists>ds' fs'. closers = map Some ds' \<and> map cfStopCh filters = map Some fs' \<and> ds' \<noteq> [] \<and>
      ledger s0 s' (ds' @ ds) (fs' @ fs) (K \<union> (filterKinds c \<union> {''nodes''}))"
    using nodes.ledger_make[OF fs(2) n] fs(1) e by (intro exI[of _ "[infNext s1]"] exI[of _ fs']) (simp add: Un_assoc)
qed

lemma adds_ksm: "adds (setupKsmInformers version True sl sv lister c) (filterKinds c \<union> {sliceKind (discoveryConfig (KSM c)), ''services''})"
  unfolding adds_def
proof (intro allI impI)
  fix s closers filters s' s0 ds fs K
  assume m: "setupKsmInformers version True sl sv lister c s = (Ok (closers, filters), s')" and l: "ledger s0 s ds fs K"
  let ?dc = "discoveryConfig (KSM c)"
  obtain fl s1 where f: "withFilter lister c s = (fl, s1)" by fastforce
  obtain s2 where d: "NewEndpointSliceDiscoverer True sl ?dc s1 = (Ok ((sl (dcSelector ?dc) (dcNamespace ?dc), dcPort ?dc), Some (infNext s1)), s2)"
    by (simp add: NewEndpointSliceDiscoverer_def makeChan_def)
  obtain r ch s3 where n: "NewServicesLister sv s2 = ((r, ch), s3)" by (metis surj_pair)
  have e: "fl = filters" "closers = [Some (infNext s1), ch]" "s3 = s'"
    using m f n d by (auto simp: setupKsmInformers_def KsmNewScraper_def split: sum.splits)
  obtain fs' where fs: "map cfStopCh filters = map Some fs'" "ledger s0 s1 ds (fs' @ fs) (K \<union> filterKinds c)"
    using ledger_withFilter[OF l f] e by auto
  have l2: "ledger s0 s2 (infNext s1 # ds) (fs' @ fs) (K \<union> filterKinds c \<union> {sliceKind ?dc})"
    using slices.ledger_make[OF fs(2) refl, of ?dc sl] d by (simp add: sliceKind_def)
  from services.ledger_make[OF this n] have "ch = Some (infNext s2)"
    "ledger s0 s' (infNext s1 # infNext s2 # ds) (fs' @ fs) (K \<union> filterKinds c \<union> {sliceKind ?dc} \<union> {''services''})"
    using e by (auto intro: ledger_swap)
  then show "\<exists>ds' fs'. closers = map Some ds' \<and> map cfStopCh filters = map Some fs' \<and> ds' \<noteq> [] \<and>
      ledger s0 s' (ds' @ ds) (fs' @ fs) (K \<union> (filterKinds c \<union> {sliceKind ?dc, ''services''}))"
    using fs(1) e by (intro exI[of _ "[infNext s1, infNext s2]"] exI[of _ fs']) (auto simp: Un_assoc insert_commute)
qed

definition controlPlaneKinds :: "config \<Rightarrow> string set" where
  "controlPlaneKinds c =
     (\<lambda>ns. ''secrets in '' @ ns) ` set (secretNamespaces (newComponents (ControlPlane c))) \<union>
     (\<lambda>ns. ''pods in '' @ ns) ` set (autodiscoverNamespaces (newComponents (ControlPlane c)))"

lemma adds_controlplane:
  "adds (setupControlPlaneInformers restConfig version cw c :: informers \<Rightarrow> (chan list \<times> 'sel closablefilter list) result \<times> informers) (controlPlaneKinds c)"
  unfolding adds_def
proof (intro allI impI)
  fix s closers filters s' s0 ds fs K
  assume m: "setupControlPlaneInformers restConfig version cw c s = (Ok (closers, filters :: 'sel closablefilter list), s')" and l: "ledger s0 s ds fs K"
  let ?comps = "newComponents (ControlPlane c)"
  obtain r1 c1 s1 where n1: "SecretListererWithCloser (cwSecrets cw) (secretNamespaces ?comps) s = ((r1, c1), s1)" by (metis surj_pair)
  obtain r2 c2 s2 where n2: "PodListererWithCloser (cwPods cw) (autodiscoverNamespaces ?comps) s1 = ((r2, c2), s2)" by (metis surj_pair)
  have e: "filters = []" "closers = [c1, c2]" "s2 = s'"
    using m n1 n2 by (auto simp: setupControlPlaneInformers_def ControlPlaneNewScraper_def Let_def split: sum.splits)
  have l1: "c1 = Some (infNext s) \<and> ledger s0 s1 (infNext s # ds) fs (K \<union> set (map (\<lambda>ns. ''secrets in '' @ ns) (secretNamespaces ?comps)))"
    using secrets.ledger_make[OF l n1] by auto
  have l2: "c2 = Some (infNext s1) \<and> ledger s0 s2 (infNext s1 # infNext s # ds) fs
      (K \<union> set (map (\<lambda>ns. ''secrets in '' @ ns) (secretNamespaces ?comps)) \<union> set (map (\<lambda>ns. ''pods in '' @ ns) (autodiscoverNamespaces ?comps)))"
    using pods.ledger_make[OF conjunct2[OF l1] n2] by auto
  from ledger_swap[OF conjunct2[OF this]] have l3: "ledger s0 s' (infNext s # infNext s1 # ds) fs (K \<union> controlPlaneKinds c)"
    using e(3) by (simp add: controlPlaneKinds_def Un_assoc)
  show "\<exists>ds' fs'. closers = map Some ds' \<and> map cfStopCh filters = map Some fs' \<and> ds' \<noteq> [] \<and>
      ledger s0 s' (ds' @ ds) (fs' @ fs) (K \<union> controlPlaneKinds c)"
    using l1 l2 l3 e by (intro exI[of _ "[infNext s, infNext s1]"] exI[of _ "[]"]) simp
qed

text \<open>The ledger of the whole set-up.\<close>

definition booked :: "informers \<Rightarrow> string set \<Rightarrow> chan list list \<times> 'sel closablefilter list \<Rightarrow> informers \<Rightarrow> bool" where
  "booked s0 K acc s \<longleftrightarrow> (\<exists>dss fs. fst acc = map (map Some) dss \<and> [] \<notin> set dss \<and> map cfStopCh (snd acc) = map Some fs \<and>
     ledger s0 s (concat dss) fs K)"

lemma booked_stage:
  assumes "adds setup kinds" "booked s0 K acc s" "setupStage enabled setup next acc s = (Ok out, s')"
  shows "\<exists>acc1 s1. booked s0 (K \<union> (if enabled then kinds else {})) acc1 s1 \<and> next acc1 s1 = (Ok out, s')"
proof (cases enabled)
  case True
  then obtain closers filters s1 where r: "setup s = (Ok (closers, filters), s1)" "next (closers # fst acc, filters @ snd acc) s1 = (Ok out, s')"
    using assms(3) by (cases "setup s"; cases "fst (setup s)") (auto simp: setupStage_def)
  obtain dss fs where b: "fst acc = map (map Some) dss" "[] \<notin> set dss" "map cfStopCh (snd acc) = map Some fs" "ledger s0 s (concat dss) fs K"
    using assms(2) by (auto simp: booked_def)
  obtain ds' fs' where "closers = map Some ds'" "map cfStopCh filters = map Some fs'" "ds' \<noteq> []" "ledger s0 s1 (ds' @ concat dss) (fs' @ fs) (K \<union> kinds)"
    using assms(1)[unfolded adds_def, rule_format, OF r(1) b(4)] by blast
  then have "booked s0 (K \<union> kinds) (closers # fst acc, filters @ snd acc) s1"
    using b unfolding booked_def by (intro exI[of _ "ds' # dss"] exI[of _ "fs' @ fs"]) auto
  then show ?thesis using r(2) True by auto
next
  case False
  then show ?thesis using assms by (intro exI[of _ acc] exI[of _ s]) (simp add: setupStage_def)
qed

definition startedKinds :: "config \<Rightarrow> string set" where
  "startedKinds c =
     (if KubeletEnabled (Kubelet c) then filterKinds c \<union> {''nodes''} else {}) \<union>
     (if KsmEnabled (KSM c) then filterKinds c \<union> {sliceKind (discoveryConfig (KSM c)), ''services''} else {}) \<union>
     (if ControlPlaneEnabled (ControlPlane c) then controlPlaneKinds c else {})"

text \<open>They are the informers whose caches the start waits for.\<close>

lemma startCaches_kinds: "set (startCaches c) = startedKinds c"
  by (auto simp: startCaches_def startedKinds_def filterCaches_def filterKinds_def kubeletCaches_def ksmCaches_def controlPlaneCaches_def controlPlaneKinds_def
      split: option.split)

lemma mainInformers_booked:
  assumes "mainInformers li c cid s = (Ok out, s')"
  shows "booked s (startedKinds c) out s'"
proof -
  have "booked s {} ([], []) s" unfolding booked_def by (intro exI[of _ "[]"]) (simp add: ledger_start)
  from booked_stage[OF adds_kubelet this assms[unfolded mainInformers_def]] obtain acc1 s1 where
    1: "booked s ({} \<union> (if KubeletEnabled (Kubelet c) then filterKinds c \<union> {''nodes''} else {})) acc1 s1" and
    n1: "setupStage (KsmEnabled (KSM c)) (setupKsmInformers (liKsmVersion li) True (liSlices li) (liServices li) (liNamespaces li) c)
         (setupStage (ControlPlaneEnabled (ControlPlane c)) (setupControlPlaneInformers (liRestConfig li) (liControlPlaneVersion li) (liControlPlane li) c)
           (\<lambda>acc s. (Ok acc, s))) acc1 s1 = (Ok out, s')" by blast
  from booked_stage[OF adds_ksm 1 n1] obtain acc2 s2 where
    2: "booked s ({} \<union> (if KubeletEnabled (Kubelet c) then filterKinds c \<union> {''nodes''} else {}) \<union>
      (if KsmEnabled (KSM c) then filterKinds c \<union> {sliceKind (discoveryConfig (KSM c)), ''services''} else {})) acc2 s2" and
    n2: "setupStage (ControlPlaneEnabled (ControlPlane c)) (setupControlPlaneInformers (liRestConfig li) (liControlPlaneVersion li) (liControlPlane li) c)
           (\<lambda>acc s. (Ok acc, s)) acc2 s2 = (Ok out, s')" by blast
  from booked_stage[OF adds_controlplane 2 n2] show ?thesis by (auto simp: startedKinds_def)
qed

section \<open>What Close stops\<close>

lemma closeAll_fresh:
  "distinct ds \<Longrightarrow> set ds \<inter> set (infClosed s) = {} \<Longrightarrow> closeAll (map Some ds) s = (Ok (), s\<lparr>infClosed := rev ds @ infClosed s\<rparr>)"
  by (induction ds arbitrary: s) (auto simp: closeChan_def)

lemma deferredCloses_fresh:
  "distinct (concat dss) \<Longrightarrow> set (concat dss) \<inter> set (infClosed s) = {} \<Longrightarrow>
     deferredCloses (map (map Some) dss) s = (Ok (), s\<lparr>infClosed := rev (concat dss) @ infClosed s\<rparr>)"
proof (induction dss arbitrary: s)
  case (Cons ds dss)
  have "closeAll (map Some ds) s = (Ok (), s\<lparr>infClosed := rev ds @ infClosed s\<rparr>)" using Cons.prems by (intro closeAll_fresh) auto
  moreover have "deferredCloses (map (map Some) dss) (s\<lparr>infClosed := rev ds @ infClosed s\<rparr>) =
      (Ok (), s\<lparr>infClosed := rev ds @ infClosed s\<rparr>\<lparr>infClosed := rev (concat dss) @ (rev ds @ infClosed s)\<rparr>)"
    using Cons.prems by (subst Cons.IH) auto
  ultimately show ?case by simp
qed simp

lemma closeFilters_fresh:
  "map cfStopCh filters = map Some fs \<Longrightarrow> distinct fs \<Longrightarrow> set fs \<inter> set (infClosed s) = {} \<Longrightarrow>
     closeFilters filters s = (Ok (), s\<lparr>infClosed := rev fs @ infClosed s\<rparr>)"
proof (induction filters arbitrary: fs s)
  case (Cons f filters)
  then obtain i fs' where fs: "fs = i # fs'" "cfStopCh f = Some i" "map cfStopCh filters = map Some fs'" by (cases fs) auto
  let ?s = "s\<lparr>infClosed := i # infClosed s\<rparr>"
  have "NamespaceFilterClose f s = (Ok (), ?s)" using Cons.prems fs by (simp add: NamespaceFilterClose_def closeChan_def)
  moreover have "closeFilters filters ?s = (Ok (), ?s\<lparr>infClosed := rev fs' @ infClosed ?s\<rparr>)" using Cons.prems fs by (intro Cons.IH) auto
  ultimately show ?case using fs(1) by simp
qed simp

lemma deferredCloses_again:
  assumes "dss \<noteq> []" "[] \<notin> set dss" "\<forall>ds \<in> set dss. set ds \<subseteq> set (infClosed s)"
  shows "is_panic (fst (deferredCloses (map (map Some) dss) s)) \<and> snd (deferredCloses (map (map Some) dss) s) = s"
  using assms
proof (induction dss)
  case (Cons ds dss)
  then obtain i ds' where "ds = i # ds'" "i \<in> set (infClosed s)" by (cases ds) auto
  then have "closeAll (map Some ds) s = (Panic ''close of closed channel'', s)" by (simp add: closeChan_def)
  then show ?case using Cons by (cases "dss = []") (auto split: result.split prod.split)
qed simp

text \<open>
  C22: The informers of the process. A set-up that succeeds has started exactly the informers that the configuration asks
  for, each on an open channel. The deferred \<open>Close\<close> calls close every channel of the scrapers once, without a panic,
  and stop all of these informers but those of the namespaces: nothing in the program closes a namespace filter,
  although its \<open>Close\<close> would stop them. Closing a scraper twice panics.
\<close>

theorem deferred_closes_stop:
  assumes "wfInformers s" "mainInformers li c cid s = (Ok (deferred, filters), s')"
  shows "fst ` (running s' - running s) = startedKinds c \<and> running s \<subseteq> running s' \<and>
    (\<exists>s1 s2. deferredCloses deferred s' = (Ok (), s1) \<and> running s1 = running s \<union> {x \<in> running s' - running s. fst x = ''namespaces''} \<and>
      closeFilters filters s1 = (Ok (), s2) \<and> running s2 = running s \<and>
      (deferred \<noteq> [] \<longrightarrow> is_panic (fst (deferredCloses deferred s1))))"
proof -
  obtain dss fs where b: "deferred = map (map Some) dss" "[] \<notin> set dss" "map cfStopCh filters = map Some fs"
    and l: "ledger s s' (concat dss) fs (startedKinds c)"
    using mainInformers_booked[OF assms(2)] by (auto simp: booked_def)
  obtain new where new: "infStarted s' = infStarted s @ new" "fst ` set new = startedKinds c"
    "\<forall>(k, i) \<in> set new. if k = ''namespaces'' then i \<in> set fs else i \<in> set (concat dss)"
    using l unfolding ledger_def owns_def by blast
  have l': "infClosed s' = infClosed s" "set (concat dss) \<inter> set fs = {}" "set (concat dss) \<union> set fs = {infNext s..<infNext s'}"
    "distinct (concat dss)" "distinct fs" using l by (auto simp: ledger_def owns_def)
  have range: "infNext s \<le> i" if "i \<in> set (concat dss) \<or> i \<in> set fs" for i using that l'(3) by (metis Un_iff atLeastLessThan_iff)
  have old: "i \<in> set (infClosed s) \<Longrightarrow> i < infNext s" "(k, i) \<in> set (infStarted s) \<Longrightarrow> i < infNext s" for i k
    using assms(1) by (auto simp: wfInformers_def)
  have apart: "set (concat dss) \<inter> set (infClosed s) = {}" "set fs \<inter> set (infClosed s) = {}"
    using range old(1) by (meson disjoint_iff leD)+
  have news: "i \<notin> set (infClosed s)" "(k, i) \<notin> set (infStarted s)" "infNext s \<le> i" if "(k, i) \<in> set new" for k i
  proof -
    have "i \<in> set (concat dss) \<or> i \<in> set fs" using new(3) that by (auto simp del: set_concat split: if_splits)
    then show "infNext s \<le> i" by (rule range)
    then show "i \<notin> set (infClosed s)" "(k, i) \<notin> set (infStarted s)" using old by (meson leD)+
  qed
  have run: "running s' = running s \<union> set new" using news(1) by (auto simp: running_def new(1) l'(1))
  have diff: "running s' - running s = set new" using run news(2) by (auto simp: running_def)
  let ?s1 = "s'\<lparr>infClosed := rev (concat dss) @ infClosed s'\<rparr>"
  let ?s2 = "?s1\<lparr>infClosed := rev fs @ infClosed ?s1\<rparr>"
  have c1: "deferredCloses deferred s' = (Ok (), ?s1)" unfolding b(1) using l' apart by (intro deferredCloses_fresh) auto
  have c2: "closeFilters filters ?s1 = (Ok (), ?s2)" using l' apart by (intro closeFilters_fresh[OF b(3)]) auto
  have untouched: "i \<notin> set (concat dss) \<and> i \<notin> set fs" if "(k, i) \<in> set (infStarted s)" for k i
    using old(2)[OF that] range by (meson leD)
  have sorted: "i \<in> set (concat dss) \<longleftrightarrow> k \<noteq> ''namespaces''" "i \<in> set (concat dss) \<or> i \<in> set fs" if "(k, i) \<in> set new" for k i
    using new(3) that l'(2) by (auto simp del: set_concat split: if_splits)
  have r1: "running ?s1 = running s \<union> {x \<in> set new. fst x = ''namespaces''}"
    using untouched sorted(1) news(1) by (auto simp: running_def new(1) l'(1) simp del: set_concat)
  have r2: "running ?s2 = running s"
    using untouched sorted(2) by (auto simp: running_def new(1) l'(1) simp del: set_concat)
  have again: "deferred \<noteq> [] \<longrightarrow> is_panic (fst (deferredCloses deferred ?s1))"
    unfolding b(1) using deferredCloses_again[of dss ?s1] b(2) by auto
  show ?thesis unfolding diff using new(2) run c1 c2 r1 r2 again by blast
qed

text \<open>A node with the kubelet, kube-state-metrics and a namespace selector.\<close>

definition exampleListers :: "(unit, unit, unit, unit) listers" where
  "exampleListers =
     \<lparr>liKubeletVersion = Inr ''v1.30.0'', liKsmVersion = Inr ''v1.30.0'', liControlPlaneVersion = Inr ''v1.30.0'',
      liRestConfig = Inl ErrClientNotConfigured, liOpenFile = (\<lambda>_. None), liNodes = (), liServices = (), liSlices = (\<lambda>_ _. ()),
      liNamespaces = (\<lambda>_. Inr []), liControlPlane = exampleCPWorld\<rparr>"

definition selectiveCfg :: config where
  "selectiveCfg = exampleCfg\<lparr>NamespaceSelector := Some exampleSelector, KSM := (KSM exampleCfg)\<lparr>KsmEnabled := True\<rparr>,
     Kubelet := (Kubelet exampleCfg)\<lparr>KubeletEnabled := True\<rparr>,
     ControlPlane := (ControlPlane exampleCfg)\<lparr>ControlPlaneEnabled := False\<rparr>\<rparr>"

lemma example_setup:
  "\<exists>filters s'. mainInformers exampleListers selectiveCfg [] noInformers = (Ok ([[Some 3, Some 4], [Some 1]], filters), s')"
  by (simp add: mainInformers_def setupStage_def exampleListers_def selectiveCfg_def setupKubeletInformers_def setupKsmInformers_def
      withFilter_def NewNamespaceFilter_def KubeletNewScraper_def NewKubeletScraper_def KsmNewScraper_def NewEndpointSliceDiscoverer_def
      NewServicesLister_def NewNodeLister_def makeChan_def startInformer_def noInformers_def)

theorem deferred_closes_stop_witness:
  "\<exists>filters s' s1 i. mainInformers exampleListers selectiveCfg [] noInformers = (Ok ([[Some 3, Some 4], [Some 1]], filters), s') \<and>
     fst ` running s' = startedKinds selectiveCfg \<and>
     deferredCloses [[Some 3, Some 4], [Some 1]] s' = (Ok (), s1) \<and> (''namespaces'', i) \<in> running s1"
proof -
  obtain filters s' where m: "mainInformers exampleListers selectiveCfg [] noInformers = (Ok ([[Some 3, Some 4], [Some 1]], filters), s')"
    using example_setup by blast
  have none: "running noInformers = {}" "wfInformers noInformers" by (simp_all add: running_def noInformers_def wfInformers_def)
  from deferred_closes_stop[OF none(2) m, unfolded none(1) Diff_empty Un_empty_left] obtain s1 where
    r: "fst ` running s' = startedKinds selectiveCfg" "deferredCloses [[Some 3, Some 4], [Some 1]] s' = (Ok (), s1)"
    "running s1 = {x \<in> running s'. fst x = ''namespaces''}" by blast
  have "''namespaces'' \<in> startedKinds selectiveCfg" by (simp add: startedKinds_def selectiveCfg_def filterKinds_def)
  then obtain i where "(''namespaces'', i) \<in> running s'" unfolding r(1)[symmetric] by force
  then have "(''namespaces'', i) \<in> running s1" using r(3) by simp
  then show ?thesis using m r by blast
qed

end
