(* ===== verification/Store_Goroutine.thy ===== *)
theory Store_Goroutine
  imports Storer
begin

text \<open>
  \<open>internal/storer/storer.go\<close> with its goroutine: the ticker, the stop channel and the \<open>select\<close> between them. Each
  operation holds the lock for its whole body, so it is one step; between the receipt of a tick and the vacuum
  other operations may take the lock. The lemmas compare every run with the history of its calls, which
  is all that the users of the store can rely on.
\<close>

section \<open>The goroutine\<close>

datatype phase = Selecting | Sweeping | Returned

text \<open>
  The channel of a ticker holds one tick, and more are dropped. \<open>Stop\<close> also discards a tick that was not received
  (since Go 1.23; the module asks for Go 1.26).
\<close>

record runningstore =
  rsStore :: inmemorystore
  rsTicking :: bool
  rsTick :: bool
  rsStopped :: bool
  rsPhase :: phase

definition StartStore :: "int \<Rightarrow> int \<Rightarrow> runningstore result" where
  "StartStore ttl interval =
     (if interval \<le> 0 then Panic ''non-positive interval for NewTicker''
      else Ok \<lparr>rsStore = NewInMemoryStore ttl, rsTicking = True, rsTick = False, rsStopped = False, rsPhase = Selecting\<rparr>)"

definition StopVacuum :: "runningstore \<Rightarrow> unit result \<times> runningstore" where
  "StopVacuum s =
     (let s' = s\<lparr>rsTicking := False, rsTick := False\<rparr> in
      if rsStopped s' then (Panic ''close of closed channel'', s') else (Ok (), s'\<lparr>rsStopped := True\<rparr>))"

definition StoreSave :: "inmemorystore \<Rightarrow> err option \<times> inmemorystore" where
  "StoreSave ims = (None, ims)"

definition StoreDelete :: "string \<Rightarrow> inmemorystore \<Rightarrow> err option \<times> inmemorystore" where
  "StoreDelete key ims = (None, ims)"

text \<open>
  What happens to a store, with the results of the calls: \<open>TickDue\<close> is the ticker's, \<open>TakeTick\<close>, \<open>Sweep\<close> and
  \<open>Leave\<close> are the goroutine's. The last argument of \<open>SetAt\<close> is the result of the call.
\<close>

datatype storeevent =
    SetAt int string goval int
  | GetAt string destination "(int \<times> goval) result"
  | SaveCall "err option"
  | DeleteCall string "err option"
  | TickDue
  | TakeTick
  | Sweep "string \<Rightarrow> int"
  | Leave
  | StopCall "unit result"

inductive storeStep :: "err \<Rightarrow> runningstore \<Rightarrow> storeevent \<Rightarrow> runningstore \<Rightarrow> bool" for nf where
  do_set: "StoreSet ts k v (rsStore s) = (r, ims) \<Longrightarrow> storeStep nf s (SetAt ts k v r) (s\<lparr>rsStore := ims\<rparr>)"
| do_get: "StoreGet nf k dest (rsStore s) = r \<Longrightarrow> storeStep nf s (GetAt k dest r) s"
| do_save: "StoreSave (rsStore s) = (r, ims) \<Longrightarrow> storeStep nf s (SaveCall r) (s\<lparr>rsStore := ims\<rparr>)"
| do_delete: "StoreDelete k (rsStore s) = (r, ims) \<Longrightarrow> storeStep nf s (DeleteCall k r) (s\<lparr>rsStore := ims\<rparr>)"
| tick: "rsTicking s \<Longrightarrow> storeStep nf s TickDue (s\<lparr>rsTick := True\<rparr>)"
| take_tick: "rsPhase s = Selecting \<Longrightarrow> rsTick s \<Longrightarrow> storeStep nf s TakeTick (s\<lparr>rsTick := False, rsPhase := Sweeping\<rparr>)"
| sweep: "rsPhase s = Sweeping \<Longrightarrow> storeStep nf s (Sweep now) (s\<lparr>rsStore := vacuum now (rsStore s), rsPhase := Selecting\<rparr>)"
| leave: "rsPhase s = Selecting \<Longrightarrow> rsStopped s \<Longrightarrow> storeStep nf s Leave (s\<lparr>rsPhase := Returned\<rparr>)"
| stop: "StopVacuum s = (r, s') \<Longrightarrow> storeStep nf s (StopCall r) s'"

inductive_simps storeStep_simps [simp]:
  "storeStep nf s (SetAt ts k v r) s'" "storeStep nf s (GetAt k dest g) s'" "storeStep nf s (SaveCall e) s'"
  "storeStep nf s (DeleteCall k e) s'" "storeStep nf s TickDue s'" "storeStep nf s TakeTick s'"
  "storeStep nf s (Sweep now) s'" "storeStep nf s Leave s'" "storeStep nf s (StopCall u) s'"

text \<open>A run with its history, the latest event last.\<close>

inductive storeRun :: "err \<Rightarrow> runningstore \<Rightarrow> storeevent list \<Rightarrow> runningstore \<Rightarrow> bool" for nf s0 where
  start: "storeRun nf s0 [] s0"
| more: "storeRun nf s0 h s \<Longrightarrow> storeStep nf s e s' \<Longrightarrow> storeRun nf s0 (h @ [e]) s'"

lemma storeRun_snoc: "storeRun nf s0 (h @ [e]) s' \<longleftrightarrow> (\<exists>s. storeRun nf s0 h s \<and> storeStep nf s e s')"
  by (subst storeRun.simps) auto

lemma storeRun_Nil [simp]: "storeRun nf s0 [] s \<longleftrightarrow> s = s0"
  by (subst storeRun.simps) auto

lemma storeRun_append: "storeRun nf s0 (h @ h') s \<longleftrightarrow> (\<exists>s1. storeRun nf s0 h s1 \<and> storeRun nf s1 h' s)"
proof (induction h' arbitrary: s rule: rev_induct)
  case (snoc e h')
  show ?case unfolding append_assoc[symmetric] storeRun_snoc snoc.IH by blast
qed simp

lemma storeRun_Cons: "storeRun nf s0 (e # h) s \<longleftrightarrow> (\<exists>s1. storeStep nf s0 e s1 \<and> storeRun nf s1 h s)"
  using storeRun_append[of nf s0 "[e]" h s] storeRun_snoc[of nf s0 "[]" e] by simp

section \<open>What the history promises\<close>

definition tooOld :: "int \<Rightarrow> int \<Rightarrow> jsonentry \<Rightarrow> bool" where
  "tooOld ttl t e = flt (Seconds ttl) (Seconds (t - entryTimestamp e))"

fun promiseStep :: "int \<Rightarrow> (string \<rightharpoonup> jsonentry) \<Rightarrow> storeevent \<Rightarrow> (string \<rightharpoonup> jsonentry)" where
  "promiseStep ttl m (SetAt ts k v r) = m(k \<mapsto> \<lparr>entryTimestamp = ts, entryValue = v\<rparr>)"
| "promiseStep ttl m (Sweep now) = (\<lambda>k. case m k of Some e \<Rightarrow> if tooOld ttl (now k) e then None else Some e | None \<Rightarrow> None)"
| "promiseStep ttl m _ = m"

definition promised :: "int \<Rightarrow> storeevent list \<Rightarrow> (string \<rightharpoonup> jsonentry)" where
  "promised ttl h = foldl (promiseStep ttl) Map.empty h"

text \<open>The answer to a read of a key that holds the entry.\<close>

fun answer :: "err \<Rightarrow> destination \<Rightarrow> jsonentry option \<Rightarrow> (int \<times> goval) result" where
  "answer nf (PointerTo dst) (Some e) =
     (if entryValue e = VNil then Panic ''reflect: call of reflect.Value.Type on zero Value''
      else if assignable (goType (entryValue e)) dst then Ok (unixSeconds (entryTimestamp e), entryValue e)
      else Fail (Errorf ''the types of cache source and dst are different: %q %q'' [goType (entryValue e), dst] []))"
| "answer nf (PointerTo dst) None = Fail nf"
| "answer nf _ _ = Fail (errorsNew ''destination argument must be an empty pointer'')"

lemma StoreGet_answer: "StoreGet nf k dest ims = answer nf dest (storeLookup ims k)"
  by (auto simp: StoreGet_def storeLookup_def split: destination.split option.split)

lemma wfmap_vacuum: "wfmap (cachedData ims) \<Longrightarrow> wfmap (cachedData (vacuum now ims))"
proof -
  have "wfmap acc \<Longrightarrow> wfmap (foldl (\<lambda>m (k, v). if P k v then mdel k m else m) acc xs)" for P acc and xs :: "(string \<times> jsonentry) list"
    by (induction xs arbitrary: acc) (auto simp: wfmap_mdel)
  then show "wfmap (cachedData ims) \<Longrightarrow> wfmap (cachedData (vacuum now ims))" by (simp add: vacuum_def)
qed

lemma storeTTL_vacuum: "storeTTL (vacuum now ims) = storeTTL ims"
  by (simp add: vacuum_def)

text \<open>A sweep in terms of the lookup alone.\<close>

lemma storeLookup_sweep:
  assumes "wfmap (cachedData ims)"
  shows "storeLookup (vacuum now ims) k =
    (case storeLookup ims k of Some e \<Rightarrow> if tooOld (storeTTL ims) (now k) e then None else Some e | None \<Rightarrow> None)"
proof -
  have "(k, e) \<in> set (cachedData ims) \<longleftrightarrow> storeLookup ims k = Some e" for e
    using assms mget_of_set mget_SomeD by (metis storeLookup_def)
  then show ?thesis by (auto simp: storeLookup_vacuum tooOld_def split: option.split)
qed

definition storeInv :: "int \<Rightarrow> runningstore \<Rightarrow> (string \<rightharpoonup> jsonentry) \<Rightarrow> bool" where
  "storeInv ttl s m \<longleftrightarrow> wfmap (cachedData (rsStore s)) \<and> storeTTL (rsStore s) = ttl \<and> (\<forall>k. storeLookup (rsStore s) k = m k)"

lemma storeInv_step:
  assumes "storeInv ttl s m" "storeStep nf s e s'"
  shows "storeInv ttl s' (promiseStep ttl m e)"
  using assms(2,1)
  by cases (auto simp: storeInv_def StoreSet_def StoreSave_def StoreDelete_def StopVacuum_def Let_def storeLookup_def wfmap_mput
      wfmap_vacuum storeLookup_sweep[unfolded storeLookup_def] storeTTL_vacuum split: if_splits)

lemma promised_Nil [simp]: "promised ttl [] = Map.empty"
  and promised_snoc [simp]: "promised ttl (h @ [e]) = promiseStep ttl (promised ttl h) e"
  by (simp_all add: promised_def)

lemma storeInv_run:
  assumes "StartStore ttl interval = Ok s0" "storeRun nf s0 h s"
  shows "storeInv ttl s (promised ttl h)"
  using assms(2)
proof induction
  case start
  then show ?case using assms(1) by (auto simp: StartStore_def storeInv_def NewInMemoryStore_def storeLookup_def wfmap_def split: if_splits)
qed (simp add: storeInv_step)

text \<open>
  C18: The store refines its history: whatever the interleaving of its users with the ticker and the goroutine, a key
  holds what the last \<open>Set\<close> stored, until a sweep sees it older than the time to live, and every read in
  the history was answered from what had happened before it.
\<close>

theorem store_refines_history:
  assumes "StartStore ttl interval = Ok s0" "storeRun nf s0 h s"
  shows "storeLookup (rsStore s) = promised ttl h \<and>
    (\<forall>h1 k dest r h2. h = h1 @ GetAt k dest r # h2 \<longrightarrow> r = answer nf dest (promised ttl h1 k))"
proof (intro conjI allI impI)
  show "storeLookup (rsStore s) = promised ttl h" using storeInv_run[OF assms] by (auto simp: storeInv_def)
next
  fix h1 k dest r h2
  assume "h = h1 @ GetAt k dest r # h2"
  then obtain s1 where "storeRun nf s0 h1 s1" "r = StoreGet nf k dest (rsStore s1)"
    using assms(2) by (auto simp: storeRun_append storeRun_Cons)
  then show "r = answer nf dest (promised ttl h1 k)"
    using storeInv_run[OF assms(1)] by (simp add: StoreGet_answer storeInv_def)
qed

lemma exampleRun:
  "storeRun nf \<lparr>rsStore = NewInMemoryStore 600000000000, rsTicking = True, rsTick = False, rsStopped = False, rsPhase = Selecting\<rparr>
     [SetAt 500 ''k'' (VString ''v'') 0, TickDue, TakeTick, GetAt ''k'' (PointerTo ''string'') (Ok (0, VString ''v'')), Sweep (\<lambda>_. 602000000500),
      GetAt ''k'' (PointerTo ''string'') (Fail nf)]
     \<lparr>rsStore = vacuum (\<lambda>_. 602000000500) exampleStore, rsTicking = True, rsTick = False, rsStopped = False, rsPhase = Selecting\<rparr>"
  using vacuum_by_age_witness
  by (simp add: storeRun_Cons exampleStore_def StoreSet_def NewInMemoryStore_def StoreGet_def unixSeconds_def assignable_def)

theorem store_refines_history_witness:
  "\<forall>nf. promised 600000000000 [SetAt 500 ''k'' (VString ''v'') 0, TickDue, TakeTick] ''k'' = Some \<lparr>entryTimestamp = 500, entryValue = VString ''v''\<rparr> \<and>
     storeLookup (vacuum (\<lambda>_. 602000000500) exampleStore) =
       promised 600000000000 [SetAt 500 ''k'' (VString ''v'') 0, TickDue, TakeTick, GetAt ''k'' (PointerTo ''string'') (Ok (0, VString ''v'')),
         Sweep (\<lambda>_. 602000000500), GetAt ''k'' (PointerTo ''string'') (Fail nf)]"
proof
  fix nf
  show "promised 600000000000 [SetAt 500 ''k'' (VString ''v'') 0, TickDue, TakeTick] ''k'' = Some \<lparr>entryTimestamp = 500, entryValue = VString ''v''\<rparr> \<and>
     storeLookup (vacuum (\<lambda>_. 602000000500) exampleStore) =
       promised 600000000000 [SetAt 500 ''k'' (VString ''v'') 0, TickDue, TakeTick, GetAt ''k'' (PointerTo ''string'') (Ok (0, VString ''v'')),
         Sweep (\<lambda>_. 602000000500), GetAt ''k'' (PointerTo ''string'') (Fail nf)]"
    using store_refines_history[OF _ exampleRun[of nf], of 600000000000 1] by (simp add: StartStore_def promised_def)
qed

section \<open>Stopping\<close>

text \<open>An entry that no sweep has seen older than the time to live is still promised.\<close>

lemma promised_young:
  assumes "\<forall>e \<in> set h2. (\<forall>ts v r. e \<noteq> SetAt ts k v r) \<and> (\<forall>now. e = Sweep now \<longrightarrow> \<not> tooOld ttl (now k) \<lparr>entryTimestamp = ts, entryValue = v\<rparr>)"
  shows "promised ttl (h1 @ SetAt ts k v r # h2) k = Some \<lparr>entryTimestamp = ts, entryValue = v\<rparr>"
  using assms
proof (induction h2 rule: rev_induct)
  case (snoc e h2)
  then have "promised ttl (h1 @ SetAt ts k v r # h2) k = Some \<lparr>entryTimestamp = ts, entryValue = v\<rparr>" by simp
  then show ?case using snoc.prems by (cases e) (auto simp: promised_def)
qed (simp add: promised_def)

fun isSweep :: "storeevent \<Rightarrow> bool" where
  "isSweep (Sweep now) = True"
| "isSweep _ = False"

definition sweeps :: "storeevent list \<Rightarrow> nat" where
  "sweeps h = length (filter isSweep h)"

definition halted :: "runningstore \<Rightarrow> bool" where
  "halted s \<longleftrightarrow> rsStopped s \<and> \<not> rsTicking s \<and> \<not> rsTick s"

definition pendingSweep :: "runningstore \<Rightarrow> nat" where
  "pendingSweep s = (if rsPhase s = Sweeping then 1 else 0)"

lemma halted_step:
  assumes "halted s" "storeStep nf s e s'"
  shows "halted s' \<and> sweeps [e] + pendingSweep s' \<le> pendingSweep s \<and> (\<forall>r. e = StopCall r \<longrightarrow> is_panic r)"
  using assms(2,1) by cases (auto simp: halted_def pendingSweep_def sweeps_def StopVacuum_def Let_def)

lemma halted_run:
  assumes "storeRun nf s1 h s" "halted s1"
  shows "halted s \<and> sweeps h + pendingSweep s \<le> pendingSweep s1 \<and> (\<forall>r. StopCall r \<in> set h \<longrightarrow> is_panic r)"
  using assms
proof induction
  case (more h s e s')
  then show ?case using halted_step[of s nf e s'] by (auto simp: sweeps_def)
qed (simp add: sweeps_def)

lemma returned_run: "storeRun nf s1 h s \<Longrightarrow> rsPhase s1 = Returned \<Longrightarrow> rsPhase s = Returned \<and> sweeps h = 0"
proof (induction rule: storeRun.induct)
  case (more h s e s')
  from more.hyps(2) more.IH[OF more.prems] show ?case by cases (auto simp: sweeps_def StopVacuum_def Let_def split: if_splits)
qed (simp add: sweeps_def)

lemma StopVacuum_halts: "StopVacuum s = (r, s') \<Longrightarrow> halted s'"
  by (auto simp: StopVacuum_def halted_def Let_def split: if_splits)

lemma unstopped_run: "storeRun nf s0 h s \<Longrightarrow> \<forall>r. StopCall r \<notin> set h \<Longrightarrow> rsStopped s = rsStopped s0"
proof (induction rule: storeRun.induct)
  case (more h s e s')
  from more.hyps(2) more.prems more.IH show ?case by cases auto
qed simp

text \<open>
  C34: The first \<open>StopVacuum\<close> succeeds and ends the sweeping: at most the sweep that was already under way
  follows it, none follows the return of the goroutine, and the goroutine can return after at most
  one more step from any state it is left in. A second \<open>StopVacuum\<close> panics.
\<close>

theorem stopped_store_quiesces:
  assumes "StartStore ttl interval = Ok s0" "storeRun nf s0 (h1 @ StopCall r # h2) s" "\<forall>r'. StopCall r' \<notin> set h1"
  shows "r = Ok () \<and> sweeps h2 \<le> 1 \<and> (\<forall>h3 h4. h1 @ StopCall r # h2 = h3 @ Leave # h4 \<longrightarrow> sweeps h4 = 0) \<and>
    (rsPhase s = Returned \<or> (\<exists>h3 s'. length h3 \<le> 2 \<and> storeRun nf s h3 s' \<and> rsPhase s' = Returned)) \<and>
    (\<forall>r'. StopCall r' \<in> set h2 \<longrightarrow> is_panic r')"
proof -
  obtain s1 s2 where run: "storeRun nf s0 h1 s1" "StopVacuum s1 = (r, s2)" "storeRun nf s2 h2 s"
    using assms(2) by (auto simp: storeRun_append storeRun_Cons)
  have "\<not> rsStopped s1" using unstopped_run[OF run(1) assms(3)] assms(1) by (auto simp: StartStore_def split: if_splits)
  then have ok: "r = Ok ()" using run(2) by (auto simp: StopVacuum_def Let_def)
  note h = halted_run[OF run(3) StopVacuum_halts[OF run(2)]]
  have one: "sweeps h2 \<le> 1" using h by (auto simp: pendingSweep_def split: if_splits)
  have none: "sweeps h4 = 0" if l: "h1 @ StopCall r # h2 = h3 @ Leave # h4" for h3 h4
  proof -
    obtain s3 where "storeRun nf (s3\<lparr>rsPhase := Returned\<rparr>) h4 s"
      using assms(2)[unfolded l] by (auto simp: storeRun_append storeRun_Cons)
    then show ?thesis using returned_run by fastforce
  qed
  have "\<exists>h3 s'. length h3 \<le> 2 \<and> storeRun nf s h3 s' \<and> rsPhase s' = Returned" if "rsPhase s \<noteq> Returned"
  proof (cases "rsPhase s")
    case Selecting
    then have "storeRun nf s [Leave] (s\<lparr>rsPhase := Returned\<rparr>)" using h by (simp add: storeRun_Cons halted_def)
    then show ?thesis by (intro exI[of _ "[Leave]"] exI[of _ "s\<lparr>rsPhase := Returned\<rparr>"]) simp
  next
    case Sweeping
    then have "storeRun nf s [Sweep (\<lambda>_. 0), Leave] (s\<lparr>rsStore := vacuum (\<lambda>_. 0) (rsStore s), rsPhase := Returned\<rparr>)"
      using h by (simp add: storeRun_Cons halted_def)
    then show ?thesis by (intro exI[of _ "[Sweep (\<lambda>_. 0), Leave]"] exI[of _ "s\<lparr>rsStore := vacuum (\<lambda>_. 0) (rsStore s), rsPhase := Returned\<rparr>"]) simp
  qed (use that in simp)
  then show ?thesis using ok one none h by blast
qed

definition stopRun :: "storeevent list" where
  "stopRun = [TickDue, TakeTick, StopCall (Ok ()), Sweep (\<lambda>_. 0), StopCall (Panic ''close of closed channel''), Leave]"

definition stopEnd :: runningstore where
  "stopEnd = \<lparr>rsStore = vacuum (\<lambda>_. 0) (NewInMemoryStore 1), rsTicking = False, rsTick = False, rsStopped = True, rsPhase = Returned\<rparr>"

lemma exampleStop:
  "StartStore 1 1 = Ok s0 \<Longrightarrow> storeRun nf s0 stopRun stopEnd"
  by (auto simp: storeRun_Cons StopVacuum_def StartStore_def stopRun_def stopEnd_def)

theorem stopped_store_quiesces_witness:
  "\<exists>s0 h2. StartStore 1 1 = Ok s0 \<and> storeRun (errorsNew ''key not found'') s0 stopRun stopEnd \<and>
    stopRun = [TickDue, TakeTick] @ StopCall (Ok ()) # h2 \<and> sweeps h2 \<le> 1 \<and>
    (rsPhase stopEnd = Returned \<or> (\<exists>h3 s'. length h3 \<le> 2 \<and> storeRun (errorsNew ''key not found'') stopEnd h3 s' \<and> rsPhase s' = Returned)) \<and>
    (\<forall>r'. StopCall r' \<in> set h2 \<longrightarrow> is_panic r')"
proof -
  obtain s0 where s: "StartStore 1 1 = Ok s0" by (simp add: StartStore_def)
  let ?h2 = "[Sweep (\<lambda>_. 0), StopCall (Panic ''close of closed channel''), Leave]"
  have l: "stopRun = [TickDue, TakeTick] @ StopCall (Ok ()) # ?h2" by (simp add: stopRun_def)
  show ?thesis
    using stopped_store_quiesces[OF s exampleStop[OF s, of "errorsNew ''key not found''", unfolded l]] exampleStop[OF s, of "errorsNew ''key not found''"] s l
    by (intro exI[of _ s0] exI[of _ ?h2]) simp
qed

end
