(* ===== verification/Static_Mode.thy ===== *)
theory Static_Mode
  imports Lifecycle
begin

text \<open>
  \<open>cmd/kubernetes-static/main.go\<close>: the tool that runs the jobs of the kubelet and of kube-state-metrics once against
  recorded answers, over the same groupers, tables and populator as the integration. The server of the recorded
  files and the fake API server are parameters; every failure of the set-up is fatal.
\<close>

section \<open>Recorded data\<close>

definition AllVersions :: "string list" where
  "AllVersions = [''1_31'', ''1_32'', ''1_33'', ''1_34'', ''1_35'']"

definition LatestVersion :: string where
  "LatestVersion = AllVersions ! (length AllVersions - 1)"

definition KSMEndpoint :: "string \<Rightarrow> string" where "KSMEndpoint server = server @ ''/ksm/metrics''"
definition KubeletEndpoint :: "string \<Rightarrow> string" where "KubeletEndpoint server = server @ ''/kubelet''"

section \<open>The clients\<close>

text \<open>A connector that returns what it was given, without a probe.\<close>

record fixedconnector =
  fcURL :: url
  fcClient :: httpclient

definition StaticConnector :: "httpclient \<Rightarrow> url \<Rightarrow> fixedconnector" where
  "StaticConnector client u = \<lparr>fcURL = u, fcClient = client\<rparr>"

definition fixedConnect :: "fixedconnector \<Rightarrow> (connparams, 'w) io" where
  "fixedConnect mc = ioReturn \<lparr>cpURL = fcURL mc, cpClient = fcClient mc\<rparr>"

definition NewBasicPodsFetcher :: podsfetcher where
  "NewBasicPodsFetcher = \<lparr>useKubeService = False, uri = []\<rparr>"

definition staticClient :: "url \<Rightarrow> (kubeletclient, 'w) io" where
  "staticClient u = NewClient (Some (fixedConnect (StaticConnector \<lparr>HcTimeout = 600 * second, HcTransport = DefaultTransport\<rparr> u))) DefaultRetries"

section \<open>The jobs\<close>

definition staticKubeletJob :: "('w, 'i) roundworld \<Rightarrow> 'w \<Rightarrow> kubeletclient \<Rightarrow> (interfacecache option, 'f) job" where
  "staticKubeletJob rw w kc =
     NewScrapeJob ''kubelet''
       (kubeletGroup \<lparr>NodeGetter = rwNode rw w, SummaryDecode = rwDecodeSummary rw, HTTPGet = rwGet rw w kc,
          Fetchers = kubeletFetchers (rwDecodePods rw) (rwGet rw w kc) (rwGetURI rw w kc) NewBasicPodsFetcher
            (filteredFamilies rw (rwCAdvisorDo rw) w) kc KubeletCAdvisorMetricsPath,
          DefaultNetworkInterface = ''ens5''\<rparr>)
       (runSpecs (rwCamelCase rw) NewKubeletSpecs) []"

definition staticKsmJob :: "('w, 'i) roundworld \<Rightarrow> 'w \<Rightarrow> string \<Rightarrow> (interfacecache option, 'f) job" where
  "staticKsmJob rw w url =
     NewScrapeJob ''kube-state-metrics''
       (ksmGroup \<lparr>Queries = KSMQueries, MetricFamiliesGetter = ksmFamilies (filteredFamilies rw (rwKsmDo rw) w) url,
          ServicesLister = rwServices rw w, EnableResourceQuotaSamples = False\<rparr>)
       (runSpecs (rwCamelCase rw) KSMSpecs) []"

section \<open>Main\<close>

record ('w, 'i) staticworld =
  twServer :: "string \<Rightarrow> err + string"
  twObjects :: "string \<Rightarrow> err option"
  twSdkNew :: "string \<Rightarrow> string \<Rightarrow> err + 'i"
  twParse :: "string \<Rightarrow> err + url"
  twRound :: "('w, 'i) roundworld"

text \<open>
  A fatal error exits with code 1, so that the deferred close of the node lister does not run; it does at the end. The channel
  of the service lister is dropped. The populator runs without an interface cache.
\<close>

datatype 'i staticend = Fatal informers | StaticCrash string | Ended "'i mainpop" informers

definition staticMain :: "('w, 'i) staticworld \<Rightarrow> string \<Rightarrow> 'w \<Rightarrow> informers \<Rightarrow> 'i staticend" where
  "staticMain tw envVersion w s =
     (case twServer tw (if envVersion \<noteq> [] then envVersion else LatestVersion) of
        Inl e \<Rightarrow> Fatal s
      | Inr server \<Rightarrow>
     (case twObjects tw LatestVersion of
        Some e \<Rightarrow> Fatal s
      | None \<Rightarrow>
     (case twSdkNew tw ''kubernetes-static'' ''static-local'' of
        Inl e \<Rightarrow> Fatal s
      | Inr i \<Rightarrow>
     (case NewNodeLister () s of ((nodeGetter, closeCh), s1) \<Rightarrow>
     (case twParse tw (KubeletEndpoint server) of
        Inl e \<Rightarrow> Fatal s1
      | Inr u \<Rightarrow>
     (case staticClient u w of
        (Inl e, w1) \<Rightarrow> Fatal s1
      | (Inr kc, w1) \<Rightarrow>
     (case NewServicesLister () s1 of ((fakeLister, _), s2) \<Rightarrow>
     (case runJobs (rwSdk (twRound tw)) [staticKubeletJob (twRound tw) w1 kc, staticKsmJob (twRound tw) w1 (KSMEndpoint server)]
             ''test-cluster'' [] ''v1.18.19'' \<lparr>pInt = i, pCache = None, pFilter = NewNamespaceInMemoryStore\<rparr> of
        (Panic p, _) \<Rightarrow> StaticCrash p
      | (_, st) \<Rightarrow>
     (case rwPublish (twRound tw) w1 st of
        (Some e, _, _) \<Rightarrow> Fatal s2
      | (None, _, st') \<Rightarrow>
     (case closeChan closeCh s2 of
        (Panic p, _) \<Rightarrow> StaticCrash p
      | (_, s3) \<Rightarrow> Ended st' s3))))))))))"

lemma collected: "collects m \<Longrightarrow> calm m \<Longrightarrow> \<exists>a st'. m st = (Ok a, st')"
  by (cases "m st"; cases "fst (m st)") (auto simp: collects_def calm_def, metis fst_conv, metis fst_conv is_panic.simps(1))

section \<open>Both jobs run\<close>

lemma staticKubelet_runs:
  assumes "calmRound rw" shows "\<exists>r st'. JobPopulate (rwSdk rw) (staticKubeletJob rw w kc) cn cid v st = (Ok r, st')"
proof (rule collected)
  show "collects (JobPopulate (rwSdk rw) (staticKubeletJob rw w kc) cn cid v)"
    by (rule kubelet.job_collects) (simp add: staticKubeletJob_def NewScrapeJob_def)
  let ?families = "filteredFamilies rw (rwCAdvisorDo rw) w"
  let ?f = "kubeletFetchers (rwDecodePods rw) (rwGet rw w kc) (rwGetURI rw w kc) NewBasicPodsFetcher ?families kc KubeletCAdvisorMetricsPath"
  let ?cfg = "\<lparr>NodeGetter = rwNode rw w, SummaryDecode = rwDecodeSummary rw, HTTPGet = rwGet rw w kc, Fetchers = ?f, DefaultNetworkInterface = ''ens5''\<rparr>"
  have "\<forall>x \<in> set ?f. typedFetcher x" by (auto intro: kubeletFetchers_typed dest: filteredFamilies_named)
  moreover have "\<not> is_panic (DoPodsFetch (rwDecodePods rw) (rwGet rw w kc) (rwGetURI rw w kc) NewBasicPodsFetcher)"
    using assms by (intro pods_safe) (simp_all add: calmRound_def)
  moreover have "\<not> is_panic (CadvisorFetchFunc (MetricFamiliesGetFunc ?families kc KubeletCAdvisorMetricsPath) CadvisorQueries)"
    using filteredFamilies_no_panic[of "rwCAdvisorDo rw" w rw] assms
    by (intro cadvisor_safe) (auto simp: MetricFamiliesGetFunc_def calmRound_def intro!: rbindw_no_panic)
  ultimately have "safeKubelet ?cfg" using assms by (auto simp: safeKubelet_def calmRound_def kubeletFetchers_def)
  then show "calm (JobPopulate (rwSdk rw) (staticKubeletJob rw w kc) cn cid v)"
    using assms by (intro kubelet_job_calm[where cfg = ?cfg]) (simp_all add: staticKubeletJob_def NewScrapeJob_def calmRound_def)
qed

lemma staticKsm_runs:
  assumes "calmRound rw" shows "\<exists>r st'. JobPopulate (rwSdk rw) (staticKsmJob rw w url) cn cid v st = (Ok r, st')"
proof (rule collected)
  show "collects (JobPopulate (rwSdk rw) (staticKsmJob rw w url) cn cid v)"
    by (rule ksm.job_collects) (simp add: staticKsmJob_def NewScrapeJob_def)
  have "\<not> is_panic (ksmFamilies (filteredFamilies rw (rwKsmDo rw) w) url KSMQueries)"
    using filteredFamilies_no_panic[of "rwKsmDo rw" w rw url KSMQueries] assms
    by (auto simp: ksmFamilies_def calmRound_def intro!: rbindw_no_panic)
  then show "calm (JobPopulate (rwSdk rw) (staticKsmJob rw w url) cn cid v)"
    using assms by (intro ksm_job_calm) (auto simp: staticKsmJob_def NewScrapeJob_def calmRound_def)
qed

lemma staticClient_ok: "staticClient u w = (Inr \<lparr>kcDoer = \<lparr>HcTimeout = 600 * second, HcTransport = DefaultTransport\<rparr>, kcRetries = DefaultRetries, kcEndpoint = u\<rparr>, w)"
  by (simp add: staticClient_def NewClient_def fixedConnect_def StaticConnector_def ioBind_def ioReturn_def)

text \<open>
  The tool does not crash on any recorded data. When it ends without a fatal error both jobs have run, the second one
  whatever errors the first one had, on the same integration, and what they left was published. The informer of the nodes
  is stopped then; that of the services is not, since nothing keeps its channel.
\<close>

lemma static_main_ends:
  assumes "calmRound (twRound tw)" "wfInformers s"
  shows "staticMain tw v w s \<noteq> StaticCrash p \<and>
    (\<forall>st s'. staticMain tw v w s = Ended st s' \<longrightarrow> fst ` (running s' - running s) = {''services''} \<and>
      (\<exists>server i kc r1 st1 r2 st2 w'. twServer tw (if v \<noteq> [] then v else LatestVersion) = Inr server \<and>
        twSdkNew tw ''kubernetes-static'' ''static-local'' = Inr i \<and>
        JobPopulate (rwSdk (twRound tw)) (staticKubeletJob (twRound tw) w kc) ''test-cluster'' [] ''v1.18.19''
          \<lparr>pInt = i, pCache = None, pFilter = NewNamespaceInMemoryStore\<rparr> = (Ok r1, st1) \<and>
        JobPopulate (rwSdk (twRound tw)) (staticKsmJob (twRound tw) w (KSMEndpoint server)) ''test-cluster'' [] ''v1.18.19'' st1 = (Ok r2, st2) \<and>
        rwPublish (twRound tw) w st2 = (None, w', st)))"
proof -
  let ?rw = "twRound tw" and ?n = "infNext s"
  have old: "?n \<notin> set (infClosed s)" "Suc ?n \<notin> set (infClosed s)" "(k, ?n) \<notin> set (infStarted s)" "(k, Suc ?n) \<notin> set (infStarted s)" for k
    using assms(2) by (auto simp: wfInformers_def)
  have jobs: "\<exists>r1 st1 r2 st2. JobPopulate (rwSdk ?rw) (staticKubeletJob ?rw w kc) cn cid ver st0 = (Ok r1, st1) \<and>
      JobPopulate (rwSdk ?rw) (staticKsmJob ?rw w url) cn cid ver st1 = (Ok r2, st2) \<and>
      runJobs (rwSdk ?rw) [staticKubeletJob ?rw w kc, staticKsmJob ?rw w url] cn cid ver st0 = (Ok (), st2)" for kc url cn cid ver and st0 :: "'b mainpop"
    using staticKubelet_runs[OF assms(1), of w kc cn cid ver st0] staticKsm_runs[OF assms(1), of w url cn cid ver]
    by (fastforce simp: pop_simps)
  let ?s2 = "batch [''services''] (batch [''nodes''] s)" and ?s3 = "(batch [''services''] (batch [''nodes''] s))\<lparr>infClosed := ?n # infClosed s\<rparr>"
  have listers: "NewNodeLister () s = (((), Some ?n), batch [''nodes''] s)"
    "NewServicesLister () (batch [''nodes''] s) = (((), Some (Suc ?n)), ?s2)" "closeChan (Some ?n) ?s2 = (Ok (), ?s3)"
    using old by (simp_all add: NewNodeLister_def NewServicesLister_def makeChan_def startInformer_def batch_def closeChan_def)
  have "running ?s3 - running s = {(''services'', Suc ?n)}" using old by (auto simp: running_def batch_def)
  then have kept: "fst ` (running ?s3 - running s) = {''services''}" by simp
  show ?thesis
  proof (cases "\<exists>server i u. twServer tw (if v \<noteq> [] then v else LatestVersion) = Inr server \<and> twObjects tw LatestVersion = None \<and>
      twSdkNew tw ''kubernetes-static'' ''static-local'' = Inr i \<and> twParse tw (KubeletEndpoint server) = Inr u")
    case False
    then show ?thesis by (auto simp: staticMain_def listers split: sum.split option.split)
  next
    case True
    then obtain server i u where t: "twServer tw (if v \<noteq> [] then v else LatestVersion) = Inr server" "twObjects tw LatestVersion = None"
      "twSdkNew tw ''kubernetes-static'' ''static-local'' = Inr i" "twParse tw (KubeletEndpoint server) = Inr u" by blast
    let ?kc = "\<lparr>kcDoer = \<lparr>HcTimeout = 600 * second, HcTransport = DefaultTransport\<rparr>, kcRetries = DefaultRetries, kcEndpoint = u\<rparr>"
    obtain r1 st1 r2 st2 where j: "JobPopulate (rwSdk ?rw) (staticKubeletJob ?rw w ?kc) ''test-cluster'' [] ''v1.18.19''
          \<lparr>pInt = i, pCache = None, pFilter = NewNamespaceInMemoryStore\<rparr> = (Ok r1, st1)"
      "JobPopulate (rwSdk ?rw) (staticKsmJob ?rw w (KSMEndpoint server)) ''test-cluster'' [] ''v1.18.19'' st1 = (Ok r2, st2)"
      "runJobs (rwSdk ?rw) [staticKubeletJob ?rw w ?kc, staticKsmJob ?rw w (KSMEndpoint server)] ''test-cluster'' [] ''v1.18.19''
          \<lparr>pInt = i, pCache = None, pFilter = NewNamespaceInMemoryStore\<rparr> = (Ok (), st2)"
      using jobs by blast
    have "staticMain tw v w s = (case rwPublish ?rw w st2 of (Some e, _, _) \<Rightarrow> Fatal ?s2 | (None, _, st') \<Rightarrow> Ended st' ?s3)"
      unfolding staticMain_def t listers staticClient_ok j(3) sum.case option.case prod.case result.case by (simp split: option.split prod.split)
    then show ?thesis using t j(1,2) kept by (auto split: prod.splits option.splits)
  qed
qed

end
