(* ===== verification/Populator_Trace.thy ===== *)
theory Populator_Trace
  imports Scrape
begin

text \<open>
  What a scrape publishes: the samples that a configuration of the populator asks for, as a list without state or
  effects, and the proof that the calls to the SDK are exactly those that publish these samples, in their order. The SDK
  is the one that records its calls; the specifications are those that do not use the cache of the fetch functions,
  as all of kube-state-metrics and of the control plane.
\<close>

section \<open>Samples\<close>

record sample =
  smEntity :: string
  smType :: string
  smAttributes :: "(string \<times> string) list"
  smEvent :: string
  smMetrics :: "(string \<times> goval \<times> sourcetype) list"

text \<open>The metrics of a value: a map of fetched values gives its entries, another value the name of its specification.\<close>

definition metricsOf :: "'c spec \<Rightarrow> goval result \<Rightarrow> (string \<times> goval \<times> sourcetype) list" where
  "metricsOf sp r =
     (case r of
        Ok VNil \<Rightarrow> []
      | Ok (VFetched fv) \<Rightarrow> map (\<lambda>(k, v). (k, v, SType sp)) fv
      | Ok v \<Rightarrow> [(SName sp, v, SType sp)]
      | _ \<Rightarrow> [])"

definition entityMetrics :: "'c specgroup \<Rightarrow> string \<Rightarrow> string \<Rightarrow> rawgroups \<Rightarrow> 'c \<Rightarrow> (string \<times> goval \<times> sourcetype) list" where
  "entityMetrics sg gl eid groups c = concat (map (\<lambda>sp. metricsOf sp (specResult gl eid groups c sp)) (Specs sg))"

definition guesserOf :: "('c, 'f) popconfig \<Rightarrow> 'c specgroup \<Rightarrow> guessfunc" where
  "guesserOf config sg = (case MsTypeGuesser sg of Some custom \<Rightarrow> custom | None \<Rightarrow> CfgMsTypeGuesser config)"

definition okOr :: "'a \<Rightarrow> 'a result \<Rightarrow> 'a" where
  "okOr d r = (case r of Ok a \<Rightarrow> a | _ \<Rightarrow> d)"

definition unitSample :: "('c, 'f) popconfig \<Rightarrow> 'c specgroup \<Rightarrow> string \<Rightarrow> (string \<times> string) list \<Rightarrow> 'c \<Rightarrow> processingunit \<Rightarrow> sample" where
  "unitSample config sg gl extra c u =
     \<lparr>smEntity = entityID u, smType = entityType u, smAttributes = entityAttributes config extra (entityID u),
      smEvent = okOr [] (guesserOf config sg gl),
      smMetrics = entityMetrics sg gl (originalEntityID u) (groupsForEntity (CfgGroups config) gl u) c\<rparr>"

text \<open>
  \<open>allow\<close> is a filter without state, or none. An entity of a namespace that is not allowed has no sample; the namespaces
  themselves keep theirs and say whether they are filtered.
\<close>

definition extraAttributes :: "(string \<Rightarrow> bool) option \<Rightarrow> 'c specgroup \<Rightarrow> string \<Rightarrow> rawmetrics \<Rightarrow> (string \<times> string) list option" where
  "extraAttributes allow sg gl raw =
     (case (allow, NamespaceGetter sg) of
        (Some p, Some getter) \<Rightarrow>
          if gl = NamespaceGroup then Some [(NamespaceFilteredLabel, boolStr (\<not> p (getter raw)))]
          else if p (getter raw) then Some [] else None
      | _ \<Rightarrow> Some [])"

definition entitySamples :: "(string \<Rightarrow> bool) option \<Rightarrow> ('c, 'f) popconfig \<Rightarrow> 'c \<Rightarrow> string \<times> string \<times> rawmetrics \<Rightarrow> sample list" where
  "entitySamples allow config c ent = (case ent of (gl, eid, raw) \<Rightarrow>
     (case mget (CfgSpecs config) gl of
        None \<Rightarrow> []
      | Some sg \<Rightarrow>
          (case extraAttributes allow sg gl raw of
             None \<Rightarrow> []
           | Some extra \<Rightarrow> map (unitSample config sg gl extra c) (okOr [] (prepareProcessingUnits config sg gl eid raw)))))"

definition samples :: "(string \<Rightarrow> bool) option \<Rightarrow> ('c, 'f) popconfig \<Rightarrow> 'c \<Rightarrow> sample list" where
  "samples allow config c = concat (map (entitySamples allow config c) (allEntities (CfgGroups config)))"

definition isPopulated :: "sample \<Rightarrow> bool" where
  "isPopulated s \<longleftrightarrow> smMetrics s \<noteq> []"

section \<open>Publishing samples\<close>

text \<open>The calls of a sample, when \<open>n\<close> calls were made before: the recording SDK numbers its handles by them.\<close>

definition sampleCalls :: "nat \<Rightarrow> sample \<Rightarrow> sdkcall list" where
  "sampleCalls n s =
     [CallEntity (smEntity s) (smType s), CallAttributes n (smAttributes s), CallMetricSet n (smEvent s)] @
     map (\<lambda>(k, v, t). CallSetMetric (n + 2) k v t) (smMetrics s)"

fun publish :: "nat \<Rightarrow> sample list \<Rightarrow> sdkcall list" where
  "publish n [] = []"
| "publish n (s # ss) = sampleCalls n s @ publish (n + length (sampleCalls n s)) ss"

lemma publish_append: "publish n (xs @ ys) = publish n xs @ publish (n + length (publish n xs)) ys"
  by (induction xs arbitrary: n) (simp_all add: add.assoc)

text \<open>The cluster has a sample of its own, when anything was populated.\<close>

definition clusterCalls :: "nat \<Rightarrow> ('c, 'f) popconfig \<Rightarrow> sdkcall list" where
  "clusterCalls n config =
     [CallEntity (ClusterName config) ''k8s:cluster'', CallMetricSet n ''K8sClusterSample'',
      CallSetItem n ''cluster'' ''name'' (ClusterName config), CallSetMetric (n + 1) ''clusterName'' (VString (ClusterName config)) ATTRIBUTE] @
     (if CloudClusterID config \<noteq> [] then [CallSetMetric (n + 1) ''cloud.resource_id'' (VString (CloudClusterID config)) ATTRIBUTE] else []) @
     [CallSetItem n ''cluster'' ''k8sVersion'' (K8sVersion config),
      CallSetItem n ''cluster'' ''newrelic.integrationVersion'' (sdkVersion recordSdk),
      CallSetItem n ''cluster'' ''newrelic.integrationName'' (sdkName recordSdk),
      CallSetMetric (n + 1) ''clusterK8sVersion'' (VString (K8sVersion config)) ATTRIBUTE]"

section \<open>The populator publishes the samples\<close>

abbreviation recording :: "('i list, 'c, 'f) popstate \<Rightarrow> 'i list \<Rightarrow> ('i list, 'c, 'f) popstate" where
  "recording st cs \<equiv> st\<lparr>pInt := pInt st @ cs\<rparr>"

lemma record_sdk [simp]:
  "sdkEntity recordSdk n t i = (Ok (length i, n), i @ [CallEntity n t])"
  "sdkAddAttributes recordSdk h as i = i @ [CallAttributes h as]"
  "sdkNewMetricSet recordSdk h t i = (length i, i @ [CallMetricSet h t])"
  "sdkSetMetric recordSdk ms n v ty i = (None, i @ [CallSetMetric ms n v ty])"
  "sdkSetItem recordSdk h k f w i = (None, i @ [CallSetItem h k f w])"
  by (simp_all add: recordSdk_def)

lemma setMetrics_trace: "setMetrics recordSdk ms kvs t st = (Ok (True, None), recording st (map (\<lambda>(k, v). CallSetMetric ms k v t) kvs))"
  by (induction kvs arbitrary: st) (auto simp: pop_simps)

lemma populateValue_trace:
  assumes "v \<noteq> VNil"
  shows "populateValue recordSdk ms sp v st =
    (Ok (metricsOf sp (Ok v) \<noteq> [], None), recording st (map (\<lambda>(k, v, t). CallSetMetric ms k v t) (metricsOf sp (Ok v))))"
  using assms
  by (cases v) (auto simp: populateValue_def populateMetricsFromMap_def populateSingleMetric_def metricsOf_def setMetrics_trace pop_simps comp_def
      case_prod_beta)

lemma specLoop_trace:
  assumes "\<forall>sp \<in> set specs. pureSpec gl eid groups sp"
  shows "specLoop recordSdk ms gl eid groups specs p errs st =
    (Ok (p \<or> concat (map (\<lambda>sp. metricsOf sp (specResult gl eid groups (pCache st) sp)) specs) \<noteq> [],
         errs @ concat (map (\<lambda>sp. specError sp (specResult gl eid groups (pCache st) sp)) specs)),
     recording st (map (\<lambda>(k, v, t). CallSetMetric ms k v t) (concat (map (\<lambda>sp. metricsOf sp (specResult gl eid groups (pCache st) sp)) specs))))"
  using assms
proof (induction specs arbitrary: p errs st)
  case (Cons sp specs)
  then obtain f where f: "ValueFunc sp = liftFetch f" "\<not> is_panic (f gl eid groups)" by (auto simp: pureSpec_def)
  have r: "specResult gl eid groups (pCache st) sp = f gl eid groups" using f by (simp add: specResult_def liftFetch_def)
  have fv: "fetchValue sp gl eid groups st = (Ok (f gl eid groups), st)" using f by (simp add: fetchValue_def liftFetch_def)
  note IH = Cons.IH[OF list.set_intros(2)[THEN Cons.prems[THEN bspec], THEN ballI]]
  show ?case
  proof (cases "f gl eid groups")
    case (Ok v)
    show ?thesis
    proof (cases "v = VNil")
      case True
      then show ?thesis using Ok fv r IH by (simp add: pop_simps metricsOf_def specError_def)
    next
      case False
      then show ?thesis using Ok fv r by (simp add: pop_simps IH populateValue_trace specError_def del: concat_eq_Nil_conv)
    qed
  next
    case (Fail e)
    then show ?thesis using fv r by (simp add: pop_simps IH metricsOf_def specError_def)
  qed (use f in simp)
qed (simp add: pop_simps)

text \<open>The errors that are reported with the samples.\<close>

definition unitErrors :: "('c, 'f) popconfig \<Rightarrow> 'c specgroup \<Rightarrow> string \<Rightarrow> 'c \<Rightarrow> processingunit \<Rightarrow> err list" where
  "unitErrors config sg gl c u =
     map (\<lambda>e. Errorf ''error populating metric for entity ID %s: %w'' [entityID u] [e])
       (concat (map (\<lambda>sp. specError sp (specResult gl (originalEntityID u) (groupsForEntity (CfgGroups config) gl u) c sp)) (Specs sg)))"

definition entityErrors :: "(string \<Rightarrow> bool) option \<Rightarrow> ('c, 'f) popconfig \<Rightarrow> 'c \<Rightarrow> string \<times> string \<times> rawmetrics \<Rightarrow> err list" where
  "entityErrors allow config c ent = (case ent of (gl, eid, raw) \<Rightarrow>
     (case mget (CfgSpecs config) gl of
        None \<Rightarrow> []
      | Some sg \<Rightarrow>
          if extraAttributes allow sg gl raw = None then []
          else (case prepareProcessingUnits config sg gl eid raw of
                  Ok units \<Rightarrow> concat (map (unitErrors config sg gl c) units)
                | Fail e \<Rightarrow> [e]
                | Panic p \<Rightarrow> [])))"

text \<open>What is asked of a configuration: its value functions do not use the cache and nothing in it panics.\<close>

definition pureConfig :: "('c, 'f) popconfig \<Rightarrow> bool" where
  "pureConfig config \<longleftrightarrow> (\<forall>gl sg. mget (CfgSpecs config) gl = Some sg \<longrightarrow> is_ok (guesserOf config sg gl) \<and>
     (\<forall>eid raw. \<not> is_panic (prepareProcessingUnits config sg gl eid raw)) \<and>
     (\<forall>sp \<in> set (Specs sg). \<exists>f. ValueFunc sp = liftFetch f \<and> (\<forall>eid gs. \<not> is_panic (f gl eid gs))))"

definition filteredBy :: "(string \<Rightarrow> bool) option \<Rightarrow> ('c, 'f) popconfig \<Rightarrow> bool" where
  "filteredBy allow config \<longleftrightarrow> Filterer config = map_option (\<lambda>p ns s. (p ns, s)) allow"

lemma pureConfigD:
  assumes "pureConfig config" "mget (CfgSpecs config) gl = Some sg"
  shows "guesserOf config sg gl = Ok (okOr [] (guesserOf config sg gl))" "\<not> is_panic (prepareProcessingUnits config sg gl eid raw)"
    "sp \<in> set (Specs sg) \<Longrightarrow> pureSpec gl eid gs sp"
proof -
  note p = assms(1)[unfolded pureConfig_def, rule_format, OF assms(2)]
  show "guesserOf config sg gl = Ok (okOr [] (guesserOf config sg gl))" using p by (cases "guesserOf config sg gl") (auto simp: okOr_def)
  show "\<not> is_panic (prepareProcessingUnits config sg gl eid raw)" using p by blast
  show "sp \<in> set (Specs sg) \<Longrightarrow> pureSpec gl eid gs sp" using p unfolding pureSpec_def by blast
qed

lemma processUnit_trace:
  assumes "pureConfig config" "mget (CfgSpecs config) gl = Some sg"
  shows "processUnit recordSdk config sg gl extra u st =
    (Ok (isPopulated (unitSample config sg gl extra (pCache st) u), unitErrors config sg gl (pCache st) u),
     recording st (sampleCalls (length (pInt st)) (unitSample config sg gl extra (pCache st) u)))"
proof -
  have "\<forall>sp \<in> set (Specs sg). pureSpec gl (originalEntityID u) (groupsForEntity (CfgGroups config) gl u) sp"
    using pureConfigD(3)[OF assms] by blast
  note loop = specLoop_trace[OF this]
  obtain ev where ev: "guesserOf config sg gl = Ok ev" using pureConfigD(1)[OF assms] by blast
  show ?thesis using assms(2) ev
    by (simp add: processUnit_def pop_simps metricSetPopulate_def loop guesserOf_def[symmetric] sampleCalls_def unitSample_def isPopulated_def
        entityMetrics_def unitErrors_def okOr_def del: concat_eq_Nil_conv)
qed

lemma processEntities_trace:
  assumes "pureConfig config" "mget (CfgSpecs config) gl = Some sg"
  shows "processEntities recordSdk config sg gl extra us st =
    (Ok (\<exists>u \<in> set us. isPopulated (unitSample config sg gl extra (pCache st) u), concat (map (unitErrors config sg gl (pCache st)) us)),
     recording st (publish (length (pInt st)) (map (unitSample config sg gl extra (pCache st)) us)))"
proof (induction us arbitrary: st)
  case (Cons u us)
  show ?case by (simp add: pop_simps processUnit_trace[OF assms] Cons)
qed (simp add: pop_simps)

lemma filterGroup_trace:
  assumes "filteredBy allow config"
  shows "filterGroup config sg gl raw st =
    (Ok (case extraAttributes allow sg gl raw of None \<Rightarrow> ([], True) | Some extra \<Rightarrow> (extra, False)), st)"
  using assms
  by (auto simp: filteredBy_def filterGroup_def extraAttributes_def isAllowed_def pop_simps Let_def split: option.split)

lemma populateEntity_trace:
  assumes "pureConfig config" "filteredBy allow config"
  shows "populateEntity recordSdk config gl (eid, raw) st =
    (Ok (\<exists>s \<in> set (entitySamples allow config (pCache st) (gl, eid, raw)). isPopulated s, entityErrors allow config (pCache st) (gl, eid, raw)),
     recording st (publish (length (pInt st)) (entitySamples allow config (pCache st) (gl, eid, raw))))"
proof (cases "mget (CfgSpecs config) gl")
  case None
  then show ?thesis by (simp add: populateEntity_def entitySamples_def entityErrors_def pop_simps)
next
  case (Some sg)
  have "\<not> is_panic (prepareProcessingUnits config sg gl eid raw)" by (rule pureConfigD[OF assms(1) Some])
  then show ?thesis using Some
    by (cases "prepareProcessingUnits config sg gl eid raw"; cases "extraAttributes allow sg gl raw")
      (auto simp: populateEntity_def entitySamples_def entityErrors_def pop_simps filterGroup_trace[OF assms(2)] okOr_def
        processEntities_trace[OF assms(1) Some])
qed

lemma populateEntities_trace:
  assumes "pureConfig config" "filteredBy allow config"
  shows "populateEntities recordSdk config ents st =
    (Ok (\<exists>s \<in> set (concat (map (entitySamples allow config (pCache st)) ents)). isPopulated s,
         concat (map (entityErrors allow config (pCache st)) ents)),
     recording st (publish (length (pInt st)) (concat (map (entitySamples allow config (pCache st)) ents))))"
proof (induction ents arbitrary: st)
  case (Cons e ents)
  obtain gl eid raw where e: "e = (gl, eid, raw)" by (metis surj_pair)
  show ?case unfolding e by (auto simp: pop_simps populateEntity_trace[OF assms] Cons publish_append)
qed (simp add: pop_simps)

lemma populateCluster_trace:
  "populateCluster recordSdk (ClusterName config) (CloudClusterID config) (K8sVersion config) st =
     (Ok None, recording st (clusterCalls (length (pInt st)) config))"
  by (simp add: populateCluster_def clusterCalls_def pop_simps)

text \<open>The outcome of the populator, for proofs that go on from it.\<close>

definition populatorOutcome :: "(string \<Rightarrow> bool) option \<Rightarrow> ('c, 'f) popconfig \<Rightarrow> 'c \<Rightarrow> bool \<times> err list" where
  "populatorOutcome allow config c =
     (\<exists>s \<in> set (samples allow config c). isPopulated s, concat (map (entityErrors allow config c) (allEntities (CfgGroups config))))"

definition populatorCalls :: "nat \<Rightarrow> (string \<Rightarrow> bool) option \<Rightarrow> ('c, 'f) popconfig \<Rightarrow> 'c \<Rightarrow> sdkcall list" where
  "populatorCalls n allow config c =
     (let calls = publish n (samples allow config c) in
      calls @ (if fst (populatorOutcome allow config c) then clusterCalls (n + length calls) config else []))"

lemma IntegrationPopulator_trace:
  assumes "pureConfig config" "filteredBy allow config"
  shows "IntegrationPopulator recordSdk config st =
    (Ok (populatorOutcome allow config (pCache st)), recording st (populatorCalls (length (pInt st)) allow config (pCache st)))"
  by (simp add: IntegrationPopulator_def pop_simps populateEntities_trace[OF assms] populateCluster_trace samples_def
      populatorOutcome_def populatorCalls_def Let_def)

text \<open>
  C6: The populator publishes what was planned: for a configuration whose value functions do not depend on the cache, the
  calls that it makes to the SDK are exactly those of its samples, in the order of the groups and their entities, followed by
  those of the cluster when some sample has a metric, and its result says whether one has and which specifications failed.
  No value that a specification produced is lost, renamed or attached to another entity, and none is invented.
\<close>

theorem populator_publishes_samples:
  assumes "pureConfig config" "filteredBy allow config"
  shows "IntegrationPopulator recordSdk config st =
    (let ss = samples allow config (pCache st); n = length (pInt st); calls = publish n ss; populated = (\<exists>s \<in> set ss. isPopulated s) in
     (Ok (populated, concat (map (entityErrors allow config (pCache st)) (allEntities (CfgGroups config)))),
      recording st (calls @ (if populated then clusterCalls (n + length calls) config else []))))"
  by (simp add: IntegrationPopulator_trace[OF assms] populatorOutcome_def populatorCalls_def Let_def)

lemma example_pure: "pureConfig (exampleConfig allow)" "filteredBy (Some allow) (exampleConfig allow)"
  by (auto simp: pureConfig_def filteredBy_def exampleConfig_def guesserOf_def K8sMetricSetTypeGuesser_def prepareProcessingUnits_def
      FromRaw_def intro!: rbind_no_panic rbindw_no_panic exI[of _ "FromRaw ''podName''"] split: option.splits)

theorem populator_publishes_samples_witness:
  "\<exists>st'. IntegrationPopulator recordSdk (exampleConfig (\<lambda>ns. ns = ''ns'')) \<lparr>pInt = [], pCache = (), pFilter = ()\<rparr> = (Ok (True, []), st') \<and>
     take 4 (pInt st') = [CallEntity ''p'' ''k8s:cl:ns:pod'', CallAttributes 0 [(''clusterName'', ''cl''), (''displayName'', ''p'')],
       CallMetricSet 0 ''K8sPodSample'', CallSetMetric 2 ''podName'' (VString ''p'') ATTRIBUTE]"
proof -
  let ?c = "exampleConfig (\<lambda>ns. ns = ''ns'')"
  have "samples (Some (\<lambda>ns. ns = ''ns'')) ?c () =
      [\<lparr>smEntity = ''p'', smType = ''k8s:cl:ns:pod'', smAttributes = [(''clusterName'', ''cl''), (''displayName'', ''p'')],
        smEvent = ''K8sPodSample'', smMetrics = [(''podName'', VString ''p'', ATTRIBUTE)]\<rparr>]"
    "entityErrors (Some (\<lambda>ns. ns = ''ns'')) ?c () (''pod'', ''ns_p'', [(''namespace'', VString ''ns''), (''podName'', VString ''p'')]) = []"
    by code_simp+
  then show ?thesis
    using populator_publishes_samples[OF example_pure, of "\<lambda>ns. ns = ''ns''" "\<lparr>pInt = [], pCache = (), pFilter = ()\<rparr>"]
    by (simp add: allEntities_def isPopulated_def sampleCalls_def Let_def exampleConfig_def)
qed

end
