(* ===== verification/Ksm_Delivery.thy ===== *)
theory Ksm_Delivery
  imports Populator_Trace Scrapers
begin

text \<open>
  The path of a metric of kube-state-metrics from the answer of the endpoint to the calls of the SDK: grouping, the tables of
  specifications and the populator put together.
\<close>

section \<open>The tables that do not use the cache\<close>

lemma calmValue_Fetch: "calmValue v \<Longrightarrow> \<exists>f. v = Fetch f \<and> calmExpr f"
  by (cases v) auto

text \<open>The guessers of event types that the tables use succeed.\<close>

definition knownGuesser :: "groupentry \<Rightarrow> bool" where
  "knownGuesser g \<longleftrightarrow> EMsTypeGuesser g = None \<or> (\<exists>c. EMsTypeGuesser g = Some (metricSetTypeGuesserWithCustomGroup c))"

lemma table_pure:
  assumes "calmTable es" "list_all (quietGenerators \<circ> snd) es" "list_all (knownGuesser \<circ> snd) es"
    and "CfgSpecs config = runSpecs cc es" "CfgMsTypeGuesser config = K8sMetricSetTypeGuesser"
  shows "pureConfig config"
  unfolding pureConfig_def
proof (intro allI impI conjI ballI)
  fix gl sg assume sg: "mget (CfgSpecs config) gl = Some sg"
  then obtain g where g: "(gl, g) \<in> set es" "sg = runGroup cc g" using assms(4) by (auto simp: runSpecs_def dest!: map_of_SomeD)
  then have "knownGuesser g" using assms(3) by (fastforce simp: list_all_iff)
  then show "is_ok (guesserOf config sg gl)"
    using assms(5) g(2) by (auto simp: knownGuesser_def guesserOf_def runGroup_def K8sMetricSetTypeGuesser_def metricSetTypeGuesserWithCustomGroup_def)
  fix eid raw
  show "\<not> is_panic (prepareProcessingUnits config sg gl eid raw)"
    using calm_scrape.specs_calm[OF calm_table[OF assms(1,2)], of cc gl sg] sg assms(4) by (intro prepare_no_panic) simp
next
  fix gl sg sp assume sg: "mget (CfgSpecs config) gl = Some sg" and sp: "sp \<in> set (Specs sg)"
  then obtain g e where g: "(gl, g) \<in> set es" "e \<in> set (ESpecs g)" "sp = runEntry cc e"
    using assms(4) by (auto simp: runSpecs_def runGroup_def dest!: map_of_SomeD)
  then have "calmValue (EFetch e)" using assms(1) by (fastforce simp: calmTable_def list_all_iff)
  then obtain f where "EFetch e = Fetch f" "calmExpr f" using calmValue_Fetch by blast
  then show "\<exists>f. ValueFunc sp = liftFetch f \<and> (\<forall>eid gs. \<not> is_panic (f gl eid gs))"
    using g calmExpr_no_panic by (auto simp: runEntry_def intro!: exI[of _ "runFetcher cc f"])
qed

lemma ksm_guessers: "list_all (knownGuesser \<circ> snd) KSMSpecs"
  by (auto simp: knownGuesser_def KSMSpecs_def ksmPersistentvolume_def ksmCronjob_def ksmJobName_def
      ksmPersistentvolumeclaim_def ksmReplicaset_def ksmStatefulset_def ksmDaemonset_def ksmNamespace_def ksmDeployment_def
      ksmService_def ksmEndpoint_def ksmPod_def ksmHorizontalpodautoscaler_def ksmResourcequota_def)

lemmas ksm_pure = table_pure[OF ksm_calm ksm_quiet ksm_guessers]

section \<open>The groups of an answer\<close>

text \<open>The metrics of an entity are a map: no name occurs twice.\<close>

definition wfRaws :: "rawgroups \<Rightarrow> bool" where
  "wfRaws g \<longleftrightarrow> (\<forall>gl ents eid raw. (gl, ents) \<in> set g \<longrightarrow> (eid, raw) \<in> set ents \<longrightarrow> wfmap raw)"

lemma set_mput: "x \<in> set (mput k v m) \<Longrightarrow> x = (k, v) \<or> x \<in> set m"
  by (induction m) (auto split: if_splits)

lemma wfRaws_gput:
  assumes "wfRaws g" shows "wfRaws (gput gl eid k v g)"
proof -
  let ?ents = "mget0 [] g gl"
  have e: "wfmap raw" if "(e, raw) \<in> set ?ents" for e raw
    using that assms by (cases "mget g gl") (auto simp: wfRaws_def mget0_def dest: map_of_SomeD)
  have "wfmap (mget0 [] ?ents eid)"
    by (cases "mget ?ents eid") (auto simp: mget0_def[of _ ?ents] dest: map_of_SomeD intro: e)
  then show ?thesis using assms e by (fastforce simp: wfRaws_def gput_def Let_def dest!: set_mput)
qed

lemma groupMetric_cases: "groupMetric gl n g m = Ok g' \<Longrightarrow> g' = g \<or> (\<exists>eid v. g' = gput gl eid n v g)"
  by (auto simp: groupMetric_def typePanic_def Let_def split: if_splits option.splits goval.splits)

lemma rfoldl_inv: "rfoldl f s xs = Ok s' \<Longrightarrow> P s \<Longrightarrow> (\<And>s x s'. f s x = Ok s' \<Longrightarrow> P s \<Longrightarrow> P s') \<Longrightarrow> P s'"
  by (induction xs arbitrary: s) (auto simp: rbind_Ok_iff)

lemma wfRaws_groups:
  assumes "GroupMetricsBySpec specs fs = Ok (g, es)" shows "wfRaws g"
proof -
  have m: "wfRaws g'" if "groupMetric gl n g m = Ok g'" "wfRaws g" for gl n g m g'
    using groupMetric_cases[OF that(1)] wfRaws_gput that(2) by auto
  have f: "wfRaws g'" if "rfoldl (groupMetric gl n) g ms = Ok g'" "wfRaws g" for gl n g ms g'
    using that by (rule rfoldl_inv) (rule m)
  have l: "wfRaws (fst ge')" if "groupLabelMetrics fs ge gl = Ok ge'" "wfRaws (fst ge)" for ge gl ge'
    using that rfoldl_inv[of "\<lambda>g f. rfoldl (groupMetric gl (FName f)) g (Metrics f)" "fst ge" fs "fst ge'" wfRaws] f
    by (auto simp: groupLabelMetrics_def rbind_Ok_iff)
  have "wfRaws (fst (g, es))"
    using assms unfolding GroupMetricsBySpec_def by (rule rfoldl_inv[where P = "\<lambda>ge. wfRaws (fst ge)"]) (auto simp: wfRaws_def[of "[]"] intro: l)
  then show ?thesis by simp
qed

definition plainGroup :: "string \<Rightarrow> bool" where
  "plainGroup gl \<longleftrightarrow> mhas KSMSpecs gl \<and> gl \<noteq> ''service'' \<and> gl \<noteq> ''resourcequota''"

lemma ksm_groups:
  assumes "MetricFamiliesGetter cfg (Queries cfg) = Ok fs" "\<not> is_panic (ServicesLister cfg)"
  obtains groups eg where "ksmGroup cfg (runSpecs cc KSMSpecs) = Ok (groups, eg)" "\<And>e. eg = Some e \<Longrightarrow> Recoverable e"
    "\<And>gl eid k. plainGroup gl \<Longrightarrow> rawMetric groups gl eid k = stored (selected gl eid k (flatten fs))"
    "\<And>gl ents eid raw. plainGroup gl \<Longrightarrow> (gl, ents) \<in> set groups \<Longrightarrow> (eid, raw) \<in> set ents \<Longrightarrow> wfmap raw"
proof -
  let ?gls = "map fst KSMSpecs"
  obtain g es where g: "GroupMetricsBySpec (runSpecs cc KSMSpecs) fs = Ok (g, es)" "\<forall>gl \<in> set ?gls. groupedAs gl (flatten fs) g"
    using groupLabels_correct[of ?gls "([], [])" fs] ksm_wf
    by (auto simp: GroupMetricsBySpec_def wfmap_def runSpecs_def case_prod_unfold comp_def)
  have k: "plainGroup gl \<longleftrightarrow> gl \<in> set ?gls \<and> gl \<noteq> ''service'' \<and> gl \<noteq> ''resourcequota''" for gl
    by (simp add: plainGroup_def mhas_def map_of_eq_None_iff)
  have w: "wfRaws g" using g(1) by (rule wfRaws_groups)
  have kept: "(\<forall>gl eid k. plainGroup gl \<longrightarrow> rawMetric groups gl eid k = stored (selected gl eid k (flatten fs))) \<and>
      (\<forall>gl ents eid raw. plainGroup gl \<longrightarrow> (gl, ents) \<in> set groups \<longrightarrow> (eid, raw) \<in> set ents \<longrightarrow> wfmap raw)"
    if "groups \<in> {g, mdel ''resourcequota'' g} \<or> (\<exists>x. groups \<in> {mput ''service'' x g, mdel ''resourcequota'' (mput ''service'' x g)})" for groups
  proof -
    have m1: "mget groups gl = mget g gl" if "plainGroup gl" for gl
      using that \<open>groups \<in> _ \<or> _\<close> by (auto simp: k)
    have m2: "(gl, ents) \<in> set groups \<Longrightarrow> (gl, ents) \<in> set g" if "plainGroup gl" for gl ents
      using that \<open>groups \<in> _ \<or> _\<close> by (auto simp: k AList.delete_eq dest: set_mput)
    have "rawMetric groups gl eid n = stored (selected gl eid n (flatten fs))" if "plainGroup gl" for gl eid n
      using that m1[OF that] g(2) by (auto simp: k groupedAs_def rawMetric_def)
    moreover have "wfmap raw" if "plainGroup gl" "(gl, ents) \<in> set groups" "(eid, raw) \<in> set ents" for gl ents eid raw
      using m2[OF that(1,2)] that(3) w unfolding wfRaws_def by blast
    ultimately show ?thesis by blast
  qed
  have "\<exists>groups eg. ksmGroup cfg (runSpecs cc KSMSpecs) = Ok (groups, eg) \<and> (\<forall>e. eg = Some e \<longrightarrow> Recoverable e) \<and>
      (groups \<in> {g, mdel ''resourcequota'' g} \<or> (\<exists>x. groups \<in> {mput ''service'' x g, mdel ''resourcequota'' (mput ''service'' x g)}))"
    using assms g(1)
    by (cases "mget g ''service''"; cases "ServicesLister cfg") (auto simp: ksmGroup_def errGroupOf_def)
  then show ?thesis using that kept by metis
qed

section \<open>The sample of an entity\<close>

lemma rawMetric_entity:
  assumes "rawMetric groups gl eid k = Some v"
  obtains ents raw where "(gl, ents) \<in> set groups" "(eid, raw) \<in> set ents" "\<And>k. rawMetric groups gl eid k = mget raw k"
proof -
  obtain ents raw where e: "mget groups gl = Some ents" "mget ents eid = Some raw"
    using assms by (auto simp: rawMetric_def bind_eq_Some_conv)
  then have "rawMetric groups gl eid k = mget raw k" for k by (simp add: rawMetric_def)
  then show ?thesis using that e map_of_SomeD by metis
qed

lemma unit_rawMetric: "rawMetric (groupsForEntity groups gl u) gl (originalEntityID u) k = mget (rawMetricsOf u) k"
  by (simp add: groupsForEntity_def rawMetric_def)

lemma stored_single: "stored ms = Some (VMetric m) \<longleftrightarrow> ms = [m]"
  by (auto simp: stored_def split: list.splits)

lemma namespace_of_raw:
  "(\<And>k m. (k, VMetric m) \<in> set raw \<Longrightarrow> label m ''namespace'' = ns) \<Longrightarrow> ns \<noteq> [] \<Longrightarrow> (k, VMetric c) \<in> set raw \<Longrightarrow>
     FromLabelGetNamespace raw = ns"
proof (induction raw rule: FromLabelGetNamespace.induct)
  case (2 k' v raw)
  then show ?case
  proof (cases v)
    case (VMetric m)
    then show ?thesis using "2.prems"(1)[of k' m] "2.prems"(2) by simp
  qed (use 2 in \<open>auto 0 3\<close>)
qed simp

section \<open>Delivery\<close>

text \<open>
  The final part for any entity without a split whose generators succeed: its sample is one of the samples.
\<close>

lemma sample_of_entity:
  assumes "(gl, ents) \<in> set (CfgGroups config)" "(eid, raw) \<in> set ents" "mget (CfgSpecs config) gl = Some sg"
    "extraAttributes allow sg gl raw = Some extra" "prepareProcessingUnits config sg gl eid raw = Ok [u]"
  shows "unitSample config sg gl extra c u \<in> set (samples allow config c)"
proof -
  have "(gl, eid, raw) \<in> set (allEntities (CfgGroups config))" using assms(1,2) by (force simp: allEntities_def)
  moreover have "unitSample config sg gl extra c u \<in> set (entitySamples allow config c (gl, eid, raw))"
    using assms(3-) by (simp add: entitySamples_def okOr_def)
  ultimately show ?thesis unfolding samples_def by auto
qed

lemma metric_of_entry:
  assumes "Entry name (Fetch (eFromValue k [])) t opt \<in> set (ESpecs g)" "mget (rawMetricsOf u) k = Some (VMetric m)" "MValue m \<noteq> NilValue"
  shows "(name, VProm (MValue m), t) \<in> set (smMetrics (unitSample config (runGroup cc g) gl extra c u))"
proof -
  let ?e = "Entry name (Fetch (eFromValue k [])) t opt"
  have v: "of_pvalue (MValue m) = VProm (MValue m)" using assms(3) by (cases "MValue m") auto
  have "FromRaw k gl (originalEntityID u) (groupsForEntity (CfgGroups config) gl u) = Ok (VMetric m)"
    by (rule FromRaw_eq) (simp add: unit_rawMetric assms(2))
  then have "metricsOf (runEntry cc ?e) (specResult gl (originalEntityID u) (groupsForEntity (CfgGroups config) gl u) c (runEntry cc ?e))
      = [(name, VProm (MValue m), t)]"
    by (simp add: specResult_def runEntry_def liftFetch_def FromValue_def FromValueWithOverriddenName_def v metricsOf_def)
  moreover have "runEntry cc ?e \<in> set (Specs (runGroup cc g))" using assms(1) by (simp add: runGroup_def)
  ultimately show ?thesis unfolding unitSample_def entityMetrics_def by (auto intro!: bexI[of _ "runEntry cc ?e"])
qed

text \<open>The calls that publish a sample are among those of the list.\<close>

lemma publish_split: "s \<in> set ss \<Longrightarrow> \<exists>before after. publish n ss = before @ sampleCalls (n + length before) s @ after"
proof (induction ss arbitrary: n)
  case (Cons x ss)
  show ?case
  proof (cases "s = x")
    case True
    then show ?thesis by (intro exI[of _ "[]"] exI[of _ "publish (n + length (sampleCalls n x)) ss"]) simp
  next
    case False
    then obtain bef aft where "publish (n + length (sampleCalls n x)) ss = bef @ sampleCalls (n + length (sampleCalls n x) + length bef) s @ aft"
      using Cons by force
    then show ?thesis by (intro exI[of _ "sampleCalls n x @ bef"] exI[of _ aft]) (simp add: add.assoc)
  qed
qed simp

text \<open>The workloads that are named by a label of the metric of their creation.\<close>

definition createdMetric :: "(string \<times> string) list" where
  "createdMetric =
     [(''deployment'', ''kube_deployment_created''), (''replicaset'', ''kube_replicaset_created''), (''statefulset'', ''kube_statefulset_created''),
      (''daemonset'', ''kube_daemonset_created''), (''cronjob'', ''kube_cronjob_created'')]"

definition eventOf :: "string \<Rightarrow> string" where
  "eventOf gl = ''K8s'' @ Title gl @ ''Sample''"

lemma workload_group:
  assumes "(gl, k) \<in> set createdMetric"
  obtains g where "mget KSMSpecs gl = Some g" "EIDGenerator g = Some (FromLabelValueEntityIDGenerator k gl)"
    "ETypeGenerator g = Some (FromLabelValueEntityTypeGenerator k)" "ENamespaceGetter g = Some FromLabelGetNamespace" "EMsTypeGuesser g = None"
    "ESplitByLabel g = []" "plainGroup gl" "gl \<notin> {''namespace'', ''node'', ''persistentvolume'', ''container''}" "CHR ''-'' \<notin> set gl"
  using assms
  by (auto simp: createdMetric_def KSMSpecs_def plainGroup_def mhas_def ksmDeployment_def ksmReplicaset_def ksmStatefulset_def ksmDaemonset_def ksmCronjob_def)

lemma workload_event: "CHR ''-'' \<notin> set gl \<Longrightarrow> K8sMetricSetTypeGuesser gl = Ok (eventOf gl)"
  by (simp add: K8sMetricSetTypeGuesser_def splitOn_no_sep eventOf_def)

lemma workload_namespace:
  assumes "m \<in> set (selected gl (ns @ ''_'' @ n) k xs)" "CHR ''_'' \<notin> set ns" "CHR ''_'' \<notin> set n"
    "gl \<notin> {''namespace'', ''node'', ''persistentvolume'', ''container''}"
  shows "label m ''namespace'' = ns \<and> label m gl = n"
proof -
  have "label m ''namespace'' @ CHR ''_'' # label m gl = ns @ CHR ''_'' # n" using assms(1,4) by (auto simp: selected_def rawEntityIDOf_def)
  then show ?thesis using assms(2,3) append_Cons_eq_iff[of "CHR ''_''" ns n "label m ''namespace''" "label m gl"] by metis
qed

lemma FromLabelValue_single:
  assumes "rawMetric groups gl eid k = Some (VMetric c)" "mget (Labels c) lab = Some l"
  shows "FromLabelValue k lab gl eid groups = Ok (VString l)"
  using assms by (simp add: FromLabelValue_def FromRaw_eq)

lemma workload_units:
  assumes "rawMetric (CfgGroups config) gl eid k = Some (VMetric c)" "mget (Labels c) ''namespace'' = Some ns" "mget (Labels c) gl = Some n"
    "ns \<noteq> []" "IDGenerator sg = Some (FromLabelValueEntityIDGenerator k gl)" "TypeGenerator sg = Some (FromLabelValueEntityTypeGenerator k)"
    "SplitByLabel sg = []" "gl \<notin> {''namespace'', ''node'', ''persistentvolume'', ''container''}"
  shows "prepareProcessingUnits config sg gl eid raw =
    Ok [\<lparr>originalEntityID = eid, entityID = n, entityType = ''k8s:'' @ ClusterName config @ '':'' @ ns @ '':'' @ gl, rawMetricsOf = raw\<rparr>]"
  using assms(4-) FromLabelValue_single[OF assms(1,2)] FromLabelValue_single[OF assms(1,3)]
  by (simp add: prepareProcessingUnits_def FromLabelValueEntityIDGenerator_def FromLabelValueEntityTypeGenerator_def
      defaultEntityTypeFromLabelValue_def Let_def)

text \<open>
  C3: A metric of a workload reaches the SDK unchanged: for every deployment, replica set, stateful set, daemon set and cron
  job that the endpoint names in one metric of its creation, and every value of it that the table takes from one metric of the answer,
  the job sends that value under the name and type of the table, in the metric set of the sample of that kind, of the entity with the name
  of the workload, under its cluster and namespace. The filter, if there is one, allows the namespace. The answer may hold anything else.
\<close>

theorem ksm_metric_delivered:
  assumes "(gl, created) \<in> set createdMetric"
    and "Entry name (Fetch (eFromValue k [])) t opt \<in> set (ESpecs (the (mget KSMSpecs gl)))"
    and "getFiltered endpoint KSMQueries = Ok fs" and "\<not> is_panic services"
    and "selected gl (ns @ ''_'' @ n) created (flatten fs) = [c]"
    and "selected gl (ns @ ''_'' @ n) k (flatten fs) = [m]" and "MValue m \<noteq> NilValue"
    and "ns \<noteq> []" "CHR ''_'' \<notin> set ns" "CHR ''_'' \<notin> set n"
    and "filterer = map_option (\<lambda>p x f. (p x, f)) allow" and "\<And>p. allow = Some p \<Longrightarrow> p ns"
  shows "\<exists>r st' before s after.
    JobPopulate recordSdk (ksmJob getFiltered services cc cfg filterer endpoint) cn cid v st = (Ok r, st') \<and> Populated r \<and>
    pInt st' = pInt st @ before @ sampleCalls (length (pInt st @ before)) s @ after \<and>
    smEntity s = n \<and> smType s = ''k8s:'' @ cn @ '':'' @ ns @ '':'' @ gl \<and> smEvent s = eventOf gl \<and>
    (name, VProm (MValue m), t) \<in> set (smMetrics s)"
proof -
  let ?eid = "ns @ ''_'' @ n"
  define gcfg where "gcfg = \<lparr>Queries = KSMQueries, MetricFamiliesGetter = ksmFamilies getFiltered endpoint, ServicesLister = services,
      EnableResourceQuotaSamples = KsmResourceQuotaSamples (KSM cfg)\<rparr>"
  from assms(1) obtain g where g: "mget KSMSpecs gl = Some g" "EIDGenerator g = Some (FromLabelValueEntityIDGenerator created gl)"
    "ETypeGenerator g = Some (FromLabelValueEntityTypeGenerator created)" "ENamespaceGetter g = Some FromLabelGetNamespace" "EMsTypeGuesser g = None"
    "ESplitByLabel g = []" "plainGroup gl" "gl \<notin> {''namespace'', ''node'', ''persistentvolume'', ''container''}" "CHR ''-'' \<notin> set gl"
    by (rule workload_group)
  obtain groups eg where k: "ksmGroup gcfg (runSpecs cc KSMSpecs) = Ok (groups, eg)" "\<And>e. eg = Some e \<Longrightarrow> Recoverable e"
    "\<And>gl eid k. plainGroup gl \<Longrightarrow> rawMetric groups gl eid k = stored (selected gl eid k (flatten fs))"
    "\<And>gl ents eid raw. plainGroup gl \<Longrightarrow> (gl, ents) \<in> set groups \<Longrightarrow> (eid, raw) \<in> set ents \<Longrightarrow> wfmap raw"
    using ksm_groups[of gcfg fs cc] assms(3,4) by (auto simp: gcfg_def ksmFamilies_def)
  define config where "config = \<lparr>ClusterName = cn, CloudClusterID = cid, K8sVersion = v,
      CfgMsTypeGuesser = K8sMetricSetTypeGuesser, CfgGroups = groups, CfgSpecs = runSpecs cc KSMSpecs, Filterer = filterer\<rparr>"
  have pure: "pureConfig config" "filteredBy allow config" using ksm_pure[of config cc] assms(11) by (simp_all add: config_def filteredBy_def)
  have raw_created: "rawMetric groups gl ?eid created = Some (VMetric c)" and raw_k: "rawMetric groups gl ?eid k = Some (VMetric m)"
    using k(3)[OF g(7)] assms(5,6) by (simp_all add: stored_def)
  obtain ents raw where raw: "(gl, ents) \<in> set groups" "(?eid, raw) \<in> set ents" "\<And>k. rawMetric groups gl ?eid k = mget raw k"
    by (rule rawMetric_entity[OF raw_created]) (rule that)
  have lab: "label m' ''namespace'' = ns \<and> label m' gl = n" if "mget raw k' = Some (VMetric m')" for k' m'
  proof -
    have "stored (selected gl ?eid k' (flatten fs)) = Some (VMetric m')" using that raw(3) k(3)[OF g(7)] by simp
    then have "m' \<in> set (selected gl ?eid k' (flatten fs))" by (simp add: stored_single)
    then show ?thesis by (rule workload_namespace) (use assms(9,10) g(8) in auto)
  qed
  have c: "mget raw created = Some (VMetric c)" using raw_created raw(3) by simp
  have "c \<in> set (selected gl ?eid created (flatten fs))" using assms(5) by simp
  then have "Has (Labels c) gl" by (auto simp: selected_def Prometheus_Definition.belongs_def)
  then have labels: "mget (Labels c) ''namespace'' = Some ns" "mget (Labels c) gl = Some n"
    using lab[OF c] assms(8) by (auto simp: label_def mget0_def Has_def split: option.splits)
  have "FromLabelGetNamespace raw = ns"
  proof (rule namespace_of_raw)
    show "label m' ''namespace'' = ns" if "(k', VMetric m') \<in> set raw" for k' m'
      using lab mget_of_set[OF k(4)[OF g(7) raw(1,2)] that] by blast
  qed (use assms(8) c map_of_SomeD in fastforce)+
  then have extra: "extraAttributes allow (runGroup cc g) gl raw = Some []"
    using assms(12) g(4,8) by (auto simp: extraAttributes_def runGroup_def NamespaceGroup_def split: option.split)
  let ?u = "\<lparr>originalEntityID = ?eid, entityID = n, entityType = ''k8s:'' @ cn @ '':'' @ ns @ '':'' @ gl, rawMetricsOf = raw\<rparr>"
  have units: "prepareProcessingUnits config (runGroup cc g) gl ?eid raw = Ok [?u]"
    using workload_units[of config gl ?eid created c ns n "runGroup cc g" raw] raw_created labels assms(8) g
    by (simp add: config_def runGroup_def)
  have sg: "mget (CfgSpecs config) gl = Some (runGroup cc g)" using g(1) by (simp add: config_def runSpecs_def map_of_map)
  define s where "s = unitSample config (runGroup cc g) gl [] (pCache st) ?u"
  have s: "s \<in> set (samples allow config (pCache st))"
    unfolding s_def using sample_of_entity[OF _ raw(2) sg extra units] raw(1) by (simp add: config_def)
  have metric: "(name, VProm (MValue m), t) \<in> set (smMetrics s)"
    unfolding s_def using assms(2,7) g(1) raw_k raw(3) by (intro metric_of_entry) auto
  then have populated: "fst (populatorOutcome allow config (pCache st))" using s by (force simp: populatorOutcome_def isPopulated_def)
  obtain before after where "publish (length (pInt st)) (samples allow config (pCache st)) = before @ sampleCalls (length (pInt st) + length before) s @ after"
    using publish_split[OF s] by blast
  moreover have "smEntity s = n" "smType s = ''k8s:'' @ cn @ '':'' @ ns @ '':'' @ gl" "smEvent s = eventOf gl"
    using g(5) by (simp_all add: s_def unitSample_def guesserOf_def runGroup_def config_def okOr_def workload_event[OF g(9)])
  moreover have "JobPopulate recordSdk (ksmJob getFiltered services cc cfg filterer endpoint) cn cid v st =
      pbind (IntegrationPopulator recordSdk config) (\<lambda>(ok, populateErrs).
        preturn (if length populateErrs > 0 then \<lparr>PErrors = populateErrs, Populated = ok\<rparr>
                 else if \<not> ok then \<lparr>PErrors = [ErrNoData], Populated = False\<rparr>
                 else \<lparr>PErrors = [], Populated = True\<rparr>)) st"
    using k(1,2) by (auto simp: JobPopulate_def ksmJob_def NewScrapeJob_def gcfg_def config_def split: option.split)
  ultimately show ?thesis using metric populated
    by (auto simp: IntegrationPopulator_trace[OF pure] pop_simps populatorCalls_def Let_def split: prod.splits)
qed

text \<open>One deployment, whose answer also has a metric of another one.\<close>

definition exampleFamilies :: "metricfamily list" where
  "exampleFamilies =
     [\<lparr>FName = ''kube_deployment_created'', FType = ''GAUGE'',
       Metrics = [\<lparr>Labels = [(''namespace'', ''ns''), (''deployment'', ''d'')], MValue = GaugeValue (Fin 7)\<rparr>]\<rparr>,
      \<lparr>FName = ''kube_deployment_status_replicas'', FType = ''GAUGE'',
       Metrics = [\<lparr>Labels = [(''namespace'', ''ns''), (''deployment'', ''d'')], MValue = GaugeValue (Fin 3)\<rparr>,
                  \<lparr>Labels = [(''namespace'', ''ns''), (''deployment'', ''e'')], MValue = GaugeValue (Fin 4)\<rparr>]\<rparr>]"

theorem ksm_metric_delivered_witness:
  "\<exists>r st' before s after.
    JobPopulate recordSdk (ksmJob (\<lambda>_ _. Ok exampleFamilies) (Ok []) id exampleCfg (Some (\<lambda>x f. (x = ''ns'', f))) ''http://ksm'') ''cl'' [] ''v1''
      \<lparr>pInt = [], pCache = None, pFilter = ()\<rparr> = (Ok r, st') \<and> Populated r \<and>
    pInt st' = [] @ before @ sampleCalls (length ([] @ before)) s @ after \<and>
    smEntity s = ''d'' \<and> smType s = ''k8s:'' @ ''cl'' @ '':'' @ ''ns'' @ '':'' @ ''deployment'' \<and> smEvent s = eventOf ''deployment'' \<and>
    (''podsTotal'', VProm (GaugeValue (Fin 3)), GAUGE) \<in> set (smMetrics s)"
  using ksm_metric_delivered[where gl = "''deployment''" and created = "''kube_deployment_created''" and name = "''podsTotal''"
      and k = "''kube_deployment_status_replicas''" and t = GAUGE and opt = False and ns = "''ns''" and n = "''d''" and fs = exampleFamilies
      and c = "\<lparr>Labels = [(''namespace'', ''ns''), (''deployment'', ''d'')], MValue = GaugeValue (Fin 7)\<rparr>"
      and m = "\<lparr>Labels = [(''namespace'', ''ns''), (''deployment'', ''d'')], MValue = GaugeValue (Fin 3)\<rparr>"
      and getFiltered = "\<lambda>_ _. Ok exampleFamilies" and services = "Ok []" and cc = id and cfg = exampleCfg and endpoint = "''http://ksm''"
      and filterer = "Some (\<lambda>x f. (x = ''ns'', f))" and allow = "Some (\<lambda>x. x = ''ns'')" and cn = "''cl''" and cid = "[]" and v = "''v1''"
      and st = "\<lparr>pInt = [], pCache = None, pFilter = ()\<rparr>"]
  by (simp add: createdMetric_def KSMSpecs_def ksmDeployment_def ksmDeploymentSpecs_def exampleFamilies_def selected_def flatten_def
      rawEntityIDOf_def Prometheus_Definition.belongs_def tooSpecific_def Has_def label_def mget0_def)

end
