(* ===== verification/Control_Plane_Delivery.thy ===== *)
theory Control_Plane_Delivery
  imports Ksm_Delivery Control_Plane
begin

text \<open>
  The path of the metrics of a control-plane component from its answer to the calls of the SDK, as for kube-state-metrics. A
  component has one group and one entity, and each of its metrics is a slice whose elements are summed by their labels.
\<close>

section \<open>The groups of an answer\<close>

lemma controlplane_guessers: "list_all (\<lambda>(specs, queries). list_all (knownGuesser \<circ> snd) specs) controlplaneTables"
  by (simp add: controlplaneTables_def knownGuesser_def controlplane_tables)

text \<open>The tables have one group each, which is identified by the entity that was given to the grouper.\<close>

definition componentGroup :: "groupentry \<Rightarrow> bool" where
  "componentGroup g \<longleftrightarrow> EIDGenerator g = Some FromRawEntityIDGenerator \<and> ETypeGenerator g = Some ControlPlaneComponentTypeGenerator \<and>
     ENamespaceGetter g = None \<and> EMsTypeGuesser g = None \<and> ESplitByLabel g = []"

lemma controlplane_groups: "list_all (\<lambda>(specs, queries). list_all (componentGroup \<circ> snd) specs) controlplaneTables"
  by (simp add: controlplaneTables_def componentGroup_def controlplane_tables)

lemma controlplane_pure:
  assumes "(specs, queries) \<in> set controlplaneTables" "CfgSpecs config = runSpecs cc specs" "CfgMsTypeGuesser config = K8sMetricSetTypeGuesser"
  shows "pureConfig config"
  using assms controlplane_calm controlplane_quiet controlplane_guessers
  by (intro table_pure[of specs]) (fastforce simp: list_all_iff)+

lemma cp_groups:
  assumes "CPClient cfg (CPQueries cfg) = Ok fs" "wfmap specs"
  obtains groups eg where "controlplaneGroup cfg (runSpecs cc specs) = Ok (groups, eg)" "\<And>e. eg = Some e \<Longrightarrow> Recoverable e"
    "\<And>gl k. mhas specs gl \<Longrightarrow> rawMetric groups gl (CPEntityID cfg) k = storedSlice (namedMetrics k (flatten fs))"
proof -
  let ?gls = "map fst specs"
  obtain g es where g: "GroupEntityMetricsBySpec (runSpecs cc specs) fs (CPEntityID cfg) = Ok (g, es)"
    "\<forall>gl \<in> set ?gls. entityAs gl (CPEntityID cfg) (flatten fs) g"
    using entityLabels_correct[of ?gls "([], [])" fs "CPEntityID cfg"] assms(2)
    by (auto simp: GroupEntityMetricsBySpec_def wfmap_def runSpecs_def case_prod_unfold comp_def)
  have "rawMetric g gl (CPEntityID cfg) k = storedSlice (namedMetrics k (flatten fs))" if "mhas specs gl" for gl k
  proof -
    have "gl \<in> set ?gls" using that by (simp add: mhas_def map_of_eq_None_iff)
    then have "entityAs gl (CPEntityID cfg) (flatten fs) g" using g(2) by blast
    then show ?thesis by (simp add: entityAs_def)
  qed
  moreover have "controlplaneGroup cfg (runSpecs cc specs) = Ok (g, if length es > 0 then errGroupOf es True else None)"
    using assms(1) g(1) by (simp add: controlplaneGroup_def)
  ultimately show ?thesis by (intro that[of g]) (auto simp: errGroupOf_def split: if_splits)
qed

section \<open>Delivery\<close>

lemma values_of_entry:
  assumes "Entry name (Fetch (eFromValueWithOverriddenName k nm lf)) t opt \<in> set (ESpecs g)" "mget (rawMetricsOf u) k = Some (VMetrics ms)"
    "fetchedValuesFromRawMetrics k nm ms lf = Ok fv" "(a, v) \<in> set fv"
  shows "(a, v, t) \<in> set (smMetrics (unitSample config (runGroup cc g) gl extra c u))"
proof -
  let ?e = "Entry name (Fetch (eFromValueWithOverriddenName k nm lf)) t opt"
  have "FromRaw k gl (originalEntityID u) (groupsForEntity (CfgGroups config) gl u) = Ok (VMetrics ms)"
    by (rule FromRaw_eq) (simp add: unit_rawMetric assms(2))
  then have "metricsOf (runEntry cc ?e) (specResult gl (originalEntityID u) (groupsForEntity (CfgGroups config) gl u) c (runEntry cc ?e))
      = map (\<lambda>(k, v). (k, v, t)) fv"
    by (simp add: specResult_def runEntry_def liftFetch_def FromValueWithOverriddenName_def assms(3) metricsOf_def)
  moreover have "runEntry cc ?e \<in> set (Specs (runGroup cc g))" using assms(1) by (simp add: runGroup_def)
  ultimately show ?thesis using assms(4) unfolding unitSample_def entityMetrics_def by (force intro!: bexI[of _ "runEntry cc ?e"])
qed

text \<open>
  C5: The metrics of a component of the control plane reach the SDK: for every row of its table that sums the metrics of a
  name by their labels, every sum of the metrics that the component answered is sent under its name and with the type of the row, in
  the metric set of the sample of the component, of the entity with the identifier of its pod or host.
\<close>

theorem cp_metrics_delivered:
  fixes st :: "(sdkcall list, interfacecache option, 'f) popstate"
  assumes "(CompSpecs cmp, CompQueries cmp) \<in> set controlplaneTables" "mget (CompSpecs cmp) gl = Some g"
    and "cwFetch cw conn (urlString (CcURL conn)) (CompQueries cmp) = Ok fs"
    and "Entry name (Fetch (eFromValueWithOverriddenName k nm lf)) t opt \<in> set (ESpecs g)"
    and "namedMetrics k (flatten fs) \<noteq> []"
    and "fetchedValuesFromRawMetrics k nm (namedMetrics k (flatten fs)) lf = Ok fv" and "fv \<noteq> []"
  shows "\<exists>r st' before s after.
    JobPopulate recordSdk (cpJob cw cc cmp conn eid) cn cid v st = (Ok r, st') \<and> Populated r \<and>
    pInt st' = pInt st @ before @ sampleCalls (length (pInt st @ before)) s @ after \<and>
    smEntity s = eid \<and> smType s = ''k8s:'' @ cn @ '':controlplane:'' @ gl \<and> K8sMetricSetTypeGuesser gl = Ok (smEvent s) \<and>
    (\<forall>(a, w) \<in> set fv. (a, w, t) \<in> set (smMetrics s))"
proof -
  define gcfg where "gcfg = \<lparr>CPQueries = CompQueries cmp, CPClient = cpMetricFamilies cw conn, CPEntityID = eid\<rparr>"
  have wf: "wfmap (CompSpecs cmp)" using assms(1) controlplane_wf by (fastforce simp: list_all_iff)
  have "componentGroup g" using assms(1,2) controlplane_groups by (fastforce simp: list_all_iff dest: map_of_SomeD)
  then have g: "EIDGenerator g = Some FromRawEntityIDGenerator" "ETypeGenerator g = Some ControlPlaneComponentTypeGenerator"
    "ENamespaceGetter g = None" "EMsTypeGuesser g = None" "ESplitByLabel g = []" by (simp_all add: componentGroup_def)
  obtain groups eg where k: "controlplaneGroup gcfg (runSpecs cc (CompSpecs cmp)) = Ok (groups, eg)" "\<And>e. eg = Some e \<Longrightarrow> Recoverable e"
    "\<And>gl k. mhas (CompSpecs cmp) gl \<Longrightarrow> rawMetric groups gl eid k = storedSlice (namedMetrics k (flatten fs))"
    using cp_groups[of gcfg fs "CompSpecs cmp" cc] wf assms(3) by (auto simp: gcfg_def cpMetricFamilies_def)
  define config :: "(interfacecache option, 'f) popconfig" where "config = \<lparr>ClusterName = cn, CloudClusterID = cid, K8sVersion = v,
      CfgMsTypeGuesser = K8sMetricSetTypeGuesser, CfgGroups = groups, CfgSpecs = runSpecs cc (CompSpecs cmp), Filterer = None\<rparr>"
  have pure: "pureConfig config" "filteredBy None config"
    using controlplane_pure[OF assms(1), of config cc] by (simp_all add: config_def filteredBy_def)
  have raw_k: "rawMetric groups gl eid k = Some (VMetrics (namedMetrics k (flatten fs)))"
    using k(3)[of gl k] assms(2,5) by (simp add: mhas_def storedSlice_def)
  obtain ents raw where raw: "(gl, ents) \<in> set groups" "(eid, raw) \<in> set ents" "\<And>k. rawMetric groups gl eid k = mget raw k"
    by (rule rawMetric_entity[OF raw_k]) (rule that)
  let ?u = "\<lparr>originalEntityID = eid, entityID = eid, entityType = ''k8s:'' @ cn @ '':controlplane:'' @ gl, rawMetricsOf = raw\<rparr>"
  have units: "prepareProcessingUnits config (runGroup cc g) gl eid raw = Ok [?u]"
    using g by (simp add: prepareProcessingUnits_def runGroup_def FromRawEntityIDGenerator_def ControlPlaneComponentTypeGenerator_def config_def)
  have extra: "extraAttributes None (runGroup cc g) gl raw = Some []" by (simp add: extraAttributes_def)
  have sg: "mget (CfgSpecs config) gl = Some (runGroup cc g)" using assms(2) by (simp add: config_def runSpecs_def map_of_map)
  define s where "s = unitSample config (runGroup cc g) gl [] (pCache st) ?u"
  have s: "s \<in> set (samples None config (pCache st))"
    unfolding s_def using sample_of_entity[OF _ raw(2) sg extra units] raw(1) by (simp add: config_def)
  have metrics: "(a, w, t) \<in> set (smMetrics s)" if "(a, w) \<in> set fv" for a w
    unfolding s_def using assms(4,6) raw_k raw(3) that by (intro values_of_entry) auto
  then have populated: "fst (populatorOutcome None config (pCache st))" using s assms(7)
    by (cases fv) (force simp: populatorOutcome_def isPopulated_def)+
  obtain before after where "publish (length (pInt st)) (samples None config (pCache st)) = before @ sampleCalls (length (pInt st) + length before) s @ after"
    using publish_split[OF s] by blast
  moreover have "smEntity s = eid" "smType s = ''k8s:'' @ cn @ '':controlplane:'' @ gl" "K8sMetricSetTypeGuesser gl = Ok (smEvent s)"
    using g(4) by (simp_all add: s_def unitSample_def guesserOf_def runGroup_def config_def okOr_def K8sMetricSetTypeGuesser_def)
  moreover have "JobPopulate recordSdk (cpJob cw cc cmp conn eid) cn cid v st =
      pbind (IntegrationPopulator recordSdk config) (\<lambda>(ok, populateErrs).
        preturn (if length populateErrs > 0 then \<lparr>PErrors = populateErrs, Populated = ok\<rparr>
                 else if \<not> ok then \<lparr>PErrors = [ErrNoData], Populated = False\<rparr>
                 else \<lparr>PErrors = [], Populated = True\<rparr>)) st"
    using k(1,2) by (auto simp: JobPopulate_def cpJob_def NewScrapeJob_def gcfg_def config_def split: option.split)
  ultimately show ?thesis using metrics populated
    by (auto simp: IntegrationPopulator_trace[OF pure] pop_simps populatorCalls_def Let_def split: prod.splits)
qed

text \<open>A scheduler that answers with one of its metrics.\<close>

definition exampleScheduler :: component where
  "exampleScheduler = \<lparr>CompName = ''scheduler'', CompSpecs = SchedulerSpecs, CompQueries = SchedulerQueries,
     AutodiscoverConfigs = [], StaticEndpointConfig = None\<rparr>"

definition exampleAnswered :: "metricfamily list" where
  "exampleAnswered = [\<lparr>FName = ''go_goroutines'', FType = ''GAUGE'', Metrics = [\<lparr>Labels = [], MValue = GaugeValue (Fin 7)\<rparr>]\<rparr>]"

definition schedulerConn :: cpconn where
  "schedulerConn = \<lparr>CcURL = \<lparr>UScheme = ''https'', UHost = ''localhost:10259'', UPath = ''/metrics''\<rparr>,
     CcClient = \<lparr>CcTimeout = 10, CcTransport = \<lparr>Insecure = True, TokenFile = [], ClientCerts = None\<rparr>\<rparr>\<rparr>"

theorem cp_metrics_delivered_witness:
  "\<exists>r st' before s after.
    JobPopulate recordSdk (cpJob (exampleCPWorld\<lparr>cwFetch := (\<lambda>_ _ _. Ok exampleAnswered)\<rparr>) id exampleScheduler schedulerConn ''node-1'')
      ''cl'' [] ''v1'' \<lparr>pInt = [], pCache = None, pFilter = ()\<rparr> = (Ok r, st') \<and> Populated r \<and>
    pInt st' = [] @ before @ sampleCalls (length ([] @ before)) s @ after \<and>
    smEntity s = ''node-1'' \<and> smType s = ''k8s:'' @ ''cl'' @ '':controlplane:'' @ ''scheduler'' \<and> K8sMetricSetTypeGuesser ''scheduler'' = Ok (smEvent s) \<and>
    (''goGoroutines'', VProm (GaugeValue (Fin 7)), GAUGE) \<in> set (smMetrics s)"
proof -
  have ms: "namedMetrics ''go_goroutines'' (flatten exampleAnswered) = [\<lparr>Labels = [], MValue = GaugeValue (Fin 7)\<rparr>]"
    by (simp add: namedMetrics_def flatten_def exampleAnswered_def)
  have fv: "fetchedValuesFromRawMetrics ''go_goroutines'' ''goGoroutines'' [\<lparr>Labels = [], MValue = GaugeValue (Fin 7)\<rparr>] [] =
      Ok [(''goGoroutines'', VProm (GaugeValue (Fin 7)))]" by code_simp
  have e: "Entry ''goGoroutines'' (Fetch (eFromValueWithOverriddenName ''go_goroutines'' ''goGoroutines'' [])) GAUGE False \<in> set (ESpecs schedulerGroup)"
    by (simp add: schedulerGroup_def schedulerGroupSpecs_def)
  show ?thesis
    using cp_metrics_delivered[where cmp = exampleScheduler and gl = "''scheduler''" and cn = "''cl''" and cid = "[]" and v = "''v1''" and cc = id
        and cw = "exampleCPWorld\<lparr>cwFetch := (\<lambda>_ _ _. Ok exampleAnswered)\<rparr>" and conn = schedulerConn and eid = "''node-1''"
        and st = "\<lparr>pInt = [], pCache = None, pFilter = ()\<rparr>" and fs = exampleAnswered
        and fv = "[(''goGoroutines'', VProm (GaugeValue (Fin 7)))]", OF _ _ _ e]
    by (simp add: exampleScheduler_def controlplaneTables_def SchedulerSpecs_def ms fv)
qed

end
