(* ===== verification/Kubelet_Delivery.thy ===== *)
theory Kubelet_Delivery
  imports Populator_Trace Kubelet_Typing
begin

text \<open>
  The path of the metrics of a container from the grouped answers of the kubelet to the calls of the SDK. The specifications
  of the kubelet use the interface cache, so the calls are not those of a fixed list of samples; what is shown is
  that the calls of a container are among them, whatever the other entities and the cache do.
\<close>

section \<open>Computations that only add calls\<close>

definition extendsBy :: "(sdkcall \<Rightarrow> bool) \<Rightarrow> ('a, sdkcall list, 'c, 'f) pop \<Rightarrow> bool" where
  "extendsBy Q m \<longleftrightarrow> (\<forall>st. \<exists>cs. pInt (snd (m st)) = pInt st @ cs \<and> list_all Q cs)"

named_theorems extends_intros

lemma extendsBy_mono: "extendsBy Q m \<Longrightarrow> (\<And>c. Q c \<Longrightarrow> R c) \<Longrightarrow> extendsBy R m"
  unfolding extendsBy_def by (metis list.pred_mono_strong)

lemma extendsByE:
  assumes "extendsBy Q m" "m st = (r, st')"
  obtains cs where "pInt st' = pInt st @ cs" "list_all Q cs"
  using assms unfolding extendsBy_def by (metis snd_conv)

lemma extendsBy_preturn [extends_intros]: "extendsBy Q (preturn a)"
  by (simp add: extendsBy_def preturn_def)

lemma extendsBy_panic [extends_intros]: "extendsBy Q (\<lambda>st. (Panic p, st))"
  by (simp add: extendsBy_def)

lemma extendsBy_pbind [extends_intros]:
  assumes "extendsBy Q m" "\<And>a. extendsBy Q (f a)" shows "extendsBy Q (pbind m f)"
  unfolding extendsBy_def
proof
  fix st
  obtain r st1 where m: "m st = (r, st1)" by force
  obtain cs where cs: "pInt st1 = pInt st @ cs" "list_all Q cs" by (rule extendsByE[OF assms(1) m])
  show "\<exists>cs. pInt (snd (pbind m f st)) = pInt st @ cs \<and> list_all Q cs"
  proof (cases r)
    case (Ok a)
    obtain r2 st2 where f: "f a st1 = (r2, st2)" by force
    obtain cs2 where "pInt st2 = pInt st1 @ cs2" "list_all Q cs2" by (rule extendsByE[OF assms(2) f])
    then show ?thesis using cs m Ok f by (intro exI[of _ "cs @ cs2"]) (simp add: pbind_def)
  qed (use cs m in \<open>auto simp: pbind_def\<close>)
qed

lemma extendsBy_onInt [extends_intros]: "(\<And>i. \<exists>cs. snd (f i) = i @ cs \<and> list_all Q cs) \<Longrightarrow> extendsBy Q (onInt f)"
  by (simp add: extendsBy_def onInt_def case_prod_beta)

lemma extendsBy_isAllowed [extends_intros]: "extendsBy Q (isAllowed f ns)"
  by (simp add: extendsBy_def isAllowed_def case_prod_beta)

lemma extendsBy_fetchValue [extends_intros]: "extendsBy Q (fetchValue sp gl eid gs)"
  by (simp add: extendsBy_def fetchValue_def case_prod_beta)

fun setsOn :: "nat \<Rightarrow> sdkcall \<Rightarrow> bool" where
  "setsOn ms (CallSetMetric h k v t) \<longleftrightarrow> h = ms"
| "setsOn ms _ \<longleftrightarrow> False"

lemma setMetrics_sets [extends_intros]: "extendsBy (setsOn ms) (setMetrics recordSdk ms kvs t)"
  by (induction kvs) (auto intro!: extends_intros split: option.split)

lemma populateValue_sets [extends_intros]: "extendsBy (setsOn ms) (populateValue recordSdk ms sp v)"
  by (auto simp: populateValue_def populateMetricsFromMap_def populateSingleMetric_def intro!: extends_intros split: goval.split option.split)

lemma specLoop_sets [extends_intros]: "extendsBy (setsOn ms) (specLoop recordSdk ms gl eid gs specs p es)"
  by (induction specs arbitrary: p es) (auto intro!: extends_intros split: result.split option.split)

abbreviation extending :: "('a, sdkcall list, 'c, 'f) pop \<Rightarrow> bool" where
  "extending \<equiv> extendsBy (\<lambda>_. True)"

lemma metricSetPopulate_extends [extends_intros]: "extending (metricSetPopulate recordSdk ms gl eid gs specs)"
  by (auto simp: metricSetPopulate_def intro!: extends_intros extendsBy_mono[OF specLoop_sets] split: option.split)

lemma processUnit_extends [extends_intros]: "extending (processUnit recordSdk config sg gl extra u)"
  unfolding processUnit_def by (auto intro!: extends_intros split: result.split prod.split)

lemma processEntities_extends [extends_intros]: "extending (processEntities recordSdk config sg gl extra us)"
  by (induction us) (auto intro!: extends_intros)

lemma filterGroup_extends [extends_intros]: "extending (filterGroup config sg gl raw)"
  by (auto simp: filterGroup_def Let_def intro!: extends_intros split: option.split)

lemma populateEntity_extends [extends_intros]: "extending (populateEntity recordSdk config gl ent)"
  by (auto simp: populateEntity_def intro!: extends_intros split: prod.split option.split result.split)

lemma populateEntities_extends [extends_intros]: "extending (populateEntities recordSdk config ents)"
  by (induction ents) (auto intro!: extends_intros)

lemma tryAll_extends:
  "\<forall>(f, msg) \<in> set fs. \<forall>i. \<exists>cs. snd (f i) = i @ cs \<Longrightarrow> \<exists>cs. snd (tryAll fs i) = i @ (cs :: sdkcall list)"
proof (induction fs arbitrary: i)
  case (Cons x fs)
  obtain f msg where x: "x = (f, msg)" by force
  obtain e i' where f: "f i = (e, i')" by force
  obtain cs where i': "i' = i @ cs" using Cons.prems f x by (auto dest!: spec[of _ i])
  have "\<exists>cs2. snd (tryAll fs i') = i' @ cs2" using Cons.IH[of i'] Cons.prems by simp
  then show ?case using f x i' by (auto split: option.split)
qed simp

lemma populateCluster_extends [extends_intros]: "extending (populateCluster recordSdk cn cid v)"
proof -
  have t: "extending (onInt (tryAll fs))" if "\<forall>(f, msg) \<in> set fs. \<forall>i. \<exists>cs. snd (f i) = i @ cs" for fs
    using tryAll_extends[OF that] by (auto intro!: extends_intros simp: list.pred_True)
  show ?thesis unfolding populateCluster_def
    by (auto intro!: extends_intros t split: result.split prod.split if_splits)
qed

section \<open>Computations that make certain calls\<close>

text \<open>\<open>P n seg\<close> holds of some segment \<open>seg\<close> of the calls that were made, which comes after \<open>n\<close> calls.\<close>

definition emits :: "(nat \<Rightarrow> sdkcall list \<Rightarrow> bool) \<Rightarrow> ('a, sdkcall list, 'c, 'f) pop \<Rightarrow> bool" where
  "emits P m \<longleftrightarrow> (\<forall>st a st'. m st = (Ok a, st') \<longrightarrow>
     (\<exists>before seg after. pInt st' = pInt st @ before @ seg @ after \<and> P (length (pInt st @ before)) seg))"

lemma pbind_OkE:
  assumes "pbind m f st = (Ok b, st')"
  obtains a st1 where "m st = (Ok a, st1)" "f a st1 = (Ok b, st')"
  using assms by (auto simp: pbind_def split: prod.splits result.splits)

lemma emits_left:
  assumes "emits P m" "\<And>a. extending (f a)" shows "emits P (pbind m f)"
  unfolding emits_def
proof (intro allI impI)
  fix st b st' assume "pbind m f st = (Ok b, st')"
  then obtain a st1 where m: "m st = (Ok a, st1)" and f: "f a st1 = (Ok b, st')" by (rule pbind_OkE)
  obtain before seg after where s: "pInt st1 = pInt st @ before @ seg @ after" "P (length (pInt st @ before)) seg"
    using assms(1) m unfolding emits_def by blast
  obtain cs where "pInt st' = pInt st1 @ cs" by (rule extendsByE[OF assms(2) f])
  then have "pInt st' = pInt st @ before @ seg @ (after @ cs)" using s(1) by simp
  then show "\<exists>before seg after. pInt st' = pInt st @ before @ seg @ after \<and> P (length (pInt st @ before)) seg" using s(2) by blast
qed

lemma emits_right:
  assumes "extending m" "\<And>a st st'. m st = (Ok a, st') \<Longrightarrow> emits P (f a)" shows "emits P (pbind m f)"
  unfolding emits_def
proof (intro allI impI)
  fix st b st' assume "pbind m f st = (Ok b, st')"
  then obtain a st1 where m: "m st = (Ok a, st1)" and f: "f a st1 = (Ok b, st')" by (rule pbind_OkE)
  obtain cs where cs: "pInt st1 = pInt st @ cs" by (rule extendsByE[OF assms(1) m])
  obtain before seg after where s: "pInt st' = pInt st1 @ before @ seg @ after" "P (length (pInt st1 @ before)) seg"
    using assms(2)[OF m] f unfolding emits_def by blast
  then have "pInt st' = pInt st @ (cs @ before) @ seg @ after" "P (length (pInt st @ (cs @ before))) seg" using cs by simp_all
  then show "\<exists>before seg after. pInt st' = pInt st @ before @ seg @ after \<and> P (length (pInt st @ before)) seg" by blast
qed

text \<open>One step of the loop over the specifications.\<close>

lemma specLoop_step:
  assumes "specLoop recordSdk ms gl eid gs (x # specs) p es st = (Ok r, st')"
  obtains p' es' st1 cs where "pInt st1 = pInt st @ cs" "list_all (setsOn ms) cs" "specLoop recordSdk ms gl eid gs specs p' es' st1 = (Ok r, st')"
proof -
  obtain fr c where f: "ValueFunc x gl eid gs (pCache st) = (fr, c)" by force
  let ?st = "st\<lparr>pCache := c\<rparr>"
  note l = assms[unfolded specLoop.simps pbind_def fetchValue_def f, simplified]
  show ?thesis
  proof (cases fr)
    case (Ok val)
    show ?thesis
    proof (cases "val = VNil")
      case True
      then show ?thesis using l Ok that[of ?st "[]"] by simp
    next
      case False
      obtain a st2 where v: "populateValue recordSdk ms x val ?st = (Ok a, st2)" using l Ok False by (auto split: prod.splits result.splits)
      obtain cs where "pInt st2 = pInt ?st @ cs" "list_all (setsOn ms) cs" by (rule extendsByE[OF populateValue_sets v])
      then show ?thesis using l Ok False v that[of st2 cs] by (cases a) auto
    qed
  qed (use l that[of ?st "[]"] in auto)
qed

text \<open>A metric set gets the value of a specification that does not use the cache.\<close>

lemma specLoop_sends:
  assumes "sp \<in> set specs" "ValueFunc sp = liftFetch f" "f gl eid gs = Ok w" "w \<noteq> VNil" "\<And>fv. w \<noteq> VFetched fv"
    and "specLoop recordSdk ms gl eid gs specs p es st = (Ok r, st')"
  obtains mid after where "pInt st' = pInt st @ mid @ [CallSetMetric ms (SName sp) w (SType sp)] @ after" "list_all (setsOn ms) mid"
  using assms(1,6)
proof (induction specs arbitrary: p es st thesis)
  case (Cons x specs)
  show ?case
  proof (cases "x = sp")
    case True
    have v: "populateValue recordSdk ms sp w st = (Ok (True, None), recording st [CallSetMetric ms (SName sp) w (SType sp)])"
      using assms(5) by (cases w) (auto simp: populateValue_def populateSingleMetric_def pop_simps)
    have "fetchValue sp gl eid gs st = (Ok (Ok w), st)" using assms(2,3) by (simp add: fetchValue_def liftFetch_def)
    then have "specLoop recordSdk ms gl eid gs specs True es (recording st [CallSetMetric ms (SName sp) w (SType sp)]) = (Ok r, st')"
      using Cons.prems(3) True assms(4) v by (simp add: pop_simps)
    then obtain cs where "pInt st' = pInt (recording st [CallSetMetric ms (SName sp) w (SType sp)]) @ cs" by (rule extendsByE[OF specLoop_sets])
    then show ?thesis using Cons.prems(1)[of "[]" cs] by simp
  next
    case False
    then have sp: "sp \<in> set specs" using Cons.prems(2) by auto
    obtain p' es' st1 cs where s: "pInt st1 = pInt st @ cs" "list_all (setsOn ms) cs" "specLoop recordSdk ms gl eid gs specs p' es' st1 = (Ok r, st')"
      by (rule specLoop_step[OF Cons.prems(3)])
    from Cons.IH[OF _ sp s(3)] obtain mid after where
      "pInt st' = pInt st1 @ mid @ [CallSetMetric ms (SName sp) w (SType sp)] @ after" "list_all (setsOn ms) mid" by blast
    then show ?thesis using s Cons.prems(1)[of "cs @ mid" after] by simp
  qed
qed simp

section \<open>Entities\<close>

text \<open>The calls for one metric of a sample, from its entity on.\<close>

definition sends :: "string \<Rightarrow> string \<Rightarrow> (string \<times> string) list \<Rightarrow> string \<Rightarrow> string \<Rightarrow> goval \<Rightarrow> sourcetype \<Rightarrow> nat \<Rightarrow> sdkcall list \<Rightarrow> bool" where
  "sends entity type attrs event name w t n seg \<longleftrightarrow>
     (\<exists>mid. seg = [CallEntity entity type, CallAttributes n attrs, CallMetricSet n event] @ mid @ [CallSetMetric (n + 2) name w t] \<and>
        list_all (setsOn (n + 2)) mid)"

lemma processUnit_emits:
  fixes config :: "('c, 'f) popconfig"
  assumes "mget (CfgSpecs config) gl = Some sg" "guesserOf config sg gl = Ok event" "sp \<in> set (Specs sg)" "ValueFunc sp = liftFetch f"
    "f gl (originalEntityID u) (groupsForEntity (CfgGroups config) gl u) = Ok w" "w \<noteq> VNil" "\<And>fv. w \<noteq> VFetched fv"
  shows "emits (sends (entityID u) (entityType u) (entityAttributes config extra (entityID u)) event (SName sp) w (SType sp))
    (processUnit recordSdk config sg gl extra u)"
  unfolding emits_def
proof (intro allI impI)
  fix st :: "(sdkcall list, 'c, 'f) popstate" and a st'
  let ?n = "length (pInt st)" and ?attrs = "entityAttributes config extra (entityID u)"
  let ?head = "[CallEntity (entityID u) (entityType u), CallAttributes ?n ?attrs, CallMetricSet ?n event]"
  assume "processUnit recordSdk config sg gl extra u st = (Ok a, st')"
  then obtain r where loop: "specLoop recordSdk (?n + 2) gl (originalEntityID u) (groupsForEntity (CfgGroups config) gl u) (Specs sg) False []
      (recording st ?head) = (Ok r, st')"
    using assms(1,2)
    by (auto simp: processUnit_def metricSetPopulate_def guesserOf_def[symmetric] pbind_def preturn_def onInt_def split: prod.splits result.splits)
  obtain mid after where "pInt st' = pInt (recording st ?head) @ mid @ [CallSetMetric (?n + 2) (SName sp) w (SType sp)] @ after"
      "list_all (setsOn (?n + 2)) mid"
    by (rule specLoop_sends[OF assms(3-7) loop])
  then show "\<exists>before seg after. pInt st' = pInt st @ before @ seg @ after \<and>
      sends (entityID u) (entityType u) ?attrs event (SName sp) w (SType sp) (length (pInt st @ before)) seg"
    by (intro exI[of _ "[]"] exI[of _ "?head @ mid @ [CallSetMetric (?n + 2) (SName sp) w (SType sp)]"] exI[of _ after]) (auto simp: sends_def)
qed

lemma populateEntity_emits:
  fixes config :: "('c, 'f) popconfig"
  assumes "mget (CfgSpecs config) gl = Some sg" "prepareProcessingUnits config sg gl eid raw = Ok [u]"
    "\<And>extra skip (st :: (sdkcall list, 'c, 'f) popstate) st'. filterGroup config sg gl raw st = (Ok (extra, skip), st') \<Longrightarrow> \<not> skip \<and> extra = []"
    "emits P (processUnit recordSdk config sg gl [] u)"
  shows "emits P (populateEntity recordSdk config gl (eid, raw))"
proof -
  have "emits P (pbind (filterGroup config sg gl raw) (\<lambda>(extra, skip).
            if skip then preturn (False, []) else processEntities recordSdk config sg gl extra [u]))"
  proof (rule emits_right)
    fix a and st st' :: "(sdkcall list, 'c, 'f) popstate" assume "filterGroup config sg gl raw st = (Ok a, st')"
    then have "a = ([], False)" using assms(3)[of st "fst a" "snd a" st'] by (cases a) auto
    then show "emits P (case a of (extra, skip) \<Rightarrow> if skip then preturn (False, []) else processEntities recordSdk config sg gl extra [u])"
      by (auto intro!: emits_left assms(4) extends_intros)
  qed (rule extends_intros)
  then show ?thesis using assms(1,2) by (simp add: populateEntity_def cong: if_cong)
qed

lemma populateEntities_emits:
  assumes "(gl, ent) \<in> set ents" "emits P (populateEntity recordSdk config gl ent)"
  shows "emits P (populateEntities recordSdk config ents)"
  using assms(1)
proof (induction ents)
  case (Cons x ents)
  show ?case
  proof (cases "x = (gl, ent)")
    case True
    then show ?thesis by (auto intro!: emits_left assms(2) extends_intros)
  next
    case False
    then have "emits P (populateEntities recordSdk config ents)" using Cons by auto
    then show ?thesis by (cases x) (auto intro!: emits_right[OF populateEntity_extends] emits_left extends_intros)
  qed
qed simp

lemma IntegrationPopulator_emits:
  assumes "(gl, ents) \<in> set (CfgGroups config)" "ent \<in> set ents" "emits P (populateEntity recordSdk config gl ent)"
  shows "emits P (IntegrationPopulator recordSdk config)"
proof -
  have "(gl, ent) \<in> set (allEntities (CfgGroups config))" using assms(1,2) by (force simp: allEntities_def)
  from populateEntities_emits[OF this assms(3)] show ?thesis
    unfolding IntegrationPopulator_def by (auto intro!: emits_left extends_intros)
qed

section \<open>Containers\<close>

lemma container_table: "mget NewKubeletSpecs ''container'' = Some kubeletContainer"
  by (simp add: NewKubeletSpecs_def)

text \<open>The value of a specification that reads one raw metric, or transforms it.\<close>

definition readsAs :: "(string \<Rightarrow> string) \<Rightarrow> fetcher \<Rightarrow> string \<Rightarrow> goval \<Rightarrow> goval \<Rightarrow> bool" where
  "readsAs cc e k x w \<longleftrightarrow> e = eFromRaw k \<and> w = x \<or> (\<exists>tr. e = eTransform (eFromRaw k) tr \<and> runTransform cc tr x = Ok w)"

lemma readsAs_fetch: "readsAs cc e k x w \<Longrightarrow> FromRaw k gl eid gs = Ok x \<Longrightarrow> runFetcher cc e gl eid gs = Ok w"
  by (auto simp: readsAs_def Transform_def)

lemma container_unit:
  assumes "rawMetric (CfgGroups config) ''container'' eid ''namespace'' = Some (VString ns)" "ns \<noteq> []"
    "rawMetric (CfgGroups config) ''container'' eid ''podName'' = Some (VString p)" "p \<noteq> []"
    "rawMetric (CfgGroups config) ''container'' eid ''containerName'' = Some (VString c)"
  shows "prepareProcessingUnits config (runGroup cc kubeletContainer) ''container'' eid raw =
    Ok [\<lparr>originalEntityID = eid, entityID = c, entityType = ''k8s:'' @ ClusterName config @ '':'' @ ns @ '':'' @ p @ '':container'', rawMetricsOf = raw\<rparr>]"
proof -
  obtain ents en where e: "mget (CfgGroups config) ''container'' = Some ents" "mget ents eid = Some en"
    using assms(1) by (auto simp: rawMetric_def bind_eq_Some_conv)
  then have "mget en ''namespace'' = Some (VString ns)" "mget en ''podName'' = Some (VString p)" "mget en ''containerName'' = Some (VString c)"
    using assms by (simp_all add: rawMetric_def)
  then show ?thesis using e assms(2,4)
    by (simp add: prepareProcessingUnits_def runGroup_def kubeletContainer_def FromRawGroupsEntityIDGenerator_def rawValue_def mget0_def
        FromRawGroupsEntityTypeGenerator_def getKeys_def Let_def)
qed

text \<open>
  C4: A metric of a container reaches the SDK: whatever else the kubelet answered and whatever the interface cache holds, for
  every container of the merged groups that has its names, and every row of the table that reads one of its raw metrics or
  transforms it, the job makes the entity with the name of the container under its cluster, namespace and pod, gives it
  its attributes and a metric set of its kind, and sends the value to that set under the name and with the type of the row. The
  filter, if there is one, allows the namespace.
\<close>

theorem container_metric_delivered:
  fixes j :: "(interfacecache option, 'f) job" and st :: "(sdkcall list, interfacecache option, 'f) popstate"
  assumes "JGrouper j = kubeletGroup cfg" "JSpecs j = runSpecs cc NewKubeletSpecs" "safeKubelet cfg"
    and "kubeletGroup cfg (runSpecs cc NewKubeletSpecs) = Ok (groups, eg)" "\<And>e. eg = Some e \<Longrightarrow> Recoverable e"
    and "\<And>f s. JFilterer j = Some f \<Longrightarrow> fst (f ns s)"
    and "rawMetric groups ''container'' eid ''namespace'' = Some (VString ns)" "ns \<noteq> []"
    and "rawMetric groups ''container'' eid ''podName'' = Some (VString p)" "p \<noteq> []"
    and "rawMetric groups ''container'' eid ''containerName'' = Some (VString c)"
    and "Entry name (Fetch e) t opt \<in> set kubeletContainerSpecs" "readsAs cc e k x w"
    and "rawMetric groups ''container'' eid k = Some x" "w \<noteq> VNil" "\<And>fv. w \<noteq> VFetched fv"
  shows "\<exists>r st' before seg after. JobPopulate recordSdk j cn cid v st = (Ok r, st') \<and> pInt st' = pInt st @ before @ seg @ after \<and>
    sends c (''k8s:'' @ cn @ '':'' @ ns @ '':'' @ p @ '':container'')
      ([(''clusterName'', cn), (''displayName'', c)] @ (if cid \<noteq> [] then [(''cloud.resource_id'', cid)] else []))
      ''K8sContainerSample'' name w t (length (pInt st @ before)) seg"
proof -
  define config :: "(interfacecache option, 'f) popconfig" where "config = \<lparr>ClusterName = cn, CloudClusterID = cid, K8sVersion = v,
      CfgMsTypeGuesser = K8sMetricSetTypeGuesser, CfgGroups = groups, CfgSpecs = runSpecs cc NewKubeletSpecs, Filterer = JFilterer j\<rparr>"
  let ?sg = "runGroup cc kubeletContainer" and ?sp = "runEntry cc (Entry name (Fetch e) t opt)"
  have sg: "mget (CfgSpecs config) ''container'' = Some ?sg" using container_table by (simp add: config_def runSpecs_def map_of_map)
  obtain ents raw where raw: "(''container'', ents) \<in> set groups" "(eid, raw) \<in> set ents" "mget groups ''container'' = Some ents" "mget ents eid = Some raw"
    using assms(7) by (auto simp: rawMetric_def bind_eq_Some_conv dest: map_of_SomeD)
  let ?u = "\<lparr>originalEntityID = eid, entityID = c, entityType = ''k8s:'' @ cn @ '':'' @ ns @ '':'' @ p @ '':container'', rawMetricsOf = raw\<rparr>"
  have units: "prepareProcessingUnits config ?sg ''container'' eid raw = Ok [?u]"
    using container_unit[of config eid ns p c cc raw] assms(7-11) by (simp add: config_def)
  have ns: "KFromLabelGetNamespace raw = ns" using assms(7) raw(3,4) by (simp add: KFromLabelGetNamespace_def rawMetric_def)
  have allowed: "\<not> skip \<and> extra = []" if "filterGroup config ?sg ''container'' raw st = (Ok (extra, skip), st')"
    for extra skip and st st' :: "(sdkcall list, interfacecache option, 'f) popstate"
    using that assms(6)[of _ "pFilter st"] ns
    by (auto simp: filterGroup_def config_def runGroup_def kubeletContainer_def isAllowed_def pop_simps NamespaceGroup_def Let_def
        split: option.splits prod.splits if_splits)
  have "FromRaw k ''container'' eid (groupsForEntity groups ''container'' ?u) = Ok x"
    using assms(14) raw(3,4) by (intro FromRaw_eq) (simp add: groupsForEntity_def rawMetric_def)
  then have w: "runFetcher cc e ''container'' eid (groupsForEntity groups ''container'' ?u) = Ok w" by (rule readsAs_fetch[OF assms(13)])
  have sp0: "?sp \<in> set (Specs ?sg)" unfolding runGroup_def kubeletContainer_def using assms(12) by (auto intro!: imageI)
  have sp: "?sp \<in> set (Specs ?sg)" "ValueFunc ?sp = liftFetch (runFetcher cc e)" "SName ?sp = name" "SType ?sp = t"
    using sp0 by (simp_all add: runEntry_def)
  have g: "guesserOf config ?sg ''container'' = Ok ''K8sContainerSample''"
    by (simp add: guesserOf_def config_def runGroup_def kubeletContainer_def) code_simp
  let ?P = "sends c (''k8s:'' @ cn @ '':'' @ ns @ '':'' @ p @ '':container'') (entityAttributes config [] c) ''K8sContainerSample'' name w t"
  have "emits ?P (processUnit recordSdk config ?sg ''container'' [] ?u)"
    using processUnit_emits[OF sg g sp(1,2), of ?u w "[]"] w assms(15,16) sp(3,4) by (simp add: config_def)
  then have "emits ?P (populateEntity recordSdk config ''container'' (eid, raw))"
    by (intro populateEntity_emits[OF sg units]) (rule allowed)
  then have ip: "emits ?P (IntegrationPopulator recordSdk config)"
    using raw(1,2) by (intro IntegrationPopulator_emits[of _ ents _ "(eid, raw)"]) (simp_all add: config_def)
  have "emits ?P (JobPopulate recordSdk j cn cid v)"
  proof -
    have "emits ?P (pbind (IntegrationPopulator recordSdk config) (\<lambda>(ok, populateErrs).
        preturn (if length populateErrs > 0 then \<lparr>PErrors = populateErrs, Populated = ok\<rparr>
                 else if \<not> ok then \<lparr>PErrors = [ErrNoData], Populated = False\<rparr>
                 else \<lparr>PErrors = [], Populated = True\<rparr>)))"
      by (rule emits_left[OF ip]) (auto intro!: extends_intros)
    moreover have "JobPopulate recordSdk j cn cid v st = pbind (IntegrationPopulator recordSdk config) (\<lambda>(ok, populateErrs).
        preturn (if length populateErrs > 0 then \<lparr>PErrors = populateErrs, Populated = ok\<rparr>
                 else if \<not> ok then \<lparr>PErrors = [ErrNoData], Populated = False\<rparr>
                 else \<lparr>PErrors = [], Populated = True\<rparr>)) st" for st :: "(sdkcall list, interfacecache option, 'f) popstate"
      using assms(1,2,4,5) by (auto simp: JobPopulate_def config_def split: option.split)
    ultimately show ?thesis unfolding emits_def by simp
  qed
  moreover obtain r st' where "JobPopulate recordSdk j cn cid v st = (Ok r, st')"
  proof (cases "JobPopulate recordSdk j cn cid v st")
    case (Pair res st')
    have "\<not> is_panic res" using calmD[OF kubelet_job_calm[OF assms(1,2) recordSdk_calm assms(3)], of cn cid v st] Pair by simp
    moreover have "res \<noteq> Fail e" for e
      using kubelet.job_collects[OF assms(1), of recordSdk cn cid v] Pair unfolding collects_def by (metis fst_conv)
    ultimately show ?thesis using that Pair by (cases res) auto
  qed
  ultimately show ?thesis unfolding emits_def by (fastforce simp: entityAttributes_def config_def)
qed

definition deliveryScrape :: kubeletconfig where
  "deliveryScrape = exampleScrape [Ok (fillGaps [exampleTypedPod], None), Ok ([(''container'', [])], None)]"

definition deliveryJob :: "(interfacecache option, unit) job" where
  "deliveryJob = NewScrapeJob ''kubelet'' (kubeletGroup deliveryScrape) (runSpecs id NewKubeletSpecs) []"

lemma deliveryScrape_safe: "safeKubelet deliveryScrape"
  by (auto simp: safeKubelet_def deliveryScrape_def exampleScrape_def fillGaps_typed) (simp add: typedGroups_def groupTyped_Nil)

lemma delivery_groups:
  obtains groups where "kubeletGroup deliveryScrape (specs :: interfacecache option specgroups) = Ok (groups, None)"
    "rawMetric groups ''container'' ''ns_p_c'' ''namespace'' = Some (VString ''ns'')"
    "rawMetric groups ''container'' ''ns_p_c'' ''podName'' = Some (VString ''p'')"
    "rawMetric groups ''container'' ''ns_p_c'' ''containerName'' = Some (VString ''c'')"
    "rawMetric groups ''container'' ''ns_p_c'' ''memoryRequestedBytes'' = Some (VInt64 7)"
proof -
  have eq: "kubeletGroup deliveryScrape specs = kubeletGroup deliveryScrape ([] :: interfacecache option specgroups)"
    by (simp add: kubeletGroup_def)
  have "case kubeletGroup deliveryScrape ([] :: interfacecache option specgroups) of
      Ok (g, None) \<Rightarrow> map (rawMetric g ''container'' ''ns_p_c'') [''namespace'', ''podName'', ''containerName'', ''memoryRequestedBytes''] =
        map Some [VString ''ns'', VString ''p'', VString ''c'', VInt64 7] | _ \<Rightarrow> False"
    by code_simp
  then show ?thesis using that unfolding eq[symmetric] by (auto split: result.splits option.splits)
qed

theorem container_metric_delivered_witness:
  "\<exists>r st' before seg after. JobPopulate recordSdk deliveryJob ''cl'' ''cloud'' ''v1'' \<lparr>pInt = [], pCache = None, pFilter = ()\<rparr> = (Ok r, st') \<and>
    pInt st' = [] @ before @ seg @ after \<and>
    sends ''c'' (''k8s:'' @ ''cl'' @ '':'' @ ''ns'' @ '':'' @ ''p'' @ '':container'')
      ([(''clusterName'', ''cl''), (''displayName'', ''c''), (''cloud.resource_id'', ''cloud'')])
      ''K8sContainerSample'' ''memoryRequestedBytes'' (VInt64 7) GAUGE (length ([] @ before)) seg"
proof -
  have j: "JGrouper deliveryJob = kubeletGroup deliveryScrape" "JSpecs deliveryJob = runSpecs id NewKubeletSpecs" "JFilterer deliveryJob = None"
    by (simp_all add: deliveryJob_def NewScrapeJob_def)
  have row: "Entry ''memoryRequestedBytes'' (Fetch (eFromRaw ''memoryRequestedBytes'')) GAUGE True \<in> set kubeletContainerSpecs"
    by (simp add: kubeletContainerSpecs_def attrMemoryRequests_def)
  obtain groups where g: "kubeletGroup deliveryScrape (runSpecs id NewKubeletSpecs) = Ok (groups, None)"
    "rawMetric groups ''container'' ''ns_p_c'' ''namespace'' = Some (VString ''ns'')"
    "rawMetric groups ''container'' ''ns_p_c'' ''podName'' = Some (VString ''p'')"
    "rawMetric groups ''container'' ''ns_p_c'' ''containerName'' = Some (VString ''c'')"
    "rawMetric groups ''container'' ''ns_p_c'' ''memoryRequestedBytes'' = Some (VInt64 7)"
    by (rule delivery_groups)
  show ?thesis
    using container_metric_delivered[where x = "VInt64 7" and w = "VInt64 7" and cn = "''cl''" and cid = "''cloud''" and v = "''v1''"
        and st = "\<lparr>pInt = [], pCache = None, pFilter = ()\<rparr>", OF j(1,2) deliveryScrape_safe g(1) _ _ g(2) _ g(3) _ g(4) row] g(5) j(3)
    by (simp add: readsAs_def)
qed

end
