(* ===== verification/Options.thy ===== *)
theory Options
  imports Lifecycle
begin

text \<open>
  The constructors with functional options: each applies its options in order to a value with defaults and fails with the first
  one that fails, saying which. The loggers are only carried along. With the options that \<open>main.go\<close> passes, the
  constructors end with the settings that the other theories start from.
\<close>

section \<open>The loop over the options\<close>

text \<open>An option changes the value behind its pointer or fails; the value is dropped when one fails.\<close>

type_synonym 's opt = "'s \<Rightarrow> err + 's"

fun optionLoop :: "string \<Rightarrow> nat \<Rightarrow> 's opt list \<Rightarrow> 's \<Rightarrow> err + 's" where
  "optionLoop fmt i [] s = Inr s"
| "optionLoop fmt i (opt # opts) s =
     (case opt s of
        Inl e \<Rightarrow> Inl (Errorf fmt [natStr i] [e])
      | Inr s' \<Rightarrow> optionLoop fmt (i + 1) opts s')"

abbreviation applyingOption :: string where "applyingOption \<equiv> ''applying option #%d: %w''"
abbreviation applyingConfigOption :: string where "applyingConfigOption \<equiv> ''applying config option #%d: %w''"

text \<open>What the options before one make of the value, in the notation of the library.\<close>

definition settled :: "'s opt list \<Rightarrow> 's \<Rightarrow> 's \<Rightarrow> bool" where
  "settled opts s s' \<longleftrightarrow> optionLoop [] 0 opts s = Inr s'"

lemma optionLoop_Inr: "optionLoop fmt i opts s = Inr s' \<longleftrightarrow> settled opts s s'"
proof -
  have "optionLoop fmt i opts s = Inr s' \<longleftrightarrow> optionLoop fmt' j opts s = Inr s'" for fmt' j
    by (induction opts arbitrary: s i j) (auto split: sum.split)
  then show ?thesis by (simp add: settled_def)
qed

lemma settled_simps [simp]:
  "settled [] s s' \<longleftrightarrow> s' = s"
  "settled (opt # opts) s s' \<longleftrightarrow> (\<exists>t. opt s = Inr t \<and> settled opts t s')"
  using optionLoop_Inr[of "[]" 1 opts] by (auto simp: settled_def split: sum.splits)

lemma optionLoop_Inl:
  "optionLoop fmt i opts s = Inl e \<longleftrightarrow>
     (\<exists>before opt after t e'. opts = before @ opt # after \<and> settled before s t \<and> opt t = Inl e' \<and> e = Errorf fmt [natStr (i + length before)] [e'])"
proof (induction opts arbitrary: i s)
  case (Cons o1 opts)
  show ?case
  proof (cases "o1 s")
    case (Inl e')
    then show ?thesis by (auto simp: Cons_eq_append_conv intro: exI[of _ "[]"])
  next
    case (Inr t)
    have n: "optionLoop fmt i (o1 # opts) s = Inl e \<longleftrightarrow> optionLoop fmt (i + 1) opts t = Inl e" using Inr by simp
    show ?thesis
    proof
      assume "optionLoop fmt i (o1 # opts) s = Inl e"
      then obtain before opt after t' e' where h: "opts = before @ opt # after" "settled before t t'" "opt t' = Inl e'"
        "e = Errorf fmt [natStr (i + 1 + length before)] [e']" unfolding n Cons by blast
      then show "\<exists>before opt after t e'. o1 # opts = before @ opt # after \<and> settled before s t \<and> opt t = Inl e' \<and>
          e = Errorf fmt [natStr (i + length before)] [e']"
        using Inr by (intro exI[of _ "o1 # before"] exI[of _ opt] exI[of _ after] exI[of _ t'] exI[of _ e']) simp
    next
      assume "\<exists>before opt after t e'. o1 # opts = before @ opt # after \<and> settled before s t \<and> opt t = Inl e' \<and>
          e = Errorf fmt [natStr (i + length before)] [e']"
      then obtain before opt after t' e' where h: "o1 # opts = before @ opt # after" "settled before s t'" "opt t' = Inl e'"
        "e = Errorf fmt [natStr (i + length before)] [e']" by blast
      then obtain before' where "before = o1 # before'" using Inr by (cases before) auto
      then show "optionLoop fmt i (o1 # opts) s = Inl e" unfolding n Cons
        using h Inr by (intro exI[of _ before'] exI[of _ opt] exI[of _ after] exI[of _ t'] exI[of _ e']) simp
    qed
  qed
qed simp

section \<open>Loggers and plain constructors\<close>

text \<open>\<open>logutil.Discard\<close>, a nil pointer, or a logger of the caller.\<close>

datatype 'l logger = Discard | NilLogger | Logger 'l

text \<open>A configuration with a logger: the authenticator, the connector and the pod discoverer of the control plane.\<close>

record ('c, 'l) configured =
  coConfig :: 'c
  coLogger :: "'l logger"

definition AuthenticatorWithLogger :: "'l logger \<Rightarrow> ('c, 'l) configured opt" where
  "AuthenticatorWithLogger l kca = Inr (kca\<lparr>coLogger := l\<rparr>)"

definition NewAuthenticator :: "'c \<Rightarrow> ('c, 'l) configured opt list \<Rightarrow> err + ('c, 'l) configured" where
  "NewAuthenticator config opts = optionLoop applyingOption 0 opts \<lparr>coConfig = config, coLogger = Discard\<rparr>"

definition ConnectorWithLogger :: "'l logger \<Rightarrow> ('c, 'l) configured opt" where
  "ConnectorWithLogger l dc = Inr (dc\<lparr>coLogger := l\<rparr>)"

definition NewConnector :: "'c \<Rightarrow> ('c, 'l) configured opt list \<Rightarrow> err + ('c, 'l) configured" where
  "NewConnector config opts = optionLoop applyingOption 0 opts \<lparr>coConfig = config, coLogger = Discard\<rparr>"

definition DiscovererWithLogger :: "'l logger \<Rightarrow> ('c, 'l) configured opt" where
  "DiscovererWithLogger l c = Inr (c\<lparr>coLogger := l\<rparr>)"

definition NewDiscoverer :: "'c \<Rightarrow> ('c, 'l) configured opt list \<Rightarrow> err + ('c, 'l) configured" where
  "NewDiscoverer config opts = optionLoop applyingOption 0 opts \<lparr>coConfig = config, coLogger = Discard\<rparr>"

section \<open>Groupers\<close>

text \<open>The interfaces of their configurations that may be nil are options.\<close>

record ('g, 's) ksmgrouperconfig =
  kgFamilies :: "'g option"
  kgServices :: "'s option"

definition KsmGrouperWithLogger :: "'l logger \<Rightarrow> ('c, 'l) configured opt" where
  "KsmGrouperWithLogger l kc = Inr (kc\<lparr>coLogger := l\<rparr>)"

definition NewKsmGrouper :: "('g, 's) ksmgrouperconfig \<Rightarrow> (('g, 's) ksmgrouperconfig, 'l) configured opt list \<Rightarrow> err + (('g, 's) ksmgrouperconfig, 'l) configured" where
  "NewKsmGrouper config opts =
     (if kgFamilies config = None then Inl (errorsNew ''metric families getter must be set'')
      else if kgServices config = None then Inl (errorsNew ''ServicesLister must be set'')
      else optionLoop applyingOption 0 opts \<lparr>coConfig = config, coLogger = Discard\<rparr>)"

record ('n, 'r) kubeletgrouperconfig =
  lgNodeGetter :: "'n option"
  lgRest :: 'r

definition KubeletGrouperWithLogger :: "'l logger \<Rightarrow> ('c, 'l) configured opt" where
  "KubeletGrouperWithLogger l kc = Inr (kc\<lparr>coLogger := l\<rparr>)"

definition NewKubeletGrouper :: "('n, 'r) kubeletgrouperconfig \<Rightarrow> (('n, 'r) kubeletgrouperconfig, 'l) configured opt list \<Rightarrow> err + (('n, 'r) kubeletgrouperconfig, 'l) configured" where
  "NewKubeletGrouper config opts =
     (if lgNodeGetter config = None then Inl (errorsNew ''NodeGetter must be set'')
      else optionLoop applyingOption 0 opts \<lparr>coConfig = config, coLogger = Discard\<rparr>)"

text \<open>The grouper of the control plane takes its settings as they are.\<close>

definition NewControlPlaneGrouper ::
  "(query list \<Rightarrow> metricfamily list result) \<Rightarrow> query list \<Rightarrow> 'l logger \<Rightarrow> string \<Rightarrow> (controlplaneconfig, 'l) configured" where
  "NewControlPlaneGrouper c queries l eid =
     \<lparr>coConfig = \<lparr>CPQueries = queries, CPClient = c, CPEntityID = eid\<rparr>, coLogger = l\<rparr>"

section \<open>Clients\<close>

record 'l clientsettings =
  clLogger :: "'l logger"
  clRetries :: int
  clTimeout :: int

abbreviation defaultClient :: "'l clientsettings" where
  "defaultClient \<equiv> \<lparr>clLogger = Discard, clRetries = 0, clTimeout = 0\<rparr>"

text \<open>\<open>pester.Client\<close>: the fields that are set. Its backoff is linear.\<close>

record pester =
  MaxRetries :: int
  Timeout :: int

definition KsmClientWithLogger :: "'l logger \<Rightarrow> 'l clientsettings opt" where
  "KsmClientWithLogger l kc = Inr (kc\<lparr>clLogger := l\<rparr>)"

definition KsmClientWithTimeout :: "int \<Rightarrow> 'l clientsettings opt" where
  "KsmClientWithTimeout t kc = Inr (kc\<lparr>clTimeout := t\<rparr>)"

definition KsmClientWithMaxRetries :: "int \<Rightarrow> 'l clientsettings opt" where
  "KsmClientWithMaxRetries r kc = Inr (kc\<lparr>clRetries := r\<rparr>)"

definition NewKsmClient :: "'l clientsettings opt list \<Rightarrow> err + ('l clientsettings \<times> pester)" where
  "NewKsmClient opts =
     (case optionLoop applyingOption 0 opts defaultClient of
        Inl e \<Rightarrow> Inl e
      | Inr k \<Rightarrow> Inr (k, \<lparr>MaxRetries = clRetries k, Timeout = clTimeout k\<rparr>))"

definition KubeletClientWithLogger :: "'l logger \<Rightarrow> 'l clientsettings opt" where
  "KubeletClientWithLogger l kc = Inr (kc\<lparr>clLogger := l\<rparr>)"

definition KubeletClientWithMaxRetries :: "int \<Rightarrow> 'l clientsettings opt" where
  "KubeletClientWithMaxRetries r kc = Inr (kc\<lparr>clRetries := r\<rparr>)"

text \<open>The options come first, then the connection, which \<open>NewClient\<close> models.\<close>

definition NewKubeletClient :: "(connparams, 'w) io option \<Rightarrow> 'l clientsettings opt list \<Rightarrow> (kubeletclient, 'w) io" where
  "NewKubeletClient connector opts =
     (case optionLoop applyingOption 0 opts defaultClient of
        Inl e \<Rightarrow> ioFail e
      | Inr c \<Rightarrow> NewClient connector (clRetries c))"

definition CPClientWithLogger :: "'l logger \<Rightarrow> 'l clientsettings opt" where
  "CPClientWithLogger l c = (if l = NilLogger then Inl (errorsNew ''logger canont be nil'') else Inr (c\<lparr>clLogger := l\<rparr>))"

definition CPClientWithMaxRetries :: "int \<Rightarrow> 'l clientsettings opt" where
  "CPClientWithMaxRetries r c = Inr (c\<lparr>clRetries := r\<rparr>)"

definition NewCPClient :: "('w \<Rightarrow> cpconn result \<times> 'w) \<Rightarrow> 'l clientsettings opt list \<Rightarrow> 'w \<Rightarrow> (int \<times> cpconn) result \<times> 'w" where
  "NewCPClient connect opts w =
     (case optionLoop applyingOption 0 opts defaultClient of
        Inl e \<Rightarrow> (Fail e, w)
      | Inr c \<Rightarrow>
          (case connect w of
             (r, w') \<Rightarrow> (rbindw (\<lambda>e. Errorf ''connecting to component using the connector: %w'' [] [e]) r (\<lambda>conn. Ok (clRetries c, conn)), w')))"

section \<open>Scrapers\<close>

text \<open>The fields that the options of the three scrapers set. The REST configuration of the control plane starts empty.\<close>

record ('l, 'f) scrapersettings =
  ssLogger :: "'l logger"
  ssCloudClusterID :: string
  ssFilterer :: "'f option"

record ('l, 'f, 'i) kubeletsettings = "('l, 'f) scrapersettings" +
  ssInterfaceCache :: "'i option"

record ('l, 'f) cpsettings = "('l, 'f) scrapersettings" +
  ssRestConfig :: "restconfig option"

definition KsmWithLogger :: "'l logger \<Rightarrow> ('l, 'f) scrapersettings opt" where
  "KsmWithLogger l s = Inr (s\<lparr>ssLogger := l\<rparr>)"

definition KsmWithFilterer :: "'f \<Rightarrow> ('l, 'f) scrapersettings opt" where
  "KsmWithFilterer f s = Inr (s\<lparr>ssFilterer := Some f\<rparr>)"

definition KsmWithCloudClusterID :: "string \<Rightarrow> ('l, 'f) scrapersettings opt" where
  "KsmWithCloudClusterID i s = Inr (s\<lparr>ssCloudClusterID := i\<rparr>)"

definition KubeletWithLogger :: "'l logger \<Rightarrow> ('l, 'f, 'i) kubeletsettings opt" where
  "KubeletWithLogger l s = Inr (s\<lparr>ssLogger := l\<rparr>)"

definition KubeletWithFilterer :: "'f \<Rightarrow> ('l, 'f, 'i) kubeletsettings opt" where
  "KubeletWithFilterer f s = Inr (s\<lparr>ssFilterer := Some f\<rparr>)"

definition KubeletWithInterfaceCache :: "'i \<Rightarrow> ('l, 'f, 'i) kubeletsettings opt" where
  "KubeletWithInterfaceCache c s = Inr (s\<lparr>ssInterfaceCache := Some c\<rparr>)"

definition KubeletWithCloudClusterID :: "string \<Rightarrow> ('l, 'f, 'i) kubeletsettings opt" where
  "KubeletWithCloudClusterID i s = Inr (s\<lparr>ssCloudClusterID := i\<rparr>)"

definition CPWithLogger :: "'l logger \<Rightarrow> ('l, 'f) cpsettings opt" where
  "CPWithLogger l s = Inr (s\<lparr>ssLogger := l\<rparr>)"

definition CPWithRestConfig :: "restconfig \<Rightarrow> ('l, 'f) cpsettings opt" where
  "CPWithRestConfig rc s = Inr (s\<lparr>ssRestConfig := Some rc\<rparr>)"

definition CPWithCloudClusterID :: "string \<Rightarrow> ('l, 'f) cpsettings opt" where
  "CPWithCloudClusterID i s = Inr (s\<lparr>ssCloudClusterID := i\<rparr>)"

text \<open>The values that the options start from.\<close>

definition newKsmScraper :: "('l, 'f) scrapersettings" where
  "newKsmScraper = \<lparr>ssLogger = Discard, ssCloudClusterID = [], ssFilterer = None\<rparr>"

definition newKubeletScraper :: "('l, 'f, 'i) kubeletsettings" where
  "newKubeletScraper = \<lparr>ssLogger = Discard, ssCloudClusterID = [], ssFilterer = None, ssInterfaceCache = None\<rparr>"

definition newCPScraper :: "('l, 'f) cpsettings" where
  "newCPScraper = \<lparr>ssLogger = Discard, ssCloudClusterID = [], ssFilterer = None, ssRestConfig = None\<rparr>"

text \<open>The options come before everything else of a constructor, so that nothing is started when one fails.\<close>

definition KsmScraperNew ::
  "('l, 'f) scrapersettings opt list \<Rightarrow> (err + string) \<Rightarrow> bool \<Rightarrow> (string \<Rightarrow> string \<Rightarrow> 'e) \<Rightarrow> 'n \<Rightarrow> config \<Rightarrow> informers
     \<Rightarrow> (('l, 'f) scrapersettings \<times> string \<times> ('e \<times> int) \<times> 'n \<times> chan list) result \<times> informers" where
  "KsmScraperNew opts version hasClient slices services cfg w =
     (case optionLoop applyingConfigOption 0 opts newKsmScraper of
        Inl e \<Rightarrow> (Fail e, w)
      | Inr s \<Rightarrow> (case KsmNewScraper version hasClient slices services cfg w of (r, w') \<Rightarrow> (rbind r (\<lambda>k. Ok (s, k)), w')))"

definition KubeletScraperNew ::
  "('l, 'f, 'i) kubeletsettings opt list \<Rightarrow> (err + string) \<Rightarrow> (string \<Rightarrow> (err + string) option) \<Rightarrow> 'n \<Rightarrow> config \<Rightarrow> informers
     \<Rightarrow> (err + (('l, 'f, 'i) kubeletsettings \<times> kubeletscraper \<times> 'n \<times> chan list)) \<times> informers" where
  "KubeletScraperNew opts version openFile nodes cfg w =
     (case optionLoop applyingConfigOption 0 opts newKubeletScraper of
        Inl e \<Rightarrow> (Inl e, w)
      | Inr s \<Rightarrow> (case KubeletNewScraper version openFile nodes cfg (ssCloudClusterID s) w of (r, w') \<Rightarrow> (map_sum id (Pair s) r, w')))"

definition CPScraperNew ::
  "('l, 'f) cpsettings opt list \<Rightarrow> (err + string) \<Rightarrow> 'w cpworld \<Rightarrow> config \<Rightarrow> informers
     \<Rightarrow> (err + (('l, 'f) cpsettings \<times> string \<times> cpscraper \<times> chan list)) \<times> informers" where
  "CPScraperNew opts version cw cfg w =
     (case optionLoop applyingConfigOption 0 opts newCPScraper of
        Inl e \<Rightarrow> (Inl e, w)
      | Inr s \<Rightarrow> (case ControlPlaneNewScraper version cw cfg w of (r, w') \<Rightarrow> (map_sum id (Pair s) r, w')))"

section \<open>Failing options\<close>

text \<open>The first option that fails, after the ones before it were applied.\<close>

definition failsAt :: "string \<Rightarrow> 's opt list \<Rightarrow> 's \<Rightarrow> err \<Rightarrow> bool" where
  "failsAt fmt opts s e \<longleftrightarrow>
     (\<exists>before opt after t e'. opts = before @ opt # after \<and> settled before s t \<and> opt t = Inl e' \<and> e = Errorf fmt [natStr (length before)] [e'])"

lemma optionLoop_failsAt: "optionLoop fmt 0 opts s = Inl e \<longleftrightarrow> failsAt fmt opts s e"
  by (simp add: optionLoop_Inl failsAt_def)

lemma optionLoop_cases:
  obtains (failed) e where "optionLoop fmt 0 opts s = Inl e" "failsAt fmt opts s e" "\<nexists>s'. settled opts s s'"
  | (settled) s' where "optionLoop fmt 0 opts s = Inr s'" "settled opts s s'" "\<nexists>e. failsAt fmt opts s e"
  using optionLoop_failsAt[of fmt opts s] optionLoop_Inr[of fmt 0 opts s] by (cases "optionLoop fmt 0 opts s") auto

text \<open>
  The options of a scraper are applied before anything else: when one fails, the constructors of the three scrapers fail with the
  error of the first that does, with its number, and no informer was started; when none fails, they go on as they would
  without options, with the settings that the options left.
\<close>

lemma scraper_options:
  "((\<exists>e. failsAt ''applying config option #%d: %w'' ko newKsmScraper e \<and> KsmScraperNew ko version hasClient slices services cfg w = (Fail e, w)) \<or>
     (\<exists>s r w'. settled ko newKsmScraper s \<and> KsmNewScraper version hasClient slices services cfg w = (r, w') \<and>
        KsmScraperNew ko version hasClient slices services cfg w = (rbind r (\<lambda>k. Ok (s, k)), w'))) \<and>
   ((\<exists>e. failsAt ''applying config option #%d: %w'' lo newKubeletScraper e \<and> KubeletScraperNew lo version openFile nodes cfg w = (Inl e, w)) \<or>
     (\<exists>s r w'. settled lo newKubeletScraper s \<and> KubeletNewScraper version openFile nodes cfg (ssCloudClusterID s) w = (r, w') \<and>
        KubeletScraperNew lo version openFile nodes cfg w = (map_sum id (Pair s) r, w'))) \<and>
   ((\<exists>e. failsAt ''applying config option #%d: %w'' co newCPScraper e \<and> CPScraperNew co version cw cfg w = (Inl e, w)) \<or>
     (\<exists>s r w'. settled co newCPScraper s \<and> ControlPlaneNewScraper version cw cfg w = (r, w') \<and>
        CPScraperNew co version cw cfg w = (map_sum id (Pair s) r, w')))"
proof (intro conjI)
  let ?f = "''applying config option #%d: %w''"
  show "(\<exists>e. failsAt ?f ko newKsmScraper e \<and> KsmScraperNew ko version hasClient slices services cfg w = (Fail e, w)) \<or>
     (\<exists>s r w'. settled ko newKsmScraper s \<and> KsmNewScraper version hasClient slices services cfg w = (r, w') \<and>
        KsmScraperNew ko version hasClient slices services cfg w = (rbind r (\<lambda>k. Ok (s, k)), w'))"
    by (cases rule: optionLoop_cases[of ?f ko newKsmScraper]) (auto simp: KsmScraperNew_def split: prod.splits)
  show "(\<exists>e. failsAt ?f lo newKubeletScraper e \<and> KubeletScraperNew lo version openFile nodes cfg w = (Inl e, w)) \<or>
     (\<exists>s r w'. settled lo newKubeletScraper s \<and> KubeletNewScraper version openFile nodes cfg (ssCloudClusterID s) w = (r, w') \<and>
        KubeletScraperNew lo version openFile nodes cfg w = (map_sum id (Pair s) r, w'))"
    by (cases rule: optionLoop_cases[of ?f lo newKubeletScraper]) (auto simp: KubeletScraperNew_def split: prod.splits)
  show "(\<exists>e. failsAt ?f co newCPScraper e \<and> CPScraperNew co version cw cfg w = (Inl e, w)) \<or>
     (\<exists>s r w'. settled co newCPScraper s \<and> ControlPlaneNewScraper version cw cfg w = (r, w') \<and>
        CPScraperNew co version cw cfg w = (map_sum id (Pair s) r, w'))"
    by (cases rule: optionLoop_cases[of ?f co newCPScraper]) (auto simp: CPScraperNew_def split: prod.splits)
qed

section \<open>The options of main\<close>

lemmas option_defs = AuthenticatorWithLogger_def ConnectorWithLogger_def DiscovererWithLogger_def KsmGrouperWithLogger_def
  KubeletGrouperWithLogger_def KsmClientWithLogger_def KsmClientWithTimeout_def KsmClientWithMaxRetries_def KubeletClientWithLogger_def
  KubeletClientWithMaxRetries_def CPClientWithLogger_def CPClientWithMaxRetries_def KsmWithLogger_def KsmWithFilterer_def
  KsmWithCloudClusterID_def KubeletWithLogger_def KubeletWithFilterer_def KubeletWithInterfaceCache_def KubeletWithCloudClusterID_def
  CPWithLogger_def CPWithRestConfig_def CPWithCloudClusterID_def newKsmScraper_def newKubeletScraper_def newCPScraper_def

text \<open>The settings that \<open>setupKSM\<close>, \<open>setupKubelet\<close> and \<open>setupControlPlane\<close> ask for; a filter is added only with a selector.\<close>

lemma main_settings:
  "settled ([KsmWithLogger l, KsmWithCloudClusterID cid] @ (case f of None \<Rightarrow> [] | Some f \<Rightarrow> [KsmWithFilterer f]))
     newKsmScraper \<lparr>ssLogger = l, ssCloudClusterID = cid, ssFilterer = f\<rparr>"
  "settled ([KubeletWithLogger l, KubeletWithInterfaceCache i, KubeletWithCloudClusterID cid] @ (case f of None \<Rightarrow> [] | Some f \<Rightarrow> [KubeletWithFilterer f]))
     newKubeletScraper
     \<lparr>ssLogger = l, ssCloudClusterID = cid, ssFilterer = f, ssInterfaceCache = Some i\<rparr>"
  "settled [CPWithLogger l, CPWithRestConfig rc, CPWithCloudClusterID cid]
     newCPScraper
     \<lparr>ssLogger = l, ssCloudClusterID = cid, ssFilterer = None, ssRestConfig = Some rc\<rparr>"
  by (auto simp: option_defs split: option.split)

text \<open>The clients of the process, and the constructors that are only given a logger.\<close>

lemma main_clients:
  "NewKsmClient [KsmClientWithLogger l, KsmClientWithTimeout t, KsmClientWithMaxRetries r] =
     Inr (\<lparr>clLogger = l, clRetries = r, clTimeout = t\<rparr>, \<lparr>MaxRetries = r, Timeout = t\<rparr>)"
  "NewKubeletClient connector [KubeletClientWithLogger l, KubeletClientWithMaxRetries r] = NewClient connector r"
  "l \<noteq> NilLogger \<Longrightarrow> NewCPClient connect [CPClientWithLogger l, CPClientWithMaxRetries r] w =
     (case connect w of (res, w') \<Rightarrow> (rbindw (\<lambda>e. Errorf ''connecting to component using the connector: %w'' [] [e]) res (\<lambda>conn. Ok (r, conn)), w'))"
  by (simp_all add: NewKsmClient_def NewKubeletClient_def NewCPClient_def option_defs)

lemma main_constructors:
  "NewAuthenticator c [AuthenticatorWithLogger l] = Inr \<lparr>coConfig = c, coLogger = l\<rparr>"
  "NewConnector d [ConnectorWithLogger l] = Inr \<lparr>coConfig = d, coLogger = l\<rparr>"
  "NewDiscoverer e [DiscovererWithLogger l] = Inr \<lparr>coConfig = e, coLogger = l\<rparr>"
  "kgFamilies kg \<noteq> None \<Longrightarrow> kgServices kg \<noteq> None \<Longrightarrow> NewKsmGrouper kg [KsmGrouperWithLogger l] = Inr \<lparr>coConfig = kg, coLogger = l\<rparr>"
  "lgNodeGetter lg \<noteq> None \<Longrightarrow> NewKubeletGrouper lg [KubeletGrouperWithLogger l] = Inr \<lparr>coConfig = lg, coLogger = l\<rparr>"
  by (simp_all add: NewAuthenticator_def NewConnector_def NewDiscoverer_def NewKsmGrouper_def NewKubeletGrouper_def option_defs)

text \<open>Of all the loggers that are handed on, only a nil one of a control-plane client is refused.\<close>

lemma nil_logger: "NewCPClient connect [CPClientWithLogger NilLogger] w =
  (Fail (Errorf ''applying option #%d: %w'' [''0''] [errorsNew ''logger canont be nil'']), w)"
proof -
  have "natStr 0 = ''0''" by code_simp
  then show ?thesis by (simp add: NewCPClient_def CPClientWithLogger_def)
qed

end
