(* ===== verification/Asserter.thy ===== *)
theory Asserter
  imports Definition
begin

text \<open>
  The assertions of the integration's tests (\<open>internal/testutil/asserter\<close>): an \<open>Asserter\<close> checks that the entities of
  an integration have the metrics of a table of specifications, with exclusions. Its meaning decides what the tests on
  recorded clusters show, so it is stated here as a predicate without loops.
\<close>

section \<open>Entities and the calls to the test\<close>

text \<open>
  The fields of \<open>integration.Entity\<close> that the code reads. The metadata is a pointer, nil for the local entity; a metric set
  is the map that \<open>SetMetric\<close> fills.
\<close>

record entmeta =
  MetaName :: string
  MetaNamespace :: string

record testentity =
  Metadata :: "entmeta option"
  MetricSets :: "(string, goval) gomap list"

text \<open>What is called on \<open>testing.T\<close>: \<open>Logf\<close>, \<open>Errorf\<close> and \<open>Fatalf\<close>, which ends the test.\<close>

datatype testcall =
    Logf string "string list"
  | TErrorf string "string list"
  | Fatalf string "string list"

fun isFailure :: "testcall \<Rightarrow> bool" where
  "isFailure (Logf _ _) = False"
| "isFailure _ = True"

text \<open>The calls of a piece of the test so far, and how it stands: running, ended by \<open>Fatalf\<close>, or panicked.\<close>

datatype teststate = Running | Stopped | Crashed

type_synonym testrun = "testcall list \<times> teststate"

text \<open>The loop of a test: it goes on while the test runs.\<close>

fun testLoop :: "('a \<Rightarrow> testrun) \<Rightarrow> 'a list \<Rightarrow> testrun" where
  "testLoop body [] = ([], Running)"
| "testLoop body (x # xs) =
     (case body x of
        (cs, Running) \<Rightarrow> (let (cs', s) = testLoop body xs in (cs @ cs', s))
      | r \<Rightarrow> r)"

definition passes :: "testrun \<Rightarrow> bool" where
  "passes r \<longleftrightarrow> snd r = Running \<and> (\<forall>c \<in> set (fst r). \<not> isFailure c)"

lemma passes_simps [simp]:
  "passes ([], Running)" "\<not> passes (cs, Stopped)" "\<not> passes (cs, Crashed)"
  "passes (c # cs, Running) \<longleftrightarrow> \<not> isFailure c \<and> passes (cs, Running)"
  by (auto simp: passes_def)

lemma passes_testLoop: "passes (testLoop body xs) \<longleftrightarrow> (\<forall>x \<in> set xs. passes (body x))"
proof (induction xs)
  case (Cons x xs)
  obtain cs s where b: "body x = (cs, s)" by force
  then show ?case using Cons by (cases s) (auto simp: passes_def split: prod.splits)
qed simp

section \<open>Metrics of an entity (\<open>assert.go\<close>)\<close>

definition entityNamespaceSeparator :: char where
  "entityNamespaceSeparator = CHR '':''"

text \<open>The first metric of that name, nil when there is none.\<close>

fun entityMetricIn :: "(string, goval) gomap list \<Rightarrow> string \<Rightarrow> goval" where
  "entityMetricIn [] m = VNil"
| "entityMetricIn (ms # mss) m = (case mget ms m of Some entMetric \<Rightarrow> entMetric | None \<Rightarrow> entityMetricIn mss m)"

definition entityMetric :: "testentity \<Rightarrow> string \<Rightarrow> goval" where
  "entityMetric e m = entityMetricIn (MetricSets e) m"

definition HasSuffix :: "string \<Rightarrow> string \<Rightarrow> bool" where
  "HasSuffix s sfx \<longleftrightarrow> length sfx \<le> length s \<and> drop (length s - length sfx) s = sfx"

fun isString :: "goval \<Rightarrow> bool" where
  "isString (VString _) = True"
| "isString _ = False"

definition EntityMetricTypeIs :: "testentity \<Rightarrow> string \<Rightarrow> sourcetype \<Rightarrow> bool" where
  "EntityMetricTypeIs e metricName metricType =
     (if HasSuffix metricName ''*'' then True
      else let em = entityMetric e metricName in
        if em = VNil then False
        else (isString em \<and> metricType = ATTRIBUTE) \<or> (\<not> isString em \<and> metricType \<noteq> ATTRIBUTE))"

text \<open>
  \<open>EntityMetricIs\<close> for the values that are compared: a string, which is compared without case, nil, or a number of the
  metric set, where a NaN differs from itself. \<open>EqualFold\<close> folds the letters of ASCII.
\<close>

fun sameValue :: "goval \<Rightarrow> goval \<Rightarrow> bool" where
  "sameValue (VFloat64 a) (VFloat64 b) = feq a b"
| "sameValue a b = (a = b)"

definition EntityMetricIs :: "testentity \<Rightarrow> string \<Rightarrow> goval \<Rightarrow> bool" where
  "EntityMetricIs e metricName metricValue =
     (if HasSuffix metricName ''*'' then True
      else (case metricValue of
        VString mv \<Rightarrow> (case entityMetric e metricName of VString emvString \<Rightarrow> EqualFold emvString mv | _ \<Rightarrow> False)
      | mv \<Rightarrow> sameValue (entityMetric e metricName) mv))"

text \<open>An entity belongs to a group when one part of its namespace, which is its type, is the name of the group.\<close>

definition specGroupNameMatch :: "testentity \<Rightarrow> string \<Rightarrow> bool option" where
  "specGroupNameMatch entity specGroupName =
     map_option (\<lambda>meta. \<exists>chunk \<in> set (splitOn entityNamespaceSeparator (MetaNamespace meta)). chunk = specGroupName) (Metadata entity)"

text \<open>\<open>None\<close> is the panic of an entity without metadata.\<close>

fun entitiesFor :: "testentity list \<Rightarrow> string \<Rightarrow> testentity list option" where
  "entitiesFor [] pseudotype = Some []"
| "entitiesFor (e # es) pseudotype =
     (case specGroupNameMatch e pseudotype of
        None \<Rightarrow> None
      | Some b \<Rightarrow> map_option (\<lambda>rest. if b then e # rest else rest) (entitiesFor es pseudotype))"

section \<open>Exclusions (\<open>exclude.go\<close>)\<close>

type_synonym 'c excludefunc = "string \<Rightarrow> 'c spec \<Rightarrow> testentity \<Rightarrow> bool"

fun Exclude :: "'c excludefunc list \<Rightarrow> 'c excludefunc" where
  "Exclude [] grp sp ent = True"
| "Exclude (f # funcs) grp sp ent = (if \<not> f grp sp ent then False else Exclude funcs grp sp ent)"

definition ExcludeOptional :: "'c excludefunc" where
  "ExcludeOptional grp sp ent = Optional sp"

fun ExcludeGroups :: "string list \<Rightarrow> 'c excludefunc" where
  "ExcludeGroups [] g sp ent = False"
| "ExcludeGroups (grp # groups) g sp ent = (if g = grp then True else ExcludeGroups groups g sp ent)"

fun ExcludeMetrics :: "string list \<Rightarrow> 'c excludefunc" where
  "ExcludeMetrics [] g sp ent = False"
| "ExcludeMetrics (m # metricNames) g sp ent = (if EqualFold (SName sp) m then True else ExcludeMetrics metricNames g sp ent)"

text \<open>The loops of \<open>Dependent\<close>: over the map of dependencies, the metric sets and the children, with the early return.\<close>

fun dependentSets :: "string \<Rightarrow> string list \<Rightarrow> string \<Rightarrow> (string, goval) gomap list \<Rightarrow> bool" where
  "dependentSets parent children name [] = False"
| "dependentSets parent children name (ms # mss) =
     (if mget ms parent \<noteq> None then dependentSets parent children name mss
      else if name \<in> set children then True
      else dependentSets parent children name mss)"

fun Dependent :: "(string, string list) gomap \<Rightarrow> 'c excludefunc" where
  "Dependent [] grp sp ent = False"
| "Dependent ((parent, children) # dependencies) grp sp ent =
     (if dependentSets parent children (SName sp) (MetricSets ent) then True else Dependent dependencies grp sp ent)"

section \<open>The asserter (\<open>assert.go\<close>)\<close>

record 'c asserter =
  entities :: "testentity list"
  specGroups :: "'c specgroups"
  excludedGroups :: "string list"
  exclude :: "'c excludefunc list"
  silent :: bool
  groupAliases :: "(string, string) gomap"

definition NewAsserter :: "'c asserter" where
  "NewAsserter = \<lparr>entities = [], specGroups = [], excludedGroups = [], exclude = [], silent = False, groupAliases = []\<rparr>"

definition Using :: "'c asserter \<Rightarrow> 'c specgroups \<Rightarrow> 'c asserter" where
  "Using a groups = a\<lparr>specGroups := groups\<rparr>"

definition On :: "'c asserter \<Rightarrow> testentity list \<Rightarrow> 'c asserter" where
  "On a ents = a\<lparr>entities := ents\<rparr>"

definition Excluding :: "'c asserter \<Rightarrow> 'c excludefunc list \<Rightarrow> 'c asserter" where
  "Excluding a excludeFuncs = a\<lparr>exclude := exclude a @ excludeFuncs\<rparr>"

definition ExcludingGroups :: "'c asserter \<Rightarrow> string list \<Rightarrow> 'c asserter" where
  "ExcludingGroups a groupNames = a\<lparr>excludedGroups := excludedGroups a @ groupNames\<rparr>"

definition Silently :: "'c asserter \<Rightarrow> 'c asserter" where
  "Silently a = a\<lparr>silent := True\<rparr>"

definition AliasingGroups :: "'c asserter \<Rightarrow> (string, string) gomap \<Rightarrow> 'c asserter" where
  "AliasingGroups a aliases = a\<lparr>groupAliases := aliases\<rparr>"

fun anyExcludes :: "'c excludefunc list \<Rightarrow> string \<Rightarrow> 'c spec \<Rightarrow> testentity \<Rightarrow> bool" where
  "anyExcludes [] grp sp ent = False"
| "anyExcludes (exclusion # exclusions) grp sp ent = (if exclusion grp sp ent then True else anyExcludes exclusions grp sp ent)"

definition shouldExclude :: "'c asserter \<Rightarrow> string \<Rightarrow> 'c spec \<Rightarrow> testentity \<Rightarrow> bool" where
  "shouldExclude a grp sp ent = anyExcludes (exclude a) grp sp ent"

fun groupAmong :: "string list \<Rightarrow> string \<Rightarrow> bool" where
  "groupAmong [] grp = False"
| "groupAmong (exclusion # exclusions) grp = (if grp = exclusion then True else groupAmong exclusions grp)"

definition shouldExcludeGroup :: "'c asserter \<Rightarrow> string \<Rightarrow> bool" where
  "shouldExcludeGroup a grp = groupAmong (excludedGroups a) grp"

text \<open>The arguments of a message on a metric of an entity; reading the metadata of an entity without them panics.\<close>

definition metricMessage :: "(string list \<Rightarrow> testcall) \<Rightarrow> 'c spec \<Rightarrow> testentity \<Rightarrow> testrun" where
  "metricMessage call sp entity =
     (case Metadata entity of
        None \<Rightarrow> ([], Crashed)
      | Some meta \<Rightarrow> ([call [SName sp, MetaName meta, MetaNamespace meta]], Running))"

definition assertMetric :: "'c asserter \<Rightarrow> string \<Rightarrow> 'c spec \<Rightarrow> testentity \<Rightarrow> testrun" where
  "assertMetric a groupName sp entity =
     (if EntityMetricTypeIs entity (SName sp) (SType sp) then ([], Running)
      else if shouldExclude a groupName sp entity then
        (if \<not> silent a then metricMessage (Logf ''excluded metric %q not found in entity %q (%s)'') sp entity else ([], Running))
      else metricMessage (TErrorf ''metric %q not found in entity %q (%s)'') sp entity)"

definition assertGroup :: "'c asserter \<Rightarrow> string \<times> 'c specgroup \<Rightarrow> testrun" where
  "assertGroup a g = (case g of (groupName, grp) \<Rightarrow>
     (if shouldExcludeGroup a groupName then ([Logf ''Excluding specGroup %q'' [groupName]], Running)
      else
        let alias = mget0 [] (groupAliases a) groupName;
            pseudotype = (if alias \<noteq> [] then alias else groupName) in
        (case entitiesFor (entities a) pseudotype of
           None \<Rightarrow> ([], Crashed)
         | Some [] \<Rightarrow> ([Fatalf ''could not find any entity for specGroup %q (%q)'' [groupName, pseudotype]], Stopped)
         | Some ents \<Rightarrow>
             testLoop (\<lambda>sp. if Optional sp then ([], Running) else testLoop (assertMetric a groupName sp) ents) (Specs grp))))"

definition Assert :: "'c asserter \<Rightarrow> testrun" where
  "Assert a =
     (if specGroups a = [] then ([Fatalf ''cannot assert empty specGroups, did you forget Using()?'' []], Stopped)
      else testLoop (assertGroup a) (specGroups a))"

section \<open>What a passing assertion means\<close>

text \<open>
  The predicate that the documentation of \<open>Assert\<close> describes. \<open>ofGroup\<close> is the heuristic by which an entity is one of a group,
  \<open>hasMetric\<close> what it takes for a metric to be there, of the right kind.
\<close>

definition ofGroup :: "string \<Rightarrow> testentity \<Rightarrow> bool" where
  "ofGroup t e \<longleftrightarrow> (\<exists>meta. Metadata e = Some meta \<and> t \<in> set (splitOn entityNamespaceSeparator (MetaNamespace meta)))"

definition hasMetric :: "testentity \<Rightarrow> 'c spec \<Rightarrow> bool" where
  "hasMetric e sp \<longleftrightarrow> HasSuffix (SName sp) ''*'' \<or>
     (\<exists>v rest. List.map_filter (\<lambda>ms. mget ms (SName sp)) (MetricSets e) = v # rest \<and> v \<noteq> VNil \<and> isString v = (SType sp = ATTRIBUTE))"

definition aliasOf :: "'c asserter \<Rightarrow> string \<Rightarrow> string" where
  "aliasOf a g = (if mget0 [] (groupAliases a) g = [] then g else mget0 [] (groupAliases a) g)"

definition satisfiedGroup :: "'c asserter \<Rightarrow> string \<times> 'c specgroup \<Rightarrow> bool" where
  "satisfiedGroup a ng \<longleftrightarrow> fst ng \<in> set (excludedGroups a) \<or>
     (\<forall>e \<in> set (entities a). Metadata e \<noteq> None) \<and>
     (\<exists>e \<in> set (entities a). ofGroup (aliasOf a (fst ng)) e) \<and>
     (\<forall>sp \<in> set (Specs (snd ng)). \<not> Optional sp \<longrightarrow>
        (\<forall>e \<in> set (entities a). ofGroup (aliasOf a (fst ng)) e \<longrightarrow>
           hasMetric e sp \<or> (\<exists>f \<in> set (exclude a). f (fst ng) sp e)))"

lemma groupAmong_iff: "groupAmong gs g \<longleftrightarrow> g \<in> set gs"
  by (induction gs) auto

lemma anyExcludes_iff: "anyExcludes fs g sp e \<longleftrightarrow> (\<exists>f \<in> set fs. f g sp e)"
  by (induction fs) auto

lemma entityMetricIn_first:
  "entityMetricIn mss m = (case List.map_filter (\<lambda>ms. mget ms m) mss of [] \<Rightarrow> VNil | v # _ \<Rightarrow> v)"
  by (induction mss) (auto simp: List.map_filter_simps split: option.split)

lemma EntityMetricTypeIs_iff: "EntityMetricTypeIs e (SName sp) (SType sp) \<longleftrightarrow> hasMetric e sp"
  by (auto simp: EntityMetricTypeIs_def hasMetric_def entityMetric_def entityMetricIn_first Let_def split: list.splits)

lemma specGroupNameMatch_ofGroup: "specGroupNameMatch e t = map_option (\<lambda>_. ofGroup t e) (Metadata e)"
  by (cases "Metadata e") (auto simp: specGroupNameMatch_def ofGroup_def)

lemma entitiesFor_iff:
  "entitiesFor es t = (if \<forall>e \<in> set es. Metadata e \<noteq> None then Some (filter (ofGroup t) es) else None)"
  by (induction es) (auto simp: specGroupNameMatch_ofGroup split: option.splits)

lemma passes_assertMetric:
  "passes (assertMetric a g sp e) \<longleftrightarrow> hasMetric e sp \<or>
     (\<exists>f \<in> set (exclude a). f g sp e) \<and> (silent a \<or> Metadata e \<noteq> None)"
  by (auto simp: assertMetric_def EntityMetricTypeIs_iff shouldExclude_def anyExcludes_iff metricMessage_def split: option.split)

lemma passes_assertGroup: "passes (assertGroup a ng) \<longleftrightarrow> satisfiedGroup a ng"
proof -
  have t: "(let alias = mget0 [] (groupAliases a) g; pseudotype = (if alias \<noteq> [] then alias else g) in P pseudotype) = P (aliasOf a g)"
    for g and P :: "string \<Rightarrow> 'b" by (simp add: aliasOf_def Let_def)
  obtain g grp where ng: "ng = (g, grp)" by force
  show ?thesis
  proof (cases "g \<in> set (excludedGroups a) \<or> \<not> (\<forall>e \<in> set (entities a). Metadata e \<noteq> None)")
    case True
    then show ?thesis unfolding ng
      by (auto simp: assertGroup_def satisfiedGroup_def shouldExcludeGroup_def groupAmong_iff entitiesFor_iff Let_def)
  next
    case False
    let ?es = "filter (ofGroup (aliasOf a g)) (entities a)"
    have e: "entitiesFor (entities a) (aliasOf a g) = Some ?es" using False by (auto simp: entitiesFor_iff)
    have m: "\<forall>e \<in> set ?es. Metadata e \<noteq> None" by (auto simp: ofGroup_def)
    show ?thesis
    proof (cases ?es)
      case Nil
      then show ?thesis using False e unfolding ng
        by (auto simp: assertGroup_def satisfiedGroup_def shouldExcludeGroup_def groupAmong_iff t filter_empty_conv)
    next
      case (Cons x xs)
      then have "\<exists>e \<in> set (entities a). ofGroup (aliasOf a g) e" by (metis filter_empty_conv list.distinct(1))
      moreover have "passes (assertGroup a (g, grp)) \<longleftrightarrow> (\<forall>sp \<in> set (Specs grp). \<not> Optional sp \<longrightarrow> (\<forall>e \<in> set ?es. passes (assertMetric a g sp e)))"
        using False e Cons by (simp add: assertGroup_def shouldExcludeGroup_def groupAmong_iff t passes_testLoop del: testLoop.simps)
      ultimately show ?thesis using False m unfolding ng by (auto simp: satisfiedGroup_def passes_assertMetric)
    qed
  qed
qed

text \<open>
  C30: A test that asserts on an integration passes exactly when it was given a group of specifications and, for every group that is
  not excluded, there are entities of its type and each of them has every metric of the group that is not optional, a string
  for an attribute and another value for any other type, or some exclusion covers it. The order of the map of groups does not matter.
\<close>

theorem Assert_passes_iff:
  "passes (Assert a) \<longleftrightarrow> specGroups a \<noteq> [] \<and> (\<forall>g \<in> set (specGroups a). satisfiedGroup a g)"
  by (auto simp: Assert_def passes_testLoop passes_assertGroup)

text \<open>A pod with its name, checked against a group that also has an optional metric.\<close>

definition exampleSpecs :: "unit specgroups" where
  "exampleSpecs =
     [(''pod'', \<lparr>IDGenerator = None, TypeGenerator = None, NamespaceGetter = None, MsTypeGuesser = None,
        Specs = [\<lparr>SName = ''podName'', ValueFunc = liftFetch (FromRaw ''podName''), SType = ATTRIBUTE, Optional = False\<rparr>,
                 \<lparr>SName = ''ip'', ValueFunc = liftFetch (FromRaw ''ip''), SType = ATTRIBUTE, Optional = True\<rparr>],
        SplitByLabel = [], SliceMetricName = []\<rparr>)]"

definition exampleEntity :: testentity where
  "exampleEntity = \<lparr>Metadata = Some \<lparr>MetaName = ''p'', MetaNamespace = ''k8s:cl:ns:pod''\<rparr>, MetricSets = [[(''podName'', VString ''p'')]]\<rparr>"

theorem Assert_passes_iff_witness:
  "passes (Assert (On (Using NewAsserter exampleSpecs) [exampleEntity])) \<and> \<not> passes (Assert (Using NewAsserter exampleSpecs))"
proof -
  have o: "ofGroup ''pod'' exampleEntity" by (simp add: ofGroup_def exampleEntity_def entityNamespaceSeparator_def)
  have h: "hasMetric exampleEntity sp" if "SName sp = ''podName''" "SType sp = ATTRIBUTE" for sp :: "unit spec"
    using that by (simp add: hasMetric_def exampleEntity_def List.map_filter_simps)
  have m: "Metadata exampleEntity \<noteq> None" by (simp add: exampleEntity_def)
  have "passes (Assert (On (Using NewAsserter exampleSpecs) [exampleEntity]))"
    unfolding Assert_passes_iff by (simp add: On_def Using_def NewAsserter_def satisfiedGroup_def aliasOf_def mget0_def exampleSpecs_def o h m[simplified])
  moreover have "\<not> passes (Assert (Using NewAsserter exampleSpecs))"
    unfolding Assert_passes_iff by (simp add: Using_def NewAsserter_def satisfiedGroup_def exampleSpecs_def)
  ultimately show ?thesis by simp
qed

section \<open>What the exclusions cover\<close>

lemma Exclude_iff: "Exclude fs g sp e \<longleftrightarrow> (\<forall>f \<in> set fs. f g sp e)"
  by (induction fs) auto

lemma ExcludeGroups_iff: "ExcludeGroups gs g sp e \<longleftrightarrow> g \<in> set gs"
  by (induction gs) auto

lemma ExcludeMetrics_iff: "ExcludeMetrics ms g sp e \<longleftrightarrow> (\<exists>m \<in> set ms. EqualFold (SName sp) m)"
  by (induction ms) auto

lemma dependentSets_iff: "dependentSets p cs n mss \<longleftrightarrow> n \<in> set cs \<and> (\<exists>ms \<in> set mss. mget ms p = None)"
  by (induction mss) auto

text \<open>A dependent metric is excluded as soon as one metric set of the entity lacks the parent, even if another one has it.\<close>

lemma Dependent_iff:
  "Dependent deps g sp e \<longleftrightarrow> (\<exists>(p, cs) \<in> set deps. SName sp \<in> set cs \<and> (\<exists>ms \<in> set (MetricSets e). mget ms p = None))"
  by (induction deps) (auto simp: dependentSets_iff)

lemma exclusions_weaken:
  assumes "passes (Assert a)"
  shows "passes (Assert (Excluding a fs))"
  using assms by (fastforce simp: Assert_def passes_testLoop passes_assertGroup satisfiedGroup_def Excluding_def aliasOf_def)

end
