(* ===== verification/Testdata.thy ===== *)
theory Testdata
  imports Static_Mode Asserter
begin

text \<open>
  The recorded clusters of \<open>internal/testutil\<close> beside the parts that the static mode uses: the order of their versions with
  the binary search of package \<open>sort\<close>, the server of the recorded files and the objects for the fake API server. The embedded
  files, the YAML decoder and the test server are parameters.
\<close>

section \<open>Versions (\<open>testutil.go\<close>)\<close>

text \<open>\<open>sort.Search\<close>: the loop over the bounds \<open>i\<close> and \<open>j\<close>.\<close>

function searchLoop :: "(nat \<Rightarrow> bool) \<Rightarrow> nat \<Rightarrow> nat \<Rightarrow> nat" where
  "searchLoop f i j = (if i < j then (let h = (i + j) div 2 in if \<not> f h then searchLoop f (h + 1) j else searchLoop f i h) else i)"
  by pat_completeness auto
termination by (relation "measure (\<lambda>(f, i, j). j - i)") auto

declare searchLoop.simps [simp del]

definition sortSearch :: "nat \<Rightarrow> (nat \<Rightarrow> bool) \<Rightarrow> nat" where
  "sortSearch n f = searchLoop f 0 n"

definition IsBelow :: "string \<Rightarrow> string \<Rightarrow> bool" where
  "IsBelow a b =
     (let allVersions = AllVersions;
          aIndex = sortSearch (length allVersions) (\<lambda>i. allVersions ! i \<ge> a);
          bIndex = sortSearch (length allVersions) (\<lambda>i. allVersions ! i \<ge> b)
      in aIndex < bIndex)"

text \<open>The search finds the first index of a predicate that, once true, stays true.\<close>

lemma searchLoop_first:
  assumes "\<forall>x y. x \<le> y \<and> y < n \<and> f x \<longrightarrow> f y" "i \<le> j" "j \<le> n" "\<forall>x < i. \<not> f x" "j < n \<longrightarrow> f j"
  shows "(\<forall>x < searchLoop f i j. \<not> f x) \<and> (searchLoop f i j < n \<longrightarrow> f (searchLoop f i j)) \<and> searchLoop f i j \<le> n"
  using assms
proof (induction f i j rule: searchLoop.induct)
  case (1 f i j)
  show ?case
  proof (cases "i < j")
    case True
    let ?h = "(i + j) div 2"
    have h: "i \<le> ?h" "?h < j" using True by auto
    show ?thesis
    proof (cases "f ?h")
      case f: True
      then have "searchLoop f i j = searchLoop f i ?h" using True by (simp add: searchLoop.simps[of f i j] Let_def)
      then show ?thesis using "1.IH"(2)[OF True refl _ "1.prems"(1) h(1) _ "1.prems"(4)] f h(2) "1.prems"(3) by simp
    next
      case f: False
      have "\<not> f x" if "x < ?h + 1" for x
      proof
        assume "f x"
        moreover have "x \<le> ?h" "?h < n" using that h(2) "1.prems"(3) by simp_all
        ultimately show False using f "1.prems"(1) by blast
      qed
      then have "\<forall>x < ?h + 1. \<not> f x" by blast
      moreover have "searchLoop f i j = searchLoop f (?h + 1) j" using True f by (simp add: searchLoop.simps[of f i j] Let_def)
      ultimately show ?thesis using "1.IH"(1)[OF True refl f "1.prems"(1) _ "1.prems"(3) _ "1.prems"(5)] h(2) by simp
    qed
  next
    case False
    then have "searchLoop f i j = i" by (subst searchLoop.simps) simp
    moreover have "i = j" using False "1.prems"(2) by simp
    ultimately show ?thesis using "1.prems"(3-5) by simp
  qed
qed

lemma sortSearch_sorted:
  fixes v :: "'a :: linorder"
  assumes "sorted xs"
  shows "sortSearch (length xs) (\<lambda>i. xs ! i \<ge> v) = length (takeWhile (\<lambda>x. x < v) xs)" (is "?k = ?m")
proof -
  have mono: "\<forall>x y. x \<le> y \<and> y < length xs \<and> xs ! x \<ge> v \<longrightarrow> xs ! y \<ge> v"
    using sorted_nth_mono[OF assms] order_trans by blast
  have k: "\<forall>x < ?k. \<not> xs ! x \<ge> v" "?k < length xs \<longrightarrow> xs ! ?k \<ge> v" "?k \<le> length xs"
    using searchLoop_first[OF mono, of 0 "length xs"] by (simp_all add: sortSearch_def)
  have m: "?m \<le> length xs" "?m < length xs \<Longrightarrow> \<not> xs ! ?m < v" "x < ?m \<Longrightarrow> xs ! x < v" for x
    using nth_length_takeWhile[of "\<lambda>x. x < v" xs] takeWhile_nth[of x "\<lambda>x. x < v" xs] nth_mem[of x "takeWhile (\<lambda>x. x < v) xs"]
    by (auto simp: length_takeWhile_le dest: set_takeWhileD)
  show ?thesis
  proof (rule linorder_cases[of ?k ?m])
    assume "?k < ?m" then show ?thesis using k(2) m(1) m(3)[of ?k] by auto
  next
    assume "?m < ?k" then show ?thesis using k(1,3) m(2) by auto
  qed
qed

lemma takeWhile_between:
  fixes a b :: "'a :: linorder"
  assumes "sorted xs"
  shows "length (takeWhile (\<lambda>x. x < a) xs) < length (takeWhile (\<lambda>x. x < b) xs) \<longleftrightarrow> (\<exists>v \<in> set xs. a \<le> v \<and> v < b)"
  using assms by (induction xs) (auto simp: not_less dest: order_trans)

text \<open>
  Whatever the two versions are, the first is below the second exactly when some recorded version lies between them, the
  second one excluded. For a recorded version this is the order of strings.
\<close>

lemma sorted_versions: "sorted AllVersions"
  by code_simp

lemma IsBelow_iff: "IsBelow a b \<longleftrightarrow> (\<exists>v \<in> set AllVersions. a \<le> v \<and> v < b)"
  by (simp add: IsBelow_def sortSearch_sorted[OF sorted_versions] takeWhile_between[OF sorted_versions] Let_def)

lemma IsBelow_recorded: "a \<in> set AllVersions \<Longrightarrow> IsBelow a b \<longleftrightarrow> a < b"
  by (auto simp: IsBelow_iff)

text \<open>Versions that are not recorded are not below one another when no recording lies between them.\<close>

lemma IsBelow_unrecorded: "\<not> IsBelow ''1_36'' ''1_37''"
  unfolding IsBelow_iff by code_simp

section \<open>The server of recorded files (\<open>server.go\<close>)\<close>

definition testDataRootDir :: string where "testDataRootDir = ''data''"

text \<open>\<open>fs.Sub\<close> checks the name of the directory, not whether it exists (nor, here, that it is UTF-8).\<close>

definition validPath :: "string \<Rightarrow> bool" where
  "validPath name \<longleftrightarrow> name = ''.'' \<or> (\<forall>elem \<in> set (splitOn (CHR ''/'') name). elem \<noteq> [] \<and> elem \<noteq> ''.'' \<and> elem \<noteq> ''..'')"

record testserver =
  URL :: string
  Dir :: string
  Headers :: "(string \<times> string) list"

text \<open>\<open>url\<close> is the address at which \<open>httptest\<close> listens.\<close>

definition newServer :: "string \<Rightarrow> string \<Rightarrow> err + testserver" where
  "newServer url version =
     (let dir = pathJoin [testDataRootDir, version] in
      if \<not> validPath dir then Inl (Errorf ''opening dir for version %s: %w'' [version] [errorsNew ''invalid argument''])
      else Inr \<lparr>URL = url, Dir = dir, Headers = [(''server'', ''testutil fake http server''), (''testutil-data-version'', version)]\<rparr>)"

definition ControlPlaneEndpoint :: "testserver \<Rightarrow> string \<Rightarrow> string" where
  "ControlPlaneEndpoint s component = URL s @ pathJoin [''/controlplane'', component, ''metrics'']"

lemma newServer_unrecorded: "newServer u ''9_99'' = Inr \<lparr>URL = u, Dir = ''data/9_99'',
  Headers = [(''server'', ''testutil fake http server''), (''testutil-data-version'', ''9_99'')]\<rparr>"
  by code_simp

section \<open>Objects for the fake API server (\<open>k8s.go\<close>)\<close>

text \<open>The kinds of lists that are decoded.\<close>

datatype objkind = EndpointsList | NamespaceList | NodeList | PodList | ServiceList

fun fileOf :: "objkind \<Rightarrow> string" where
  "fileOf EndpointsList = ''endpoints.yaml''"
| "fileOf NamespaceList = ''namespaces.yaml''"
| "fileOf NodeList = ''nodes.yaml''"
| "fileOf PodList = ''pods.yaml''"
| "fileOf ServiceList = ''services.yaml''"

text \<open>The embedded files and \<open>yaml.Unmarshal\<close> for a kind of list.\<close>

record 'o testfiles =
  ReadDir :: "string \<Rightarrow> err option"
  ReadFile :: "string \<Rightarrow> err + string"
  Unmarshal :: "objkind \<Rightarrow> string \<Rightarrow> err + 'o"

definition newK8s :: "'o testfiles \<Rightarrow> string \<Rightarrow> err + string" where
  "newK8s fs v =
     (case ReadDir fs (pathJoin [testDataRootDir, v]) of
        Some e \<Rightarrow> Inl (Errorf ''cannot stat testdata dir for version %q: %w'' [v] [e])
      | None \<Rightarrow> Inr v)"

text \<open>Every file is first decoded as a list of services, and refused when that fails.\<close>

definition loadYaml :: "'o testfiles \<Rightarrow> string \<Rightarrow> objkind \<Rightarrow> string \<Rightarrow> err + 'o" where
  "loadYaml fs version dst path =
     (case ReadFile fs (pathJoin [testDataRootDir, version, path]) of
        Inl e \<Rightarrow> Inl (Errorf ''reading testdata services.yaml: %w'' [] [e])
      | Inr yamlFile \<Rightarrow>
          (case Unmarshal fs ServiceList yamlFile of
             Inl e \<Rightarrow> Inl (Errorf ''unmarshalling testata/services.yaml: %w'' [] [e])
           | Inr services \<Rightarrow> Unmarshal fs dst yamlFile))"

definition objectsOf :: "'o testfiles \<Rightarrow> string \<Rightarrow> objkind \<Rightarrow> 'o result" where
  "objectsOf fs version k = (case loadYaml fs version k (fileOf k) of Inl e \<Rightarrow> Panic (errMsg e) | Inr os \<Rightarrow> Ok os)"

definition Namespaces :: "'o testfiles \<Rightarrow> string \<Rightarrow> 'o result" where "Namespaces fs version = objectsOf fs version NamespaceList"
definition Services :: "'o testfiles \<Rightarrow> string \<Rightarrow> 'o result" where "Services fs version = objectsOf fs version ServiceList"
definition Nodes :: "'o testfiles \<Rightarrow> string \<Rightarrow> 'o result" where "Nodes fs version = objectsOf fs version NodeList"
definition Endpoints :: "'o testfiles \<Rightarrow> string \<Rightarrow> 'o result" where "Endpoints fs version = objectsOf fs version EndpointsList"
definition Pods :: "'o testfiles \<Rightarrow> string \<Rightarrow> 'o result" where "Pods fs version = objectsOf fs version PodList"

definition Everything :: "'o testfiles \<Rightarrow> string \<Rightarrow> 'o list result" where
  "Everything fs k =
     rbind (Endpoints fs k) (\<lambda>e. rbind (Namespaces fs k) (\<lambda>ns. rbind (Nodes fs k) (\<lambda>n. rbind (Pods fs k) (\<lambda>p.
       rbind (Services fs k) (\<lambda>s. Ok [e, ns, n, p, s])))))"

text \<open>
  The objects load exactly when every file of the version can be read and decoded, as its kind and as a list of services.
\<close>

lemma objectsOf_Ok: "objectsOf fs v k = Ok os \<longleftrightarrow>
  (\<exists>f svc. ReadFile fs (pathJoin [testDataRootDir, v, fileOf k]) = Inr f \<and> Unmarshal fs ServiceList f = Inr svc \<and> Unmarshal fs k f = Inr os)"
  by (auto simp: objectsOf_def loadYaml_def split: sum.split)

lemma Everything_Ok:
  "Everything fs v = Ok os \<longleftrightarrow> list_all2 (\<lambda>k ob. objectsOf fs v k = Ok ob) [EndpointsList, NamespaceList, NodeList, PodList, ServiceList] os"
  by (auto simp: Everything_def Endpoints_def Namespaces_def Nodes_def Pods_def Services_def rbind_Ok_iff list_all2_Cons1)

lemma Everything_no_error: "Everything fs v \<noteq> Fail e"
  by (auto simp: Everything_def Endpoints_def Namespaces_def Nodes_def Pods_def Services_def objectsOf_def rbind_Fail_iff split: sum.splits)

section \<open>The integration of a test (\<open>integration.go\<close>)\<close>

text \<open>\<open>sdkNew\<close> is \<open>integration.New\<close> with an in-memory store; the lock around it is left out.\<close>

definition NewIntegration :: "(string \<Rightarrow> string \<Rightarrow> err + 'i) \<Rightarrow> string \<Rightarrow> 'i option \<times> testrun" where
  "NewIntegration sdkNew testName =
     (case sdkNew testName ''test'' of
        Inl e \<Rightarrow> (None, [Fatalf ''creating integration: %v'' [errMsg e]], Stopped)
      | Inr intgr \<Rightarrow> (Some intgr, [], Running))"

lemma NewIntegration_passes: "passes (snd (NewIntegration sdkNew t)) \<longleftrightarrow> fst (NewIntegration sdkNew t) \<noteq> None"
  by (simp add: NewIntegration_def split: sum.split)

end
