(* ===== verification/Spec2Isabelle.thy ===== *)
theory Spec2Isabelle
  imports Process Lifecycle Store_Goroutine Static_Mode Control_Plane_Delivery Kubelet_Delivery Options Testdata
begin

text \<open>
  A verification library for the New Relic Kubernetes integration.

  The program scrapes three kinds of endpoints of a cluster (the kubelet of a node, kube-state-metrics
  and the components of the control plane), groups what they return by entity, computes the metrics
  that a table of specifications asks for, and reports them through the integration SDK. The process waits
  for the agent, builds its clients, sets up the enabled scrapers and then runs them in a loop, publishing
  after each round.

  \<^bold>\<open>Theories of the data path, in the order of the data flow.\<close>

  \<^item> \<open>Prelude\<close>: association lists as Go maps (\<open>mget\<close>, \<open>mput\<close>, well-formedness), the functions of the
    packages \<open>strings\<close>, \<open>strconv\<close> and \<open>fmt\<close> that the sources use, and the collections of simplification
    rules.
  \<^item> \<open>Float64\<close>: binary64 as rationals with infinities and NaN, rounding to nearest even, arithmetic,
    \<open>FormatFloat\<close> with its round trip. Signed zeros are not distinguished.
  \<^item> \<open>Values\<close> and \<open>Definition\<close> (\<open>src/definition\<close>, \<open>src/data\<close>, \<open>src/prometheus/metric.go\<close>): the dynamic
    values of Go interfaces as the datatype \<open>goval\<close>; results as values, where a panic is a result of its
    own beside the error; fetch functions and their combinators; specifications; error groups.
  \<^item> \<open>Prometheus_Query\<close> (\<open>src/prometheus/query.go\<close>): the filter for unsupported metric types works line
    by line and is shown, for every body, to drop exactly the lines that belong to a family of those types; queries select
    what a reference filter selects; the reading of a response, with the two orders in which the parser can close its
    channel and report its error.
  \<^item> \<open>Prometheus_Definition\<close> (\<open>src/prometheus/definition.go\<close>): generators, grouping and fetch functions.
    Grouping is equal to a filter over the list of metrics, entity IDs are injective on names without
    underscores, names of attributes do not depend on the order of a map.
  \<^item> \<open>Metric_Compute\<close> (the functions of \<open>src/metric/definition.go\<close>): percentages with their bounds,
    conversions, the filter of CPU usage.
  \<^item> \<open>Kubelet_Stats\<close>, \<open>Kubelet_Network\<close>, \<open>Kubelet_Pods\<close>, \<open>Kubelet_Cadvisor\<close> (\<open>src/kubelet/metric\<close>): the
    groups of the stats summary and their invariant; the primary interface with its cache, an
    interpretation of the cache contract of \<open>Caches\<close>; pods, containers and the gaps of the node IP;
    containers of cAdvisor.
  \<^item> \<open>Groupers\<close> (\<open>src/kubelet/grouper\<close>, \<open>src/ksm/grouper\<close>, \<open>src/ksm/metric\<close>, \<open>src/controlplane/grouper\<close>):
    the contract of \<open>data.Grouper\<close> as a locale with its three interpretations; merging of groups, node
    conditions, requested resources, service selectors.
  \<^item> \<open>Populator\<close> (\<open>src/populator/populator.go\<close>): entities and metric sets, over a record of the operations
    of the SDK; the state is the integration, the cache of the fetch functions and the namespace filter. Errors are
    collected and never end a job early.
  \<^item> \<open>Scrape\<close> (\<open>src/scrape/scrape_job.go\<close>): jobs; their outcome follows from the contract of the groupers.
  \<^item> \<open>Metric_Specs\<close>, \<open>Ksm_Specs\<close>, \<open>Kubelet_Specs\<close> (the tables of \<open>src/metric/definition.go\<close>): each value
    function is kept as an expression, so that the metrics a table reads can be compared with the
    queries; \<open>runFetcher\<close> gives the meaning of an expression.
  \<^item> \<open>Panic_Freedom\<close>: the scrapes of kube-state-metrics and of the control plane from the response to the
    integration cannot panic, from a contract on the specifications as a locale. \<open>Kubelet_Typing\<close>: the
    types that each attribute of the kubelet can have, kept by every step from the answers to the merged
    groups, so that its second interpretation holds for the kubelet.

  \<^item> \<open>Populator_Trace\<close>: the samples that a configuration asks for, as a list without effects, and the proof that the
    calls to the SDK are exactly those that publish them. \<open>Ksm_Delivery\<close>: the grouping, the tables and the populator
    put together: a value that the answer of kube-state-metrics has for a workload reaches the SDK unchanged.
    \<open>Control_Plane_Delivery\<close>: the same for the components of the control plane, whose metrics are summed by their labels.
    \<open>Kubelet_Delivery\<close>: the same for the containers of the kubelet, whose job uses the interface cache: there the calls are shown to be
    among those made, by a contract of the computations that only add calls.

  \<^bold>\<open>Theories of the process around it.\<close>

  \<^item> \<open>Config\<close> (\<open>internal/config\<close>): the configuration, its defaults and the check of the namespace selector;
    what the check promises to the filter.
  \<^item> \<open>Retry\<close>: calls of the outside world as functions of a world, clocks, and polling loops with the rules
    for their return and their invariants. \<open>Filter_Simulation\<close>: two filters that agree make the populator
    do the same.
  \<^item> \<open>Discovery\<close> (\<open>internal/discovery\<close>): the namespace filter, shown to select what its selector means, and
    its cache, an interpretation of the contract of \<open>Caches\<close> and shown to be unnoticeable in a whole scrape
    job; the endpoints of endpoint slices.
  \<^item> \<open>Storer\<close> (\<open>internal/storer\<close>): the store of the SDK with its removal by age, a second interpretation.
    \<open>Store_Goroutine\<close> runs it with its ticker, its goroutine and \<open>StopVacuum\<close>, a step relation whose every
    interleaving refines the history of the calls.
  \<^item> \<open>Network_Route\<close> (\<open>src/network\<close>): the check of the path against a walk over its elements, the parser
    of the routing table against a printer.
  \<^item> \<open>Kubelet_Client\<close> (\<open>src/kubelet/client\<close>): the connector with its retries. A connection was probed, and
    the token travels over TLS only.
  \<^item> \<open>Control_Plane\<close> (\<open>src/controlplane\<close>): components, listers, autodiscovery, authentication, the run.
  \<^item> \<open>Agent_Sink\<close> (\<open>src/integration\<close>): the wait for the agent and the sink.
  \<^item> \<open>Scrapers\<close> (\<open>src/ksm\<close>, \<open>src/kubelet/scraper.go\<close>): endpoints, jobs and runs of the two scrapers.
  \<^item> \<open>Cloud\<close> (\<open>internal/cloud\<close>): the identifier of the cluster; the regular expressions of the code are lists
    of literals and segments, whose matcher is shown to be what they mean.
  \<^item> \<open>Startup\<close> and \<open>Main_Loop\<close> (\<open>cmd/nri-kubernetes/main.go\<close>): the start, which returns when the caches of its
    informers sync, with what it leaves behind or the code of what failed; the rounds of the loop as a step function, the states reached
    by it as an inductive relation, and their invariant.
  \<^item> \<open>Process\<close>: the start and the rounds put together over the scrapers as they were set up. No answer of the
    outside crashes the process; the start and every round return when the caches sync; healthy scrapers keep it going, and
    a kubelet that stays down ends it after the configured number of rounds.
  \<^item> \<open>Lifecycle\<close>: the stop channels of the informers, a contract for their constructors as a locale with an
    interpretation for each of the six, the constructors of the scrapers and their \<open>Close\<close>. The deferred calls
    stop every informer but that of the namespace filter.
  \<^item> \<open>Static_Mode\<close> (\<open>cmd/kubernetes-static/main.go\<close>): the tool that runs the two jobs once over recorded answers;
    both jobs run whatever errors the first one has.
  \<^item> \<open>Options\<close>: the constructors with functional options of all packages. They are applied in order before anything
    else, a failure names the first that failed and starts nothing, and those of \<open>main.go\<close> give the settings that the
    other theories start from.
  \<^item> \<open>Asserter\<close> and \<open>Testdata\<close> (\<open>internal/testutil\<close>): the assertion of the tests is equal to a predicate on the entities
    and the tables; the order of the recorded versions with its binary search, the recorded objects.

  \<^bold>\<open>Conventions.\<close> A Go map is an association list with distinct keys; an iteration over a map visits the
  list in its order, and statements that must not depend on that order quantify over it. A nil map is
  the empty list where the code only reads it. A function that can panic (a failed type assertion, a nil
  function) returns \<open>Panic\<close>. An error is its format with its arguments and wrapped errors, so that
  \<open>errors.Is\<close> and the message are functions of it. Machine integers are 64-bit or 32-bit words.

  \<^bold>\<open>Parameters.\<close> Code outside the repository is an argument: the text parser of Prometheus, the JSON
  decoders, the HTTP transport, the listers of the API server, the camel-case conversion, the
  integration SDK, \<open>viper\<close>, the EC2 API and the metadata servers. A call whose answers change over time is
  a function of a world that it returns changed; what a theorem needs of a world, such as a clock that
  advances during a sleep, is one of its hypotheses.

  \<^bold>\<open>Loops.\<close> A loop over data is a structural recursion or a fold over a list, so no fuel is needed. A loop
  that polls is a partial function into \<open>option\<close>, where \<open>None\<close> is a loop that does not return; the theorems
  on the start show that it does return, from a deadline and a clock that advances. The main loop does not
  end and is a relation between the states at its head.

  \<^bold>\<open>Not modelled.\<close> Logging, the closing of response bodies, signals, flags and
  environment variables, HTTP transport and TLS handshakes, the watches of the API server, and
  the recorded data of \<open>internal/testutil\<close>. In
  \<open>Lifecycle\<close> an informer is its kind and its stop channel. The wait for its cache is a step of the set-up in \<open>Startup\<close>, which
  does not return when the cache never syncs; in the tool of \<open>Static_Mode\<close>, over its fake API server, it is taken for granted.
\<close>

end
